(* ===== verification/Prelude.thy ===== *)
theory Prelude
  imports Complex_Main
begin

text \<open>
  Vocabulary shared by every component of the model of \<^verbatim>\<open>zmessaging-cocoa\<close>: the Foundation and
  transport types the Objective-C sources use, and the generic list, option and run lemmas.

  \<^item> Times (\<^verbatim>\<open>NSDate\<close>, \<^verbatim>\<open>NSTimeInterval\<close>) are real numbers of seconds, identifiers
    (\<^verbatim>\<open>NSUUID\<close>) and managed objects (\<^verbatim>\<open>ZMManagedObject *\<close>, compared by identity) are
    natural numbers, \<^verbatim>\<open>nil\<close> is \<open>None\<close>.
  \<^item> An \<^verbatim>\<open>NSOrderedSet\<close> is a list without repetitions, with the insertion-order operations
    of Foundation.
  \<^item> A class of the program is a record of its properties; each method is a function from the
    receiver to the receiver; the declared interface of a class is a datatype with one
    constructor per method, and a \<open>send\<close> function delivers a message to the method.
    A run of a class is a list of messages (\<open>run\<close>).
\<close>

section \<open>Collections of facts\<close>

named_theorems runs \<open>how the runs of a component unfold\<close>
named_theorems inv_intros \<open>operations that keep the invariant of their component\<close>

section \<open>Foundation types\<close>

type_synonym NSDate = real
type_synonym NSTimeInterval = real
type_synonym NSUUID = nat
type_synonym NSString = string
type_synonym NSData = "nat list"
type_synonym ZMManagedObject = nat

text \<open>
  A failed \<^verbatim>\<open>Require\<close> or \<^verbatim>\<open>NSAssert\<close> aborts the program, and so do the exceptions of Foundation, which the
  sources do not catch: changing a collection while it is enumerated (\<open>NSGenericException\<close>), an index out of range and a
  \<^verbatim>\<open>nil\<close> key or member (\<open>NSInvalidArgumentException\<close>), and a block for a queue that is \<^verbatim>\<open>NULL\<close> (\<open>NilQueue\<close>).
\<close>

datatype (plugins only: code size) objc_failure = AssertionFailure | NSGenericException | NSInvalidArgumentException | NSRangeException | NilQueue

datatype NSComparisonResult = NSOrderedAscending | NSOrderedSame | NSOrderedDescending

text \<open>Values of JSON payloads (\<^verbatim>\<open>id<ZMTransportData>\<close>).\<close>

datatype (plugins only: code size) json =
    JNull
  | JBool bool
  | JNum int
  | JStr string
  | JArr "json list"
  | JObj "(string \<times> json) list"

fun asDictionary :: "json option \<Rightarrow> (string \<times> json) list option" where
  "asDictionary (Some (JObj kvs)) = Some kvs"
| "asDictionary _ = None"

definition optionalValueForKey :: "string \<Rightarrow> (string \<times> json) list option \<Rightarrow> json option" where
  "optionalValueForKey k d = (case d of None \<Rightarrow> None | Some kvs \<Rightarrow> map_of kvs k)"

definition optionalStringForKey :: "string \<Rightarrow> (string \<times> json) list option \<Rightarrow> string option" where
  "optionalStringForKey k d = (case optionalValueForKey k d of Some (JStr s) \<Rightarrow> Some s | _ \<Rightarrow> None)"

definition optionalArrayForKey :: "string \<Rightarrow> (string \<times> json) list option \<Rightarrow> json list option" where
  "optionalArrayForKey k d = (case optionalValueForKey k d of Some (JArr xs) \<Rightarrow> Some xs | _ \<Rightarrow> None)"

definition optionalDictionaryForKey ::
  "string \<Rightarrow> (string \<times> json) list option \<Rightarrow> (string \<times> json) list option" where
  "optionalDictionaryForKey k d = (case optionalValueForKey k d of Some (JObj kvs) \<Rightarrow> Some kvs | _ \<Rightarrow> None)"

text \<open>\<^verbatim>\<open>[[dictionary optionalNumberForKey:key] boolValue]\<close>: \<^verbatim>\<open>NO\<close> when the number is missing.\<close>

definition boolValueForKey :: "string \<Rightarrow> (string \<times> json) list option \<Rightarrow> bool" where
  "boolValueForKey k d =
     (case optionalValueForKey k d of Some (JBool b) \<Rightarrow> b | Some (JNum n) \<Rightarrow> n \<noteq> 0 | _ \<Rightarrow> False)"

text \<open>\<^verbatim>\<open>asDictionaries\<close> of an array: its members that are dictionaries.\<close>

fun asDictionaries :: "json list \<Rightarrow> (NSString \<times> json) list list" where
  "asDictionaries [] = []"
| "asDictionaries (JObj d # xs) = d # asDictionaries xs"
| "asDictionaries (_ # xs) = asDictionaries xs"

text \<open>The states of the application, of \<^verbatim>\<open>UIKit\<close>.\<close>

datatype UIApplicationState = UIApplicationStateActive | UIApplicationStateInactive | UIApplicationStateBackground

text \<open>The types of conversations, of the data model.\<close>

datatype (plugins only: code size) ZMConversationType =
    ZMConversationTypeInvalid
  | ZMConversationTypeSelf
  | ZMConversationTypeOneOnOne
  | ZMConversationTypeGroup
  | ZMConversationTypeConnection

section \<open>Transport requests and responses\<close>

text \<open>
  The request and response classes belong to the transport framework; the sources build requests
  from a method, a path and a payload, and read the result, status, payload and label of a
  response.
\<close>

datatype (plugins only: code size) ZMTransportRequestMethod = MethodGET | MethodPOST | MethodPUT | MethodDELETE | MethodHEAD

record ZMTransportRequest =
  req_method :: ZMTransportRequestMethod
  req_path :: NSString
  req_payload :: "json option"

datatype (plugins only: code size) ZMTransportResponseStatus =
    ZMTransportResponseStatusSuccess
  | ZMTransportResponseStatusTemporaryError
  | ZMTransportResponseStatusPermanentError
  | ZMTransportResponseStatusExpired
  | ZMTransportResponseStatusTryAgainLater

record ZMTransportResponse =
  resp_result :: ZMTransportResponseStatus
  resp_HTTPStatus :: int
  resp_payload :: "json option"
  resp_payloadLabel :: "NSString option"

datatype ZMUpdateEventsPolicy =
    ZMUpdateEventPolicyIgnore
  | ZMUpdateEventPolicyBuffer
  | ZMUpdateEventPolicyProcess

section \<open>The first request an array of generators offers\<close>

text \<open>
  \<^verbatim>\<open>-[NSArray nextRequest]\<close> (\<^verbatim>\<open>ZMRequestGenerator.m\<close>) asks the generators in order and returns
  the first request that is not \<^verbatim>\<open>nil\<close>; asking may change the state the generators share.
\<close>

fun nextRequest_array :: "('g \<Rightarrow> 's \<Rightarrow> 'r option \<times> 's) \<Rightarrow> 'g list \<Rightarrow> 's \<Rightarrow> 'r option \<times> 's" where
  "nextRequest_array ask [] s = (None, s)"
| "nextRequest_array ask (g # gs) s =
     (case ask g s of
        (Some r, s') \<Rightarrow> (Some r, s')
      | (None, s') \<Rightarrow> nextRequest_array ask gs s')"

lemma nextRequest_array_append:
  "nextRequest_array ask (gs @ hs) s =
     (case nextRequest_array ask gs s of
        (Some r, s') \<Rightarrow> (Some r, s')
      | (None, s') \<Rightarrow> nextRequest_array ask hs s')"
  by (induction gs arbitrary: s) (auto split: prod.splits option.splits)

lemma nextRequest_array_invariant:
  assumes "\<And>g s. P s \<Longrightarrow> P (snd (ask g s))" and "P s"
  shows "P (snd (nextRequest_array ask gs s))"
  using assms(2)
proof (induction gs arbitrary: s)
  case (Cons g gs)
  from assms(1) [OF Cons.prems, of g] Cons.IH show ?case
    by (auto split: prod.splits option.splits)
qed simp

section \<open>Ordered sets\<close>

text \<open>\<^verbatim>\<open>-[NSMutableOrderedSet addObject:]\<close> appends an object that is not there yet.\<close>

definition oset_add :: "'a list \<Rightarrow> 'a \<Rightarrow> 'a list" where
  "oset_add xs x = (if x \<in> set xs then xs else xs @ [x])"

definition oset_union :: "'a list \<Rightarrow> 'a list \<Rightarrow> 'a list" where
  "oset_union xs ys = foldl oset_add xs ys"

definition oset_minus :: "'a list \<Rightarrow> 'a list \<Rightarrow> 'a list" where
  "oset_minus xs ys = filter (\<lambda>x. x \<notin> set ys) xs"

definition oset_remove :: "'a \<Rightarrow> 'a list \<Rightarrow> 'a list" where
  "oset_remove x xs = filter (\<lambda>y. y \<noteq> x) xs"

lemma set_oset_add [simp]: "set (oset_add xs x) = insert x (set xs)"
  by (auto simp: oset_add_def)

lemma distinct_oset_add [simp]: "distinct (oset_add xs x) = distinct xs"
  by (auto simp: oset_add_def)

lemma oset_union_Nil [simp]: "oset_union xs [] = xs"
  by (simp add: oset_union_def)

lemma oset_union_Cons [simp]: "oset_union xs (y # ys) = oset_union (oset_add xs y) ys"
  by (simp add: oset_union_def)

lemma set_oset_union [simp]: "set (oset_union xs ys) = set xs \<union> set ys"
  by (induction ys arbitrary: xs) auto

lemma distinct_oset_union [simp]: "distinct (oset_union xs ys) = distinct xs"
  by (induction ys arbitrary: xs) auto

lemma set_oset_minus [simp]: "set (oset_minus xs ys) = set xs - set ys"
  by (auto simp: oset_minus_def)

lemma distinct_oset_minus [simp]: "distinct xs \<Longrightarrow> distinct (oset_minus xs ys)"
  by (simp add: oset_minus_def)

lemma oset_minus_self [simp]: "oset_minus xs xs = []"
  by (simp add: oset_minus_def)

lemma set_oset_remove [simp]: "set (oset_remove x xs) = set xs - {x}"
  by (auto simp: oset_remove_def)

lemma distinct_oset_remove [simp]: "distinct xs \<Longrightarrow> distinct (oset_remove x xs)"
  by (simp add: oset_remove_def)

lemma oset_remove_absent [simp]: "x \<notin> set xs \<Longrightarrow> oset_remove x xs = xs"
  by (auto simp: oset_remove_def intro: filter_True)

lemma oset_add_present [simp]: "x \<in> set xs \<Longrightarrow> oset_add xs x = xs"
  by (simp add: oset_add_def)

section \<open>Dictionaries\<close>

text \<open>
  An \<^verbatim>\<open>NSMutableDictionary\<close> or \<^verbatim>\<open>NSMapTable\<close> is an association list; the order of the list is the
  order in which the keys are enumerated, which the frameworks do not promise, so no property fixes it.
\<close>

fun dict_put :: "'k \<Rightarrow> 'v \<Rightarrow> ('k \<times> 'v) list \<Rightarrow> ('k \<times> 'v) list" where
  "dict_put k v [] = [(k, v)]"
| "dict_put k v (p # ps) = (if fst p = k then (k, v) # ps else p # dict_put k v ps)"

definition dict_remove :: "'k \<Rightarrow> ('k \<times> 'v) list \<Rightarrow> ('k \<times> 'v) list" where
  "dict_remove k ps = filter (\<lambda>p. fst p \<noteq> k) ps"

lemma map_of_dict_put [simp]: "map_of (dict_put k v ps) = (map_of ps)(k \<mapsto> v)"
  by (induction ps) (auto simp: fun_eq_iff)

lemma map_of_dict_remove [simp]: "map_of (dict_remove k ps) = (map_of ps)(k := None)"
  by (induction ps) (auto simp: dict_remove_def fun_eq_iff)

lemma keys_dict_put [simp]: "set (map fst (dict_put k v ps)) = insert k (set (map fst ps))"
  by (induction ps) auto

lemma distinct_dict_put [simp]: "distinct (map fst (dict_put k v ps)) = distinct (map fst ps)"
proof (induction ps)
  case (Cons p ps)
  then show ?case
    using keys_dict_put [of k v ps] by auto
qed simp

lemma set_dict_put_subset: "set (dict_put k v ps) \<subseteq> insert (k, v) (set ps)"
  by (induction ps) auto

lemma distinct_dict_remove [simp]: "distinct (map fst ps) \<Longrightarrow> distinct (map fst (dict_remove k ps))"
  by (induction ps) (auto simp: dict_remove_def)

section \<open>Loops whose body may fail\<close>

text \<open>A \<^verbatim>\<open>for\<close> loop over a collection; a failed assertion in the body ends it.\<close>

definition bindE :: "'e + 'a \<Rightarrow> ('a \<Rightarrow> 'e + 'b) \<Rightarrow> 'e + 'b" where
  "bindE r f = (case r of Inl e \<Rightarrow> Inl e | Inr x \<Rightarrow> f x)"

lemma bindE_simps [simp]: "bindE (Inl e) f = Inl e" "bindE (Inr x) f = f x"
  by (simp_all add: bindE_def)

lemma bindE_Inr [simp]: "bindE r f = Inr y \<longleftrightarrow> (\<exists>x. r = Inr x \<and> f x = Inr y)"
  by (cases r) auto

lemma map_sum_Inr: "map_sum f g r = Inr y \<longleftrightarrow> (\<exists>x. r = Inr x \<and> y = g x)"
  by (cases r) auto

fun foldE :: "('a \<Rightarrow> 's \<Rightarrow> 'e + 's) \<Rightarrow> 'a list \<Rightarrow> 's \<Rightarrow> 'e + 's" where
  "foldE f [] s = Inr s"
| "foldE f (x # xs) s = (case f x s of Inl e \<Rightarrow> Inl e | Inr s' \<Rightarrow> foldE f xs s')"

lemma foldE_invariant:
  "(\<And>x s s'. P s \<Longrightarrow> f x s = Inr s' \<Longrightarrow> P s') \<Longrightarrow> P s \<Longrightarrow> foldE f xs s = Inr s' \<Longrightarrow> P s'"
  by (induction xs arbitrary: s) (auto split: sum.splits)

text \<open>\<^verbatim>\<open>-[NSSet anyObject]\<close>: some member, chosen by a parameter; \<^verbatim>\<open>nil\<close> for the empty set.\<close>

definition anyObject :: "('a list \<Rightarrow> nat) \<Rightarrow> 'a list \<Rightarrow> 'a option" where
  "anyObject pick xs = (if xs = [] then None else Some (xs ! (pick xs mod length xs)))"

lemma anyObject_mem: "anyObject pick xs = Some x \<Longrightarrow> x \<in> set xs"
  by (auto simp: anyObject_def split: if_splits)

lemma anyObject_None [simp]: "anyObject pick xs = None \<longleftrightarrow> xs = []"
  by (simp add: anyObject_def)

section \<open>Runs of a component\<close>

text \<open>
  \<open>run step s ms\<close> delivers the messages \<open>ms\<close> in order; a property of every message is a
  property of every run.
\<close>

fun run :: "('m \<Rightarrow> 's \<Rightarrow> 's) \<Rightarrow> 's \<Rightarrow> 'm list \<Rightarrow> 's" where
  "run step s [] = s"
| "run step s (m # ms) = run step (step m s) ms"

lemma run_append [runs]: "run step s (ms @ ns) = run step (run step s ms) ns"
  by (induction ms arbitrary: s) auto

lemma run_invariant:
  assumes "\<And>m s. I s \<Longrightarrow> I (step m s)" and "I s"
  shows "I (run step s ms)"
  using assms(2) by (induction ms arbitrary: s) (auto intro: assms(1))

lemma run_invariant_guarded:
  assumes "\<And>m s. I s \<Longrightarrow> G m \<Longrightarrow> I (step m s)" and "I s" and "\<And>m. m \<in> set ms \<Longrightarrow> G m"
  shows "I (run step s ms)"
  using assms(2,3) by (induction ms arbitrary: s) (auto intro: assms(1))

text \<open>A component seen through its messages: an invariant kept by every message.\<close>

locale component =
  fixes send :: "'m \<Rightarrow> 's \<Rightarrow> 's"
    and invar :: "'s \<Rightarrow> bool"
  assumes send_invar: "invar s \<Longrightarrow> invar (send m s)"
begin

lemma run_invar: "invar s \<Longrightarrow> invar (run send s ms)"
  by (rule run_invariant [of invar send]) (rule send_invar)

end

section \<open>Requests in flight\<close>

text \<open>
  A generator of requests as the transport session sees it: it is polled, it is told the responses to
  the requests in flight, in any order, and other messages reach it in between. \<open>Answer n\<close> answers the
  \<open>n\<close>-th request in flight, if there is one. A request is remembered as the object it is for and what
  its completion handler has captured.
\<close>

datatype ('p, 'r, 'm) flight_msg = Poll 'p | Answer nat 'r | Other 'm

definition remove_nth :: "nat \<Rightarrow> 'a list \<Rightarrow> 'a list" where
  "remove_nth n xs = take n xs @ drop (Suc n) xs"

primrec flight_step ::
  "('p \<Rightarrow> 'x \<Rightarrow> ('o \<times> 'q) option \<times> 'x) \<Rightarrow> ('r \<Rightarrow> 'o \<times> 'q \<Rightarrow> 'x \<Rightarrow> 'x) \<Rightarrow> ('m \<Rightarrow> 'x \<Rightarrow> 'x) \<Rightarrow>
   ('p, 'r, 'm) flight_msg \<Rightarrow> 'x \<times> ('o \<times> 'q) list \<Rightarrow> 'x \<times> ('o \<times> 'q) list" where
  "flight_step poll respond other (Poll p) w =
     (case poll p (fst w) of (r, x) \<Rightarrow> (x, snd w @ (case r of None \<Rightarrow> [] | Some f \<Rightarrow> [f])))"
| "flight_step poll respond other (Answer n r) w =
     (if n < length (snd w) then (respond r (snd w ! n) (fst w), remove_nth n (snd w)) else w)"
| "flight_step poll respond other (Other m) w = (other m (fst w), snd w)"

lemma map_remove_nth: "map f (remove_nth n xs) = remove_nth n (map f xs)"
  by (simp add: remove_nth_def take_map drop_map)

lemma set_remove_nth:
  assumes "distinct xs" and "n < length xs"
  shows "distinct (remove_nth n xs) \<and> set (remove_nth n xs) = set xs - {xs ! n}"
proof -
  from assms(1) have "distinct (take n xs @ xs ! n # drop (Suc n) xs)"
    by (simp add: id_take_nth_drop [OF assms(2), symmetric])
  moreover have "set xs = set (take n xs @ xs ! n # drop (Suc n) xs)"
    by (simp add: id_take_nth_drop [OF assms(2), symmetric])
  ultimately show ?thesis
    by (auto simp: remove_nth_def)
qed

locale request_source =
  fixes busy :: "'x \<Rightarrow> 'o set"
    and poll :: "'p \<Rightarrow> 'x \<Rightarrow> ('o \<times> 'q) option \<times> 'x"
    and respond :: "'r \<Rightarrow> 'o \<times> 'q \<Rightarrow> 'x \<Rightarrow> 'x"
    and other :: "'m \<Rightarrow> 'x \<Rightarrow> 'x"
  assumes poll_none: "poll p x = (None, x') \<Longrightarrow> busy x' = busy x"
    and poll_some: "poll p x = (Some f, x') \<Longrightarrow> fst f \<notin> busy x \<and> busy x' = insert (fst f) (busy x)"
    and respond_busy: "busy (respond r f x) = busy x - {fst f}"
    and other_busy: "busy (other m x) = busy x"
begin

definition flying :: "'x \<times> ('o \<times> 'q) list \<Rightarrow> bool" where
  "flying w \<longleftrightarrow> distinct (map fst (snd w)) \<and> set (map fst (snd w)) = busy (fst w)"

lemma flying_step: "flying w \<Longrightarrow> flying (flight_step poll respond other m w)"
proof (cases m)
  case (Poll p)
  assume w: "flying w"
  obtain r x where n: "poll p (fst w) = (r, x)"
    by fastforce
  show ?thesis
  proof (cases r)
    case None
    with n w Poll poll_none [of p "fst w" x] show ?thesis
      by (simp add: flying_def)
  next
    case (Some f)
    with n w Poll poll_some [of p "fst w" f x] show ?thesis
      by (auto simp: flying_def)
  qed
next
  case (Answer n r)
  assume "flying w"
  with Answer set_remove_nth [of "map fst (snd w)" n] show ?thesis
    by (auto simp: flying_def respond_busy simp flip: map_remove_nth)
qed (simp add: flying_def other_busy)

lemma never_doubled:
  "busy x = {} \<Longrightarrow> run (flight_step poll respond other) (x, []) ms = (x', fl) \<Longrightarrow>
   distinct (map fst fl) \<and> set (map fst fl) = busy x'"
  using run_invariant [of flying "flight_step poll respond other" "(x, [])" ms] flying_step
  by (simp add: flying_def)

end

end
