(* ===== verification/SingleRequest.thy ===== *)
theory SingleRequest
  imports Prelude "HOL-Library.Word"
begin

text \<open>
  The request helpers of \<^verbatim>\<open>Source/Synchronization\<close>: \<^verbatim>\<open>ZMSingleRequestSync\<close> (one request at a
  time), its timed subclass \<^verbatim>\<open>ZMTimedSingleRequestSync\<close>, the list paginator
  \<^verbatim>\<open>ZMSimpleListRequestPaginator\<close> built on it, and \<^verbatim>\<open>ZMRemoteIdentifierObjectSync\<close>, which downloads
  a set of identifiers in batches.

  A subclass is a record extension, a method of the base class a function on the record scheme.
  A transcoder (the delegate that builds requests and reads responses) is a record of callbacks
  over its own state \<open>'t\<close>; a callback may also change the sync it is called from, as the
  Objective-C objects do.
\<close>

section \<open>ZMSingleRequestSync\<close>

datatype ZMSingleRequestProgress =
    ZMSingleRequestIdle
  | ZMSingleRequestInProgress
  | ZMSingleRequestCompleted

text \<open>
  \<open>requestUniqueCounter\<close> is a C \<^verbatim>\<open>int\<close>; it is only incremented and compared for equality, so it
  is kept as a 32 bit word.
\<close>

record ZMSingleRequestSync =
  status :: ZMSingleRequestProgress
  currentRequest :: "ZMTransportRequest option"
  requestUniqueCounter :: "32 word"

record ('s, 't) ZMSingleRequestTranscoder =
  requestForSingleRequestSync :: "'s \<Rightarrow> 't \<Rightarrow> ZMTransportRequest option \<times> 't"
  didReceiveResponse_forSingleRequest :: "ZMTransportResponse \<Rightarrow> 's \<times> 't \<Rightarrow> 's \<times> 't"

definition initWithSingleRequestTranscoder :: ZMSingleRequestSync where
  "initWithSingleRequestTranscoder =
     \<lparr>status = ZMSingleRequestIdle, currentRequest = None, requestUniqueCounter = 0\<rparr>"

definition readyForNextRequest :: "'a ZMSingleRequestSync_scheme \<Rightarrow> 'a ZMSingleRequestSync_scheme" where
  "readyForNextRequest s =
     s\<lparr>requestUniqueCounter := requestUniqueCounter s + 1,
       currentRequest := None,
       status := ZMSingleRequestInProgress\<rparr>"

definition readyForNextRequestIfNotBusy ::
  "'a ZMSingleRequestSync_scheme \<Rightarrow> 'a ZMSingleRequestSync_scheme" where
  "readyForNextRequestIfNotBusy s = (if currentRequest s = None then readyForNextRequest s else s)"

definition resetCompletionState ::
  "'a ZMSingleRequestSync_scheme \<Rightarrow> 'a ZMSingleRequestSync_scheme" where
  "resetCompletionState s =
     (if status s = ZMSingleRequestCompleted then s\<lparr>status := ZMSingleRequestIdle\<rparr> else s)"

text \<open>
  \<^verbatim>\<open>-nextRequest\<close>. The completion handler the code attaches to the request captures
  \<open>requestUniqueCounter\<close>; the response comes back through \<open>processResponse\<close> with that value.
\<close>

definition nextRequest ::
  "('a ZMSingleRequestSync_scheme, 't) ZMSingleRequestTranscoder \<Rightarrow>
   'a ZMSingleRequestSync_scheme \<times> 't \<Rightarrow>
   ZMTransportRequest option \<times> 'a ZMSingleRequestSync_scheme \<times> 't" where
  "nextRequest T st =
     (case st of (s, t) \<Rightarrow>
        if currentRequest s = None \<and> status s = ZMSingleRequestInProgress then
          (case requestForSingleRequestSync T s t of
             (None, t') \<Rightarrow> (None, s\<lparr>currentRequest := None, status := ZMSingleRequestCompleted\<rparr>, t')
           | (Some r, t') \<Rightarrow> (Some r, s\<lparr>currentRequest := Some r\<rparr>, t'))
        else (None, s, t))"

definition processResponse ::
  "('a ZMSingleRequestSync_scheme, 't) ZMSingleRequestTranscoder \<Rightarrow> ZMTransportResponse \<Rightarrow> 32 word \<Rightarrow>
   'a ZMSingleRequestSync_scheme \<times> 't \<Rightarrow> 'a ZMSingleRequestSync_scheme \<times> 't" where
  "processResponse T response counterValue st =
     (case st of (s, t) \<Rightarrow>
        if counterValue \<noteq> requestUniqueCounter s then (s, t)
        else
          let s = s\<lparr>currentRequest := None\<rparr> in
          case resp_result response of
            ZMTransportResponseStatusSuccess \<Rightarrow>
              didReceiveResponse_forSingleRequest T response (s\<lparr>status := ZMSingleRequestCompleted\<rparr>, t)
          | ZMTransportResponseStatusPermanentError \<Rightarrow>
              didReceiveResponse_forSingleRequest T response (s\<lparr>status := ZMSingleRequestCompleted\<rparr>, t)
          | ZMTransportResponseStatusExpired \<Rightarrow>
              didReceiveResponse_forSingleRequest T response (s\<lparr>status := ZMSingleRequestCompleted\<rparr>, t)
          | ZMTransportResponseStatusTryAgainLater \<Rightarrow> (readyForNextRequest s, t)
          | ZMTransportResponseStatusTemporaryError \<Rightarrow> (s\<lparr>status := ZMSingleRequestInProgress\<rparr>, t))"

text \<open>The declared interface of the class, and the delivery of one of its messages.\<close>

datatype (plugins only: code size) ZMSingleRequestSync_msg =
    ReadyForNextRequest
  | ReadyForNextRequestIfNotBusy
  | ResetCompletionState
  | NextRequest

primrec single_send ::
  "('a ZMSingleRequestSync_scheme, 't) ZMSingleRequestTranscoder \<Rightarrow> ZMSingleRequestSync_msg \<Rightarrow>
   'a ZMSingleRequestSync_scheme \<times> 't \<Rightarrow> 'a ZMSingleRequestSync_scheme \<times> 't" where
  "single_send T ReadyForNextRequest st = (readyForNextRequest (fst st), snd st)"
| "single_send T ReadyForNextRequestIfNotBusy st = (readyForNextRequestIfNotBusy (fst st), snd st)"
| "single_send T ResetCompletionState st = (resetCompletionState (fst st), snd st)"
| "single_send T NextRequest st = snd (nextRequest T st)"

text \<open>
  A step of the sync with its environment: a client message, or the arrival of the response to
  a request that is still outstanding. \<open>handlers\<close> holds the counter values the completion
  handlers of the outstanding requests have captured.
\<close>

inductive single_step ::
  "('a ZMSingleRequestSync_scheme, 't) ZMSingleRequestTranscoder \<Rightarrow>
   ('a ZMSingleRequestSync_scheme \<times> 't) \<times> 32 word list \<Rightarrow>
   ('a ZMSingleRequestSync_scheme \<times> 't) \<times> 32 word list \<Rightarrow> bool"
  for T where
  message: "m \<noteq> NextRequest \<Longrightarrow> single_step T (st, hs) (single_send T m st, hs)"
| request: "nextRequest T st = (Some r, st') \<Longrightarrow>
     single_step T (st, hs) (st', requestUniqueCounter (fst st) # hs)"
| no_request: "nextRequest T st = (None, st') \<Longrightarrow> single_step T (st, hs) (st', hs)"
| response: "single_step T (st, hs @ c # hs') (processResponse T resp c st, hs @ hs')"

inductive_cases single_stepE: "single_step T (st, hs) (st', hs')"

text \<open>
  What a client sees of a sync: idle, a request wanted, a request in flight, or completed.
\<close>

datatype (plugins only: code size) progress = PIdle | PWanted | PInFlight ZMTransportRequest | PCompleted

definition progress_of :: "'a ZMSingleRequestSync_scheme \<Rightarrow> progress" where
  "progress_of s =
     (case status s of
        ZMSingleRequestIdle \<Rightarrow> PIdle
      | ZMSingleRequestCompleted \<Rightarrow> PCompleted
      | ZMSingleRequestInProgress \<Rightarrow>
          (case currentRequest s of None \<Rightarrow> PWanted | Some r \<Rightarrow> PInFlight r))"

text \<open>The abstract protocol: which request, if any, a sync hands out next.\<close>

fun want :: "progress \<Rightarrow> progress" where
  "want _ = PWanted"

fun want_if_free :: "progress \<Rightarrow> progress" where
  "want_if_free (PInFlight r) = PInFlight r"
| "want_if_free _ = PWanted"

fun note_completion :: "progress \<Rightarrow> progress" where
  "note_completion PCompleted = PIdle"
| "note_completion p = p"

fun hand_out :: "ZMTransportRequest option \<Rightarrow> progress \<Rightarrow> progress" where
  "hand_out (Some r) PWanted = PInFlight r"
| "hand_out None PWanted = PCompleted"
| "hand_out _ p = p"

text \<open>What an answer makes of the sync, and the answers that are passed on to the transcoder.\<close>

fun answered :: "ZMTransportResponseStatus \<Rightarrow> progress" where
  "answered ZMTransportResponseStatusTryAgainLater = PWanted"
| "answered ZMTransportResponseStatusTemporaryError = PWanted"
| "answered _ = PCompleted"

text \<open>A request is held only while the sync is in progress.\<close>

definition single_inv :: "'a ZMSingleRequestSync_scheme \<Rightarrow> bool" where
  "single_inv s \<longleftrightarrow> (currentRequest s \<noteq> None \<longrightarrow> status s = ZMSingleRequestInProgress)"

lemmas single_defs = readyForNextRequest_def readyForNextRequestIfNotBusy_def
  resetCompletionState_def single_inv_def

lemma single_inv_ops [inv_intros]:
  "single_inv (readyForNextRequest s)"
  "single_inv s \<Longrightarrow> single_inv (readyForNextRequestIfNotBusy s)"
  "single_inv s \<Longrightarrow> single_inv (resetCompletionState s)"
  "single_inv s \<Longrightarrow> single_inv (fst (snd (nextRequest T (s, t))))"
  by (auto simp: single_defs nextRequest_def split: prod.splits option.splits)

lemma progress_readyForNextRequest:
  "progress_of (readyForNextRequest s) = want (progress_of s)"
  by (simp add: progress_of_def readyForNextRequest_def)

lemma progress_readyForNextRequestIfNotBusy:
  "single_inv s \<Longrightarrow> progress_of (readyForNextRequestIfNotBusy s) = want_if_free (progress_of s)"
  by (auto simp: progress_of_def single_defs
      split: ZMSingleRequestProgress.splits option.splits)

lemma progress_resetCompletionState:
  "progress_of (resetCompletionState s) = note_completion (progress_of s)"
  by (auto simp: progress_of_def resetCompletionState_def
      split: ZMSingleRequestProgress.splits option.splits)

lemma progress_nextRequest:
  "single_inv s \<Longrightarrow>
   progress_of (fst (snd (nextRequest T (s, t)))) =
     hand_out (fst (requestForSingleRequestSync T s t)) (progress_of s)"
  by (auto simp: progress_of_def nextRequest_def single_inv_def
      split: ZMSingleRequestProgress.splits option.splits prod.splits)

lemma nextRequest_result:
  "fst (nextRequest T (s, t)) =
     (if progress_of s = PWanted then fst (requestForSingleRequestSync T s t) else None)"
  by (auto simp: progress_of_def nextRequest_def
      split: ZMSingleRequestProgress.splits option.splits prod.splits)

lemma processResponse_other: "c \<noteq> requestUniqueCounter s \<Longrightarrow> processResponse T response c (s, t) = (s, t)"
  by (simp add: processResponse_def)

lemma processResponse_current:
  "\<exists>s'. single_inv s' \<and> progress_of s' = answered (resp_result response) \<and>
     requestUniqueCounter s' = requestUniqueCounter s +
       (if resp_result response = ZMTransportResponseStatusTryAgainLater then 1 else 0) \<and>
     processResponse T response (requestUniqueCounter s) (s, t) =
       (if answered (resp_result response) = PCompleted then didReceiveResponse_forSingleRequest T response (s', t)
        else (s', t))"
  by (rule exI [of _ "(if resp_result response = ZMTransportResponseStatusTryAgainLater then readyForNextRequest s else s)
      \<lparr>currentRequest := None, status := if answered (resp_result response) = PCompleted then ZMSingleRequestCompleted
         else ZMSingleRequestInProgress\<rparr>"])
    (cases "resp_result response"; simp add: processResponse_def progress_of_def single_inv_def readyForNextRequest_def)

section \<open>The contract of a request slot\<close>

text \<open>
  What the clients of \<^verbatim>\<open>ZMSingleRequestSync\<close> rely on: \<open>ready\<close> asks for a request, \<open>take\<close> hands it
  out, and while it is in flight no second one is handed out.
\<close>

locale request_slot =
  fixes ready :: "'s \<Rightarrow> 's"
    and ready_if_free :: "'s \<Rightarrow> 's"
    and take :: "ZMTransportRequest option \<Rightarrow> 's \<Rightarrow> ZMTransportRequest option \<times> 's"
    and view :: "'s \<Rightarrow> progress"
    and invar :: "'s \<Rightarrow> bool"
  assumes view_ready: "view (ready s) = PWanted"
    and view_ready_if_free: "invar s \<Longrightarrow> view (ready_if_free s) = want_if_free (view s)"
    and view_take: "invar s \<Longrightarrow> view (snd (take r s)) = hand_out r (view s)"
    and fst_take: "invar s \<Longrightarrow> fst (take r s) = (if view s = PWanted then r else None)"
    and invar_ready: "invar (ready s)"
    and invar_take: "invar s \<Longrightarrow> invar (snd (take r s))"
begin

lemma take_after_ready: "fst (take r (ready s)) = r"
  by (simp add: fst_take invar_ready view_ready)

lemma take_twice:
  assumes "invar s" and "fst (take r s) = Some q"
  shows "fst (take r' (snd (take r s))) = None"
proof -
  from assms have "view s = PWanted" and "r = Some q"
    by (auto simp: fst_take split: if_splits)
  then show ?thesis
    using assms(1) by (simp add: fst_take invar_take view_take)
qed

lemma ready_if_free_keeps_flight:
  assumes "invar s" and "fst (take (Some q) s) = Some q"
  shows "view (ready_if_free (snd (take (Some q) s))) = PInFlight q"
proof -
  from assms have "view (snd (take (Some q) s)) = PInFlight q"
    by (auto simp: fst_take view_take split: if_splits)
  with assms(1) show ?thesis
    by (simp add: view_ready_if_free invar_take)
qed

end

definition offering :: "ZMTransportRequest option \<Rightarrow>
    ('a ZMSingleRequestSync_scheme, unit) ZMSingleRequestTranscoder" where
  "offering r = \<lparr>requestForSingleRequestSync = (\<lambda>_ t. (r, t)),
                 didReceiveResponse_forSingleRequest = (\<lambda>_ st. st)\<rparr>"

definition take_request :: "ZMTransportRequest option \<Rightarrow> 'a ZMSingleRequestSync_scheme \<Rightarrow>
    ZMTransportRequest option \<times> 'a ZMSingleRequestSync_scheme" where
  "take_request r s = (case nextRequest (offering r) (s, ()) of (q, s', _) \<Rightarrow> (q, s'))"

lemma take_request_next:
  "fst (take_request r s) = fst (nextRequest (offering r) (s, ()))"
  "snd (take_request r s) = fst (snd (nextRequest (offering r) (s, ())))"
  by (simp_all add: take_request_def split: prod.splits)

lemma nextRequest_offering:
  assumes "requestForSingleRequestSync T s t = (r, t')"
  shows "fst (nextRequest T (s, t)) = fst (take_request r s)"
    and "fst (snd (nextRequest T (s, t))) = snd (take_request r s)"
  using assms
  by (simp_all add: take_request_def nextRequest_def offering_def split: option.splits)

interpretation slot: request_slot readyForNextRequest readyForNextRequestIfNotBusy take_request
  progress_of single_inv
proof unfold_locales
  show "progress_of (readyForNextRequest s) = PWanted" for s :: "'a ZMSingleRequestSync_scheme"
    by (simp add: progress_readyForNextRequest)
  show "single_inv s \<Longrightarrow>
      progress_of (readyForNextRequestIfNotBusy s) = want_if_free (progress_of s)"
    for s :: "'a ZMSingleRequestSync_scheme"
    by (rule progress_readyForNextRequestIfNotBusy)
qed (simp_all add: take_request_next progress_nextRequest nextRequest_result offering_def inv_intros)

section \<open>ZMSingleRequestSync with its environment\<close>

text \<open>
  A transcoder that does not start a request from inside \<^verbatim>\<open>didReceiveResponse:forSingleRequest:\<close>
  (none of the transcoders of the program does: they call \<^verbatim>\<open>readyForNextRequest\<close> at most).
\<close>

definition quiet :: "('a ZMSingleRequestSync_scheme, 't) ZMSingleRequestTranscoder \<Rightarrow> bool" where
  "quiet T \<longleftrightarrow>
     (\<forall>response s t. currentRequest s = None \<longrightarrow>
        currentRequest (fst (didReceiveResponse_forSingleRequest T response (s, t))) = None)"

text \<open>A request in flight has a completion handler that will be accepted.\<close>

definition awaited :: "('a ZMSingleRequestSync_scheme \<times> 't) \<times> 32 word list \<Rightarrow> bool" where
  "awaited c \<longleftrightarrow>
     (currentRequest (fst (fst c)) \<noteq> None \<longrightarrow>
        status (fst (fst c)) = ZMSingleRequestInProgress \<and>
        requestUniqueCounter (fst (fst c)) \<in> set (snd c))"

lemma awaited_send:
  "awaited ((s, t), hs) \<Longrightarrow> m \<noteq> NextRequest \<Longrightarrow> awaited (single_send T m (s, t), hs)"
  by (cases m) (auto simp: awaited_def single_defs)

lemma awaited_request:
  "nextRequest T st = (Some r, st') \<Longrightarrow> awaited (st', requestUniqueCounter (fst st) # hs)"
  by (auto simp: awaited_def nextRequest_def split: prod.splits option.splits if_splits)

lemma awaited_no_request:
  "awaited (st, hs) \<Longrightarrow> nextRequest T st = (None, st') \<Longrightarrow> awaited (st', hs)"
  by (auto simp: awaited_def nextRequest_def split: prod.splits option.splits if_splits)

lemma quiet_response:
  "quiet T \<Longrightarrow> c = requestUniqueCounter (fst st) \<Longrightarrow>
   currentRequest (fst (processResponse T response c st)) = None"
  by (auto simp: quiet_def processResponse_def readyForNextRequest_def Let_def
      split: prod.splits ZMTransportResponseStatus.splits)

lemma awaited_response:
  assumes "quiet T" and "awaited (st, hs @ c # hs')"
  shows "awaited (processResponse T response c st, hs @ hs')"
proof (cases "c = requestUniqueCounter (fst st)")
  case True
  with assms(1) have "currentRequest (fst (processResponse T response c st)) = None"
    by (rule quiet_response)
  then show ?thesis by (simp add: awaited_def)
next
  case False
  then have "processResponse T response c st = st"
    by (cases st) (simp add: processResponse_def)
  with False assms(2) show ?thesis by (auto simp: awaited_def)
qed

lemma single_step_awaited:
  assumes "quiet T" and "single_step T c c'" and "awaited c"
  shows "awaited c'"
  using assms(2,3)
proof (cases rule: single_step.cases)
  case (message m st hs)
  then show ?thesis using assms(3) awaited_send [of "fst st" "snd st"] by simp
qed (auto intro: awaited_request awaited_no_request awaited_response [OF assms(1)] simp: assms(3)
      dest: awaited_no_request [rotated])

lemma counter_add_neq:
  assumes "0 < n" and "n < 2 ^ 32"
  shows "c + word_of_nat n \<noteq> (c :: 32 word)"
proof
  assume "c + word_of_nat n = c"
  then have "(word_of_nat n :: 32 word) = 0" by simp
  then have "2 ^ 32 dvd n"
    by (simp add: word_of_nat_eq_0_iff)
  with assms show False by (auto dest: dvd_imp_le)
qed

lemma single_steps_awaited:
  assumes "quiet T" and "(single_step T)\<^sup>*\<^sup>* c c'" and "awaited c"
  shows "awaited c'"
  using assms(2,3) by (induction rule: rtranclp_induct) (auto intro: single_step_awaited [OF assms(1)])

lemma counter_ready_pow [simp]:
  "requestUniqueCounter ((readyForNextRequest ^^ n) s) = requestUniqueCounter s + word_of_nat n"
  by (induction n) (auto simp: readyForNextRequest_def add.commute add.left_commute)

section \<open>Properties of ZMSingleRequestSync\<close>

text \<open>C1: everything that happens to a \<^verbatim>\<open>ZMSingleRequestSync\<close> acts on the client's view of it (idle, wanted, in flight,
  completed) as the abstract protocol says, and keeps the invariant that a request is held only while the status
  is in progress. \<^verbatim>\<open>readyForNextRequest\<close> always makes a request wanted, the not-busy variant leaves a request in flight
  alone, \<^verbatim>\<open>resetCompletionState\<close> turns completed into idle, and \<^verbatim>\<open>nextRequest\<close> hands out the transcoder's request
  exactly when one is wanted. The response to a request that has been given up (with another counter) changes
  nothing. The response to the current request clears it: after a temporary error or when it is to be tried
  again the request is wanted again and the transcoder is not told, in the second case with a new counter; after any other result the sync
  is completed, and the transcoder gets the response and the completed sync, once.\<close>

theorem single_request_refines_protocol:
  assumes "single_inv s"
  shows "single_inv (fst (single_send T m (s, t))) \<and>
    progress_of (fst (single_send T m (s, t))) =
      (case m of
         ReadyForNextRequest \<Rightarrow> want (progress_of s)
       | ReadyForNextRequestIfNotBusy \<Rightarrow> want_if_free (progress_of s)
       | ResetCompletionState \<Rightarrow> note_completion (progress_of s)
       | NextRequest \<Rightarrow> hand_out (fst (requestForSingleRequestSync T s t)) (progress_of s)) \<and>
    fst (nextRequest T (s, t)) =
      (if progress_of s = PWanted then fst (requestForSingleRequestSync T s t) else None) \<and>
    (c \<noteq> requestUniqueCounter s \<longrightarrow> processResponse T response c (s, t) = (s, t)) \<and>
    (\<exists>s'. single_inv s' \<and> progress_of s' = answered (resp_result response) \<and>
       requestUniqueCounter s' = requestUniqueCounter s +
         (if resp_result response = ZMTransportResponseStatusTryAgainLater then 1 else 0) \<and>
       processResponse T response (requestUniqueCounter s) (s, t) =
         (if answered (resp_result response) = PCompleted then didReceiveResponse_forSingleRequest T response (s', t)
          else (s', t)))"
proof -
  have "single_inv (fst (single_send T m (s, t))) \<and>
    progress_of (fst (single_send T m (s, t))) =
      (case m of
         ReadyForNextRequest \<Rightarrow> want (progress_of s)
       | ReadyForNextRequestIfNotBusy \<Rightarrow> want_if_free (progress_of s)
       | ResetCompletionState \<Rightarrow> note_completion (progress_of s)
       | NextRequest \<Rightarrow> hand_out (fst (requestForSingleRequestSync T s t)) (progress_of s))"
    using assms
    by (cases m)
      (simp_all add: inv_intros progress_readyForNextRequest progress_readyForNextRequestIfNotBusy
        progress_resetCompletionState progress_nextRequest)
  with processResponse_current [of response s T t] show ?thesis
    by (simp add: nextRequest_result processResponse_other)
qed

definition ping :: ZMTransportRequest where
  "ping = \<lparr>req_method = MethodGET, req_path = ''/self'', req_payload = None\<rparr>"

definition failed_response :: ZMTransportResponse where
  "failed_response = \<lparr>resp_result = ZMTransportResponseStatusPermanentError, resp_HTTPStatus = 400, resp_payload = None,
     resp_payloadLabel = None\<rparr>"

theorem single_request_refines_protocol_witness:
  "single_inv (readyForNextRequest initWithSingleRequestTranscoder) \<and>
   progress_of (fst (single_send (offering (Some ping)) NextRequest
     (readyForNextRequest initWithSingleRequestTranscoder, ()))) = PInFlight ping \<and>
   progress_of (fst (processResponse (offering (Some ping)) failed_response 1
     (readyForNextRequest initWithSingleRequestTranscoder, ()))) = PCompleted"
proof -
  have inv: "single_inv (readyForNextRequest initWithSingleRequestTranscoder)"
    by (simp add: inv_intros)
  have "requestUniqueCounter (readyForNextRequest initWithSingleRequestTranscoder) = 1"
    by (simp add: readyForNextRequest_def initWithSingleRequestTranscoder_def)
  with inv single_request_refines_protocol [OF inv, of "offering (Some ping)" NextRequest "()" 0 failed_response]
  show ?thesis
    by (auto simp: progress_readyForNextRequest offering_def failed_response_def)
qed

text \<open>Whatever messages a client sends and whatever responses arrive, in any order, a sync that
  holds a request is in progress and a completion handler for exactly its current counter value
  is still outstanding, so the response to the request in flight will be accepted and the sync
  cannot be stuck on a request nobody answers.\<close>

lemma in_flight_request_is_awaited:
  assumes "quiet T"
    and "(single_step T)\<^sup>*\<^sup>* ((initWithSingleRequestTranscoder, t), []) ((s, t'), hs)"
    and "currentRequest s \<noteq> None"
  shows "status s = ZMSingleRequestInProgress \<and> requestUniqueCounter s \<in> set hs"
proof -
  have "awaited ((initWithSingleRequestTranscoder, t), [])"
    by (simp add: awaited_def initWithSingleRequestTranscoder_def)
  from single_steps_awaited [OF assms(1,2) this] assms(3) show ?thesis
    by (simp add: awaited_def)
qed

lemma in_flight_request_is_awaited_example:
  "\<exists>s hs. (single_step (offering (Some ping)))\<^sup>*\<^sup>*
       ((initWithSingleRequestTranscoder, ()), []) ((s, ()), hs) \<and>
     currentRequest s = Some ping \<and> requestUniqueCounter s \<in> set hs"
proof -
  let ?T = "offering (Some ping) :: (ZMSingleRequestSync, unit) ZMSingleRequestTranscoder"
  let ?s = "initWithSingleRequestTranscoder\<lparr>requestUniqueCounter := 1, currentRequest := Some ping,
      status := ZMSingleRequestInProgress\<rparr>"
  have q: "quiet ?T" by (simp add: quiet_def offering_def)
  have "single_step ?T ((initWithSingleRequestTranscoder, ()), [])
      (single_send ?T ReadyForNextRequest (initWithSingleRequestTranscoder, ()), [])"
    by (rule single_step.message) simp
  moreover have "single_step ?T
      (single_send ?T ReadyForNextRequest (initWithSingleRequestTranscoder, ()), []) ((?s, ()), [1])"
    using single_step.request [of ?T "single_send ?T ReadyForNextRequest
        (initWithSingleRequestTranscoder, ())" ping "(?s, ())" "[]"]
    by (simp add: nextRequest_def offering_def readyForNextRequest_def
        initWithSingleRequestTranscoder_def)
  ultimately have r: "(single_step ?T)\<^sup>*\<^sup>* ((initWithSingleRequestTranscoder, ()), []) ((?s, ()), [1])"
    by (meson converse_rtranclp_into_rtranclp rtranclp.rtrancl_refl)
  have "currentRequest ?s \<noteq> None" by simp
  from in_flight_request_is_awaited [OF q r this] r show ?thesis
    by (intro exI [of _ ?s] exI [of _ "[1]"]) simp
qed

text \<open>C20: a response to a request that was abandoned by \<^verbatim>\<open>readyForNextRequest\<close> is ignored: neither
  the sync nor its transcoder changes. The counter is a 32 bit integer, so this holds for up to
  \<open>2 ^ 32 - 1\<close> later calls of \<^verbatim>\<open>readyForNextRequest\<close>.\<close>

theorem abandoned_request_response_ignored:
  assumes "0 < n" and "n < 2 ^ 32"
  shows "processResponse T response (requestUniqueCounter s) ((readyForNextRequest ^^ n) s, t) =
    ((readyForNextRequest ^^ n) s, t)"
  using counter_add_neq [OF assms, of "requestUniqueCounter s"]
  by (auto simp: processResponse_def)

theorem abandoned_request_response_ignored_witness:
  "(0::nat) < 1 \<and> (1::nat) < 2 ^ 32 \<and>
   processResponse (offering (Some ping))
     \<lparr>resp_result = ZMTransportResponseStatusSuccess, resp_HTTPStatus = 200, resp_payload = None,
      resp_payloadLabel = None\<rparr> 0 (readyForNextRequest initWithSingleRequestTranscoder, ()) =
   (readyForNextRequest initWithSingleRequestTranscoder, ())"
  using abandoned_request_response_ignored [of 1 "offering (Some ping)"
      "\<lparr>resp_result = ZMTransportResponseStatusSuccess, resp_HTTPStatus = 200, resp_payload = None,
       resp_payloadLabel = None\<rparr>" initWithSingleRequestTranscoder "()"]
  by (simp add: initWithSingleRequestTranscoder_def)

end
