(* ===== verification/TimedRequest.thy ===== *)
theory TimedRequest
  imports SingleRequest
begin

text \<open>
  \<^verbatim>\<open>ZMTimedSingleRequestSync\<close>: a single request sync that offers its request again every
  \<open>timeInterval\<close> seconds. The timer is a \<^verbatim>\<open>ZMTimedRequestTriggerHolder\<close> that a block scheduled with
  \<^verbatim>\<open>dispatch_after\<close> fires; firing a holder that was not invalidated enqueues the expiry block on
  the context. The holders are objects of a small store: \<open>liveHolders\<close> are those whose
  \<^verbatim>\<open>triggerReference\<close> is set, \<open>scheduledHolders\<close> those whose block has not run yet, and
  \<open>pendingExpiries\<close> counts the expiry blocks that are enqueued.
\<close>

section \<open>State and operations\<close>

record ZMTimedSingleRequestSync = ZMSingleRequestSync +
  internalTimeInterval :: NSTimeInterval
  shouldReturnRequest :: bool
  currentHolder :: "nat option"
  isInvalidated :: bool
  nextHolder :: nat
  liveHolders :: "nat list"
  scheduledHolders :: "nat list"
  pendingExpiries :: nat

type_synonym 't timed_transcoder = "(ZMTimedSingleRequestSync, 't) ZMSingleRequestTranscoder"

definition invalidate_holder :: "ZMTimedSingleRequestSync \<Rightarrow> ZMTimedSingleRequestSync" where
  "invalidate_holder s =
     (case currentHolder s of
        None \<Rightarrow> s
      | Some h \<Rightarrow> s\<lparr>liveHolders := oset_remove h (liveHolders s)\<rparr>)"

definition initWithTimedSingleRequest :: "ZMTimedSingleRequestSync \<Rightarrow> ZMTimedSingleRequestSync" where
  "initWithTimedSingleRequest s =
     s\<lparr>currentHolder := Some (nextHolder s),
       nextHolder := Suc (nextHolder s),
       liveHolders := liveHolders s @ [nextHolder s],
       scheduledHolders := scheduledHolders s @ [nextHolder s]\<rparr>"

definition setTimeInterval :: "NSTimeInterval \<Rightarrow> ZMTimedSingleRequestSync \<Rightarrow> ZMTimedSingleRequestSync" where
  "setTimeInterval interval s =
     readyForNextRequest ((invalidate_holder s)\<lparr>internalTimeInterval := interval,
       shouldReturnRequest := True\<rparr>)"

definition initTimedSingleRequestSync :: "NSTimeInterval \<Rightarrow> ZMTimedSingleRequestSync" where
  "initTimedSingleRequestSync interval =
     readyForNextRequest ((setTimeInterval interval
       \<lparr>status = ZMSingleRequestIdle, currentRequest = None, requestUniqueCounter = 0,
        internalTimeInterval = 0, shouldReturnRequest = False, currentHolder = None,
        isInvalidated = False, nextHolder = 0, liveHolders = [], scheduledHolders = [],
        pendingExpiries = 0\<rparr>)\<lparr>shouldReturnRequest := True\<rparr>)"

definition timed_nextRequest ::
  "'t timed_transcoder \<Rightarrow> ZMTimedSingleRequestSync \<times> 't \<Rightarrow>
   ZMTransportRequest option \<times> ZMTimedSingleRequestSync \<times> 't" where
  "timed_nextRequest T st =
     (case st of (s, t) \<Rightarrow>
        if shouldReturnRequest s \<and> \<not> isInvalidated s then
          let s = invalidate_holder s;
              s = (if internalTimeInterval s > 0
                   then initWithTimedSingleRequest (s\<lparr>shouldReturnRequest := False\<rparr>) else s)
          in nextRequest T (s, t)
        else (None, s, t))"

text \<open>The dispatched block of holder \<open>h\<close> runs: \<^verbatim>\<open>fireTrigger\<close> is \<^verbatim>\<open>timerDidExpire\<close> on a live
  reference, which enqueues the expiry block.\<close>

definition fireTrigger :: "nat \<Rightarrow> ZMTimedSingleRequestSync \<Rightarrow> ZMTimedSingleRequestSync" where
  "fireTrigger h s =
     (if h \<notin> set (scheduledHolders s) then s
      else
        let s = s\<lparr>scheduledHolders := oset_remove h (scheduledHolders s)\<rparr> in
        if h \<in> set (liveHolders s) then s\<lparr>pendingExpiries := Suc (pendingExpiries s)\<rparr> else s)"

text \<open>The expiry block runs on the context.\<close>

definition timerDidExpire :: "ZMTimedSingleRequestSync \<Rightarrow> ZMTimedSingleRequestSync" where
  "timerDidExpire s =
     (if pendingExpiries s = 0 then s
      else readyForNextRequest (s\<lparr>pendingExpiries := pendingExpiries s - 1, currentHolder := None,
             shouldReturnRequest := True\<rparr>))"

definition invalidate :: "ZMTimedSingleRequestSync \<Rightarrow> ZMTimedSingleRequestSync" where
  "invalidate s = (invalidate_holder s)\<lparr>shouldReturnRequest := False, isInvalidated := True\<rparr>"

datatype (plugins only: code size) ZMTimedSingleRequestSync_msg =
    SetTimeInterval NSTimeInterval
  | Invalidate
  | TimedNextRequest
  | FireTrigger nat
  | RunExpiry
  | TimedReadyForNextRequest
  | ProcessResponse ZMTransportResponse "32 word"

primrec timed_send ::
  "'t timed_transcoder \<Rightarrow> ZMTimedSingleRequestSync_msg \<Rightarrow>
   ZMTimedSingleRequestSync \<times> 't \<Rightarrow> ZMTimedSingleRequestSync \<times> 't" where
  "timed_send T (SetTimeInterval i) st = (setTimeInterval i (fst st), snd st)"
| "timed_send T Invalidate st = (invalidate (fst st), snd st)"
| "timed_send T TimedNextRequest st = snd (timed_nextRequest T st)"
| "timed_send T (FireTrigger h) st = (fireTrigger h (fst st), snd st)"
| "timed_send T RunExpiry st = (timerDidExpire (fst st), snd st)"
| "timed_send T TimedReadyForNextRequest st = (readyForNextRequest (fst st), snd st)"
| "timed_send T (ProcessResponse r c) st = processResponse T r c st"

section \<open>Invariants\<close>

definition timer_of :: "ZMTimedSingleRequestSync \<Rightarrow>
    NSTimeInterval \<times> bool \<times> nat option \<times> bool \<times> nat \<times> nat list \<times> nat list \<times> nat" where
  "timer_of s = (internalTimeInterval s, shouldReturnRequest s, currentHolder s, isInvalidated s,
     nextHolder s, liveHolders s, scheduledHolders s, pendingExpiries s)"

text \<open>
  The response callback of a transcoder acts on the sync by calling its methods, in any number and order: the
  transcoders of the program set the time interval there (\<^verbatim>\<open>ZMLoginTranscoder\<close>, \<^verbatim>\<open>ZMSelfTranscoder\<close>) or ask for the next
  request. None asks for \<^verbatim>\<open>nextRequest\<close> there.
\<close>

datatype (plugins only: code size) sync_call =
    CallSetTimeInterval NSTimeInterval
  | CallInvalidate
  | CallReadyForNextRequest
  | CallReadyForNextRequestIfNotBusy
  | CallResetCompletionState

primrec call_method :: "sync_call \<Rightarrow> ZMTimedSingleRequestSync \<Rightarrow> ZMTimedSingleRequestSync" where
  "call_method (CallSetTimeInterval i) s = setTimeInterval i s"
| "call_method CallInvalidate s = invalidate s"
| "call_method CallReadyForNextRequest s = readyForNextRequest s"
| "call_method CallReadyForNextRequestIfNotBusy s = readyForNextRequestIfNotBusy s"
| "call_method CallResetCompletionState s = resetCompletionState s"

definition calls_methods :: "'t timed_transcoder \<Rightarrow> bool" where
  "calls_methods T \<longleftrightarrow>
     (\<forall>r s t. \<exists>calls. fst (didReceiveResponse_forSingleRequest T r (s, t)) = fold call_method calls s)"

text \<open>
  While the sync waits, the timer that will wake it up is on its way: either the block of the
  current, live holder is still scheduled, or the expiry block is enqueued.
\<close>

definition timer_pending :: "ZMTimedSingleRequestSync \<Rightarrow> bool" where
  "timer_pending s \<longleftrightarrow>
     0 < pendingExpiries s \<or>
     (\<exists>h. currentHolder s = Some h \<and> h \<in> set (liveHolders s) \<and> h \<in> set (scheduledHolders s))"

definition timed_inv :: "ZMTimedSingleRequestSync \<Rightarrow> bool" where
  "timed_inv s \<longleftrightarrow>
     (\<not> shouldReturnRequest s \<longrightarrow> \<not> isInvalidated s \<longrightarrow> timer_pending s)"

lemma timer_of_base [simp]:
  "timer_of (readyForNextRequest s) = timer_of s"
  "timer_of (s\<lparr>currentRequest := r\<rparr>) = timer_of s"
  "timer_of (s\<lparr>status := p\<rparr>) = timer_of s"
  "timer_of (readyForNextRequestIfNotBusy s) = timer_of s"
  "timer_of (resetCompletionState s) = timer_of s"
  by (simp_all add: timer_of_def single_defs)

lemma timer_of_nextRequest [simp]:
  "timer_of (fst (snd (nextRequest T (s, t)))) = timer_of s"
  by (auto simp: nextRequest_def split: prod.splits option.splits)

lemma timed_inv_cong: "timer_of s = timer_of s' \<Longrightarrow> timed_inv s = timed_inv s'"
  by (auto simp: timer_of_def timed_inv_def timer_pending_def)

lemma timed_inv_nextRequest:
  assumes "timed_inv s"
  shows "timed_inv (fst (snd (timed_nextRequest T (s, t))))"
proof (cases "shouldReturnRequest s \<and> \<not> isInvalidated s")
  case True
  let ?s = "if internalTimeInterval (invalidate_holder s) > 0
     then initWithTimedSingleRequest ((invalidate_holder s)\<lparr>shouldReturnRequest := False\<rparr>)
     else invalidate_holder s"
  have "timed_inv ?s"
    using True by (auto simp: timed_inv_def timer_pending_def initWithTimedSingleRequest_def
        invalidate_holder_def split: option.splits)
  moreover have "timer_of (fst (snd (timed_nextRequest T (s, t)))) = timer_of ?s"
    using True unfolding timed_nextRequest_def by (simp add: Let_def)
  ultimately show ?thesis by (blast dest: timed_inv_cong)
next
  case False
  with assms show ?thesis by (auto simp: timed_nextRequest_def)
qed

lemma timed_inv_fireTrigger [inv_intros]:
  assumes "timed_inv s"
  shows "timed_inv (fireTrigger h s)"
  using assms unfolding timed_inv_def timer_pending_def fireTrigger_def
  by (cases "h \<in> set (scheduledHolders s)"; cases "h \<in> set (liveHolders s)") auto

lemma timed_inv_others [inv_intros]:
  "timed_inv (setTimeInterval i s)"
  "timed_inv (invalidate s)"
  "timed_inv s \<Longrightarrow> timed_inv (timerDidExpire s)"
  "timed_inv s \<Longrightarrow> timed_inv (readyForNextRequest s)"
  unfolding timed_inv_def timer_pending_def setTimeInterval_def invalidate_def
    timerDidExpire_def readyForNextRequest_def by auto

text \<open>What every method and every change of the base class keeps, a response keeps too.\<close>

lemma processResponse_invariant:
  assumes "calls_methods T" and "\<And>c s. Q s \<Longrightarrow> Q (call_method c s)"
    and "\<And>s s'. timer_of s' = timer_of s \<Longrightarrow> Q s \<Longrightarrow> Q s'" and "Q (fst st)"
  shows "Q (fst (processResponse T r c st))"
proof -
  have calls: "Q (fold call_method cs s)" if "Q s" for cs s
    using that by (induction cs arbitrary: s) (auto intro: assms(2))
  have "Q (fst (didReceiveResponse_forSingleRequest T r (s', t)))" if "timer_of s' = timer_of (fst st)" for s' t
    using assms(1) calls [of s'] assms(3) [OF that assms(4)] unfolding calls_methods_def by metis
  moreover have "Q s'" if "timer_of s' = timer_of (fst st)" for s'
    by (rule assms(3) [OF that assms(4)])
  ultimately show ?thesis
    by (auto simp: processResponse_def Let_def split: prod.splits ZMTransportResponseStatus.splits)
qed

lemma timed_inv_call: "timed_inv s \<Longrightarrow> timed_inv (call_method c s)"
  using timed_inv_cong [of "readyForNextRequestIfNotBusy s" s] timed_inv_cong [of "resetCompletionState s" s]
  by (cases c) (simp_all add: inv_intros)

lemma timed_send_inv:
  assumes "calls_methods T" and "timed_inv (fst st)"
  shows "timed_inv (fst (timed_send T m st))"
proof (cases m)
  case TimedNextRequest
  with assms(2) timed_inv_nextRequest [of "fst st" T "snd st"] show ?thesis by simp
next
  case (ProcessResponse r c)
  have "timed_inv (fst (processResponse T r c st))"
    by (rule processResponse_invariant [where Q = timed_inv, OF assms(1) timed_inv_call _ assms(2)]) (auto dest: timed_inv_cong)
  with ProcessResponse show ?thesis
    by simp
qed (simp_all add: assms(2) inv_intros)

lemma timed_send_invalidated:
  assumes "calls_methods T" and "isInvalidated (fst st)"
  shows "isInvalidated (fst (timed_send T m st))"
proof (cases m)
  case (ProcessResponse r c)
  have "isInvalidated (call_method c s)" if "isInvalidated s" for c s
    using that by (cases c) (auto simp: setTimeInterval_def invalidate_def single_defs invalidate_holder_def
        split: option.splits)
  then have "isInvalidated (fst (processResponse T r c st))"
    by (rule processResponse_invariant [where Q = isInvalidated, OF assms(1) _ _ assms(2)]) (auto simp: timer_of_def)
  with ProcessResponse show ?thesis
    by simp
next
  case TimedNextRequest
  with assms(2) show ?thesis by (cases st) (simp add: timed_nextRequest_def)
qed (use assms(2) in \<open>auto simp: setTimeInterval_def invalidate_def fireTrigger_def timerDidExpire_def
      readyForNextRequest_def invalidate_holder_def Let_def split: option.splits\<close>)

lemma timed_nextRequest_None:
  "\<not> shouldReturnRequest s \<or> isInvalidated s \<Longrightarrow> timed_nextRequest T (s, t) = (None, s, t)"
  by (auto simp: timed_nextRequest_def)

section \<open>Properties of ZMTimedSingleRequestSync\<close>

text \<open>The invariant that keeps the polling alive holds in every run.\<close>

lemma timed_run_inv:
  assumes "calls_methods T"
  shows "timed_inv (fst (run (timed_send T) (initTimedSingleRequestSync i, t) ms))"
proof (rule run_invariant [of "\<lambda>st. timed_inv (fst st)" "timed_send T"])
  show "timed_inv (fst (initTimedSingleRequestSync i, t))"
    by (simp add: initTimedSingleRequestSync_def timed_inv_def readyForNextRequest_def)
qed (rule timed_send_inv [OF assms])

text \<open>C18: polling never stalls. In every run of a \<^verbatim>\<open>ZMTimedSingleRequestSync\<close> that has not been
  invalidated, where the response callback of the transcoder may call any method of the sync but \<^verbatim>\<open>nextRequest\<close>
  (set the time interval, for instance, as the login and the self transcoder do), if the sync is currently holding back its request then
  either the dispatched block of its current, live timer holder has still to run or the expiry block is already enqueued.\<close>

theorem timed_sync_timer_pending:
  assumes "calls_methods T"
    and "run (timed_send T) (initTimedSingleRequestSync i, t) ms = (s, t')"
    and "\<not> isInvalidated s" and "\<not> shouldReturnRequest s"
  shows "timer_pending s"
  using timed_run_inv [OF assms(1), of i t ms] assms(2-) by (simp add: timed_inv_def)

lemmas timed_eval = timed_nextRequest_def nextRequest_def initTimedSingleRequestSync_def
  setTimeInterval_def invalidate_holder_def initWithTimedSingleRequest_def readyForNextRequest_def
  offering_def

lemma calls_methods_offering: "calls_methods (offering r)"
  unfolding calls_methods_def offering_def by (auto intro: exI [of _ "[]"])

text \<open>A transcoder like that of the login: a response makes it ask again after five seconds.\<close>

definition polling :: "unit timed_transcoder" where
  "polling = \<lparr>requestForSingleRequestSync = (\<lambda>_ t. (Some ping, t)),
     didReceiveResponse_forSingleRequest = (\<lambda>_ st. (setTimeInterval 5 (fst st), snd st))\<rparr>"

lemma calls_methods_polling: "calls_methods polling"
  unfolding calls_methods_def polling_def by (auto intro: exI [of _ "[CallSetTimeInterval 5]"])

definition polling_run :: "ZMTimedSingleRequestSync_msg list" where
  "polling_run = [TimedNextRequest, ProcessResponse failed_response 2, TimedNextRequest]"

theorem timed_sync_timer_pending_witness:
  "timer_pending (fst (run (timed_send polling) (initTimedSingleRequestSync 30, ()) polling_run))"
proof -
  let ?r = "run (timed_send polling) (initTimedSingleRequestSync 30, ()) polling_run"
  obtain s t' where r: "?r = (s, t')" by (rule prod.exhaust)
  have "\<not> isInvalidated (fst ?r) \<and> \<not> shouldReturnRequest (fst ?r)"
    by (simp add: polling_run_def polling_def failed_response_def processResponse_def timed_eval)
  with r have "\<not> isInvalidated s" and "\<not> shouldReturnRequest s" by simp_all
  from timed_sync_timer_pending [OF calls_methods_polling r this] show ?thesis
    by (simp only: r fst_conv)
qed

text \<open>\<^verbatim>\<open>invalidate\<close> is final. After it no message whatsoever, not even a timer that had already
  fired or a new time interval, makes the sync return a request again.\<close>

lemma invalidated_sync_never_returns_request:
  assumes "calls_methods T"
  shows "fst (timed_nextRequest T (run (timed_send T) (invalidate s, t) ms)) = None"
proof -
  have "isInvalidated (fst (run (timed_send T) (invalidate s, t) ms))"
  proof (rule run_invariant [of "\<lambda>st. isInvalidated (fst st)" "timed_send T"])
    show "isInvalidated (fst (invalidate s, t))"
      by (simp add: invalidate_def)
  qed (rule timed_send_invalidated [OF assms])
  then show ?thesis
    by (cases "run (timed_send T) (invalidate s, t) ms") (simp add: timed_nextRequest_None)
qed

lemma invalidated_sync_never_returns_request_example:
  "fst (timed_nextRequest (offering (Some ping)) (run (timed_send (offering (Some ping)))
     (invalidate (initTimedSingleRequestSync 30), ()) [SetTimeInterval 5, RunExpiry])) = None"
  using invalidated_sync_never_returns_request [OF calls_methods_offering, of "Some ping"
      "initTimedSingleRequestSync 30" "()" "[SetTimeInterval 5, RunExpiry]"] .

end
