(* ===== verification/Paginator.thy ===== *)
theory Paginator
  imports SingleRequest
begin

text \<open>
  \<^verbatim>\<open>ZMSimpleListRequestPaginator\<close>: downloads a list page by page through a \<^verbatim>\<open>ZMSingleRequestSync\<close> of
  which it is the transcoder. Its own client (\<^verbatim>\<open>ZMSimpleListRequestPaginatorSync\<close>) is a record of
  callbacks over the client's state \<open>'c\<close>; its optional methods are optional fields. The state of
  the object graph is the triple of the sync, the paginator and the client.
\<close>

section \<open>Query strings\<close>

fun string_of_nat :: "nat \<Rightarrow> string" where
  "string_of_nat n =
     (if n < 10 then [char_of (48 + n)] else string_of_nat (n div 10) @ [char_of (48 + n mod 10)])"

declare string_of_nat.simps [simp del]

text \<open>The string of an \<^verbatim>\<open>NSURLComponents\<close> with the given path and query items.\<close>

fun query_items :: "(string \<times> string) list \<Rightarrow> string" where
  "query_items [] = ''''"
| "query_items [(n, v)] = n @ ''='' @ v"
| "query_items ((n, v) # qs) = n @ ''='' @ v @ ''&'' @ query_items qs"

definition components_string :: "string \<Rightarrow> (string \<times> string) list \<Rightarrow> string" where
  "components_string path items = (if items = [] then path else path @ ''?'' @ query_items items)"

definition requestGetFromPath :: "string \<Rightarrow> ZMTransportRequest" where
  "requestGetFromPath path = \<lparr>req_method = MethodGET, req_path = path, req_payload = None\<rparr>"

section \<open>State and operations\<close>

record ZMSimpleListRequestPaginator =
  basePath :: NSString
  startKey :: NSString
  pageSize :: nat
  includeClientID :: bool
  hasMoreToFetch :: bool
  lastUUIDOfPreviousPage :: "NSUUID option"

record 'c ZMSimpleListRequestPaginatorSync =
  nextUUIDFromResponse :: "(ZMTransportResponse \<Rightarrow> 'c \<Rightarrow> NSUUID option \<times> 'c) option"
  startUUID :: "('c \<Rightarrow> NSUUID option) option"
  shouldParseErrorResponseForStatusCode :: "(int \<Rightarrow> bool) option"

text \<open>
  What the paginator takes from elsewhere: the transport string of a \<^verbatim>\<open>NSUUID\<close> and the remote
  identifier of the self client.
\<close>

record paginator_context =
  transportString :: "NSUUID \<Rightarrow> string"
  selfClientIdentifier :: "NSString option"

definition initPaginator :: "NSString \<Rightarrow> NSString \<Rightarrow> nat \<Rightarrow> bool \<Rightarrow> ZMSimpleListRequestPaginator" where
  "initPaginator path key count client =
     \<lparr>basePath = path, startKey = key, pageSize = count, includeClientID = client,
      hasMoreToFetch = False, lastUUIDOfPreviousPage = None\<rparr>"

definition paginator_queryItems ::
  "paginator_context \<Rightarrow> ZMSimpleListRequestPaginator \<Rightarrow> (string \<times> string) list" where
  "paginator_queryItems X p =
     [(''size'', string_of_nat (pageSize p))] @
     (case lastUUIDOfPreviousPage p of None \<Rightarrow> [] | Some u \<Rightarrow> [(startKey p, transportString X u)]) @
     (if includeClientID p
      then (case selfClientIdentifier X of None \<Rightarrow> [] | Some i \<Rightarrow> [(''client'', i)]) else [])"

definition paginator_requestForSingleRequestSync ::
  "paginator_context \<Rightarrow> ZMSimpleListRequestPaginator \<Rightarrow> ZMTransportRequest option" where
  "paginator_requestForSingleRequestSync X p =
     (if \<not> hasMoreToFetch p then None
      else Some (requestGetFromPath (components_string (basePath p) (paginator_queryItems X p))))"

definition updateStateWithResponse ::
  "'c ZMSimpleListRequestPaginatorSync \<Rightarrow> ZMTransportResponse option \<Rightarrow>
   ZMSimpleListRequestPaginator \<times> 'c \<Rightarrow> ZMSimpleListRequestPaginator \<times> 'c" where
  "updateStateWithResponse C response pc =
     (case pc of (p, c) \<Rightarrow>
        case response of
          None \<Rightarrow> (p\<lparr>hasMoreToFetch := False\<rparr>, c)
        | Some r \<Rightarrow>
            (case nextUUIDFromResponse C of
               Some next \<Rightarrow>
                 (case next r c of (u, c') \<Rightarrow>
                    (p\<lparr>hasMoreToFetch := boolValueForKey ''has_more'' (asDictionary (resp_payload r)),
                       lastUUIDOfPreviousPage := u\<rparr>, c'))
             | None \<Rightarrow> (p\<lparr>hasMoreToFetch := False\<rparr>, c)))"

definition paginator_didReceiveResponse ::
  "'c ZMSimpleListRequestPaginatorSync \<Rightarrow> ZMTransportResponse \<Rightarrow>
   ZMSingleRequestSync \<times> ZMSimpleListRequestPaginator \<times> 'c \<Rightarrow>
   ZMSingleRequestSync \<times> ZMSimpleListRequestPaginator \<times> 'c" where
  "paginator_didReceiveResponse C response st =
     (case st of (s, p, c) \<Rightarrow>
        if resp_result response = ZMTransportResponseStatusSuccess then
          (readyForNextRequest s, updateStateWithResponse C (Some response) (p, c))
        else if resp_result response = ZMTransportResponseStatusPermanentError then
          (case shouldParseErrorResponseForStatusCode C of
             Some f \<Rightarrow>
               if f (resp_HTTPStatus response)
               then (s, updateStateWithResponse C (Some response) (p, c))
               else (readyForNextRequest s, p\<lparr>hasMoreToFetch := False\<rparr>, c)
           | None \<Rightarrow> (readyForNextRequest s, p\<lparr>hasMoreToFetch := False\<rparr>, c))
        else (readyForNextRequest s, p, c))"

definition paginator_transcoder ::
  "paginator_context \<Rightarrow> 'c ZMSimpleListRequestPaginatorSync \<Rightarrow>
   (ZMSingleRequestSync, ZMSimpleListRequestPaginator \<times> 'c) ZMSingleRequestTranscoder" where
  "paginator_transcoder X C =
     \<lparr>requestForSingleRequestSync = (\<lambda>_ (p, c). (paginator_requestForSingleRequestSync X p, (p, c))),
      didReceiveResponse_forSingleRequest = paginator_didReceiveResponse C\<rparr>"

definition paginator_nextRequest ::
  "paginator_context \<Rightarrow> 'c ZMSimpleListRequestPaginatorSync \<Rightarrow>
   ZMSingleRequestSync \<times> ZMSimpleListRequestPaginator \<times> 'c \<Rightarrow>
   ZMTransportRequest option \<times> ZMSingleRequestSync \<times> ZMSimpleListRequestPaginator \<times> 'c" where
  "paginator_nextRequest X C st =
     (if \<not> hasMoreToFetch (fst (snd st)) then (None, st)
      else nextRequest (paginator_transcoder X C) st)"

definition resetFetching ::
  "'c ZMSimpleListRequestPaginatorSync \<Rightarrow>
   ZMSingleRequestSync \<times> ZMSimpleListRequestPaginator \<times> 'c \<Rightarrow>
   ZMSingleRequestSync \<times> ZMSimpleListRequestPaginator \<times> 'c" where
  "resetFetching C st =
     (case st of (s, p, c) \<Rightarrow>
        (readyForNextRequest s,
         p\<lparr>hasMoreToFetch := True,
           lastUUIDOfPreviousPage := (case startUUID C of None \<Rightarrow> None | Some f \<Rightarrow> f c)\<rparr>, c))"

datatype ZMSimpleListRequestPaginator_msg = PaginatorNextRequest | ResetFetching

primrec paginator_send ::
  "paginator_context \<Rightarrow> 'c ZMSimpleListRequestPaginatorSync \<Rightarrow> ZMSimpleListRequestPaginator_msg \<Rightarrow>
   ZMSingleRequestSync \<times> ZMSimpleListRequestPaginator \<times> 'c \<Rightarrow>
   ZMSingleRequestSync \<times> ZMSimpleListRequestPaginator \<times> 'c" where
  "paginator_send X C PaginatorNextRequest st = snd (paginator_nextRequest X C st)"
| "paginator_send X C ResetFetching st = resetFetching C st"

text \<open>
  The operation loop's exchange with a paginator: as long as it offers a request, send it and
  deliver the next response. The result is the list of requests that were sent.
\<close>

fun exchange ::
  "paginator_context \<Rightarrow> 'c ZMSimpleListRequestPaginatorSync \<Rightarrow> ZMTransportResponse list \<Rightarrow>
   ZMSingleRequestSync \<times> ZMSimpleListRequestPaginator \<times> 'c \<Rightarrow>
   ZMTransportRequest list \<times> ZMSingleRequestSync \<times> ZMSimpleListRequestPaginator \<times> 'c" where
  "exchange X C [] st = ([], st)"
| "exchange X C (r # rs) st =
     (case paginator_nextRequest X C st of
        (None, st') \<Rightarrow> ([], st')
      | (Some q, st') \<Rightarrow>
          (case exchange X C rs (processResponse (paginator_transcoder X C) r
                  (requestUniqueCounter (fst st')) st') of
             (qs, st'') \<Rightarrow> (q # qs, st'')))"

section \<open>Pagination\<close>

definition fetching :: "ZMSingleRequestSync \<times> ZMSimpleListRequestPaginator \<times> 'c \<Rightarrow> bool" where
  "fetching st \<longleftrightarrow> progress_of (fst st) = PWanted \<and> hasMoreToFetch (fst (snd st))"

definition has_more :: "ZMTransportResponse \<Rightarrow> bool" where
  "has_more r = boolValueForKey ''has_more'' (asDictionary (resp_payload r))"

text \<open>The identifiers the pages start at: the client's answer to each page starts the next one.\<close>

fun page_starts ::
  "(ZMTransportResponse \<Rightarrow> 'c \<Rightarrow> NSUUID option \<times> 'c) \<Rightarrow> NSUUID option \<Rightarrow> 'c \<Rightarrow>
   ZMTransportResponse list \<Rightarrow> NSUUID option list" where
  "page_starts next u c [] = []"
| "page_starts next u c (r # rs) = u # page_starts next (fst (next r c)) (snd (next r c)) rs"

definition page_request :: "paginator_context \<Rightarrow> ZMSimpleListRequestPaginator \<Rightarrow> NSUUID option \<Rightarrow>
    ZMTransportRequest" where
  "page_request X p u =
     requestGetFromPath (components_string (basePath p)
       (paginator_queryItems X (p\<lparr>lastUUIDOfPreviousPage := u\<rparr>)))"

lemma page_request_cong [simp]:
  "page_request X (p\<lparr>hasMoreToFetch := b\<rparr>) u = page_request X p u"
  "page_request X (p\<lparr>lastUUIDOfPreviousPage := v\<rparr>) u = page_request X p u"
  by (simp_all add: page_request_def paginator_queryItems_def split: option.splits)

lemma page_request_self:
  "paginator_requestForSingleRequestSync X p =
     (if hasMoreToFetch p then Some (page_request X p (lastUUIDOfPreviousPage p)) else None)"
  by (simp add: paginator_requestForSingleRequestSync_def page_request_def)

lemma fetching_next:
  assumes "fetching (s, p, c)"
  shows "paginator_nextRequest X C (s, p, c) =
    (Some (page_request X p (lastUUIDOfPreviousPage p)),
     s\<lparr>currentRequest := Some (page_request X p (lastUUIDOfPreviousPage p))\<rparr>, p, c)"
  using assms
  by (auto simp: fetching_def progress_of_def paginator_nextRequest_def nextRequest_def
      paginator_transcoder_def page_request_self
      split: ZMSingleRequestProgress.splits option.splits)

lemma success_response:
  assumes "resp_result r = ZMTransportResponseStatusSuccess"
    and "nextUUIDFromResponse C = Some next"
    and "c' = requestUniqueCounter s"
  shows "processResponse (paginator_transcoder X C) r c' (s, p, c) =
    (readyForNextRequest (s\<lparr>currentRequest := None, status := ZMSingleRequestCompleted\<rparr>),
     p\<lparr>hasMoreToFetch := has_more r, lastUUIDOfPreviousPage := fst (next r c)\<rparr>, snd (next r c))"
  using assms
  by (simp add: processResponse_def paginator_transcoder_def paginator_didReceiveResponse_def
      updateStateWithResponse_def has_more_def Let_def split: prod.splits)

lemma not_fetching_next:
  "\<not> hasMoreToFetch p \<Longrightarrow> paginator_nextRequest X C (s, p, c) = (None, s, p, c)"
  by (simp add: paginator_nextRequest_def)

lemma exchange_page:
  assumes "nextUUIDFromResponse C = Some next" and "resp_result r = ZMTransportResponseStatusSuccess" and "fetching (s, p, c)"
  shows "exchange X C (r # rs) (s, p, c) =
    (case exchange X C rs (readyForNextRequest (s\<lparr>currentRequest := None, status := ZMSingleRequestCompleted\<rparr>),
        p\<lparr>hasMoreToFetch := has_more r, lastUUIDOfPreviousPage := fst (next r c)\<rparr>, snd (next r c)) of
       (qs, st) \<Rightarrow> (page_request X p (lastUUIDOfPreviousPage p) # qs, st))"
  using fetching_next [OF assms(3)] success_response [OF assms(2,1), of "requestUniqueCounter s"
      "s\<lparr>currentRequest := Some (page_request X p (lastUUIDOfPreviousPage p))\<rparr>"]
  by simp

lemma exchange_pages:
  assumes "nextUUIDFromResponse C = Some next"
    and "\<forall>r \<in> set rs. resp_result r = ZMTransportResponseStatusSuccess"
    and "\<forall>r \<in> set (butlast rs). has_more r"
    and "fetching (s, p, c)"
  shows "fst (exchange X C rs (s, p, c)) =
      map (page_request X p) (page_starts next (lastUUIDOfPreviousPage p) c rs) \<and>
    hasMoreToFetch (fst (snd (snd (exchange X C rs (s, p, c))))) =
      (rs = [] \<or> has_more (last rs))"
  using assms(2-)
proof (induction rs arbitrary: s p c)
  case Nil
  then show ?case by (simp add: fetching_def)
next
  case (Cons r rs)
  let ?q = "page_request X p (lastUUIDOfPreviousPage p)"
  let ?s = "readyForNextRequest (s\<lparr>currentRequest := None, status := ZMSingleRequestCompleted\<rparr>)"
  let ?p = "p\<lparr>hasMoreToFetch := has_more r, lastUUIDOfPreviousPage := fst (next r c)\<rparr>"
  have step: "exchange X C (r # rs) (s, p, c) =
      (case exchange X C rs (?s, ?p, snd (next r c)) of (qs, st) \<Rightarrow> (?q # qs, st))"
    using exchange_page [OF assms(1) _ Cons.prems(3)] Cons.prems(1) by simp
  show ?case
  proof (cases "rs = []")
    case True
    with step show ?thesis by simp
  next
    case False
    with Cons.prems(2) have "fetching (?s, ?p, snd (next r c))"
      by (simp add: fetching_def progress_readyForNextRequest)
    from Cons.IH [OF _ _ this] Cons.prems(1,2) False step show ?thesis
      by (auto split: prod.splits)
  qed
qed

text \<open>What the pages do to the client of the paginator.\<close>

lemma exchange_client:
  assumes "nextUUIDFromResponse C = Some next"
    and "\<forall>r \<in> set rs. resp_result r = ZMTransportResponseStatusSuccess"
    and "\<forall>r \<in> set (butlast rs). has_more r"
    and "fetching (s, p, c)"
  shows "snd (snd (snd (exchange X C rs (s, p, c)))) = fold (\<lambda>r c. snd (next r c)) rs c"
  using assms(2-)
proof (induction rs arbitrary: s p c)
  case (Cons r rs)
  let ?q = "page_request X p (lastUUIDOfPreviousPage p)"
  let ?s = "readyForNextRequest (s\<lparr>currentRequest := None, status := ZMSingleRequestCompleted\<rparr>)"
  let ?p = "p\<lparr>hasMoreToFetch := has_more r, lastUUIDOfPreviousPage := fst (next r c)\<rparr>"
  have step: "exchange X C (r # rs) (s, p, c) =
      (case exchange X C rs (?s, ?p, snd (next r c)) of (qs, st) \<Rightarrow> (?q # qs, st))"
    using exchange_page [OF assms(1) _ Cons.prems(3)] Cons.prems(1) by simp
  show ?case
  proof (cases "rs = []")
    case True
    with step show ?thesis by simp
  next
    case False
    with Cons.prems(2) have "fetching (?s, ?p, snd (next r c))"
      by (simp add: fetching_def progress_readyForNextRequest)
    from Cons.IH [OF _ _ this] Cons.prems(1,2) False step show ?thesis
      by (auto split: prod.splits)
  qed
qed simp

lemma fetching_reset: "fetching (resetFetching C (s, p, c))"
  by (simp add: fetching_def resetFetching_def progress_readyForNextRequest)

section \<open>Properties of ZMSimpleListRequestPaginator\<close>

text \<open>C16: a full download. After \<^verbatim>\<open>resetFetching\<close>, if the backend answers successfully with pages
  that all say \<open>has_more\<close> except the last one, the paginator sends exactly one request per page,
  the first starting at the client's start identifier and each later one at the identifier the
  client derived from the page before, and afterwards it has nothing more to fetch and offers no
  request.\<close>

theorem paginator_downloads_all_pages:
  assumes "nextUUIDFromResponse C = Some next" and "startUUID C = Some start" and "rs \<noteq> []"
    and "\<forall>r \<in> set rs. resp_result r = ZMTransportResponseStatusSuccess"
    and "\<forall>r \<in> set (butlast rs). has_more r" and "\<not> has_more (last rs)"
    and "exchange X C rs (resetFetching C (s, p, c)) = (qs, s', p', c')"
  shows "qs = map (page_request X p) (page_starts next (start c) c rs) \<and>
    \<not> hasMoreToFetch p' \<and> fst (paginator_nextRequest X C (s', p', c')) = None"
proof -
  obtain t q where t: "resetFetching C (s, p, c) = (t, q, c)" and
    q: "lastUUIDOfPreviousPage q = start c" "page_request X q = page_request X p"
    using assms(2) by (force simp: resetFetching_def fun_eq_iff)
  from exchange_pages [OF assms(1,4,5), of t q c X] fetching_reset [of C s p c] t q assms(3,6,7)
  have "qs = map (page_request X p) (page_starts next (start c) c rs)" and "\<not> hasMoreToFetch p'"
    by simp_all
  then show ?thesis by (simp add: not_fetching_next)
qed

text \<open>A one-page and a two-page answer of the backend, for evaluation.\<close>

definition page :: "bool \<Rightarrow> ZMTransportResponse" where
  "page b = \<lparr>resp_result = ZMTransportResponseStatusSuccess, resp_HTTPStatus = 200,
     resp_payload = Some (JObj [(''has_more'', JBool b)]), resp_payloadLabel = None\<rparr>"

definition counting_client :: "nat ZMSimpleListRequestPaginatorSync" where
  "counting_client = \<lparr>nextUUIDFromResponse = Some (\<lambda>_ n. (Some (Suc n), Suc n)),
     startUUID = Some (\<lambda>n. Some n), shouldParseErrorResponseForStatusCode = Some (\<lambda>c. c = 404)\<rparr>"

lemma has_more_page [simp]: "has_more (page b) = b"
  by (simp add: has_more_def page_def boolValueForKey_def optionalValueForKey_def)

theorem paginator_downloads_all_pages_witness:
  "let X = \<lparr>transportString = string_of_nat, selfClientIdentifier = None\<rparr>;
       p = initPaginator ''/notifications'' ''since'' 500 True
   in fst (exchange X counting_client [page True, page False]
        (resetFetching counting_client (initWithSingleRequestTranscoder, p, 7))) =
      [page_request X p (Some 7), page_request X p (Some 8)]"
proof -
  let ?X = "\<lparr>transportString = string_of_nat, selfClientIdentifier = None\<rparr>"
  let ?p = "initPaginator ''/notifications'' ''since'' 500 True"
  let ?e = "exchange ?X counting_client [page True, page False]
        (resetFetching counting_client (initWithSingleRequestTranscoder, ?p, 7))"
  obtain qs s' p' c' where e: "?e = (qs, s', p', c')" by (metis prod.exhaust)
  have "qs = map (page_request ?X ?p) (page_starts (\<lambda>_ n. (Some (Suc n), Suc n)) (Some 7) 7
      [page True, page False])"
    using paginator_downloads_all_pages [of counting_client "\<lambda>_ n. (Some (Suc n), Suc n)"
        "\<lambda>n. Some n" "[page True, page False]", OF _ _ _ _ _ _ e]
    by (simp add: counting_client_def page_def [of True] page_def [of False] has_more_def
        boolValueForKey_def optionalValueForKey_def)
  then show ?thesis unfolding Let_def e by simp
qed

text \<open>An error page that the client wants parsed ends the download even when it announces more
  pages: the sync stays completed, so the paginator reports \<open>hasMoreToFetch\<close> as the page says but
  offers no request until the next \<^verbatim>\<open>resetFetching\<close>.\<close>

lemma parsed_error_page_stops_requests:
  assumes "resp_result r = ZMTransportResponseStatusPermanentError"
    and "shouldParseErrorResponseForStatusCode C = Some f" and "f (resp_HTTPStatus r)"
    and "nextUUIDFromResponse C = Some next"
    and "processResponse (paginator_transcoder X C) r (requestUniqueCounter s) (s, p, c) = (s', p', c')"
  shows "hasMoreToFetch p' = has_more r \<and> fst (paginator_nextRequest X C (s', p', c')) = None"
proof -
  have "s' = s\<lparr>currentRequest := None, status := ZMSingleRequestCompleted\<rparr>"
    and "p' = p\<lparr>hasMoreToFetch := has_more r, lastUUIDOfPreviousPage := fst (next r c)\<rparr>"
    using assms by (auto simp: processResponse_def paginator_transcoder_def has_more_def
        paginator_didReceiveResponse_def updateStateWithResponse_def Let_def split: prod.splits)
  then show ?thesis
    by (simp add: paginator_nextRequest_def nextRequest_def)
qed

lemma parsed_error_page_stops_requests_example:
  "let X = \<lparr>transportString = string_of_nat, selfClientIdentifier = None\<rparr>;
       p = initPaginator ''/notifications'' ''since'' 500 True;
       r = (page True)\<lparr>resp_result := ZMTransportResponseStatusPermanentError, resp_HTTPStatus := 404\<rparr>;
       st = snd (paginator_nextRequest X counting_client
              (resetFetching counting_client (initWithSingleRequestTranscoder, p, 7)));
       st' = processResponse (paginator_transcoder X counting_client) r
              (requestUniqueCounter (fst st)) st
   in hasMoreToFetch (fst (snd st')) \<and> fst (paginator_nextRequest X counting_client st') = None"
proof -
  let ?X = "\<lparr>transportString = string_of_nat, selfClientIdentifier = None\<rparr>"
  let ?p = "initPaginator ''/notifications'' ''since'' 500 True"
  let ?r = "(page True)\<lparr>resp_result := ZMTransportResponseStatusPermanentError, resp_HTTPStatus := 404\<rparr>"
  let ?st = "snd (paginator_nextRequest ?X counting_client
              (resetFetching counting_client (initWithSingleRequestTranscoder, ?p, 7)))"
  obtain s p c where st: "?st = (s, p, c)" by (metis prod.exhaust)
  obtain s' p' c' where st': "processResponse (paginator_transcoder ?X counting_client) ?r
      (requestUniqueCounter s) (s, p, c) = (s', p', c')" by (metis prod.exhaust)
  have "hasMoreToFetch p' = has_more ?r \<and>
      fst (paginator_nextRequest ?X counting_client (s', p', c')) = None"
    by (rule parsed_error_page_stops_requests [of _ _ "\<lambda>n. n = 404", OF _ _ _ _ st'])
      (simp_all add: counting_client_def)
  moreover have "has_more ?r"
    by (simp add: has_more_def page_def boolValueForKey_def optionalValueForKey_def)
  ultimately show ?thesis unfolding Let_def st fst_conv st' by simp
qed

end
