(* ===== verification/RemoteIdentifiers.thy ===== *)
theory RemoteIdentifiers
  imports Prelude
begin

text \<open>
  \<^verbatim>\<open>ZMRemoteIdentifierObjectSync\<close>: downloads the objects behind a set of remote identifiers, at most
  \<^verbatim>\<open>maximumRemoteIdentifiersPerRequest\<close> at a time. An \<^verbatim>\<open>NSUUID\<close> is a number here and the byte order
  the code sorts by is the order of numbers.
\<close>

section \<open>State and operations\<close>

record ZMRemoteIdentifierObjectSync =
  remoteIdentifiersThatNeedToBeDownloaded :: "NSUUID list"
  remoteIdentifiersInProgress :: "NSUUID list"

record 't ZMRemoteIdentifierObjectTranscoder =
  maximumRemoteIdentifiersPerRequestForObjectSync :: nat
  requestForObjectSync :: "NSUUID list \<Rightarrow> 't \<Rightarrow> ZMTransportRequest option \<times> 't"
  didReceiveResponse_remoteIdentifierObjectSync :: "ZMTransportResponse \<Rightarrow> NSUUID list \<Rightarrow> 't \<Rightarrow> 't"

definition initRemoteIdentifierObjectSync :: ZMRemoteIdentifierObjectSync where
  "initRemoteIdentifierObjectSync =
     \<lparr>remoteIdentifiersThatNeedToBeDownloaded = [], remoteIdentifiersInProgress = []\<rparr>"

definition sortIdentifiers :: "ZMRemoteIdentifierObjectSync \<Rightarrow> ZMRemoteIdentifierObjectSync" where
  "sortIdentifiers s =
     s\<lparr>remoteIdentifiersThatNeedToBeDownloaded := sort (remoteIdentifiersThatNeedToBeDownloaded s)\<rparr>"

definition setRemoteIdentifiersAsNeedingDownload ::
  "NSUUID list \<Rightarrow> ZMRemoteIdentifierObjectSync \<Rightarrow> ZMRemoteIdentifierObjectSync" where
  "setRemoteIdentifiersAsNeedingDownload ids s =
     sortIdentifiers (s\<lparr>remoteIdentifiersThatNeedToBeDownloaded := oset_union [] ids\<rparr>)"

definition addRemoteIdentifiersThatNeedDownload ::
  "NSUUID list \<Rightarrow> ZMRemoteIdentifierObjectSync \<Rightarrow> ZMRemoteIdentifierObjectSync" where
  "addRemoteIdentifiersThatNeedDownload ids s =
     (if set ids \<subseteq> set (remoteIdentifiersInProgress s) then s
      else sortIdentifiers (s\<lparr>remoteIdentifiersThatNeedToBeDownloaded :=
             oset_union (remoteIdentifiersThatNeedToBeDownloaded s) ids\<rparr>))"

definition isDone :: "ZMRemoteIdentifierObjectSync \<Rightarrow> bool" where
  "isDone s \<longleftrightarrow> remoteIdentifiersThatNeedToBeDownloaded s = [] \<and> remoteIdentifiersInProgress s = []"

definition remoteIdentifiersThatWillBeDownloaded :: "ZMRemoteIdentifierObjectSync \<Rightarrow> NSUUID list" where
  "remoteIdentifiersThatWillBeDownloaded s =
     oset_union (remoteIdentifiersThatNeedToBeDownloaded s) (remoteIdentifiersInProgress s)"

text \<open>The batch the next request is for, and the state after taking it.\<close>

definition take_batch ::
  "nat \<Rightarrow> ZMRemoteIdentifierObjectSync \<Rightarrow> NSUUID list \<times> ZMRemoteIdentifierObjectSync" where
  "take_batch maximum s =
     (let count = min maximum (length (remoteIdentifiersThatNeedToBeDownloaded s));
          ids = take count (remoteIdentifiersThatNeedToBeDownloaded s)
      in (ids, s\<lparr>remoteIdentifiersInProgress := oset_union (remoteIdentifiersInProgress s) ids,
                 remoteIdentifiersThatNeedToBeDownloaded :=
                   oset_minus (remoteIdentifiersThatNeedToBeDownloaded s) ids\<rparr>))"

text \<open>
  \<^verbatim>\<open>-nextRequest\<close>: no request, or a request with the batch its completion handler captures; a
  transcoder that builds no request fails the \<^verbatim>\<open>Require\<close>.
\<close>

definition remote_nextRequest ::
  "'t ZMRemoteIdentifierObjectTranscoder \<Rightarrow> ZMRemoteIdentifierObjectSync \<times> 't \<Rightarrow>
   objc_failure + ((ZMTransportRequest \<times> NSUUID list) option \<times> ZMRemoteIdentifierObjectSync \<times> 't)" where
  "remote_nextRequest T st =
     (case st of (s, t) \<Rightarrow>
        if remoteIdentifiersThatNeedToBeDownloaded s = [] then Inr (None, s, t)
        else
          case take_batch (maximumRemoteIdentifiersPerRequestForObjectSync T) s of
            (ids, s') \<Rightarrow>
              (case requestForObjectSync T ids t of
                 (None, t') \<Rightarrow> Inl AssertionFailure
               | (Some r, t') \<Rightarrow> Inr (Some (r, ids), s', t')))"

text \<open>The completion handler of the request for the batch \<open>ids\<close>.\<close>

definition remote_complete ::
  "'t ZMRemoteIdentifierObjectTranscoder \<Rightarrow> ZMTransportResponse \<Rightarrow> NSUUID list \<Rightarrow>
   ZMRemoteIdentifierObjectSync \<times> 't \<Rightarrow> ZMRemoteIdentifierObjectSync \<times> 't" where
  "remote_complete T response ids st =
     (case st of (s, t) \<Rightarrow>
        case resp_result response of
          ZMTransportResponseStatusPermanentError \<Rightarrow>
            (s\<lparr>remoteIdentifiersInProgress := oset_minus (remoteIdentifiersInProgress s) ids\<rparr>,
             didReceiveResponse_remoteIdentifierObjectSync T response ids t)
        | ZMTransportResponseStatusSuccess \<Rightarrow>
            (s\<lparr>remoteIdentifiersInProgress := oset_minus (remoteIdentifiersInProgress s) ids\<rparr>,
             didReceiveResponse_remoteIdentifierObjectSync T response ids t)
        | ZMTransportResponseStatusExpired \<Rightarrow> (s, t)
        | ZMTransportResponseStatusTemporaryError \<Rightarrow>
            (sortIdentifiers (s\<lparr>remoteIdentifiersThatNeedToBeDownloaded :=
                 oset_union (remoteIdentifiersThatNeedToBeDownloaded s) ids,
               remoteIdentifiersInProgress := oset_minus (remoteIdentifiersInProgress s) ids\<rparr>), t)
        | ZMTransportResponseStatusTryAgainLater \<Rightarrow>
            (sortIdentifiers (s\<lparr>remoteIdentifiersThatNeedToBeDownloaded :=
                 oset_union (remoteIdentifiersThatNeedToBeDownloaded s) ids,
               remoteIdentifiersInProgress := oset_minus (remoteIdentifiersInProgress s) ids\<rparr>), t))"

datatype (plugins only: code size) ZMRemoteIdentifierObjectSync_msg =
    SetRemoteIdentifiersAsNeedingDownload "NSUUID list"
  | AddRemoteIdentifiersThatNeedDownload "NSUUID list"
  | RemoteNextRequest
  | RemoteResponse ZMTransportResponse "NSUUID list"

text \<open>Delivery of a message; a failed assertion ends the run.\<close>

fun remote_send ::
  "'t ZMRemoteIdentifierObjectTranscoder \<Rightarrow> ZMRemoteIdentifierObjectSync_msg \<Rightarrow>
   objc_failure + (ZMRemoteIdentifierObjectSync \<times> 't) \<Rightarrow>
   objc_failure + (ZMRemoteIdentifierObjectSync \<times> 't)" where
  "remote_send T m (Inl e) = Inl e"
| "remote_send T (SetRemoteIdentifiersAsNeedingDownload ids) (Inr (s, t)) =
     Inr (setRemoteIdentifiersAsNeedingDownload ids s, t)"
| "remote_send T (AddRemoteIdentifiersThatNeedDownload ids) (Inr (s, t)) =
     Inr (addRemoteIdentifiersThatNeedDownload ids s, t)"
| "remote_send T RemoteNextRequest (Inr (s, t)) =
     (case remote_nextRequest T (s, t) of Inl e \<Rightarrow> Inl e | Inr (_, st) \<Rightarrow> Inr st)"
| "remote_send T (RemoteResponse r ids) (Inr (s, t)) = Inr (remote_complete T r ids (s, t))"

section \<open>Invariant\<close>

definition remote_inv :: "ZMRemoteIdentifierObjectSync \<Rightarrow> bool" where
  "remote_inv s \<longleftrightarrow>
     sorted (remoteIdentifiersThatNeedToBeDownloaded s) \<and>
     distinct (remoteIdentifiersThatNeedToBeDownloaded s) \<and>
     distinct (remoteIdentifiersInProgress s)"

lemma sorted_oset_minus: "sorted xs \<Longrightarrow> sorted (oset_minus xs ys)"
  by (simp add: oset_minus_def sorted_filter [of id, simplified])

lemma remote_inv_ops [inv_intros]:
  "remote_inv initRemoteIdentifierObjectSync"
  "remote_inv s \<Longrightarrow> remote_inv (setRemoteIdentifiersAsNeedingDownload ids s)"
  "remote_inv s \<Longrightarrow> remote_inv (addRemoteIdentifiersThatNeedDownload ids s)"
  "remote_inv s \<Longrightarrow> remote_inv (snd (take_batch n s))"
  "remote_inv s \<Longrightarrow> remote_inv (fst (remote_complete T r ids (s, t)))"
  by (auto simp: remote_inv_def initRemoteIdentifierObjectSync_def
      setRemoteIdentifiersAsNeedingDownload_def addRemoteIdentifiersThatNeedDownload_def
      take_batch_def remote_complete_def sortIdentifiers_def Let_def sorted_oset_minus
      split: ZMTransportResponseStatus.splits)

lemma remote_nextRequest_cases:
  assumes "remote_nextRequest T (s, t) = Inr (q, s', t')"
  obtains "q = None" "s' = s" "t' = t" "remoteIdentifiersThatNeedToBeDownloaded s = []"
  | r ids where "q = Some (r, ids)" "remoteIdentifiersThatNeedToBeDownloaded s \<noteq> []"
      "take_batch (maximumRemoteIdentifiersPerRequestForObjectSync T) s = (ids, s')"
  using assms by (auto simp: remote_nextRequest_def split: if_splits prod.splits option.splits)

lemma take_batch_ids:
  "fst (take_batch n s) = take n (remoteIdentifiersThatNeedToBeDownloaded s)"
  by (simp add: take_batch_def Let_def min_def)

lemma take_batch_need:
  "distinct (remoteIdentifiersThatNeedToBeDownloaded s) \<Longrightarrow>
   remoteIdentifiersThatNeedToBeDownloaded (snd (take_batch n s)) =
     drop n (remoteIdentifiersThatNeedToBeDownloaded s)"
proof -
  have *: "oset_minus xs (take n xs) = drop n xs" if "distinct xs" for xs :: "NSUUID list"
  proof -
    from that have "set (take n xs) \<inter> set (drop n xs) = {}"
      by (metis append_take_drop_id distinct_append)
    then have "filter (\<lambda>x. x \<notin> set (take n xs)) (take n xs) = []"
      and "filter (\<lambda>x. x \<notin> set (take n xs)) (drop n xs) = drop n xs"
      by (auto simp: filter_empty_conv intro: filter_True)
    then show ?thesis
      unfolding oset_minus_def by (metis append_Nil append_take_drop_id filter_append)
  qed
  assume "distinct (remoteIdentifiersThatNeedToBeDownloaded s)"
  then show ?thesis by (auto simp: take_batch_def Let_def min_def *)
qed

lemma will_be_downloaded_take_batch:
  "set (remoteIdentifiersThatWillBeDownloaded (snd (take_batch n s))) =
     set (remoteIdentifiersThatWillBeDownloaded s)"
  using set_take_subset [of n "remoteIdentifiersThatNeedToBeDownloaded s"]
  by (auto simp: remoteIdentifiersThatWillBeDownloaded_def take_batch_def Let_def min_def)

section \<open>Properties of ZMRemoteIdentifierObjectSync\<close>

text \<open>A request covers the smallest outstanding identifiers, at most as many as the transcoder
  allows and without repetition; they move to the identifiers in progress and exactly they leave the
  queue, which stays sorted and free of repetitions; nothing is lost from the identifiers that will
  be downloaded.\<close>

lemma remote_request_takes_prefix:
  assumes "remote_inv s" and "remote_nextRequest T (s, t) = Inr (Some (r, ids), s', t')"
  shows "ids = take (maximumRemoteIdentifiersPerRequestForObjectSync T)
        (remoteIdentifiersThatNeedToBeDownloaded s) \<and>
    length ids \<le> maximumRemoteIdentifiersPerRequestForObjectSync T \<and> sorted ids \<and> distinct ids \<and>
    remoteIdentifiersThatNeedToBeDownloaded s' =
      drop (maximumRemoteIdentifiersPerRequestForObjectSync T)
        (remoteIdentifiersThatNeedToBeDownloaded s) \<and>
    set ids \<subseteq> set (remoteIdentifiersInProgress s') \<and> remote_inv s' \<and>
    set (remoteIdentifiersThatWillBeDownloaded s') = set (remoteIdentifiersThatWillBeDownloaded s)"
proof -
  let ?n = "maximumRemoteIdentifiersPerRequestForObjectSync T"
  from assms(2) have batch: "take_batch ?n s = (ids, s')"
    by (auto elim: remote_nextRequest_cases)
  then have ids: "ids = take ?n (remoteIdentifiersThatNeedToBeDownloaded s)"
    using take_batch_ids [of ?n s] by simp
  have "sorted ids" "distinct ids"
    using assms(1) by (simp_all add: ids remote_inv_def)
  moreover have "set ids \<subseteq> set (remoteIdentifiersInProgress s')"
    using batch by (auto simp: take_batch_def Let_def)
  moreover have "remoteIdentifiersThatNeedToBeDownloaded s' =
      drop ?n (remoteIdentifiersThatNeedToBeDownloaded s)"
    using take_batch_need [of s ?n] assms(1) batch by (simp add: remote_inv_def)
  moreover have "remote_inv s'"
    using remote_inv_ops(4) [OF assms(1), of ?n] batch by simp
  moreover have "set (remoteIdentifiersThatWillBeDownloaded s') =
      set (remoteIdentifiersThatWillBeDownloaded s)"
    using will_be_downloaded_take_batch [of ?n s] batch by simp
  ultimately show ?thesis by (simp add: ids)
qed

definition users_transcoder :: "nat \<Rightarrow> unit ZMRemoteIdentifierObjectTranscoder" where
  "users_transcoder n =
     \<lparr>maximumRemoteIdentifiersPerRequestForObjectSync = n,
      requestForObjectSync = (\<lambda>ids t. (Some \<lparr>req_method = MethodGET, req_path = ''/users'', req_payload = None\<rparr>, t)),
      didReceiveResponse_remoteIdentifierObjectSync = (\<lambda>_ _ t. t)\<rparr>"

definition three_users :: ZMRemoteIdentifierObjectSync where
  "three_users = setRemoteIdentifiersAsNeedingDownload [9, 4, 7] initRemoteIdentifierObjectSync"

lemma three_users_eval:
  "three_users = \<lparr>remoteIdentifiersThatNeedToBeDownloaded = [4, 7, 9], remoteIdentifiersInProgress = []\<rparr>"
  by (simp add: three_users_def setRemoteIdentifiersAsNeedingDownload_def sortIdentifiers_def
      initRemoteIdentifierObjectSync_def oset_add_def)

lemma remote_request_takes_prefix_example:
  "\<exists>r s'. remote_nextRequest (users_transcoder 2) (three_users, ()) = Inr (Some (r, [4, 7]), s', ()) \<and>
     remoteIdentifiersThatNeedToBeDownloaded s' = [9] \<and>
     {4, 7} \<subseteq> set (remoteIdentifiersInProgress s')"
proof -
  obtain r s' where e: "remote_nextRequest (users_transcoder 2) (three_users, ()) =
      Inr (Some (r, [4, 7]), s', ())"
    by (auto simp: remote_nextRequest_def take_batch_def users_transcoder_def three_users_eval Let_def)
  have "remote_inv three_users"
    by (simp add: three_users_def inv_intros)
  from remote_request_takes_prefix [OF this e] e show ?thesis
    by (auto simp: users_transcoder_def three_users_eval)
qed

text \<open>C17: a batch that fails temporarily is not lost: after the response every identifier of the batch
  is queued again, none of them is counted as in progress, and the identifiers that will be downloaded
  are the same as before together with the batch; after a success or a permanent error the batch is
  no longer in progress and the transcoder has been given the response.\<close>

theorem remote_response_outcome:
  assumes "remote_complete T response ids (s, t) = (s', t')"
  shows "(resp_result response \<in> {ZMTransportResponseStatusTemporaryError, ZMTransportResponseStatusTryAgainLater} \<longrightarrow>
      set (remoteIdentifiersThatNeedToBeDownloaded s') =
        set (remoteIdentifiersThatNeedToBeDownloaded s) \<union> set ids \<and>
      set (remoteIdentifiersInProgress s') = set (remoteIdentifiersInProgress s) - set ids \<and>
      set (remoteIdentifiersThatWillBeDownloaded s') =
        set (remoteIdentifiersThatWillBeDownloaded s) \<union> set ids \<and> t' = t) \<and>
    (resp_result response \<in> {ZMTransportResponseStatusSuccess, ZMTransportResponseStatusPermanentError} \<longrightarrow>
      remoteIdentifiersThatNeedToBeDownloaded s' = remoteIdentifiersThatNeedToBeDownloaded s \<and>
      set (remoteIdentifiersInProgress s') = set (remoteIdentifiersInProgress s) - set ids \<and>
      t' = didReceiveResponse_remoteIdentifierObjectSync T response ids t)"
  using assms
  by (auto simp: remote_complete_def sortIdentifiers_def remoteIdentifiersThatWillBeDownloaded_def)

definition response_of :: "ZMTransportResponseStatus \<Rightarrow> ZMTransportResponse" where
  "response_of st = \<lparr>resp_result = st, resp_HTTPStatus = 0, resp_payload = None, resp_payloadLabel = None\<rparr>"

theorem remote_response_outcome_witness:
  "remoteIdentifiersThatNeedToBeDownloaded (fst (remote_complete (users_transcoder 2)
      (response_of ZMTransportResponseStatusTryAgainLater) [4, 7]
      (snd (take_batch 2 three_users), ()))) = [4, 7, 9] \<and>
   set (remoteIdentifiersInProgress (fst (remote_complete (users_transcoder 2)
      (response_of ZMTransportResponseStatusTryAgainLater) [4, 7]
      (snd (take_batch 2 three_users), ())))) = {}"
proof -
  let ?s = "snd (take_batch 2 three_users)"
  obtain s' t' where e: "remote_complete (users_transcoder 2)
      (response_of ZMTransportResponseStatusTryAgainLater) [4, 7] (?s, ()) = (s', t')"
    by (metis prod.exhaust)
  have s: "?s = \<lparr>remoteIdentifiersThatNeedToBeDownloaded = [9], remoteIdentifiersInProgress = [4, 7]\<rparr>"
    by (simp add: take_batch_def three_users_eval Let_def oset_add_def oset_minus_def)
  have "remoteIdentifiersThatNeedToBeDownloaded s' = [4, 7, 9]"
    using e by (auto simp: s remote_complete_def response_of_def sortIdentifiers_def oset_add_def)
  moreover have "set (remoteIdentifiersInProgress s') = {}"
    using remote_response_outcome [OF e] by (simp add: s response_of_def)
  ultimately show ?thesis using e by simp
qed

text \<open>
  The messages of a client that does not answer a batch containing \<open>x\<close>.
\<close>

fun unanswered :: "NSUUID \<Rightarrow> ZMRemoteIdentifierObjectSync_msg \<Rightarrow> bool" where
  "unanswered x (RemoteResponse r ids) \<longleftrightarrow> x \<notin> set ids"
| "unanswered x _ \<longleftrightarrow> True"

definition stuck :: "NSUUID \<Rightarrow> objc_failure + (ZMRemoteIdentifierObjectSync \<times> 't) \<Rightarrow> bool" where
  "stuck x st \<longleftrightarrow> (\<forall>s t. st = Inr (s, t) \<longrightarrow> x \<in> set (remoteIdentifiersInProgress s))"

lemma stuck_send:
  assumes "stuck x st" and "unanswered x m"
  shows "stuck x (remote_send T m st)"
  using assms
proof (cases "(T, m, st)" rule: remote_send.cases)
  case (4 T' s t)
  with assms show ?thesis
    by (auto simp: stuck_def remote_nextRequest_def take_batch_def Let_def
        split: sum.splits prod.splits option.splits if_splits)
qed (auto simp: stuck_def setRemoteIdentifiersAsNeedingDownload_def
      addRemoteIdentifiersThatNeedDownload_def sortIdentifiers_def remote_complete_def
      split: ZMTransportResponseStatus.splits)

text \<open>An expired request strands its batch. After the response \<^verbatim>\<open>Expired\<close> the identifiers of the
  batch are still counted as in progress, asking for them again has no effect, and in every later run
  in which no response for a batch with such an identifier arrives, \<^verbatim>\<open>isDone\<close> stays \<^verbatim>\<open>NO\<close>.\<close>

lemma expired_batch_is_stranded:
  assumes "set ids \<subseteq> set (remoteIdentifiersInProgress s)" and "x \<in> set ids"
    and "resp_result response = ZMTransportResponseStatusExpired"
    and "\<forall>m \<in> set ms. unanswered x m"
  shows "remote_complete T response ids (s, t) = (s, t) \<and>
    addRemoteIdentifiersThatNeedDownload ids s = s \<and>
    (\<forall>s' t'. run (remote_send T) (Inr (remote_complete T response ids (s, t))) ms = Inr (s', t') \<longrightarrow>
       \<not> isDone s')"
proof -
  have same: "remote_complete T response ids (s, t) = (s, t)"
    using assms(3) by (simp add: remote_complete_def)
  have "stuck x (Inr (s, t))"
    using assms(1,2) by (auto simp: stuck_def)
  then have "stuck x (run (remote_send T) (Inr (s, t)) ms)"
    using assms(4)
    by (intro run_invariant_guarded [of "stuck x" "unanswered x" "remote_send T"]) (auto intro: stuck_send)
  then have "\<not> isDone s'" if "run (remote_send T) (Inr (s, t)) ms = Inr (s', t')" for s' t'
    using that by (auto simp: stuck_def isDone_def)
  with same assms(1) show ?thesis
    by (simp add: addRemoteIdentifiersThatNeedDownload_def)
qed

lemma expired_batch_is_stranded_example:
  "let s = snd (take_batch 2 three_users) in
   remote_complete (users_transcoder 2) (response_of ZMTransportResponseStatusExpired) [4, 7] (s, ()) = (s, ()) \<and>
   addRemoteIdentifiersThatNeedDownload [4, 7] s = s"
proof -
  let ?s = "snd (take_batch 2 three_users)"
  have "set [4, 7] \<subseteq> set (remoteIdentifiersInProgress ?s)"
    by (simp add: take_batch_def three_users_eval Let_def)
  from expired_batch_is_stranded [OF this, of 4 "response_of ZMTransportResponseStatusExpired" "[]"
      "users_transcoder 2" "()"]
  show ?thesis by (simp add: Let_def response_of_def)
qed

end
