(* ===== verification/SessionState.thy ===== *)
theory SessionState
  imports Prelude
begin

text \<open>
  The data the session status objects share: error codes, credentials, the notifications they post,
  and the record \<open>session\<close> of the persistent store metadata, the cookie, the self user and the
  properties of \<^verbatim>\<open>ZMAuthenticationStatus\<close>, \<^verbatim>\<open>ZMClientRegistrationStatus\<close> and
  \<^verbatim>\<open>ZMUserProfileUpdateStatus\<close>. Objects that the code compares by pointer carry the address they were
  allocated at (\<open>nextAddress\<close>).
\<close>

section \<open>Errors (NSError+ZMUserSession)\<close>

datatype (plugins only: code size) ZMUserSessionErrorCode =
    ZMUserSessionNoError
  | ZMUserSessionUnkownError
  | ZMUserSessionNeedsCredentials
  | ZMUserSessionInvalidCredentials
  | ZMUserSessionAccountIsPendingActivation
  | ZMUserSessionNetworkError
  | ZMUserSessionEmailIsAlreadyRegistered
  | ZMUserSessionPhoneNumberIsAlreadyRegistered
  | ZMUserSessionInvalidPhoneNumber
  | ZMUserSessionInvalidEmail
  | ZMUserSessionInvalidPhoneNumberVerificationCode
  | ZMUserSessionRegistrationDidFailWithUnknownError
  | ZMUserSessionCodeRequestIsAlreadyPending
  | ZMUserSessionNeedsPasswordToRegisterClient
  | ZMUserSessionNeedsToRegisterEmailToRegisterClient
  | ZMUserSessionCanNotRegisterMoreClients
  | ZMUserSessionInvalidInvitationCode
  | ZMUserSessionAccountDeleted
  | ZMUserSessionClientDeletedRemotely

primrec error_code :: "ZMUserSessionErrorCode \<Rightarrow> nat" where
  "error_code ZMUserSessionNoError = 0"
| "error_code ZMUserSessionUnkownError = 1"
| "error_code ZMUserSessionNeedsCredentials = 2"
| "error_code ZMUserSessionInvalidCredentials = 3"
| "error_code ZMUserSessionAccountIsPendingActivation = 4"
| "error_code ZMUserSessionNetworkError = 5"
| "error_code ZMUserSessionEmailIsAlreadyRegistered = 6"
| "error_code ZMUserSessionPhoneNumberIsAlreadyRegistered = 7"
| "error_code ZMUserSessionInvalidPhoneNumber = 8"
| "error_code ZMUserSessionInvalidEmail = 9"
| "error_code ZMUserSessionInvalidPhoneNumberVerificationCode = 10"
| "error_code ZMUserSessionRegistrationDidFailWithUnknownError = 11"
| "error_code ZMUserSessionCodeRequestIsAlreadyPending = 12"
| "error_code ZMUserSessionNeedsPasswordToRegisterClient = 13"
| "error_code ZMUserSessionNeedsToRegisterEmailToRegisterClient = 14"
| "error_code ZMUserSessionCanNotRegisterMoreClients = 15"
| "error_code ZMUserSessionInvalidInvitationCode = 16"
| "error_code ZMUserSessionAccountDeleted = 17"
| "error_code ZMUserSessionClientDeletedRemotely = 18"

record NSError =
  err_domain :: NSString
  err_code :: nat
  err_userInfo :: "(NSString \<times> json) list"

definition ZMUserSessionErrorDomain :: NSString where
  "ZMUserSessionErrorDomain = ''ZMUserSession''"

definition ZMClientsKey :: NSString where
  "ZMClientsKey = ''clients''"

definition TypeMapping :: "(nat \<times> NSString) list" where
  "TypeMapping =
    [(error_code ZMUserSessionNoError, ''User session no error''),
     (error_code ZMUserSessionUnkownError, ''User session unkown error''),
     (error_code ZMUserSessionNeedsCredentials, ''User session needs credentials''),
     (error_code ZMUserSessionInvalidCredentials, ''User session invalid credentials''),
     (error_code ZMUserSessionAccountIsPendingActivation, ''User session account is pending activation''),
     (error_code ZMUserSessionNetworkError, ''User session network error''),
     (error_code ZMUserSessionEmailIsAlreadyRegistered, ''User session email is already registered''),
     (error_code ZMUserSessionRegistrationDidFailWithUnknownError,
        ''User session registration did fail with unknown error'')]"

text \<open>The loop over the table returns the name of the first entry with the code.\<close>

fun scan_TypeMapping :: "(nat \<times> NSString) list \<Rightarrow> nat \<Rightarrow> NSString option" where
  "scan_TypeMapping [] c = None"
| "scan_TypeMapping ((k, name) # ms) c = (if k = c then Some name else scan_TypeMapping ms c)"

definition LocalizedDescriptionStringFromZMUserSessionErrorCode ::
  "ZMUserSessionErrorCode \<Rightarrow> NSString option" where
  "LocalizedDescriptionStringFromZMUserSessionErrorCode c = scan_TypeMapping TypeMapping (error_code c)"

text \<open>\<^verbatim>\<open>userSessionErrorCode\<close> casts the code of a session error, so it is a raw number.\<close>

definition userSessionErrorCode :: "NSError \<Rightarrow> nat" where
  "userSessionErrorCode e =
     (if err_domain e \<noteq> ZMUserSessionErrorDomain then error_code ZMUserSessionNoError else err_code e)"

definition userSessionErrorWithErrorCode ::
  "ZMUserSessionErrorCode \<Rightarrow> (NSString \<times> json) list \<Rightarrow> NSError" where
  "userSessionErrorWithErrorCode c info =
     \<lparr>err_domain = ZMUserSessionErrorDomain, err_code = error_code c,
      err_userInfo =
        (case LocalizedDescriptionStringFromZMUserSessionErrorCode c of
           None \<Rightarrow> info
         | Some d \<Rightarrow> (''NSLocalizedDescription'', JStr d) # filter (\<lambda>(k, _). k \<noteq> ''NSLocalizedDescription'') info)\<rparr>"

definition has_label :: "ZMTransportResponse \<Rightarrow> NSString \<Rightarrow> bool" where
  "has_label r l \<longleftrightarrow> resp_payloadLabel r = Some l"

definition error_if :: "bool \<Rightarrow> ZMUserSessionErrorCode \<Rightarrow> NSError option" where
  "error_if b c = (if b then Some (userSessionErrorWithErrorCode c []) else None)"

definition pendingLoginErrorWithResponse :: "ZMTransportResponse \<Rightarrow> NSError option" where
  "pendingLoginErrorWithResponse r =
     error_if (resp_HTTPStatus r = 403 \<and> has_label r ''pending-login'') ZMUserSessionCodeRequestIsAlreadyPending"

definition unauthorizedErrorWithResponse :: "ZMTransportResponse \<Rightarrow> NSError option" where
  "unauthorizedErrorWithResponse r =
     error_if (resp_HTTPStatus r = 403 \<and> has_label r ''unauthorized'') ZMUserSessionInvalidPhoneNumber"

definition invalidPhoneVerificationCodeErrorWithResponse :: "ZMTransportResponse \<Rightarrow> NSError option" where
  "invalidPhoneVerificationCodeErrorWithResponse r =
     error_if (resp_HTTPStatus r = 404 \<and> has_label r ''invalid-code'')
       ZMUserSessionInvalidPhoneNumberVerificationCode"

definition invalidPhoneNumberErrorWithReponse :: "ZMTransportResponse \<Rightarrow> NSError option" where
  "invalidPhoneNumberErrorWithReponse r =
     error_if (resp_HTTPStatus r = 400 \<and> (has_label r ''invalid-phone'' \<or> has_label r ''bad-request''))
       ZMUserSessionInvalidPhoneNumber"

definition phoneNumberIsAlreadyRegisteredErrorWithResponse :: "ZMTransportResponse \<Rightarrow> NSError option" where
  "phoneNumberIsAlreadyRegisteredErrorWithResponse r =
     error_if (resp_HTTPStatus r = 409) ZMUserSessionPhoneNumberIsAlreadyRegistered"

definition invalidEmailWithResponse :: "ZMTransportResponse \<Rightarrow> NSError option" where
  "invalidEmailWithResponse r =
     error_if (resp_HTTPStatus r = 400 \<and> has_label r ''invalid-email'') ZMUserSessionInvalidEmail"

definition emailIsAlreadyRegisteredErrorWithResponse :: "ZMTransportResponse \<Rightarrow> NSError option" where
  "emailIsAlreadyRegisteredErrorWithResponse r =
     error_if (resp_HTTPStatus r = 409 \<and> has_label r ''key-exists'') ZMUserSessionEmailIsAlreadyRegistered"

definition invalidInvitationCodeWithResponse :: "ZMTransportResponse \<Rightarrow> NSError option" where
  "invalidInvitationCodeWithResponse r =
     error_if (resp_HTTPStatus r = 400 \<and> has_label r ''invalid-invitation-code'')
       ZMUserSessionInvalidInvitationCode"

text \<open>The factory methods of the category, in the order it declares them.\<close>

datatype (plugins only: code size) NSError_ZMUserSessionInternal =
    UserSessionError ZMUserSessionErrorCode "(NSString \<times> json) list"
  | PendingLoginError
  | UnauthorizedError
  | InvalidPhoneNumberError
  | PhoneNumberIsAlreadyRegisteredError
  | InvalidPhoneVerificationCodeError
  | InvalidEmail
  | EmailIsAlreadyRegisteredError
  | InvalidInvitationCode

primrec error_from_response :: "NSError_ZMUserSessionInternal \<Rightarrow> ZMTransportResponse \<Rightarrow> NSError option" where
  "error_from_response (UserSessionError c info) = (\<lambda>_. Some (userSessionErrorWithErrorCode c info))"
| "error_from_response PendingLoginError = pendingLoginErrorWithResponse"
| "error_from_response UnauthorizedError = unauthorizedErrorWithResponse"
| "error_from_response InvalidPhoneNumberError = invalidPhoneNumberErrorWithReponse"
| "error_from_response PhoneNumberIsAlreadyRegisteredError = phoneNumberIsAlreadyRegisteredErrorWithResponse"
| "error_from_response InvalidPhoneVerificationCodeError = invalidPhoneVerificationCodeErrorWithResponse"
| "error_from_response InvalidEmail = invalidEmailWithResponse"
| "error_from_response EmailIsAlreadyRegisteredError = emailIsAlreadyRegisteredErrorWithResponse"
| "error_from_response InvalidInvitationCode = invalidInvitationCodeWithResponse"

lemma error_code_inj: "error_code a = error_code b \<longleftrightarrow> a = b"
  by (cases a; cases b) simp_all

lemma userSessionErrorCode_of_session_error [simp]:
  "userSessionErrorCode (userSessionErrorWithErrorCode c info) = error_code c"
  "err_code (userSessionErrorWithErrorCode c info) = error_code c"
  by (simp_all add: userSessionErrorCode_def userSessionErrorWithErrorCode_def)

section \<open>Credentials\<close>

datatype credentials_class = ZMCredentialsClass | ZMPhoneCredentialsClass | ZMEmailCredentialsClass

record ZMCredentials =
  cred_address :: nat
  cred_class :: credentials_class
  email :: "NSString option"
  password :: "NSString option"
  phoneNumber :: "NSString option"
  phoneNumberVerificationCode :: "NSString option"

definition credentialWithEmail :: "ZMCredentials option \<Rightarrow> bool" where
  "credentialWithEmail c = (case c of None \<Rightarrow> False | Some c \<Rightarrow> email c \<noteq> None)"

definition credentialWithPhone :: "ZMCredentials option \<Rightarrow> bool" where
  "credentialWithPhone c = (case c of None \<Rightarrow> False | Some c \<Rightarrow> phoneNumber c \<noteq> None)"

text \<open>Pointer comparison of two object references.\<close>

definition same_credentials :: "ZMCredentials option \<Rightarrow> ZMCredentials option \<Rightarrow> bool" where
  "same_credentials a b \<longleftrightarrow> map_option cred_address a = map_option cred_address b"

definition credentialsWithPhoneNumber ::
  "(NSString \<Rightarrow> NSString) \<Rightarrow> nat \<Rightarrow> NSString \<Rightarrow> NSString \<Rightarrow> ZMCredentials" where
  "credentialsWithPhoneNumber validate address phone code =
     \<lparr>cred_address = address, cred_class = ZMPhoneCredentialsClass, email = None, password = None,
      phoneNumber = Some (validate phone),
      phoneNumberVerificationCode = Some code\<rparr>"

definition credentialsWithEmail ::
  "nat \<Rightarrow> NSString option \<Rightarrow> NSString option \<Rightarrow> ZMCredentials" where
  "credentialsWithEmail address e p =
     \<lparr>cred_address = address, cred_class = ZMEmailCredentialsClass, email = e, password = p,
      phoneNumber = None,
      phoneNumberVerificationCode = None\<rparr>"

text \<open>\<^verbatim>\<open>[object isKindOfClass:[self class]]\<close>: both subclasses derive from \<^verbatim>\<open>ZMCredentials\<close>.\<close>

definition isKindOfClass :: "credentials_class \<Rightarrow> credentials_class \<Rightarrow> bool" where
  "isKindOfClass c k \<longleftrightarrow> k = ZMCredentialsClass \<or> c = k"

text \<open>\<open>isEqual self object\<close>, with \<^verbatim>\<open>object\<close> possibly \<^verbatim>\<open>nil\<close>.\<close>

definition isEqual :: "ZMCredentials \<Rightarrow> ZMCredentials option \<Rightarrow> bool" where
  "isEqual self object =
     (case object of
        None \<Rightarrow> False
      | Some ob \<Rightarrow>
          if cred_address ob = cred_address self then True
          else if \<not> isKindOfClass (cred_class ob) (cred_class self) then False
          else email self = email ob \<and> password self = password ob \<and>
               phoneNumber self = phoneNumber ob \<and>
               phoneNumberVerificationCode self = phoneNumberVerificationCode ob)"

text \<open>The user a registration is for (a class of the data model).\<close>

record ZMCompleteRegistrationUser =
  ru_address :: nat
  ru_name :: "NSString option"
  ru_emailAddress :: "NSString option"
  ru_password :: "NSString option"
  ru_phoneNumber :: "NSString option"
  ru_phoneVerificationCode :: "NSString option"
  ru_invitationCode :: "NSString option"
  ru_accentColorValue :: int

section \<open>Notifications\<close>

datatype (plugins only: code size) ZMUserSessionAuthenticationNotificationType =
    ZMAuthenticationNotificationAuthenticationDidFail
  | ZMAuthenticationNotificationAuthenticationDidSuceeded
  | ZMAuthenticationNotificationLoginCodeRequestDidFail
  | ZMAuthenticationNotificationLoginCodeRequestDidSucceed

record ZMUserSessionAuthenticationNotification =
  auth_note_type :: ZMUserSessionAuthenticationNotificationType
  auth_note_error :: "NSError option"

datatype (plugins only: code size) ZMUserSessionRegistrationNotificationType =
    ZMRegistrationNotificationEmailVerificationDidSucceed
  | ZMRegistrationNotificationEmailVerificationDidFail
  | ZMRegistrationNotificationPhoneNumberVerificationDidSucceed
  | ZMRegistrationNotificationPhoneNumberVerificationDidFail
  | ZMRegistrationNotificationPhoneNumberVerificationCodeRequestDidFail
  | ZMRegistrationNotificationPhoneNumberVerificationCodeRequestDidSucceed
  | ZMRegistrationNotificationRegistrationDidFail

record ZMUserSessionRegistrationNotification =
  reg_note_type :: ZMUserSessionRegistrationNotificationType
  reg_note_error :: "NSError option"

datatype (plugins only: code size) ZMUserProfileUpdateNotificationType =
    ZMUserProfileNotificationPasswordUpdateDidFail
  | ZMUserProfileNotificationEmailUpdateDidFail
  | ZMUserProfileNotificationEmailDidSendVerification
  | ZMUserProfileNotificationPhoneNumberVerificationCodeRequestDidFail
  | ZMUserProfileNotificationPhoneNumberVerificationCodeRequestDidSucceed
  | ZMUserProfileNotificationPhoneNumberVerificationDidFail

record ZMUserProfileUpdateNotification =
  profile_note_type :: ZMUserProfileUpdateNotificationType
  profile_note_error :: "NSError option"

datatype (plugins only: code size) ZMClientUpdateNotificationType =
    ZMClientUpdateNotificationTypeFetchCompleted
  | ZMClientUpdateNotificationTypeFetchFailed
  | ZMClientUpdateNotificationTypeDeletionCompleted
  | ZMClientUpdateNotificationTypeDeletionFailed

record ZMClientUpdateNotification =
  client_note_error :: "NSError option"
  client_note_clientObjectIDs :: "ZMManagedObject list"
  client_note_type :: ZMClientUpdateNotificationType

text \<open>Everything the status objects send out, in order.\<close>

datatype (plugins only: code size) posted =
    AuthenticationNote ZMUserSessionAuthenticationNotification
  | RegistrationNote ZMUserSessionRegistrationNotification
  | ProfileUpdateNote ZMUserProfileUpdateNotification
  | ClientUpdateNote ZMClientUpdateNotification
  | AuthenticationCenterDataChange
  | VerificationEmailResendRequest
  | NotifyNewRequestsAvailable
  | DidRegisterUserClient ZMManagedObject
  | SetCookiesPolicyNever
  | SetCookiesPolicyAlways
  | DeletedAllKeychainItems
  | DeleteClientAndEndSession ZMManagedObject
  | DeleteAndCreateNewBox
  | MissesClients ZMManagedObject "ZMManagedObject list"
  | SetLocallyModifiedKeys ZMManagedObject "NSString list"
  | ResetLocallyModifiedKeys ZMManagedObject
  | SaveOrRollback

section \<open>The store, the self user and the status objects\<close>

record UserClient =
  uc_objectID :: ZMManagedObject
  uc_remoteIdentifier :: "NSString option"
  uc_ofSelfUser :: bool
  uc_isZombieObject :: bool
  uc_model :: NSString
  uc_deviceClass :: NSString
  uc_label :: NSString

record ZMAuthenticationStatus =
  registrationPhoneNumberThatNeedsAValidationCode :: "NSString option"
  loginPhoneNumberThatNeedsAValidationCode :: "NSString option"
  internalLoginCredentials :: "ZMCredentials option"
  registrationPhoneValidationCredentials :: "ZMCredentials option"
  internalRegistrationUser :: "ZMCompleteRegistrationUser option"
  isWaitingForEmailVerification :: bool
  duplicateRegistrationEmail :: bool
  duplicateRegistrationPhoneNumber :: bool
  isWaitingForLogin :: bool
  canClearCredentials :: bool

record ZMUserProfileUpdateStatus =
  phoneCredentialsToUpdate :: "ZMCredentials option"
  emailCredentialsToUpdate :: "ZMCredentials option"
  passwordToUpdate :: "NSString option"
  emailIsVerified :: bool
  passwordIsVerified :: bool

record ZMClientRegistrationStatus =
  isWaitingForClientsToBeDeleted :: bool
  isWaitingForUserClients :: bool
  isWaitingForCredentials :: bool
  cr_isWaitingForEmailVerification :: bool
  needsToCheckCredentials :: bool
  needsToVerifySelfClient :: bool
  clientUpdateToken :: bool
  tornDown :: bool

text \<open>\<open>metadata\<close> is the persistent store metadata, by key.\<close>

record session =
  metadata :: "NSString \<Rightarrow> json option"
  cookieData :: "NSData option"
  selfUser_remoteIdentifier :: "NSUUID option"
  selfUser_emailAddress :: "NSString option"
  userClients :: "UserClient list"
  auth :: ZMAuthenticationStatus
  profile :: ZMUserProfileUpdateStatus
  clientReg :: ZMClientRegistrationStatus
  posted :: "posted list"
  nextAddress :: nat

text \<open>What the session takes from the frameworks: the phone number validator, the data model's
  \<^verbatim>\<open>selfClient\<close> and fetch order, fresh UUID strings and the device.\<close>

record session_env =
  validatePhone :: "NSString \<Rightarrow> NSString"
  selfClientIn :: "session \<Rightarrow> ZMManagedObject option"
  sortedFetch :: "UserClient list \<Rightarrow> UserClient list"
  freshUUIDString :: "nat \<Rightarrow> NSString"
  zm_model :: NSString
  zm_classString :: NSString
  device_name :: NSString

definition post :: "posted \<Rightarrow> session \<Rightarrow> session" where
  "post n s = s\<lparr>posted := posted s @ [n]\<rparr>"

definition setPersistentStoreMetadata :: "NSString \<Rightarrow> json option \<Rightarrow> session \<Rightarrow> session" where
  "setPersistentStoreMetadata k v s = s\<lparr>metadata := (metadata s)(k := v)\<rparr>"

end
