(* ===== verification/Authentication.thy ===== *)
theory Authentication
  imports SessionState
begin

text \<open>
  \<^verbatim>\<open>ZMCookie\<close> and \<^verbatim>\<open>ZMAuthenticationStatus\<close>: the pending login or registration of the session,
  the phase computed from it, and every operation that changes it. A method that passes a missing
  error to \<^verbatim>\<open>NSCParameterAssert\<close> fails (\<open>Inl\<close>). Log and trace statements are not modelled.
\<close>

section \<open>The cookie\<close>

definition CookieLabelKey :: NSString where
  "CookieLabelKey = ''ZMCookieLabel''"

definition RegisteredOnThisDeviceKey :: NSString where
  "RegisteredOnThisDeviceKey = ''ZMRegisteredOnThisDevice''"

definition setLabel :: "NSString option \<Rightarrow> session \<Rightarrow> session" where
  "setLabel l = setPersistentStoreMetadata CookieLabelKey (map_option JStr l)"

text \<open>The label is created on first use; only strings are stored under its key.\<close>

definition cookie_label :: "session_env \<Rightarrow> session \<Rightarrow> NSString \<times> session" where
  "cookie_label env s =
     (let fresh = freshUUIDString env (nextAddress s);
          create = (fresh, setLabel (Some fresh) (s\<lparr>nextAddress := Suc (nextAddress s)\<rparr>))
      in case metadata s CookieLabelKey of
           Some (JStr l) \<Rightarrow> if length l = 0 then create else (l, s)
         | _ \<Rightarrow> create)"

definition deleteAllKeyChainItemsAndCookieLabels :: "session \<Rightarrow> session" where
  "deleteAllKeyChainItemsAndCookieLabels s =
     setLabel None ((post DeletedAllKeychainItems s)\<lparr>cookieData := None\<rparr>)"

text \<open>The messages of a cookie; the data is that of the cookie storage.\<close>

datatype (plugins only: code size) ZMCookie_msg =
    SetCookieLabel "NSString option"
  | CookieLabel
  | SetCookieData "NSData option"
  | DeleteAllKeyChainItemsAndCookieLabels

primrec ZMCookie_send :: "session_env \<Rightarrow> ZMCookie_msg \<Rightarrow> session \<Rightarrow> session" where
  "ZMCookie_send env (SetCookieLabel l) s = setLabel l s"
| "ZMCookie_send env CookieLabel s = snd (cookie_label env s)"
| "ZMCookie_send env (SetCookieData d) s = s\<lparr>cookieData := d\<rparr>"
| "ZMCookie_send env DeleteAllKeyChainItemsAndCookieLabels s = deleteAllKeyChainItemsAndCookieLabels s"

text \<open>Once asked for, the label stays the same until it is set or deleted.\<close>

lemma cookie_label_is_stable:
  assumes "cookie_label env s = (l, t)" and "\<And>n. freshUUIDString env n \<noteq> []"
  shows "cookie_label env t = (l, t) \<and> cookie_label env (ZMCookie_send env (SetCookieData d) t) = (l, ZMCookie_send env (SetCookieData d) t)"
proof -
  have "metadata t CookieLabelKey = Some (JStr l) \<and> l \<noteq> []"
    using assms by (auto simp: cookie_label_def setLabel_def setPersistentStoreMetadata_def Let_def split: option.splits json.splits if_splits)
  then show ?thesis by (simp add: cookie_label_def)
qed

section \<open>Notifications with an error\<close>

definition authenticationNote ::
  "ZMUserSessionAuthenticationNotificationType \<Rightarrow> NSError option \<Rightarrow> session \<Rightarrow> session" where
  "authenticationNote t e = post (AuthenticationNote \<lparr>auth_note_type = t, auth_note_error = e\<rparr>)"

definition registrationNote ::
  "ZMUserSessionRegistrationNotificationType \<Rightarrow> NSError option \<Rightarrow> session \<Rightarrow> session" where
  "registrationNote t e = post (RegistrationNote \<lparr>reg_note_type = t, reg_note_error = e\<rparr>)"

definition notifyAuthenticationDidFail :: "NSError option \<Rightarrow> session \<Rightarrow> objc_failure + session" where
  "notifyAuthenticationDidFail e s =
     (if e = None then Inl AssertionFailure
      else Inr (authenticationNote ZMAuthenticationNotificationAuthenticationDidFail e s))"

definition notifyLoginCodeRequestDidFail :: "NSError option \<Rightarrow> session \<Rightarrow> objc_failure + session" where
  "notifyLoginCodeRequestDidFail e s =
     (if e = None then Inl AssertionFailure
      else Inr (authenticationNote ZMAuthenticationNotificationLoginCodeRequestDidFail e s))"

definition notifyRegistrationDidFail :: "NSError option \<Rightarrow> session \<Rightarrow> objc_failure + session" where
  "notifyRegistrationDidFail e s =
     (if e = None then Inl AssertionFailure
      else Inr (registrationNote ZMRegistrationNotificationRegistrationDidFail e s))"

definition notifyPhoneNumberVerificationDidFail :: "NSError option \<Rightarrow> session \<Rightarrow> objc_failure + session" where
  "notifyPhoneNumberVerificationDidFail e s =
     (if e = None then Inl AssertionFailure
      else Inr (registrationNote ZMRegistrationNotificationPhoneNumberVerificationDidFail e s))"

definition notifyPhoneNumberVerificationCodeRequestDidFail ::
  "NSError option \<Rightarrow> session \<Rightarrow> objc_failure + session" where
  "notifyPhoneNumberVerificationCodeRequestDidFail e s =
     (if e = None then Inl AssertionFailure
      else Inr (registrationNote ZMRegistrationNotificationPhoneNumberVerificationCodeRequestDidFail e s))"

section \<open>State of the authentication\<close>

datatype (plugins only: code size) ZMAuthenticationPhase =
    ZMAuthenticationPhaseUnauthenticated
  | ZMAuthenticationPhaseLoginWithPhone
  | ZMAuthenticationPhaseLoginWithEmail
  | ZMAuthenticationPhaseRequestPhoneVerificationCodeForRegistration
  | ZMAuthenticationPhaseRequestPhoneVerificationCodeForLogin
  | ZMAuthenticationPhaseVerifyPhoneForRegistration
  | ZMAuthenticationPhaseRegisterWithEmail
  | ZMAuthenticationPhaseRegisterWithPhone
  | ZMAuthenticationPhaseWaitingForEmailVerification
  | ZMAuthenticationPhaseAuthenticated

definition isLoggedIn :: "session \<Rightarrow> bool" where
  "isLoggedIn s \<longleftrightarrow> cookieData s \<noteq> None"

definition initAuthenticationStatus :: "session \<Rightarrow> session" where
  "initAuthenticationStatus s =
     s\<lparr>auth := \<lparr>registrationPhoneNumberThatNeedsAValidationCode = None,
        loginPhoneNumberThatNeedsAValidationCode = None, internalLoginCredentials = None,
        registrationPhoneValidationCredentials = None, internalRegistrationUser = None,
        isWaitingForEmailVerification = False, duplicateRegistrationEmail = False,
        duplicateRegistrationPhoneNumber = False, isWaitingForLogin = \<not> isLoggedIn s,
        canClearCredentials = False\<rparr>\<rparr>"

definition loginCredentials :: "session \<Rightarrow> ZMCredentials option" where
  "loginCredentials s = internalLoginCredentials (auth s)"

definition registrationUser :: "session \<Rightarrow> ZMCompleteRegistrationUser option" where
  "registrationUser s = internalRegistrationUser (auth s)"

definition registrationUser_emailAddress :: "session \<Rightarrow> NSString option" where
  "registrationUser_emailAddress s = Option.bind (registrationUser s) ru_emailAddress"

definition setRegisteredOnThisDevice :: "bool \<Rightarrow> session \<Rightarrow> session" where
  "setRegisteredOnThisDevice b = setPersistentStoreMetadata RegisteredOnThisDeviceKey (Some (JBool b))"

definition registeredOnThisDevice :: "session \<Rightarrow> bool" where
  "registeredOnThisDevice s =
     (case metadata s RegisteredOnThisDeviceKey of Some (JBool b) \<Rightarrow> b | Some (JNum n) \<Rightarrow> n \<noteq> 0 | _ \<Rightarrow> False)"

definition setRegistrationUser :: "ZMCompleteRegistrationUser option \<Rightarrow> session \<Rightarrow> session" where
  "setRegistrationUser u s =
     (if map_option ru_address (internalRegistrationUser (auth s)) \<noteq> map_option ru_address u then
        post AuthenticationCenterDataChange
          (post (if Option.bind u ru_emailAddress \<noteq> None then SetCookiesPolicyNever else SetCookiesPolicyAlways)
            (s\<lparr>auth := (auth s)\<lparr>internalRegistrationUser := u\<rparr>\<rparr>))
      else s)"

definition setLoginCredentials :: "ZMCredentials option \<Rightarrow> session \<Rightarrow> session" where
  "setLoginCredentials c s =
     (if \<not> same_credentials c (internalLoginCredentials (auth s)) then
        post AuthenticationCenterDataChange
          (post SetCookiesPolicyAlways (s\<lparr>auth := (auth s)\<lparr>internalLoginCredentials := c\<rparr>\<rparr>))
      else s)"

definition resetLoginAndRegistrationStatus :: "session \<Rightarrow> session" where
  "resetLoginAndRegistrationStatus s =
     (let s1 = s\<lparr>auth := (auth s)\<lparr>registrationPhoneNumberThatNeedsAValidationCode := None,
            loginPhoneNumberThatNeedsAValidationCode := None, internalLoginCredentials := None,
            registrationPhoneValidationCredentials := None\<rparr>\<rparr>;
          s2 = setRegistrationUser None s1
      in s2\<lparr>auth := (auth s2)\<lparr>isWaitingForEmailVerification := False,
            duplicateRegistrationEmail := False, duplicateRegistrationPhoneNumber := False\<rparr>\<rparr>)"

definition currentPhase :: "session \<Rightarrow> ZMAuthenticationPhase" where
  "currentPhase s =
     (if isLoggedIn s then ZMAuthenticationPhaseAuthenticated
      else if isWaitingForEmailVerification (auth s) then ZMAuthenticationPhaseWaitingForEmailVerification
      else if registrationUser_emailAddress s \<noteq> None then ZMAuthenticationPhaseRegisterWithEmail
      else if Option.bind (registrationUser s) ru_phoneVerificationCode \<noteq> None \<or>
              Option.bind (registrationUser s) ru_invitationCode \<noteq> None
        then ZMAuthenticationPhaseRegisterWithPhone
      else if credentialWithEmail (internalLoginCredentials (auth s)) \<and> isWaitingForLogin (auth s)
        then ZMAuthenticationPhaseLoginWithEmail
      else if credentialWithPhone (internalLoginCredentials (auth s)) \<and> isWaitingForLogin (auth s)
        then ZMAuthenticationPhaseLoginWithPhone
      else if registrationPhoneNumberThatNeedsAValidationCode (auth s) \<noteq> None
        then ZMAuthenticationPhaseRequestPhoneVerificationCodeForRegistration
      else if loginPhoneNumberThatNeedsAValidationCode (auth s) \<noteq> None
        then ZMAuthenticationPhaseRequestPhoneVerificationCodeForLogin
      else if registrationPhoneValidationCredentials (auth s) \<noteq> None
        then ZMAuthenticationPhaseVerifyPhoneForRegistration
      else ZMAuthenticationPhaseUnauthenticated)"

definition needsCredentialsToLogin :: "session \<Rightarrow> bool" where
  "needsCredentialsToLogin s \<longleftrightarrow> \<not> isLoggedIn s \<and> loginCredentials s = None"

section \<open>Operations\<close>

text \<open>\<^verbatim>\<open>ZMEmailCredentials\<close> built from the registration user; the new object takes the next address.\<close>

definition registrationCredentials :: "session \<Rightarrow> ZMCredentials" where
  "registrationCredentials s =
     credentialsWithEmail (nextAddress s) (registrationUser_emailAddress s)
       (Option.bind (registrationUser s) ru_password)"

definition allocate :: "session \<Rightarrow> session" where
  "allocate s = s\<lparr>nextAddress := Suc (nextAddress s)\<rparr>"

definition prepareForLoginWithCredentials :: "ZMCredentials option \<Rightarrow> session \<Rightarrow> session" where
  "prepareForLoginWithCredentials c s =
     (let wasDuplicated = duplicateRegistrationPhoneNumber (auth s);
          s1 = resetLoginAndRegistrationStatus (setRegisteredOnThisDevice False s);
          s2 = (if wasDuplicated \<and> credentialWithPhone c
                then s1\<lparr>auth := (auth s1)\<lparr>duplicateRegistrationPhoneNumber := True\<rparr>\<rparr> else s1);
          s3 = setLoginCredentials c s2
      in s3\<lparr>auth := (auth s3)\<lparr>isWaitingForLogin := True\<rparr>\<rparr>)"

definition prepareForRegistrationOfUser :: "ZMCompleteRegistrationUser option \<Rightarrow> session \<Rightarrow> session" where
  "prepareForRegistrationOfUser u s =
     setRegistrationUser u (resetLoginAndRegistrationStatus
       (s\<lparr>cookieData := None, auth := (auth s)\<lparr>isWaitingForLogin := True\<rparr>\<rparr>))"

definition prepareForRequestingPhoneVerificationCodeForRegistration ::
  "session_env \<Rightarrow> NSString option \<Rightarrow> session \<Rightarrow> session" where
  "prepareForRequestingPhoneVerificationCodeForRegistration env phone s =
     (let s1 = resetLoginAndRegistrationStatus s
      in s1\<lparr>auth := (auth s1)\<lparr>registrationPhoneNumberThatNeedsAValidationCode :=
              map_option (validatePhone env) phone\<rparr>\<rparr>)"

definition prepareForRequestingPhoneVerificationCodeForLogin ::
  "session_env \<Rightarrow> NSString option \<Rightarrow> session \<Rightarrow> session" where
  "prepareForRequestingPhoneVerificationCodeForLogin env phone s =
     (let s1 = resetLoginAndRegistrationStatus s
      in s1\<lparr>auth := (auth s1)\<lparr>loginPhoneNumberThatNeedsAValidationCode :=
              map_option (validatePhone env) phone\<rparr>\<rparr>)"

definition prepareForRegistrationPhoneVerificationWithCredentials ::
  "ZMCredentials option \<Rightarrow> session \<Rightarrow> session" where
  "prepareForRegistrationPhoneVerificationWithCredentials c s =
     (let wasDuplicated = duplicateRegistrationPhoneNumber (auth s);
          s1 = resetLoginAndRegistrationStatus s;
          s2 = s1\<lparr>auth := (auth s1)\<lparr>duplicateRegistrationPhoneNumber := wasDuplicated\<rparr>\<rparr>
      in if wasDuplicated then setLoginCredentials c s2
         else s2\<lparr>auth := (auth s2)\<lparr>registrationPhoneValidationCredentials := c\<rparr>\<rparr>)"

text \<open>The \<^verbatim>\<open>code\<close> of a missing error is 0.\<close>

definition code_of :: "NSError option \<Rightarrow> nat" where
  "code_of e = (case e of None \<Rightarrow> 0 | Some e \<Rightarrow> err_code e)"

definition didFailRequestForPhoneRegistrationCode ::
  "NSError option \<Rightarrow> session \<Rightarrow> objc_failure + session" where
  "didFailRequestForPhoneRegistrationCode e s =
     (if code_of e = error_code ZMUserSessionPhoneNumberIsAlreadyRegistered then
        Inr (s\<lparr>auth := (auth s)\<lparr>duplicateRegistrationPhoneNumber := True,
               loginPhoneNumberThatNeedsAValidationCode :=
                 registrationPhoneNumberThatNeedsAValidationCode (auth s),
               registrationPhoneNumberThatNeedsAValidationCode := None\<rparr>\<rparr>)
      else notifyPhoneNumberVerificationCodeRequestDidFail e (resetLoginAndRegistrationStatus s))"

definition didCompleteRegistrationSuccessfully :: "session \<Rightarrow> session" where
  "didCompleteRegistrationSuccessfully s =
     (let s1 = setRegisteredOnThisDevice True s
      in if currentPhase s1 = ZMAuthenticationPhaseRegisterWithEmail then
           registrationNote ZMRegistrationNotificationEmailVerificationDidSucceed None
             (setRegistrationUser None
               (setLoginCredentials (Some (registrationCredentials s1)) (allocate s1)))
         else s1)"

definition didFailRegistrationWithDuplicatedEmail :: "session \<Rightarrow> session" where
  "didFailRegistrationWithDuplicatedEmail s =
     (let s1 = s\<lparr>auth := (auth s)\<lparr>duplicateRegistrationEmail := True\<rparr>\<rparr>
      in setLoginCredentials (Some (registrationCredentials s1)) (setRegistrationUser None (allocate s1)))"

definition didFailRegistrationForOtherReasons :: "NSError option \<Rightarrow> session \<Rightarrow> objc_failure + session" where
  "didFailRegistrationForOtherReasons e s = notifyRegistrationDidFail e (resetLoginAndRegistrationStatus s)"

definition didTimeoutLoginForCredentials :: "ZMCredentials option \<Rightarrow> session \<Rightarrow> session" where
  "didTimeoutLoginForCredentials c s =
     (if (currentPhase s = ZMAuthenticationPhaseLoginWithEmail \<or>
          currentPhase s = ZMAuthenticationPhaseLoginWithPhone) \<and> same_credentials (loginCredentials s) c
      then authenticationNote ZMAuthenticationNotificationAuthenticationDidFail
             (Some (userSessionErrorWithErrorCode ZMUserSessionNetworkError [])) (setLoginCredentials None s)
      else s)"

definition didCompletePhoneVerificationSuccessfully :: "session \<Rightarrow> session" where
  "didCompletePhoneVerificationSuccessfully s =
     registrationNote ZMRegistrationNotificationPhoneNumberVerificationDidSucceed None
       (resetLoginAndRegistrationStatus s)"

definition didFailPhoneVerificationForRegistration ::
  "NSError option \<Rightarrow> session \<Rightarrow> objc_failure + session" where
  "didFailPhoneVerificationForRegistration e s =
     notifyPhoneNumberVerificationDidFail e (resetLoginAndRegistrationStatus s)"

definition loginSucceed :: "session \<Rightarrow> session" where
  "loginSucceed s =
     (if isWaitingForLogin (auth s) then s\<lparr>auth := (auth s)\<lparr>isWaitingForLogin := False\<rparr>\<rparr> else s)"

definition login_error :: "bool \<Rightarrow> NSError" where
  "login_error invalidCredentials =
     userSessionErrorWithErrorCode
       (if invalidCredentials then ZMUserSessionInvalidCredentials else ZMUserSessionUnkownError) []"

definition didFailLoginWithPhone :: "bool \<Rightarrow> session \<Rightarrow> session" where
  "didFailLoginWithPhone invalidCredentials s =
     (let isDuplicated = duplicateRegistrationPhoneNumber (auth s);
          s1 = resetLoginAndRegistrationStatus s
      in if isDuplicated then
           registrationNote ZMRegistrationNotificationRegistrationDidFail
             (Some (userSessionErrorWithErrorCode ZMUserSessionPhoneNumberIsAlreadyRegistered [])) s1
         else authenticationNote ZMAuthenticationNotificationAuthenticationDidFail
                (Some (login_error invalidCredentials)) s1)"

definition didFailLoginWithEmail :: "bool \<Rightarrow> session \<Rightarrow> session" where
  "didFailLoginWithEmail invalidCredentials s =
     resetLoginAndRegistrationStatus
       (if duplicateRegistrationEmail (auth s) then
          registrationNote ZMRegistrationNotificationRegistrationDidFail
            (Some (userSessionErrorWithErrorCode ZMUserSessionEmailIsAlreadyRegistered [])) s
        else authenticationNote ZMAuthenticationNotificationAuthenticationDidFail
               (Some (login_error invalidCredentials)) s)"

definition didFailLoginWithEmailBecausePendingValidation :: "session \<Rightarrow> session" where
  "didFailLoginWithEmailBecausePendingValidation s =
     authenticationNote ZMAuthenticationNotificationAuthenticationDidFail
       (Some (userSessionErrorWithErrorCode ZMUserSessionAccountIsPendingActivation []))
       (s\<lparr>auth := (auth s)\<lparr>isWaitingForEmailVerification := True\<rparr>\<rparr>)"

definition cancelWaitingForEmailVerification :: "session \<Rightarrow> session" where
  "cancelWaitingForEmailVerification = resetLoginAndRegistrationStatus"

definition didCompleteRequestForPhoneRegistrationCodeSuccessfully :: "session \<Rightarrow> session" where
  "didCompleteRequestForPhoneRegistrationCodeSuccessfully s =
     registrationNote ZMRegistrationNotificationPhoneNumberVerificationCodeRequestDidSucceed None
       (s\<lparr>auth := (auth s)\<lparr>registrationPhoneNumberThatNeedsAValidationCode := None\<rparr>\<rparr>)"

definition setAuthenticationCookieData :: "NSData option \<Rightarrow> session \<Rightarrow> session" where
  "setAuthenticationCookieData d s = s\<lparr>cookieData := d\<rparr>"

definition didCompleteRequestForLoginCodeSuccessfully :: "session \<Rightarrow> session" where
  "didCompleteRequestForLoginCodeSuccessfully s =
     (let s1 = authenticationNote ZMAuthenticationNotificationLoginCodeRequestDidSucceed None s
      in s1\<lparr>auth := (auth s1)\<lparr>loginPhoneNumberThatNeedsAValidationCode := None\<rparr>\<rparr>)"

definition didFailRequestForLoginCode :: "NSError option \<Rightarrow> session \<Rightarrow> objc_failure + session" where
  "didFailRequestForLoginCode e s =
     notifyLoginCodeRequestDidFail e
       (s\<lparr>auth := (auth s)\<lparr>loginPhoneNumberThatNeedsAValidationCode := None\<rparr>\<rparr>)"

definition credentialsMayBeCleared :: "session \<Rightarrow> session" where
  "credentialsMayBeCleared s =
     (if currentPhase s = ZMAuthenticationPhaseAuthenticated then resetLoginAndRegistrationStatus s else s)"

text \<open>\<^verbatim>\<open>emailCredentials\<close> returns a new object, at an address no other object has.\<close>

definition auth_emailCredentials :: "session \<Rightarrow> ZMCredentials option" where
  "auth_emailCredentials s =
     (if credentialWithEmail (loginCredentials s) then
        Some (credentialsWithEmail (nextAddress s) (Option.bind (loginCredentials s) email)
               (Option.bind (loginCredentials s) password))
      else None)"

section \<open>Messages\<close>

datatype (plugins only: code size) ZMAuthenticationStatus_msg =
    SetAuthenticationCookieData "NSData option"
  | PrepareForRegistrationOfUser "ZMCompleteRegistrationUser option"
  | PrepareForLoginWithCredentials "ZMCredentials option"
  | CancelWaitingForEmailVerification
  | PrepareForRequestingPhoneVerificationCodeForRegistration "NSString option"
  | PrepareForRequestingPhoneVerificationCodeForLogin "NSString option"
  | PrepareForRegistrationPhoneVerificationWithCredentials "ZMCredentials option"
  | DidCompleteRegistrationSuccessfully
  | DidFailRegistrationWithDuplicatedEmail
  | DidFailRegistrationForOtherReasons "NSError option"
  | DidCompleteRequestForPhoneRegistrationCodeSuccessfully
  | DidFailRequestForPhoneRegistrationCode "NSError option"
  | DidCompleteRequestForLoginCodeSuccessfully
  | DidFailRequestForLoginCode "NSError option"
  | DidCompletePhoneVerificationSuccessfully
  | DidFailPhoneVerificationForRegistration "NSError option"
  | LoginSucceed
  | DidFailLoginWithPhone bool
  | DidFailLoginWithEmailBecausePendingValidation
  | DidFailLoginWithEmail bool
  | DidTimeoutLoginForCredentials "ZMCredentials option"
  | CredentialsMayBeCleared

primrec auth_send ::
  "session_env \<Rightarrow> ZMAuthenticationStatus_msg \<Rightarrow> session \<Rightarrow> objc_failure + session" where
  "auth_send env (SetAuthenticationCookieData d) s = Inr (setAuthenticationCookieData d s)"
| "auth_send env (PrepareForRegistrationOfUser u) s = Inr (prepareForRegistrationOfUser u s)"
| "auth_send env (PrepareForLoginWithCredentials c) s = Inr (prepareForLoginWithCredentials c s)"
| "auth_send env CancelWaitingForEmailVerification s = Inr (cancelWaitingForEmailVerification s)"
| "auth_send env (PrepareForRequestingPhoneVerificationCodeForRegistration p) s =
     Inr (prepareForRequestingPhoneVerificationCodeForRegistration env p s)"
| "auth_send env (PrepareForRequestingPhoneVerificationCodeForLogin p) s =
     Inr (prepareForRequestingPhoneVerificationCodeForLogin env p s)"
| "auth_send env (PrepareForRegistrationPhoneVerificationWithCredentials c) s =
     Inr (prepareForRegistrationPhoneVerificationWithCredentials c s)"
| "auth_send env DidCompleteRegistrationSuccessfully s = Inr (didCompleteRegistrationSuccessfully s)"
| "auth_send env DidFailRegistrationWithDuplicatedEmail s = Inr (didFailRegistrationWithDuplicatedEmail s)"
| "auth_send env (DidFailRegistrationForOtherReasons e) s = didFailRegistrationForOtherReasons e s"
| "auth_send env DidCompleteRequestForPhoneRegistrationCodeSuccessfully s =
     Inr (didCompleteRequestForPhoneRegistrationCodeSuccessfully s)"
| "auth_send env (DidFailRequestForPhoneRegistrationCode e) s = didFailRequestForPhoneRegistrationCode e s"
| "auth_send env DidCompleteRequestForLoginCodeSuccessfully s =
     Inr (didCompleteRequestForLoginCodeSuccessfully s)"
| "auth_send env (DidFailRequestForLoginCode e) s = didFailRequestForLoginCode e s"
| "auth_send env DidCompletePhoneVerificationSuccessfully s =
     Inr (didCompletePhoneVerificationSuccessfully s)"
| "auth_send env (DidFailPhoneVerificationForRegistration e) s = didFailPhoneVerificationForRegistration e s"
| "auth_send env LoginSucceed s = Inr (loginSucceed s)"
| "auth_send env (DidFailLoginWithPhone b) s = Inr (didFailLoginWithPhone b s)"
| "auth_send env DidFailLoginWithEmailBecausePendingValidation s =
     Inr (didFailLoginWithEmailBecausePendingValidation s)"
| "auth_send env (DidFailLoginWithEmail b) s = Inr (didFailLoginWithEmail b s)"
| "auth_send env (DidTimeoutLoginForCredentials c) s = Inr (didTimeoutLoginForCredentials c s)"
| "auth_send env CredentialsMayBeCleared s = Inr (credentialsMayBeCleared s)"

text \<open>A failed assertion ends the program: no later message is delivered.\<close>

definition auth_step ::
  "session_env \<Rightarrow> ZMAuthenticationStatus_msg \<Rightarrow> objc_failure + session \<Rightarrow> objc_failure + session" where
  "auth_step env m r = (case r of Inl e \<Rightarrow> Inl e | Inr s \<Rightarrow> auth_send env m s)"

section \<open>One pending activity at a time\<close>

text \<open>
  What the status can be busy with: a registration, a login with usable credentials, a code request
  for registration, a code request for login, a phone verification.
\<close>

definition activities :: "session \<Rightarrow> bool list" where
  "activities s =
     [internalRegistrationUser (auth s) \<noteq> None,
      credentialWithEmail (internalLoginCredentials (auth s)) \<or>
        credentialWithPhone (internalLoginCredentials (auth s)),
      registrationPhoneNumberThatNeedsAValidationCode (auth s) \<noteq> None,
      loginPhoneNumberThatNeedsAValidationCode (auth s) \<noteq> None,
      registrationPhoneValidationCredentials (auth s) \<noteq> None]"

definition exclusive :: "session \<Rightarrow> bool" where
  "exclusive s \<longleftrightarrow> length (filter (\<lambda>b. b) (activities s)) \<le> 1"

definition exclusive_result :: "objc_failure + session \<Rightarrow> bool" where
  "exclusive_result r = (case r of Inl _ \<Rightarrow> True | Inr s \<Rightarrow> exclusive s)"

lemmas auth_notes = post_def authenticationNote_def registrationNote_def
  notifyAuthenticationDidFail_def notifyLoginCodeRequestDidFail_def notifyRegistrationDidFail_def
  notifyPhoneNumberVerificationDidFail_def notifyPhoneNumberVerificationCodeRequestDidFail_def

lemma post_simps [simp]:
  "auth (post n s) = auth s" "cookieData (post n s) = cookieData s"
  "metadata (post n s) = metadata s" "nextAddress (post n s) = nextAddress s"
  "posted (post n s) = posted s @ [n]"
  by (simp_all add: post_def)

lemma note_auth [simp]:
  "auth (authenticationNote t e s) = auth s" "auth (registrationNote t' e s) = auth s"
  "cookieData (authenticationNote t e s) = cookieData s"
  "cookieData (registrationNote t' e s) = cookieData s"
  by (simp_all add: authenticationNote_def registrationNote_def)

lemma setRegistrationUser_None [simp]:
  "auth (setRegistrationUser None s) = (auth s)\<lparr>internalRegistrationUser := None\<rparr>"
  "cookieData (setRegistrationUser u s) = cookieData s"
  by (auto simp: setRegistrationUser_def)

lemma setLoginCredentials_auth:
  "auth (setLoginCredentials c s) = auth s \<or>
   auth (setLoginCredentials c s) = (auth s)\<lparr>internalLoginCredentials := c\<rparr>"
  by (simp add: setLoginCredentials_def)

lemma reset_auth [simp]:
  "auth (resetLoginAndRegistrationStatus s) =
     (auth s)\<lparr>registrationPhoneNumberThatNeedsAValidationCode := None,
       loginPhoneNumberThatNeedsAValidationCode := None, internalLoginCredentials := None,
       registrationPhoneValidationCredentials := None, internalRegistrationUser := None,
       isWaitingForEmailVerification := False, duplicateRegistrationEmail := False,
       duplicateRegistrationPhoneNumber := False\<rparr>"
  "cookieData (resetLoginAndRegistrationStatus s) = cookieData s"
  by (simp_all add: resetLoginAndRegistrationStatus_def Let_def)

lemma setPersistentStoreMetadata_simps [simp]:
  "auth (setPersistentStoreMetadata k v s) = auth s"
  "cookieData (setPersistentStoreMetadata k v s) = cookieData s"
  "auth (setRegisteredOnThisDevice b s) = auth s"
  "cookieData (setRegisteredOnThisDevice b s) = cookieData s"
  "auth (allocate s) = auth s" "cookieData (allocate s) = cookieData s"
  by (simp_all add: setPersistentStoreMetadata_def setRegisteredOnThisDevice_def allocate_def)

text \<open>Only the five pending values matter for exclusivity.\<close>

lemma exclusive_auth: "exclusive s \<longleftrightarrow> exclusive s'" if "auth s = auth s'"
  using that by (simp add: exclusive_def activities_def)

lemma exclusive_after_reset [inv_intros]: "exclusive (resetLoginAndRegistrationStatus s)"
  by (simp add: exclusive_def activities_def credentialWithEmail_def credentialWithPhone_def)

lemma exclusive_setLoginCredentials [inv_intros]:
  assumes "internalRegistrationUser (auth s) = None"
    and "registrationPhoneNumberThatNeedsAValidationCode (auth s) = None"
    and "loginPhoneNumberThatNeedsAValidationCode (auth s) = None"
    and "registrationPhoneValidationCredentials (auth s) = None"
  shows "exclusive (setLoginCredentials c s)"
  using assms setLoginCredentials_auth [of c s] by (auto simp: exclusive_def activities_def)

lemmas pending_defs = exclusive_def activities_def credentialWithEmail_def credentialWithPhone_def

lemma exclusive_prepare [inv_intros]:
  "exclusive (prepareForRegistrationOfUser u s)"
  "exclusive (prepareForLoginWithCredentials c s)"
  "exclusive (prepareForRequestingPhoneVerificationCodeForRegistration env p s)"
  "exclusive (prepareForRequestingPhoneVerificationCodeForLogin env p s)"
  "exclusive (prepareForRegistrationPhoneVerificationWithCredentials c s)"
  by (auto simp: pending_defs prepareForRegistrationOfUser_def prepareForLoginWithCredentials_def
      prepareForRequestingPhoneVerificationCodeForRegistration_def
      prepareForRequestingPhoneVerificationCodeForLogin_def
      prepareForRegistrationPhoneVerificationWithCredentials_def Let_def
      setRegistrationUser_def setLoginCredentials_def)

lemma exclusive_didCompleteRegistration [inv_intros]:
  "exclusive s \<Longrightarrow> exclusive (didCompleteRegistrationSuccessfully s)"
proof -
  assume excl: "exclusive s"
  let ?s = "setRegisteredOnThisDevice True s"
  show "exclusive (didCompleteRegistrationSuccessfully s)"
  proof (cases "currentPhase ?s = ZMAuthenticationPhaseRegisterWithEmail")
    case True
    then have "registrationUser_emailAddress ?s \<noteq> None"
      by (simp add: currentPhase_def split: if_splits)
    then have "internalRegistrationUser (auth s) \<noteq> None"
      by (cases "internalRegistrationUser (auth s)") (simp_all add: registrationUser_emailAddress_def registrationUser_def)
    with excl have none: "registrationPhoneNumberThatNeedsAValidationCode (auth s) = None"
      "loginPhoneNumberThatNeedsAValidationCode (auth s) = None" "registrationPhoneValidationCredentials (auth s) = None"
      by (simp_all add: exclusive_def activities_def split: if_splits)
    let ?c = "Some (registrationCredentials ?s)"
    have "auth (didCompleteRegistrationSuccessfully s) = (auth (setLoginCredentials ?c (allocate ?s)))\<lparr>internalRegistrationUser := None\<rparr>"
      using True by (simp add: didCompleteRegistrationSuccessfully_def Let_def)
    with none setLoginCredentials_auth [of ?c "allocate ?s"] show ?thesis
      by (elim disjE) (simp_all add: exclusive_def activities_def)
  next
    case False
    with excl show ?thesis
      by (simp add: didCompleteRegistrationSuccessfully_def Let_def exclusive_auth [of ?s s])
  qed
qed

lemma exclusive_didFailRegistrationWithDuplicatedEmail [inv_intros]:
  "exclusive s \<Longrightarrow> exclusive (didFailRegistrationWithDuplicatedEmail s)"
  by (auto simp: pending_defs didFailRegistrationWithDuplicatedEmail_def Let_def setLoginCredentials_def
      registrationCredentials_def credentialsWithEmail_def registrationUser_emailAddress_def
      registrationUser_def split: if_splits option.splits)

lemma exclusive_didTimeout [inv_intros]:
  "exclusive s \<Longrightarrow> exclusive (didTimeoutLoginForCredentials c s)"
  by (auto simp: pending_defs didTimeoutLoginForCredentials_def setLoginCredentials_def
      split: if_splits option.splits)

lemma exclusive_note [simp]:
  "exclusive (authenticationNote t e s) = exclusive s" "exclusive (registrationNote t' e s) = exclusive s"
  by (rule exclusive_auth, simp)+

lemma exclusive_ends_in_reset [inv_intros]:
  "exclusive (cancelWaitingForEmailVerification s)"
  "exclusive (didCompletePhoneVerificationSuccessfully s)"
  "exclusive (didFailLoginWithPhone b s)"
  "exclusive (didFailLoginWithEmail b s)"
  by (simp_all add: cancelWaitingForEmailVerification_def didCompletePhoneVerificationSuccessfully_def
      didFailLoginWithPhone_def didFailLoginWithEmail_def Let_def exclusive_after_reset)

lemma exclusive_clears_value [inv_intros]:
  assumes "exclusive s"
  shows "exclusive (didCompleteRequestForPhoneRegistrationCodeSuccessfully s)"
    and "exclusive (didCompleteRequestForLoginCodeSuccessfully s)"
    and "exclusive (s\<lparr>auth := (auth s)\<lparr>loginPhoneNumberThatNeedsAValidationCode := None\<rparr>\<rparr>)"
  using assms by (auto simp: exclusive_def activities_def Let_def
      didCompleteRequestForPhoneRegistrationCodeSuccessfully_def
      didCompleteRequestForLoginCodeSuccessfully_def split: if_splits)

lemma activities_kept [simp]:
  "activities (setAuthenticationCookieData d s) = activities s"
  "activities (loginSucceed s) = activities s"
  "activities (didFailLoginWithEmailBecausePendingValidation s) = activities s"
  by (simp_all add: activities_def setAuthenticationCookieData_def loginSucceed_def
      didFailLoginWithEmailBecausePendingValidation_def)

lemma exclusive_keeps_values [inv_intros]:
  assumes "exclusive s"
  shows "exclusive (setAuthenticationCookieData d s)"
    and "exclusive (loginSucceed s)"
    and "exclusive (didFailLoginWithEmailBecausePendingValidation s)"
  using assms by (simp_all add: exclusive_def)

lemma exclusive_credentialsMayBeCleared [inv_intros]:
  "exclusive s \<Longrightarrow> exclusive (credentialsMayBeCleared s)"
  by (simp add: credentialsMayBeCleared_def exclusive_after_reset)

lemma exclusive_result_Inr [simp]: "exclusive_result (Inr s) = exclusive s"
  by (simp add: exclusive_result_def)

lemma exclusive_result_Inl [simp]: "exclusive_result (Inl e)"
  by (simp add: exclusive_result_def)

lemma exclusive_notify [inv_intros]:
  assumes "exclusive s"
  shows "exclusive_result (notifyLoginCodeRequestDidFail e s)"
    and "exclusive_result (notifyRegistrationDidFail e s)"
    and "exclusive_result (notifyPhoneNumberVerificationDidFail e s)"
    and "exclusive_result (notifyPhoneNumberVerificationCodeRequestDidFail e s)"
  using assms by (simp_all add: notifyLoginCodeRequestDidFail_def notifyRegistrationDidFail_def
      notifyPhoneNumberVerificationDidFail_def notifyPhoneNumberVerificationCodeRequestDidFail_def)

lemma exclusive_didFail [inv_intros]:
  assumes "exclusive s"
  shows "exclusive_result (didFailRegistrationForOtherReasons e s)"
    and "exclusive_result (didFailPhoneVerificationForRegistration e s)"
    and "exclusive_result (didFailRequestForLoginCode e s)"
  unfolding didFailRegistrationForOtherReasons_def didFailPhoneVerificationForRegistration_def
    didFailRequestForLoginCode_def
  by (intro inv_intros assms)+

lemma exclusive_didFailRequestForPhoneRegistrationCode [inv_intros]:
  assumes "exclusive s"
  shows "exclusive_result (didFailRequestForPhoneRegistrationCode e s)"
proof (cases "code_of e = error_code ZMUserSessionPhoneNumberIsAlreadyRegistered")
  case True
  then show ?thesis
    using assms by (auto simp: didFailRequestForPhoneRegistrationCode_def exclusive_def activities_def
        split: if_splits)
next
  case False
  then show ?thesis
    by (simp add: didFailRequestForPhoneRegistrationCode_def exclusive_notify exclusive_after_reset)
qed

lemma exclusive_send: "exclusive s \<Longrightarrow> exclusive_result (auth_send env m s)"
  by (cases m) (simp_all add: inv_intros)

lemma exclusive_step: "exclusive_result r \<Longrightarrow> exclusive_result (auth_step env m r)"
  by (cases r) (simp_all add: auth_step_def exclusive_send)

interpretation authentication: component "auth_step env" exclusive_result for env
  by unfold_locales (rule exclusive_step)

section \<open>Sample data\<close>

definition blank_session :: session where
  "blank_session =
     \<lparr>metadata = (\<lambda>_. None), cookieData = None, selfUser_remoteIdentifier = None,
      selfUser_emailAddress = None, userClients = [],
      auth = \<lparr>registrationPhoneNumberThatNeedsAValidationCode = None,
        loginPhoneNumberThatNeedsAValidationCode = None, internalLoginCredentials = None,
        registrationPhoneValidationCredentials = None, internalRegistrationUser = None,
        isWaitingForEmailVerification = False, duplicateRegistrationEmail = False,
        duplicateRegistrationPhoneNumber = False, isWaitingForLogin = True, canClearCredentials = False\<rparr>,
      profile = \<lparr>phoneCredentialsToUpdate = None, emailCredentialsToUpdate = None,
        passwordToUpdate = None, emailIsVerified = False, passwordIsVerified = False\<rparr>,
      clientReg = \<lparr>isWaitingForClientsToBeDeleted = False, isWaitingForUserClients = False,
        isWaitingForCredentials = False, cr_isWaitingForEmailVerification = False,
        needsToCheckCredentials = False, needsToVerifySelfClient = False, clientUpdateToken = True,
        tornDown = False\<rparr>,
      posted = [], nextAddress = 10\<rparr>"

definition plain_env :: session_env where
  "plain_env = \<lparr>validatePhone = filter (\<lambda>c. c \<noteq> CHR ''-''), selfClientIn = (\<lambda>_. None),
     sortedFetch = (\<lambda>cs. cs), freshUUIDString = (\<lambda>n. replicate n CHR ''u''), zm_model = ''iPhone'',
     zm_classString = ''phone'', device_name = ''My phone''\<rparr>"

definition mail_user :: ZMCompleteRegistrationUser where
  "mail_user = \<lparr>ru_address = 1, ru_name = Some ''Ann'', ru_emailAddress = Some ''a@x'',
     ru_password = Some ''pw'', ru_phoneNumber = None, ru_phoneVerificationCode = None,
     ru_invitationCode = None, ru_accentColorValue = 1\<rparr>"

definition mail_login :: ZMCredentials where
  "mail_login = credentialsWithEmail 2 (Some ''b@x'') (Some ''pw'')"

definition phone_login :: ZMCredentials where
  "phone_login = credentialsWithPhoneNumber (validatePhone plain_env) 3 ''+49-1'' ''123''"

lemmas samples = blank_session_def plain_env_def mail_user_def mail_login_def phone_login_def
  credentialsWithEmail_def credentialsWithPhoneNumber_def

section \<open>Properties\<close>

lemma exclusive_init: "exclusive (initAuthenticationStatus s)"
  by (simp add: pending_defs initAuthenticationStatus_def)

text \<open>C2: However the user interface and the transcoders drive the authentication status, at most one
  of its activities is pending: a registration, a login with usable credentials, a request for a
  registration code, a request for a login code, or a phone verification.\<close>

theorem authentication_activities_exclusive:
  assumes "run (auth_step env) (Inr (initAuthenticationStatus s0)) ms = Inr s"
  shows "length (filter (\<lambda>b. b) (activities s)) \<le> 1"
proof -
  have "exclusive_result (run (auth_step env) (Inr (initAuthenticationStatus s0)) ms)"
    by (rule authentication.run_invar) (simp add: exclusive_init)
  then show ?thesis
    by (simp add: assms exclusive_def)
qed

definition sample_run :: "ZMAuthenticationStatus_msg list" where
  "sample_run = [PrepareForRegistrationOfUser (Some mail_user), DidFailRegistrationWithDuplicatedEmail]"

lemma sample_run_returns:
  "\<exists>s. run (auth_step plain_env) (Inr (initAuthenticationStatus blank_session)) sample_run = Inr s"
  by (simp add: sample_run_def auth_step_def)

theorem authentication_activities_exclusive_witness:
  "\<exists>s. run (auth_step plain_env) (Inr (initAuthenticationStatus blank_session)) sample_run = Inr s \<and>
     length (filter (\<lambda>b. b) (activities s)) \<le> 1"
  using sample_run_returns authentication_activities_exclusive by blast

lemmas auth_state = currentPhase_def isLoggedIn_def registrationUser_emailAddress_def
  registrationUser_def loginCredentials_def credentialWithEmail_def credentialWithPhone_def

lemma prepareForRegistrationOfUser_auth:
  "auth (prepareForRegistrationOfUser (Some u) s) =
     (auth (resetLoginAndRegistrationStatus s))\<lparr>internalRegistrationUser := Some u, isWaitingForLogin := True\<rparr>"
  "cookieData (prepareForRegistrationOfUser (Some u) s) = None"
  by (simp_all add: prepareForRegistrationOfUser_def setRegistrationUser_def)

lemma duplicatedEmail_auth:
  assumes "internalLoginCredentials (auth s) = None"
  shows "auth (didFailRegistrationWithDuplicatedEmail s) =
     (auth s)\<lparr>internalRegistrationUser := None, duplicateRegistrationEmail := True,
       internalLoginCredentials := Some (registrationCredentials s)\<rparr>"
    and "cookieData (didFailRegistrationWithDuplicatedEmail s) = cookieData s"
  using assms by (simp_all add: didFailRegistrationWithDuplicatedEmail_def Let_def setLoginCredentials_def
      same_credentials_def registrationCredentials_def registrationUser_emailAddress_def
      registrationUser_def)

lemma reset_posts_nothing:
  "internalRegistrationUser (auth s) = None \<Longrightarrow> posted (resetLoginAndRegistrationStatus s) = posted s"
  by (simp add: resetLoginAndRegistrationStatus_def setRegistrationUser_def Let_def)

lemma phase_after_reset:
  "cookieData s = None \<Longrightarrow>
   currentPhase (resetLoginAndRegistrationStatus s) = ZMAuthenticationPhaseUnauthenticated"
  by (simp add: auth_state)

lemma duplicate_login_failure:
  assumes "duplicateRegistrationEmail (auth s)" and "internalRegistrationUser (auth s) = None"
    and "cookieData s = None"
  shows "currentPhase (didFailLoginWithEmail b s) = ZMAuthenticationPhaseUnauthenticated"
    and "posted (didFailLoginWithEmail b s) = posted s @ [RegistrationNote
           \<lparr>reg_note_type = ZMRegistrationNotificationRegistrationDidFail,
            reg_note_error = Some (userSessionErrorWithErrorCode ZMUserSessionEmailIsAlreadyRegistered [])\<rparr>]"
  using assms by (simp_all add: didFailLoginWithEmail_def phase_after_reset reset_posts_nothing)
    (simp add: registrationNote_def)

text \<open>When the server reports that the e-mail address of a registration is taken, the status turns
  the registration into a login with the same address and password; if that login fails, the user is
  told that the address is already registered, and the status is idle again.\<close>

lemma duplicate_email_becomes_login:
  assumes "ru_emailAddress u = Some e" and "ru_password u = Some p"
    and s1: "s1 = prepareForRegistrationOfUser (Some u) s"
    and s2: "s2 = didFailRegistrationWithDuplicatedEmail s1"
  shows "currentPhase s1 = ZMAuthenticationPhaseRegisterWithEmail \<and>
    currentPhase s2 = ZMAuthenticationPhaseLoginWithEmail \<and>
    map_option (\<lambda>c. (email c, password c)) (loginCredentials s2) = Some (Some e, Some p) \<and>
    currentPhase (didFailLoginWithEmail b s2) = ZMAuthenticationPhaseUnauthenticated \<and>
    posted (didFailLoginWithEmail b s2) = posted s2 @ [RegistrationNote
      \<lparr>reg_note_type = ZMRegistrationNotificationRegistrationDidFail,
       reg_note_error = Some (userSessionErrorWithErrorCode ZMUserSessionEmailIsAlreadyRegistered [])\<rparr>]"
proof -
  note p1 = prepareForRegistrationOfUser_auth [of u s, folded s1]
  have l1: "internalLoginCredentials (auth s1) = None" by (simp add: p1)
  note p2 = duplicatedEmail_auth [OF l1, folded s2]
  have phase1: "currentPhase s1 = ZMAuthenticationPhaseRegisterWithEmail"
    by (simp add: auth_state p1 assms(1))
  have creds: "registrationCredentials s1 = credentialsWithEmail (nextAddress s1) (Some e) (Some p)"
    by (simp add: registrationCredentials_def registrationUser_emailAddress_def registrationUser_def p1 assms(1,2))
  have phase2: "currentPhase s2 = ZMAuthenticationPhaseLoginWithEmail"
    by (simp add: auth_state p1 p2 creds credentialsWithEmail_def)
  have login: "map_option (\<lambda>c. (email c, password c)) (loginCredentials s2) = Some (Some e, Some p)"
    by (simp add: loginCredentials_def p2 creds credentialsWithEmail_def)
  show ?thesis
    using phase1 phase2 login duplicate_login_failure [of s2 b] by (simp add: p1 p2)
qed

lemma duplicate_email_becomes_login_example:
  "currentPhase (didFailRegistrationWithDuplicatedEmail
     (prepareForRegistrationOfUser (Some mail_user) blank_session)) = ZMAuthenticationPhaseLoginWithEmail"
  using duplicate_email_becomes_login [of mail_user "''a@x''" "''pw''" _ blank_session]
  by (simp add: mail_user_def)

text \<open>The login timeout of some credentials ends the login only while a login with exactly that
  credentials object is pending; it then leaves the status idle and reports a network error. In every
  other state the timeout changes nothing.\<close>

lemma timeout_ends_only_its_login:
  assumes "exclusive s"
  shows "if (currentPhase s = ZMAuthenticationPhaseLoginWithEmail \<or>
             currentPhase s = ZMAuthenticationPhaseLoginWithPhone) \<and> same_credentials (loginCredentials s) c
     then currentPhase (didTimeoutLoginForCredentials c s) = ZMAuthenticationPhaseUnauthenticated \<and>
       last (posted (didTimeoutLoginForCredentials c s)) = AuthenticationNote
         \<lparr>auth_note_type = ZMAuthenticationNotificationAuthenticationDidFail,
          auth_note_error = Some (userSessionErrorWithErrorCode ZMUserSessionNetworkError [])\<rparr>
     else didTimeoutLoginForCredentials c s = s"
  using assms by (auto simp: didTimeoutLoginForCredentials_def exclusive_def activities_def auth_state
      setLoginCredentials_def same_credentials_def authenticationNote_def
      split: if_splits option.splits)

definition sample_login :: session where
  "sample_login = prepareForLoginWithCredentials (Some mail_login) blank_session"

lemma sample_login_state:
  "exclusive sample_login" "currentPhase sample_login = ZMAuthenticationPhaseLoginWithEmail"
  "loginCredentials sample_login = Some mail_login" "cred_address mail_login < nextAddress sample_login"
  "registrationUser sample_login = None"
  by (simp_all add: sample_login_def exclusive_prepare)
    (simp_all add: prepareForLoginWithCredentials_def Let_def auth_state samples setLoginCredentials_def
      same_credentials_def post_def setRegisteredOnThisDevice_def setPersistentStoreMetadata_def
      resetLoginAndRegistrationStatus_def setRegistrationUser_def)

lemma timeout_ends_only_its_login_example:
  "exclusive sample_login \<and>
   currentPhase (didTimeoutLoginForCredentials (Some mail_login) sample_login) =
     ZMAuthenticationPhaseUnauthenticated"
  using timeout_ends_only_its_login [OF sample_login_state(1), of "Some mail_login"]
  by (simp add: sample_login_state same_credentials_def)

text \<open>A duplicate-address failure that arrives after the user has moved on to a login replaces the
  pending credentials by an object without address, and the login is lost without a notification.\<close>

lemma late_duplicate_email_loses_login:
  assumes "currentPhase s = ZMAuthenticationPhaseLoginWithEmail"
    and "loginCredentials s = Some c" and "cred_address c < nextAddress s"
    and "registrationUser s = None"
  shows "currentPhase (didFailRegistrationWithDuplicatedEmail s) \<noteq> ZMAuthenticationPhaseLoginWithEmail \<and>
    Option.bind (loginCredentials (didFailRegistrationWithDuplicatedEmail s)) email = None \<and>
    (\<forall>n. AuthenticationNote n \<in> set (posted (didFailRegistrationWithDuplicatedEmail s)) \<longrightarrow>
         AuthenticationNote n \<in> set (posted s))"
  using assms by (auto simp: didFailRegistrationWithDuplicatedEmail_def Let_def setLoginCredentials_def
      setRegistrationUser_def same_credentials_def registrationCredentials_def credentialsWithEmail_def
      auth_state allocate_def)

lemma late_duplicate_email_loses_login_example:
  "currentPhase sample_login = ZMAuthenticationPhaseLoginWithEmail \<and>
   currentPhase (didFailRegistrationWithDuplicatedEmail sample_login) \<noteq> ZMAuthenticationPhaseLoginWithEmail"
  using late_duplicate_email_loses_login [OF sample_login_state(2-5)] sample_login_state(2) by simp

end
