(* ===== verification/ProfileUpdate.thy ===== *)
theory ProfileUpdate
  imports Authentication
begin

text \<open>
  \<^verbatim>\<open>ZMUserProfileUpdateStatus\<close>: changes of the phone number, e-mail address and password of the self
  user. The address and the phone number that wait for a request live in the store metadata, so they
  survive a restart; the password and the credentials do not.
\<close>

section \<open>State\<close>

definition EmailToUpdateKey :: NSString where
  "EmailToUpdateKey = ''ZMEmailToUpdate''"

definition ProfilePhoneNumberThatNeedsAValidationCodeKey :: NSString where
  "ProfilePhoneNumberThatNeedsAValidationCodeKey = ''ZMProfilePhoneNumberThatNeedsAValidationCode''"

datatype (plugins only: code size) ZMUserProfileUpdatePhases =
    ZMUserProfilePhaseIdle
  | ZMUserProfilePhaseRequestPhoneVerificationCode
  | ZMUserProfilePhaseChangePassword
  | ZMUserProfilePhaseChangeEmail
  | ZMUserProfilePhaseChangePhone

definition initUserProfileUpdateStatus :: "session \<Rightarrow> session" where
  "initUserProfileUpdateStatus s =
     s\<lparr>profile := \<lparr>phoneCredentialsToUpdate = None, emailCredentialsToUpdate = None,
        passwordToUpdate = None, emailIsVerified = False, passwordIsVerified = False\<rparr>\<rparr>"

definition setEmailToUpdate :: "NSString option \<Rightarrow> session \<Rightarrow> session" where
  "setEmailToUpdate e = setPersistentStoreMetadata EmailToUpdateKey (map_option JStr e)"

definition emailToUpdate :: "session \<Rightarrow> json option" where
  "emailToUpdate s = metadata s EmailToUpdateKey"

definition setProfilePhoneNumber :: "NSString option \<Rightarrow> session \<Rightarrow> session" where
  "setProfilePhoneNumber p =
     setPersistentStoreMetadata ProfilePhoneNumberThatNeedsAValidationCodeKey (map_option JStr p)"

definition profilePhoneNumberThatNeedsAValidationCode :: "session \<Rightarrow> json option" where
  "profilePhoneNumberThatNeedsAValidationCode s = metadata s ProfilePhoneNumberThatNeedsAValidationCodeKey"

definition profile_reset :: "session \<Rightarrow> session" where
  "profile_reset s =
     setProfilePhoneNumber None (setEmailToUpdate None
       (s\<lparr>profile := (profile s)\<lparr>phoneCredentialsToUpdate := None, passwordToUpdate := None\<rparr>\<rparr>))"

definition resetEmailCredentials :: "session \<Rightarrow> session" where
  "resetEmailCredentials s =
     s\<lparr>profile := (profile s)\<lparr>emailIsVerified := False, passwordIsVerified := False,
         emailCredentialsToUpdate := None\<rparr>\<rparr>"

definition profile_currentPhase :: "session \<Rightarrow> ZMUserProfileUpdatePhases" where
  "profile_currentPhase s =
     (if profilePhoneNumberThatNeedsAValidationCode s \<noteq> None then ZMUserProfilePhaseRequestPhoneVerificationCode
      else if phoneCredentialsToUpdate (profile s) \<noteq> None then ZMUserProfilePhaseChangePhone
      else if passwordToUpdate (profile s) \<noteq> None then ZMUserProfilePhaseChangePassword
      else if emailToUpdate s \<noteq> None then ZMUserProfilePhaseChangeEmail
      else ZMUserProfilePhaseIdle)"

section \<open>Operations\<close>

definition profileNote ::
  "ZMUserProfileUpdateNotificationType \<Rightarrow> NSError option \<Rightarrow> session \<Rightarrow> session" where
  "profileNote t e = post (ProfileUpdateNote \<lparr>profile_note_type = t, profile_note_error = e\<rparr>)"

definition prepareForEmailAndPasswordChangeWithCredentials :: "ZMCredentials option \<Rightarrow> session \<Rightarrow> session" where
  "prepareForEmailAndPasswordChangeWithCredentials c s =
     (let s1 = profile_reset s;
          s2 = setEmailToUpdate (Option.bind c email)
                 (s1\<lparr>profile := (profile s1)\<lparr>emailCredentialsToUpdate := c\<rparr>\<rparr>)
      in s2\<lparr>profile := (profile s2)\<lparr>passwordToUpdate := Option.bind c password\<rparr>\<rparr>)"

definition prepareForPhoneChangeWithCredentials :: "ZMCredentials option \<Rightarrow> session \<Rightarrow> session" where
  "prepareForPhoneChangeWithCredentials c s =
     (let s1 = profile_reset s in s1\<lparr>profile := (profile s1)\<lparr>phoneCredentialsToUpdate := c\<rparr>\<rparr>)"

definition profile_prepareForRequestingPhoneVerificationCode ::
  "session_env \<Rightarrow> NSString option \<Rightarrow> session \<Rightarrow> session" where
  "profile_prepareForRequestingPhoneVerificationCode env phone s =
     setProfilePhoneNumber (map_option (validatePhone env) phone) (profile_reset s)"

definition didRequestPhoneVerificationCodeSuccessfully :: "session \<Rightarrow> session" where
  "didRequestPhoneVerificationCodeSuccessfully s =
     profileNote ZMUserProfileNotificationPhoneNumberVerificationCodeRequestDidSucceed None (profile_reset s)"

definition didFailPhoneVerificationCodeRequestWithError :: "NSError option \<Rightarrow> session \<Rightarrow> session" where
  "didFailPhoneVerificationCodeRequestWithError e s =
     profileNote ZMUserProfileNotificationPhoneNumberVerificationCodeRequestDidFail e (profile_reset s)"

definition didVerifyPhoneSuccessfully :: "session \<Rightarrow> session" where
  "didVerifyPhoneSuccessfully s = profile_reset s"

definition didFailPhoneVerification :: "NSError option \<Rightarrow> session \<Rightarrow> session" where
  "didFailPhoneVerification e s =
     profileNote ZMUserProfileNotificationPhoneNumberVerificationDidFail e (profile_reset s)"

definition didUpdatePasswordSuccessfully :: "session \<Rightarrow> session" where
  "didUpdatePasswordSuccessfully s =
     s\<lparr>profile := (profile s)\<lparr>passwordToUpdate := None, passwordIsVerified := True\<rparr>\<rparr>"

definition didFailPasswordUpdate :: "session \<Rightarrow> session" where
  "didFailPasswordUpdate s = profileNote ZMUserProfileNotificationPasswordUpdateDidFail None (profile_reset s)"

definition didUpdateEmailSuccessfully :: "session \<Rightarrow> session" where
  "didUpdateEmailSuccessfully s =
     profileNote ZMUserProfileNotificationEmailDidSendVerification None
       (profile_reset (s\<lparr>profile := (profile s)\<lparr>emailIsVerified := True\<rparr>\<rparr>))"

definition didFailEmailUpdate :: "NSError option \<Rightarrow> session \<Rightarrow> session" where
  "didFailEmailUpdate e s = profileNote ZMUserProfileNotificationEmailUpdateDidFail e (profile_reset s)"

definition profile_emailCredentials :: "session \<Rightarrow> ZMCredentials option" where
  "profile_emailCredentials s =
     (if emailIsVerified (profile s) \<and> passwordIsVerified (profile s)
      then emailCredentialsToUpdate (profile s) else None)"

definition profile_credentialsMayBeCleared :: "session \<Rightarrow> session" where
  "profile_credentialsMayBeCleared = resetEmailCredentials"

section \<open>Messages\<close>

datatype (plugins only: code size) ZMUserProfileUpdateStatus_msg =
    ProfilePrepareForRequestingPhoneVerificationCode "NSString option"
  | PrepareForPhoneChangeWithCredentials "ZMCredentials option"
  | PrepareForEmailAndPasswordChangeWithCredentials "ZMCredentials option"
  | DidRequestPhoneVerificationCodeSuccessfully
  | DidFailPhoneVerificationCodeRequestWithError "NSError option"
  | DidVerifyPhoneSuccessfully
  | DidFailPhoneVerification "NSError option"
  | DidUpdatePasswordSuccessfully
  | DidFailPasswordUpdate
  | DidUpdateEmailSuccessfully
  | DidFailEmailUpdate "NSError option"
  | ProfileCredentialsMayBeCleared

primrec profile_send :: "session_env \<Rightarrow> ZMUserProfileUpdateStatus_msg \<Rightarrow> session \<Rightarrow> session" where
  "profile_send env (ProfilePrepareForRequestingPhoneVerificationCode p) =
     profile_prepareForRequestingPhoneVerificationCode env p"
| "profile_send env (PrepareForPhoneChangeWithCredentials c) = prepareForPhoneChangeWithCredentials c"
| "profile_send env (PrepareForEmailAndPasswordChangeWithCredentials c) =
     prepareForEmailAndPasswordChangeWithCredentials c"
| "profile_send env DidRequestPhoneVerificationCodeSuccessfully = didRequestPhoneVerificationCodeSuccessfully"
| "profile_send env (DidFailPhoneVerificationCodeRequestWithError e) =
     didFailPhoneVerificationCodeRequestWithError e"
| "profile_send env DidVerifyPhoneSuccessfully = didVerifyPhoneSuccessfully"
| "profile_send env (DidFailPhoneVerification e) = didFailPhoneVerification e"
| "profile_send env DidUpdatePasswordSuccessfully = didUpdatePasswordSuccessfully"
| "profile_send env DidFailPasswordUpdate = didFailPasswordUpdate"
| "profile_send env DidUpdateEmailSuccessfully = didUpdateEmailSuccessfully"
| "profile_send env (DidFailEmailUpdate e) = didFailEmailUpdate e"
| "profile_send env ProfileCredentialsMayBeCleared = profile_credentialsMayBeCleared"

section \<open>Properties\<close>

lemma profile_keys_distinct [simp]:
  "EmailToUpdateKey \<noteq> ProfilePhoneNumberThatNeedsAValidationCodeKey"
  "ProfilePhoneNumberThatNeedsAValidationCodeKey \<noteq> EmailToUpdateKey"
  by (simp_all add: EmailToUpdateKey_def ProfilePhoneNumberThatNeedsAValidationCodeKey_def)

lemmas profile_state = profile_currentPhase_def emailToUpdate_def setEmailToUpdate_def
  setProfilePhoneNumber_def profilePhoneNumberThatNeedsAValidationCode_def
  setPersistentStoreMetadata_def profile_reset_def profileNote_def post_def

lemmas profile_changes = prepareForEmailAndPasswordChangeWithCredentials_def
  didUpdatePasswordSuccessfully_def didUpdateEmailSuccessfully_def profile_emailCredentials_def Let_def

text \<open>A change of address and password is worked off in order: first the password, then the address,
  then the status is idle, and only then the new credentials are offered for the client registration,
  provided no earlier change had left its verification marks behind.\<close>

lemma email_and_password_change_flow:
  assumes "email c = Some e" and "password c = Some p"
    and "\<not> emailIsVerified (profile s)" and "\<not> passwordIsVerified (profile s)"
    and "s1 = prepareForEmailAndPasswordChangeWithCredentials (Some c) s"
    and "s2 = didUpdatePasswordSuccessfully s1" and "s3 = didUpdateEmailSuccessfully s2"
  shows "profile_currentPhase s1 = ZMUserProfilePhaseChangePassword \<and> profile_emailCredentials s1 = None \<and>
    profile_currentPhase s2 = ZMUserProfilePhaseChangeEmail \<and> profile_emailCredentials s2 = None \<and>
    profile_currentPhase s3 = ZMUserProfilePhaseIdle \<and> profile_emailCredentials s3 = Some c"
  using assms by (simp add: profile_state profile_changes)

lemma email_and_password_change_flow_example:
  "profile_emailCredentials (didUpdateEmailSuccessfully (didUpdatePasswordSuccessfully
     (prepareForEmailAndPasswordChangeWithCredentials (Some mail_login) blank_session))) = Some mail_login"
  using email_and_password_change_flow [of mail_login "''b@x''" "''pw''" blank_session]
  by (simp add: samples)

text \<open>The verification marks of a finished change outlive it: preparing another change before the
  credentials are cleared offers the new, not yet verified credentials at once.\<close>

lemma stale_marks_offer_unverified_credentials:
  assumes "profile_emailCredentials s = Some old"
  shows "profile_emailCredentials (prepareForEmailAndPasswordChangeWithCredentials c s) = c"
  using assms by (simp add: profile_state profile_changes split: if_splits)

definition changed_session :: session where
  "changed_session = didUpdateEmailSuccessfully (didUpdatePasswordSuccessfully
     (prepareForEmailAndPasswordChangeWithCredentials (Some mail_login) blank_session))"

definition second_login :: ZMCredentials where
  "second_login = credentialsWithEmail 4 (Some ''c@x'') (Some ''new'')"

lemma changed_session_credentials: "profile_emailCredentials changed_session = Some mail_login"
  by (simp add: changed_session_def profile_state profile_changes samples)

lemma stale_marks_offer_unverified_credentials_example:
  "profile_emailCredentials (prepareForEmailAndPasswordChangeWithCredentials (Some second_login) changed_session)
     = Some second_login"
  by (rule stale_marks_offer_unverified_credentials [OF changed_session_credentials])

end
