(* ===== verification/ClientRegistration.thy ===== *)
theory ClientRegistration
  imports ProfileUpdate
begin

text \<open>
  \<^verbatim>\<open>ZMClientRegistrationStatus\<close>: whether this device is registered as a client of the self user, and what
  has to happen first. The two credential providers are the authentication status (login) and the
  profile update status (update), as the user session connects them.
\<close>

section \<open>Credential providers\<close>

record ZMCredentialProvider =
  cp_credentialsMayBeCleared :: "session \<Rightarrow> session"
  cp_emailCredentials :: "session \<Rightarrow> ZMCredentials option"

definition loginCredentialProvider :: ZMCredentialProvider where
  "loginCredentialProvider =
     \<lparr>cp_credentialsMayBeCleared = credentialsMayBeCleared, cp_emailCredentials = auth_emailCredentials\<rparr>"

definition updateCredentialProvider :: ZMCredentialProvider where
  "updateCredentialProvider =
     \<lparr>cp_credentialsMayBeCleared = profile_credentialsMayBeCleared,
      cp_emailCredentials = profile_emailCredentials\<rparr>"

text \<open>What a client of the protocol relies on: once clearing is allowed, it leaves no credentials.\<close>

locale credential_provider =
  fixes provider :: ZMCredentialProvider
    and clearable :: "session \<Rightarrow> bool"
  assumes cleared: "clearable s \<Longrightarrow> cp_emailCredentials provider (cp_credentialsMayBeCleared provider s) = None"
    and kept: "\<not> clearable s \<Longrightarrow> cp_credentialsMayBeCleared provider s = s"
begin

lemma credentials_after_clearing:
  "cp_emailCredentials provider (cp_credentialsMayBeCleared provider s) \<in>
     {None, cp_emailCredentials provider s}"
  by (cases "clearable s") (simp_all add: cleared kept)

end

interpretation login_provider: credential_provider loginCredentialProvider isLoggedIn
  by unfold_locales (simp_all add: loginCredentialProvider_def credentialsMayBeCleared_def
      auth_emailCredentials_def auth_state)

interpretation update_provider: credential_provider updateCredentialProvider "\<lambda>_. True"
  by unfold_locales (simp_all add: updateCredentialProvider_def profile_credentialsMayBeCleared_def
      resetEmailCredentials_def profile_emailCredentials_def)

section \<open>Phase\<close>

definition ZMPersistedClientIdKey :: NSString where
  "ZMPersistedClientIdKey = ''PersistedClientId''"

datatype (plugins only: code size) ZMClientRegistrationPhase =
    ZMClientRegistrationPhaseUnregistered
  | ZMClientRegistrationPhaseWaitingForLogin
  | ZMClientRegistrationPhaseWaitingForSelfUser
  | ZMClientRegistrationPhaseFetchingClients
  | ZMClientRegistrationPhaseWaitingForDeletion
  | ZMClientRegistrationPhaseWaitingForEmailVerfication
  | ZMClientRegistrationPhaseRegistered

definition clientReg_emailCredentials :: "session \<Rightarrow> ZMCredentials option" where
  "clientReg_emailCredentials s =
     (case cp_emailCredentials updateCredentialProvider s of
        None \<Rightarrow> cp_emailCredentials loginCredentialProvider s
      | Some c \<Rightarrow> Some c)"

definition clientReg_isWaitingForLogin :: "session \<Rightarrow> bool" where
  "clientReg_isWaitingForLogin s \<longleftrightarrow> cookieData s = None"

definition hasEmailCredentials :: "session \<Rightarrow> bool" where
  "hasEmailCredentials s \<longleftrightarrow>
     Option.bind (clientReg_emailCredentials s) email \<noteq> None \<and>
     Option.bind (clientReg_emailCredentials s) password \<noteq> None"

definition needsToRegisterClient :: "session \<Rightarrow> bool" where
  "needsToRegisterClient s =
     (case metadata s ZMPersistedClientIdKey of Some (JStr clientId) \<Rightarrow> length clientId = 0 | _ \<Rightarrow> True)"

definition isWaitingForSelfUser :: "session \<Rightarrow> bool" where
  "isWaitingForSelfUser s \<longleftrightarrow> selfUser_remoteIdentifier s = None"

definition isWaitingForSelfUserEmail :: "session \<Rightarrow> bool" where
  "isWaitingForSelfUserEmail s \<longleftrightarrow> selfUser_emailAddress s = None"

definition clientReg_currentPhase :: "session \<Rightarrow> ZMClientRegistrationPhase" where
  "clientReg_currentPhase s =
     (if clientReg_isWaitingForLogin s then ZMClientRegistrationPhaseWaitingForLogin
      else if isWaitingForSelfUser s then ZMClientRegistrationPhaseWaitingForSelfUser
      else if needsToCheckCredentials (clientReg s) \<and> clientReg_emailCredentials s = None
        then ZMClientRegistrationPhaseWaitingForLogin
      else if isWaitingForUserClients (clientReg s) then ZMClientRegistrationPhaseFetchingClients
      else if cr_isWaitingForEmailVerification (clientReg s)
        then ZMClientRegistrationPhaseWaitingForEmailVerfication
      else if \<not> needsToRegisterClient s then ZMClientRegistrationPhaseRegistered
      else if isWaitingForClientsToBeDeleted (clientReg s) then ZMClientRegistrationPhaseWaitingForDeletion
      else ZMClientRegistrationPhaseUnregistered)"

definition currentClientReadyToUse :: "session \<Rightarrow> bool" where
  "currentClientReadyToUse s \<longleftrightarrow> clientReg_currentPhase s = ZMClientRegistrationPhaseRegistered"

section \<open>Operations\<close>

definition initClientRegistrationStatus :: "session \<Rightarrow> session" where
  "initClientRegistrationStatus s =
     s\<lparr>clientReg := \<lparr>isWaitingForClientsToBeDeleted = False, isWaitingForUserClients = False,
        isWaitingForCredentials = False, cr_isWaitingForEmailVerification = False,
        needsToCheckCredentials = False, needsToVerifySelfClient = \<not> needsToRegisterClient s,
        clientUpdateToken = True, tornDown = False\<rparr>\<rparr>"

definition clientReg_tearDown :: "session \<Rightarrow> session" where
  "clientReg_tearDown s = s\<lparr>clientReg := (clientReg s)\<lparr>clientUpdateToken := False, tornDown := True\<rparr>\<rparr>"

text \<open>\<^verbatim>\<open>selfUser.clients\<close>, and the client object \<^verbatim>\<open>selfUser.selfClient\<close> refers to.\<close>

definition selfUser_clients :: "session \<Rightarrow> UserClient list" where
  "selfUser_clients s = filter uc_ofSelfUser (userClients s)"

definition selfClient :: "session_env \<Rightarrow> session \<Rightarrow> UserClient option" where
  "selfClient env s =
     Option.bind (selfClientIn env s) (\<lambda>i. List.find (\<lambda>c. uc_objectID c = i) (userClients s))"

definition needsToCreateNewClientForSelfUser :: "session_env \<Rightarrow> session \<Rightarrow> bool" where
  "needsToCreateNewClientForSelfUser env s =
     (if (case selfClient env s of Some c \<Rightarrow> \<not> uc_isZombieObject c | None \<Rightarrow> False) then False
      else \<not> list_ex (\<lambda>c. uc_remoteIdentifier c = None) (selfUser_clients s))"

definition insertNewClientForSelfUser :: "session_env \<Rightarrow> session \<Rightarrow> session" where
  "insertNewClientForSelfUser env s =
     post SaveOrRollback
       (s\<lparr>userClients := userClients s @
           [\<lparr>uc_objectID = nextAddress s, uc_remoteIdentifier = None, uc_ofSelfUser = True,
             uc_isZombieObject = False, uc_model = zm_model env, uc_deviceClass = zm_classString env,
             uc_label = device_name env\<rparr>],
          nextAddress := Suc (nextAddress s)\<rparr>)"

definition prepareForClientRegistration :: "session_env \<Rightarrow> session \<Rightarrow> session" where
  "prepareForClientRegistration env s =
     (if \<not> needsToRegisterClient s then s
      else if selfUser_remoteIdentifier s = None then s
      else if needsToCreateNewClientForSelfUser env s then insertNewClientForSelfUser env s
      else post NotifyNewRequestsAvailable s)"

definition didFetchSelfUser :: "session_env \<Rightarrow> session \<Rightarrow> session" where
  "didFetchSelfUser env s =
     (let s1 = (if cr_isWaitingForEmailVerification (clientReg s) \<and> \<not> isWaitingForSelfUserEmail s
                then s\<lparr>clientReg := (clientReg s)\<lparr>cr_isWaitingForEmailVerification := False\<rparr>\<rparr> else s)
      in if needsToRegisterClient s1 then prepareForClientRegistration env s1
         else let s2 = authenticationNote ZMAuthenticationNotificationAuthenticationDidSuceeded None s1
              in if \<not> needsToVerifySelfClient (clientReg s2)
                 then cp_credentialsMayBeCleared loginCredentialProvider s2 else s2)"

definition update_client :: "ZMManagedObject \<Rightarrow> (UserClient \<Rightarrow> UserClient) \<Rightarrow> session \<Rightarrow> session" where
  "update_client i f s =
     s\<lparr>userClients := map (\<lambda>c. if uc_objectID c = i then f c else c) (userClients s)\<rparr>"

definition fetchExistingSelfClientsAfterClientRegistered :: "UserClient \<Rightarrow> session \<Rightarrow> session" where
  "fetchExistingSelfClientsAfterClientRegistered client s =
     (let others = filter (\<lambda>c. uc_remoteIdentifier c \<noteq> uc_remoteIdentifier client) (selfUser_clients s)
      in if length others > 0 then
           post (SetLocallyModifiedKeys (uc_objectID client) [''missingClients''])
             (post (MissesClients (uc_objectID client) (map uc_objectID others)) s)
         else s)"

definition didRegisterClient :: "UserClient \<Rightarrow> session \<Rightarrow> session" where
  "didRegisterClient client s =
     (let s1 = setPersistentStoreMetadata ZMPersistedClientIdKey
                 (map_option JStr (uc_remoteIdentifier client)) s;
          s2 = fetchExistingSelfClientsAfterClientRegistered client s1;
          s3 = authenticationNote ZMAuthenticationNotificationAuthenticationDidSuceeded None s2;
          s4 = post (DidRegisterUserClient (uc_objectID client)) s3;
          s5 = cp_credentialsMayBeCleared updateCredentialProvider
                 (cp_credentialsMayBeCleared loginCredentialProvider s4)
      in s5\<lparr>clientReg := (clientReg s5)\<lparr>needsToCheckCredentials := False\<rparr>\<rparr>)"

definition didFailToRegisterClient :: "NSError option \<Rightarrow> session \<Rightarrow> objc_failure + session" where
  "didFailToRegisterClient e s =
     (let code = code_of e;
          s1 = (if code \<noteq> error_code ZMUserSessionNeedsPasswordToRegisterClient \<and>
                   code \<noteq> error_code ZMUserSessionNeedsToRegisterEmailToRegisterClient \<and>
                   code \<noteq> error_code ZMUserSessionCanNotRegisterMoreClients
                then cp_credentialsMayBeCleared loginCredentialProvider s else s);
          s2 = (if code = error_code ZMUserSessionNeedsPasswordToRegisterClient \<or>
                   code = error_code ZMUserSessionInvalidCredentials
                then s1\<lparr>clientReg := (clientReg s1)\<lparr>needsToCheckCredentials := True\<rparr>\<rparr> else s1);
          s3 = (if code = error_code ZMUserSessionNeedsToRegisterEmailToRegisterClient
                then s2\<lparr>clientReg := (clientReg s2)\<lparr>cr_isWaitingForEmailVerification := True\<rparr>\<rparr> else s2)
      in if code = error_code ZMUserSessionCanNotRegisterMoreClients
         then Inr (post NotifyNewRequestsAvailable
                    (s3\<lparr>clientReg := (clientReg s3)\<lparr>isWaitingForUserClients := True\<rparr>\<rparr>))
         else notifyAuthenticationDidFail e s3)"

definition didFetchClients :: "ZMManagedObject list \<Rightarrow> session \<Rightarrow> session" where
  "didFetchClients clientIDs s =
     (let s1 = (if needsToVerifySelfClient (clientReg s) then
                  let s' = cp_credentialsMayBeCleared loginCredentialProvider
                        (authenticationNote ZMAuthenticationNotificationAuthenticationDidSuceeded None s)
                  in s'\<lparr>clientReg := (clientReg s')\<lparr>needsToVerifySelfClient := False\<rparr>\<rparr>
                else s)
      in if isWaitingForUserClients (clientReg s1) then
           let s2 = authenticationNote ZMAuthenticationNotificationAuthenticationDidFail
                 (Some (userSessionErrorWithErrorCode ZMUserSessionCanNotRegisterMoreClients
                   [(ZMClientsKey, JArr (map (\<lambda>i. JNum (int i)) clientIDs))])) s1
           in s2\<lparr>clientReg := (clientReg s2)\<lparr>isWaitingForUserClients := False,
                   isWaitingForClientsToBeDeleted := True\<rparr>\<rparr>
         else s1)"

definition invalidateSelfClient :: "session_env \<Rightarrow> session \<Rightarrow> session" where
  "invalidateSelfClient env s =
     (let s1 = (case selfClient env s of
                  None \<Rightarrow> s
                | Some c \<Rightarrow> post (ResetLocallyModifiedKeys (uc_objectID c))
                    (update_client (uc_objectID c) (\<lambda>c. c\<lparr>uc_remoteIdentifier := None\<rparr>) s))
      in post SaveOrRollback (setPersistentStoreMetadata ZMPersistedClientIdKey None s1))"

definition invalidateCookieAndNotify :: "session \<Rightarrow> session" where
  "invalidateCookieAndNotify s =
     authenticationNote ZMAuthenticationNotificationAuthenticationDidFail
       (Some (userSessionErrorWithErrorCode ZMUserSessionClientDeletedRemotely []))
       (deleteAllKeyChainItemsAndCookieLabels (cp_credentialsMayBeCleared loginCredentialProvider s))"

text \<open>Codes of the Swift enumeration \<^verbatim>\<open>ClientUpdateError\<close>.\<close>

datatype (plugins only: code size) ClientUpdateError =
    ClientUpdateErrorNone
  | ClientUpdateErrorSelfClientIsInvalid
  | ClientUpdateErrorInvalidCredentials
  | ClientUpdateErrorDeviceIsOffline
  | ClientUpdateErrorClientToDeleteNotFound

primrec clientUpdate_code :: "ClientUpdateError \<Rightarrow> nat" where
  "clientUpdate_code ClientUpdateErrorNone = 0"
| "clientUpdate_code ClientUpdateErrorSelfClientIsInvalid = 1"
| "clientUpdate_code ClientUpdateErrorInvalidCredentials = 2"
| "clientUpdate_code ClientUpdateErrorDeviceIsOffline = 3"
| "clientUpdate_code ClientUpdateErrorClientToDeleteNotFound = 4"

definition failedFetchingClients :: "session_env \<Rightarrow> NSError option \<Rightarrow> session \<Rightarrow> session" where
  "failedFetchingClients env e s =
     (if code_of e = clientUpdate_code ClientUpdateErrorSelfClientIsInvalid then
        let s1 = invalidateCookieAndNotify (invalidateSelfClient env s)
        in s1\<lparr>clientReg := (clientReg s1)\<lparr>needsToVerifySelfClient := False\<rparr>\<rparr>
      else s)"

definition didDetectCurrentClientDeletion :: "session_env \<Rightarrow> session \<Rightarrow> session" where
  "didDetectCurrentClientDeletion env s =
     (let s1 = invalidateCookieAndNotify (invalidateSelfClient env s)
      in post DeleteAndCreateNewBox
           (fold (\<lambda>c. post (DeleteClientAndEndSession (uc_objectID c))) (sortedFetch env (userClients s1)) s1))"

definition didDeleteClient :: "session_env \<Rightarrow> session \<Rightarrow> session" where
  "didDeleteClient env s =
     (if isWaitingForClientsToBeDeleted (clientReg s) then
        prepareForClientRegistration env
          (s\<lparr>clientReg := (clientReg s)\<lparr>isWaitingForClientsToBeDeleted := False\<rparr>\<rparr>)
      else s)"

definition failedDeletingClient :: "NSError option \<Rightarrow> session \<Rightarrow> session" where
  "failedDeletingClient e s = s"

text \<open>The block \<^verbatim>\<open>observeClientUpdates\<close> installs; it is called while the token is registered.\<close>

definition observeClientUpdate :: "session_env \<Rightarrow> ZMClientUpdateNotification \<Rightarrow> session \<Rightarrow> session" where
  "observeClientUpdate env note s =
     (if \<not> clientUpdateToken (clientReg s) then s
      else case client_note_type note of
        ZMClientUpdateNotificationTypeFetchCompleted \<Rightarrow> didFetchClients (client_note_clientObjectIDs note) s
      | ZMClientUpdateNotificationTypeDeletionCompleted \<Rightarrow> didDeleteClient env s
      | ZMClientUpdateNotificationTypeDeletionFailed \<Rightarrow> failedDeletingClient (client_note_error note) s
      | ZMClientUpdateNotificationTypeFetchFailed \<Rightarrow> failedFetchingClients env (client_note_error note) s)"

section \<open>Messages\<close>

datatype (plugins only: code size) ZMClientRegistrationStatus_msg =
    PrepareForClientRegistration
  | DidFetchSelfUser
  | DidRegisterClient UserClient
  | DidFailToRegisterClient "NSError option"
  | DidDetectCurrentClientDeletion
  | TearDown
  | ClientUpdate ZMClientUpdateNotification

primrec clientReg_send ::
  "session_env \<Rightarrow> ZMClientRegistrationStatus_msg \<Rightarrow> session \<Rightarrow> objc_failure + session" where
  "clientReg_send env PrepareForClientRegistration s = Inr (prepareForClientRegistration env s)"
| "clientReg_send env DidFetchSelfUser s = Inr (didFetchSelfUser env s)"
| "clientReg_send env (DidRegisterClient c) s = Inr (didRegisterClient c s)"
| "clientReg_send env (DidFailToRegisterClient e) s = didFailToRegisterClient e s"
| "clientReg_send env DidDetectCurrentClientDeletion s = Inr (didDetectCurrentClientDeletion env s)"
| "clientReg_send env TearDown s = Inr (clientReg_tearDown s)"
| "clientReg_send env (ClientUpdate n) s = Inr (observeClientUpdate env n s)"

section \<open>Properties\<close>

lemma post_clientReg [simp]:
  "clientReg (post n s) = clientReg s" "profile (post n s) = profile s"
  "selfUser_remoteIdentifier (post n s) = selfUser_remoteIdentifier s"
  "clientReg (authenticationNote t e s) = clientReg s" "metadata (authenticationNote t e s) = metadata s"
  "profile (authenticationNote t e s) = profile s"
  "selfUser_remoteIdentifier (authenticationNote t e s) = selfUser_remoteIdentifier s"
  by (simp_all add: post_def authenticationNote_def)

lemma clear_login_frame [simp]:
  "clientReg (credentialsMayBeCleared s) = clientReg s" "metadata (credentialsMayBeCleared s) = metadata s"
  "cookieData (credentialsMayBeCleared s) = cookieData s"
  "selfUser_remoteIdentifier (credentialsMayBeCleared s) = selfUser_remoteIdentifier s"
  by (simp_all add: credentialsMayBeCleared_def resetLoginAndRegistrationStatus_def Let_def
      setRegistrationUser_def post_def)

lemma login_provider_clear [simp]:
  "cp_credentialsMayBeCleared loginCredentialProvider = credentialsMayBeCleared"
  by (simp add: loginCredentialProvider_def)

lemma fetchExisting_frame [simp]:
  "clientReg (fetchExistingSelfClientsAfterClientRegistered c s) = clientReg s"
  "metadata (fetchExistingSelfClientsAfterClientRegistered c s) = metadata s"
  "cookieData (fetchExistingSelfClientsAfterClientRegistered c s) = cookieData s"
  "selfUser_remoteIdentifier (fetchExistingSelfClientsAfterClientRegistered c s) = selfUser_remoteIdentifier s"
  by (simp_all add: fetchExistingSelfClientsAfterClientRegistered_def Let_def post_def)

lemma clear_update_frame [simp]:
  "clientReg (cp_credentialsMayBeCleared updateCredentialProvider s) = clientReg s"
  "metadata (cp_credentialsMayBeCleared updateCredentialProvider s) = metadata s"
  "cookieData (cp_credentialsMayBeCleared updateCredentialProvider s) = cookieData s"
  "selfUser_remoteIdentifier (cp_credentialsMayBeCleared updateCredentialProvider s) =
     selfUser_remoteIdentifier s"
  by (simp_all add: updateCredentialProvider_def profile_credentialsMayBeCleared_def resetEmailCredentials_def)

lemmas clientReg_state = clientReg_currentPhase_def clientReg_isWaitingForLogin_def
  isWaitingForSelfUser_def needsToRegisterClient_def

lemma didRegisterClient_fields:
  "clientReg (didRegisterClient c s) = (clientReg s)\<lparr>needsToCheckCredentials := False\<rparr>"
  "metadata (didRegisterClient c s) ZMPersistedClientIdKey = map_option JStr (uc_remoteIdentifier c)"
  "cookieData (didRegisterClient c s) = cookieData s"
  "selfUser_remoteIdentifier (didRegisterClient c s) = selfUser_remoteIdentifier s"
  by (simp_all add: didRegisterClient_def Let_def) (simp_all add: setPersistentStoreMetadata_def)

text \<open>When the server has registered the client that was asked for, and it has an identifier, the
  client is ready to use.\<close>

lemma registered_client_is_ready:
  assumes "clientReg_currentPhase s = ZMClientRegistrationPhaseUnregistered"
    and "uc_remoteIdentifier c = Some i" and "i \<noteq> []"
  shows "currentClientReadyToUse (didRegisterClient c s)"
  using assms by (simp add: currentClientReadyToUse_def clientReg_state didRegisterClient_fields
      split: if_splits)

definition ready_session :: session where
  "ready_session = blank_session\<lparr>cookieData := Some [1], selfUser_remoteIdentifier := Some 7\<rparr>"

definition new_client :: UserClient where
  "new_client = \<lparr>uc_objectID = 5, uc_remoteIdentifier = Some ''c1'', uc_ofSelfUser = True,
     uc_isZombieObject = False, uc_model = [], uc_deviceClass = [], uc_label = []\<rparr>"

lemma ready_session_phase: "clientReg_currentPhase ready_session = ZMClientRegistrationPhaseUnregistered"
  by (simp add: ready_session_def blank_session_def clientReg_state)

lemma registered_client_is_ready_example: "currentClientReadyToUse (didRegisterClient new_client ready_session)"
  by (rule registered_client_is_ready [OF ready_session_phase, of new_client "''c1''"])
    (simp_all add: new_client_def)

lemma fold_post [simp]:
  "metadata (fold (\<lambda>c. post (f c)) cs s) = metadata s"
  "cookieData (fold (\<lambda>c. post (f c)) cs s) = cookieData s"
  "auth (fold (\<lambda>c. post (f c)) cs s) = auth s"
  by (induction cs arbitrary: s) simp_all

lemma invalidateCookieAndNotify_fields [simp]:
  "cookieData (invalidateCookieAndNotify s) = None"
  "metadata (invalidateCookieAndNotify s) = (metadata s)(CookieLabelKey := None)"
  by (simp_all add: invalidateCookieAndNotify_def deleteAllKeyChainItemsAndCookieLabels_def setLabel_def
      setPersistentStoreMetadata_def)

lemma invalidateSelfClient_metadata [simp]:
  "metadata (invalidateSelfClient env s) ZMPersistedClientIdKey = None"
  by (simp add: invalidateSelfClient_def Let_def setPersistentStoreMetadata_def)

text \<open>When the deletion of this client is detected, whatever the session was doing, the cookie and the
  persisted client identifier are gone: the client has to be registered again, the registration waits
  for a login, and the user is not authenticated.\<close>

lemma deleted_client_waits_for_login:
  "clientReg_currentPhase (didDetectCurrentClientDeletion env s) = ZMClientRegistrationPhaseWaitingForLogin \<and>
   needsToRegisterClient (didDetectCurrentClientDeletion env s) \<and>
   currentPhase (didDetectCurrentClientDeletion env s) \<noteq> ZMAuthenticationPhaseAuthenticated"
  by (simp add: didDetectCurrentClientDeletion_def Let_def clientReg_currentPhase_def
      clientReg_isWaitingForLogin_def needsToRegisterClient_def currentPhase_def isLoggedIn_def)

lemma no_emailCredentials:
  "clientReg_emailCredentials s = None \<longleftrightarrow>
     (emailIsVerified (profile s) \<and> passwordIsVerified (profile s) \<longrightarrow>
        emailCredentialsToUpdate (profile s) = None) \<and>
     \<not> credentialWithEmail (internalLoginCredentials (auth s))"
  by (auto simp: clientReg_emailCredentials_def updateCredentialProvider_def loginCredentialProvider_def
      profile_emailCredentials_def auth_emailCredentials_def loginCredentials_def split: option.splits)

lemma prepareForClientRegistration_frame [simp]:
  "clientReg (prepareForClientRegistration env s) = clientReg s"
  "metadata (prepareForClientRegistration env s) = metadata s"
  "cookieData (prepareForClientRegistration env s) = cookieData s"
  "selfUser_remoteIdentifier (prepareForClientRegistration env s) = selfUser_remoteIdentifier s"
  "auth (prepareForClientRegistration env s) = auth s"
  "profile (prepareForClientRegistration env s) = profile s"
  by (simp_all add: prepareForClientRegistration_def insertNewClientForSelfUser_def post_def)

lemma too_many_clients_failure:
  "didFailToRegisterClient (Some (userSessionErrorWithErrorCode ZMUserSessionCanNotRegisterMoreClients info)) s =
     Inr (post NotifyNewRequestsAvailable (s\<lparr>clientReg := (clientReg s)\<lparr>isWaitingForUserClients := True\<rparr>\<rparr>))"
  by (simp add: didFailToRegisterClient_def code_of_def Let_def)

text \<open>C19: The flow for too many clients: the failure makes the registration fetch the clients without
  telling the user; when they are fetched the user is told, with the list, and the registration waits
  for a deletion; when that is done it can be tried again.\<close>

theorem too_many_clients_flow:
  assumes "clientReg_currentPhase s = ZMClientRegistrationPhaseUnregistered"
    and "\<not> needsToVerifySelfClient (clientReg s)"
    and "didFailToRegisterClient (Some (userSessionErrorWithErrorCode ZMUserSessionCanNotRegisterMoreClients info)) s
           = Inr s1"
    and "s2 = didFetchClients ids s1" and "s3 = didDeleteClient env s2"
  shows "clientReg_currentPhase s1 = ZMClientRegistrationPhaseFetchingClients \<and>
    posted s1 = posted s @ [NotifyNewRequestsAvailable] \<and>
    clientReg_currentPhase s2 = ZMClientRegistrationPhaseWaitingForDeletion \<and>
    posted s2 = posted s1 @ [AuthenticationNote
      \<lparr>auth_note_type = ZMAuthenticationNotificationAuthenticationDidFail,
       auth_note_error = Some (userSessionErrorWithErrorCode ZMUserSessionCanNotRegisterMoreClients
         [(ZMClientsKey, JArr (map (\<lambda>i. JNum (int i)) ids))])\<rparr>] \<and>
    clientReg_currentPhase s3 = ZMClientRegistrationPhaseUnregistered"
proof -
  have s1: "s1 = post NotifyNewRequestsAvailable
      (s\<lparr>clientReg := (clientReg s)\<lparr>isWaitingForUserClients := True\<rparr>\<rparr>)"
    using assms(3) by (simp add: too_many_clients_failure)
  have "clientReg_currentPhase s1 = ZMClientRegistrationPhaseFetchingClients"
    using assms(1) by (simp add: s1 clientReg_state no_emailCredentials split: if_splits)
  moreover have "clientReg_currentPhase s2 = ZMClientRegistrationPhaseWaitingForDeletion"
    using assms(1,2) by (simp add: s1 assms(4) didFetchClients_def Let_def clientReg_state
        no_emailCredentials split: if_splits)
  moreover have "posted s2 = posted s1 @ [AuthenticationNote
      \<lparr>auth_note_type = ZMAuthenticationNotificationAuthenticationDidFail,
       auth_note_error = Some (userSessionErrorWithErrorCode ZMUserSessionCanNotRegisterMoreClients
         [(ZMClientsKey, JArr (map (\<lambda>i. JNum (int i)) ids))])\<rparr>]"
    using assms(2) by (simp add: s1 assms(4) didFetchClients_def Let_def authenticationNote_def)
  moreover have "clientReg_currentPhase s3 = ZMClientRegistrationPhaseUnregistered"
    using assms(1,2) by (simp add: s1 assms(4,5) didFetchClients_def didDeleteClient_def Let_def
        clientReg_state no_emailCredentials split: if_splits)
  ultimately show ?thesis
    by (simp add: s1)
qed

theorem too_many_clients_flow_witness:
  "clientReg_currentPhase (didDeleteClient plain_env (didFetchClients [8, 9] (post NotifyNewRequestsAvailable
     (ready_session\<lparr>clientReg := (clientReg ready_session)\<lparr>isWaitingForUserClients := True\<rparr>\<rparr>)))) =
   ZMClientRegistrationPhaseUnregistered"
  using too_many_clients_flow [OF ready_session_phase _ too_many_clients_failure refl refl, of "[8, 9]" plain_env]
  by (simp add: ready_session_def blank_session_def)

end
