(* ===== verification/SyncStates.thy ===== *)
theory SyncStates
  imports ClientRegistration
begin

text \<open>
  The twelve states of \<^verbatim>\<open>ZMSyncStateMachine\<close> (\<^verbatim>\<open>Source/Synchronization/Sync States\<close>), each with the
  properties of its class, and what entering and leaving it does. The transcoders are reached through
  the protocol \<^verbatim>\<open>ZMObjectStrategyDirectory\<close> only, so the directory is a record of operations on a state
  of its own. Timers, completion handlers, the background activity, the backgroundable session and the
  notification centre are effects in a log; a timer and a handler are known by a number.
\<close>

section \<open>The strategy directory\<close>

datatype (plugins only: code size) transcoder =
    connectionTranscoder | userTranscoder | selfTranscoder | conversationTranscoder
  | systemMessageTranscoder | textMessageTranscoder | clientMessageTranscoder | knockTranscoder
  | assetTranscoder | userImageTranscoder | missingUpdateEventsTranscoder | lastUpdateEventIDTranscoder
  | registrationTranscoder | phoneNumberVerificationTranscoder | loginTranscoder
  | loginCodeRequestTranscoder | flowTranscoder | addressBookTranscoder | callStateTranscoder
  | pushTokenTranscoder | searchUserImageTranscoder | typingTranscoder
  | removedSuggestedPeopleTranscoder | userProfileUpdateTranscoder

record 'd ZMObjectStrategyDirectory =
  generators_nextRequest :: "transcoder \<Rightarrow> 'd \<Rightarrow> ZMTransportRequest option \<times> 'd"
  setNeedsSlowSync :: "transcoder \<Rightarrow> 'd \<Rightarrow> 'd"
  isSlowSyncDone :: "transcoder \<Rightarrow> 'd \<Rightarrow> bool"
  allTranscoders :: "'d \<Rightarrow> transcoder list"
  processAllEventsInBuffer :: "'d \<Rightarrow> 'd"
  dir_lastUpdateEventID :: "'d \<Rightarrow> NSUUID option"
  hasLastUpdateEventID :: "'d \<Rightarrow> bool"
  startDownloadingMissingNotifications :: "'d \<Rightarrow> 'd"
  isDownloadingMissingNotifications :: "'d \<Rightarrow> bool"
  startRequestingLastUpdateEventID :: "'d \<Rightarrow> 'd"
  isDownloadingLastUpdateEventID :: "'d \<Rightarrow> bool"
  persistLastUpdateEventID :: "'d \<Rightarrow> 'd"
  hasOutstandingItems :: "'d \<Rightarrow> bool"
  hasPendingMessages :: "'d \<Rightarrow> bool"
  isSelfUserComplete :: "'d \<Rightarrow> bool"
  resetRegistrationState :: "'d \<Rightarrow> 'd"

section \<open>The machine\<close>

datatype (plugins only: code size) ZMSyncState =
    UnauthenticatedState | UnauthenticatedBackgroundState | EventProcessingState
  | SlowSyncPhaseOneState | SlowSyncPhaseTwoState | UpdateEventsCatchUpPhaseOneState
  | UpdateEventsCatchUpPhaseTwoState | DownloadLastUpdateEventIDState | BackgroundState
  | PreBackgroundState | BackgroundFetchState | BackgroundTaskState

datatype ZMBackgroundFetchResult =
    ZMBackgroundFetchResultFailed | ZMBackgroundFetchResultNewData | ZMBackgroundFetchResultNoData

datatype ZMBackgroundTaskResult =
    ZMBackgroundTaskResultFailed | ZMBackgroundTaskResultSucceed | ZMBackgroundTaskResultUnavailable

datatype (plugins only: code size) machine_effect =
    DidStartSync
  | DidFinishSync
  | ProcessStoredInvitations
  | ApplyPatches
  | DidEnterEventProcessingNote
  | InitialSyncCompletedNote
  | SessionEnterBackground
  | SessionEnterForeground
  | SessionPrepareForSuspendedState
  | BeginBackgroundActivity
  | EndBackgroundActivity
  | StartTimer nat NSTimeInterval
  | CancelTimer nat
  | ExpireRequestAfter NSTimeInterval
  | CallFetchHandler nat ZMBackgroundFetchResult
  | CallTaskHandler nat ZMBackgroundTaskResult
  | TestSynchronizationStoppedNote
  | MocSaveOrRollback

record 'd machine =
  currentState :: "ZMSyncState option"
  isUpdateEventStreamActive :: bool
  loginFailureTimer :: "(nat \<times> ZMCredentials option) option"
  lastTimerStart :: "NSDate option"
  didLaunchInForeground :: bool
  observesAuthentication :: bool
  catchUpOne_error :: bool
  catchUpTwo_error :: bool
  activity :: bool
  didPrepareForSuspend :: bool
  fetch_error :: bool
  updateEventIDWhenStartingFetch :: "NSUUID option"
  didRequestAssets :: bool
  fetch_timer :: "nat option"
  fetch_maximumTime :: NSTimeInterval
  fetchCompletionHandler :: "nat option"
  task_error :: bool
  didFinishTask :: bool
  isRequestingClients :: bool
  hasMissingClients :: bool
  task_timer :: "nat option"
  task_maximumTime :: NSTimeInterval
  taskCompletionHandler :: "nat option"
  isSyncing :: bool
  applicationInBackground :: bool
  sess :: session
  dir :: 'd
  nextTimer :: nat
  effects :: "machine_effect list"

definition emit :: "machine_effect \<Rightarrow> 'd machine \<Rightarrow> 'd machine" where
  "emit e m = m\<lparr>effects := effects m @ [e]\<rparr>"

definition on_dir :: "('d \<Rightarrow> 'd) \<Rightarrow> 'd machine \<Rightarrow> 'd machine" where
  "on_dir f m = m\<lparr>dir := f (dir m)\<rparr>"

section \<open>Policies\<close>

fun state_updateEventsPolicy :: "ZMSyncState \<Rightarrow> ZMUpdateEventsPolicy" where
  "state_updateEventsPolicy UnauthenticatedState = ZMUpdateEventPolicyIgnore"
| "state_updateEventsPolicy UnauthenticatedBackgroundState = ZMUpdateEventPolicyIgnore"
| "state_updateEventsPolicy SlowSyncPhaseOneState = ZMUpdateEventPolicyBuffer"
| "state_updateEventsPolicy SlowSyncPhaseTwoState = ZMUpdateEventPolicyBuffer"
| "state_updateEventsPolicy UpdateEventsCatchUpPhaseOneState = ZMUpdateEventPolicyBuffer"
| "state_updateEventsPolicy UpdateEventsCatchUpPhaseTwoState = ZMUpdateEventPolicyBuffer"
| "state_updateEventsPolicy DownloadLastUpdateEventIDState = ZMUpdateEventPolicyBuffer"
| "state_updateEventsPolicy BackgroundState = ZMUpdateEventPolicyIgnore"
| "state_updateEventsPolicy BackgroundFetchState = ZMUpdateEventPolicyIgnore"
| "state_updateEventsPolicy BackgroundTaskState = ZMUpdateEventPolicyIgnore"
| "state_updateEventsPolicy _ = ZMUpdateEventPolicyProcess"

definition supportsBackgroundFetch :: "ZMSyncState \<Rightarrow> bool" where
  "supportsBackgroundFetch st \<longleftrightarrow> st = BackgroundState"

section \<open>Timers and handlers\<close>

definition cancel :: "nat option \<Rightarrow> 'd machine \<Rightarrow> 'd machine" where
  "cancel t m = (case t of None \<Rightarrow> m | Some i \<Rightarrow> emit (CancelTimer i) m)"

text \<open>30 seconds, unless the debug override is positive.\<close>

definition loginTimeout :: "NSTimeInterval \<Rightarrow> NSTimeInterval" where
  "loginTimeout override = (if override > 0 then override else 30)"

definition stopLoginTimer :: "'d machine \<Rightarrow> 'd machine" where
  "stopLoginTimer m =
     (cancel (map_option fst (loginFailureTimer m)) m)\<lparr>loginFailureTimer := None, lastTimerStart := None\<rparr>"

definition startLoginTimer :: "NSTimeInterval \<Rightarrow> NSDate \<Rightarrow> 'd machine \<Rightarrow> 'd machine" where
  "startLoginTimer override now m =
     (let m1 = cancel (map_option fst (loginFailureTimer m)) m
      in emit (StartTimer (nextTimer m1) (loginTimeout override))
           (m1\<lparr>loginFailureTimer := Some (nextTimer m1, loginCredentials (sess m1)),
               lastTimerStart := Some now, nextTimer := Suc (nextTimer m1)\<rparr>))"

definition didDownloadEvents :: "'d ZMObjectStrategyDirectory \<Rightarrow> 'd machine \<Rightarrow> bool" where
  "didDownloadEvents D m \<longleftrightarrow> updateEventIDWhenStartingFetch m \<noteq> dir_lastUpdateEventID D (dir m)"

definition fetch_fetchResult :: "'d ZMObjectStrategyDirectory \<Rightarrow> 'd machine \<Rightarrow> ZMBackgroundFetchResult" where
  "fetch_fetchResult D m =
     (if fetch_error m then ZMBackgroundFetchResultFailed
      else if didDownloadEvents D m \<or> didRequestAssets m then ZMBackgroundFetchResultNewData
      else ZMBackgroundFetchResultNoData)"

definition fetch_markFetchAsComplete :: "'d ZMObjectStrategyDirectory \<Rightarrow> 'd machine \<Rightarrow> 'd machine" where
  "fetch_markFetchAsComplete D m =
     (case fetchCompletionHandler m of
        None \<Rightarrow> m
      | Some h \<Rightarrow> (emit (CallFetchHandler h (fetch_fetchResult D m)) m)\<lparr>fetchCompletionHandler := None\<rparr>)"

definition task_fetchResult :: "'d machine \<Rightarrow> ZMBackgroundTaskResult" where
  "task_fetchResult m =
     (if task_error m then ZMBackgroundTaskResultFailed
      else if didFinishTask m then ZMBackgroundTaskResultSucceed else ZMBackgroundTaskResultFailed)"

definition task_markFetchAsComplete :: "'d machine \<Rightarrow> 'd machine" where
  "task_markFetchAsComplete m =
     (case taskCompletionHandler m of
        None \<Rightarrow> m
      | Some h \<Rightarrow> (emit (CallTaskHandler h (task_fetchResult m)) m)\<lparr>taskCompletionHandler := None\<rparr>)"

section \<open>Login\<close>

definition machine_isLoggedIn :: "'d machine \<Rightarrow> bool" where
  "machine_isLoggedIn m \<longleftrightarrow>
     currentPhase (sess m) = ZMAuthenticationPhaseAuthenticated \<and>
     clientReg_currentPhase (sess m) = ZMClientRegistrationPhaseRegistered"

definition isDoneWithLogin :: "'d ZMObjectStrategyDirectory \<Rightarrow> 'd machine \<Rightarrow> bool" where
  "isDoneWithLogin D m \<longleftrightarrow> machine_isLoggedIn m \<and> isSelfUserComplete D (dir m)"

definition shouldRunTimerForLoginExpiration :: "'d machine \<Rightarrow> bool" where
  "shouldRunTimerForLoginExpiration m \<longleftrightarrow>
     currentPhase (sess m) = ZMAuthenticationPhaseLoginWithEmail \<or>
     currentPhase (sess m) = ZMAuthenticationPhaseLoginWithPhone"

text \<open>
  The timer keeps the login credentials in a dictionary, which must not hold \<^verbatim>\<open>nil\<close>. Every start of
  the timer is guarded by a login phase, and there are credentials in a login phase.
\<close>

lemma login_phase_has_credentials:
  "shouldRunTimerForLoginExpiration m \<Longrightarrow> loginCredentials (sess m) \<noteq> None"
  by (auto simp: shouldRunTimerForLoginExpiration_def auth_state split: if_splits option.splits)

section \<open>Entering and leaving\<close>

definition canGoToBackgroundState :: "'d ZMObjectStrategyDirectory \<Rightarrow> 'd machine \<Rightarrow> bool" where
  "canGoToBackgroundState D m \<longleftrightarrow> \<not> hasPendingMessages D (dir m)"

definition MaximumTimeInState :: NSTimeInterval where
  "MaximumTimeInState = 25"

text \<open>
  \<^verbatim>\<open>didEnterState\<close>. In every state a nested change of the state is the last thing the method does, so
  the result is the machine and the state to go on to, if any.
\<close>

definition enter_Unauthenticated ::
  "'d ZMObjectStrategyDirectory \<Rightarrow> NSTimeInterval \<Rightarrow> NSDate \<Rightarrow> 'd machine \<Rightarrow> 'd machine \<times> ZMSyncState option" where
  "enter_Unauthenticated D override now m =
     (if isDoneWithLogin D m then
        (m, Some (if applicationInBackground m then BackgroundState else UpdateEventsCatchUpPhaseOneState))
      else
        let m1 = on_dir (resetRegistrationState D) m;
            m2 = (if shouldRunTimerForLoginExpiration m1 then startLoginTimer override now m1 else m1);
            m3 = m2\<lparr>observesAuthentication := True\<rparr>
        in (if \<not> isSelfUserComplete D (dir m3) then on_dir (setNeedsSlowSync D selfTranscoder) m3 else m3, None))"

definition enter_EventProcessing :: "'d ZMObjectStrategyDirectory \<Rightarrow> 'd machine \<Rightarrow> 'd machine" where
  "enter_EventProcessing D m =
     emit InitialSyncCompletedNote (emit DidFinishSync (emit DidEnterEventProcessingNote
       (emit ApplyPatches (on_dir (processAllEventsInBuffer D) m))))"

definition didStartSlowSync :: "'d ZMObjectStrategyDirectory \<Rightarrow> 'd machine \<Rightarrow> 'd machine" where
  "didStartSlowSync D m = on_dir (fold (setNeedsSlowSync D) (allTranscoders D (dir m))) m"

definition enter_SlowSyncPhaseOne :: "'d ZMObjectStrategyDirectory \<Rightarrow> 'd machine \<Rightarrow> 'd machine" where
  "enter_SlowSyncPhaseOne D m = emit DidStartSync (didStartSlowSync D m)"

definition enter_SlowSyncPhaseTwo :: "'d ZMObjectStrategyDirectory \<Rightarrow> 'd machine \<Rightarrow> 'd machine" where
  "enter_SlowSyncPhaseTwo D m =
     on_dir (setNeedsSlowSync D callStateTranscoder) (on_dir (setNeedsSlowSync D userTranscoder) m)"

definition enter_CatchUpPhaseOne ::
  "'d ZMObjectStrategyDirectory \<Rightarrow> 'd machine \<Rightarrow> 'd machine \<times> ZMSyncState option" where
  "enter_CatchUpPhaseOne D m =
     (let m1 = emit ProcessStoredInvitations (emit DidStartSync (m\<lparr>catchUpOne_error := False\<rparr>))
      in if hasLastUpdateEventID D (dir m1) then (on_dir (startDownloadingMissingNotifications D) m1, None)
         else (on_dir (startDownloadingMissingNotifications D) m1, Some DownloadLastUpdateEventIDState))"

definition enter_CatchUpPhaseTwo :: "'d ZMObjectStrategyDirectory \<Rightarrow> 'd machine \<Rightarrow> 'd machine" where
  "enter_CatchUpPhaseTwo D m = on_dir (startDownloadingMissingNotifications D) (m\<lparr>catchUpTwo_error := False\<rparr>)"

definition enter_DownloadLastUpdateEventID :: "'d ZMObjectStrategyDirectory \<Rightarrow> 'd machine \<Rightarrow> 'd machine" where
  "enter_DownloadLastUpdateEventID D m = on_dir (startRequestingLastUpdateEventID D) m"

definition enter_Background :: "'d machine \<Rightarrow> 'd machine" where
  "enter_Background m = emit SessionEnterBackground (m\<lparr>didPrepareForSuspend := False\<rparr>)"

definition enter_PreBackground ::
  "'d ZMObjectStrategyDirectory \<Rightarrow> 'd machine \<Rightarrow> 'd machine \<times> ZMSyncState option" where
  "enter_PreBackground D m =
     (if canGoToBackgroundState D m then (m, Some BackgroundState)
      else (emit BeginBackgroundActivity (m\<lparr>activity := True\<rparr>), None))"

definition enter_BackgroundFetch ::
  "'d ZMObjectStrategyDirectory \<Rightarrow> 'd machine \<Rightarrow> 'd machine \<times> ZMSyncState option" where
  "enter_BackgroundFetch D m =
     (let t = (if fetch_maximumTime m > 0 then fetch_maximumTime m else MaximumTimeInState);
          m1 = emit (StartTimer (nextTimer m) t)
                 (m\<lparr>fetch_maximumTime := t, fetch_timer := Some (nextTimer m), nextTimer := Suc (nextTimer m)\<rparr>);
          m2 = m1\<lparr>fetch_error := False, didRequestAssets := False,
                   updateEventIDWhenStartingFetch := dir_lastUpdateEventID D (dir m1)\<rparr>
      in if updateEventIDWhenStartingFetch m2 = None then (m2, Some PreBackgroundState)
         else (on_dir (startDownloadingMissingNotifications D) m2, None))"

definition enter_BackgroundTask :: "'d machine \<Rightarrow> 'd machine" where
  "enter_BackgroundTask m =
     (let t = (if task_maximumTime m > 0 then task_maximumTime m else MaximumTimeInState)
      in emit (StartTimer (nextTimer m) t)
           (m\<lparr>task_maximumTime := t, task_timer := Some (nextTimer m), nextTimer := Suc (nextTimer m),
              didFinishTask := False, isRequestingClients := False, hasMissingClients := False,
              task_error := False\<rparr>))"

fun didEnterState ::
  "'d ZMObjectStrategyDirectory \<Rightarrow> NSTimeInterval \<Rightarrow> NSDate \<Rightarrow> ZMSyncState \<Rightarrow> 'd machine \<Rightarrow>
   'd machine \<times> ZMSyncState option" where
  "didEnterState D override now UnauthenticatedState m = enter_Unauthenticated D override now m"
| "didEnterState D override now UnauthenticatedBackgroundState m = (m, None)"
| "didEnterState D override now EventProcessingState m = (enter_EventProcessing D m, None)"
| "didEnterState D override now SlowSyncPhaseOneState m = (enter_SlowSyncPhaseOne D m, None)"
| "didEnterState D override now SlowSyncPhaseTwoState m = (enter_SlowSyncPhaseTwo D m, None)"
| "didEnterState D override now UpdateEventsCatchUpPhaseOneState m = enter_CatchUpPhaseOne D m"
| "didEnterState D override now UpdateEventsCatchUpPhaseTwoState m = (enter_CatchUpPhaseTwo D m, None)"
| "didEnterState D override now DownloadLastUpdateEventIDState m = (enter_DownloadLastUpdateEventID D m, None)"
| "didEnterState D override now BackgroundState m = (enter_Background m, None)"
| "didEnterState D override now PreBackgroundState m = enter_PreBackground D m"
| "didEnterState D override now BackgroundFetchState m = enter_BackgroundFetch D m"
| "didEnterState D override now BackgroundTaskState m = (enter_BackgroundTask m, None)"

definition leave_PreBackground :: "'d machine \<Rightarrow> 'd machine" where
  "leave_PreBackground m = (if activity m then emit EndBackgroundActivity m else m)\<lparr>activity := False\<rparr>"

definition leave_BackgroundFetch :: "'d ZMObjectStrategyDirectory \<Rightarrow> 'd machine \<Rightarrow> 'd machine" where
  "leave_BackgroundFetch D m = fetch_markFetchAsComplete D ((cancel (fetch_timer m) m)\<lparr>fetch_timer := None\<rparr>)"

definition leave_BackgroundTask :: "'d machine \<Rightarrow> 'd machine" where
  "leave_BackgroundTask m = task_markFetchAsComplete ((cancel (task_timer m) m)\<lparr>task_timer := None\<rparr>)"

definition leave_Unauthenticated :: "'d machine \<Rightarrow> 'd machine" where
  "leave_Unauthenticated m = (stopLoginTimer m)\<lparr>observesAuthentication := False\<rparr>"

definition didLeaveState ::
  "'d ZMObjectStrategyDirectory \<Rightarrow> ZMSyncState option \<Rightarrow> 'd machine \<Rightarrow> 'd machine" where
  "didLeaveState D st m =
     (case st of
        Some UnauthenticatedState \<Rightarrow> leave_Unauthenticated m
      | Some SlowSyncPhaseTwoState \<Rightarrow> on_dir (persistLastUpdateEventID D) m
      | Some BackgroundState \<Rightarrow> emit SessionEnterForeground m
      | Some PreBackgroundState \<Rightarrow> leave_PreBackground m
      | Some BackgroundFetchState \<Rightarrow> leave_BackgroundFetch D m
      | Some BackgroundTaskState \<Rightarrow> leave_BackgroundTask m
      | _ \<Rightarrow> m)"

section \<open>Changing the state\<close>

text \<open>Nested changes only go down this order, so \<^verbatim>\<open>goToState:\<close> ends.\<close>

fun nesting :: "ZMSyncState \<Rightarrow> nat" where
  "nesting UnauthenticatedState = 2"
| "nesting BackgroundFetchState = 2"
| "nesting UpdateEventsCatchUpPhaseOneState = 1"
| "nesting PreBackgroundState = 1"
| "nesting _ = 0"

lemma nested_state_is_lower:
  "didEnterState D override now st m = (m', Some st') \<Longrightarrow> nesting st' < nesting st"
  by (cases st) (auto simp: enter_Unauthenticated_def enter_CatchUpPhaseOne_def enter_PreBackground_def
      enter_BackgroundFetch_def Let_def split: if_splits)

function goToState ::
  "'d ZMObjectStrategyDirectory \<Rightarrow> NSTimeInterval \<Rightarrow> NSDate \<Rightarrow> ZMSyncState \<Rightarrow> 'd machine \<Rightarrow> 'd machine" where
  "goToState D override now st m =
     (case didEnterState D override now st ((didLeaveState D (currentState m) m)\<lparr>currentState := Some st\<rparr>) of
        (m', None) \<Rightarrow> m'
      | (m', Some st') \<Rightarrow> goToState D override now st' m')"
  by pat_completeness auto
termination
  by (relation "measure (\<lambda>(D, override, now, st, m). nesting st)") (auto dest: nested_state_is_lower [OF sym])

declare goToState.simps [simp del]

end
