(* ===== verification/SyncMachine.thy ===== *)
theory SyncMachine
  imports SyncStates
begin

text \<open>
  \<^verbatim>\<open>ZMSyncStateMachine\<close>: how the current state answers the messages of the machine, and the loop that
  asks the states for the next request. The completion handlers a state adds to a request are the
  messages \<open>Completed\<close>; the time and the debug override of the login timeout are arguments.
\<close>

section \<open>Starting a sync\<close>

definition startQuickSync ::
  "'d ZMObjectStrategyDirectory \<Rightarrow> NSTimeInterval \<Rightarrow> NSDate \<Rightarrow> 'd machine \<Rightarrow> 'd machine" where
  "startQuickSync D override now = goToState D override now UpdateEventsCatchUpPhaseOneState"

definition startSlowSync ::
  "'d ZMObjectStrategyDirectory \<Rightarrow> NSTimeInterval \<Rightarrow> NSDate \<Rightarrow> 'd machine \<Rightarrow> 'd machine" where
  "startSlowSync D override now = goToState D override now DownloadLastUpdateEventIDState"

section \<open>Requests\<close>

fun nextRequestFromTranscoders ::
  "'d ZMObjectStrategyDirectory \<Rightarrow> transcoder list \<Rightarrow> 'd machine \<Rightarrow> ZMTransportRequest option \<times> 'd machine" where
  "nextRequestFromTranscoders D [] m = (None, m)"
| "nextRequestFromTranscoders D (t # ts) m =
     (case generators_nextRequest D t (dir m) of
        (Some r, d) \<Rightarrow> (Some r, m\<lparr>dir := d\<rparr>)
      | (None, d) \<Rightarrow> nextRequestFromTranscoders D ts (m\<lparr>dir := d\<rparr>))"

abbreviation ask ::
  "'d ZMObjectStrategyDirectory \<Rightarrow> transcoder \<Rightarrow> 'd machine \<Rightarrow> ZMTransportRequest option \<times> 'd machine" where
  "ask D t \<equiv> nextRequestFromTranscoders D [t]"

definition RequestFailureTimeIntervalBufferTime :: NSTimeInterval where
  "RequestFailureTimeIntervalBufferTime = 5 / 100"

definition loginRequest ::
  "'d ZMObjectStrategyDirectory \<Rightarrow> NSTimeInterval \<Rightarrow> NSDate \<Rightarrow> 'd machine \<Rightarrow>
   ZMTransportRequest option \<times> 'd machine" where
  "loginRequest D override now m =
     (case ask D loginTranscoder m of (request, m1) \<Rightarrow>
        if shouldRunTimerForLoginExpiration m1 then
          let m2 = (if lastTimerStart m1 = None then startLoginTimer override now m1 else m1);
              diff = loginTimeout override - (now - the (lastTimerStart m2)) - RequestFailureTimeIntervalBufferTime
          in if diff > 0 then (request, if request = None then m2 else emit (ExpireRequestAfter diff) m2)
             else (None, m2)
        else (request, m1))"

definition shouldStartQuickSync :: "'d ZMObjectStrategyDirectory \<Rightarrow> 'd machine \<Rightarrow> bool \<times> 'd machine" where
  "shouldStartQuickSync D m =
     (let m1 = (if \<not> didLaunchInForeground m \<and> \<not> applicationInBackground m
                then m\<lparr>didLaunchInForeground := True\<rparr> else m)
      in (isDoneWithLogin D m1 \<and> didLaunchInForeground m1, m1))"

definition unauthenticated_nextRequest ::
  "'d ZMObjectStrategyDirectory \<Rightarrow> NSTimeInterval \<Rightarrow> NSDate \<Rightarrow> 'd machine \<Rightarrow>
   ZMTransportRequest option \<times> 'd machine" where
  "unauthenticated_nextRequest D override now m =
     (if isDoneWithLogin D m then
        (case shouldStartQuickSync D m of (start, m1) \<Rightarrow>
           (None, if start then startQuickSync D override now m1 else m1))
      else case currentPhase (sess m) of
        ZMAuthenticationPhaseLoginWithEmail \<Rightarrow> loginRequest D override now m
      | ZMAuthenticationPhaseLoginWithPhone \<Rightarrow> loginRequest D override now m
      | ZMAuthenticationPhaseWaitingForEmailVerification \<Rightarrow> loginRequest D override now m
      | ZMAuthenticationPhaseRegisterWithEmail \<Rightarrow> ask D registrationTranscoder m
      | ZMAuthenticationPhaseRegisterWithPhone \<Rightarrow> ask D registrationTranscoder m
      | ZMAuthenticationPhaseRequestPhoneVerificationCodeForRegistration \<Rightarrow>
          ask D phoneNumberVerificationTranscoder m
      | ZMAuthenticationPhaseVerifyPhoneForRegistration \<Rightarrow> ask D phoneNumberVerificationTranscoder m
      | ZMAuthenticationPhaseRequestPhoneVerificationCodeForLogin \<Rightarrow> ask D loginCodeRequestTranscoder m
      | ZMAuthenticationPhaseUnauthenticated \<Rightarrow> loginRequest D override now m
      | ZMAuthenticationPhaseAuthenticated \<Rightarrow>
          (if clientReg_currentPhase (sess m) = ZMClientRegistrationPhaseWaitingForSelfUser
           then ask D selfTranscoder m
           else if clientReg_currentPhase (sess m) = ZMClientRegistrationPhaseWaitingForEmailVerfication
           then case ask D userProfileUpdateTranscoder m of
                  (Some r, m1) \<Rightarrow> (Some r, m1)
                | (None, m1) \<Rightarrow>
                    (case loginRequest D override now m1 of
                       (Some r, m2) \<Rightarrow> (Some r, m2)
                     | (None, m2) \<Rightarrow> ask D selfTranscoder m2)
           else (None, m)))"

definition background_transcoders :: "transcoder list" where
  "background_transcoders =
     [flowTranscoder, systemMessageTranscoder, textMessageTranscoder, clientMessageTranscoder,
      selfTranscoder, assetTranscoder]"

definition background_nextRequest ::
  "'d ZMObjectStrategyDirectory \<Rightarrow> 'd machine \<Rightarrow> ZMTransportRequest option \<times> 'd machine" where
  "background_nextRequest D m =
     (case nextRequestFromTranscoders D background_transcoders m of (r, m1) \<Rightarrow>
        (r, if r = None \<and> \<not> didPrepareForSuspend m1
            then emit SessionPrepareForSuspendedState (m1\<lparr>didPrepareForSuspend := True\<rparr>) else m1))"

definition syncObjects :: "transcoder list" where
  "syncObjects =
     [flowTranscoder, callStateTranscoder, userProfileUpdateTranscoder, addressBookTranscoder,
      connectionTranscoder, userTranscoder, selfTranscoder, conversationTranscoder, pushTokenTranscoder,
      systemMessageTranscoder, textMessageTranscoder, clientMessageTranscoder, knockTranscoder,
      userImageTranscoder, searchUserImageTranscoder, assetTranscoder, typingTranscoder,
      removedSuggestedPeopleTranscoder]"

definition eventProcessing_nextRequest ::
  "'d ZMObjectStrategyDirectory \<Rightarrow> 'd machine \<Rightarrow> ZMTransportRequest option \<times> 'd machine" where
  "eventProcessing_nextRequest D m =
     (case nextRequestFromTranscoders D syncObjects m of (r, m1) \<Rightarrow>
        (r, (if isSyncing m1 \<and> r = None then emit TestSynchronizationStoppedNote m1 else m1)
              \<lparr>isSyncing := (r \<noteq> None)\<rparr>))"

definition fetch_transitionOutIfComplete ::
  "'d ZMObjectStrategyDirectory \<Rightarrow> NSTimeInterval \<Rightarrow> NSDate \<Rightarrow> 'd machine \<Rightarrow> 'd machine" where
  "fetch_transitionOutIfComplete D override now m =
     (if fetch_error m then goToState D override now PreBackgroundState m
      else if \<not> isDownloadingMissingNotifications D (dir m) \<and> \<not> hasOutstandingItems D (dir m)
      then goToState D override now PreBackgroundState m
      else m)"

definition fetch_nextRequest ::
  "'d ZMObjectStrategyDirectory \<Rightarrow> NSTimeInterval \<Rightarrow> NSDate \<Rightarrow> 'd machine \<Rightarrow>
   ZMTransportRequest option \<times> 'd machine" where
  "fetch_nextRequest D override now m =
     (case ask D missingUpdateEventsTranscoder m of
        (Some r, m1) \<Rightarrow> (Some r, m1)
      | (None, m1) \<Rightarrow>
          (case ask D assetTranscoder m1 of
             (Some r, m2) \<Rightarrow> (Some r, m2\<lparr>didRequestAssets := True\<rparr>)
           | (None, m2) \<Rightarrow> (None, fetch_transitionOutIfComplete D override now m2)))"

definition task_transitionOutIfComplete ::
  "'d ZMObjectStrategyDirectory \<Rightarrow> NSTimeInterval \<Rightarrow> NSDate \<Rightarrow> 'd machine \<Rightarrow> 'd machine" where
  "task_transitionOutIfComplete D override now m =
     (if task_error m \<or> didFinishTask m then goToState D override now PreBackgroundState m else m)"

definition task_nextRequest ::
  "'d ZMObjectStrategyDirectory \<Rightarrow> NSTimeInterval \<Rightarrow> NSDate \<Rightarrow> 'd machine \<Rightarrow>
   ZMTransportRequest option \<times> 'd machine" where
  "task_nextRequest D override now m =
     (case ask D clientMessageTranscoder m of
        (Some r, m1) \<Rightarrow> (Some r, m1)
      | (None, m1) \<Rightarrow> (None, task_transitionOutIfComplete D override now m1))"

fun state_nextRequest ::
  "'d ZMObjectStrategyDirectory \<Rightarrow> NSTimeInterval \<Rightarrow> NSDate \<Rightarrow> ZMSyncState \<Rightarrow> 'd machine \<Rightarrow>
   ZMTransportRequest option \<times> 'd machine" where
  "state_nextRequest D override now UnauthenticatedState m = unauthenticated_nextRequest D override now m"
| "state_nextRequest D override now UnauthenticatedBackgroundState m = (None, m)"
| "state_nextRequest D override now EventProcessingState m = eventProcessing_nextRequest D m"
| "state_nextRequest D override now SlowSyncPhaseOneState m = nextRequestFromTranscoders D
     [connectionTranscoder, conversationTranscoder, userProfileUpdateTranscoder] m"
| "state_nextRequest D override now SlowSyncPhaseTwoState m = nextRequestFromTranscoders D
     [userTranscoder, userProfileUpdateTranscoder] m"
| "state_nextRequest D override now UpdateEventsCatchUpPhaseOneState m = nextRequestFromTranscoders D
     [missingUpdateEventsTranscoder, userProfileUpdateTranscoder] m"
| "state_nextRequest D override now UpdateEventsCatchUpPhaseTwoState m = nextRequestFromTranscoders D
     [missingUpdateEventsTranscoder, userProfileUpdateTranscoder] m"
| "state_nextRequest D override now DownloadLastUpdateEventIDState m = nextRequestFromTranscoders D
     [lastUpdateEventIDTranscoder, userProfileUpdateTranscoder] m"
| "state_nextRequest D override now BackgroundState m = background_nextRequest D m"
| "state_nextRequest D override now PreBackgroundState m = nextRequestFromTranscoders D background_transcoders m"
| "state_nextRequest D override now BackgroundFetchState m = fetch_nextRequest D override now m"
| "state_nextRequest D override now BackgroundTaskState m = task_nextRequest D override now m"

section \<open>Where a change of state can end\<close>

lemma frame_simps [simp]:
  "currentState (emit e m) = currentState m" "currentState (on_dir f m) = currentState m"
  "currentState (cancel t m) = currentState m" "currentState (startLoginTimer ov now m) = currentState m"
  "fetchCompletionHandler (emit e m) = fetchCompletionHandler m"
  "fetchCompletionHandler (on_dir f m) = fetchCompletionHandler m"
  "fetchCompletionHandler (cancel t m) = fetchCompletionHandler m"
  by (simp_all add: emit_def on_dir_def cancel_def startLoginTimer_def Let_def split: option.splits)

lemma didEnterState_currentState:
  "didEnterState D override now st m = (m', r) \<Longrightarrow> currentState m' = currentState m"
  by (cases st) (auto simp: enter_Unauthenticated_def enter_EventProcessing_def didStartSlowSync_def
      enter_SlowSyncPhaseOne_def enter_SlowSyncPhaseTwo_def enter_CatchUpPhaseOne_def
      enter_CatchUpPhaseTwo_def enter_DownloadLastUpdateEventID_def enter_Background_def
      enter_PreBackground_def enter_BackgroundFetch_def enter_BackgroundTask_def Let_def split: if_splits)

text \<open>A change of state ends in the state asked for or in one that it leads on to.\<close>

fun leads_to :: "ZMSyncState \<Rightarrow> ZMSyncState set" where
  "leads_to UnauthenticatedState =
     {UnauthenticatedState, BackgroundState, UpdateEventsCatchUpPhaseOneState, DownloadLastUpdateEventIDState}"
| "leads_to UpdateEventsCatchUpPhaseOneState =
     {UpdateEventsCatchUpPhaseOneState, DownloadLastUpdateEventIDState}"
| "leads_to PreBackgroundState = {PreBackgroundState, BackgroundState}"
| "leads_to BackgroundFetchState = {BackgroundFetchState, PreBackgroundState, BackgroundState}"
| "leads_to st = {st}"

lemma nested_leads_to:
  "didEnterState D override now st m = (m', Some st') \<Longrightarrow> leads_to st' \<subseteq> leads_to st"
  by (cases st) (auto simp: enter_Unauthenticated_def enter_CatchUpPhaseOne_def enter_PreBackground_def
      enter_BackgroundFetch_def Let_def split: if_splits)

lemma leads_to_refl: "st \<in> leads_to st"
  by (cases st) simp_all

lemma goToState_step:
  assumes "didEnterState D override now st
      ((didLeaveState D (currentState m) m)\<lparr>currentState := Some st\<rparr>) = (m', r)"
  shows "goToState D override now st m =
    (case r of None \<Rightarrow> m' | Some st' \<Rightarrow> goToState D override now st' m')"
  by (subst goToState.simps) (simp only: assms prod.case)

lemma goToState_leads_to:
  "\<exists>st'. currentState (goToState D override now st m) = Some st' \<and> st' \<in> leads_to st"
proof (induction "nesting st" arbitrary: st m rule: less_induct)
  case less
  define m0 where "m0 = (didLeaveState D (currentState m) m)\<lparr>currentState := Some st\<rparr>"
  define m' where "m' = fst (didEnterState D override now st m0)"
  define r where "r = snd (didEnterState D override now st m0)"
  have e: "didEnterState D override now st m0 = (m', r)"
    by (simp add: m'_def r_def)
  note go = goToState_step [OF e [unfolded m0_def]]
  show ?case
  proof (cases r)
    case None
    have "currentState m' = Some st"
      using didEnterState_currentState [OF e] by (simp add: m0_def)
    then show ?thesis
      by (simp add: go None leads_to_refl)
  next
    case (Some st')
    have enter: "didEnterState D override now st m0 = (m', Some st')"
      using e Some by simp
    obtain st'' where "currentState (goToState D override now st' m') = Some st''" "st'' \<in> leads_to st'"
      using less [OF nested_state_is_lower [OF enter]] by blast
    then show ?thesis
      using nested_leads_to [OF enter] by (auto simp: go Some)
  qed
qed

section \<open>The request loop\<close>

text \<open>Only three states change the state when they are asked for a request.\<close>

fun restless :: "ZMSyncState option \<Rightarrow> bool" where
  "restless (Some st) = (st \<in> {UnauthenticatedState, BackgroundFetchState, BackgroundTaskState})"
| "restless None = False"

lemma nextRequestFromTranscoders_currentState [simp]:
  "currentState (snd (nextRequestFromTranscoders D ts m)) = currentState m"
  by (induction ts arbitrary: m) (simp_all split: prod.splits option.splits)

lemma leads_to_calm:
  "st' \<in> leads_to UpdateEventsCatchUpPhaseOneState \<union> leads_to PreBackgroundState \<Longrightarrow> \<not> restless (Some st')"
  by auto

definition ask_state ::
  "'d ZMObjectStrategyDirectory \<Rightarrow> NSTimeInterval \<Rightarrow> NSDate \<Rightarrow> 'd machine \<Rightarrow>
   ZMTransportRequest option \<times> 'd machine" where
  "ask_state D override now m =
     (case currentState m of None \<Rightarrow> (None, m) | Some st \<Rightarrow> state_nextRequest D override now st m)"

lemma loginRequest_currentState [simp]:
  "currentState (snd (loginRequest D override now m)) = currentState m"
proof -
  define r where "r = fst (ask D loginTranscoder m)"
  define m1 where "m1 = snd (ask D loginTranscoder m)"
  have a: "ask D loginTranscoder m = (r, m1)"
    by (simp only: r_def m1_def prod.collapse)
  have "currentState m1 = currentState m"
    by (simp only: m1_def nextRequestFromTranscoders_currentState)
  then show ?thesis
    by (simp only: loginRequest_def a prod.case) (simp add: Let_def)
qed

text \<open>Asking a state keeps it, or moves on to a state that will not move again.\<close>

definition settles :: "'d machine \<Rightarrow> 'd machine \<Rightarrow> bool" where
  "settles m m' \<longleftrightarrow> currentState m' = currentState m \<or> \<not> restless (currentState m')"

lemma settles_goToState:
  assumes "st = UpdateEventsCatchUpPhaseOneState \<or> st = PreBackgroundState"
  shows "settles m (goToState D override now st m')"
proof -
  obtain st' where "currentState (goToState D override now st m') = Some st'" "st' \<in> leads_to st"
    using goToState_leads_to by blast
  then show ?thesis
    using assms leads_to_calm [of st'] by (auto simp: settles_def)
qed

lemma settles_same [simp]: "currentState m' = currentState m \<Longrightarrow> settles m m'"
  by (simp add: settles_def)

lemma settles_asked: "nextRequestFromTranscoders D ts m = (r, m') \<Longrightarrow> currentState m' = currentState m"
  using nextRequestFromTranscoders_currentState [of D ts m] by simp

lemma settles_loginRequest: "loginRequest D override now m = (r, m') \<Longrightarrow> currentState m' = currentState m"
  using loginRequest_currentState [of D override now m] by simp

lemma shouldStartQuickSync_currentState: "shouldStartQuickSync D m = (b, m') \<Longrightarrow> currentState m' = currentState m"
  by (auto simp: shouldStartQuickSync_def Let_def split: if_splits)

lemma unauthenticated_settles: "settles m (snd (unauthenticated_nextRequest D override now m))"
  unfolding unauthenticated_nextRequest_def startQuickSync_def
  by (auto simp: settles_goToState simp del: nextRequestFromTranscoders.simps
      dest!: shouldStartQuickSync_currentState settles_asked settles_loginRequest
      split: prod.splits option.splits ZMAuthenticationPhase.splits)

lemma fetch_settles: "settles m (snd (fetch_nextRequest D override now m))"
  unfolding fetch_nextRequest_def fetch_transitionOutIfComplete_def
  by (auto simp: settles_goToState simp del: nextRequestFromTranscoders.simps
      dest!: settles_asked split: prod.splits option.splits)

lemma task_settles: "settles m (snd (task_nextRequest D override now m))"
  unfolding task_nextRequest_def task_transitionOutIfComplete_def
  by (auto simp: settles_goToState simp del: nextRequestFromTranscoders.simps
      dest!: settles_asked split: prod.splits option.splits)

lemma background_keeps: "currentState (snd (background_nextRequest D m)) = currentState m"
  unfolding background_nextRequest_def
  by (auto dest: settles_asked split: prod.splits simp del: nextRequestFromTranscoders.simps)

lemma eventProcessing_keeps: "currentState (snd (eventProcessing_nextRequest D m)) = currentState m"
  unfolding eventProcessing_nextRequest_def
  by (auto dest: settles_asked split: prod.splits simp del: nextRequestFromTranscoders.simps)

lemma calm_state_keeps:
  "\<not> restless (Some st) \<Longrightarrow> currentState (snd (state_nextRequest D override now st m)) = currentState m"
  by (cases st) (simp_all add: background_keeps eventProcessing_keeps del: nextRequestFromTranscoders.simps)

lemma ask_state_settles: "settles m (snd (ask_state D override now m))"
proof (cases "currentState m")
  case (Some st)
  then show ?thesis
    by (cases "restless (Some st)")
      (auto simp: ask_state_def calm_state_keeps unauthenticated_settles fetch_settles task_settles)
qed (simp add: ask_state_def)

lemma ask_state_moves:
  assumes "ask_state D override now m = (r, m')" and "currentState m' \<noteq> currentState m"
  shows "restless (currentState m) \<and> \<not> restless (currentState m')"
proof -
  have "restless (currentState m)"
  proof (rule ccontr)
    assume calm: "\<not> restless (currentState m)"
    have "currentState (snd (ask_state D override now m)) = currentState m"
      using calm by (cases "currentState m") (simp_all add: ask_state_def calm_state_keeps del: restless.simps)
    then show False
      using assms by simp
  qed
  then show ?thesis
    using assms ask_state_settles [of m D override now] by (simp add: settles_def)
qed

function machine_nextRequest ::
  "'d ZMObjectStrategyDirectory \<Rightarrow> NSTimeInterval \<Rightarrow> NSDate \<Rightarrow> 'd machine \<Rightarrow>
   ZMTransportRequest option \<times> 'd machine" where
  "machine_nextRequest D override now m =
     (case ask_state D override now m of (r, m') \<Rightarrow>
        if r = None \<and> currentState m' \<noteq> currentState m
        then machine_nextRequest D override now m' else (r, m'))"
  by pat_completeness auto
termination
  by (relation "measure (\<lambda>(D, override, now, m). if restless (currentState m) then 1 else 0)")
    (auto dest: ask_state_moves [OF sym])

declare machine_nextRequest.simps [simp del]

section \<open>Messages\<close>

fun state_didEnterBackground ::
  "'d ZMObjectStrategyDirectory \<Rightarrow> NSTimeInterval \<Rightarrow> NSDate \<Rightarrow> ZMSyncState \<Rightarrow> 'd machine \<Rightarrow> 'd machine" where
  "state_didEnterBackground D override now UnauthenticatedState m =
     goToState D override now UnauthenticatedBackgroundState m"
| "state_didEnterBackground D override now UnauthenticatedBackgroundState m = m"
| "state_didEnterBackground D override now BackgroundState m = m"
| "state_didEnterBackground D override now PreBackgroundState m = m"
| "state_didEnterBackground D override now BackgroundFetchState m = m"
| "state_didEnterBackground D override now BackgroundTaskState m = m"
| "state_didEnterBackground D override now st m = goToState D override now PreBackgroundState m"

fun state_didEnterForeground ::
  "'d ZMObjectStrategyDirectory \<Rightarrow> NSTimeInterval \<Rightarrow> NSDate \<Rightarrow> ZMSyncState \<Rightarrow> 'd machine \<Rightarrow> 'd machine" where
  "state_didEnterForeground D override now UnauthenticatedState m =
     (let m1 = m\<lparr>didLaunchInForeground := True\<rparr>
      in if isDoneWithLogin D m1 then startQuickSync D override now m1 else m1)"
| "state_didEnterForeground D override now UnauthenticatedBackgroundState m =
     goToState D override now UnauthenticatedState m"
| "state_didEnterForeground D override now BackgroundState m = startQuickSync D override now m"
| "state_didEnterForeground D override now PreBackgroundState m = startQuickSync D override now m"
| "state_didEnterForeground D override now BackgroundFetchState m = startQuickSync D override now m"
| "state_didEnterForeground D override now BackgroundTaskState m = startQuickSync D override now m"
| "state_didEnterForeground D override now st m = m"

definition keeps_running :: "ZMSyncState \<Rightarrow> bool" where
  "keeps_running st \<longleftrightarrow> st \<in> {UnauthenticatedState, UnauthenticatedBackgroundState, BackgroundState,
     PreBackgroundState, BackgroundFetchState, BackgroundTaskState}"

definition state_didRequestSynchronization ::
  "'d ZMObjectStrategyDirectory \<Rightarrow> NSTimeInterval \<Rightarrow> NSDate \<Rightarrow> ZMSyncState \<Rightarrow> 'd machine \<Rightarrow> 'd machine" where
  "state_didRequestSynchronization D override now st m =
     (if keeps_running st then m else startQuickSync D override now m)"

definition state_didFailAuthentication ::
  "'d ZMObjectStrategyDirectory \<Rightarrow> NSTimeInterval \<Rightarrow> NSDate \<Rightarrow> ZMSyncState \<Rightarrow> 'd machine \<Rightarrow> 'd machine" where
  "state_didFailAuthentication D override now st m =
     (if st = UnauthenticatedState \<or> st = UnauthenticatedBackgroundState then m
      else goToState D override now UnauthenticatedState m)"

definition unauthenticated_dataDidChange ::
  "'d ZMObjectStrategyDirectory \<Rightarrow> NSTimeInterval \<Rightarrow> NSDate \<Rightarrow> 'd machine \<Rightarrow> 'd machine" where
  "unauthenticated_dataDidChange D override now m =
     (case shouldStartQuickSync D m of (start, m1) \<Rightarrow> if start then startQuickSync D override now m1 else m1)"

fun state_dataDidChange ::
  "'d ZMObjectStrategyDirectory \<Rightarrow> NSTimeInterval \<Rightarrow> NSDate \<Rightarrow> ZMSyncState \<Rightarrow> 'd machine \<Rightarrow> 'd machine" where
  "state_dataDidChange D override now UnauthenticatedState m = unauthenticated_dataDidChange D override now m"
| "state_dataDidChange D override now DownloadLastUpdateEventIDState m =
     (if hasLastUpdateEventID D (dir m) \<or> \<not> isDownloadingLastUpdateEventID D (dir m)
      then goToState D override now SlowSyncPhaseOneState m else m)"
| "state_dataDidChange D override now SlowSyncPhaseOneState m =
     (if isSlowSyncDone D connectionTranscoder (dir m) \<and> isSlowSyncDone D conversationTranscoder (dir m)
      then goToState D override now SlowSyncPhaseTwoState m else m)"
| "state_dataDidChange D override now SlowSyncPhaseTwoState m =
     (if isSlowSyncDone D userTranscoder (dir m) then goToState D override now EventProcessingState m else m)"
| "state_dataDidChange D override now UpdateEventsCatchUpPhaseOneState m =
     (if catchUpOne_error m then startSlowSync D override now (m\<lparr>catchUpOne_error := False\<rparr>)
      else if \<not> isDownloadingMissingNotifications D (dir m) \<and> isUpdateEventStreamActive m
      then goToState D override now UpdateEventsCatchUpPhaseTwoState m else m)"
| "state_dataDidChange D override now UpdateEventsCatchUpPhaseTwoState m =
     (if catchUpTwo_error m then startSlowSync D override now (m\<lparr>catchUpTwo_error := False\<rparr>)
      else if \<not> isDownloadingMissingNotifications D (dir m)
      then goToState D override now EventProcessingState m else m)"
| "state_dataDidChange D override now PreBackgroundState m =
     (if canGoToBackgroundState D m then goToState D override now BackgroundState m else m)"
| "state_dataDidChange D override now BackgroundFetchState m = fetch_transitionOutIfComplete D override now m"
| "state_dataDidChange D override now BackgroundTaskState m = task_transitionOutIfComplete D override now m"
| "state_dataDidChange D override now st m = m"

definition startBackgroundFetch ::
  "'d ZMObjectStrategyDirectory \<Rightarrow> NSTimeInterval \<Rightarrow> NSDate \<Rightarrow> nat \<Rightarrow> 'd machine \<Rightarrow> 'd machine" where
  "startBackgroundFetch D override now h m =
     (if (case currentState m of Some st \<Rightarrow> supportsBackgroundFetch st | None \<Rightarrow> False)
      then goToState D override now BackgroundFetchState (m\<lparr>fetchCompletionHandler := Some h\<rparr>)
      else emit (CallFetchHandler h ZMBackgroundFetchResultNoData) m)"

definition startBackgroundTask ::
  "'d ZMObjectStrategyDirectory \<Rightarrow> NSTimeInterval \<Rightarrow> NSDate \<Rightarrow> nat \<Rightarrow> 'd machine \<Rightarrow> 'd machine" where
  "startBackgroundTask D override now h m =
     (if (case currentState m of Some st \<Rightarrow> supportsBackgroundFetch st | None \<Rightarrow> False)
      then goToState D override now BackgroundTaskState (m\<lparr>taskCompletionHandler := Some h\<rparr>)
      else emit (CallTaskHandler h ZMBackgroundTaskResultUnavailable) m)"

definition fetch_timerDidFire ::
  "'d ZMObjectStrategyDirectory \<Rightarrow> NSTimeInterval \<Rightarrow> NSDate \<Rightarrow> nat \<Rightarrow> 'd machine \<Rightarrow> 'd machine" where
  "fetch_timerDidFire D override now t m =
     (if fetch_timer m \<noteq> Some t then m
      else let m1 = (cancel (fetch_timer m) m)\<lparr>fetch_timer := None\<rparr>
           in if currentState m1 \<noteq> Some BackgroundFetchState then m1
              else fetch_markFetchAsComplete D (goToState D override now PreBackgroundState m1))"

definition task_timerDidFire ::
  "'d ZMObjectStrategyDirectory \<Rightarrow> NSTimeInterval \<Rightarrow> NSDate \<Rightarrow> nat \<Rightarrow> 'd machine \<Rightarrow> 'd machine" where
  "task_timerDidFire D override now t m =
     (if task_timer m \<noteq> Some t then m
      else let m1 = (cancel (task_timer m) m)\<lparr>task_timer := None\<rparr>
           in if currentState m1 \<noteq> Some BackgroundTaskState then m1
              else task_markFetchAsComplete (goToState D override now PreBackgroundState (m1\<lparr>task_error := True\<rparr>)))"

definition didChangeAuthenticationData ::
  "'d ZMObjectStrategyDirectory \<Rightarrow> NSTimeInterval \<Rightarrow> NSDate \<Rightarrow> 'd machine \<Rightarrow> 'd machine" where
  "didChangeAuthenticationData D override now m =
     (if \<not> observesAuthentication m then m
      else let m1 = (cancel (map_option fst (loginFailureTimer m)) m)\<lparr>loginFailureTimer := None\<rparr>;
               m2 = (if shouldRunTimerForLoginExpiration m1 then startLoginTimer override now m1 else m1);
               m3 = (if currentPhase (sess m2) = ZMAuthenticationPhaseRegisterWithEmail \<or>
                        currentPhase (sess m2) = ZMAuthenticationPhaseRegisterWithPhone
                     then on_dir (resetRegistrationState D) m2 else m2)
           in unauthenticated_dataDidChange D override now m3)"

text \<open>The completion handlers the states add to their requests.\<close>

datatype (plugins only: code size) completion =
    CatchUpOneCompletion | CatchUpTwoCompletion | FetchEventsCompletion | FetchAssetsCompletion | TaskCompletion

fun complete :: "completion \<Rightarrow> ZMTransportResponse \<Rightarrow> 'd machine \<Rightarrow> 'd machine" where
  "complete CatchUpOneCompletion r m =
     (if resp_result r = ZMTransportResponseStatusPermanentError then m\<lparr>catchUpOne_error := True\<rparr> else m)"
| "complete CatchUpTwoCompletion r m =
     (if resp_result r = ZMTransportResponseStatusPermanentError then m\<lparr>catchUpTwo_error := True\<rparr> else m)"
| "complete FetchEventsCompletion r m =
     (if resp_result r = ZMTransportResponseStatusSuccess then emit MocSaveOrRollback m
      else m\<lparr>fetch_error := True\<rparr>)"
| "complete FetchAssetsCompletion r m =
     (if resp_result r \<noteq> ZMTransportResponseStatusSuccess then m\<lparr>fetch_error := True\<rparr> else m)"
| "complete TaskCompletion r m =
     (if resp_result r = ZMTransportResponseStatusSuccess
      then emit MocSaveOrRollback (m\<lparr>didFinishTask := True\<rparr>)
      else if resp_result r = ZMTransportResponseStatusPermanentError then
        (if optionalDictionaryForKey ''missing'' (asDictionary (resp_payload r)) \<in> {None, Some []}
         then m\<lparr>task_error := True\<rparr> else m)
      else if resp_result r = ZMTransportResponseStatusExpired then m\<lparr>task_error := True\<rparr>
      else m)"

datatype 'd ZMSyncStateMachine_msg =
    NextMachineRequest
  | EnterBackground
  | EnterForeground
  | DidEstablishUpdateEventsStream
  | DidInterruptUpdateEventsStream
  | DidFailAuthentication
  | DataDidChange
  | StartBackgroundFetch nat
  | StartBackgroundTask nat
  | FetchTimerDidFire nat
  | TaskTimerDidFire nat
  | DidChangeAuthenticationData
  | Completed completion ZMTransportResponse
  | Environment session 'd bool

definition in_state :: "(ZMSyncState \<Rightarrow> 'd machine \<Rightarrow> 'd machine) \<Rightarrow> 'd machine \<Rightarrow> 'd machine" where
  "in_state f m = (case currentState m of None \<Rightarrow> m | Some st \<Rightarrow> f st m)"

primrec machine_send ::
  "'d ZMObjectStrategyDirectory \<Rightarrow> NSTimeInterval \<Rightarrow> NSDate \<Rightarrow> 'd ZMSyncStateMachine_msg \<Rightarrow>
   'd machine \<Rightarrow> 'd machine" where
  "machine_send D override now NextMachineRequest m = snd (machine_nextRequest D override now m)"
| "machine_send D override now EnterBackground m = in_state (state_didEnterBackground D override now) m"
| "machine_send D override now EnterForeground m = in_state (state_didEnterForeground D override now) m"
| "machine_send D override now DidEstablishUpdateEventsStream m = m\<lparr>isUpdateEventStreamActive := True\<rparr>"
| "machine_send D override now DidInterruptUpdateEventsStream m =
     in_state (state_didRequestSynchronization D override now) (m\<lparr>isUpdateEventStreamActive := False\<rparr>)"
| "machine_send D override now DidFailAuthentication m = in_state (state_didFailAuthentication D override now) m"
| "machine_send D override now DataDidChange m = in_state (state_dataDidChange D override now) m"
| "machine_send D override now (StartBackgroundFetch h) m = startBackgroundFetch D override now h m"
| "machine_send D override now (StartBackgroundTask h) m = startBackgroundTask D override now h m"
| "machine_send D override now (FetchTimerDidFire t) m = fetch_timerDidFire D override now t m"
| "machine_send D override now (TaskTimerDidFire t) m = task_timerDidFire D override now t m"
| "machine_send D override now DidChangeAuthenticationData m = didChangeAuthenticationData D override now m"
| "machine_send D override now (Completed c r) m = complete c r m"
| "machine_send D override now (Environment s d b) m = m\<lparr>sess := s, dir := d, applicationInBackground := b\<rparr>"

section \<open>Invariants across nested changes of state\<close>

text \<open>A property \<open>J\<close> of a machine in a state that leaving and entering keep is kept by a change of state.\<close>

lemma goToState_invariant:
  assumes "J st ((didLeaveState D (currentState m) m)\<lparr>currentState := Some st\<rparr>)"
    and enter: "\<And>st m m' r. J st m \<Longrightarrow> didEnterState D override now st m = (m', r) \<Longrightarrow> J st m'"
    and leave: "\<And>st st' m. J st m \<Longrightarrow> currentState m = Some st \<Longrightarrow>
      J st' ((didLeaveState D (Some st) m)\<lparr>currentState := Some st'\<rparr>)"
  shows "J (the (currentState (goToState D override now st m))) (goToState D override now st m)"
  using assms(1)
proof (induction "nesting st" arbitrary: st m rule: less_induct)
  case less
  define m0 where "m0 = (didLeaveState D (currentState m) m)\<lparr>currentState := Some st\<rparr>"
  define m' where "m' = fst (didEnterState D override now st m0)"
  define r where "r = snd (didEnterState D override now st m0)"
  have e: "didEnterState D override now st m0 = (m', r)"
    by (simp add: m'_def r_def)
  have j: "J st m'"
    using enter [OF _ e] less.prems by (simp add: m0_def)
  have c: "currentState m' = Some st"
    using didEnterState_currentState [OF e] by (simp add: m0_def)
  note go = goToState_step [OF e [unfolded m0_def]]
  show ?case
  proof (cases r)
    case None
    then show ?thesis
      using j by (simp add: go c)
  next
    case (Some st')
    have enter': "didEnterState D override now st m0 = (m', Some st')"
      using e Some by simp
    show ?thesis
      using less.hyps [OF nested_state_is_lower [OF enter'], of m'] leave [OF j c, of st']
      by (simp add: go Some c)
  qed
qed

section \<open>What belongs to a state\<close>

text \<open>
  The login timer and the observation of the authentication belong to the unauthenticated state, the
  background activity to the pre-background state, and a timer and a completion handler each to the
  background fetch and the background task state.
\<close>

definition owned :: "ZMSyncState \<Rightarrow> 'd machine \<Rightarrow> bool" where
  "owned st m \<longleftrightarrow>
     (loginFailureTimer m \<noteq> None \<longrightarrow> st = UnauthenticatedState) \<and>
     (observesAuthentication m \<longrightarrow> st = UnauthenticatedState) \<and>
     (activity m \<longrightarrow> st = PreBackgroundState) \<and>
     (fetch_timer m \<noteq> None \<longrightarrow> st = BackgroundFetchState) \<and>
     (fetchCompletionHandler m \<noteq> None \<longrightarrow> st = BackgroundFetchState) \<and>
     (task_timer m \<noteq> None \<longrightarrow> st = BackgroundTaskState) \<and>
     (taskCompletionHandler m \<noteq> None \<longrightarrow> st = BackgroundTaskState)"

definition machine_inv :: "'d machine \<Rightarrow> bool" where
  "machine_inv m \<longleftrightarrow> (\<exists>st. currentState m = Some st \<and> owned st m)"

lemma owned_frame [simp]:
  "owned st (emit e m) = owned st m" "owned st (on_dir f m) = owned st m"
  "owned st (cancel t m) = owned st m" "owned st (m\<lparr>currentState := c\<rparr>) = owned st m"
  "owned st (m\<lparr>dir := d\<rparr>) = owned st m" "owned st (m\<lparr>isSyncing := b\<rparr>) = owned st m"
  "owned st (m\<lparr>didPrepareForSuspend := b\<rparr>) = owned st m"
  "owned st (m\<lparr>didLaunchInForeground := b\<rparr>) = owned st m"
  "owned st (m\<lparr>catchUpOne_error := b\<rparr>) = owned st m" "owned st (m\<lparr>catchUpTwo_error := b\<rparr>) = owned st m"
  "owned st (m\<lparr>fetch_error := b\<rparr>) = owned st m" "owned st (m\<lparr>didRequestAssets := b\<rparr>) = owned st m"
  "owned st (m\<lparr>task_error := b\<rparr>) = owned st m" "owned st (m\<lparr>didFinishTask := b\<rparr>) = owned st m"
  "owned st (m\<lparr>isUpdateEventStreamActive := b\<rparr>) = owned st m"
  "owned st (m\<lparr>sess := s, dir := d, applicationInBackground := b\<rparr>) = owned st m"
  by (simp_all add: owned_def emit_def on_dir_def cancel_def split: option.splits)

lemma owned_startLoginTimer: "owned UnauthenticatedState m \<Longrightarrow> owned UnauthenticatedState (startLoginTimer ov now m)"
  by (simp add: owned_def startLoginTimer_def Let_def emit_def cancel_def split: option.splits)

lemma owned_enter_background:
  "owned PreBackgroundState m \<Longrightarrow> owned PreBackgroundState (fst (enter_PreBackground D m))"
  "owned BackgroundFetchState m \<Longrightarrow> owned BackgroundFetchState (fst (enter_BackgroundFetch D m))"
  "owned BackgroundTaskState m \<Longrightarrow> owned BackgroundTaskState (enter_BackgroundTask m)"
  by (simp_all add: owned_def emit_def on_dir_def enter_PreBackground_def enter_BackgroundFetch_def
      enter_BackgroundTask_def Let_def)

lemma owned_enter_unauthenticated:
  "owned UnauthenticatedState m \<Longrightarrow> owned UnauthenticatedState (fst (enter_Unauthenticated D override now m))"
proof -
  assume m: "owned UnauthenticatedState m"
  have "owned UnauthenticatedState (m'\<lparr>observesAuthentication := True\<rparr>)"
    if "owned UnauthenticatedState m'" for m' :: "'a machine"
    using that by (simp add: owned_def)
  then show ?thesis
    using m by (simp add: enter_Unauthenticated_def Let_def owned_startLoginTimer)
qed

lemma owned_enter_calm:
  "owned st m \<Longrightarrow> owned st (enter_EventProcessing D m)" "owned st m \<Longrightarrow> owned st (enter_SlowSyncPhaseOne D m)"
  "owned st m \<Longrightarrow> owned st (enter_SlowSyncPhaseTwo D m)"
  "owned st m \<Longrightarrow> owned st (fst (enter_CatchUpPhaseOne D m))"
  "owned st m \<Longrightarrow> owned st (enter_CatchUpPhaseTwo D m)"
  "owned st m \<Longrightarrow> owned st (enter_DownloadLastUpdateEventID D m)" "owned st m \<Longrightarrow> owned st (enter_Background m)"
  by (simp_all add: enter_EventProcessing_def enter_SlowSyncPhaseOne_def didStartSlowSync_def
      enter_SlowSyncPhaseTwo_def enter_CatchUpPhaseOne_def enter_CatchUpPhaseTwo_def
      enter_DownloadLastUpdateEventID_def enter_Background_def Let_def)

lemma owned_enter_fst: "owned st m \<Longrightarrow> owned st (fst (didEnterState D override now st m))"
  by (cases st) (simp_all add: owned_enter_background owned_enter_unauthenticated owned_enter_calm)

lemma owned_enter:
  assumes "owned st m" and "didEnterState D override now st m = (m', r)"
  shows "owned st m'"
  using owned_enter_fst [OF assms(1), of D override now] assms(2) by simp

lemma owned_leave:
  assumes "owned st m"
  shows "owned st' (didLeaveState D (Some st) m)"
  using assms by (cases st) (auto simp: didLeaveState_def leave_Unauthenticated_def leave_PreBackground_def
      leave_BackgroundFetch_def leave_BackgroundTask_def fetch_markFetchAsComplete_def
      task_markFetchAsComplete_def stopLoginTimer_def owned_def emit_def on_dir_def cancel_def
      split: option.splits)

lemma machine_inv_goToState_from:
  assumes "owned st (didLeaveState D (currentState m) m)"
  shows "machine_inv (goToState D override now st m)"
proof -
  have "owned (the (currentState (goToState D override now st m))) (goToState D override now st m)"
    by (rule goToState_invariant [of owned]) (use assms owned_enter owned_leave in \<open>simp_all\<close>, blast+)
  then show ?thesis
    using goToState_leads_to [of D override now st m] by (auto simp: machine_inv_def)
qed

lemma machine_inv_goToState: "machine_inv m \<Longrightarrow> machine_inv (goToState D override now st m)"
  by (rule machine_inv_goToState_from) (auto simp: machine_inv_def owned_leave)

lemma machine_inv_frame [simp]:
  "machine_inv (emit e m) = machine_inv m" "machine_inv (on_dir f m) = machine_inv m"
  "machine_inv (m\<lparr>dir := d\<rparr>) = machine_inv m" "machine_inv (m\<lparr>isSyncing := b\<rparr>) = machine_inv m"
  "machine_inv (m\<lparr>didPrepareForSuspend := b\<rparr>) = machine_inv m"
  "machine_inv (m\<lparr>didLaunchInForeground := b\<rparr>) = machine_inv m"
  "machine_inv (m\<lparr>catchUpOne_error := b\<rparr>) = machine_inv m"
  "machine_inv (m\<lparr>catchUpTwo_error := b\<rparr>) = machine_inv m"
  "machine_inv (m\<lparr>fetch_error := b\<rparr>) = machine_inv m" "machine_inv (m\<lparr>didRequestAssets := b\<rparr>) = machine_inv m"
  "machine_inv (m\<lparr>task_error := b\<rparr>) = machine_inv m" "machine_inv (m\<lparr>didFinishTask := b\<rparr>) = machine_inv m"
  "machine_inv (m\<lparr>isUpdateEventStreamActive := b\<rparr>) = machine_inv m"
  "machine_inv (m\<lparr>sess := s, dir := d, applicationInBackground := b\<rparr>) = machine_inv m"
  by (simp_all add: machine_inv_def)

lemma machine_inv_quick: "machine_inv m \<Longrightarrow> machine_inv (startQuickSync D override now m)"
  by (simp add: startQuickSync_def machine_inv_goToState)

lemma machine_inv_slow: "machine_inv m \<Longrightarrow> machine_inv (startSlowSync D override now m)"
  by (simp add: startSlowSync_def machine_inv_goToState)

lemma machine_inv_asked:
  "machine_inv m \<Longrightarrow> machine_inv (snd (nextRequestFromTranscoders D ts m))"
  by (induction ts arbitrary: m) (simp_all split: prod.splits option.splits)

lemma machine_inv_startLoginTimer:
  "machine_inv m \<Longrightarrow> currentState m = Some UnauthenticatedState \<Longrightarrow> machine_inv (startLoginTimer ov now m)"
  by (simp add: machine_inv_def owned_startLoginTimer)

lemma machine_inv_asked_pair:
  "nextRequestFromTranscoders D ts m = (r, m') \<Longrightarrow> machine_inv m \<Longrightarrow> machine_inv m' \<and> currentState m' = currentState m"
  using machine_inv_asked [of m D ts] nextRequestFromTranscoders_currentState [of D ts m] by simp

lemma machine_inv_loginRequest:
  assumes "machine_inv m" and "currentState m = Some UnauthenticatedState"
  shows "machine_inv (snd (loginRequest D override now m))"
proof -
  define r where "r = fst (ask D loginTranscoder m)"
  define m1 where "m1 = snd (ask D loginTranscoder m)"
  have a: "ask D loginTranscoder m = (r, m1)"
    by (simp only: r_def m1_def prod.collapse)
  have "machine_inv m1" "currentState m1 = Some UnauthenticatedState"
    using machine_inv_asked_pair [OF a assms(1)] assms(2) by simp_all
  then show ?thesis
    by (simp only: loginRequest_def a prod.case) (simp add: Let_def machine_inv_startLoginTimer)
qed

lemma machine_inv_loginRequest_pair:
  "loginRequest D override now m = (r, m') \<Longrightarrow> machine_inv m \<Longrightarrow> currentState m = Some UnauthenticatedState \<Longrightarrow>
   machine_inv m'"
  using machine_inv_loginRequest [of m D override now] by simp

lemma machine_inv_shouldStart: "machine_inv m \<Longrightarrow> machine_inv (snd (shouldStartQuickSync D m))"
  by (simp add: shouldStartQuickSync_def Let_def)

lemma machine_inv_dataDidChange_unauthenticated:
  "machine_inv m \<Longrightarrow> machine_inv (unauthenticated_dataDidChange D override now m)"
  using machine_inv_shouldStart [of m D]
  by (auto simp: unauthenticated_dataDidChange_def machine_inv_quick split: prod.splits)

lemma machine_inv_email_verification:
  assumes "machine_inv m" and "currentState m = Some UnauthenticatedState"
  shows "machine_inv (snd (case ask D userProfileUpdateTranscoder m of
      (Some r, m1) \<Rightarrow> (Some r, m1)
    | (None, m1) \<Rightarrow> (case loginRequest D override now m1 of
        (Some r, m2) \<Rightarrow> (Some r, m2) | (None, m2) \<Rightarrow> ask D selfTranscoder m2)))"
  using assms by (auto simp del: nextRequestFromTranscoders.simps simp: machine_inv_asked
      dest!: machine_inv_asked_pair dest: machine_inv_loginRequest_pair split: prod.splits option.splits)

lemma machine_inv_unauthenticated_nextRequest:
  assumes "machine_inv m" and "currentState m = Some UnauthenticatedState"
  shows "machine_inv (snd (unauthenticated_nextRequest D override now m))"
proof (cases "isDoneWithLogin D m")
  case True
  then show ?thesis
    using machine_inv_shouldStart [OF assms(1), of D]
    by (auto simp: unauthenticated_nextRequest_def machine_inv_quick split: prod.splits)
next
  case False
  then show ?thesis
    using machine_inv_email_verification [OF assms, of D override now]
    by (simp add: unauthenticated_nextRequest_def machine_inv_asked machine_inv_loginRequest assms
        del: nextRequestFromTranscoders.simps split: ZMAuthenticationPhase.split)
qed

lemma machine_inv_transitionOut:
  "machine_inv m \<Longrightarrow> machine_inv (fetch_transitionOutIfComplete D override now m)"
  "machine_inv m \<Longrightarrow> machine_inv (task_transitionOutIfComplete D override now m)"
  by (simp_all add: fetch_transitionOutIfComplete_def task_transitionOutIfComplete_def machine_inv_goToState)

lemma machine_inv_nextRequest_fetch_task:
  assumes "machine_inv m"
  shows "machine_inv (snd (fetch_nextRequest D override now m))"
    and "machine_inv (snd (task_nextRequest D override now m))"
  using assms by (auto simp: fetch_nextRequest_def task_nextRequest_def machine_inv_transitionOut
      simp del: nextRequestFromTranscoders.simps dest!: machine_inv_asked_pair split: prod.splits option.splits)

lemma machine_inv_nextRequest_calm:
  assumes "machine_inv m"
  shows "machine_inv (snd (background_nextRequest D m))"
    and "machine_inv (snd (eventProcessing_nextRequest D m))"
  using assms by (auto simp: background_nextRequest_def eventProcessing_nextRequest_def
      simp del: nextRequestFromTranscoders.simps dest!: machine_inv_asked_pair split: prod.splits)

lemma machine_inv_ask_state: "machine_inv m \<Longrightarrow> machine_inv (snd (ask_state D override now m))"
proof (cases "currentState m")
  case (Some st)
  assume "machine_inv m"
  then show ?thesis
    using Some by (cases st) (simp_all add: ask_state_def machine_inv_unauthenticated_nextRequest
        machine_inv_nextRequest_fetch_task machine_inv_nextRequest_calm machine_inv_asked
        del: nextRequestFromTranscoders.simps)
qed (simp add: ask_state_def)

text \<open>The loop asks at most two states.\<close>

lemma machine_nextRequest_twice:
  "machine_nextRequest D override now m =
     (case ask_state D override now m of (r, m') \<Rightarrow>
        if r = None \<and> currentState m' \<noteq> currentState m then ask_state D override now m' else (r, m'))"
proof -
  define r where "r = fst (ask_state D override now m)"
  define m' where "m' = snd (ask_state D override now m)"
  define r2 where "r2 = fst (ask_state D override now m')"
  define m2 where "m2 = snd (ask_state D override now m')"
  have a: "ask_state D override now m = (r, m')" and b: "ask_state D override now m' = (r2, m2)"
    by (simp_all add: r_def m'_def r2_def m2_def)
  have loop: "machine_nextRequest D override now m =
      (if r = None \<and> currentState m' \<noteq> currentState m then machine_nextRequest D override now m' else (r, m'))"
    by (subst machine_nextRequest.simps) (simp add: a)
  have loop': "machine_nextRequest D override now m' =
      (if r2 = None \<and> currentState m2 \<noteq> currentState m' then machine_nextRequest D override now m2 else (r2, m2))"
    by (subst machine_nextRequest.simps) (simp add: b)
  show ?thesis
    using ask_state_moves [OF a] ask_state_moves [OF b] by (auto simp: a b loop loop')
qed

lemma machine_inv_nextRequest: "machine_inv m \<Longrightarrow> machine_inv (snd (machine_nextRequest D override now m))"
  using machine_inv_ask_state [of m D override now]
    machine_inv_ask_state [of "snd (ask_state D override now m)" D override now]
  by (auto simp: machine_nextRequest_twice split: prod.splits)

lemma machine_inv_state_messages:
  assumes "machine_inv m"
  shows "machine_inv (state_didEnterBackground D override now st m)"
    and "machine_inv (state_didEnterForeground D override now st m)"
    and "machine_inv (state_didRequestSynchronization D override now st m)"
    and "machine_inv (state_didFailAuthentication D override now st m)"
    and "machine_inv (state_dataDidChange D override now st m)"
  using assms by (cases st; simp add: machine_inv_goToState machine_inv_quick machine_inv_slow Let_def
      machine_inv_dataDidChange_unauthenticated machine_inv_transitionOut
      state_didRequestSynchronization_def state_didFailAuthentication_def)+

lemma machine_inv_startBackground:
  assumes "machine_inv m"
  shows "machine_inv (startBackgroundFetch D override now h m)"
    and "machine_inv (startBackgroundTask D override now h m)"
proof -
  have "owned BackgroundFetchState (didLeaveState D (Some BackgroundState) (m\<lparr>fetchCompletionHandler := Some h\<rparr>))"
    and "owned BackgroundTaskState (didLeaveState D (Some BackgroundState) (m\<lparr>taskCompletionHandler := Some h\<rparr>))"
    if "currentState m = Some BackgroundState"
    using assms that by (simp_all add: machine_inv_def didLeaveState_def) (simp_all add: owned_def)
  then show "machine_inv (startBackgroundFetch D override now h m)"
    and "machine_inv (startBackgroundTask D override now h m)"
    using assms by (auto simp: startBackgroundFetch_def startBackgroundTask_def supportsBackgroundFetch_def
        intro!: machine_inv_goToState_from split: option.splits)
qed

lemma machine_inv_clear:
  "machine_inv m \<Longrightarrow> machine_inv ((cancel t m)\<lparr>fetch_timer := None\<rparr>)"
  "machine_inv m \<Longrightarrow> machine_inv ((cancel t m)\<lparr>task_timer := None\<rparr>)"
  "machine_inv m \<Longrightarrow> machine_inv ((cancel t m)\<lparr>loginFailureTimer := None\<rparr>)"
  by (auto simp: machine_inv_def owned_def cancel_def emit_def split: option.splits)

lemma machine_inv_mark:
  "machine_inv m \<Longrightarrow> machine_inv (fetch_markFetchAsComplete D m)"
  "machine_inv m \<Longrightarrow> machine_inv (task_markFetchAsComplete m)"
  by (auto simp: machine_inv_def owned_def fetch_markFetchAsComplete_def task_markFetchAsComplete_def
      emit_def split: option.splits)

lemma machine_inv_timers:
  assumes "machine_inv m"
  shows "machine_inv (fetch_timerDidFire D override now t m)" and "machine_inv (task_timerDidFire D override now t m)"
  using assms by (simp_all add: fetch_timerDidFire_def task_timerDidFire_def Let_def machine_inv_clear
      machine_inv_mark machine_inv_goToState)

lemma machine_inv_didChangeAuthenticationData:
  assumes "machine_inv m"
  shows "machine_inv (didChangeAuthenticationData D override now m)"
proof (cases "observesAuthentication m")
  case True
  then have "currentState ((cancel t m)\<lparr>loginFailureTimer := None\<rparr>) = Some UnauthenticatedState" for t
    using assms by (auto simp: machine_inv_def owned_def)
  then show ?thesis
    using assms by (simp add: didChangeAuthenticationData_def Let_def machine_inv_clear
        machine_inv_startLoginTimer machine_inv_dataDidChange_unauthenticated)
qed (use assms in \<open>simp add: didChangeAuthenticationData_def\<close>)

lemma machine_inv_complete: "machine_inv m \<Longrightarrow> machine_inv (complete c r m)"
  by (cases c) simp_all

lemma machine_inv_in_state:
  "machine_inv m \<Longrightarrow> (\<And>st. machine_inv (f st m)) \<Longrightarrow> machine_inv (in_state f m)"
  by (simp add: in_state_def split: option.splits)

lemma machine_inv_send: "machine_inv m \<Longrightarrow> machine_inv (machine_send D override now msg m)"
  by (cases msg) (simp_all add: machine_inv_nextRequest machine_inv_in_state machine_inv_state_messages
      machine_inv_startBackground machine_inv_timers machine_inv_didChangeAuthenticationData
      machine_inv_complete)

section \<open>Completion handlers\<close>

text \<open>The calls of a fetch handler so far, and one more while it waits.\<close>

fun calls_handler :: "nat \<Rightarrow> machine_effect \<Rightarrow> bool" where
  "calls_handler h (CallFetchHandler h' _) = (h = h')"
| "calls_handler h _ = False"

definition handed :: "nat \<Rightarrow> 'd machine \<Rightarrow> nat" where
  "handed h m =
     length (filter (calls_handler h) (effects m)) + (if fetchCompletionHandler m = Some h then 1 else 0)"

lemma handed_frame [simp]:
  "handed h (on_dir f m) = handed h m" "handed h (m\<lparr>currentState := c\<rparr>) = handed h m"
  "handed h (m\<lparr>dir := d\<rparr>) = handed h m" "handed h (m\<lparr>isSyncing := b\<rparr>) = handed h m"
  "handed h (m\<lparr>didPrepareForSuspend := b\<rparr>) = handed h m"
  "handed h (m\<lparr>didLaunchInForeground := b\<rparr>) = handed h m"
  "handed h (m\<lparr>catchUpOne_error := b\<rparr>) = handed h m" "handed h (m\<lparr>catchUpTwo_error := b\<rparr>) = handed h m"
  "handed h (m\<lparr>fetch_error := b\<rparr>) = handed h m" "handed h (m\<lparr>didRequestAssets := b\<rparr>) = handed h m"
  "handed h (m\<lparr>task_error := b\<rparr>) = handed h m" "handed h (m\<lparr>didFinishTask := b\<rparr>) = handed h m"
  "handed h (m\<lparr>isUpdateEventStreamActive := b\<rparr>) = handed h m"
  "handed h (m\<lparr>fetch_timer := t\<rparr>) = handed h m" "handed h (m\<lparr>task_timer := t\<rparr>) = handed h m"
  "handed h (m\<lparr>loginFailureTimer := l\<rparr>) = handed h m" "handed h (m\<lparr>observesAuthentication := b\<rparr>) = handed h m"
  "handed h (m\<lparr>activity := b\<rparr>) = handed h m" "handed h (m\<lparr>taskCompletionHandler := x\<rparr>) = handed h m"
  "handed h (m\<lparr>sess := s, dir := d, applicationInBackground := b\<rparr>) = handed h m"
  by (simp_all add: handed_def on_dir_def)

lemma handed_emit [simp]: "\<not> calls_handler h e \<Longrightarrow> handed h (emit e m) = handed h m"
  by (simp add: handed_def emit_def)

lemma handed_timers [simp]:
  "handed h (cancel t m) = handed h m" "handed h (startLoginTimer ov now m) = handed h m"
  "handed h (stopLoginTimer m) = handed h m"
  by (simp_all add: handed_def cancel_def emit_def startLoginTimer_def stopLoginTimer_def Let_def
      split: option.splits)

lemma handed_mark [simp]:
  "handed h (fetch_markFetchAsComplete D m) = handed h m" "handed h (task_markFetchAsComplete m) = handed h m"
  by (simp_all add: handed_def fetch_markFetchAsComplete_def task_markFetchAsComplete_def emit_def
      split: option.splits)

lemma handed_enter_resource [simp]:
  "handed h (fst (enter_BackgroundFetch D m)) = handed h m" "handed h (enter_BackgroundTask m) = handed h m"
  by (simp_all add: handed_def enter_BackgroundFetch_def enter_BackgroundTask_def on_dir_def emit_def Let_def)

lemma handed_enter: "handed h (fst (didEnterState D override now st m)) = handed h m"
  by (cases st) (simp_all add: enter_Unauthenticated_def enter_EventProcessing_def didStartSlowSync_def
      enter_SlowSyncPhaseOne_def enter_SlowSyncPhaseTwo_def enter_CatchUpPhaseOne_def
      enter_CatchUpPhaseTwo_def enter_DownloadLastUpdateEventID_def enter_Background_def
      enter_PreBackground_def Let_def)

lemma handed_leave: "handed h (didLeaveState D st m) = handed h m"
  by (simp add: didLeaveState_def leave_Unauthenticated_def leave_PreBackground_def
      leave_BackgroundFetch_def leave_BackgroundTask_def split: option.split ZMSyncState.split)

lemma handed_enter_pair: "didEnterState D override now st m = (m', r) \<Longrightarrow> handed h m' = handed h m"
  using handed_enter [of h D override now st m] by simp

lemma handed_goToState [simp]: "handed h (goToState D override now st m) = handed h m"
  by (rule goToState_invariant [where J = "\<lambda>_ m'. handed h m' = handed h m"])
    (simp_all add: handed_leave handed_enter_pair)

lemma handed_sync [simp]:
  "handed h (startQuickSync D override now m) = handed h m" "handed h (startSlowSync D override now m) = handed h m"
  by (simp_all add: startQuickSync_def startSlowSync_def)

lemma handed_asked [simp]: "handed h (snd (nextRequestFromTranscoders D ts m)) = handed h m"
  by (induction ts arbitrary: m) (simp_all split: prod.splits option.splits)

lemma handed_asked_pair: "nextRequestFromTranscoders D ts m = (r, m') \<Longrightarrow> handed h m' = handed h m"
  using handed_asked [of h D ts m] by simp

lemma handed_loginRequest [simp]: "handed h (snd (loginRequest D override now m)) = handed h m"
  by (auto simp: loginRequest_def Let_def simp del: nextRequestFromTranscoders.simps
      dest!: handed_asked_pair [of _ _ _ _ _ h] split: prod.splits)

lemma handed_loginRequest_pair: "loginRequest D override now m = (r, m') \<Longrightarrow> handed h m' = handed h m"
  using handed_loginRequest [of h D override now m] by simp

lemma handed_shouldStart: "shouldStartQuickSync D m = (b, m') \<Longrightarrow> handed h m' = handed h m"
  by (auto simp: shouldStartQuickSync_def Let_def split: if_splits)

lemmas handed_pairs = handed_asked_pair handed_loginRequest_pair handed_shouldStart

lemma handed_state_nextRequest: "handed h (snd (state_nextRequest D override now st m)) = handed h m"
  by (cases st) (auto simp: unauthenticated_nextRequest_def fetch_nextRequest_def task_nextRequest_def
      background_nextRequest_def eventProcessing_nextRequest_def fetch_transitionOutIfComplete_def
      task_transitionOutIfComplete_def simp del: nextRequestFromTranscoders.simps
      dest!: handed_pairs [where h = h] split: prod.splits option.splits ZMAuthenticationPhase.split)

lemma handed_nextRequest: "handed h (snd (machine_nextRequest D override now m)) = handed h m"
proof -
  have ask: "handed h (snd (ask_state D override now m')) = handed h m'" for m'
    by (simp add: ask_state_def handed_state_nextRequest split: option.split)
  show ?thesis
    using ask [of m] ask [of "snd (ask_state D override now m)"]
    by (auto simp: machine_nextRequest_twice split: prod.splits)
qed

lemma handed_state_messages:
  "handed h (state_didEnterBackground D override now st m) = handed h m"
  "handed h (state_didEnterForeground D override now st m) = handed h m"
  "handed h (state_didRequestSynchronization D override now st m) = handed h m"
  "handed h (state_didFailAuthentication D override now st m) = handed h m"
  by (cases st; simp add: Let_def state_didRequestSynchronization_def state_didFailAuthentication_def)+

lemma handed_unauthenticated_dataDidChange [simp]:
  "handed h (unauthenticated_dataDidChange D override now m) = handed h m"
  by (auto simp: unauthenticated_dataDidChange_def dest!: handed_shouldStart [where h = h] split: prod.splits)

lemma handed_dataDidChange: "handed h (state_dataDidChange D override now st m) = handed h m"
  by (cases st) (simp_all add: fetch_transitionOutIfComplete_def task_transitionOutIfComplete_def)

lemma handed_in_state: "(\<And>st m. handed h (f st m) = handed h m) \<Longrightarrow> handed h (in_state f m) = handed h m"
  by (simp add: in_state_def split: option.split)

lemma handed_complete: "handed h (complete c r m) = handed h m"
  by (cases c) simp_all

lemma handed_other_messages:
  "handed h (startBackgroundTask D override now h' m) = handed h m"
  "handed h (fetch_timerDidFire D override now t m) = handed h m"
  "handed h (task_timerDidFire D override now t m) = handed h m"
  "handed h (didChangeAuthenticationData D override now m) = handed h m"
  by (simp_all add: startBackgroundTask_def fetch_timerDidFire_def task_timerDidFire_def
      didChangeAuthenticationData_def Let_def)

lemma handed_startBackgroundFetch:
  assumes "machine_inv m"
  shows "handed h (startBackgroundFetch D override now h' m) = handed h m + (if h = h' then 1 else 0)"
proof (cases "currentState m = Some BackgroundState")
  case True
  then have "fetchCompletionHandler m = None"
    using assms by (auto simp: machine_inv_def owned_def)
  then show ?thesis
    using True by (simp add: startBackgroundFetch_def supportsBackgroundFetch_def) (simp add: handed_def)
next
  case False
  then have "startBackgroundFetch D override now h' m = emit (CallFetchHandler h' ZMBackgroundFetchResultNoData) m"
    by (auto simp: startBackgroundFetch_def supportsBackgroundFetch_def split: option.split)
  then show ?thesis
    by (simp add: handed_def emit_def)
qed

definition starts_fetch :: "nat \<Rightarrow> 'd ZMSyncStateMachine_msg \<Rightarrow> nat" where
  "starts_fetch h msg = (case msg of StartBackgroundFetch h' \<Rightarrow> if h = h' then 1 else 0 | _ \<Rightarrow> 0)"

lemma handed_send:
  "machine_inv m \<Longrightarrow> handed h (machine_send D override now msg m) = handed h m + starts_fetch h msg"
  by (cases msg) (simp_all add: starts_fetch_def handed_nextRequest handed_in_state handed_state_messages
      handed_dataDidChange handed_other_messages handed_complete handed_startBackgroundFetch)

definition timed_machine_send ::
  "'d ZMObjectStrategyDirectory \<Rightarrow> NSTimeInterval \<Rightarrow> NSDate \<times> 'd ZMSyncStateMachine_msg \<Rightarrow>
   'd machine \<Rightarrow> 'd machine" where
  "timed_machine_send D override tm m = machine_send D override (fst tm) (snd tm) m"

interpretation sync_machine: component "timed_machine_send D override" machine_inv for D override
  by unfold_locales (simp add: timed_machine_send_def machine_inv_send)

lemma handed_run:
  "machine_inv m \<Longrightarrow>
   handed h (run (timed_machine_send D override) m ms) = handed h m + (\<Sum>tm\<leftarrow>ms. starts_fetch h (snd tm))"
  by (induction ms arbitrary: m) (simp_all add: timed_machine_send_def machine_inv_send handed_send)

section \<open>The start of the machine\<close>

definition new_machine :: "session \<Rightarrow> 'd \<Rightarrow> bool \<Rightarrow> 'd machine" where
  "new_machine s d b =
     \<lparr>currentState = None, isUpdateEventStreamActive = False, loginFailureTimer = None,
      lastTimerStart = None, didLaunchInForeground = False, observesAuthentication = False,
      catchUpOne_error = False, catchUpTwo_error = False, activity = False, didPrepareForSuspend = False,
      fetch_error = False, updateEventIDWhenStartingFetch = None, didRequestAssets = False,
      fetch_timer = None, fetch_maximumTime = 0, fetchCompletionHandler = None, task_error = False,
      didFinishTask = False, isRequestingClients = False, hasMissingClients = False, task_timer = None,
      task_maximumTime = 0, taskCompletionHandler = None, isSyncing = False, applicationInBackground = b,
      sess = s, dir = d, nextTimer = 0, effects = []\<rparr>"

text \<open>The initialiser enqueues the change to the unauthenticated state.\<close>

definition initSyncStateMachine ::
  "'d ZMObjectStrategyDirectory \<Rightarrow> NSTimeInterval \<Rightarrow> NSDate \<Rightarrow> session \<Rightarrow> 'd \<Rightarrow> bool \<Rightarrow> 'd machine" where
  "initSyncStateMachine D override now s d b = goToState D override now UnauthenticatedState (new_machine s d b)"

lemma machine_inv_init: "machine_inv (initSyncStateMachine D override now s d b)"
  unfolding initSyncStateMachine_def
  by (rule machine_inv_goToState_from) (simp add: new_machine_def didLeaveState_def owned_def)

lemma handed_init: "handed h (initSyncStateMachine D override now s d b) = 0"
  by (simp add: initSyncStateMachine_def) (simp add: handed_def new_machine_def)

lemma sess_leave [simp]: "sess (didLeaveState D st m) = sess m"
  by (simp add: didLeaveState_def leave_Unauthenticated_def leave_PreBackground_def leave_BackgroundFetch_def
      leave_BackgroundTask_def fetch_markFetchAsComplete_def task_markFetchAsComplete_def stopLoginTimer_def
      on_dir_def cancel_def emit_def split: option.split ZMSyncState.split)

lemma goToState_unauthenticated:
  assumes "\<not> machine_isLoggedIn m"
  shows "currentState (goToState D override now UnauthenticatedState m) = Some UnauthenticatedState"
proof -
  define m0 where "m0 = (didLeaveState D (currentState m) m)\<lparr>currentState := Some UnauthenticatedState\<rparr>"
  have "\<not> isDoneWithLogin D m0"
    using assms by (auto simp: m0_def isDoneWithLogin_def machine_isLoggedIn_def)
  then have "snd (enter_Unauthenticated D override now m0) = None"
    by (simp add: enter_Unauthenticated_def Let_def)
  then have enter: "didEnterState D override now UnauthenticatedState m0 =
      (fst (enter_Unauthenticated D override now m0), None)"
    by (metis didEnterState.simps(1) prod.collapse)
  show ?thesis
    using goToState_step [OF enter [unfolded m0_def]] didEnterState_currentState [OF enter]
    by (simp add: m0_def)
qed

definition idle_directory :: "nat ZMObjectStrategyDirectory" where
  "idle_directory = \<lparr>generators_nextRequest = (\<lambda>_ d. (None, d)), setNeedsSlowSync = (\<lambda>_ d. d),
     isSlowSyncDone = (\<lambda>_ _. True), allTranscoders = (\<lambda>_. []), processAllEventsInBuffer = (\<lambda>d. d),
     dir_lastUpdateEventID = (\<lambda>_. Some 1), hasLastUpdateEventID = (\<lambda>_. True),
     startDownloadingMissingNotifications = (\<lambda>d. d), isDownloadingMissingNotifications = (\<lambda>_. False),
     startRequestingLastUpdateEventID = (\<lambda>d. d), isDownloadingLastUpdateEventID = (\<lambda>_. False),
     persistLastUpdateEventID = (\<lambda>d. d), hasOutstandingItems = (\<lambda>_. False),
     hasPendingMessages = (\<lambda>_. False), isSelfUserComplete = (\<lambda>_. True), resetRegistrationState = (\<lambda>d. d)\<rparr>"

section \<open>Properties\<close>

text \<open>C3: Every background fetch is answered exactly once. In every run of the machine, once it is not in the
  background fetch state, the completion handler of each fetch has been called as often as the fetch
  was started with it, whatever else happened in between.\<close>

theorem background_fetch_answered_once:
  assumes "m = run (timed_machine_send D override) (initSyncStateMachine D override now s d b) ms"
    and "currentState m \<noteq> Some BackgroundFetchState"
  shows "length (filter (calls_handler h) (effects m)) = (\<Sum>tm\<leftarrow>ms. starts_fetch h (snd tm))"
proof -
  have "machine_inv m"
    unfolding assms(1) by (rule sync_machine.run_invar [OF machine_inv_init])
  then have "fetchCompletionHandler m = None"
    using assms(2) by (auto simp: machine_inv_def owned_def)
  moreover have "handed h m = (\<Sum>tm\<leftarrow>ms. starts_fetch h (snd tm))"
    unfolding assms(1) by (simp add: handed_run machine_inv_init handed_init)
  ultimately show ?thesis
    by (simp add: handed_def)
qed

lemma blank_not_logged_in: "sess m = blank_session \<Longrightarrow> \<not> machine_isLoggedIn m"
  by (simp add: machine_isLoggedIn_def currentPhase_def isLoggedIn_def blank_session_def)

lemma idle_start:
  "currentState (run (timed_machine_send idle_directory 0)
     (initSyncStateMachine idle_directory 0 0 blank_session 0 False) [(1, StartBackgroundFetch 7)]) =
   Some UnauthenticatedState"
proof -
  have "currentState (initSyncStateMachine idle_directory 0 0 blank_session 0 False) = Some UnauthenticatedState"
    unfolding initSyncStateMachine_def
    by (rule goToState_unauthenticated, rule blank_not_logged_in) (simp add: new_machine_def)
  then show ?thesis
    by (simp add: timed_machine_send_def startBackgroundFetch_def supportsBackgroundFetch_def)
qed

theorem background_fetch_answered_once_witness:
  "length (filter (calls_handler 7) (effects (run (timed_machine_send idle_directory 0)
     (initSyncStateMachine idle_directory 0 0 blank_session 0 False) [(1, StartBackgroundFetch 7)]))) = 1"
  using background_fetch_answered_once [OF refl, of idle_directory 0 0 blank_session 0 False
      "[(1, StartBackgroundFetch 7)]" 7] idle_start by (simp add: starts_fetch_def)

text \<open>C4: In every run of the machine, the login timer and the observation of the authentication exist only
  in the unauthenticated state, the background activity only in the pre-background state, and the
  timers and completion handlers of the background fetch and task only in their states.\<close>

theorem machine_resources_belong_to_state:
  "let m = run (timed_machine_send D override) (initSyncStateMachine D override now s d b) ms
   in \<exists>st. currentState m = Some st \<and> owned st m"
  using sync_machine.run_invar [OF machine_inv_init] by (simp add: Let_def machine_inv_def)

text \<open>C15: Changing the state always ends, in the state that was asked for or in one that its entry goes on
  to: the pre-background state only leads to the background state, the quick sync only to the download
  of the last event identifier, and so on; the states without a nested change are entered for good.\<close>

theorem goToState_ends_where_it_leads:
  "\<exists>st'. currentState (goToState D override now st m) = Some st' \<and> st' \<in> leads_to st"
  by (rule goToState_leads_to)

text \<open>The loop that looks for the next request asks at most two states, whatever the transcoders do: the
  current one, and the one it moved on to if it had no request.\<close>

lemma next_request_asks_at_most_two_states:
  "machine_nextRequest D override now m =
     (case ask_state D override now m of (r, m') \<Rightarrow>
        if r = None \<and> currentState m' \<noteq> currentState m then ask_state D override now m' else (r, m'))"
  by (rule machine_nextRequest_twice)

text \<open>When the authentication fails and the user is no longer logged in, the machine ends in one of the
  two unauthenticated states, where update events are ignored.\<close>

lemma failed_authentication_ends_unauthenticated:
  assumes "currentState m = Some st" and "\<not> machine_isLoggedIn m"
    and "m' = machine_send D override now DidFailAuthentication m"
  shows "\<exists>st'. currentState m' = Some st' \<and> st' \<in> {UnauthenticatedState, UnauthenticatedBackgroundState} \<and>
    state_updateEventsPolicy st' = ZMUpdateEventPolicyIgnore"
proof (cases "st = UnauthenticatedState \<or> st = UnauthenticatedBackgroundState")
  case True
  then show ?thesis
    using assms by (auto simp: in_state_def state_didFailAuthentication_def)
next
  case False
  then have "m' = goToState D override now UnauthenticatedState m"
    using assms by (simp add: in_state_def state_didFailAuthentication_def)
  then show ?thesis
    using goToState_unauthenticated [OF assms(2)] by simp
qed

definition processing_machine :: "nat machine" where
  "processing_machine = (new_machine blank_session 0 False)\<lparr>currentState := Some EventProcessingState\<rparr>"

lemma failed_authentication_ends_unauthenticated_example:
  "\<exists>st'. currentState (machine_send idle_directory 0 0 DidFailAuthentication processing_machine) = Some st' \<and>
     st' \<in> {UnauthenticatedState, UnauthenticatedBackgroundState}"
proof -
  have "currentState processing_machine = Some EventProcessingState" "\<not> machine_isLoggedIn processing_machine"
    by (simp_all add: processing_machine_def new_machine_def blank_not_logged_in)
  then show ?thesis
    using failed_authentication_ends_unauthenticated [of processing_machine EventProcessingState _ idle_directory 0 0]
    by blast
qed

end
