(* ===== verification/ObjectSets.thy ===== *)
theory ObjectSets
  imports Prelude
begin

text \<open>
  Collections behind the object syncs: \<^verbatim>\<open>ZMSyncOperationSet\<close>, \<^verbatim>\<open>ZMLocallyInsertedObjectSet\<close> and
  \<^verbatim>\<open>ZMUpdateEventsBuffer\<close>. Sets are lists without repetitions. The values of an object's attributes
  (\<open>valueForKey\<close>), the order of the sort descriptors and the choice of \<^verbatim>\<open>anyObject\<close> belong to the
  frameworks and are arguments.
\<close>

section \<open>ZMSyncOperationSet\<close>

record ZMPartialSyncOperation =
  op_managedObject :: ZMManagedObject
  op_remainingKeys :: "NSString list"

record ZMSyncOperationSet =
  managedObjectsBeingSynchronized :: "ZMManagedObject list"
  pendingOperationSet :: "ZMManagedObject list"
  managedObjectsWithPartialUpdates :: "ZMPartialSyncOperation list"

type_synonym attributes = "ZMManagedObject \<Rightarrow> NSString \<Rightarrow> json option"
type_synonym ZMSyncToken = "(NSString \<times> json) list"

definition valueOrNSNull :: "json option \<Rightarrow> json" where
  "valueOrNSNull v = (case v of None \<Rightarrow> JNull | Some x \<Rightarrow> x)"

definition initSyncOperationSet :: ZMSyncOperationSet where
  "initSyncOperationSet = \<lparr>managedObjectsBeingSynchronized = [], pendingOperationSet = [],
     managedObjectsWithPartialUpdates = []\<rparr>"

definition opset_count :: "ZMSyncOperationSet \<Rightarrow> nat" where
  "opset_count s = length (pendingOperationSet s) + length (managedObjectsWithPartialUpdates s)"

text \<open>The first partial operation of the object is removed.\<close>

fun drop_partial :: "ZMManagedObject \<Rightarrow> ZMPartialSyncOperation list \<Rightarrow> ZMPartialSyncOperation list" where
  "drop_partial mo [] = []"
| "drop_partial mo (p # ps) = (if op_managedObject p = mo then ps else p # drop_partial mo ps)"

definition removeObjectFromPartialUpdates :: "ZMManagedObject \<Rightarrow> ZMSyncOperationSet \<Rightarrow> ZMSyncOperationSet" where
  "removeObjectFromPartialUpdates mo s =
     s\<lparr>managedObjectsWithPartialUpdates := drop_partial mo (managedObjectsWithPartialUpdates s)\<rparr>"

definition addObjectToBeSynchronized :: "ZMManagedObject \<Rightarrow> ZMSyncOperationSet \<Rightarrow> ZMSyncOperationSet" where
  "addObjectToBeSynchronized mo s =
     removeObjectFromPartialUpdates mo (s\<lparr>pendingOperationSet := oset_add (pendingOperationSet s) mo\<rparr>)"

text \<open>\<open>sds\<close> puts the objects in the order of the sort descriptors, if there are any.\<close>

definition nextObjectToSynchronizeNotInOperationSet ::
  "(ZMManagedObject list \<Rightarrow> ZMManagedObject list) option \<Rightarrow> ZMSyncOperationSet option \<Rightarrow>
   ZMSyncOperationSet \<Rightarrow> ZMManagedObject option" where
  "nextObjectToSynchronizeNotInOperationSet sds other s =
     (let forbidden = managedObjectsBeingSynchronized s @
            (case other of None \<Rightarrow> [] | Some o' \<Rightarrow> pendingOperationSet o');
          candidates = (case sds of None \<Rightarrow> pendingOperationSet s | Some f \<Rightarrow> f (pendingOperationSet s))
      in List.find (\<lambda>mo. mo \<notin> set forbidden) candidates)"

definition nextObjectToSynchronize ::
  "(ZMManagedObject list \<Rightarrow> ZMManagedObject list) option \<Rightarrow> ZMSyncOperationSet \<Rightarrow> ZMManagedObject option" where
  "nextObjectToSynchronize sds = nextObjectToSynchronizeNotInOperationSet sds None"

definition opset_didStartSynchronizingKeys ::
  "attributes \<Rightarrow> NSString list \<Rightarrow> ZMManagedObject \<Rightarrow> ZMSyncOperationSet \<Rightarrow> ZMSyncToken \<times> ZMSyncOperationSet" where
  "opset_didStartSynchronizingKeys valueForKey keys mo s =
     (map (\<lambda>k. (k, valueOrNSNull (valueForKey mo k))) keys,
      s\<lparr>managedObjectsBeingSynchronized := oset_add (managedObjectsBeingSynchronized s) mo\<rparr>)"

definition keysForWhichToApplyResults ::
  "attributes \<Rightarrow> ZMSyncToken \<Rightarrow> ZMManagedObject \<Rightarrow> ZMTransportResponseStatus \<Rightarrow> ZMSyncOperationSet \<Rightarrow>
   NSString list \<times> ZMSyncOperationSet" where
  "keysForWhichToApplyResults valueForKey token mo status s =
     (if status = ZMTransportResponseStatusTemporaryError \<or> status = ZMTransportResponseStatusTryAgainLater
      then []
      else if status = ZMTransportResponseStatusPermanentError then map fst token
      else map fst (filter (\<lambda>(k, v). valueOrNSNull (valueForKey mo k) = v) token),
      s\<lparr>managedObjectsBeingSynchronized := oset_remove mo (managedObjectsBeingSynchronized s)\<rparr>)"

definition removeUpdatedObject ::
  "ZMManagedObject \<Rightarrow> ZMSyncToken \<Rightarrow> NSString list \<Rightarrow> ZMSyncOperationSet \<Rightarrow> ZMSyncOperationSet" where
  "removeUpdatedObject mo token synchronizedKeys s =
     (if length synchronizedKeys = length token
      then s\<lparr>pendingOperationSet := oset_remove mo (pendingOperationSet s)\<rparr> else s)"

definition opset_removeObject :: "ZMManagedObject \<Rightarrow> ZMSyncOperationSet \<Rightarrow> ZMSyncOperationSet" where
  "opset_removeObject mo s =
     removeObjectFromPartialUpdates mo (s\<lparr>pendingOperationSet := oset_remove mo (pendingOperationSet s)\<rparr>)"

definition nextObjectToSynchronizeWithRemainingKeys ::
  "(ZMManagedObject list \<Rightarrow> ZMManagedObject list) option \<Rightarrow> ZMSyncOperationSet option \<Rightarrow>
   ZMSyncOperationSet \<Rightarrow> (ZMManagedObject \<times> NSString list option) option" where
  "nextObjectToSynchronizeWithRemainingKeys sds other s =
     (case managedObjectsWithPartialUpdates s of
        [] \<Rightarrow> map_option (\<lambda>mo. (mo, None)) (nextObjectToSynchronizeNotInOperationSet sds other s)
      | p # _ \<Rightarrow> Some (op_managedObject p, Some (op_remainingKeys p)))"

fun put_partial ::
  "NSString list \<Rightarrow> ZMManagedObject \<Rightarrow> ZMPartialSyncOperation list \<Rightarrow> ZMPartialSyncOperation list" where
  "put_partial keys mo [] = [\<lparr>op_managedObject = mo, op_remainingKeys = keys\<rparr>]"
| "put_partial keys mo (p # ps) =
     (if op_managedObject p = mo then p\<lparr>op_remainingKeys := keys\<rparr> # ps else p # put_partial keys mo ps)"

definition setRemainingKeys ::
  "NSString list \<Rightarrow> ZMManagedObject \<Rightarrow> ZMSyncOperationSet \<Rightarrow> ZMSyncOperationSet" where
  "setRemainingKeys keys mo s =
     (if length keys = 0 then removeObjectFromPartialUpdates mo s
      else s\<lparr>managedObjectsWithPartialUpdates := put_partial keys mo (managedObjectsWithPartialUpdates s)\<rparr>)"

datatype (plugins only: code size) ZMSyncOperationSet_msg =
    AddObjectToBeSynchronized ZMManagedObject
  | DidStartSynchronizingKeys "NSString list" ZMManagedObject
  | FinishedSynchronizing ZMSyncToken ZMManagedObject ZMTransportResponseStatus
  | RemoveUpdatedObject ZMManagedObject ZMSyncToken "NSString list"
  | RemoveObject ZMManagedObject
  | SetRemainingKeys "NSString list" ZMManagedObject

primrec opset_send :: "attributes \<Rightarrow> ZMSyncOperationSet_msg \<Rightarrow> ZMSyncOperationSet \<Rightarrow> ZMSyncOperationSet" where
  "opset_send A (AddObjectToBeSynchronized mo) s = addObjectToBeSynchronized mo s"
| "opset_send A (DidStartSynchronizingKeys ks mo) s = snd (opset_didStartSynchronizingKeys A ks mo s)"
| "opset_send A (FinishedSynchronizing t mo st) s = snd (keysForWhichToApplyResults A t mo st s)"
| "opset_send A (RemoveUpdatedObject mo t ks) s = removeUpdatedObject mo t ks s"
| "opset_send A (RemoveObject mo) s = opset_removeObject mo s"
| "opset_send A (SetRemainingKeys ks mo) s = setRemainingKeys ks mo s"

text \<open>The sets have no repetitions, and an object has at most one partial operation, with keys left.\<close>

definition opset_inv :: "ZMSyncOperationSet \<Rightarrow> bool" where
  "opset_inv s \<longleftrightarrow>
     distinct (managedObjectsBeingSynchronized s) \<and> distinct (pendingOperationSet s) \<and>
     distinct (map op_managedObject (managedObjectsWithPartialUpdates s)) \<and>
     (\<forall>p \<in> set (managedObjectsWithPartialUpdates s). op_remainingKeys p \<noteq> [])"

lemma set_drop_partial: "set (drop_partial mo ps) \<subseteq> set ps"
  by (induction ps) auto

lemma drop_partial_objects:
  "distinct (map op_managedObject ps) \<Longrightarrow>
   distinct (map op_managedObject (drop_partial mo ps)) \<and>
   op_managedObject ` set (drop_partial mo ps) = op_managedObject ` set ps - {mo}"
  by (induction ps) (auto simp: image_iff)

lemma put_partial_objects:
  "op_managedObject ` set (put_partial ks mo ps) = insert mo (op_managedObject ` set ps)"
  "distinct (map op_managedObject ps) \<Longrightarrow> distinct (map op_managedObject (put_partial ks mo ps))"
  by (induction ps) (auto simp: image_iff)

lemma put_partial_keys:
  "ks \<noteq> [] \<Longrightarrow> (\<And>p. p \<in> set ps \<Longrightarrow> op_remainingKeys p \<noteq> []) \<Longrightarrow> p \<in> set (put_partial ks mo ps) \<Longrightarrow>
   op_remainingKeys p \<noteq> []"
  by (induction ps) (auto split: if_splits)

lemma opset_inv_partial: "opset_inv s \<Longrightarrow> opset_inv (removeObjectFromPartialUpdates mo s)"
  using set_drop_partial [of mo "managedObjectsWithPartialUpdates s"]
  by (auto simp: opset_inv_def removeObjectFromPartialUpdates_def drop_partial_objects)

lemma opset_inv_pending: "opset_inv s \<Longrightarrow> distinct ps \<Longrightarrow> opset_inv (s\<lparr>pendingOperationSet := ps\<rparr>)"
  by (simp add: opset_inv_def)

lemma opset_inv_send: "opset_inv s \<Longrightarrow> opset_inv (opset_send A m s)"
proof (cases m)
  case (SetRemainingKeys ks mo)
  assume "opset_inv s"
  then show ?thesis
    by (cases "ks = []") (auto simp: SetRemainingKeys setRemainingKeys_def opset_inv_partial opset_inv_def
        put_partial_objects dest: put_partial_keys
        intro!: opset_inv_partial [unfolded opset_inv_def])
qed (auto simp: addObjectToBeSynchronized_def opset_removeObject_def removeUpdatedObject_def
    opset_didStartSynchronizingKeys_def keysForWhichToApplyResults_def opset_inv_def
    intro!: opset_inv_partial [unfolded opset_inv_def] split: if_splits)

interpretation operation_set: component "opset_send A" opset_inv for A
  by unfold_locales (rule opset_inv_send)

section \<open>ZMLocallyInsertedObjectSet\<close>

record ZMLocallyInsertedObjectSet =
  insertedObjects :: "ZMManagedObject list"
  currentlySynchronizedObjects :: "ZMManagedObject list"

definition initLocallyInsertedObjectSet :: ZMLocallyInsertedObjectSet where
  "initLocallyInsertedObjectSet = \<lparr>insertedObjects = [], currentlySynchronizedObjects = []\<rparr>"

definition addObjectToSynchronize :: "ZMManagedObject \<Rightarrow> ZMLocallyInsertedObjectSet \<Rightarrow> ZMLocallyInsertedObjectSet" where
  "addObjectToSynchronize mo s = s\<lparr>insertedObjects := oset_add (insertedObjects s) mo\<rparr>"

definition removeObjectToSynchronize :: "ZMManagedObject \<Rightarrow> ZMLocallyInsertedObjectSet \<Rightarrow> ZMLocallyInsertedObjectSet" where
  "removeObjectToSynchronize mo s = s\<lparr>insertedObjects := oset_remove mo (insertedObjects s)\<rparr>"

definition inserted_anyObjectToSynchronize ::
  "(ZMManagedObject list \<Rightarrow> nat) \<Rightarrow> ZMLocallyInsertedObjectSet \<Rightarrow> ZMManagedObject option" where
  "inserted_anyObjectToSynchronize pick s =
     anyObject pick (oset_minus (insertedObjects s) (currentlySynchronizedObjects s))"

definition didFinishSynchronizingObject ::
  "ZMManagedObject \<Rightarrow> ZMLocallyInsertedObjectSet \<Rightarrow> ZMLocallyInsertedObjectSet" where
  "didFinishSynchronizingObject mo s =
     removeObjectToSynchronize mo
       (s\<lparr>currentlySynchronizedObjects := oset_remove mo (currentlySynchronizedObjects s)\<rparr>)"

definition didStartSynchronizingObject ::
  "ZMManagedObject \<Rightarrow> ZMLocallyInsertedObjectSet \<Rightarrow> objc_failure + ZMLocallyInsertedObjectSet" where
  "didStartSynchronizingObject mo s =
     (if mo \<notin> set (insertedObjects s) then Inl AssertionFailure
      else Inr (s\<lparr>currentlySynchronizedObjects := oset_add (currentlySynchronizedObjects s) mo\<rparr>))"

definition didFailSynchronizingObject ::
  "ZMManagedObject \<Rightarrow> ZMLocallyInsertedObjectSet \<Rightarrow> objc_failure + ZMLocallyInsertedObjectSet" where
  "didFailSynchronizingObject mo s =
     (if mo \<notin> set (currentlySynchronizedObjects s) then Inl AssertionFailure
      else Inr (s\<lparr>currentlySynchronizedObjects := oset_remove mo (currentlySynchronizedObjects s)\<rparr>))"

definition isSynchronizingObject :: "ZMManagedObject \<Rightarrow> ZMLocallyInsertedObjectSet \<Rightarrow> bool" where
  "isSynchronizingObject mo s \<longleftrightarrow> mo \<in> set (currentlySynchronizedObjects s)"

definition inserted_count :: "ZMLocallyInsertedObjectSet \<Rightarrow> nat" where
  "inserted_count s = length (insertedObjects s)"

datatype (plugins only: code size) ZMLocallyInsertedObjectSet_msg =
    AddObjectToSynchronize ZMManagedObject
  | RemoveObjectToSynchronize ZMManagedObject
  | DidFailSynchronizingObject ZMManagedObject
  | DidStartSynchronizingObject ZMManagedObject
  | DidFinishSynchronizingObject ZMManagedObject

primrec inserted_send ::
  "ZMLocallyInsertedObjectSet_msg \<Rightarrow> ZMLocallyInsertedObjectSet \<Rightarrow> objc_failure + ZMLocallyInsertedObjectSet" where
  "inserted_send (AddObjectToSynchronize mo) s = Inr (addObjectToSynchronize mo s)"
| "inserted_send (RemoveObjectToSynchronize mo) s = Inr (removeObjectToSynchronize mo s)"
| "inserted_send (DidFailSynchronizingObject mo) s = didFailSynchronizingObject mo s"
| "inserted_send (DidStartSynchronizingObject mo) s = didStartSynchronizingObject mo s"
| "inserted_send (DidFinishSynchronizingObject mo) s = Inr (didFinishSynchronizingObject mo s)"

lemma inserted_send_distinct:
  "distinct (insertedObjects s) \<and> distinct (currentlySynchronizedObjects s) \<Longrightarrow> inserted_send m s = Inr s' \<Longrightarrow>
   distinct (insertedObjects s') \<and> distinct (currentlySynchronizedObjects s')"
  by (cases m) (auto simp: addObjectToSynchronize_def removeObjectToSynchronize_def didFailSynchronizingObject_def
      didStartSynchronizingObject_def didFinishSynchronizingObject_def split: if_splits)

section \<open>ZMUpdateEventsBuffer\<close>

record ZMUpdateEvent =
  ev_uuid :: "NSUUID option"
  ev_payload :: "json option"

type_synonym ZMUpdateEventsBuffer = "ZMUpdateEvent list"

text \<open>A consumer is its method \<^verbatim>\<open>-consumeUpdateEvents:\<close>.\<close>

type_synonym 'c ZMUpdateEventConsumer = "ZMUpdateEvent list \<Rightarrow> 'c \<Rightarrow> 'c"

definition addUpdateEvent :: "ZMUpdateEvent \<Rightarrow> ZMUpdateEventsBuffer \<Rightarrow> ZMUpdateEventsBuffer" where
  "addUpdateEvent e b = b @ [e]"

definition buffer_processAllEventsInBuffer ::
  "'c ZMUpdateEventConsumer \<Rightarrow> ZMUpdateEventsBuffer \<times> 'c \<Rightarrow> ZMUpdateEventsBuffer \<times> 'c" where
  "buffer_processAllEventsInBuffer consumeUpdateEvents bc =
     (case bc of (b, c) \<Rightarrow> ([], consumeUpdateEvents b c))"

definition discardAllUpdateEvents :: "ZMUpdateEventsBuffer \<Rightarrow> ZMUpdateEventsBuffer" where
  "discardAllUpdateEvents b = []"

text \<open>A missing \<^verbatim>\<open>uuid\<close> or identifier is never equal to anything.\<close>

fun discardUpdateEventWithIdentifier :: "NSUUID option \<Rightarrow> ZMUpdateEventsBuffer \<Rightarrow> ZMUpdateEventsBuffer" where
  "discardUpdateEventWithIdentifier i [] = []"
| "discardUpdateEventWithIdentifier i (e # b) =
     (if ev_uuid e \<noteq> None \<and> ev_uuid e = i then b else e # discardUpdateEventWithIdentifier i b)"

datatype (plugins only: code size) ZMUpdateEventsBuffer_msg =
    ProcessAllEventsInBuffer
  | DiscardAllUpdateEvents
  | DiscardUpdateEventWithIdentifier "NSUUID option"
  | AddUpdateEvent ZMUpdateEvent

primrec buffer_send ::
  "'c ZMUpdateEventConsumer \<Rightarrow> ZMUpdateEventsBuffer_msg \<Rightarrow> ZMUpdateEventsBuffer \<times> 'c \<Rightarrow> ZMUpdateEventsBuffer \<times> 'c" where
  "buffer_send consume ProcessAllEventsInBuffer bc = buffer_processAllEventsInBuffer consume bc"
| "buffer_send consume DiscardAllUpdateEvents bc = (discardAllUpdateEvents (fst bc), snd bc)"
| "buffer_send consume (DiscardUpdateEventWithIdentifier i) bc = (discardUpdateEventWithIdentifier i (fst bc), snd bc)"
| "buffer_send consume (AddUpdateEvent e) bc = (addUpdateEvent e (fst bc), snd bc)"

text \<open>The events added by a sequence of messages.\<close>

definition added_events :: "ZMUpdateEventsBuffer_msg list \<Rightarrow> ZMUpdateEvent list" where
  "added_events ms = List.map_filter (\<lambda>m. case m of AddUpdateEvent e \<Rightarrow> Some e | _ \<Rightarrow> None) ms"

lemma buffer_run_events:
  "(\<And>m. m \<in> set ms \<Longrightarrow> m = ProcessAllEventsInBuffer \<or> (\<exists>e. m = AddUpdateEvent e)) \<Longrightarrow>
   run (buffer_send (\<lambda>es seen. seen @ es)) (b, seen) ms = (b', seen') \<Longrightarrow> seen' @ b' = seen @ b @ added_events ms"
proof (induction ms arbitrary: b seen)
  case (Cons m ms)
  from Cons.prems(1) [of m] consider "m = ProcessAllEventsInBuffer" | e where "m = AddUpdateEvent e"
    by auto
  then show ?case
    using Cons.IH Cons.prems
    by cases (fastforce simp: buffer_processAllEventsInBuffer_def addUpdateEvent_def added_events_def map_filter_simps)+
qed (simp add: added_events_def map_filter_simps)

text \<open>Without discarding, the buffer neither loses nor repeats nor reorders events: what the consumer has received
  followed by what is still buffered are the events added, in the order they were added.\<close>

lemma buffer_delivers_in_order:
  assumes "\<And>m. m \<in> set ms \<Longrightarrow> m = ProcessAllEventsInBuffer \<or> (\<exists>e. m = AddUpdateEvent e)"
  shows "case run (buffer_send (\<lambda>es seen. seen @ es)) ([], []) ms of (b, seen) \<Rightarrow> seen @ b = added_events ms"
proof -
  obtain b seen where r: "run (buffer_send (\<lambda>es seen. seen @ es)) ([], []) ms = (b, seen)"
    by fastforce
  from buffer_run_events [where ms = ms, OF assms r] r show ?thesis
    by simp
qed

lemma buffer_delivers_in_order_example:
  "run (buffer_send (\<lambda>es seen. seen @ es)) ([], [])
     [AddUpdateEvent \<lparr>ev_uuid = Some 1, ev_payload = None\<rparr>, ProcessAllEventsInBuffer,
      AddUpdateEvent \<lparr>ev_uuid = Some 2, ev_payload = None\<rparr>] =
     ([\<lparr>ev_uuid = Some 2, ev_payload = None\<rparr>], [\<lparr>ev_uuid = Some 1, ev_payload = None\<rparr>])"
  using buffer_delivers_in_order [of "[AddUpdateEvent \<lparr>ev_uuid = Some 1, ev_payload = None\<rparr>, ProcessAllEventsInBuffer,
      AddUpdateEvent \<lparr>ev_uuid = Some 2, ev_payload = None\<rparr>]"]
  by (simp add: buffer_processAllEventsInBuffer_def addUpdateEvent_def)

end
