(* ===== verification/ModifiedObjects.thy ===== *)
theory ModifiedObjects
  imports ObjectSets
begin

text \<open>
  \<^verbatim>\<open>ZMLocallyModifiedObjectSyncStatus\<close> with its token, and \<^verbatim>\<open>ZMLocallyModifiedObjectSet\<close>: which keys of which
  objects still have to be uploaded. The managed objects are an \<open>object_store\<close>, the part of the data model
  the upstream syncs use; its state is a parameter. The status objects live in a heap, because the tokens handed
  out refer to a status that the set's dictionary may have dropped in the meantime.
\<close>

section \<open>Managed objects\<close>

record 's object_store =
  valueForKey :: "'s \<Rightarrow> attributes"
  keysThatHaveLocalModifications :: "'s \<Rightarrow> ZMManagedObject \<Rightarrow> NSString list"
  keysTrackedForLocalModifications :: "'s \<Rightarrow> ZMManagedObject \<Rightarrow> NSString list"
  resetLocallyModifiedKeys :: "ZMManagedObject \<Rightarrow> NSString list \<Rightarrow> 's \<Rightarrow> 's"
  setLocallyModifiedKeys :: "ZMManagedObject \<Rightarrow> NSString list \<Rightarrow> 's \<Rightarrow> 's"
  isTemporaryID :: "'s \<Rightarrow> ZMManagedObject \<Rightarrow> bool"
  isZombieObject :: "'s \<Rightarrow> ZMManagedObject \<Rightarrow> bool"
  entityOf :: "ZMManagedObject \<Rightarrow> NSString"
  deleteObject :: "ZMManagedObject \<Rightarrow> 's \<Rightarrow> 's"
  setNeedsToBeUpdatedFromBackend :: "ZMManagedObject \<Rightarrow> bool \<Rightarrow> 's \<Rightarrow> 's"
  enqueueDelayedSave :: "'s \<Rightarrow> 's"

text \<open>Resetting the modified keys of an object removes exactly these keys from its modifications.\<close>

definition resets_keys :: "'s object_store \<Rightarrow> bool" where
  "resets_keys S \<longleftrightarrow>
     (\<forall>mo ks st. set (keysThatHaveLocalModifications S (resetLocallyModifiedKeys S mo ks st) mo) =
        set (keysThatHaveLocalModifications S st mo) - set ks)"

section \<open>ZMLocallyModifiedObjectSyncStatus\<close>

record ZMLocallyModifiedObjectSyncStatus =
  status_object :: ZMManagedObject
  status_trackedKeys :: "NSString list"
  keysWithSyncInProgress :: "NSString list"

record ZMLocallyModifiedObjectSyncStatusToken =
  previousValues :: "(NSString \<times> json) list"
  token_object :: ZMManagedObject

definition token_keys :: "ZMLocallyModifiedObjectSyncStatusToken \<Rightarrow> NSString list" where
  "token_keys t = map fst (previousValues t)"

definition keysThatHaveNewValues ::
  "'s object_store \<Rightarrow> 's \<Rightarrow> ZMLocallyModifiedObjectSyncStatusToken \<Rightarrow> NSString list" where
  "keysThatHaveNewValues S st t =
     map fst (filter (\<lambda>(k, old). valueOrNSNull (valueForKey S st (token_object t) k) \<noteq> old) (previousValues t))"

definition keysToSynchronize ::
  "'s object_store \<Rightarrow> 's \<Rightarrow> ZMLocallyModifiedObjectSyncStatus \<Rightarrow> NSString list" where
  "keysToSynchronize S st x =
     filter (\<lambda>k. k \<in> set (keysThatHaveLocalModifications S st (status_object x)) \<and>
                 k \<notin> set (keysWithSyncInProgress x)) (status_trackedKeys x)"

definition status_isDone :: "'s object_store \<Rightarrow> 's \<Rightarrow> ZMLocallyModifiedObjectSyncStatus \<Rightarrow> bool" where
  "status_isDone S st x \<longleftrightarrow> keysToSynchronize S st x = [] \<and> keysWithSyncInProgress x = []"

text \<open>Without keys to synchronize the initialiser returns \<^verbatim>\<open>nil\<close>; the tracked keys must not be empty.\<close>

definition initSyncStatus ::
  "'s object_store \<Rightarrow> 's \<Rightarrow> ZMManagedObject \<Rightarrow> NSString list \<Rightarrow>
   objc_failure + ZMLocallyModifiedObjectSyncStatus option" where
  "initSyncStatus S st mo ks =
     (if ks = [] then Inl AssertionFailure
      else let x = \<lparr>status_object = mo, status_trackedKeys = ks, keysWithSyncInProgress = []\<rparr>
           in Inr (if keysToSynchronize S st x = [] then None else Some x))"

definition startSynchronizingKeys ::
  "'s object_store \<Rightarrow> 's \<Rightarrow> NSString list \<Rightarrow> ZMLocallyModifiedObjectSyncStatus \<Rightarrow>
   ZMLocallyModifiedObjectSyncStatusToken \<times> ZMLocallyModifiedObjectSyncStatus" where
  "startSynchronizingKeys S st ks x =
     (\<lparr>previousValues = map (\<lambda>k. (k, valueOrNSNull (valueForKey S st (status_object x) k))) ks,
       token_object = status_object x\<rparr>,
      x\<lparr>keysWithSyncInProgress := oset_union (keysWithSyncInProgress x) ks\<rparr>)"

definition returnChangedKeysAndFinishTokenSync ::
  "'s object_store \<Rightarrow> 's \<Rightarrow> ZMLocallyModifiedObjectSyncStatusToken \<Rightarrow> ZMLocallyModifiedObjectSyncStatus \<Rightarrow>
   NSString list \<times> ZMLocallyModifiedObjectSyncStatus" where
  "returnChangedKeysAndFinishTokenSync S st t x =
     (keysThatHaveNewValues S st t,
      x\<lparr>keysWithSyncInProgress := oset_minus (keysWithSyncInProgress x) (token_keys t)\<rparr>)"

definition resetLocallyModifiedKeysForToken ::
  "'s object_store \<Rightarrow> ZMLocallyModifiedObjectSyncStatusToken \<Rightarrow> ZMLocallyModifiedObjectSyncStatus \<times> 's \<Rightarrow>
   ZMLocallyModifiedObjectSyncStatus \<times> 's" where
  "resetLocallyModifiedKeysForToken S t xs =
     (case xs of (x, st) \<Rightarrow>
        (x\<lparr>keysWithSyncInProgress := oset_minus (keysWithSyncInProgress x) (token_keys t)\<rparr>,
         resetLocallyModifiedKeys S (status_object x) (token_keys t) st))"

text \<open>The interface of a status object; the state of the data model is threaded through.\<close>

datatype ZMLocallyModifiedObjectSyncStatus_msg =
    StartSynchronizingKeys "NSString list"
  | ReturnChangedKeysAndFinishTokenSync ZMLocallyModifiedObjectSyncStatusToken
  | ResetLocallyModifiedKeysForToken ZMLocallyModifiedObjectSyncStatusToken

primrec status_send ::
  "'s object_store \<Rightarrow> ZMLocallyModifiedObjectSyncStatus_msg \<Rightarrow> ZMLocallyModifiedObjectSyncStatus \<times> 's \<Rightarrow>
   ZMLocallyModifiedObjectSyncStatus \<times> 's" where
  "status_send S (StartSynchronizingKeys ks) xs = (snd (startSynchronizingKeys S (snd xs) ks (fst xs)), snd xs)"
| "status_send S (ReturnChangedKeysAndFinishTokenSync t) xs =
     (snd (returnChangedKeysAndFinishTokenSync S (snd xs) t (fst xs)), snd xs)"
| "status_send S (ResetLocallyModifiedKeysForToken t) xs = resetLocallyModifiedKeysForToken S t xs"

lemma status_send_object:
  "status_object (fst (status_send S m xs)) = status_object (fst xs) \<and>
   status_trackedKeys (fst (status_send S m xs)) = status_trackedKeys (fst xs)"
  by (cases m) (auto simp: startSynchronizingKeys_def returnChangedKeysAndFinishTokenSync_def
      resetLocallyModifiedKeysForToken_def split: prod.splits)

section \<open>ZMLocallyModifiedObjectSet\<close>

record ZMObjectWithKeys =
  owk_object :: ZMManagedObject
  owk_keysToSync :: "NSString list"

type_synonym status_ref = nat

record ZMModifiedObjectSyncToken =
  objectSyncStatus :: "status_ref option"
  syncToken :: "ZMLocallyModifiedObjectSyncStatusToken option"
  keysToSynchronize_token :: "NSString list"

text \<open>The heap of status objects and the next free address are kept with the set, which alone creates them.\<close>

record ZMLocallyModifiedObjectSet =
  trackedKeys :: "NSString list option"
  objectIDsToStatus :: "(ZMManagedObject \<times> status_ref) list"
  status_heap :: "status_ref \<rightharpoonup> ZMLocallyModifiedObjectSyncStatus"
  next_status :: status_ref

definition initWithTrackedKeys :: "NSString list option \<Rightarrow> ZMLocallyModifiedObjectSet" where
  "initWithTrackedKeys ks = \<lparr>trackedKeys = ks, objectIDsToStatus = [], status_heap = Map.empty, next_status = 0\<rparr>"

definition trackAllKeys :: "ZMLocallyModifiedObjectSet \<Rightarrow> bool" where
  "trackAllKeys s \<longleftrightarrow> trackedKeys s = None"

definition done_at :: "'s object_store \<Rightarrow> 's \<Rightarrow> status_ref \<Rightarrow> ZMLocallyModifiedObjectSet \<Rightarrow> bool" where
  "done_at S st a s = (case status_heap s a of None \<Rightarrow> False | Some x \<Rightarrow> status_isDone S st x)"

definition addPossibleObjectToSynchronize ::
  "'s object_store \<Rightarrow> 's \<Rightarrow> ZMManagedObject \<Rightarrow> ZMLocallyModifiedObjectSet \<Rightarrow>
   objc_failure + ZMLocallyModifiedObjectSet" where
  "addPossibleObjectToSynchronize S st mo s =
     (if isTemporaryID S st mo then Inl AssertionFailure
      else case map_of (objectIDsToStatus s) mo of
        Some a \<Rightarrow>
          Inr (if done_at S st a s then s\<lparr>objectIDsToStatus := dict_remove mo (objectIDsToStatus s)\<rparr> else s)
      | None \<Rightarrow>
          (case initSyncStatus S st mo
               (case trackedKeys s of None \<Rightarrow> remdups (keysTrackedForLocalModifications S st mo) | Some ks \<Rightarrow> ks) of
             Inl e \<Rightarrow> Inl e
           | Inr None \<Rightarrow> Inr s
           | Inr (Some x) \<Rightarrow>
               Inr (s\<lparr>objectIDsToStatus := dict_put mo (next_status s) (objectIDsToStatus s),
                      status_heap := (status_heap s)(next_status s \<mapsto> x),
                      next_status := Suc (next_status s)\<rparr>)))"

text \<open>
  The loop runs over \<^verbatim>\<open>allValues\<close>, a copy of the values, and removes the status objects that are done on its way
  to the first one with keys to synchronize.
\<close>

fun any_object ::
  "'s object_store \<Rightarrow> 's \<Rightarrow> status_ref list \<Rightarrow> ZMLocallyModifiedObjectSet \<Rightarrow>
   ZMObjectWithKeys option \<times> ZMLocallyModifiedObjectSet" where
  "any_object S st [] s = (None, s)"
| "any_object S st (a # as) s =
     (case status_heap s a of
        None \<Rightarrow> any_object S st as s
      | Some x \<Rightarrow>
          if keysToSynchronize S st x \<noteq> []
          then (Some \<lparr>owk_object = status_object x, owk_keysToSync = keysToSynchronize S st x\<rparr>, s)
          else any_object S st as
            (if status_isDone S st x
             then s\<lparr>objectIDsToStatus := dict_remove (status_object x) (objectIDsToStatus s)\<rparr> else s))"

definition anyObjectToSynchronize ::
  "'s object_store \<Rightarrow> 's \<Rightarrow> ZMLocallyModifiedObjectSet \<Rightarrow> ZMObjectWithKeys option \<times> ZMLocallyModifiedObjectSet" where
  "anyObjectToSynchronize S st s = any_object S st (map snd (objectIDsToStatus s)) s"

text \<open>Without a status for the object the token refers to nothing; messages to \<^verbatim>\<open>nil\<close> then have no effect.\<close>

definition didStartSynchronizingKeys ::
  "'s object_store \<Rightarrow> 's \<Rightarrow> NSString list \<Rightarrow> ZMObjectWithKeys \<Rightarrow> ZMLocallyModifiedObjectSet \<Rightarrow>
   ZMModifiedObjectSyncToken \<times> ZMLocallyModifiedObjectSet" where
  "didStartSynchronizingKeys S st ks obj s =
     (case Option.bind (map_of (objectIDsToStatus s) (owk_object obj)) (\<lambda>a. map_option (Pair a) (status_heap s a)) of
        None \<Rightarrow> (\<lparr>objectSyncStatus = None, syncToken = None, keysToSynchronize_token = ks\<rparr>, s)
      | Some (a, x) \<Rightarrow>
          (case startSynchronizingKeys S st ks x of (t, x') \<Rightarrow>
             (\<lparr>objectSyncStatus = Some a, syncToken = Some t, keysToSynchronize_token = ks\<rparr>,
              s\<lparr>status_heap := (status_heap s)(a \<mapsto> x')\<rparr>)))"

text \<open>The status and its token, if the token refers to one.\<close>

definition token_status ::
  "ZMModifiedObjectSyncToken \<Rightarrow> ZMLocallyModifiedObjectSet \<Rightarrow>
   (status_ref \<times> ZMLocallyModifiedObjectSyncStatus \<times> ZMLocallyModifiedObjectSyncStatusToken) option" where
  "token_status tok s =
     (case (objectSyncStatus tok, syncToken tok) of
        (Some a, Some t) \<Rightarrow> map_option (\<lambda>x. (a, x, t)) (status_heap s a)
      | _ \<Rightarrow> None)"

definition removeObjectSyncStatusIfDone ::
  "'s object_store \<Rightarrow> 's \<Rightarrow> ZMLocallyModifiedObjectSyncStatus \<Rightarrow> ZMLocallyModifiedObjectSet \<Rightarrow> ZMLocallyModifiedObjectSet" where
  "removeObjectSyncStatusIfDone S st x s =
     (if status_isDone S st x then s\<lparr>objectIDsToStatus := dict_remove (status_object x) (objectIDsToStatus s)\<rparr> else s)"

definition didSynchronizeToken ::
  "'s object_store \<Rightarrow> ZMModifiedObjectSyncToken \<Rightarrow> ZMLocallyModifiedObjectSet \<times> 's \<Rightarrow> ZMLocallyModifiedObjectSet \<times> 's" where
  "didSynchronizeToken S tok ss =
     (case ss of (s, st) \<Rightarrow>
        case token_status tok s of
          None \<Rightarrow> (s, st)
        | Some (a, x, t) \<Rightarrow>
            (case resetLocallyModifiedKeysForToken S t (x, st) of (x', st') \<Rightarrow>
               (removeObjectSyncStatusIfDone S st' x' (s\<lparr>status_heap := (status_heap s)(a \<mapsto> x')\<rparr>), st')))"

definition didFailToSynchronizeToken ::
  "'s object_store \<Rightarrow> ZMModifiedObjectSyncToken \<Rightarrow> ZMLocallyModifiedObjectSet \<times> 's \<Rightarrow> ZMLocallyModifiedObjectSet \<times> 's" where
  "didFailToSynchronizeToken S tok ss =
     (case ss of (s, st) \<Rightarrow>
        case token_status tok s of
          None \<Rightarrow> (s, st)
        | Some (a, x, t) \<Rightarrow>
            (case resetLocallyModifiedKeysForToken S t (x, st) of (x', st') \<Rightarrow>
               (removeObjectSyncStatusIfDone S st' x' (s\<lparr>status_heap := (status_heap s)(a \<mapsto> x')\<rparr>), st')))"

definition finish_token ::
  "'s object_store \<Rightarrow> 's \<Rightarrow> ZMModifiedObjectSyncToken \<Rightarrow> ZMLocallyModifiedObjectSet \<Rightarrow>
   NSString list \<times> ZMLocallyModifiedObjectSet" where
  "finish_token S st tok s =
     (case token_status tok s of
        None \<Rightarrow> ([], s)
      | Some (a, x, t) \<Rightarrow>
          (case returnChangedKeysAndFinishTokenSync S st t x of (changed, x') \<Rightarrow>
             (changed, s\<lparr>status_heap := (status_heap s)(a \<mapsto> x')\<rparr>)))"

definition didNotFinishToSynchronizeToken ::
  "'s object_store \<Rightarrow> 's \<Rightarrow> ZMModifiedObjectSyncToken \<Rightarrow> ZMLocallyModifiedObjectSet \<Rightarrow> ZMLocallyModifiedObjectSet" where
  "didNotFinishToSynchronizeToken S st tok s = snd (finish_token S st tok s)"

definition keysToParseAfterSyncingToken ::
  "'s object_store \<Rightarrow> 's \<Rightarrow> ZMModifiedObjectSyncToken \<Rightarrow> ZMLocallyModifiedObjectSet \<Rightarrow>
   NSString list \<times> ZMLocallyModifiedObjectSet" where
  "keysToParseAfterSyncingToken S st tok s =
     (case finish_token S st tok s of (changed, s') \<Rightarrow> (oset_minus (keysToSynchronize_token tok) changed, s'))"

definition modified_hasOutstandingItems :: "ZMLocallyModifiedObjectSet \<Rightarrow> bool" where
  "modified_hasOutstandingItems s \<longleftrightarrow> 0 < length (objectIDsToStatus s)"

section \<open>Messages and invariant\<close>

datatype (plugins only: code size) ZMLocallyModifiedObjectSet_msg =
    AddPossibleObjectToSynchronize ZMManagedObject
  | AnyObjectToSynchronize
  | DidStartSynchronizingKeys "NSString list" ZMObjectWithKeys
  | DidFailToSynchronizeToken ZMModifiedObjectSyncToken
  | KeysToParseAfterSyncingToken ZMModifiedObjectSyncToken
  | DidSynchronizeToken ZMModifiedObjectSyncToken
  | DidNotFinishToSynchronizeToken ZMModifiedObjectSyncToken

primrec modset_send ::
  "'s object_store \<Rightarrow> ZMLocallyModifiedObjectSet_msg \<Rightarrow> ZMLocallyModifiedObjectSet \<times> 's \<Rightarrow>
   objc_failure + ZMLocallyModifiedObjectSet \<times> 's" where
  "modset_send S (AddPossibleObjectToSynchronize mo) ss =
     map_sum id (\<lambda>s. (s, snd ss)) (addPossibleObjectToSynchronize S (snd ss) mo (fst ss))"
| "modset_send S AnyObjectToSynchronize ss = Inr (snd (anyObjectToSynchronize S (snd ss) (fst ss)), snd ss)"
| "modset_send S (DidStartSynchronizingKeys ks obj) ss =
     Inr (snd (didStartSynchronizingKeys S (snd ss) ks obj (fst ss)), snd ss)"
| "modset_send S (DidFailToSynchronizeToken tok) ss = Inr (didFailToSynchronizeToken S tok ss)"
| "modset_send S (KeysToParseAfterSyncingToken tok) ss =
     Inr (snd (keysToParseAfterSyncingToken S (snd ss) tok (fst ss)), snd ss)"
| "modset_send S (DidSynchronizeToken tok) ss = Inr (didSynchronizeToken S tok ss)"
| "modset_send S (DidNotFinishToSynchronizeToken tok) ss =
     Inr (didNotFinishToSynchronizeToken S (snd ss) tok (fst ss), snd ss)"

text \<open>After a failed assertion nothing happens any more.\<close>

definition modset_step ::
  "'s object_store \<Rightarrow> ZMLocallyModifiedObjectSet_msg \<Rightarrow> objc_failure + ZMLocallyModifiedObjectSet \<times> 's \<Rightarrow>
   objc_failure + ZMLocallyModifiedObjectSet \<times> 's" where
  "modset_step S m r = (case r of Inl e \<Rightarrow> Inl e | Inr ss \<Rightarrow> modset_send S m ss)"

text \<open>Each object has one entry, and the status of the entry is that of the object.\<close>

definition modset_inv :: "ZMLocallyModifiedObjectSet \<Rightarrow> bool" where
  "modset_inv s \<longleftrightarrow>
     distinct (map fst (objectIDsToStatus s)) \<and>
     (\<forall>mo a. map_of (objectIDsToStatus s) mo = Some a \<longrightarrow>
        (\<exists>x. status_heap s a = Some x \<and> status_object x = mo)) \<and>
     (\<forall>a. status_heap s a \<noteq> None \<longrightarrow> a < next_status s)"

definition modset_ok :: "objc_failure + ZMLocallyModifiedObjectSet \<times> 's \<Rightarrow> bool" where
  "modset_ok r = (case r of Inl e \<Rightarrow> True | Inr ss \<Rightarrow> modset_inv (fst ss))"

lemma modset_inv_init [simp]: "modset_inv (initWithTrackedKeys ks)"
  by (simp add: modset_inv_def initWithTrackedKeys_def)

lemma modset_inv_remove: "modset_inv s \<Longrightarrow> modset_inv (s\<lparr>objectIDsToStatus := dict_remove mo (objectIDsToStatus s)\<rparr>)"
  by (auto simp: modset_inv_def)

lemma modset_inv_heap:
  "modset_inv s \<Longrightarrow> status_heap s a = Some x \<Longrightarrow> status_object x' = status_object x \<Longrightarrow>
   modset_inv (s\<lparr>status_heap := (status_heap s)(a \<mapsto> x')\<rparr>)"
  by (fastforce simp: modset_inv_def)

lemma modset_inv_new:
  assumes "modset_inv s" and "status_object x = mo"
  shows "modset_inv (s\<lparr>objectIDsToStatus := dict_put mo (next_status s) (objectIDsToStatus s),
     status_heap := (status_heap s)(next_status s \<mapsto> x), next_status := Suc (next_status s)\<rparr>)"
proof -
  have fresh: "map_of (objectIDsToStatus s) m \<noteq> Some (next_status s)" for m
    using assms(1) by (fastforce simp: modset_inv_def)
  with assms show ?thesis
    by (auto simp: modset_inv_def less_Suc_eq)
qed

lemma modset_inv_removeIfDone: "modset_inv s \<Longrightarrow> modset_inv (removeObjectSyncStatusIfDone S st x s)"
  by (simp add: removeObjectSyncStatusIfDone_def modset_inv_remove)

lemma modset_inv_any: "modset_inv s \<Longrightarrow> modset_inv (snd (any_object S st as s))"
  by (induction S st as s rule: any_object.induct) (auto simp: modset_inv_remove split: option.splits)

lemma token_status_heap: "token_status tok s = Some (a, x, t) \<Longrightarrow> status_heap s a = Some x"
  by (auto simp: token_status_def split: option.splits)

lemma initSyncStatus_object: "initSyncStatus S st mo ks = Inr (Some x) \<Longrightarrow> status_object x = mo"
  by (auto simp: initSyncStatus_def Let_def split: if_splits)

lemmas modset_inv_intros =
  modset_inv_remove modset_inv_heap modset_inv_new modset_inv_removeIfDone modset_inv_any

lemma modset_inv_add: "modset_inv s \<Longrightarrow> addPossibleObjectToSynchronize S st mo s = Inr s' \<Longrightarrow> modset_inv s'"
  by (auto simp: addPossibleObjectToSynchronize_def intro: modset_inv_intros dest: initSyncStatus_object
      split: if_splits option.splits sum.splits)

lemma modset_inv_start: "modset_inv s \<Longrightarrow> modset_inv (snd (didStartSynchronizingKeys S st ks obj s))"
  by (auto simp: didStartSynchronizingKeys_def startSynchronizingKeys_def bind_eq_Some_conv
      split: option.splits intro: modset_inv_heap)

lemma modset_inv_finish: "modset_inv s \<Longrightarrow> modset_inv (snd (finish_token S st tok s))"
  by (auto simp: finish_token_def returnChangedKeysAndFinishTokenSync_def split: option.splits
      dest: token_status_heap intro: modset_inv_heap)

lemma modset_inv_synchronize: "modset_inv s \<Longrightarrow> modset_inv (fst (didSynchronizeToken S tok (s, st)))"
  by (auto simp: didSynchronizeToken_def resetLocallyModifiedKeysForToken_def split: option.splits
      dest: token_status_heap intro!: modset_inv_removeIfDone intro: modset_inv_heap)

lemma didFail_eq_didSynchronize: "didFailToSynchronizeToken = didSynchronizeToken"
  by (intro ext) (simp add: didFailToSynchronizeToken_def didSynchronizeToken_def)

lemma snd_keysToParse: "snd (keysToParseAfterSyncingToken S st tok s) = snd (finish_token S st tok s)"
  by (simp add: keysToParseAfterSyncingToken_def split: prod.splits)

lemma modset_ok_step: "modset_ok r \<Longrightarrow> modset_ok (modset_step S m r)"
  by (cases r; cases m)
    (auto simp: modset_ok_def modset_step_def anyObjectToSynchronize_def didFail_eq_didSynchronize
      didNotFinishToSynchronizeToken_def snd_keysToParse map_sum_def
      dest: modset_inv_add modset_inv_start modset_inv_any modset_inv_finish modset_inv_synchronize
      split: sum.splits prod.splits)

interpretation modified_objects: component "modset_step S" modset_ok for S
  by unfold_locales (rule modset_ok_step)

section \<open>The keys offered for upload\<close>

definition offered :: "'s object_store \<Rightarrow> 's \<Rightarrow> ZMManagedObject \<Rightarrow> ZMLocallyModifiedObjectSet \<Rightarrow> NSString set" where
  "offered S st mo s =
     (case Option.bind (map_of (objectIDsToStatus s) mo) (status_heap s) of
        None \<Rightarrow> {} | Some x \<Rightarrow> set (keysToSynchronize S st x))"

lemma status_of_other:
  "modset_inv s \<Longrightarrow> map_of (objectIDsToStatus s) mo = Some a \<Longrightarrow> map_of (objectIDsToStatus s) m = Some a \<Longrightarrow> m = mo"
  by (metis (no_types, lifting) modset_inv_def option.inject)

lemma offered_heap_update:
  assumes "modset_inv s" and "map_of (objectIDsToStatus s) mo = Some a"
  shows "offered S st m (s\<lparr>status_heap := (status_heap s)(a \<mapsto> x)\<rparr>) =
    (if m = mo then set (keysToSynchronize S st x) else offered S st m s)"
proof (cases "map_of (objectIDsToStatus s) m")
  case None
  with assms(2) have "m \<noteq> mo"
    by auto
  with None show ?thesis
    by (simp add: offered_def)
next
  case (Some b)
  show ?thesis
  proof (cases "b = a")
    case True
    then have "m = mo"
      using status_of_other [OF assms] Some by simp
    with True Some show ?thesis
      by (simp add: offered_def)
  next
    case False
    with Some assms(2) have "m \<noteq> mo"
      by auto
    with Some False show ?thesis
      by (simp add: offered_def)
  qed
qed

lemma offered_Some:
  "map_of (objectIDsToStatus s) mo = Some a \<Longrightarrow> status_heap s a = Some x \<Longrightarrow>
   offered S st mo s = set (keysToSynchronize S st x)"
  by (simp add: offered_def)

lemma keysToSynchronize_start:
  "set (keysToSynchronize S st (snd (startSynchronizingKeys S st' ks x))) = set (keysToSynchronize S st x) - set ks"
  by (auto simp: keysToSynchronize_def startSynchronizingKeys_def)

text \<open>C21: Starting an upload takes exactly its keys out of the keys offered for upload; the other modified, tracked
  keys of the object and all keys of the other objects are still offered.\<close>

theorem keys_in_flight_are_not_offered:
  assumes "modset_inv s"
  shows "offered S st mo (snd (didStartSynchronizingKeys S st' ks obj s)) =
    (if mo = owk_object obj then offered S st mo s - set ks else offered S st mo s)"
proof (cases "Option.bind (map_of (objectIDsToStatus s) (owk_object obj)) (\<lambda>a. map_option (Pair a) (status_heap s a))")
  case None
  with assms have "map_of (objectIDsToStatus s) (owk_object obj) = None"
    by (fastforce simp: modset_inv_def bind_eq_None_conv)
  with None show ?thesis
    by (simp add: didStartSynchronizingKeys_def offered_def)
next
  case (Some ax)
  then obtain a x where ax: "ax = (a, x)" "map_of (objectIDsToStatus s) (owk_object obj) = Some a" "status_heap s a = Some x"
    by (auto simp: bind_eq_Some_conv)
  have "snd (didStartSynchronizingKeys S st' ks obj s) =
      s\<lparr>status_heap := (status_heap s)(a \<mapsto> snd (startSynchronizingKeys S st' ks x))\<rparr>"
    by (simp add: didStartSynchronizingKeys_def ax split: prod.splits)
  then show ?thesis
    by (simp add: offered_heap_update [OF assms ax(2)] keysToSynchronize_start offered_Some [OF ax(2,3)])
qed

lemma finish_start:
  assumes "modset_inv s" and "map_of (objectIDsToStatus s) (owk_object obj) = Some a" and "status_heap s a = Some x"
    and "didStartSynchronizingKeys S st ks obj s = (tok, s')"
  shows "didNotFinishToSynchronizeToken S st' tok s' =
    s\<lparr>status_heap := (status_heap s)(a \<mapsto>
        x\<lparr>keysWithSyncInProgress := oset_minus (oset_union (keysWithSyncInProgress x) ks) ks\<rparr>)\<rparr>"
  using assms by (auto simp: didStartSynchronizingKeys_def startSynchronizingKeys_def didNotFinishToSynchronizeToken_def
      finish_token_def token_status_def returnChangedKeysAndFinishTokenSync_def token_keys_def comp_def)

text \<open>C38: Starting an upload of offered keys and not finishing it, because of a temporary error or because more
  requests are needed, is a round trip: every object is again offered with the keys it had, together with those that
  were modified in the meantime.\<close>

theorem unfinished_upload_is_offered_again:
  assumes "modset_inv s" and "set ks \<subseteq> offered S st (owk_object obj) s"
    and "didStartSynchronizingKeys S st ks obj s = (tok, s')"
  shows "offered S st' mo (didNotFinishToSynchronizeToken S st' tok s') = offered S st' mo s"
proof (cases "map_of (objectIDsToStatus s) (owk_object obj)")
  case None
  with assms(3) show ?thesis
    by (auto simp: didStartSynchronizingKeys_def didNotFinishToSynchronizeToken_def finish_token_def token_status_def)
next
  case (Some a)
  with assms(1) obtain x where x: "status_heap s a = Some x"
    unfolding modset_inv_def by blast
  from assms(2) have "set ks \<inter> set (keysWithSyncInProgress x) = {}"
    by (auto simp: offered_Some [OF Some x] keysToSynchronize_def)
  then have "set (keysToSynchronize S st' (x\<lparr>keysWithSyncInProgress :=
      oset_minus (oset_union (keysWithSyncInProgress x) ks) ks\<rparr>)) = set (keysToSynchronize S st' x)"
    by (auto simp: keysToSynchronize_def)
  then show ?thesis
    by (simp add: finish_start [OF assms(1) Some x assms(3)] offered_heap_update [OF assms(1) Some] offered_Some [OF Some x])
qed

section \<open>A sample\<close>

text \<open>A store with one object, whose state is the value of its name and its modified keys.\<close>

definition name_store :: "(json \<times> NSString list) object_store" where
  "name_store = \<lparr>valueForKey = (\<lambda>st mo k. if k = ''name'' then Some (fst st) else None),
     keysThatHaveLocalModifications = (\<lambda>st mo. snd st),
     keysTrackedForLocalModifications = (\<lambda>st mo. [''name'']),
     resetLocallyModifiedKeys = (\<lambda>mo ks st. (fst st, filter (\<lambda>k. k \<notin> set ks) (snd st))),
     setLocallyModifiedKeys = (\<lambda>mo ks st. (fst st, oset_union (snd st) ks)),
     isTemporaryID = (\<lambda>st mo. False), isZombieObject = (\<lambda>st mo. False), entityOf = (\<lambda>mo. ''User''),
     deleteObject = (\<lambda>mo st. st), setNeedsToBeUpdatedFromBackend = (\<lambda>mo b st. st), enqueueDelayedSave = id\<rparr>"

definition name_status :: ZMLocallyModifiedObjectSyncStatus where
  "name_status = \<lparr>status_object = 7, status_trackedKeys = [''name''], keysWithSyncInProgress = []\<rparr>"

definition name_set :: ZMLocallyModifiedObjectSet where
  "name_set = \<lparr>trackedKeys = None, objectIDsToStatus = [(7, 0)], status_heap = [0 \<mapsto> name_status], next_status = 1\<rparr>"

definition name_object :: ZMObjectWithKeys where
  "name_object = \<lparr>owk_object = 7, owk_keysToSync = [''name'']\<rparr>"

lemma name_store_resets: "resets_keys name_store"
  by (auto simp: resets_keys_def name_store_def)

lemma name_set_inv: "modset_inv name_set"
  by (simp add: modset_inv_def name_set_def name_status_def)

lemma name_set_offered: "offered name_store (v, ks) 7 name_set = set [''name''] \<inter> set ks"
  by (auto simp: offered_def name_set_def name_status_def name_store_def keysToSynchronize_def)

theorem keys_in_flight_are_not_offered_witness:
  "offered name_store (JStr ''new'', [''name'']) 7
     (snd (didStartSynchronizingKeys name_store (JStr ''new'', [''name'']) [''name''] name_object name_set)) = {}"
  by (subst keys_in_flight_are_not_offered [OF name_set_inv]) (simp add: name_object_def name_set_offered)

theorem unfinished_upload_is_offered_again_witness:
  "offered name_store (JStr ''new'', [''name'']) 7 (didNotFinishToSynchronizeToken name_store (JStr ''new'', [''name''])
     (fst (didStartSynchronizingKeys name_store (JStr ''old'', [''name'']) [''name''] name_object name_set))
     (snd (didStartSynchronizingKeys name_store (JStr ''old'', [''name'']) [''name''] name_object name_set))) = {''name''}"
  by (subst unfinished_upload_is_offered_again [OF name_set_inv])
    (auto simp: name_object_def name_set_offered intro: prod.collapse [symmetric])

end
