(* ===== verification/DependentObjects.thy ===== *)
theory DependentObjects
  imports Prelude
begin

text \<open>
  \<^verbatim>\<open>ZMDependentObjects\<close>: objects that wait for another object, their dependency, before they can be
  uploaded. The specification is the relation \<open>waits\<close> between dependencies and the objects waiting
  for them; the locale \<open>dependent_objects\<close> states what the upstream syncs rely on.
\<close>

section \<open>ZMDependentObjects\<close>

type_synonym dependants = "ZMManagedObject list"

record ZMDependentObjects =
  dependenciesToDependants :: "(ZMManagedObject \<times> dependants) list"

definition initDependentObjects :: ZMDependentObjects where
  "initDependentObjects = \<lparr>dependenciesToDependants = []\<rparr>"

definition addManagedObject :: "ZMManagedObject \<Rightarrow> ZMManagedObject \<Rightarrow> ZMDependentObjects \<Rightarrow> ZMDependentObjects" where
  "addManagedObject dependant dependency t =
     t\<lparr>dependenciesToDependants := dict_put dependency
        (case map_of (dependenciesToDependants t) dependency of
           None \<Rightarrow> [dependant]
         | Some trackedDependants \<Rightarrow> oset_add trackedDependants dependant)
        (dependenciesToDependants t)\<rparr>"

fun first_dependency :: "ZMManagedObject \<Rightarrow> (ZMManagedObject \<times> dependants) list \<Rightarrow> ZMManagedObject option" where
  "first_dependency dependant [] = None"
| "first_dependency dependant ((dependency, dependencies) # ps) =
     (if dependant \<in> set dependencies then Some dependency else first_dependency dependant ps)"

definition anyDependencyForObject :: "ZMManagedObject \<Rightarrow> ZMDependentObjects \<Rightarrow> ZMManagedObject option" where
  "anyDependencyForObject dependant t = first_dependency dependant (dependenciesToDependants t)"

text \<open>
  The block may add objects to the receiver, so it is given the receiver besides a state of its own.
  The objects enumerated are those registered at the start: the blocks of the sources never add an
  object under the dependency that is enumerated.
\<close>

fun enumerate_dependants ::
  "(ZMManagedObject \<Rightarrow> 'x \<Rightarrow> bool \<times> 'x) \<Rightarrow> dependants \<Rightarrow> 'x \<Rightarrow> dependants \<times> 'x" where
  "enumerate_dependants block [] x = ([], x)"
| "enumerate_dependants block (mo # mos) x =
     (case block mo x of (handled, x') \<Rightarrow>
        case enumerate_dependants block mos x' of (remaining, x'') \<Rightarrow>
          (if handled then remaining else mo # remaining, x''))"

definition enumerateManagedObjectsForDependency ::
  "ZMManagedObject \<Rightarrow> (ZMManagedObject \<Rightarrow> ZMDependentObjects \<times> 'b \<Rightarrow> bool \<times> ZMDependentObjects \<times> 'b) \<Rightarrow>
   ZMDependentObjects \<times> 'b \<Rightarrow> ZMDependentObjects \<times> 'b" where
  "enumerateManagedObjectsForDependency dependency block x =
     (case map_of (dependenciesToDependants (fst x)) dependency of
        None \<Rightarrow> x
      | Some trackedDependants \<Rightarrow>
          (case enumerate_dependants block trackedDependants x of (remaining, t, b) \<Rightarrow>
             (t\<lparr>dependenciesToDependants :=
                 if remaining = [] then dict_remove dependency (dependenciesToDependants t)
                 else dict_put dependency remaining (dependenciesToDependants t)\<rparr>, b)))"

datatype ZMDependentObjects_msg =
    AddManagedObject ZMManagedObject ZMManagedObject
  | EnumerateManagedObjectsForDependency ZMManagedObject

primrec dependents_send ::
  "(ZMManagedObject \<Rightarrow> ZMManagedObject \<Rightarrow> ZMDependentObjects \<times> 'b \<Rightarrow> bool \<times> ZMDependentObjects \<times> 'b) \<Rightarrow> ZMDependentObjects_msg \<Rightarrow>
   ZMDependentObjects \<times> 'b \<Rightarrow> ZMDependentObjects \<times> 'b" where
  "dependents_send block (AddManagedObject mo d) x = (addManagedObject mo d (fst x), snd x)"
| "dependents_send block (EnumerateManagedObjectsForDependency d) x = enumerateManagedObjectsForDependency d (block d) x"

section \<open>The block of the upstream syncs\<close>

text \<open>
  \<^verbatim>\<open>-checkForUpdatedDependency:\<close> of both upstream syncs: an object without dependency is handed to
  \<open>ready\<close>, one with another dependency is registered there, one with the same dependency stays.
\<close>

definition dependency_block ::
  "(ZMManagedObject \<Rightarrow> ZMManagedObject option) \<Rightarrow> (ZMManagedObject \<Rightarrow> 'b \<Rightarrow> 'b) \<Rightarrow> ZMManagedObject \<Rightarrow>
   ZMManagedObject \<Rightarrow> ZMDependentObjects \<times> 'b \<Rightarrow> bool \<times> ZMDependentObjects \<times> 'b" where
  "dependency_block newDependency ready existingDependency mo x =
     (case newDependency mo of
        None \<Rightarrow> (True, fst x, ready mo (snd x))
      | Some d \<Rightarrow> if d = existingDependency then (False, x)
                  else (True, addManagedObject mo d (fst x), snd x))"

definition check_dependency ::
  "(ZMManagedObject \<Rightarrow> ZMManagedObject option) \<Rightarrow> (ZMManagedObject \<Rightarrow> 'b \<Rightarrow> 'b) \<Rightarrow> ZMManagedObject \<Rightarrow>
   ZMDependentObjects \<times> 'b \<Rightarrow> ZMDependentObjects \<times> 'b" where
  "check_dependency newDependency ready existingDependency =
     enumerateManagedObjectsForDependency existingDependency
       (dependency_block newDependency ready existingDependency)"

section \<open>Which object waits for which\<close>

definition waits :: "ZMDependentObjects \<Rightarrow> (ZMManagedObject \<times> ZMManagedObject) set" where
  "waits t = {(d, mo). \<exists>ms. map_of (dependenciesToDependants t) d = Some ms \<and> mo \<in> set ms}"

definition dependents_inv :: "ZMDependentObjects \<Rightarrow> bool" where
  "dependents_inv t \<longleftrightarrow> distinct (map fst (dependenciesToDependants t))"

lemma waits_init [simp]: "waits initDependentObjects = {}"
  by (simp add: waits_def initDependentObjects_def)

lemma waits_add: "waits (addManagedObject mo d t) = insert (d, mo) (waits t)"
  by (auto simp: waits_def addManagedObject_def split: option.splits if_splits)

lemma inv_add: "dependents_inv (addManagedObject mo d t) = dependents_inv t"
  by (simp add: dependents_inv_def addManagedObject_def)

lemma first_dependency_Some: "first_dependency mo ps = Some d \<Longrightarrow> \<exists>ms. (d, ms) \<in> set ps \<and> mo \<in> set ms"
  by (induction ps) (auto split: if_splits)

lemma first_dependency_None: "first_dependency mo ps = None \<longleftrightarrow> (\<forall>p\<in>set ps. mo \<notin> set (snd p))"
  by (induction ps) (auto split: if_splits)

lemma waits_pairs:
  "dependents_inv t \<Longrightarrow> (d, mo) \<in> waits t \<longleftrightarrow> (\<exists>ms. (d, ms) \<in> set (dependenciesToDependants t) \<and> mo \<in> set ms)"
  by (auto simp: waits_def dependents_inv_def dest: map_of_SomeD)

lemma any_Some: "dependents_inv t \<Longrightarrow> anyDependencyForObject mo t = Some d \<Longrightarrow> (d, mo) \<in> waits t"
  by (auto simp: anyDependencyForObject_def waits_pairs dest: first_dependency_Some)

lemma any_None: "dependents_inv t \<Longrightarrow> anyDependencyForObject mo t = None \<longleftrightarrow> (\<forall>d. (d, mo) \<notin> waits t)"
  by (fastforce simp: anyDependencyForObject_def waits_pairs first_dependency_None)

text \<open>What the upstream syncs rely on.\<close>

locale dependent_objects =
  fixes inv :: "'t \<Rightarrow> bool"
    and waiting :: "'t \<Rightarrow> ('m \<times> 'm) set"
    and add :: "'m \<Rightarrow> 'm \<Rightarrow> 't \<Rightarrow> 't"
    and any :: "'m \<Rightarrow> 't \<Rightarrow> 'm option"
  assumes add_inv: "inv t \<Longrightarrow> inv (add mo d t)"
    and add_waiting: "inv t \<Longrightarrow> waiting (add mo d t) = insert (d, mo) (waiting t)"
    and any_waiting: "inv t \<Longrightarrow> any mo t = Some d \<Longrightarrow> (d, mo) \<in> waiting t"
    and any_free: "inv t \<Longrightarrow> any mo t = None \<Longrightarrow> (d, mo) \<notin> waiting t"
begin

lemma added_waits: "inv t \<Longrightarrow> any mo (add mo d t) \<noteq> None"
  using any_free [of "add mo d t" mo d] by (auto simp: add_inv add_waiting)

lemma add_other: "inv t \<Longrightarrow> m \<noteq> mo \<Longrightarrow> any m (add mo d t) = None \<longleftrightarrow> any m t = None"
  by (metis Pair_inject add_inv add_waiting any_free any_waiting insert_iff not_None_eq)

end

interpretation dependents: dependent_objects dependents_inv waits addManagedObject anyDependencyForObject
  by unfold_locales (auto simp: inv_add waits_add any_None dest: any_Some)

section \<open>A changed dependency\<close>

lemma lookup_add_other:
  "d \<noteq> e \<Longrightarrow> map_of (dependenciesToDependants (addManagedObject mo d t)) e = map_of (dependenciesToDependants t) e"
  by (simp add: addManagedObject_def)

lemma dependency_block_cases:
  "nd mo = None \<Longrightarrow> dependency_block nd ready e mo (t, b) = (True, t, ready mo b)"
  "nd mo = Some e \<Longrightarrow> dependency_block nd ready e mo (t, b) = (False, t, b)"
  "nd mo = Some d \<Longrightarrow> d \<noteq> e \<Longrightarrow> dependency_block nd ready e mo (t, b) = (True, addManagedObject mo d t, b)"
  by (simp_all add: dependency_block_def)

lemma enumerate_dependency_block:
  assumes "enumerate_dependants (dependency_block nd ready e) mos (t, b) = (remaining, t', b')"
  shows "remaining = filter (\<lambda>mo. nd mo = Some e) mos \<and>
    b' = fold ready (filter (\<lambda>mo. nd mo = None) mos) b \<and>
    map_of (dependenciesToDependants t') e = map_of (dependenciesToDependants t) e \<and>
    waits t' = waits t \<union> {(d, mo). mo \<in> set mos \<and> nd mo = Some d \<and> d \<noteq> e} \<and>
    (dependents_inv t' = dependents_inv t)"
  using assms
proof (induction mos arbitrary: t b remaining)
  case (Cons mo mos)
  consider (free) "nd mo = None" | (same) "nd mo = Some e" | (other) d where "nd mo = Some d" "d \<noteq> e"
    by (cases "nd mo") auto
  then show ?case
  proof cases
    case free
    with Cons.prems obtain rest where "enumerate_dependants (dependency_block nd ready e) mos (t, ready mo b) = (rest, t', b')"
      and "remaining = rest"
      by (auto simp: dependency_block_cases(1) split: prod.splits)
    note ih = Cons.IH [OF this(1)] this(2)
    have "{(d, m). m \<in> set (mo # mos) \<and> nd m = Some d \<and> d \<noteq> e} = {(d, m). m \<in> set mos \<and> nd m = Some d \<and> d \<noteq> e}"
      using free by auto
    with ih free show ?thesis
      by (simp only: filter.simps fold_simps) simp
  next
    case same
    with Cons.prems obtain rest where "enumerate_dependants (dependency_block nd ready e) mos (t, b) = (rest, t', b')"
      and "remaining = mo # rest"
      by (auto simp: dependency_block_cases(2) split: prod.splits)
    note ih = Cons.IH [OF this(1)] this(2)
    have "{(d, m). m \<in> set (mo # mos) \<and> nd m = Some d \<and> d \<noteq> e} = {(d, m). m \<in> set mos \<and> nd m = Some d \<and> d \<noteq> e}"
      using same by auto
    with ih same show ?thesis
      by (simp only: filter.simps fold_simps) simp
  next
    case other
    with Cons.prems obtain rest
      where "enumerate_dependants (dependency_block nd ready e) mos (addManagedObject mo d t, b) = (rest, t', b')"
      and "remaining = rest"
      by (auto simp: dependency_block_cases(3) [of nd mo d e] split: prod.splits)
    note ih = Cons.IH [OF this(1)] this(2)
    have "{(d, m). m \<in> set (mo # mos) \<and> nd m = Some d \<and> d \<noteq> e} =
        insert (d, mo) {(d, m). m \<in> set mos \<and> nd m = Some d \<and> d \<noteq> e}"
      using other by auto
    with ih other show ?thesis
      by (simp only: filter.simps fold_simps) (simp add: waits_add inv_add lookup_add_other)
  qed
qed simp

lemma waits_update:
  "waits (t\<lparr>dependenciesToDependants := if ms = [] then dict_remove e (dependenciesToDependants t)
      else dict_put e ms (dependenciesToDependants t)\<rparr>) =
   {(d, mo) \<in> waits t. d \<noteq> e} \<union> {(d, mo). d = e \<and> mo \<in> set ms}"
  by (auto simp: waits_def split: if_splits)

lemma inv_update:
  "dependents_inv t \<Longrightarrow> dependents_inv (t\<lparr>dependenciesToDependants := if ms = []
      then dict_remove e (dependenciesToDependants t) else dict_put e ms (dependenciesToDependants t)\<rparr>)"
  by (simp add: dependents_inv_def)

lemma inv_check:
  assumes "dependents_inv t"
  shows "dependents_inv (fst (check_dependency nd ready e (t, b)))"
proof (cases "map_of (dependenciesToDependants t) e")
  case (Some mos)
  obtain remaining t' b' where r: "enumerate_dependants (dependency_block nd ready e) mos (t, b) = (remaining, t', b')"
    by (metis prod.exhaust)
  have "fst (check_dependency nd ready e (t, b)) = t'\<lparr>dependenciesToDependants :=
      if remaining = [] then dict_remove e (dependenciesToDependants t')
      else dict_put e remaining (dependenciesToDependants t')\<rparr>"
    by (simp add: check_dependency_def enumerateManagedObjectsForDependency_def Some r)
  moreover have "dependents_inv t'"
    using enumerate_dependency_block [OF r] assms by simp
  ultimately show ?thesis
    by (simp only: inv_update)
qed (simp add: check_dependency_def enumerateManagedObjectsForDependency_def assms)

interpretation dependents_run: component
  "dependents_send (dependency_block nd ready)" "\<lambda>x. dependents_inv (fst x)" for nd ready
proof
  show "dependents_inv (fst (dependents_send (dependency_block nd ready) m x))" if "dependents_inv (fst x)" for x m
    using that inv_check [of "fst x" nd ready _ "snd x"] by (cases m) (simp_all add: inv_add check_dependency_def)
qed

lemma check_dependency_ready:
  "snd (check_dependency nd ready e (t, b)) =
     fold ready (filter (\<lambda>mo. nd mo = None)
       (case map_of (dependenciesToDependants t) e of None \<Rightarrow> [] | Some mos \<Rightarrow> mos)) b"
proof (cases "map_of (dependenciesToDependants t) e")
  case (Some mos)
  obtain remaining t' b' where r: "enumerate_dependants (dependency_block nd ready e) mos (t, b) = (remaining, t', b')"
    by (metis prod.exhaust)
  then have "snd (check_dependency nd ready e (t, b)) = b'"
    by (simp add: check_dependency_def enumerateManagedObjectsForDependency_def Some r)
  with enumerate_dependency_block [OF r] Some show ?thesis
    by simp
qed (simp add: check_dependency_def enumerateManagedObjectsForDependency_def)

lemma fold_invariant: "(\<And>x s. P s \<Longrightarrow> P (f x s)) \<Longrightarrow> P s \<Longrightarrow> P (fold f xs s)"
  by (induction xs arbitrary: s) auto

lemma check_dependency_invariant:
  "(\<And>mo b. P b \<Longrightarrow> P (ready mo b)) \<Longrightarrow> P b \<Longrightarrow> P (snd (check_dependency nd ready e (t, b)))"
  by (simp only: check_dependency_ready) (rule fold_invariant)

text \<open>C24: When a dependency changes, no object that waits for it is lost: the objects the transcoder now finds
  without dependency are handed over, in the order they were added, every other one waits for the dependency the
  transcoder names for it, and whatever waits for other objects keeps waiting.\<close>

theorem no_dependant_is_lost:
  "waits (fst (check_dependency nd ready e (t, b))) =
     {(d, mo) \<in> waits t. d \<noteq> e} \<union> {(d, mo). (e, mo) \<in> waits t \<and> nd mo = Some d} \<and>
   snd (check_dependency nd ready e (t, b)) =
     fold ready (filter (\<lambda>mo. nd mo = None)
       (case map_of (dependenciesToDependants t) e of None \<Rightarrow> [] | Some mos \<Rightarrow> mos)) b"
proof (intro conjI)
  show "waits (fst (check_dependency nd ready e (t, b))) =
     {(d, mo) \<in> waits t. d \<noteq> e} \<union> {(d, mo). (e, mo) \<in> waits t \<and> nd mo = Some d}"
  proof (cases "map_of (dependenciesToDependants t) e")
    case None
    then show ?thesis
      by (auto simp: check_dependency_def enumerateManagedObjectsForDependency_def waits_def)
  next
    case (Some mos)
    obtain remaining t' b' where r: "enumerate_dependants (dependency_block nd ready e) mos (t, b) = (remaining, t', b')"
      by (metis prod.exhaust)
    have member: "(e, mo) \<in> waits t \<longleftrightarrow> mo \<in> set mos" for mo
      by (simp add: waits_def Some)
    have "fst (check_dependency nd ready e (t, b)) = t'\<lparr>dependenciesToDependants :=
        if remaining = [] then dict_remove e (dependenciesToDependants t')
        else dict_put e remaining (dependenciesToDependants t')\<rparr>"
      by (simp add: check_dependency_def enumerateManagedObjectsForDependency_def Some r)
    then show ?thesis
      using enumerate_dependency_block [OF r] by (simp only: waits_update) (auto simp: member)
  qed
qed (rule check_dependency_ready)

end
