(* ===== verification/Upstream.thy ===== *)
theory Upstream
  imports ModifiedObjects DependentObjects
begin

text \<open>
  The upload of local changes: \<^verbatim>\<open>ZMUpstreamRequest\<close>, the \<^verbatim>\<open>ZMUpstreamTranscoder\<close> protocol and
  \<^verbatim>\<open>ZMUpstreamModifiedObjectSync\<close>. A transcoder is a record of its methods; the optional ones are
  \<open>None\<close> when it does not implement them. Its methods change the state of the data model, of which the
  question for a dependency is assumed to be a query.
\<close>

section \<open>ZMUpstreamRequest and ZMUpstreamTranscoder\<close>

type_synonym userInfo = "(NSString \<times> json) list"

record ZMUpstreamRequest =
  ur_keys :: "NSString list"
  ur_transportRequest :: ZMTransportRequest
  ur_transportResponse :: "ZMTransportResponse option"
  ur_userInfo :: userInfo

definition initUpstreamRequest :: "NSString list option \<Rightarrow> ZMTransportRequest \<Rightarrow> userInfo option \<Rightarrow> ZMUpstreamRequest" where
  "initUpstreamRequest ks r info =
     \<lparr>ur_keys = (case ks of None \<Rightarrow> [] | Some ks \<Rightarrow> ks), ur_transportRequest = r, ur_transportResponse = None,
      ur_userInfo = (case info of None \<Rightarrow> [] | Some i \<Rightarrow> i)\<rparr>"

definition initUpstreamRequestWithTransportRequest :: "ZMTransportRequest \<Rightarrow> ZMUpstreamRequest" where
  "initUpstreamRequestWithTransportRequest r = initUpstreamRequest None r None"

record 's ZMUpstreamTranscoder =
  shouldProcessUpdatesBeforeInserts :: "'s \<Rightarrow> bool"
  requestForUpdatingObject :: "ZMManagedObject \<Rightarrow> NSString list \<Rightarrow> 's \<Rightarrow> ZMUpstreamRequest option \<times> 's"
  requestForInsertingObject :: "ZMManagedObject \<Rightarrow> NSString list option \<Rightarrow> 's \<Rightarrow> ZMUpstreamRequest option \<times> 's"
  updateInsertedObject :: "ZMManagedObject \<Rightarrow> ZMUpstreamRequest \<Rightarrow> ZMTransportResponse \<Rightarrow> 's \<Rightarrow> 's"
  updateUpdatedObject :: "ZMManagedObject \<Rightarrow> userInfo \<Rightarrow> ZMTransportResponse \<Rightarrow> NSString list \<Rightarrow> 's \<Rightarrow> bool \<times> 's"
  objectToRefetchForFailedUpdateOfObject :: "ZMManagedObject \<Rightarrow> 's \<Rightarrow> ZMManagedObject option \<times> 's"
  dependentObjectNeedingUpdateBeforeProcessingObject :: "(ZMManagedObject \<Rightarrow> 's \<Rightarrow> ZMManagedObject option) option"
  requestExpiredForObject :: "(ZMManagedObject \<Rightarrow> NSString list \<Rightarrow> 's \<Rightarrow> 's) option"
  shouldCreateRequestToSyncObject :: "(ZMManagedObject \<Rightarrow> NSString list \<Rightarrow> 's \<Rightarrow> bool \<times> 's) option"
  shouldRetryToSyncAfterFailedToUpdateObject ::
    "(ZMManagedObject \<Rightarrow> ZMUpstreamRequest \<Rightarrow> ZMTransportResponse \<Rightarrow> NSString list \<Rightarrow> 's \<Rightarrow> bool \<times> 's) option"

text \<open>Calls of optional methods with the answer the sources assume when the method is missing.\<close>

definition dependencyOf :: "'s ZMUpstreamTranscoder \<Rightarrow> 's \<Rightarrow> ZMManagedObject \<Rightarrow> ZMManagedObject option" where
  "dependencyOf T st mo =
     (case dependentObjectNeedingUpdateBeforeProcessingObject T of None \<Rightarrow> None | Some f \<Rightarrow> f mo st)"

definition shouldCreate :: "'s ZMUpstreamTranscoder \<Rightarrow> ZMManagedObject \<Rightarrow> NSString list \<Rightarrow> 's \<Rightarrow> bool \<times> 's" where
  "shouldCreate T mo ks st = (case shouldCreateRequestToSyncObject T of None \<Rightarrow> (True, st) | Some f \<Rightarrow> f mo ks st)"

definition expired :: "'s ZMUpstreamTranscoder \<Rightarrow> ZMManagedObject \<Rightarrow> NSString list \<Rightarrow> 's \<Rightarrow> 's" where
  "expired T mo ks st = (case requestExpiredForObject T of None \<Rightarrow> st | Some f \<Rightarrow> f mo ks st)"

definition shouldRetry ::
  "'s ZMUpstreamTranscoder \<Rightarrow> ZMManagedObject \<Rightarrow> ZMUpstreamRequest \<Rightarrow> ZMTransportResponse \<Rightarrow> NSString list \<Rightarrow> 's \<Rightarrow> bool \<times> 's" where
  "shouldRetry T mo r resp ks st =
     (case shouldRetryToSyncAfterFailedToUpdateObject T of None \<Rightarrow> (False, st) | Some f \<Rightarrow> f mo r resp ks st)"

section \<open>ZMUpstreamModifiedObjectSync\<close>

record 's ZMUpstreamModifiedObjectSync =
  updatedObjects :: ZMLocallyModifiedObjectSet
  mod_trackedEntity :: NSString
  updatePredicate :: "'s \<Rightarrow> ZMManagedObject \<Rightarrow> bool"
  mod_filter :: "('s \<Rightarrow> ZMManagedObject \<Rightarrow> bool) option"
  updatedObjectsWithDependencies :: "ZMDependentObjects option"

text \<open>The designated initialiser; the entity must be known to the model.\<close>

definition initUpstreamModifiedObjectSync ::
  "'s ZMUpstreamTranscoder \<Rightarrow> (NSString \<Rightarrow> ('s \<Rightarrow> ZMManagedObject \<Rightarrow> bool) option) \<Rightarrow> NSString \<Rightarrow>
   ('s \<Rightarrow> ZMManagedObject \<Rightarrow> bool) option \<Rightarrow> ('s \<Rightarrow> ZMManagedObject \<Rightarrow> bool) option \<Rightarrow> NSString list option \<Rightarrow>
   ZMLocallyModifiedObjectSet option \<Rightarrow> objc_failure + 's ZMUpstreamModifiedObjectSync" where
  "initUpstreamModifiedObjectSync T predicateForObjectsThatNeedToBeUpdatedUpstream entityName upd flt keysToSync objectSet =
     (case predicateForObjectsThatNeedToBeUpdatedUpstream entityName of
        None \<Rightarrow> Inl AssertionFailure
      | Some p \<Rightarrow> Inr
          \<lparr>updatedObjects =
             (case objectSet of Some s \<Rightarrow> s | None \<Rightarrow> initWithTrackedKeys (map_option remdups keysToSync)),
           mod_trackedEntity = entityName,
           updatePredicate = (case upd of Some u \<Rightarrow> u | None \<Rightarrow> p),
           mod_filter = flt,
           updatedObjectsWithDependencies =
             (if dependentObjectNeedingUpdateBeforeProcessingObject T \<noteq> None then Some initDependentObjects else None)\<rparr>)"

definition upstream_hasOutstandingItems :: "'s ZMUpstreamModifiedObjectSync \<Rightarrow> bool" where
  "upstream_hasOutstandingItems u = modified_hasOutstandingItems (updatedObjects u)"

definition objectPassesTrackingFilter :: "'s \<Rightarrow> ZMManagedObject \<Rightarrow> 's ZMUpstreamModifiedObjectSync \<Rightarrow> bool" where
  "objectPassesTrackingFilter st mo u = (case mod_filter u of None \<Rightarrow> True | Some f \<Rightarrow> f st mo)"

definition objectShouldBeSynced :: "'s \<Rightarrow> ZMManagedObject \<Rightarrow> 's ZMUpstreamModifiedObjectSync \<Rightarrow> bool" where
  "objectShouldBeSynced st mo u \<longleftrightarrow> updatePredicate u st mo \<and> objectPassesTrackingFilter st mo u"

definition addUpdatedObjectWithoutDependency ::
  "'s object_store \<Rightarrow> 's \<Rightarrow> ZMManagedObject \<Rightarrow> 's ZMUpstreamModifiedObjectSync \<Rightarrow> objc_failure + 's ZMUpstreamModifiedObjectSync" where
  "addUpdatedObjectWithoutDependency S st mo u =
     map_sum id (\<lambda>s. u\<lparr>updatedObjects := s\<rparr>) (addPossibleObjectToSynchronize S st mo (updatedObjects u))"

definition addUpdatedObject ::
  "'s object_store \<Rightarrow> 's ZMUpstreamTranscoder \<Rightarrow> 's \<Rightarrow> ZMManagedObject \<Rightarrow> 's ZMUpstreamModifiedObjectSync \<Rightarrow>
   objc_failure + 's ZMUpstreamModifiedObjectSync" where
  "addUpdatedObject S T st mo u =
     (case updatedObjectsWithDependencies u of
        None \<Rightarrow> addUpdatedObjectWithoutDependency S st mo u
      | Some t \<Rightarrow>
          (case dependencyOf T st mo of
             Some dependency \<Rightarrow> Inr (u\<lparr>updatedObjectsWithDependencies := Some (addManagedObject mo dependency t)\<rparr>)
           | None \<Rightarrow> addUpdatedObjectWithoutDependency S st mo u))"

definition modified_checkForUpdatedDependency ::
  "'s object_store \<Rightarrow> 's ZMUpstreamTranscoder \<Rightarrow> 's \<Rightarrow> ZMManagedObject \<Rightarrow> 's ZMUpstreamModifiedObjectSync \<Rightarrow>
   objc_failure + 's ZMUpstreamModifiedObjectSync" where
  "modified_checkForUpdatedDependency S T st existingDependency u =
     (case updatedObjectsWithDependencies u of
        None \<Rightarrow> Inr u
      | Some t \<Rightarrow>
          (case check_dependency (dependencyOf T st)
              (\<lambda>mo r. case r of Inl e \<Rightarrow> Inl e | Inr v \<Rightarrow> addUpdatedObjectWithoutDependency S st mo v)
              existingDependency (t, Inr u) of
             (t', r) \<Rightarrow> map_sum id (\<lambda>v. v\<lparr>updatedObjectsWithDependencies := Some t'\<rparr>) r))"

definition modified_addTrackedObjects ::
  "'s object_store \<Rightarrow> 's ZMUpstreamTranscoder \<Rightarrow> 's \<Rightarrow> ZMManagedObject list \<Rightarrow> 's ZMUpstreamModifiedObjectSync \<Rightarrow>
   objc_failure + 's ZMUpstreamModifiedObjectSync" where
  "modified_addTrackedObjects S T st =
     foldE (\<lambda>mo u. if objectPassesTrackingFilter st mo u then addUpdatedObject S T st mo u else Inr u)"

definition modified_objectDidChange ::
  "'s object_store \<Rightarrow> 's ZMUpstreamTranscoder \<Rightarrow> 's \<Rightarrow> ZMManagedObject \<Rightarrow> 's ZMUpstreamModifiedObjectSync \<Rightarrow>
   objc_failure + 's ZMUpstreamModifiedObjectSync" where
  "modified_objectDidChange S T st obj u =
     (case (if entityOf S obj = mod_trackedEntity u \<and> objectShouldBeSynced st obj u
            then addUpdatedObject S T st obj u else Inr u) of
        Inl e \<Rightarrow> Inl e
      | Inr v \<Rightarrow> modified_checkForUpdatedDependency S T st obj v)"

definition modified_objectsDidChange ::
  "'s object_store \<Rightarrow> 's ZMUpstreamTranscoder \<Rightarrow> 's \<Rightarrow> ZMManagedObject list \<Rightarrow> 's ZMUpstreamModifiedObjectSync \<Rightarrow>
   objc_failure + 's ZMUpstreamModifiedObjectSync" where
  "modified_objectsDidChange S T st = foldE (modified_objectDidChange S T st)"

definition modified_nextObjectToSync ::
  "'s object_store \<Rightarrow> 's \<Rightarrow> 's ZMUpstreamModifiedObjectSync \<Rightarrow> ZMObjectWithKeys option \<times> 's ZMUpstreamModifiedObjectSync" where
  "modified_nextObjectToSync S st u =
     (case anyObjectToSynchronize S st (updatedObjects u) of (next, s) \<Rightarrow>
        let u' = u\<lparr>updatedObjects := s\<rparr>
        in case next of
             None \<Rightarrow> (None, u')
           | Some obj \<Rightarrow>
               if Option.bind (updatedObjectsWithDependencies u) (anyDependencyForObject (owk_object obj)) \<noteq> None
               then (None, u')
               else if \<not> objectShouldBeSynced st (owk_object obj) u' then (None, u')
               else (Some obj, u'))"

text \<open>A request in flight with what its completion handler has captured.\<close>

record upload =
  up_object :: ZMObjectWithKeys
  up_request :: ZMUpstreamRequest
  up_token :: ZMModifiedObjectSyncToken

definition processNextUpdate ::
  "'s object_store \<Rightarrow> 's ZMUpstreamTranscoder \<Rightarrow> 's ZMUpstreamModifiedObjectSync \<times> 's \<Rightarrow>
   objc_failure + upload option \<times> 's ZMUpstreamModifiedObjectSync \<times> 's" where
  "processNextUpdate S T us =
     (case us of (u, st) \<Rightarrow>
        case modified_nextObjectToSync S st u of
          (None, u') \<Rightarrow> Inr (None, u', st)
        | (Some obj, u') \<Rightarrow>
            (case shouldCreate T (owk_object obj) (owk_keysToSync obj) st of (create, st1) \<Rightarrow>
               if \<not> create then Inr (None, u', st1)
               else case requestForUpdatingObject T (owk_object obj) (owk_keysToSync obj) st1 of
                 (None, st2) \<Rightarrow> Inl AssertionFailure
               | (Some request, st2) \<Rightarrow>
                   (case didStartSynchronizingKeys S st2 (ur_keys request) obj (updatedObjects u') of (token, s) \<Rightarrow>
                      Inr (Some \<lparr>up_object = obj, up_request = request, up_token = token\<rparr>,
                           u'\<lparr>updatedObjects := s\<rparr>, st2))))"

definition update_completed ::
  "'s object_store \<Rightarrow> 's ZMUpstreamTranscoder \<Rightarrow> ZMTransportResponse \<Rightarrow> upload \<Rightarrow> 's ZMUpstreamModifiedObjectSync \<times> 's \<Rightarrow>
   objc_failure + 's ZMUpstreamModifiedObjectSync \<times> 's" where
  "update_completed S T response up us =
     (case us of (u0, st) \<Rightarrow>
        let mo = owk_object (up_object up); request = up_request up; token = up_token up
        in case keysToParseAfterSyncingToken S st token (updatedObjects u0) of (keysToParse, s0) \<Rightarrow>
          let u = u0\<lparr>updatedObjects := s0\<rparr>;
              failed = (\<lambda>st'. case didFailToSynchronizeToken S token (updatedObjects u, st') of (s, st'') \<Rightarrow>
                                (u\<lparr>updatedObjects := s\<rparr>, st''))
          in case resp_result response of
               ZMTransportResponseStatusSuccess \<Rightarrow>
                 (case updateUpdatedObject T mo (ur_userInfo request) response keysToParse st of (needsMore, st1) \<Rightarrow>
                    if keysToParse \<noteq> [] \<and> needsMore
                    then Inr (u\<lparr>updatedObjects := didNotFinishToSynchronizeToken S st1 token (updatedObjects u)\<rparr>, st1)
                    else (case didSynchronizeToken S token (updatedObjects u, st1) of (s, st2) \<Rightarrow>
                            Inr (u\<lparr>updatedObjects := s\<rparr>, st2)))
             | ZMTransportResponseStatusTemporaryError \<Rightarrow>
                 Inr (u\<lparr>updatedObjects := didNotFinishToSynchronizeToken S st token (updatedObjects u)\<rparr>, st)
             | ZMTransportResponseStatusTryAgainLater \<Rightarrow>
                 Inr (u\<lparr>updatedObjects := didNotFinishToSynchronizeToken S st token (updatedObjects u)\<rparr>, st)
             | ZMTransportResponseStatusExpired \<Rightarrow>
                 (case failed st of (u', st') \<Rightarrow> Inr (u', expired T mo (owk_keysToSync (up_object up)) st'))
             | ZMTransportResponseStatusPermanentError \<Rightarrow>
                 (case shouldRetry T mo request response keysToParse st of (retry, st1) \<Rightarrow>
                    case failed st1 of (u', st2) \<Rightarrow>
                      if retry
                      then (let st3 = setLocallyModifiedKeys S mo (ur_keys request) st2
                            in map_sum id (\<lambda>v. (v, st3)) (addUpdatedObject S T st3 mo u'))
                      else (case objectToRefetchForFailedUpdateOfObject T mo st2 of
                              (None, st3) \<Rightarrow> Inr (u', st3)
                            | (Some refetch, st3) \<Rightarrow>
                                Inr (u', setNeedsToBeUpdatedFromBackend S refetch True st3))))"

section \<open>Messages\<close>

datatype 's ZMUpstreamModifiedObjectSync_msg =
    ModifiedNextRequest
  | ModifiedObjectsDidChange "ZMManagedObject list"
  | ModifiedAddTrackedObjects "ZMManagedObject list"
  | ModifiedResponse upload ZMTransportResponse
  | ModifiedStoreChanged "'s \<Rightarrow> 's"

primrec modified_send ::
  "'s object_store \<Rightarrow> 's ZMUpstreamTranscoder \<Rightarrow> 's ZMUpstreamModifiedObjectSync_msg \<Rightarrow>
   's ZMUpstreamModifiedObjectSync \<times> 's \<Rightarrow> objc_failure + 's ZMUpstreamModifiedObjectSync \<times> 's" where
  "modified_send S T ModifiedNextRequest us = map_sum id snd (processNextUpdate S T us)"
| "modified_send S T (ModifiedObjectsDidChange mos) us =
     map_sum id (\<lambda>u. (u, snd us)) (modified_objectsDidChange S T (snd us) mos (fst us))"
| "modified_send S T (ModifiedAddTrackedObjects mos) us =
     map_sum id (\<lambda>u. (u, snd us)) (modified_addTrackedObjects S T (snd us) mos (fst us))"
| "modified_send S T (ModifiedResponse up response) us = update_completed S T response up us"
| "modified_send S T (ModifiedStoreChanged f) us = Inr (fst us, f (snd us))"

definition modified_step ::
  "'s object_store \<Rightarrow> 's ZMUpstreamTranscoder \<Rightarrow> 's ZMUpstreamModifiedObjectSync_msg \<Rightarrow>
   objc_failure + 's ZMUpstreamModifiedObjectSync \<times> 's \<Rightarrow> objc_failure + 's ZMUpstreamModifiedObjectSync \<times> 's" where
  "modified_step S T m r = (case r of Inl e \<Rightarrow> Inl e | Inr us \<Rightarrow> modified_send S T m us)"

definition upstream_inv :: "'s ZMUpstreamModifiedObjectSync \<Rightarrow> bool" where
  "upstream_inv u \<longleftrightarrow> modset_inv (updatedObjects u) \<and> (\<forall>t. updatedObjectsWithDependencies u = Some t \<longrightarrow> dependents_inv t)"

lemma upstream_inv_without:
  "upstream_inv u \<Longrightarrow> addUpdatedObjectWithoutDependency S st mo u = Inr u' \<Longrightarrow> upstream_inv u'"
  by (auto simp: upstream_inv_def addUpdatedObjectWithoutDependency_def map_sum_def dest: modset_inv_add split: sum.splits)

lemma upstream_inv_add: "upstream_inv u \<Longrightarrow> addUpdatedObject S T st mo u = Inr u' \<Longrightarrow> upstream_inv u'"
  by (auto simp: addUpdatedObject_def intro: upstream_inv_without split: option.splits)
    (auto simp: upstream_inv_def inv_add)

lemma upstream_inv_check:
  assumes "upstream_inv u" and "modified_checkForUpdatedDependency S T st e u = Inr u'"
  shows "upstream_inv u'"
proof (cases "updatedObjectsWithDependencies u")
  case None
  with assms show ?thesis
    by (simp add: modified_checkForUpdatedDependency_def)
next
  case (Some t)
  let ?ready = "\<lambda>mo r. case r of Inl e \<Rightarrow> Inl e | Inr v \<Rightarrow> addUpdatedObjectWithoutDependency S st mo v"
  have "case snd (check_dependency (dependencyOf T st) ?ready e (t, Inr u)) of Inl f \<Rightarrow> True | Inr v \<Rightarrow> upstream_inv v"
    by (rule check_dependency_invariant) (auto dest: upstream_inv_without simp: assms(1) split: sum.splits)
  moreover have "dependents_inv (fst (check_dependency (dependencyOf T st) ?ready e (t, Inr u)))"
    using assms(1) Some by (intro inv_check) (simp add: upstream_inv_def)
  ultimately show ?thesis
    using assms(2) Some
    by (auto simp: modified_checkForUpdatedDependency_def upstream_inv_def map_sum_def case_prod_beta split: sum.splits)
qed

lemma upstream_inv_objects: "upstream_inv u \<Longrightarrow> modset_inv s \<Longrightarrow> upstream_inv (u\<lparr>updatedObjects := s\<rparr>)"
  by (simp add: upstream_inv_def)

lemma upstream_inv_set: "upstream_inv u \<Longrightarrow> modset_inv (updatedObjects u)"
  by (simp add: upstream_inv_def)

lemma upstream_inv_change: "upstream_inv u \<Longrightarrow> modified_objectDidChange S T st mo u = Inr u' \<Longrightarrow> upstream_inv u'"
  by (auto simp: modified_objectDidChange_def split: if_splits sum.splits intro: upstream_inv_check upstream_inv_add)

lemma upstream_inv_changes: "upstream_inv u \<Longrightarrow> modified_objectsDidChange S T st mos u = Inr u' \<Longrightarrow> upstream_inv u'"
  unfolding modified_objectsDidChange_def using upstream_inv_change by (rule foldE_invariant)

lemma upstream_inv_tracked: "upstream_inv u \<Longrightarrow> modified_addTrackedObjects S T st mos u = Inr u' \<Longrightarrow> upstream_inv u'"
  unfolding modified_addTrackedObjects_def
  by (rule foldE_invariant [where P = upstream_inv and s = u]) (auto split: if_splits intro: upstream_inv_add)

lemma upstream_inv_nextObject: "upstream_inv u \<Longrightarrow> modified_nextObjectToSync S st u = (r, u') \<Longrightarrow> upstream_inv u'"
  using modset_inv_any [of "updatedObjects u"]
  by (auto simp: modified_nextObjectToSync_def anyObjectToSynchronize_def Let_def upstream_inv_def case_prod_beta
      split: option.splits if_splits)

lemma upstream_inv_next:
  assumes "upstream_inv u" and "processNextUpdate S T (u, st) = Inr (r, u', st')"
  shows "upstream_inv u'"
proof -
  obtain obj v where v: "modified_nextObjectToSync S st u = (obj, v)"
    by fastforce
  note inv = upstream_inv_nextObject [OF assms(1) v]
  with assms(2) v show ?thesis
    by (auto simp: processNextUpdate_def case_prod_beta split: option.splits if_splits prod.splits
        intro!: upstream_inv_objects modset_inv_start upstream_inv_set)
qed

lemma modset_inv_synchronize_pair: "modset_inv s \<Longrightarrow> didSynchronizeToken S tok (s, st) = (s', st') \<Longrightarrow> modset_inv s'"
  using modset_inv_synchronize [of s S tok st] by simp

lemma upstream_inv_completed:
  assumes "upstream_inv u" and "update_completed S T response up (u, st) = Inr (u', st')"
  shows "upstream_inv u'"
proof -
  obtain ks s where k: "keysToParseAfterSyncingToken S st (up_token up) (updatedObjects u) = (ks, s)"
    by fastforce
  have s: "modset_inv s"
    using modset_inv_finish [OF upstream_inv_set [OF assms(1)], of S st "up_token up"] k
    by (simp flip: snd_keysToParse)
  note inv = upstream_inv_objects [OF assms(1)]
  show ?thesis
    using assms(2) s
    by (cases "resp_result response")
      (auto simp: update_completed_def k Let_def didFail_eq_didSynchronize map_sum_def didNotFinishToSynchronizeToken_def
        intro!: inv modset_inv_finish dest: modset_inv_synchronize_pair dest!: upstream_inv_add [rotated]
        split: prod.splits if_splits option.splits sum.splits)
qed

definition upstream_ok :: "objc_failure + 's ZMUpstreamModifiedObjectSync \<times> 's \<Rightarrow> bool" where
  "upstream_ok r = (case r of Inl e \<Rightarrow> True | Inr us \<Rightarrow> upstream_inv (fst us))"

lemma upstream_ok_step: "upstream_ok r \<Longrightarrow> upstream_ok (modified_step S T m r)"
  by (cases r; cases m)
    (auto simp: upstream_ok_def modified_step_def map_sum_def
      dest: upstream_inv_next upstream_inv_changes upstream_inv_tracked upstream_inv_completed split: sum.splits)

interpretation modified_sync: component "modified_step S T" upstream_ok for S T
  by unfold_locales (rule upstream_ok_step)

section \<open>Properties\<close>

lemma offered_modified:
  assumes "modset_inv s"
  shows "offered S st mo s \<subseteq> set (keysThatHaveLocalModifications S st mo)"
proof (cases "map_of (objectIDsToStatus s) mo")
  case (Some a)
  with assms obtain x where "status_heap s a = Some x" "status_object x = mo"
    unfolding modset_inv_def by blast
  with Some show ?thesis
    by (auto simp: offered_Some keysToSynchronize_def)
qed (simp add: offered_def)

lemma new_value_not_parsed:
  assumes "token_status tok s = Some (a, x, t)" and "(k, old) \<in> set (previousValues t)"
    and "valueOrNSNull (valueForKey S st (token_object t) k) \<noteq> old"
  shows "k \<notin> set (fst (keysToParseAfterSyncingToken S st tok s))"
  using assms by (force simp: keysToParseAfterSyncingToken_def finish_token_def
      returnChangedKeysAndFinishTokenSync_def keysThatHaveNewValues_def)

lemma finish_token_status:
  "token_status tok s = Some (a, x, t) \<Longrightarrow> token_status tok (snd (finish_token S st tok s)) =
     Some (a, x\<lparr>keysWithSyncInProgress := oset_minus (keysWithSyncInProgress x) (token_keys t)\<rparr>, t)"
  by (auto simp: finish_token_def token_status_def returnChangedKeysAndFinishTokenSync_def split: option.splits)

lemma synchronized_keys_are_reset:
  "resets_keys S \<Longrightarrow> token_status tok s = Some (a, x, t) \<Longrightarrow> k \<in> set (token_keys t) \<Longrightarrow>
   k \<notin> set (keysThatHaveLocalModifications S (snd (didSynchronizeToken S tok (s, st))) (status_object x))"
  by (simp add: didSynchronizeToken_def resetLocallyModifiedKeysForToken_def resets_keys_def)

text \<open>C22: A change made while its key is being uploaded is lost. When the upload succeeds without need for more
  requests, the key is not among those the transcoder is to parse, because its value has changed, yet its local
  modification is reset with the others, so the new value is not offered for upload.\<close>

theorem change_during_upload_is_lost:
  assumes "resets_keys S" and "modset_inv (updatedObjects u)"
    and "token_status (up_token up) (updatedObjects u) = Some (a, x, t)" and "token_object t = status_object x"
    and "(k, old) \<in> set (previousValues t)" and "valueOrNSNull (valueForKey S st (status_object x) k) \<noteq> old"
    and "resp_result response = ZMTransportResponseStatusSuccess"
    and "\<And>ks. \<not> fst (updateUpdatedObject T (owk_object (up_object up)) (ur_userInfo (up_request up)) response ks st)"
    and "update_completed S T response up (u, st) = Inr (u', st')"
  shows "k \<notin> set (fst (keysToParseAfterSyncingToken S st (up_token up) (updatedObjects u))) \<and>
    k \<notin> set (keysThatHaveLocalModifications S st' (status_object x)) \<and>
    k \<notin> offered S st' (status_object x) (updatedObjects u')"
proof -
  define s where "s = snd (finish_token S st (up_token up) (updatedObjects u))"
  define ks where "ks = fst (keysToParseAfterSyncingToken S st (up_token up) (updatedObjects u))"
  define st1 where "st1 = snd (updateUpdatedObject T (owk_object (up_object up)) (ur_userInfo (up_request up)) response ks st)"
  have parse: "keysToParseAfterSyncingToken S st (up_token up) (updatedObjects u) = (ks, s)"
    by (simp add: ks_def s_def flip: snd_keysToParse)
  have upd: "updateUpdatedObject T (owk_object (up_object up)) (ur_userInfo (up_request up)) response ks st = (False, st1)"
    using assms(8) [of ks] by (simp add: st1_def prod_eq_iff)
  have result: "updatedObjects u' = fst (didSynchronizeToken S (up_token up) (s, st1))"
    "st' = snd (didSynchronizeToken S (up_token up) (s, st1))"
    using assms(9) by (auto simp: update_completed_def parse upd assms(7) split: prod.splits)
  have "modset_inv (updatedObjects u')"
    unfolding result s_def by (intro modset_inv_synchronize modset_inv_finish assms(2))
  moreover have "k \<notin> set (keysThatHaveLocalModifications S st' (status_object x))"
    using synchronized_keys_are_reset [OF assms(1) finish_token_status [OF assms(3)], of k S st st1] assms(5)
    by (force simp: result(2) s_def token_keys_def)
  ultimately show ?thesis
    using offered_modified [of "updatedObjects u'" S st' "status_object x"]
      new_value_not_parsed [OF assms(3,5), of S st] assms(4,6) by auto
qed

text \<open>One object that must not be uploaded now blocks the whole sync. If the first object with keys to
  synchronize waits for a dependency or no longer matches the predicate or the filter, no request is made and nothing
  changes, whatever other objects are ready; so every later poll ends the same way.\<close>

lemma unsyncable_object_blocks_all:
  assumes "objectIDsToStatus (updatedObjects u) = (mo, a) # others" and "status_heap (updatedObjects u) a = Some x"
    and "status_object x = mo" and "keysToSynchronize S st x \<noteq> []"
    and "Option.bind (updatedObjectsWithDependencies u) (anyDependencyForObject mo) \<noteq> None \<or> \<not> objectShouldBeSynced st mo u"
  shows "processNextUpdate S T (u, st) = Inr (None, u, st)"
proof -
  have "anyObjectToSynchronize S st (updatedObjects u) =
      (Some \<lparr>owk_object = mo, owk_keysToSync = keysToSynchronize S st x\<rparr>, updatedObjects u)"
    using assms(1-4) by (simp add: anyObjectToSynchronize_def)
  with assms(5) have "modified_nextObjectToSync S st u = (None, u)"
    by (auto simp: modified_nextObjectToSync_def)
  then show ?thesis
    by (simp add: processNextUpdate_def)
qed

section \<open>A sample\<close>

definition name_request :: ZMUpstreamRequest where
  "name_request = initUpstreamRequest (Some [''name'']) \<lparr>req_method = MethodPUT, req_path = ''/self'', req_payload = None\<rparr> None"

definition name_transcoder :: "(json \<times> NSString list) ZMUpstreamTranscoder" where
  "name_transcoder = \<lparr>shouldProcessUpdatesBeforeInserts = (\<lambda>st. False),
     requestForUpdatingObject = (\<lambda>mo ks st. (Some name_request, st)),
     requestForInsertingObject = (\<lambda>mo ks st. (Some name_request, st)),
     updateInsertedObject = (\<lambda>mo r resp st. st), updateUpdatedObject = (\<lambda>mo i resp ks st. (False, st)),
     objectToRefetchForFailedUpdateOfObject = (\<lambda>mo st. (None, st)),
     dependentObjectNeedingUpdateBeforeProcessingObject = None, requestExpiredForObject = None,
     shouldCreateRequestToSyncObject = None, shouldRetryToSyncAfterFailedToUpdateObject = None\<rparr>"

definition name_sync :: "((json \<times> NSString list) \<Rightarrow> ZMManagedObject \<Rightarrow> bool) \<Rightarrow> (json \<times> NSString list) ZMUpstreamModifiedObjectSync" where
  "name_sync p = \<lparr>updatedObjects = name_set, mod_trackedEntity = ''User'', updatePredicate = p, mod_filter = None,
     updatedObjectsWithDependencies = None\<rparr>"

definition success_response :: ZMTransportResponse where
  "success_response = \<lparr>resp_result = ZMTransportResponseStatusSuccess, resp_HTTPStatus = 200, resp_payload = None,
     resp_payloadLabel = None\<rparr>"

text \<open>The upload of the old name has started when the name changes.\<close>

definition name_started :: "ZMModifiedObjectSyncToken \<times> ZMLocallyModifiedObjectSet" where
  "name_started = didStartSynchronizingKeys name_store (JStr ''old'', [''name'']) [''name''] name_object name_set"

definition name_upload :: upload where
  "name_upload = \<lparr>up_object = name_object, up_request = name_request, up_token = fst name_started\<rparr>"

definition name_uploading :: "(json \<times> NSString list) ZMUpstreamModifiedObjectSync" where
  "name_uploading = (name_sync (\<lambda>st mo. True))\<lparr>updatedObjects := snd name_started\<rparr>"

lemmas name_defs = name_started_def name_upload_def name_uploading_def name_sync_def name_object_def name_set_def
  name_status_def didStartSynchronizingKeys_def startSynchronizingKeys_def

theorem change_during_upload_is_lost_witness:
  "\<exists>u' st'. update_completed name_store name_transcoder success_response name_upload
       (name_uploading, (JStr ''new'', [''name''])) = Inr (u', st') \<and>
     ''name'' \<notin> offered name_store st' 7 (updatedObjects u')"
proof -
  have t: "token_status (up_token name_upload) (updatedObjects name_uploading) =
      Some (0, name_status\<lparr>keysWithSyncInProgress := [''name'']\<rparr>,
        \<lparr>previousValues = [(''name'', JStr ''old'')], token_object = 7\<rparr>)"
    by (simp add: name_defs token_status_def name_store_def valueOrNSNull_def oset_add_def)
  have i: "modset_inv (updatedObjects name_uploading)"
    using modset_inv_start [OF name_set_inv] by (simp add: name_uploading_def name_started_def)
  obtain u' st' where r: "update_completed name_store name_transcoder success_response name_upload
       (name_uploading, (JStr ''new'', [''name''])) = Inr (u', st')"
    by (simp add: update_completed_def success_response_def name_transcoder_def Let_def case_prod_beta)
  from change_during_upload_is_lost [OF name_store_resets i t _ _ _ _ _ r, of "''name''" "JStr ''old''"] r show ?thesis
    by (simp add: name_status_def name_store_def valueOrNSNull_def success_response_def name_transcoder_def)
qed

lemma unsyncable_object_blocks_all_example:
  "processNextUpdate name_store name_transcoder (name_sync (\<lambda>st mo. False), (JStr ''new'', [''name''])) =
     Inr (None, name_sync (\<lambda>st mo. False), (JStr ''new'', [''name'']))"
  by (rule unsyncable_object_blocks_all [where mo = 7 and a = 0 and others = "[]" and x = name_status])
    (auto simp: name_sync_def name_set_def name_status_def keysToSynchronize_def name_store_def objectShouldBeSynced_def)

end
