(* ===== verification/UpstreamInserted.thy ===== *)
theory UpstreamInserted
  imports Upstream
begin

text \<open>
  \<^verbatim>\<open>ZMUpstreamInsertedObjectSync\<close>: the upload of new objects, with the requests in flight, so that runs of the
  sync can be stated. A response answers one of the requests in flight.
\<close>

section \<open>ZMUpstreamInsertedObjectSync\<close>

record 's ZMUpstreamInsertedObjectSync =
  ins_insertedObjects :: ZMLocallyInsertedObjectSet
  ins_trackedEntity :: NSString
  insertPredicate :: "'s \<Rightarrow> ZMManagedObject \<Rightarrow> bool"
  insertedObjectsWithDependencies :: "ZMDependentObjects option"
  ignoredObjects :: "ZMManagedObject list"
  ins_filter :: "('s \<Rightarrow> ZMManagedObject \<Rightarrow> bool) option"

definition initUpstreamInsertedObjectSync ::
  "'s ZMUpstreamTranscoder \<Rightarrow> (NSString \<Rightarrow> ('s \<Rightarrow> ZMManagedObject \<Rightarrow> bool) option) \<Rightarrow> NSString \<Rightarrow>
   ('s \<Rightarrow> ZMManagedObject \<Rightarrow> bool) option \<Rightarrow> objc_failure + 's ZMUpstreamInsertedObjectSync" where
  "initUpstreamInsertedObjectSync T predicateForObjectsThatNeedToBeInsertedUpstream entityName flt =
     (case predicateForObjectsThatNeedToBeInsertedUpstream entityName of
        None \<Rightarrow> Inl AssertionFailure
      | Some p \<Rightarrow> Inr
          \<lparr>ins_insertedObjects = initLocallyInsertedObjectSet, ins_trackedEntity = entityName, insertPredicate = p,
           insertedObjectsWithDependencies =
             (if dependentObjectNeedingUpdateBeforeProcessingObject T \<noteq> None then Some initDependentObjects else None),
           ignoredObjects = [], ins_filter = flt\<rparr>)"

definition hasCurrentlyRunningRequests :: "'s ZMUpstreamInsertedObjectSync \<Rightarrow> bool" where
  "hasCurrentlyRunningRequests i \<longleftrightarrow> inserted_count (ins_insertedObjects i) > 0"

definition shouldAddInsertedObject :: "'s \<Rightarrow> ZMManagedObject \<Rightarrow> 's ZMUpstreamInsertedObjectSync \<Rightarrow> bool" where
  "shouldAddInsertedObject st mo i = (case ins_filter i of None \<Rightarrow> True | Some f \<Rightarrow> f st mo)"

definition ins_add :: "ZMManagedObject \<Rightarrow> 's ZMUpstreamInsertedObjectSync \<Rightarrow> 's ZMUpstreamInsertedObjectSync" where
  "ins_add mo i = i\<lparr>ins_insertedObjects := addObjectToSynchronize mo (ins_insertedObjects i)\<rparr>"

text \<open>The first component tells whether the object has no dependency.\<close>

definition addInsertedObject ::
  "'s ZMUpstreamTranscoder \<Rightarrow> 's \<Rightarrow> ZMManagedObject \<Rightarrow> 's ZMUpstreamInsertedObjectSync \<Rightarrow>
   bool \<times> 's ZMUpstreamInsertedObjectSync" where
  "addInsertedObject T st mo i =
     (case insertedObjectsWithDependencies i of
        None \<Rightarrow> (True, ins_add mo i)
      | Some t \<Rightarrow>
          (case dependencyOf T st mo of
             Some dependency \<Rightarrow> (False, i\<lparr>insertedObjectsWithDependencies := Some (addManagedObject mo dependency t)\<rparr>)
           | None \<Rightarrow> (True, ins_add mo i)))"

definition inserted_checkForUpdatedDependency ::
  "'s ZMUpstreamTranscoder \<Rightarrow> 's \<Rightarrow> ZMManagedObject \<Rightarrow> 's ZMUpstreamInsertedObjectSync \<Rightarrow> 's ZMUpstreamInsertedObjectSync" where
  "inserted_checkForUpdatedDependency T st existingDependency i =
     (case insertedObjectsWithDependencies i of
        None \<Rightarrow> i
      | Some t \<Rightarrow>
          (case check_dependency (dependencyOf T st) ins_add existingDependency (t, i) of
             (t', i') \<Rightarrow> i'\<lparr>insertedObjectsWithDependencies := Some t'\<rparr>))"

definition inserted_addTrackedObjects ::
  "'s ZMUpstreamTranscoder \<Rightarrow> 's \<Rightarrow> ZMManagedObject list \<Rightarrow> 's ZMUpstreamInsertedObjectSync \<Rightarrow> 's ZMUpstreamInsertedObjectSync" where
  "inserted_addTrackedObjects T st =
     fold (\<lambda>mo i. if shouldAddInsertedObject st mo i then snd (addInsertedObject T st mo i) else i)"

definition inserted_objectDidChange ::
  "'s object_store \<Rightarrow> 's ZMUpstreamTranscoder \<Rightarrow> 's \<Rightarrow> ZMManagedObject \<Rightarrow> 's ZMUpstreamInsertedObjectSync \<Rightarrow>
   's ZMUpstreamInsertedObjectSync" where
  "inserted_objectDidChange S T st obj i =
     inserted_checkForUpdatedDependency T st obj
       (if entityOf S obj \<noteq> ins_trackedEntity i then i
        else if insertPredicate i st obj \<and> shouldAddInsertedObject st obj i
        then (let i' = snd (addInsertedObject T st obj i) in i'\<lparr>ignoredObjects := oset_remove obj (ignoredObjects i')\<rparr>)
        else (let i' = i\<lparr>ins_insertedObjects := removeObjectToSynchronize obj (ins_insertedObjects i)\<rparr>
              in if isSynchronizingObject obj (ins_insertedObjects i')
                 then i'\<lparr>ignoredObjects := oset_add (ignoredObjects i') obj\<rparr> else i'))"

definition inserted_objectsDidChange ::
  "'s object_store \<Rightarrow> 's ZMUpstreamTranscoder \<Rightarrow> 's \<Rightarrow> ZMManagedObject list \<Rightarrow> 's ZMUpstreamInsertedObjectSync \<Rightarrow>
   's ZMUpstreamInsertedObjectSync" where
  "inserted_objectsDidChange S T st = fold (inserted_objectDidChange S T st)"

text \<open>The loop ends: each round takes an object out of the set.\<close>

lemma inserted_any_mem:
  "inserted_anyObjectToSynchronize pick s = Some mo \<Longrightarrow>
   mo \<in> set (insertedObjects s) \<and> mo \<notin> set (currentlySynchronizedObjects s)"
  by (auto simp: inserted_anyObjectToSynchronize_def dest!: anyObject_mem)

lemma length_oset_remove: "x \<in> set xs \<Longrightarrow> length (oset_remove x xs) < length xs"
  by (auto simp: oset_remove_def intro: length_filter_less)

function inserted_nextObjectToSync ::
  "('s \<Rightarrow> ZMManagedObject \<Rightarrow> bool) \<Rightarrow> (ZMManagedObject list \<Rightarrow> nat) \<Rightarrow> 's \<Rightarrow> ZMLocallyInsertedObjectSet \<Rightarrow>
   ZMManagedObject option \<times> ZMLocallyInsertedObjectSet" where
  "inserted_nextObjectToSync matches pick st s =
     (case inserted_anyObjectToSynchronize pick s of
        None \<Rightarrow> (None, s)
      | Some nextObject \<Rightarrow>
          if matches st nextObject then (Some nextObject, s)
          else inserted_nextObjectToSync matches pick st (didFinishSynchronizingObject nextObject s))"
  by auto
termination
  by (relation "measure (\<lambda>(_, _, _, s). length (insertedObjects s))")
    (auto simp: didFinishSynchronizingObject_def removeObjectToSynchronize_def length_oset_remove dest!: inserted_any_mem)

declare inserted_nextObjectToSync.simps [simp del]

text \<open>A request in flight and the object its completion handler has captured.\<close>

record insertion =
  in_object :: ZMManagedObject
  in_request :: ZMUpstreamRequest

definition processNextInsert ::
  "'s object_store \<Rightarrow> 's ZMUpstreamTranscoder \<Rightarrow> (ZMManagedObject list \<Rightarrow> nat) \<Rightarrow> 's ZMUpstreamInsertedObjectSync \<times> 's \<Rightarrow>
   objc_failure + insertion option \<times> 's ZMUpstreamInsertedObjectSync \<times> 's" where
  "processNextInsert S T pick ist =
     (case ist of (i, st) \<Rightarrow>
        case inserted_nextObjectToSync (\<lambda>st mo. insertPredicate i st mo \<and> \<not> isZombieObject S st mo) pick st
            (ins_insertedObjects i) of
          (None, s) \<Rightarrow> Inr (None, i\<lparr>ins_insertedObjects := s\<rparr>, st)
        | (Some nextObject, s) \<Rightarrow>
            (case shouldCreate T nextObject [] st of (create, st1) \<Rightarrow>
               if \<not> create then Inr (None, i\<lparr>ins_insertedObjects := s\<rparr>, st1)
               else case requestForInsertingObject T nextObject None st1 of
                 (None, st2) \<Rightarrow>
                   Inr (None, i\<lparr>ins_insertedObjects := didFinishSynchronizingObject nextObject s\<rparr>,
                        resetLocallyModifiedKeys S nextObject (keysThatHaveLocalModifications S st2 nextObject) st2)
               | (Some request, st2) \<Rightarrow>
                   map_sum id (\<lambda>s'. (Some \<lparr>in_object = nextObject, in_request = request\<rparr>,
                                     i\<lparr>ins_insertedObjects := s'\<rparr>, st2))
                     (didStartSynchronizingObject nextObject s)))"

text \<open>The branches of the completion handler: whether the object is finished, and the new states.\<close>

definition insert_outcome ::
  "'s object_store \<Rightarrow> 's ZMUpstreamTranscoder \<Rightarrow> ZMTransportResponse \<Rightarrow> insertion \<Rightarrow>
   's ZMUpstreamInsertedObjectSync \<times> 's \<Rightarrow> bool \<times> 's ZMUpstreamInsertedObjectSync \<times> 's" where
  "insert_outcome S T response ins ist =
     (case ist of (i, st) \<Rightarrow>
        let mo = in_object ins; request = in_request ins
        in if mo \<in> set (ignoredObjects i) then (True, i\<lparr>ignoredObjects := oset_remove mo (ignoredObjects i)\<rparr>, st)
           else case resp_result response of
             ZMTransportResponseStatusSuccess \<Rightarrow>
               (True, i, updateInsertedObject T mo (request\<lparr>ur_transportResponse := Some response\<rparr>) response st)
           | ZMTransportResponseStatusPermanentError \<Rightarrow>
               (case shouldRetry T mo request response [] st of (retry, st1) \<Rightarrow>
                  if retry then (case addInsertedObject T st1 mo i of (added, i') \<Rightarrow> (\<not> added, i', st1))
                  else (True, i, deleteObject S mo st1))
           | ZMTransportResponseStatusTryAgainLater \<Rightarrow> (False, i, st)
           | ZMTransportResponseStatusExpired \<Rightarrow> (True, i, expired T mo (ur_keys request) st)
           | ZMTransportResponseStatusTemporaryError \<Rightarrow> (True, i, st))"

definition insert_completed ::
  "'s object_store \<Rightarrow> 's ZMUpstreamTranscoder \<Rightarrow> ZMTransportResponse \<Rightarrow> insertion \<Rightarrow>
   's ZMUpstreamInsertedObjectSync \<times> 's \<Rightarrow> objc_failure + 's ZMUpstreamInsertedObjectSync \<times> 's" where
  "insert_completed S T response ins ist =
     (case insert_outcome S T response ins ist of (didFinish, i, st) \<Rightarrow>
        map_sum id (\<lambda>s. (i\<lparr>ins_insertedObjects := s\<rparr>, enqueueDelayedSave S st))
          (if didFinish then Inr (didFinishSynchronizingObject (in_object ins) (ins_insertedObjects i))
           else didFailSynchronizingObject (in_object ins) (ins_insertedObjects i)))"

section \<open>Runs of the sync\<close>

text \<open>
  \<open>InsertResponse n\<close> answers the \<open>n\<close>-th request in flight, if there is one. Between the messages the data model
  may change in any way (\<open>StoreChanged\<close>).
\<close>

datatype 's ZMUpstreamInsertedObjectSync_msg =
    InsertNextRequest "ZMManagedObject list \<Rightarrow> nat"
  | InsertObjectsDidChange "ZMManagedObject list"
  | InsertAddTrackedObjects "ZMManagedObject list"
  | InsertResponse nat ZMTransportResponse
  | StoreChanged "'s \<Rightarrow> 's"

type_synonym 's insert_world = "objc_failure + ('s ZMUpstreamInsertedObjectSync \<times> 's) \<times> insertion list"

primrec insert_send ::
  "'s object_store \<Rightarrow> 's ZMUpstreamTranscoder \<Rightarrow> 's ZMUpstreamInsertedObjectSync_msg \<Rightarrow>
   ('s ZMUpstreamInsertedObjectSync \<times> 's) \<times> insertion list \<Rightarrow> 's insert_world" where
  "insert_send S T (InsertNextRequest pick) w =
     map_sum id (\<lambda>(r, ist). (ist, snd w @ (case r of None \<Rightarrow> [] | Some ins \<Rightarrow> [ins]))) (processNextInsert S T pick (fst w))"
| "insert_send S T (InsertObjectsDidChange os) w =
     (case fst w of (i, st) \<Rightarrow> Inr ((inserted_objectsDidChange S T st os i, st), snd w))"
| "insert_send S T (InsertAddTrackedObjects os) w =
     (case fst w of (i, st) \<Rightarrow> Inr ((inserted_addTrackedObjects T st os i, st), snd w))"
| "insert_send S T (InsertResponse n response) w =
     (if n < length (snd w)
      then map_sum id (\<lambda>ist. (ist, remove_nth n (snd w))) (insert_completed S T response (snd w ! n) (fst w))
      else Inr w)"
| "insert_send S T (StoreChanged f) w = (case fst w of (i, st) \<Rightarrow> Inr ((i, f st), snd w))"

definition insert_step ::
  "'s object_store \<Rightarrow> 's ZMUpstreamTranscoder \<Rightarrow> 's ZMUpstreamInsertedObjectSync_msg \<Rightarrow> 's insert_world \<Rightarrow> 's insert_world" where
  "insert_step S T m r = (case r of Inl e \<Rightarrow> Inl e | Inr w \<Rightarrow> insert_send S T m w)"

section \<open>The invariant of the requests in flight\<close>

abbreviation syncing :: "'s ZMUpstreamInsertedObjectSync \<Rightarrow> ZMManagedObject list" where
  "syncing i \<equiv> currentlySynchronizedObjects (ins_insertedObjects i)"

definition insert_inv :: "'s insert_world \<Rightarrow> bool" where
  "insert_inv r =
     (case r of Inl e \<Rightarrow> False
      | Inr ((i, st), fl) \<Rightarrow> distinct (map in_object fl) \<and> set (map in_object fl) = set (syncing i))"

lemma syncing_add [simp]: "syncing (ins_add mo i) = syncing i"
  by (simp add: ins_add_def addObjectToSynchronize_def)

lemma syncing_addInserted [simp]: "syncing (snd (addInsertedObject T st mo i)) = syncing i"
  by (auto simp: addInsertedObject_def split: option.splits)

lemma syncing_addInserted_pair: "addInsertedObject T st mo i = (added, i') \<Longrightarrow> syncing i' = syncing i"
  using syncing_addInserted [of T st mo i] by simp

lemma syncing_check [simp]: "syncing (inserted_checkForUpdatedDependency T st e i) = syncing i"
proof -
  have "syncing (snd (check_dependency (dependencyOf T st) ins_add e (t, i))) = syncing i" for t
    by (rule check_dependency_invariant [where P = "\<lambda>j. syncing j = syncing i"]) simp_all
  then show ?thesis
    by (simp add: inserted_checkForUpdatedDependency_def case_prod_beta split: option.splits)
qed

lemma syncing_objectDidChange [simp]: "syncing (inserted_objectDidChange S T st mo i) = syncing i"
  by (simp add: inserted_objectDidChange_def Let_def removeObjectToSynchronize_def)

lemma syncing_objectsDidChange [simp]: "syncing (inserted_objectsDidChange S T st mos i) = syncing i"
  unfolding inserted_objectsDidChange_def by (rule fold_invariant) simp_all

lemma syncing_addTracked [simp]: "syncing (inserted_addTrackedObjects T st mos i) = syncing i"
  unfolding inserted_addTrackedObjects_def by (rule fold_invariant) simp_all

lemma inserted_any_None:
  "inserted_anyObjectToSynchronize pick s = None \<longleftrightarrow> set (insertedObjects s) \<subseteq> set (currentlySynchronizedObjects s)"
  by (auto simp: inserted_anyObjectToSynchronize_def oset_minus_def filter_empty_conv)

lemma inserted_nextObjectToSync_result:
  "inserted_nextObjectToSync matches pick st s = (r, s') \<Longrightarrow>
   currentlySynchronizedObjects s' = currentlySynchronizedObjects s \<and>
   set (insertedObjects s') \<subseteq> set (insertedObjects s) \<and>
   (\<forall>mo \<in> set (insertedObjects s) - set (insertedObjects s'). \<not> matches st mo) \<and>
   (case r of None \<Rightarrow> set (insertedObjects s') \<subseteq> set (currentlySynchronizedObjects s')
    | Some mo \<Rightarrow> matches st mo \<and> mo \<in> set (insertedObjects s') \<and> mo \<notin> set (currentlySynchronizedObjects s'))"
proof (induction matches pick st s arbitrary: r s' rule: inserted_nextObjectToSync.induct)
  case (1 matches pick st s)
  show ?case
  proof (cases "inserted_anyObjectToSynchronize pick s")
    case None
    with "1.prems" have "r = None" "s' = s"
      by (simp_all add: inserted_nextObjectToSync.simps [of matches pick st s])
    with None show ?thesis
      by (simp add: inserted_any_None)
  next
    case (Some mo)
    note mo = inserted_any_mem [OF Some]
    show ?thesis
    proof (cases "matches st mo")
      case True
      with Some "1.prems" have "r = Some mo" "s' = s"
        by (simp_all add: inserted_nextObjectToSync.simps [of matches pick st s])
      with True mo show ?thesis
        by simp
    next
      case False
      with Some "1.prems" have "inserted_nextObjectToSync matches pick st (didFinishSynchronizingObject mo s) = (r, s')"
        by (simp add: inserted_nextObjectToSync.simps [of matches pick st s])
      with "1.IH" [OF Some False] False mo show ?thesis
        by (auto simp: didFinishSynchronizingObject_def removeObjectToSynchronize_def)
    qed
  qed
qed

lemma processNextInsert_cases:
  assumes "processNextInsert S T pick (i, st) = Inr (r, i', st')"
  shows "case r of None \<Rightarrow> set (syncing i') = set (syncing i)
    | Some ins \<Rightarrow> in_object ins \<notin> set (syncing i) \<and> set (syncing i') = insert (in_object ins) (set (syncing i)) \<and>
        insertPredicate i st (in_object ins)"
proof -
  obtain n s where n: "inserted_nextObjectToSync (\<lambda>st mo. insertPredicate i st mo \<and> \<not> isZombieObject S st mo) pick st
      (ins_insertedObjects i) = (n, s)"
    by fastforce
  with assms inserted_nextObjectToSync_result [OF n] show ?thesis
    by (auto simp: processNextInsert_def didFinishSynchronizingObject_def removeObjectToSynchronize_def
        didStartSynchronizingObject_def split: option.splits prod.splits if_splits)
qed

lemma processNextInsert_no_failure: "processNextInsert S T pick (i, st) \<noteq> Inl e"
proof -
  obtain n s where n: "inserted_nextObjectToSync (\<lambda>st mo. insertPredicate i st mo \<and> \<not> isZombieObject S st mo) pick st
      (ins_insertedObjects i) = (n, s)"
    by fastforce
  with inserted_nextObjectToSync_result [OF n] show ?thesis
    by (auto simp: processNextInsert_def didStartSynchronizingObject_def split: option.splits prod.splits if_splits)
qed

lemma insert_outcome_syncing: "insert_outcome S T response ins (i, st) = (fin, i', st') \<Longrightarrow> syncing i' = syncing i"
  by (auto simp: insert_outcome_def Let_def dest: syncing_addInserted_pair
      split: if_splits ZMTransportResponseStatus.splits prod.splits)

lemma insert_completed_result:
  assumes "in_object ins \<in> set (syncing i)"
  obtains i' st' where "insert_completed S T response ins (i, st) = Inr (i', st')"
    and "set (syncing i') = set (syncing i) - {in_object ins}"
proof -
  obtain fin j st1 where o: "insert_outcome S T response ins (i, st) = (fin, j, st1)"
    by (metis prod.exhaust)
  with insert_outcome_syncing [OF o] assms that show thesis
    by (cases fin) (auto simp: insert_completed_def didFinishSynchronizingObject_def removeObjectToSynchronize_def
        didFailSynchronizingObject_def)
qed

lemma insert_inv_next:
  assumes "insert_inv (Inr ((i, st), fl))"
  shows "insert_inv (insert_send S T (InsertNextRequest pick) ((i, st), fl))"
proof (cases "processNextInsert S T pick (i, st)")
  case (Inl e)
  then show ?thesis
    by (simp add: processNextInsert_no_failure)
next
  case (Inr x)
  obtain r i' st' where x: "x = (r, i', st')"
    by (cases x) auto
  with Inr assms processNextInsert_cases [of S T pick i st r i' st'] show ?thesis
    by (cases r) (auto simp: insert_inv_def)
qed

lemma insert_inv_response:
  assumes "insert_inv (Inr ((i, st), fl))"
  shows "insert_inv (insert_send S T (InsertResponse n response) ((i, st), fl))"
proof (cases "n < length fl")
  case True
  with assms have "in_object (fl ! n) \<in> set (syncing i)"
    by (auto simp: insert_inv_def)
  then obtain i' st' where "insert_completed S T response (fl ! n) (i, st) = Inr (i', st')"
    and "set (syncing i') = set (syncing i) - {in_object (fl ! n)}"
    by (rule insert_completed_result)
  with assms True set_remove_nth [of "map in_object fl" n] show ?thesis
    by (simp add: insert_inv_def map_remove_nth [symmetric])
qed (use assms in simp)

lemma insert_inv_step: "insert_inv r \<Longrightarrow> insert_inv (insert_step S T m r)"
proof (cases r)
  case (Inr w)
  assume inv: "insert_inv r"
  obtain i st fl where w: "w = ((i, st), fl)"
    by (cases w) auto
  show ?thesis
  proof (cases m)
    case (InsertNextRequest pick)
    with inv Inr w insert_inv_next [of i st fl S T pick] show ?thesis
      by (simp add: insert_step_def del: insert_send.simps)
  next
    case (InsertResponse n response)
    with inv Inr w insert_inv_response [of i st fl S T n response] show ?thesis
      by (simp add: insert_step_def del: insert_send.simps)
  qed (use inv Inr w in \<open>simp_all add: insert_step_def insert_inv_def\<close>)
qed (simp add: insert_inv_def)

interpretation insert_sync: component "insert_step S T" insert_inv for S T
  by unfold_locales (rule insert_inv_step)

lemma insert_inv_init: "initUpstreamInsertedObjectSync T preds e flt = Inr i \<Longrightarrow> insert_inv (Inr ((i, st), []))"
  by (auto simp: insert_inv_def initUpstreamInsertedObjectSync_def initLocallyInsertedObjectSet_def split: option.splits)

text \<open>C23: In every run of the inserted objects' sync, whatever the transcoder answers and however the data model
  changes, no assertion fails; no two requests in flight are for the same object, and the objects marked as being
  synchronized are exactly those with a request in flight.\<close>

theorem inserts_are_never_doubled:
  assumes "initUpstreamInsertedObjectSync T preds entity flt = Inr i"
  shows "\<exists>i' st' fl. run (insert_step S T) (Inr ((i, st), [])) ms = Inr ((i', st'), fl) \<and>
    distinct (map in_object fl) \<and> set (map in_object fl) = set (currentlySynchronizedObjects (ins_insertedObjects i'))"
proof -
  have "insert_inv (run (insert_step S T) (Inr ((i, st), [])) ms)"
    by (rule insert_sync.run_invar, rule insert_inv_init [OF assms])
  then show ?thesis
    by (auto simp: insert_inv_def split: sum.splits)
qed

text \<open>A new object whose upload meets a temporary error is given up: it is taken out of the objects to insert
  although nothing was uploaded and nothing was told to the transcoder, while a response to try again later keeps it
  to be sent again.\<close>

lemma temporary_error_gives_up_insertion:
  assumes "in_object ins \<in> set (insertedObjects (ins_insertedObjects i))"
    and "in_object ins \<in> set (currentlySynchronizedObjects (ins_insertedObjects i))"
    and "in_object ins \<notin> set (ignoredObjects i)"
  shows "(resp_result response = ZMTransportResponseStatusTemporaryError \<longrightarrow>
      (\<exists>i'. insert_completed S T response ins (i, st) = Inr (i', enqueueDelayedSave S st) \<and>
        in_object ins \<notin> set (insertedObjects (ins_insertedObjects i')))) \<and>
    (resp_result response = ZMTransportResponseStatusTryAgainLater \<longrightarrow>
      (\<exists>i'. insert_completed S T response ins (i, st) = Inr (i', enqueueDelayedSave S st) \<and>
        in_object ins \<in> set (insertedObjects (ins_insertedObjects i')) \<and>
        in_object ins \<notin> set (currentlySynchronizedObjects (ins_insertedObjects i'))))"
  using assms by (simp add: insert_completed_def insert_outcome_def didFinishSynchronizingObject_def
      removeObjectToSynchronize_def didFailSynchronizingObject_def)

text \<open>The search for the next object to insert returns, and removes only objects that no longer have to be
  inserted. It ends without an object only when every object left has a request in flight, and with one that matches
  and has none.\<close>

lemma next_insertion_is_found:
  "case inserted_nextObjectToSync matches pick st s of (r, s') \<Rightarrow>
     currentlySynchronizedObjects s' = currentlySynchronizedObjects s \<and>
     set (filter (matches st) (insertedObjects s')) = set (filter (matches st) (insertedObjects s)) \<and>
     (case r of None \<Rightarrow> set (insertedObjects s') \<subseteq> set (currentlySynchronizedObjects s)
      | Some mo \<Rightarrow> matches st mo \<and> mo \<in> set (insertedObjects s) \<and> mo \<notin> set (currentlySynchronizedObjects s))"
proof -
  obtain r s' where n: "inserted_nextObjectToSync matches pick st s = (r, s')"
    by fastforce
  from inserted_nextObjectToSync_result [OF n] n show ?thesis
    by (auto split: option.splits)
qed

section \<open>A sample\<close>

definition insert_sample :: "(json \<times> NSString list) ZMUpstreamInsertedObjectSync" where
  "insert_sample = \<lparr>ins_insertedObjects = \<lparr>insertedObjects = [7], currentlySynchronizedObjects = [7]\<rparr>,
     ins_trackedEntity = ''User'', insertPredicate = (\<lambda>st mo. True), insertedObjectsWithDependencies = None,
     ignoredObjects = [], ins_filter = None\<rparr>"

definition temporary_error :: ZMTransportResponse where
  "temporary_error = success_response\<lparr>resp_result := ZMTransportResponseStatusTemporaryError\<rparr>"

lemma temporary_error_gives_up_insertion_example:
  "\<exists>i'. insert_completed name_store name_transcoder temporary_error \<lparr>in_object = 7, in_request = name_request\<rparr>
       (insert_sample, (JStr ''new'', [''name''])) = Inr (i', (JStr ''new'', [''name''])) \<and>
     7 \<notin> set (insertedObjects (ins_insertedObjects i'))"
  using temporary_error_gives_up_insertion [of "\<lparr>in_object = 7, in_request = name_request\<rparr>" insert_sample
      temporary_error name_store name_transcoder "(JStr ''new'', [''name''])"]
  by (simp add: insert_sample_def temporary_error_def) (simp add: name_store_def)

theorem inserts_are_never_doubled_witness:
  "\<exists>i i' st' fl. initUpstreamInsertedObjectSync name_transcoder (\<lambda>e. Some (\<lambda>st mo. True)) ''User'' None = Inr i \<and>
     run (insert_step name_store name_transcoder) (Inr ((i, (JNull, [])), []))
       [InsertObjectsDidChange [7, 8], InsertNextRequest (\<lambda>xs. 0), InsertNextRequest (\<lambda>xs. 0)] = Inr ((i', st'), fl) \<and>
     distinct (map in_object fl)"
proof -
  obtain i where i: "initUpstreamInsertedObjectSync name_transcoder (\<lambda>e. Some (\<lambda>st mo. True)) ''User'' None = Inr i"
    by (simp add: initUpstreamInsertedObjectSync_def)
  from inserts_are_never_doubled [OF i, of name_store "(JNull, [])"
      "[InsertObjectsDidChange [7, 8], InsertNextRequest (\<lambda>xs. 0), InsertNextRequest (\<lambda>xs. 0)]"] i
  show ?thesis
    by blast
qed

end
