(* ===== verification/Downstream.thy ===== *)
theory Downstream
  imports ModifiedObjects
begin

text \<open>
  The download of objects: \<^verbatim>\<open>ZMDownstreamObjectSync\<close>, \<^verbatim>\<open>ZMDownstreamObjectSyncWithWhitelist\<close>, and
  \<^verbatim>\<open>ZMChangeTrackerBootstrap\<close>, which fetches the first objects for all change trackers at once. The order of the
  sort descriptors is a rank of the objects; predicates are functions of the state of the data model.
\<close>

section \<open>ZMDownstreamObjectSync\<close>

type_synonym 's NSPredicate = "'s \<Rightarrow> ZMManagedObject \<Rightarrow> bool"

record 's ZMDownstreamTranscoder =
  requestForFetchingObject :: "ZMManagedObject \<Rightarrow> 's \<Rightarrow> ZMTransportRequest option \<times> 's"
  transcoder_deleteObject :: "ZMManagedObject \<Rightarrow> 's \<Rightarrow> 's"
  transcoder_updateObject :: "ZMManagedObject \<Rightarrow> ZMTransportResponse \<Rightarrow> 's \<Rightarrow> 's"

record 's ZMDownstreamObjectSync =
  objectsToDownload :: ZMSyncOperationSet
  down_entity :: NSString
  predicateForObjectsToDownload :: "'s NSPredicate"
  down_filter :: "'s NSPredicate option"
  sortDescriptors :: "('s \<Rightarrow> ZMManagedObject \<Rightarrow> int) option"

text \<open>
  The designated initialiser returns \<^verbatim>\<open>nil\<close> for an unknown entity; \<open>model\<close> gives the sort descriptors of
  the known ones.
\<close>

definition initDownstreamObjectSync ::
  "(NSString \<Rightarrow> ('s \<Rightarrow> ZMManagedObject \<Rightarrow> int) option option) \<Rightarrow> ZMSyncOperationSet \<Rightarrow> NSString \<Rightarrow> 's NSPredicate \<Rightarrow>
   's NSPredicate option \<Rightarrow> 's ZMDownstreamObjectSync option" where
  "initDownstreamObjectSync model operationSet entityName p flt =
     map_option (\<lambda>sds. \<lparr>objectsToDownload = operationSet, down_entity = entityName, predicateForObjectsToDownload = p,
       down_filter = flt, sortDescriptors = sds\<rparr>) (model entityName)"

text \<open>The shorter initialisers; \<open>needsUpdate\<close> is the predicate \<^verbatim>\<open>needsToBeUpdatedFromBackend == YES\<close>.\<close>

definition initDownstreamWithFilter ::
  "(NSString \<Rightarrow> ('s \<Rightarrow> ZMManagedObject \<Rightarrow> int) option option) \<Rightarrow> NSString \<Rightarrow> 's NSPredicate \<Rightarrow> 's NSPredicate option \<Rightarrow>
   's ZMDownstreamObjectSync option" where
  "initDownstreamWithFilter model = initDownstreamObjectSync model initSyncOperationSet"

definition initDownstreamWithEntity ::
  "(NSString \<Rightarrow> ('s \<Rightarrow> ZMManagedObject \<Rightarrow> int) option option) \<Rightarrow> 's NSPredicate \<Rightarrow> NSString \<Rightarrow> 's ZMDownstreamObjectSync option" where
  "initDownstreamWithEntity model needsUpdate entityName = initDownstreamWithFilter model entityName needsUpdate None"

definition needsToSyncObject :: "'s \<Rightarrow> ZMManagedObject \<Rightarrow> 's ZMDownstreamObjectSync \<Rightarrow> bool" where
  "needsToSyncObject st mo d \<longleftrightarrow>
     predicateForObjectsToDownload d st mo \<and> (case down_filter d of None \<Rightarrow> True | Some f \<Rightarrow> f st mo)"

definition down_add :: "ZMManagedObject \<Rightarrow> 's ZMDownstreamObjectSync \<Rightarrow> 's ZMDownstreamObjectSync" where
  "down_add mo d = d\<lparr>objectsToDownload := addObjectToBeSynchronized mo (objectsToDownload d)\<rparr>"

definition down_addTrackedObjects :: "'s \<Rightarrow> ZMManagedObject list \<Rightarrow> 's ZMDownstreamObjectSync \<Rightarrow> 's ZMDownstreamObjectSync" where
  "down_addTrackedObjects st =
     fold (\<lambda>mo d. if (case down_filter d of None \<Rightarrow> True | Some f \<Rightarrow> f st mo) then down_add mo d else d)"

definition down_objectsDidChange ::
  "'s object_store \<Rightarrow> 's \<Rightarrow> ZMManagedObject list \<Rightarrow> 's ZMDownstreamObjectSync \<Rightarrow> 's ZMDownstreamObjectSync" where
  "down_objectsDidChange S st =
     fold (\<lambda>mo d. if entityOf S mo \<noteq> down_entity d then d
                  else if needsToSyncObject st mo d then down_add mo d else d)"

definition down_remove :: "ZMManagedObject \<Rightarrow> 's ZMDownstreamObjectSync \<Rightarrow> 's ZMDownstreamObjectSync" where
  "down_remove mo d = d\<lparr>objectsToDownload := opset_removeObject mo (objectsToDownload d)\<rparr>"

definition down_nextObject :: "'s \<Rightarrow> 's ZMDownstreamObjectSync \<Rightarrow> ZMManagedObject option" where
  "down_nextObject st d =
     nextObjectToSynchronize (map_option (\<lambda>rank. sort_key (rank st)) (sortDescriptors d)) (objectsToDownload d)"

lemma find_member: "List.find P xs = Some x \<Longrightarrow> x \<in> set xs \<and> P x"
  by (induction xs) (auto split: if_splits)

lemma down_nextObject_eq:
  "down_nextObject st d = List.find (\<lambda>mo. mo \<notin> set (managedObjectsBeingSynchronized (objectsToDownload d)))
     (case sortDescriptors d of None \<Rightarrow> pendingOperationSet (objectsToDownload d)
      | Some rank \<Rightarrow> sort_key (rank st) (pendingOperationSet (objectsToDownload d)))"
  by (simp add: down_nextObject_def nextObjectToSynchronize_def nextObjectToSynchronizeNotInOperationSet_def
      split: option.splits)

lemma down_nextObject_Some:
  "down_nextObject st d = Some mo \<Longrightarrow> mo \<in> set (pendingOperationSet (objectsToDownload d)) \<and>
     mo \<notin> set (managedObjectsBeingSynchronized (objectsToDownload d))"
  by (cases "sortDescriptors d") (auto simp: down_nextObject_eq dest: find_member)

lemma pending_down_remove: "mo \<in> set (pendingOperationSet (objectsToDownload d)) \<Longrightarrow>
   length (pendingOperationSet (objectsToDownload (down_remove mo d))) < length (pendingOperationSet (objectsToDownload d))"
  by (auto simp: down_remove_def opset_removeObject_def removeObjectFromPartialUpdates_def oset_remove_def
      intro: length_filter_less)

text \<open>The \<^verbatim>\<open>while\<close> loop: each round without a request takes an object out of the pending ones.\<close>

function down_nextRequest ::
  "'s object_store \<Rightarrow> 's ZMDownstreamTranscoder \<Rightarrow> 's ZMDownstreamObjectSync \<times> 's \<Rightarrow>
   (ZMManagedObject \<times> ZMTransportRequest \<times> ZMSyncToken) option \<times> 's ZMDownstreamObjectSync \<times> 's" where
  "down_nextRequest S T (d, st) =
     (case down_nextObject st d of
        None \<Rightarrow> (None, d, st)
      | Some mo \<Rightarrow>
          if \<not> predicateForObjectsToDownload d st mo then down_nextRequest S T (down_remove mo d, st)
          else case requestForFetchingObject T mo st of
            (None, st') \<Rightarrow> down_nextRequest S T (down_remove mo d, st')
          | (Some request, st') \<Rightarrow>
              (case opset_didStartSynchronizingKeys (valueForKey S st') [] mo (objectsToDownload d) of (token, s) \<Rightarrow>
                 (Some (mo, request, token), d\<lparr>objectsToDownload := s\<rparr>, st')))"
  by pat_completeness auto
termination
  by (relation "measure (\<lambda>(_, _, d, _). length (pendingOperationSet (objectsToDownload d)))")
    (auto dest!: down_nextObject_Some pending_down_remove)

declare down_nextRequest.simps [simp del]

definition down_hasOutstandingItems :: "'s ZMDownstreamObjectSync \<Rightarrow> bool" where
  "down_hasOutstandingItems d \<longleftrightarrow> 0 < opset_count (objectsToDownload d)"

definition down_processResponse ::
  "'s object_store \<Rightarrow> 's ZMDownstreamTranscoder \<Rightarrow> ZMTransportResponse \<Rightarrow> ZMManagedObject \<Rightarrow> ZMSyncToken \<Rightarrow>
   's ZMDownstreamObjectSync \<times> 's \<Rightarrow> 's ZMDownstreamObjectSync \<times> 's" where
  "down_processResponse S T response mo token ds =
     (case ds of (d, st) \<Rightarrow>
        case keysForWhichToApplyResults (valueForKey S st) token mo (resp_result response) (objectsToDownload d) of (keys, s) \<Rightarrow>
          let d' = d\<lparr>objectsToDownload := s\<rparr>;
              failed = (down_remove mo d', transcoder_deleteObject T mo st);
              result = (case resp_result response of
                 ZMTransportResponseStatusTryAgainLater \<Rightarrow> (d', st)
               | ZMTransportResponseStatusSuccess \<Rightarrow>
                   (d'\<lparr>objectsToDownload := removeUpdatedObject mo token keys s\<rparr>,
                    if isZombieObject S st mo then st else transcoder_updateObject T mo response st)
               | ZMTransportResponseStatusTemporaryError \<Rightarrow> failed
               | ZMTransportResponseStatusPermanentError \<Rightarrow> failed
               | ZMTransportResponseStatusExpired \<Rightarrow> failed)
          in (fst result, enqueueDelayedSave S (snd result)))"

section \<open>Messages\<close>

text \<open>Besides requests and responses: the changes of objects, and any change of the data model.\<close>

datatype 's ZMDownstreamObjectSync_msg =
    DownObjectsDidChange "ZMManagedObject list"
  | DownAddTrackedObjects "ZMManagedObject list"
  | DownStoreChanged "'s \<Rightarrow> 's"

primrec down_send ::
  "'s object_store \<Rightarrow> 's ZMDownstreamObjectSync_msg \<Rightarrow> 's ZMDownstreamObjectSync \<times> 's \<Rightarrow> 's ZMDownstreamObjectSync \<times> 's" where
  "down_send S (DownObjectsDidChange mos) ds = (down_objectsDidChange S (snd ds) mos (fst ds), snd ds)"
| "down_send S (DownAddTrackedObjects mos) ds = (down_addTrackedObjects (snd ds) mos (fst ds), snd ds)"
| "down_send S (DownStoreChanged f) ds = (fst ds, f (snd ds))"

definition down_respond ::
  "'s object_store \<Rightarrow> 's ZMDownstreamTranscoder \<Rightarrow> ZMTransportResponse \<Rightarrow>
   ZMManagedObject \<times> ZMTransportRequest \<times> ZMSyncToken \<Rightarrow> 's ZMDownstreamObjectSync \<times> 's \<Rightarrow> 's ZMDownstreamObjectSync \<times> 's" where
  "down_respond S T response f = down_processResponse S T response (fst f) (snd (snd f))"

definition down_busy :: "'s ZMDownstreamObjectSync \<times> 's \<Rightarrow> ZMManagedObject set" where
  "down_busy ds = set (managedObjectsBeingSynchronized (objectsToDownload (fst ds)))"

abbreviation fetching :: "'s ZMDownstreamObjectSync \<Rightarrow> ZMManagedObject list" where
  "fetching d \<equiv> managedObjectsBeingSynchronized (objectsToDownload d)"

abbreviation pending :: "'s ZMDownstreamObjectSync \<Rightarrow> ZMManagedObject list" where
  "pending d \<equiv> pendingOperationSet (objectsToDownload d)"

lemma down_add_simps [simp]:
  "fetching (down_add mo d) = fetching d" "set (pending (down_add mo d)) = insert mo (set (pending d))"
  by (simp_all add: down_add_def addObjectToBeSynchronized_def removeObjectFromPartialUpdates_def)

lemma down_remove_simps [simp]:
  "fetching (down_remove mo d) = fetching d" "set (pending (down_remove mo d)) = set (pending d) - {mo}"
  by (simp_all add: down_remove_def opset_removeObject_def removeObjectFromPartialUpdates_def)

lemma fold_keeps: "(\<And>x s. f (g x s) = f s) \<Longrightarrow> f (fold g xs s) = f s"
  by (induction xs arbitrary: s) auto

lemma fetching_down_send: "down_busy (down_send S m ds) = down_busy ds"
  by (cases m) (auto simp: down_busy_def down_objectsDidChange_def down_addTrackedObjects_def
      intro!: arg_cong [where f = set] fold_keeps [where f = fetching])

lemma down_busy_response: "down_busy (down_processResponse S T response mo token ds) = down_busy ds - {mo}"
  by (cases ds) (auto simp: down_processResponse_def Let_def down_busy_def keysForWhichToApplyResults_def removeUpdatedObject_def
      split: ZMTransportResponseStatus.splits)

lemma down_nextRequest_result:
  "down_nextRequest S T (d, st) = (r, d', st') \<Longrightarrow>
   set (pending d') \<subseteq> set (pending d) \<and>
   (case r of None \<Rightarrow> set (fetching d') = set (fetching d) \<and> set (pending d') \<subseteq> set (fetching d')
    | Some f \<Rightarrow> fst f \<in> set (pending d') \<and> fst f \<notin> set (fetching d) \<and>
        set (fetching d') = insert (fst f) (set (fetching d)))"
proof (induction S T "(d, st)" arbitrary: d st r d' st' rule: down_nextRequest.induct)
  case (1 S T d st)
  show ?case
  proof (cases "down_nextObject st d")
    case None
    with "1.prems" have "r = None" "d' = d"
      by (simp_all add: down_nextRequest.simps [of S T d st])
    moreover from None have "set (pending d) \<subseteq> set (fetching d)"
      by (cases "sortDescriptors d") (auto simp: down_nextObject_eq find_None_iff)
    ultimately show ?thesis
      by simp
  next
    case (Some mo)
    note mo = down_nextObject_Some [OF Some]
    show ?thesis
    proof (cases "predicateForObjectsToDownload d st mo")
      case False
      with Some "1.prems" have "down_nextRequest S T (down_remove mo d, st) = (r, d', st')"
        by (simp add: down_nextRequest.simps [of S T d st])
      from "1.hyps"(1) [OF Some False this] show ?thesis
        by (auto split: option.splits)
    next
      case True
      obtain req st1 where req: "requestForFetchingObject T mo st = (req, st1)"
        by fastforce
      show ?thesis
      proof (cases req)
        case None
        with Some True req "1.prems" have "down_nextRequest S T (down_remove mo d, st1) = (r, d', st')"
          by (simp add: down_nextRequest.simps [of S T d st])
        from "1.hyps"(2) [OF Some _ req [unfolded None, symmetric] refl this] True show ?thesis
          by (auto split: option.splits)
      next
        case (Some request)
        with \<open>down_nextObject st d = Some mo\<close> True req "1.prems" mo show ?thesis
          by (auto simp: down_nextRequest.simps [of S T d st] opset_didStartSynchronizingKeys_def)
      qed
    qed
  qed
qed

interpretation downstream: request_source down_busy "\<lambda>u. down_nextRequest S T" "down_respond S T" "down_send S" for S T
proof
  fix u :: unit and x x' :: "'a ZMDownstreamObjectSync \<times> 'a"
  show "down_nextRequest S T x = (None, x') \<Longrightarrow> down_busy x' = down_busy x"
    using down_nextRequest_result [of S T "fst x" "snd x" None "fst x'" "snd x'"] by (simp add: down_busy_def)
  show "down_nextRequest S T x = (Some f, x') \<Longrightarrow> fst f \<notin> down_busy x \<and> down_busy x' = insert (fst f) (down_busy x)" for f
    using down_nextRequest_result [of S T "fst x" "snd x" "Some f" "fst x'" "snd x'"] by (simp add: down_busy_def)
qed (simp_all add: down_respond_def down_busy_response fetching_down_send)

text \<open>C25: Downloads are never doubled: whatever the transcoder does, in whatever order responses, changes and polls
  come, the objects a sync is fetching are those with a request in flight, each of them once.\<close>

theorem downloads_are_never_doubled:
  assumes "initDownstreamObjectSync model initSyncOperationSet entityName p flt = Some d"
    and "run (flight_step (\<lambda>u. down_nextRequest S T) (down_respond S T) (down_send S)) ((d, st), []) ms = ((d', st'), fl)"
  shows "distinct (map fst fl) \<and> set (map fst fl) = set (managedObjectsBeingSynchronized (objectsToDownload d'))"
proof -
  have "down_busy (d, st) = {}"
    using assms(1) by (auto simp: down_busy_def initDownstreamObjectSync_def initSyncOperationSet_def)
  from downstream.never_doubled [OF this assms(2)] show ?thesis
    by (simp add: down_busy_def)
qed

text \<open>What a response does to its object. It stays to be downloaded after a response to try again later, leaves
  the sync with a success, without being given to the transcoder when it has been deleted meanwhile, and is given up
  and handed to the transcoder for deletion after any error, a temporary one included.\<close>

lemma download_outcomes:
  assumes "down_processResponse S T response mo [] (d, st) = (d', st')"
  shows "set (pendingOperationSet (objectsToDownload d')) =
      (if resp_result response = ZMTransportResponseStatusTryAgainLater then set (pendingOperationSet (objectsToDownload d))
       else set (pendingOperationSet (objectsToDownload d)) - {mo}) \<and>
    st' = enqueueDelayedSave S
      (case resp_result response of
         ZMTransportResponseStatusTryAgainLater \<Rightarrow> st
       | ZMTransportResponseStatusSuccess \<Rightarrow> if isZombieObject S st mo then st else transcoder_updateObject T mo response st
       | _ \<Rightarrow> transcoder_deleteObject T mo st)"
  using assms by (auto simp: down_processResponse_def keysForWhichToApplyResults_def removeUpdatedObject_def Let_def
      split: ZMTransportResponseStatus.splits)

section \<open>ZMDownstreamObjectSyncWithWhitelist\<close>

record 's ZMDownstreamObjectSyncWithWhitelist =
  whitelist :: "ZMManagedObject list"
  innerDownstreamSync :: "'s ZMDownstreamObjectSync"

definition initDownstreamObjectSyncWithWhitelist ::
  "(NSString \<Rightarrow> ('s \<Rightarrow> ZMManagedObject \<Rightarrow> int) option option) \<Rightarrow> NSString \<Rightarrow> 's NSPredicate \<Rightarrow>
   's ZMDownstreamObjectSyncWithWhitelist option" where
  "initDownstreamObjectSyncWithWhitelist model entityName p =
     map_option (\<lambda>d. \<lparr>whitelist = [], innerDownstreamSync = d\<rparr>) (initDownstreamWithFilter model entityName p None)"

definition whiteListObject ::
  "'s object_store \<Rightarrow> 's \<Rightarrow> ZMManagedObject \<Rightarrow> 's ZMDownstreamObjectSyncWithWhitelist \<Rightarrow> 's ZMDownstreamObjectSyncWithWhitelist" where
  "whiteListObject S st mo w =
     w\<lparr>whitelist := oset_add (whitelist w) mo,
       innerDownstreamSync := down_objectsDidChange S st [mo] (innerDownstreamSync w)\<rparr>"

definition whitelist_objectsDidChange ::
  "'s object_store \<Rightarrow> 's \<Rightarrow> ZMManagedObject list \<Rightarrow> 's ZMDownstreamObjectSyncWithWhitelist \<Rightarrow> 's ZMDownstreamObjectSyncWithWhitelist" where
  "whitelist_objectsDidChange S st mos w =
     w\<lparr>innerDownstreamSync :=
         down_objectsDidChange S st (filter (\<lambda>mo. mo \<in> set mos) (whitelist w)) (innerDownstreamSync w)\<rparr>"

definition whitelist_addTrackedObjects ::
  "ZMManagedObject list \<Rightarrow> 's ZMDownstreamObjectSyncWithWhitelist \<Rightarrow> 's ZMDownstreamObjectSyncWithWhitelist" where
  "whitelist_addTrackedObjects mos w = w"

definition whitelist_hasOutstandingItems :: "'s ZMDownstreamObjectSyncWithWhitelist \<Rightarrow> bool" where
  "whitelist_hasOutstandingItems w = down_hasOutstandingItems (innerDownstreamSync w)"

text \<open>The transcoder of the inner sync passes every call on.\<close>

definition whitelist_transcoder :: "'s ZMDownstreamTranscoder \<Rightarrow> 's ZMDownstreamTranscoder" where
  "whitelist_transcoder T = \<lparr>requestForFetchingObject = requestForFetchingObject T,
     transcoder_deleteObject = transcoder_deleteObject T, transcoder_updateObject = transcoder_updateObject T\<rparr>"

definition whitelist_nextRequest ::
  "'s object_store \<Rightarrow> 's ZMDownstreamTranscoder \<Rightarrow> 's ZMDownstreamObjectSyncWithWhitelist \<times> 's \<Rightarrow>
   (ZMManagedObject \<times> ZMTransportRequest \<times> ZMSyncToken) option \<times> 's ZMDownstreamObjectSyncWithWhitelist \<times> 's" where
  "whitelist_nextRequest S T ws =
     (case down_nextRequest S (whitelist_transcoder T) (innerDownstreamSync (fst ws), snd ws) of (r, d, st) \<Rightarrow>
        (r, (fst ws)\<lparr>innerDownstreamSync := d\<rparr>, st))"

definition whitelist_respond ::
  "'s object_store \<Rightarrow> 's ZMDownstreamTranscoder \<Rightarrow> ZMTransportResponse \<Rightarrow>
   ZMManagedObject \<times> ZMTransportRequest \<times> ZMSyncToken \<Rightarrow> 's ZMDownstreamObjectSyncWithWhitelist \<times> 's \<Rightarrow>
   's ZMDownstreamObjectSyncWithWhitelist \<times> 's" where
  "whitelist_respond S T response f ws =
     (case down_respond S (whitelist_transcoder T) response f (innerDownstreamSync (fst ws), snd ws) of (d, st) \<Rightarrow>
        ((fst ws)\<lparr>innerDownstreamSync := d\<rparr>, st))"

datatype 's ZMDownstreamObjectSyncWithWhitelist_msg =
    WhiteListObject ZMManagedObject
  | WhitelistObjectsDidChange "ZMManagedObject list"
  | WhitelistAddTrackedObjects "ZMManagedObject list"
  | WhitelistStoreChanged "'s \<Rightarrow> 's"

primrec whitelist_send ::
  "'s object_store \<Rightarrow> 's ZMDownstreamObjectSyncWithWhitelist_msg \<Rightarrow> 's ZMDownstreamObjectSyncWithWhitelist \<times> 's \<Rightarrow>
   's ZMDownstreamObjectSyncWithWhitelist \<times> 's" where
  "whitelist_send S (WhiteListObject mo) ws = (whiteListObject S (snd ws) mo (fst ws), snd ws)"
| "whitelist_send S (WhitelistObjectsDidChange mos) ws = (whitelist_objectsDidChange S (snd ws) mos (fst ws), snd ws)"
| "whitelist_send S (WhitelistAddTrackedObjects mos) ws = (whitelist_addTrackedObjects mos (fst ws), snd ws)"
| "whitelist_send S (WhitelistStoreChanged f) ws = (fst ws, f (snd ws))"

definition whitelisted ::
  "('s ZMDownstreamObjectSyncWithWhitelist \<times> 's) \<times> (ZMManagedObject \<times> ZMTransportRequest \<times> ZMSyncToken) list \<Rightarrow> bool" where
  "whitelisted w \<longleftrightarrow> set (pending (innerDownstreamSync (fst (fst w)))) \<subseteq> set (whitelist (fst (fst w))) \<and>
     set (map fst (snd w)) \<subseteq> set (whitelist (fst (fst w)))"

lemma fold_collects:
  assumes "\<And>x s. f (g x s) \<subseteq> f s \<union> {x}"
  shows "f (fold g xs s) \<subseteq> f s \<union> set xs"
proof (induction xs arbitrary: s)
  case (Cons x xs)
  from Cons.IH [of "g x s"] assms [of x s] show ?case
    by auto
qed simp

lemma pending_objectsDidChange: "set (pending (down_objectsDidChange S st mos d)) \<subseteq> set (pending d) \<union> set mos"
  unfolding down_objectsDidChange_def by (rule fold_collects) auto

lemma pending_respond: "set (pending (fst (down_respond S T response f ds))) \<subseteq> set (pending (fst ds))"
  by (cases ds) (auto simp: down_respond_def down_processResponse_def Let_def keysForWhichToApplyResults_def
      removeUpdatedObject_def split: ZMTransportResponseStatus.splits if_splits)

lemma set_remove_nth_subset: "set (remove_nth n xs) \<subseteq> set xs"
  by (auto simp: remove_nth_def dest: in_set_takeD in_set_dropD)

lemma whitelisted_poll:
  assumes "whitelisted w"
  shows "whitelisted (flight_step (\<lambda>u. whitelist_nextRequest S T) (whitelist_respond S T) (whitelist_send S) (Poll p) w)"
proof -
  obtain r d st where n: "down_nextRequest S (whitelist_transcoder T) (innerDownstreamSync (fst (fst w)), snd (fst w)) = (r, d, st)"
    by (metis prod.exhaust)
  from assms n down_nextRequest_result [OF n] show ?thesis
    by (cases r) (auto simp: whitelisted_def whitelist_nextRequest_def)
qed

lemma whitelisted_answer:
  assumes "whitelisted w"
  shows "whitelisted (flight_step (\<lambda>u. whitelist_nextRequest S T) (whitelist_respond S T) (whitelist_send S) (Answer n r) w)"
  using assms set_remove_nth_subset [of n "map fst (snd w)"]
    pending_respond [of S "whitelist_transcoder T" r "snd w ! n" "(innerDownstreamSync (fst (fst w)), snd (fst w))"]
  by (auto simp: whitelisted_def whitelist_respond_def case_prod_beta map_remove_nth simp del: set_map)

lemma whitelisted_other:
  assumes "whitelisted w"
  shows "whitelisted (flight_step (\<lambda>u. whitelist_nextRequest S T) (whitelist_respond S T) (whitelist_send S) (Other m) w)"
proof (cases m)
  case (WhiteListObject mo)
  with assms pending_objectsDidChange [of S "snd (fst w)" "[mo]" "innerDownstreamSync (fst (fst w))"] show ?thesis
    by (auto simp: whitelisted_def whiteListObject_def)
next
  case (WhitelistObjectsDidChange mos)
  with assms pending_objectsDidChange [of S "snd (fst w)" "filter (\<lambda>mo. mo \<in> set mos) (whitelist (fst (fst w)))"
      "innerDownstreamSync (fst (fst w))"] show ?thesis
    by (auto simp: whitelisted_def whitelist_objectsDidChange_def)
qed (use assms in \<open>simp_all add: whitelisted_def whitelist_addTrackedObjects_def\<close>)

interpretation whitelist_sync: component
  "flight_step (\<lambda>u. whitelist_nextRequest S T) (whitelist_respond S T) (whitelist_send S)" whitelisted for S T
proof
  show "whitelisted (flight_step (\<lambda>u. whitelist_nextRequest S T) (whitelist_respond S T) (whitelist_send S) m w)"
    if "whitelisted w" for w m
    using that by (cases m) (blast intro: whitelisted_poll whitelisted_answer whitelisted_other)+
qed

text \<open>C26: A sync with a whitelist asks the backend only for objects that were put on its whitelist, in every run.\<close>

theorem only_whitelisted_objects_are_fetched:
  assumes "initDownstreamObjectSyncWithWhitelist model entityName p = Some w"
    and "run (flight_step (\<lambda>u. whitelist_nextRequest S T) (whitelist_respond S T) (whitelist_send S)) ((w, st), []) ms = ((w', st'), fl)"
  shows "set (map fst fl) \<subseteq> set (whitelist w')"
proof -
  have "whitelisted ((w, st), [])"
    using assms(1) by (auto simp: whitelisted_def initDownstreamObjectSyncWithWhitelist_def initDownstreamWithFilter_def
        initDownstreamObjectSync_def initSyncOperationSet_def)
  from whitelist_sync.run_invar [OF this, of S T ms] show ?thesis
    by (simp add: assms(2) whitelisted_def)
qed

section \<open>ZMChangeTrackerBootstrap\<close>

text \<open>
  A fetch request names an entity and has a predicate or none. Executing one belongs to the data model; \<open>fetch\<close>
  gives the objects of an entity that match, at the state \<open>st\<close> in which the bootstrap runs.
\<close>

record 's NSFetchRequest =
  fetch_entityName :: NSString
  fetch_predicate :: "'s NSPredicate option"

record ('s, 't) ZMContextChangeTracker =
  tracker_objectsDidChange :: "ZMManagedObject list \<Rightarrow> 't \<Rightarrow> 't"
  tracker_fetchRequestForTrackedObjects :: "'t \<Rightarrow> 's NSFetchRequest option"
  tracker_addTrackedObjects :: "ZMManagedObject list \<Rightarrow> 't \<Rightarrow> 't"

record 's ZMChangeTrackerBootstrap =
  entitiesByName :: "NSString \<Rightarrow> bool"
  fetch :: "NSString \<Rightarrow> 's NSPredicate \<Rightarrow> ZMManagedObject list"
  boot_state :: 's

definition entityForEntityName :: "'s ZMChangeTrackerBootstrap \<Rightarrow> NSString \<Rightarrow> objc_failure + NSString" where
  "entityForEntityName B name = (if entitiesByName B name then Inr name else Inl AssertionFailure)"

definition sortFetchRequestsByEntity ::
  "'s ZMChangeTrackerBootstrap \<Rightarrow> 's NSFetchRequest list \<Rightarrow> objc_failure + (NSString \<times> 's NSPredicate list) list" where
  "sortFetchRequestsByEntity B requests =
     foldE (\<lambda>request requestsMap.
       case fetch_predicate request of
         None \<Rightarrow> Inr requestsMap
       | Some p \<Rightarrow>
           (case entityForEntityName B (fetch_entityName request) of
              Inl e \<Rightarrow> Inl e
            | Inr entity \<Rightarrow>
                Inr (dict_put entity
                  (case map_of requestsMap entity of None \<Rightarrow> [p] | Some predicates \<Rightarrow> predicates @ [p]) requestsMap)))
       requests []"

definition compoundPredicate :: "'s NSPredicate list \<Rightarrow> 's NSPredicate" where
  "compoundPredicate predicates st mo = list_ex (\<lambda>p. p st mo) predicates"

definition executeMappedFetchRequests ::
  "'s ZMChangeTrackerBootstrap \<Rightarrow> (NSString \<times> 's NSPredicate list) list \<Rightarrow> (NSString \<times> ZMManagedObject list) list" where
  "executeMappedFetchRequests B requestsMap =
     filter (\<lambda>p. snd p \<noteq> []) (map (\<lambda>(entity, predicates). (entity, fetch B entity (compoundPredicate predicates))) requestsMap)"

definition objectsToUpdate ::
  "'s ZMChangeTrackerBootstrap \<Rightarrow> (NSString \<times> ZMManagedObject list) list \<Rightarrow> 's NSFetchRequest \<Rightarrow> objc_failure + ZMManagedObject list" where
  "objectsToUpdate B resultsMap request =
     map_sum id (\<lambda>entity.
       filter (\<lambda>mo. case fetch_predicate request of None \<Rightarrow> False | Some p \<Rightarrow> p (boot_state B) mo)
         (case map_of resultsMap entity of None \<Rightarrow> [] | Some results \<Rightarrow> results))
       (entityForEntityName B (fetch_entityName request))"

definition bootstrap_tracker ::
  "'s ZMChangeTrackerBootstrap \<Rightarrow> (NSString \<times> ZMManagedObject list) list \<Rightarrow> ('s, 't) ZMContextChangeTracker \<times> 't \<Rightarrow>
   objc_failure + ('s, 't) ZMContextChangeTracker \<times> 't" where
  "bootstrap_tracker B resultsMap c =
     (case tracker_fetchRequestForTrackedObjects (fst c) (snd c) of
        None \<Rightarrow> Inr c
      | Some request \<Rightarrow>
          map_sum id (\<lambda>mos. if mos \<noteq> [] then (fst c, tracker_addTrackedObjects (fst c) mos (snd c)) else c)
            (objectsToUpdate B resultsMap request))"

fun mapE :: "('a \<Rightarrow> 'e + 'b) \<Rightarrow> 'a list \<Rightarrow> 'e + 'b list" where
  "mapE f [] = Inr []"
| "mapE f (x # xs) =
     (case f x of Inl e \<Rightarrow> Inl e | Inr y \<Rightarrow> (case mapE f xs of Inl e \<Rightarrow> Inl e | Inr ys \<Rightarrow> Inr (y # ys)))"

definition fetchObjectsForChangeTrackers ::
  "'s ZMChangeTrackerBootstrap \<Rightarrow> (('s, 't) ZMContextChangeTracker \<times> 't) list \<Rightarrow>
   objc_failure + (('s, 't) ZMContextChangeTracker \<times> 't) list" where
  "fetchObjectsForChangeTrackers B trackers =
     (case sortFetchRequestsByEntity B
         (List.map_filter (\<lambda>c. tracker_fetchRequestForTrackedObjects (fst c) (snd c)) trackers) of
        Inl e \<Rightarrow> Inl e
      | Inr requestsMap \<Rightarrow> mapE (bootstrap_tracker B (executeMappedFetchRequests B requestsMap)) trackers)"

text \<open>Executing a request gives the objects of the entity that match the predicate.\<close>

definition fetches :: "'s ZMChangeTrackerBootstrap \<Rightarrow> (NSString \<Rightarrow> ZMManagedObject set) \<Rightarrow> bool" where
  "fetches B objects \<longleftrightarrow> (\<forall>e p. set (fetch B e p) = {mo \<in> objects e. p (boot_state B) mo})"

text \<open>Reference: every tracker fetches for itself; a request without a predicate gives all objects of its entity.\<close>

definition wanted :: "'s ZMChangeTrackerBootstrap \<Rightarrow> 's NSFetchRequest \<Rightarrow> ZMManagedObject list" where
  "wanted B request =
     fetch B (fetch_entityName request) (case fetch_predicate request of None \<Rightarrow> (\<lambda>st mo. True) | Some p \<Rightarrow> p)"

lemma sort_requests_fold:
  assumes "foldE (\<lambda>request requestsMap.
       case fetch_predicate request of
         None \<Rightarrow> Inr requestsMap
       | Some p \<Rightarrow>
           (case entityForEntityName B (fetch_entityName request) of
              Inl e \<Rightarrow> Inl e
            | Inr entity \<Rightarrow>
                Inr (dict_put entity
                  (case map_of requestsMap entity of None \<Rightarrow> [p] | Some predicates \<Rightarrow> predicates @ [p]) requestsMap)))
       requests m = Inr m'"
    and "distinct (map fst m)"
  shows "distinct (map fst m') \<and>
    (\<forall>e ps. map_of m e = Some ps \<longrightarrow> (\<exists>ps'. map_of m' e = Some ps' \<and> set ps \<subseteq> set ps')) \<and>
    (\<forall>r p. r \<in> set requests \<longrightarrow> fetch_predicate r = Some p \<longrightarrow>
       (\<exists>ps'. map_of m' (fetch_entityName r) = Some ps' \<and> p \<in> set ps'))"
  using assms
proof (induction requests arbitrary: m)
  case (Cons r rs)
  show ?case
  proof (cases "fetch_predicate r")
    case None
    with Cons.IH [of m] Cons.prems show ?thesis
      by auto
  next
    case (Some p)
    let ?ps = "case map_of m (fetch_entityName r) of None \<Rightarrow> [p] | Some predicates \<Rightarrow> predicates @ [p]"
    have ih: "distinct (map fst m') \<and>
        (\<forall>e ps. map_of (dict_put (fetch_entityName r) ?ps m) e = Some ps \<longrightarrow> (\<exists>ps'. map_of m' e = Some ps' \<and> set ps \<subseteq> set ps')) \<and>
        (\<forall>r p. r \<in> set rs \<longrightarrow> fetch_predicate r = Some p \<longrightarrow> (\<exists>ps'. map_of m' (fetch_entityName r) = Some ps' \<and> p \<in> set ps'))"
      by (rule Cons.IH) (use Cons.prems Some in \<open>auto simp: entityForEntityName_def split: if_splits\<close>)
    moreover have "map_of (dict_put (fetch_entityName r) ?ps m) (fetch_entityName r) = Some ?ps"
      by simp
    ultimately obtain ps' where new: "map_of m' (fetch_entityName r) = Some ps'" "set ?ps \<subseteq> set ps'"
      by blast
    have old: "\<exists>ps'. map_of m' e = Some ps' \<and> set ps \<subseteq> set ps'" if "map_of m e = Some ps" for e ps
      using ih new that by (cases "e = fetch_entityName r") auto
    have "p \<in> set ps'"
      using new(2) by (auto split: option.splits)
    with ih new(1) old Some show ?thesis
      by auto
  qed
qed simp

lemma map_of_nonempty_values:
  "distinct (map fst m) \<Longrightarrow> map_of (filter (\<lambda>p. snd p \<noteq> []) (map (\<lambda>(e, ps). (e, g e ps)) m)) e =
     (case map_of m e of None \<Rightarrow> None | Some ps \<Rightarrow> if g e ps = [] then None else Some (g e ps))"
  by (induction m) (auto split: option.splits simp: map_of_eq_None_iff image_iff)

lemma objectsToUpdate_wanted:
  assumes "fetches B objects" and "sortFetchRequestsByEntity B requests = Inr m" and "r \<in> set requests"
    and "entitiesByName B (fetch_entityName r)" and Some: "fetch_predicate r = Some p"
  obtains mos where "objectsToUpdate B (executeMappedFetchRequests B m) r = Inr mos" and "set mos = set (wanted B r)"
proof -
  from assms(2) have m: "distinct (map fst m)"
    "\<And>r p. r \<in> set requests \<Longrightarrow> fetch_predicate r = Some p \<Longrightarrow> \<exists>ps. map_of m (fetch_entityName r) = Some ps \<and> p \<in> set ps"
    unfolding sortFetchRequestsByEntity_def by (auto dest: sort_requests_fold)
  from m(2) [OF assms(3) Some] obtain ps where ps: "map_of m (fetch_entityName r) = Some ps" "p \<in> set ps"
    by blast
  let ?all = "fetch B (fetch_entityName r) (compoundPredicate ps)"
  have "(case map_of (executeMappedFetchRequests B m) (fetch_entityName r) of None \<Rightarrow> [] | Some results \<Rightarrow> results) = ?all"
    using m(1) ps(1) by (simp add: executeMappedFetchRequests_def map_of_nonempty_values)
  with assms(4) Some that [of "filter (p (boot_state B)) ?all"] ps(2) assms(1) show thesis
    by (auto simp: objectsToUpdate_def entityForEntityName_def wanted_def fetches_def compoundPredicate_def list_ex_iff)
qed

lemma mapE_all: "(\<And>x. x \<in> set xs \<Longrightarrow> \<exists>y. f x = Inr y \<and> P x y) \<Longrightarrow> \<exists>ys. mapE f xs = Inr ys \<and> list_all2 P xs ys"
  by (induction xs) (fastforce split: sum.splits)+

lemma foldE_total: "(\<And>x s. x \<in> set xs \<Longrightarrow> \<exists>s'. f x s = Inr s') \<Longrightarrow> \<exists>s'. foldE f xs s = Inr s'"
proof (induction xs arbitrary: s)
  case (Cons x xs)
  from Cons.prems [of x s] obtain s1 where "f x s = Inr s1"
    by auto
  with Cons show ?case
    by auto
qed simp

lemma objectsToUpdate_without_predicate:
  "entitiesByName B (fetch_entityName r) \<Longrightarrow> fetch_predicate r = None \<Longrightarrow> objectsToUpdate B m r = Inr []"
  by (simp add: objectsToUpdate_def entityForEntityName_def)

text \<open>C27: Fetching for all change trackers at once gives every tracker whose fetch request has a predicate exactly the
  objects that its own fetch request would give, and it is left alone when there are none. A tracker without a request, or
  with a request without a predicate, is left alone.\<close>

theorem bootstrap_equals_separate_fetches:
  assumes "fetches B objects"
    and "\<And>c r. c \<in> set trackers \<Longrightarrow> tracker_fetchRequestForTrackedObjects (fst c) (snd c) = Some r \<Longrightarrow>
      entitiesByName B (fetch_entityName r)"
  shows "\<exists>trackers'. fetchObjectsForChangeTrackers B trackers = Inr trackers' \<and>
    list_all2 (\<lambda>c c'. case tracker_fetchRequestForTrackedObjects (fst c) (snd c) of
        None \<Rightarrow> c' = c
      | Some r \<Rightarrow> \<exists>mos. set mos = (if fetch_predicate r = None then {} else set (wanted B r)) \<and>
          c' = (if mos = [] then c else (fst c, tracker_addTrackedObjects (fst c) mos (snd c)))) trackers trackers'"
proof -
  let ?rs = "List.map_filter (\<lambda>c. tracker_fetchRequestForTrackedObjects (fst c) (snd c)) trackers"
  have rs: "r \<in> set ?rs \<longleftrightarrow> (\<exists>c\<in>set trackers. tracker_fetchRequestForTrackedObjects (fst c) (snd c) = Some r)" for r
    by (force simp: map_filter_def)
  have "\<exists>m. sortFetchRequestsByEntity B ?rs = Inr m"
    unfolding sortFetchRequestsByEntity_def
    by (rule foldE_total) (use assms(2) rs in \<open>auto simp: entityForEntityName_def split: option.splits\<close>)
  then obtain m where m: "sortFetchRequestsByEntity B ?rs = Inr m"
    by blast
  have "\<exists>c'. bootstrap_tracker B (executeMappedFetchRequests B m) c = Inr c' \<and>
      (case tracker_fetchRequestForTrackedObjects (fst c) (snd c) of
        None \<Rightarrow> c' = c
      | Some r \<Rightarrow> \<exists>mos. set mos = (if fetch_predicate r = None then {} else set (wanted B r)) \<and>
          c' = (if mos = [] then c else (fst c, tracker_addTrackedObjects (fst c) mos (snd c))))"
    if "c \<in> set trackers" for c
  proof (cases "tracker_fetchRequestForTrackedObjects (fst c) (snd c)")
    case (Some r)
    with that rs have r: "r \<in> set ?rs" "entitiesByName B (fetch_entityName r)"
      using assms(2) by blast+
    obtain mos where "objectsToUpdate B (executeMappedFetchRequests B m) r = Inr mos"
      "set mos = (if fetch_predicate r = None then {} else set (wanted B r))"
    proof (cases "fetch_predicate r")
      case None
      with that [of "[]"] objectsToUpdate_without_predicate [OF r(2)] show thesis by simp
    next
      case (Some p)
      from objectsToUpdate_wanted [OF assms(1) m r this] that Some show thesis by auto
    qed
    with Some show ?thesis
      by (auto simp: bootstrap_tracker_def)
  qed (simp add: bootstrap_tracker_def)
  then show ?thesis
    unfolding fetchObjectsForChangeTrackers_def m sum.case by (rule mapE_all)
qed

text \<open>A tracker whose request has no predicate gets nothing, although its request alone would give every object of the entity.\<close>

lemma request_without_predicate_is_not_executed:
  assumes "fetch_predicate r = None" and "fetches B objects" and "entitiesByName B (fetch_entityName r)"
  shows "objectsToUpdate B m r = Inr [] \<and> set (wanted B r) = objects (fetch_entityName r)"
  using assms by (auto simp: objectsToUpdate_without_predicate wanted_def fetches_def)

section \<open>A sample\<close>

text \<open>The downstream sync as a change tracker: it fetches by its predicate.\<close>

definition down_tracker :: "'s object_store \<Rightarrow> 's \<Rightarrow> ('s, 's ZMDownstreamObjectSync) ZMContextChangeTracker" where
  "down_tracker S st = \<lparr>tracker_objectsDidChange = down_objectsDidChange S st,
     tracker_fetchRequestForTrackedObjects =
       (\<lambda>d. Some \<lparr>fetch_entityName = down_entity d, fetch_predicate = Some (predicateForObjectsToDownload d)\<rparr>),
     tracker_addTrackedObjects = down_addTrackedObjects st\<rparr>"

definition down_sample :: "(json \<times> NSString list) ZMDownstreamObjectSync" where
  "down_sample = \<lparr>objectsToDownload = initSyncOperationSet, down_entity = ''User'',
     predicateForObjectsToDownload = (\<lambda>st mo. mo = 7), down_filter = None, sortDescriptors = None\<rparr>"

definition down_transcoder :: "(json \<times> NSString list) ZMDownstreamTranscoder" where
  "down_transcoder = \<lparr>requestForFetchingObject =
       (\<lambda>mo st. (Some \<lparr>req_method = MethodGET, req_path = ''/users'', req_payload = None\<rparr>, st)),
     transcoder_deleteObject = (\<lambda>mo st. st), transcoder_updateObject = (\<lambda>mo resp st. st)\<rparr>"

definition boot_sample :: "(json \<times> NSString list) ZMChangeTrackerBootstrap" where
  "boot_sample = \<lparr>entitiesByName = (\<lambda>e. e = ''User''), fetch = (\<lambda>e p. filter (p (JNull, [])) [7, 8]), boot_state = (JNull, [])\<rparr>"

theorem bootstrap_equals_separate_fetches_witness:
  "\<exists>mos. set mos = {7} \<and> fetchObjectsForChangeTrackers boot_sample [(down_tracker name_store (JNull, []), down_sample)] =
     Inr [(down_tracker name_store (JNull, []), down_addTrackedObjects (JNull, []) mos down_sample)]"
proof -
  have "fetches boot_sample (\<lambda>e. {7, 8})"
    by (auto simp: fetches_def boot_sample_def)
  from bootstrap_equals_separate_fetches [OF this, of "[(down_tracker name_store (JNull, []), down_sample)]"] show ?thesis
    by (fastforce simp: down_tracker_def down_sample_def boot_sample_def wanted_def list_all2_Cons1)
qed

theorem downloads_are_never_doubled_witness:
  "\<exists>d d' st' fl. initDownstreamObjectSync (\<lambda>e. Some None) initSyncOperationSet ''User'' (\<lambda>st mo. True) None = Some d \<and>
     run (flight_step (\<lambda>u. down_nextRequest name_store down_transcoder) (down_respond name_store down_transcoder)
         (down_send name_store)) ((d, (JNull, [])), []) [Other (DownObjectsDidChange [7, 8]), Poll (), Poll ()] =
       ((d', st'), fl) \<and> distinct (map fst fl)"
proof -
  obtain d :: "(json \<times> NSString list) ZMDownstreamObjectSync"
    where d: "initDownstreamObjectSync (\<lambda>e. Some None) initSyncOperationSet ''User'' (\<lambda>st mo. True) None = Some d"
    by (simp add: initDownstreamObjectSync_def)
  obtain d' st' fl where r: "run (flight_step (\<lambda>u. down_nextRequest name_store down_transcoder)
      (down_respond name_store down_transcoder) (down_send name_store)) ((d, (JNull, [])), [])
      [Other (DownObjectsDidChange [7, 8]), Poll (), Poll ()] = ((d', st'), fl)"
    by (metis prod.exhaust)
  from downloads_are_never_doubled [OF d r] d r show ?thesis
    by blast
qed

lemma download_outcomes_example:
  "\<exists>d' st'. down_processResponse name_store down_transcoder
       \<lparr>resp_result = ZMTransportResponseStatusTryAgainLater, resp_HTTPStatus = 0, resp_payload = None, resp_payloadLabel = None\<rparr>
       7 [] (down_add 7 down_sample, (JNull, [])) = (d', st') \<and> 7 \<in> set (pendingOperationSet (objectsToDownload d'))"
proof -
  obtain d' st' where r: "down_processResponse name_store down_transcoder
       \<lparr>resp_result = ZMTransportResponseStatusTryAgainLater, resp_HTTPStatus = 0, resp_payload = None, resp_payloadLabel = None\<rparr>
       7 [] (down_add 7 down_sample, (JNull, [])) = (d', st')"
    by (metis prod.exhaust)
  from download_outcomes [OF r] r show ?thesis
    by auto
qed

theorem only_whitelisted_objects_are_fetched_witness:
  "\<exists>w w' st' fl. initDownstreamObjectSyncWithWhitelist (\<lambda>e. Some None) ''User'' (\<lambda>st mo. True) = Some w \<and>
     run (flight_step (\<lambda>u. whitelist_nextRequest name_store down_transcoder) (whitelist_respond name_store down_transcoder)
         (whitelist_send name_store)) ((w, (JNull, [])), []) [Other (WhiteListObject 7), Poll ()] = ((w', st'), fl) \<and>
     set (map fst fl) \<subseteq> set (whitelist w')"
proof -
  obtain w :: "(json \<times> NSString list) ZMDownstreamObjectSyncWithWhitelist"
    where w: "initDownstreamObjectSyncWithWhitelist (\<lambda>e. Some None) ''User'' (\<lambda>st mo. True) = Some w"
    by (simp add: initDownstreamObjectSyncWithWhitelist_def initDownstreamWithFilter_def initDownstreamObjectSync_def)
  obtain w' st' fl where r: "run (flight_step (\<lambda>u. whitelist_nextRequest name_store down_transcoder)
      (whitelist_respond name_store down_transcoder) (whitelist_send name_store)) ((w, (JNull, [])), [])
      [Other (WhiteListObject 7), Poll ()] = ((w', st'), fl)"
    by (metis prod.exhaust)
  from only_whitelisted_objects_are_fetched [OF w r] w r show ?thesis
    by blast
qed

end
