(* ===== verification/Tracing.thy ===== *)
theory Tracing
  imports Prelude "HOL-Library.Word"
begin

text \<open>
  The static trace points of \<^verbatim>\<open>Source/Utility\<close>: the probes \<^verbatim>\<open>ZMTracingProbes.d\<close> declares and the
  inline functions of \<^verbatim>\<open>ZMTracing.h\<close> that reach them. There is one datatype per section of the
  header, with a constructor per function, and a function that gives the probe sites a call executes.
  The lemmas show that each site passes arguments of the declared C types, with the one implicit conversion
  of C that is needed (\<^verbatim>\<open>int\<close> to \<^verbatim>\<open>intptr_t\<close>, in the probe of the scheduler), and which sites are guarded.

  \<^verbatim>\<open>int\<close> is a 32 bit word; \<^verbatim>\<open>intptr_t\<close>, \<^verbatim>\<open>NSInteger\<close>, \<^verbatim>\<open>NSUInteger\<close> and \<^verbatim>\<open>unsigned long\<close>
  are 64 bit words (the LP64 model), as are the addresses of objects, with 0 for \<^verbatim>\<open>nil\<close>. A C
  string is the text whose UTF-8 form is passed, \<open>None\<close> for \<^verbatim>\<open>NULL\<close>. Which probes are enabled is
  decided by the tracing runtime, and the text of a UUID by \<^verbatim>\<open>transportString\<close> of the transport
  framework: both are arguments.
\<close>

section \<open>Probes\<close>

type_synonym c_int = "32 word"
type_synonym intptr_t = "64 word"
type_synonym address = "64 word"
type_synonym c_string = "NSString option"

datatype (plugins only: code size) c_type = TInt | TPtr | TPtrs | TStr | TBool | TDouble | TULong

datatype (plugins only: code size) c_value =
    VInt c_int
  | VPtr intptr_t
  | VStr c_string
  | VBool bool
  | VDouble real
  | VULong "64 word"

primrec type_of_value :: "c_value \<Rightarrow> c_type" where
  "type_of_value (VInt _) = TInt"
| "type_of_value (VPtr _) = TPtr"
| "type_of_value (VStr _) = TStr"
| "type_of_value (VBool _) = TBool"
| "type_of_value (VDouble _) = TDouble"
| "type_of_value (VULong _) = TULong"

datatype (plugins only: code size) syncengine_sync =
  operation_loop_enqueue | operation_loop_push_channel_data | strategy_go_to_state
  | strategy_leave_state | strategy_update_event | strategy_update_event_string

datatype syncengine_ui = notification | message_window_change | message_window_notification

datatype syncengine_transcoder = call_state_req_update_is_joined

datatype (plugins only: code size) syncengine_transport =
  access_token_request | push_channel_creation | push_channel_creation_backoff
  | push_channel_creation_event | push_channel_ping_start_stop | push_channel_ping_fired
  | push_channel_event | web_socket_event | network_socket_event | session_task_error
  | session_task_transcoder | session_task | session_reachability | request_scheduler

datatype (plugins only: code size) syncengine_calling =
  calling_session | flow_manager_category | flow_acquire | flow_release | device_is_active
  | push_event_participant | push_event_self | downstream_event_participant
  | downstream_event_self | upstream_event_participant | upstream_event_self | voice_gain

datatype (plugins only: code size) syncengine_core_data =
  enqueue_save | perform_group_enter | perform_group_exit | manual_refresh

datatype (plugins only: code size) syncengine_auth =
  delete_cookie_data | add_cookie_data | update_cookie_data | detected_locked_keychain
  | user_session_started | user_session_login | credentials_deleted | credentials_set
  | login_state_fire_login_timer | login_state_enter | login_state_next_request
  | request_will_contain_token | request_will_contain_cookie | access_token_response

datatype syncengine_image = downsample_original | downsample_scale | downsample_recompress

datatype (plugins only: code size) probe =
    SyncProbe syncengine_sync
  | UiProbe syncengine_ui
  | TranscoderProbe syncengine_transcoder
  | TransportProbe syncengine_transport
  | CallingProbe syncengine_calling
  | CoreDataProbe syncengine_core_data
  | AuthProbe syncengine_auth
  | ImageProbe syncengine_image

text \<open>The parameter lists of the provider declarations.\<close>

primrec sync_parameters :: "syncengine_sync \<Rightarrow> c_type list" where
  "sync_parameters operation_loop_enqueue = [TInt, TInt, TPtr]"
| "sync_parameters operation_loop_push_channel_data = [TInt, TInt]"
| "sync_parameters strategy_go_to_state = [TStr]"
| "sync_parameters strategy_leave_state = [TStr]"
| "sync_parameters strategy_update_event = [TInt, TInt]"
| "sync_parameters strategy_update_event_string = [TInt, TStr]"

primrec ui_parameters :: "syncengine_ui \<Rightarrow> c_type list" where
  "ui_parameters notification = [TInt, TPtr, TStr, TStr, TInt, TInt, TInt, TInt]"
| "ui_parameters message_window_change = [TPtr, TPtr, TInt, TInt, TPtr, TPtrs, TPtr, TPtrs]"
| "ui_parameters message_window_notification = [TPtr, TPtr, TInt]"

primrec transcoder_parameters :: "syncengine_transcoder \<Rightarrow> c_type list" where
  "transcoder_parameters call_state_req_update_is_joined = [TInt, TStr, TInt]"

primrec transport_parameters :: "syncengine_transport \<Rightarrow> c_type list" where
  "transport_parameters access_token_request = [TInt, TInt, TPtr]"
| "transport_parameters push_channel_creation = [TInt, TPtr, TInt]"
| "transport_parameters push_channel_creation_backoff = [TInt, TInt]"
| "transport_parameters push_channel_creation_event = [TInt, TPtr, TInt]"
| "transport_parameters push_channel_ping_start_stop = [TPtr, TInt, TInt]"
| "transport_parameters push_channel_ping_fired = [TPtr]"
| "transport_parameters push_channel_event = [TPtr, TPtr, TInt]"
| "transport_parameters web_socket_event = [TPtr, TPtr, TInt, TInt]"
| "transport_parameters network_socket_event = [TPtr, TPtr, TInt, TInt]"
| "transport_parameters session_task_transcoder = [TPtr, TInt]"
| "transport_parameters session_task = [TInt, TPtr, TStr, TStr, TInt, TInt, TStr, TStr]"
| "transport_parameters session_task_error = [TInt, TPtr, TStr, TPtr]"
| "transport_parameters session_reachability = [TInt, TInt]"
| "transport_parameters request_scheduler = [TInt, TPtr, TPtr]"

primrec calling_parameters :: "syncengine_calling \<Rightarrow> c_type list" where
  "calling_parameters calling_session = [TStr]"
| "calling_parameters flow_manager_category = [TStr, TInt]"
| "calling_parameters flow_acquire = [TStr]"
| "calling_parameters flow_release = [TStr]"
| "calling_parameters device_is_active = [TStr, TInt]"
| "calling_parameters push_event_participant = [TStr, TStr, TInt, TInt]"
| "calling_parameters push_event_self = [TStr, TInt, TInt]"
| "calling_parameters downstream_event_participant = [TStr, TStr, TInt, TInt]"
| "calling_parameters downstream_event_self = [TStr, TInt, TInt]"
| "calling_parameters upstream_event_participant = [TStr, TStr, TInt, TInt]"
| "calling_parameters upstream_event_self = [TStr, TInt, TInt]"
| "calling_parameters voice_gain = [TStr, TStr, TDouble]"

primrec core_data_parameters :: "syncengine_core_data \<Rightarrow> c_type list" where
  "core_data_parameters enqueue_save = [TInt, TInt, TInt]"
| "core_data_parameters perform_group_enter = [TInt]"
| "core_data_parameters perform_group_exit = []"
| "core_data_parameters manual_refresh = [TStr, TInt]"

primrec auth_parameters :: "syncengine_auth \<Rightarrow> c_type list" where
  "auth_parameters delete_cookie_data = [TInt]"
| "auth_parameters add_cookie_data = [TInt]"
| "auth_parameters update_cookie_data = [TInt]"
| "auth_parameters detected_locked_keychain = []"
| "auth_parameters user_session_started = [TBool, TBool]"
| "auth_parameters user_session_login = [TStr, TInt]"
| "auth_parameters credentials_deleted = []"
| "auth_parameters credentials_set = []"
| "auth_parameters login_state_fire_login_timer = []"
| "auth_parameters login_state_enter = [TInt]"
| "auth_parameters login_state_next_request = [TInt, TBool]"
| "auth_parameters request_will_contain_token = [TStr]"
| "auth_parameters request_will_contain_cookie = [TStr]"
| "auth_parameters access_token_response = [TInt, TBool]"

primrec image_parameters :: "syncengine_image \<Rightarrow> c_type list" where
  "image_parameters downsample_original = [TULong, TStr]"
| "image_parameters downsample_scale = [TULong, TStr]"
| "image_parameters downsample_recompress = [TULong, TStr]"

primrec probe_parameters :: "probe \<Rightarrow> c_type list" where
  "probe_parameters (SyncProbe p) = sync_parameters p"
| "probe_parameters (UiProbe p) = ui_parameters p"
| "probe_parameters (TranscoderProbe p) = transcoder_parameters p"
| "probe_parameters (TransportProbe p) = transport_parameters p"
| "probe_parameters (CallingProbe p) = calling_parameters p"
| "probe_parameters (CoreDataProbe p) = core_data_parameters p"
| "probe_parameters (AuthProbe p) = auth_parameters p"
| "probe_parameters (ImageProbe p) = image_parameters p"

text \<open>
  A call of a trace function returns a \<^verbatim>\<open>BOOL\<close> or nothing, and executes probe sites with
  arguments. The environment is the tracing runtime and \<^verbatim>\<open>transportString\<close>.
\<close>

type_synonym site = "probe \<times> c_value list"
type_synonym traced = "bool option \<times> site list"

record tracing_env =
  enabled :: "probe \<Rightarrow> bool"
  transportString :: "NSUUID \<Rightarrow> NSString"

definition uuid_text :: "tracing_env \<Rightarrow> NSUUID option \<Rightarrow> c_value" where
  "uuid_text env u = VStr (map_option (transportString env) u)"

definition site :: "probe \<Rightarrow> c_value list \<Rightarrow> traced" where
  "site p vs = (None, [(p, vs)])"

definition guarded :: "tracing_env \<Rightarrow> probe \<Rightarrow> c_value list \<Rightarrow> traced" where
  "guarded env p vs = (None, if enabled env p then [(p, vs)] else [])"

definition query :: "tracing_env \<Rightarrow> probe \<Rightarrow> traced" where
  "query env p = (Some (enabled env p), [])"

definition guarded_if :: "tracing_env \<Rightarrow> probe \<Rightarrow> bool \<Rightarrow> c_value list \<Rightarrow> site list" where
  "guarded_if env p b vs = (if enabled env p \<and> b then [(p, vs)] else [])"

section \<open>ZMOperationLoop and ZMSyncStrategy\<close>

datatype (plugins only: code size) sync_trace =
    ZMTraceOperationLoopEnqueueRequest c_int c_int intptr_t
  | ZMTraceOperationLoopEnqueueRequest_id c_int c_int address
  | ZMTraceOperationLoopPushChannelData c_int c_int
  | ZMTraceSyncStrategyGoToState "NSString option"
  | ZMTraceSyncStrategyDidLeaveState "NSString option"
  | ZMTraceSyncStrategyGoToStateEnabled
  | ZMTraceSyncStrategyDidLeaveStateEnabled
  | ZMTraceSyncStrategyUpdateEvent c_int c_int
  | ZMTraceSyncStrategyUpdateEventString_Enabled
  | ZMTraceSyncStrategyUpdateEventString c_int c_string

definition state_text :: "NSString option \<Rightarrow> c_value" where
  "state_text state = VStr (Some (case state of None \<Rightarrow> ''<nil>'' | Some s \<Rightarrow> s))"

primrec trace_sync :: "tracing_env \<Rightarrow> sync_trace \<Rightarrow> traced" where
  "trace_sync env (ZMTraceOperationLoopEnqueueRequest d i e) =
     site (SyncProbe operation_loop_enqueue) [VInt d, VInt i, VPtr e]"
| "trace_sync env (ZMTraceOperationLoopEnqueueRequest_id d i e) =
     site (SyncProbe operation_loop_enqueue) [VInt d, VInt i, VPtr e]"
| "trace_sync env (ZMTraceOperationLoopPushChannelData d count) =
     site (SyncProbe operation_loop_push_channel_data) [VInt d, VInt count]"
| "trace_sync env (ZMTraceSyncStrategyGoToState state) =
     site (SyncProbe strategy_go_to_state) [state_text state]"
| "trace_sync env (ZMTraceSyncStrategyDidLeaveState state) =
     site (SyncProbe strategy_leave_state) [state_text state]"
| "trace_sync env ZMTraceSyncStrategyGoToStateEnabled = query env (SyncProbe strategy_go_to_state)"
| "trace_sync env ZMTraceSyncStrategyDidLeaveStateEnabled = query env (SyncProbe strategy_leave_state)"
| "trace_sync env (ZMTraceSyncStrategyUpdateEvent d t) =
     site (SyncProbe strategy_update_event) [VInt d, VInt t]"
| "trace_sync env ZMTraceSyncStrategyUpdateEventString_Enabled =
     query env (SyncProbe strategy_update_event_string)"
| "trace_sync env (ZMTraceSyncStrategyUpdateEventString d t) =
     site (SyncProbe strategy_update_event_string) [VInt d, VStr t]"

section \<open>User interface notifications and transcoders\<close>

datatype (plugins only: code size) ui_trace =
    ZMTraceUserInterfaceNotificationEnabled
  | ZMTraceUserInterfaceNotification_UUID c_int address "NSUUID option" "NSUUID option" c_int c_int c_int c_int
  | ZMTraceUserInterfaceNotification_String c_int address "NSUUID option" "NSString option" c_int c_int c_int c_int
  | ZMTraceTranscoderCallStateRequestUpdateIsJoined c_int "NSUUID option" c_int

primrec trace_ui :: "tracing_env \<Rightarrow> ui_trace \<Rightarrow> traced" where
  "trace_ui env ZMTraceUserInterfaceNotificationEnabled = query env (UiProbe notification)"
| "trace_ui env (ZMTraceUserInterfaceNotification_UUID d obj u1 u2 e f g h) =
     guarded env (UiProbe notification)
       [VInt d, VPtr obj, uuid_text env u1, uuid_text env u2, VInt e, VInt f, VInt g, VInt h]"
| "trace_ui env (ZMTraceUserInterfaceNotification_String d obj u1 string e f g h) =
     guarded env (UiProbe notification)
       [VInt d, VPtr obj, uuid_text env u1, VStr string, VInt e, VInt f, VInt g, VInt h]"
| "trace_ui env (ZMTraceTranscoderCallStateRequestUpdateIsJoined d u e) =
     guarded env (TranscoderProbe call_state_req_update_is_joined) [VInt d, uuid_text env u, VInt e]"

section \<open>ZMTransportSession and related classes\<close>

text \<open>
  The error of a finished task is its domain and code. The scheduler's probe takes \<^verbatim>\<open>intptr_t\<close> where
  the functions pass an \<^verbatim>\<open>int\<close>.
\<close>

datatype (plugins only: code size) transport_trace =
    ZMTraceTransportSessionAccessTokenRequest c_int c_int "64 word"
  | ZMTraceTransportSessionPushChannel c_int address c_int
  | ZMTraceTransportSessionPushChannelBackoff c_int c_int
  | ZMTraceTransportSessionPushChannelEvent c_int address c_int
  | ZMTraceTransportSessionTaskCompletedWithError c_int "64 word" "(NSString option \<times> 64 word) option"
  | ZMTraceTransportSessionReachability c_int c_int
  | ZMTraceTransportRequestScheduler c_int c_int c_int
  | ZMTraceTransportRequestSchedulerObject c_int address
  | ZMTracePushChannelPingStartStop address c_int c_int
  | ZMTracePushChannelPingFired address
  | ZMTracePushChannelEvent address address c_int
  | ZMTraceWebSocketEvent address address c_int c_int
  | ZMTraceNetworkSocketEvent address address c_int c_int

primrec trace_transport :: "tracing_env \<Rightarrow> transport_trace \<Rightarrow> traced" where
  "trace_transport env (ZMTraceTransportSessionAccessTokenRequest d statusCode taskID) =
     site (TransportProbe access_token_request) [VInt d, VInt statusCode, VPtr taskID]"
| "trace_transport env (ZMTraceTransportSessionPushChannel d pc e) =
     site (TransportProbe push_channel_creation) [VInt d, VPtr pc, VInt e]"
| "trace_transport env (ZMTraceTransportSessionPushChannelBackoff c milliseconds) =
     site (TransportProbe push_channel_creation_backoff) [VInt c, VInt milliseconds]"
| "trace_transport env (ZMTraceTransportSessionPushChannelEvent d pc e) =
     site (TransportProbe push_channel_creation_event) [VInt d, VPtr pc, VInt e]"
| "trace_transport env (ZMTraceTransportSessionTaskCompletedWithError d taskID error) =
     (case error of
        None \<Rightarrow> (None, [])
      | Some (domain, code) \<Rightarrow>
          guarded env (TransportProbe session_task_error) [VInt d, VPtr taskID, VStr domain, VPtr code])"
| "trace_transport env (ZMTraceTransportSessionReachability d e) =
     site (TransportProbe session_reachability) [VInt d, VInt e]"
| "trace_transport env (ZMTraceTransportRequestScheduler d e f) =
     site (TransportProbe request_scheduler) [VInt d, VInt e, VInt f]"
| "trace_transport env (ZMTraceTransportRequestSchedulerObject d obj) =
     site (TransportProbe request_scheduler) [VInt d, VPtr obj, VInt 0]"
| "trace_transport env (ZMTracePushChannelPingStartStop pc d milliseconds) =
     site (TransportProbe push_channel_ping_start_stop) [VPtr pc, VInt d, VInt milliseconds]"
| "trace_transport env (ZMTracePushChannelPingFired pc) =
     site (TransportProbe push_channel_ping_fired) [VPtr pc]"
| "trace_transport env (ZMTracePushChannelEvent pc ws d) =
     site (TransportProbe push_channel_event) [VPtr pc, VPtr ws, VInt d]"
| "trace_transport env (ZMTraceWebSocketEvent ws ns d e) =
     site (TransportProbe web_socket_event) [VPtr ws, VPtr ns, VInt d, VInt e]"
| "trace_transport env (ZMTraceNetworkSocketEvent ns sock d e) =
     site (TransportProbe network_socket_event) [VPtr ns, VPtr sock, VInt d, VInt e]"

section \<open>Calling\<close>

datatype (plugins only: code size) calling_trace =
    ZMTraceCallSessionEnabled
  | ZMTraceCallSession "NSString option"
  | ZMTraceCallDeviceIsActive "NSUUID option" c_int
  | ZMTraceFlowManagerCategory "NSString option" c_int
  | ZMTraceCallEventParticipant "NSUUID option" "NSUUID option" c_int c_int c_int
  | ZMTraceCallEventSelf "NSUUID option" c_int c_int c_int
  | ZMTraceCallFlowAcquire "NSString option"
  | ZMTraceCallFlowRelease "NSString option"
  | ZMTraceCallVoiceGain "NSUUID option" "NSUUID option" real

primrec trace_calling :: "tracing_env \<Rightarrow> calling_trace \<Rightarrow> traced" where
  "trace_calling env ZMTraceCallSessionEnabled = query env (CallingProbe calling_session)"
| "trace_calling env (ZMTraceCallSession session) = site (CallingProbe calling_session) [VStr session]"
| "trace_calling env (ZMTraceCallDeviceIsActive u d) =
     guarded env (CallingProbe device_is_active) [uuid_text env u, VInt d]"
| "trace_calling env (ZMTraceFlowManagerCategory remoteIdentifier d) =
     guarded env (CallingProbe flow_manager_category) [VStr remoteIdentifier, VInt d]"
| "trace_calling env (ZMTraceCallEventParticipant conversation user d e f) =
     (let vs = [uuid_text env conversation, uuid_text env user, VInt e, VInt f]
      in (None, guarded_if env (CallingProbe push_event_participant) (d = 0) vs @
                guarded_if env (CallingProbe downstream_event_participant) (d = 1) vs @
                guarded_if env (CallingProbe upstream_event_participant) (d = 2) vs))"
| "trace_calling env (ZMTraceCallEventSelf conversation d backendState currentState) =
     (let vs = [uuid_text env conversation, VInt backendState, VInt currentState]
      in (None, guarded_if env (CallingProbe push_event_self) (d = 0) vs @
                guarded_if env (CallingProbe downstream_event_self) (d = 1) vs @
                guarded_if env (CallingProbe upstream_event_self) (d = 2) vs))"
| "trace_calling env (ZMTraceCallFlowAcquire conversation) =
     guarded env (CallingProbe flow_acquire) [VStr conversation]"
| "trace_calling env (ZMTraceCallFlowRelease conversation) =
     guarded env (CallingProbe flow_release) [VStr conversation]"
| "trace_calling env (ZMTraceCallVoiceGain conversation user gain) =
     guarded env (CallingProbe voice_gain) [uuid_text env conversation, uuid_text env user, VDouble gain]"

section \<open>Core Data\<close>

record traced_context =
  zm_isSyncContext :: bool
  zm_isSearchContext :: bool

record traced_object =
  objectURI :: NSString
  objectContext :: "traced_context option"

definition managedObjectContextType :: "traced_context option \<Rightarrow> c_int" where
  "managedObjectContextType moc =
     (case moc of
        None \<Rightarrow> 0
      | Some c \<Rightarrow> if zm_isSyncContext c then 1 else if zm_isSearchContext c then 2 else 0)"

datatype (plugins only: code size) core_data_trace =
    ZMTraceObjectContextEnqueueSave c_int c_int c_int
  | ZMTraceObjectContextPerformStart "traced_context option"
  | ZMTraceObjectContextManualRefresh "traced_object option"
  | ZMTraceObjectContextPerformEnd

primrec trace_core_data :: "tracing_env \<Rightarrow> core_data_trace \<Rightarrow> traced" where
  "trace_core_data env (ZMTraceObjectContextEnqueueSave d e f) =
     site (CoreDataProbe enqueue_save) [VInt d, VInt e, VInt f]"
| "trace_core_data env (ZMTraceObjectContextPerformStart moc) =
     guarded env (CoreDataProbe perform_group_enter) [VInt (managedObjectContextType moc)]"
| "trace_core_data env (ZMTraceObjectContextManualRefresh ob) =
     guarded env (CoreDataProbe manual_refresh)
       [VStr (map_option objectURI ob), VInt (managedObjectContextType (Option.bind ob objectContext))]"
| "trace_core_data env ZMTraceObjectContextPerformEnd = site (CoreDataProbe perform_group_exit) []"

section \<open>Authentication\<close>

datatype (plugins only: code size) auth_trace =
    ZMTraceAuthDeleteCookie c_int
  | ZMTraceAuthAddCookieData c_int
  | ZMTraceAuthUpdateCookieData c_int
  | ZMTraceAuthLockedKeychainDetected
  | ZMTraceAuthUserSessionStarted bool bool
  | ZMTraceAuthUserSessionLogin "NSString option" "64 word"
  | ZMTraceAuthCredentialsDeleted
  | ZMTraceAuthCredentialsSet
  | ZMTraceAuthLoginStateFiredLoginTimer
  | ZMTraceAuthLoginStateEnter c_int
  | ZMTraceAuthLoginStateNextRequest c_int "ZMTransportRequest option"
  | ZMTraceAuthRequestWillContainToken "NSString option"
  | ZMTraceAuthRequestWillContainCookie "NSString option"
  | ZMTraceAuthTokenResponse "64 word" bool

primrec trace_auth :: "auth_trace \<Rightarrow> traced" where
  "trace_auth (ZMTraceAuthDeleteCookie d) = site (AuthProbe delete_cookie_data) [VInt d]"
| "trace_auth (ZMTraceAuthAddCookieData d) = site (AuthProbe add_cookie_data) [VInt d]"
| "trace_auth (ZMTraceAuthUpdateCookieData d) = site (AuthProbe update_cookie_data) [VInt d]"
| "trace_auth ZMTraceAuthLockedKeychainDetected = site (AuthProbe detected_locked_keychain) []"
| "trace_auth (ZMTraceAuthUserSessionStarted hasCookie hasCredentials) =
     site (AuthProbe user_session_started) [VBool hasCookie, VBool hasCredentials]"
| "trace_auth (ZMTraceAuthUserSessionLogin mail passwordLength) =
     site (AuthProbe user_session_login) [VStr mail, VInt (ucast passwordLength)]"
| "trace_auth ZMTraceAuthCredentialsDeleted = site (AuthProbe credentials_deleted) []"
| "trace_auth ZMTraceAuthCredentialsSet = site (AuthProbe credentials_set) []"
| "trace_auth ZMTraceAuthLoginStateFiredLoginTimer = site (AuthProbe login_state_fire_login_timer) []"
| "trace_auth (ZMTraceAuthLoginStateEnter d) = site (AuthProbe login_state_enter) [VInt d]"
| "trace_auth (ZMTraceAuthLoginStateNextRequest d request) =
     site (AuthProbe login_state_next_request) [VInt d, VBool (request \<noteq> None)]"
| "trace_auth (ZMTraceAuthRequestWillContainToken path) =
     site (AuthProbe request_will_contain_token) [VStr path]"
| "trace_auth (ZMTraceAuthRequestWillContainCookie path) =
     site (AuthProbe request_will_contain_cookie) [VStr path]"
| "trace_auth (ZMTraceAuthTokenResponse httpStatus hasNewAccessTokenData) =
     site (AuthProbe access_token_response) [VInt (ucast httpStatus), VBool hasNewAccessTokenData]"

section \<open>Images\<close>

datatype image_trace =
    ZMTraceImageDownsampleOriginal "64 word" "NSString option"
  | ZMTraceImageDownsampleScale "64 word" "NSString option"
  | ZMTraceImageDownsampleRecompress "64 word" "NSString option"

primrec trace_image :: "image_trace \<Rightarrow> traced" where
  "trace_image (ZMTraceImageDownsampleOriginal n format) =
     site (ImageProbe downsample_original) [VULong n, VStr format]"
| "trace_image (ZMTraceImageDownsampleScale n format) =
     site (ImageProbe downsample_scale) [VULong n, VStr format]"
| "trace_image (ZMTraceImageDownsampleRecompress n format) =
     site (ImageProbe downsample_recompress) [VULong n, VStr format]"

section \<open>Every trace call\<close>

datatype (plugins only: code size) trace_call =
    SyncTrace sync_trace
  | UiTrace ui_trace
  | TransportTrace transport_trace
  | CallingTrace calling_trace
  | CoreDataTrace core_data_trace
  | AuthTrace auth_trace
  | ImageTrace image_trace

primrec trace :: "tracing_env \<Rightarrow> trace_call \<Rightarrow> traced" where
  "trace env (SyncTrace t) = trace_sync env t"
| "trace env (UiTrace t) = trace_ui env t"
| "trace env (TransportTrace t) = trace_transport env t"
| "trace env (CallingTrace t) = trace_calling env t"
| "trace env (CoreDataTrace t) = trace_core_data env t"
| "trace env (AuthTrace t) = trace_auth t"
| "trace env (ImageTrace t) = trace_image t"

text \<open>What a probe gets: an \<^verbatim>\<open>int\<close> passed for an \<^verbatim>\<open>intptr_t\<close> is sign extended.\<close>

definition as_parameter :: "c_type \<Rightarrow> c_value \<Rightarrow> c_value" where
  "as_parameter t v = (case (t, v) of (TPtr, VInt i) \<Rightarrow> VPtr (scast i) | _ \<Rightarrow> v)"

definition received :: "probe \<Rightarrow> c_value list \<Rightarrow> c_value list" where
  "received p vs = map2 as_parameter (probe_parameters p) vs"

definition matches :: "probe \<Rightarrow> c_value list \<Rightarrow> bool" where
  "matches p vs \<longleftrightarrow> length vs = length (probe_parameters p) \<and> map type_of_value (received p vs) = probe_parameters p"

definition well_typed :: "traced \<Rightarrow> bool" where
  "well_typed r \<longleftrightarrow> list_all (\<lambda>(p, vs). matches p vs) (snd r)"

lemmas site_defs = site_def guarded_def query_def guarded_if_def uuid_text_def state_text_def

lemmas match_defs = matches_def received_def as_parameter_def uuid_text_def state_text_def

lemma well_typed_sites [simp]:
  "well_typed (site p vs) \<longleftrightarrow> matches p vs" "matches p vs \<Longrightarrow> well_typed (guarded env p vs)"
  "well_typed (query env p)" "well_typed (None, [])"
  by (simp_all add: well_typed_def site_defs)

lemma well_typed_parts:
  "well_typed (trace_sync env a)" "well_typed (trace_ui env b)" "well_typed (trace_transport env c)"
  "well_typed (trace_core_data env d)" "well_typed (trace_auth e)" "well_typed (trace_image f)"
       apply (cases a; simp add: match_defs)
      apply (cases b; simp add: match_defs)
     apply (cases c; simp add: match_defs split: option.split)
    apply (cases d; simp add: match_defs)
   apply (cases e; simp add: match_defs)
  apply (cases f; simp add: match_defs)
  done

lemma well_typed_calling: "well_typed (trace_calling env c)"
  by (cases c) (simp_all add: well_typed_def site_defs match_defs Let_def)

text \<open>Every probe site of every trace function passes arguments of the number and, once \<^verbatim>\<open>int\<close> is converted to
  \<^verbatim>\<open>intptr_t\<close>, of the C types that the provider declares for the probe.\<close>

lemma traces_match_declarations: "well_typed (trace env c)"
  by (cases c) (simp_all add: well_typed_parts well_typed_calling)

text \<open>The numbers of the scheduler need that conversion.\<close>

lemma scheduler_numbers_are_converted:
  "map type_of_value [VInt d, VInt e, VInt f] \<noteq> probe_parameters (TransportProbe request_scheduler) \<and>
   received (TransportProbe request_scheduler) [VInt d, VInt e, VInt f] = [VInt d, VPtr (scast e), VPtr (scast f)]"
  by (simp add: received_def as_parameter_def)

text \<open>No trace function executes two probe sites, so the order of the sites of a call is immaterial.\<close>

lemma at_most_one_site: "length (snd (trace env c)) \<le> 1"
proof (cases c)
  case (SyncTrace t) then show ?thesis by (cases t) (simp_all add: site_defs)
next
  case (UiTrace t) then show ?thesis by (cases t) (simp_all add: site_defs)
next
  case (TransportTrace t) then show ?thesis by (cases t) (simp_all add: site_defs split: option.split)
next
  case (CallingTrace t) then show ?thesis by (cases t) (auto simp: site_defs Let_def)
next
  case (CoreDataTrace t) then show ?thesis by (cases t) (simp_all add: site_defs)
next
  case (AuthTrace t) then show ?thesis by (cases t) (simp_all add: site_defs)
next
  case (ImageTrace t) then show ?thesis by (cases t) (simp_all add: site_defs)
qed

text \<open>A name of a state never reaches its probe as \<^verbatim>\<open>NULL\<close>.\<close>

lemma state_name_not_null: "state_text s \<noteq> VStr None"
  by (simp add: state_text_def)

text \<open>The password length, a 64 bit number, is reported exactly as long as it fits 32 bits; the login
  code passes 0 or 1.\<close>

lemma password_length_reported:
  assumes "unat n < 2 ^ 32"
  shows "\<exists>k. snd (trace_auth (ZMTraceAuthUserSessionLogin mail n)) =
           [(AuthProbe user_session_login, [VStr mail, VInt k])] \<and> unat k = unat n"
  using assms by (simp add: site_def unsigned_ucast_eq unsigned_take_bit_eq take_bit_nat_eq_self)

end
