(* ===== verification/PushTokens.thy ===== *)
theory PushTokens
  imports SingleRequest ClientRegistration
begin

text \<open>
  Push tokens: \<^verbatim>\<open>ZMPushToken\<close> with its archive format, the two token properties that
  \<^verbatim>\<open>ZMPushToken.m\<close> adds to the managed object context (persistent metadata with a cache in
  \<^verbatim>\<open>userInfo\<close>), the hexadecimal form of a token, and \<^verbatim>\<open>ZMPushTokenTranscoder\<close>, which registers and
  removes the tokens on the backend.

  \<^verbatim>\<open>NSKeyedArchiver\<close> is an argument with archives of any type \<open>'d\<close>; the only thing relied on is
  \<open>archiver_law\<close>, that unarchiving an archive under its key gives back what was coded. An archive
  that holds another class under a key of the token is not modelled.
\<close>

section \<open>ZMPushToken\<close>

record ZMPushToken =
  deviceToken :: "NSData option"
  appIdentifier :: "NSString option"
  transportType :: "NSString option"
  fallback :: "NSString option"
  isRegistered :: bool
  isMarkedForDeletion :: bool

definition initWithDeviceToken ::
  "NSData option \<Rightarrow> NSString option \<Rightarrow> NSString option \<Rightarrow> NSString option \<Rightarrow> bool \<Rightarrow> ZMPushToken" where
  "initWithDeviceToken d app tt fb registered =
     \<lparr>deviceToken = d, appIdentifier = app, transportType = tt, fallback = fb, isRegistered = registered,
      isMarkedForDeletion = False\<rparr>"

text \<open>What a coder holds: the objects and the flags, by key.\<close>

record NSCoder =
  codedData :: "(NSString \<times> NSData) list"
  codedStrings :: "(NSString \<times> NSString) list"
  codedBools :: "(NSString \<times> bool) list"

definition encode_if :: "NSString \<Rightarrow> 'a option \<Rightarrow> (NSString \<times> 'a) list" where
  "encode_if k v = (case v of None \<Rightarrow> [] | Some x \<Rightarrow> [(k, x)])"

definition encodeWithCoder :: "ZMPushToken \<Rightarrow> NSCoder" where
  "encodeWithCoder t =
     \<lparr>codedData = encode_if ''deviceToken'' (deviceToken t),
      codedStrings = encode_if ''identifier'' (appIdentifier t) @ encode_if ''transportType'' (transportType t) @
        encode_if ''fallback'' (fallback t),
      codedBools = [(''isRegistered'', isRegistered t), (''isMarkedForDeletion'', isMarkedForDeletion t)]\<rparr>"

definition decodeBool :: "NSString \<Rightarrow> NSCoder \<Rightarrow> bool" where
  "decodeBool k c = (case map_of (codedBools c) k of None \<Rightarrow> False | Some b \<Rightarrow> b)"

definition initWithCoder :: "NSCoder \<Rightarrow> ZMPushToken" where
  "initWithCoder c =
     \<lparr>deviceToken = map_of (codedData c) ''deviceToken'', appIdentifier = map_of (codedStrings c) ''identifier'',
      transportType = map_of (codedStrings c) ''transportType'', fallback = map_of (codedStrings c) ''fallback'',
      isRegistered = decodeBool ''isRegistered'' c, isMarkedForDeletion = decodeBool ''isMarkedForDeletion'' c\<rparr>"

text \<open>\<^verbatim>\<open>isEqual:\<close> does not compare \<^verbatim>\<open>isRegistered\<close>. The argument is a token or \<^verbatim>\<open>nil\<close>.\<close>

definition token_isEqual :: "ZMPushToken \<Rightarrow> ZMPushToken option \<Rightarrow> bool" where
  "token_isEqual self ob =
     (case ob of
        None \<Rightarrow> False
      | Some other \<Rightarrow>
          deviceToken self = deviceToken other \<and> appIdentifier self = appIdentifier other \<and>
          transportType self = transportType other \<and> isMarkedForDeletion self = isMarkedForDeletion other \<and>
          fallback self = fallback other)"

definition unregisteredCopy :: "ZMPushToken \<Rightarrow> ZMPushToken" where
  "unregisteredCopy t =
     initWithDeviceToken (deviceToken t) (appIdentifier t) (transportType t) (fallback t) False"

definition forDeletionMarkedCopy :: "ZMPushToken \<Rightarrow> ZMPushToken option" where
  "forDeletionMarkedCopy t =
     (if \<not> isRegistered t then None else Some (t\<lparr>isRegistered := True, isMarkedForDeletion := True\<rparr>))"

text \<open>The interface of the class, as the copies a client can ask for.\<close>

datatype ZMPushToken_msg =
    InitWithDeviceToken "NSData option" "NSString option" "NSString option" "NSString option" bool
  | UnregisteredCopy
  | ForDeletionMarkedCopy

primrec token_send :: "ZMPushToken_msg \<Rightarrow> ZMPushToken option \<Rightarrow> ZMPushToken option" where
  "token_send (InitWithDeviceToken d app tt fb registered) t = Some (initWithDeviceToken d app tt fb registered)"
| "token_send UnregisteredCopy t = map_option unregisteredCopy t"
| "token_send ForDeletionMarkedCopy t = Option.bind t forDeletionMarkedCopy"

definition only_registered_marked :: "ZMPushToken option \<Rightarrow> bool" where
  "only_registered_marked t =
     (case t of None \<Rightarrow> True | Some t \<Rightarrow> isMarkedForDeletion t \<longrightarrow> isRegistered t)"

lemma only_registered_marked_step: "only_registered_marked t \<Longrightarrow> only_registered_marked (token_send m t)"
  by (cases m; cases t)
     (auto simp: only_registered_marked_def initWithDeviceToken_def unregisteredCopy_def forDeletionMarkedCopy_def)

interpretation push_token: component token_send only_registered_marked
  by unfold_locales (rule only_registered_marked_step)

lemma coder_round_trip [simp]: "initWithCoder (encodeWithCoder t) = t"
  by (cases t)
     (simp add: initWithCoder_def encodeWithCoder_def decodeBool_def encode_if_def map_add_def
        split: option.split)

section \<open>The token properties of the managed object context\<close>

record 'd archiver =
  archivedData :: "NSString \<Rightarrow> NSCoder \<Rightarrow> 'd"
  unarchived :: "'d \<Rightarrow> NSString \<Rightarrow> NSCoder option"

definition archiver_law :: "'d archiver \<Rightarrow> bool" where
  "archiver_law A \<longleftrightarrow> (\<forall>k c. unarchived A (archivedData A k c) k = Some c)"

definition PushTokenKey :: NSString where "PushTokenKey = ''pushToken''"
definition PushKitTokenKey :: NSString where "PushKitTokenKey = ''ZMPushKitToken''"
definition PushTokenDataKey :: NSString where "PushTokenDataKey = ''pushTokenData''"
definition PushKitTokenDataKey :: NSString where "PushKitTokenDataKey = ''ZMPushTokenData''"

record 'd token_context =
  storeMetadata :: "NSString \<Rightarrow> 'd option"
  userInfoData :: "NSString \<Rightarrow> 'd option"
  userInfoToken :: "NSString \<Rightarrow> ZMPushToken option"

definition decode_token :: "'d archiver \<Rightarrow> NSString \<Rightarrow> 'd \<Rightarrow> ZMPushToken option" where
  "decode_token A k d = map_option initWithCoder (unarchived A d k)"

text \<open>The getters and setters of the two properties differ in their keys only.\<close>

definition cached_token :: "NSString \<Rightarrow> NSString \<Rightarrow> 'd \<Rightarrow> 'd token_context \<Rightarrow> ZMPushToken option" where
  "cached_token k dk d c = (if userInfoData c dk = Some d then userInfoToken c k else None)"

definition token_getter ::
  "'d archiver \<Rightarrow> NSString \<Rightarrow> NSString \<Rightarrow> 'd token_context \<Rightarrow> ZMPushToken option \<times> 'd token_context" where
  "token_getter A k dk c =
     (case storeMetadata c k of
        None \<Rightarrow> (None, c)
      | Some d \<Rightarrow>
          (case cached_token k dk d c of
             Some t \<Rightarrow> (Some t, c)
           | None \<Rightarrow>
               (let t = decode_token A k d
                in (t, c\<lparr>userInfoData := (userInfoData c)(dk := Some d),
                         userInfoToken := (userInfoToken c)(k := t)\<rparr>))))"

definition token_setter ::
  "'d archiver \<Rightarrow> NSString \<Rightarrow> NSString \<Rightarrow> ZMPushToken option \<Rightarrow> 'd token_context \<Rightarrow> 'd token_context" where
  "token_setter A k dk t c =
     (let d = map_option (\<lambda>t. archivedData A k (encodeWithCoder t)) t
      in c\<lparr>storeMetadata := (storeMetadata c)(k := d), userInfoData := (userInfoData c)(dk := d),
           userInfoToken := (userInfoToken c)(k := t)\<rparr>)"

definition pushToken :: "'d archiver \<Rightarrow> 'd token_context \<Rightarrow> ZMPushToken option \<times> 'd token_context" where
  "pushToken A = token_getter A PushTokenKey PushTokenDataKey"

definition setPushToken :: "'d archiver \<Rightarrow> ZMPushToken option \<Rightarrow> 'd token_context \<Rightarrow> 'd token_context" where
  "setPushToken A = token_setter A PushTokenKey PushTokenDataKey"

definition pushKitToken :: "'d archiver \<Rightarrow> 'd token_context \<Rightarrow> ZMPushToken option \<times> 'd token_context" where
  "pushKitToken A = token_getter A PushKitTokenKey PushKitTokenDataKey"

definition setPushKitToken :: "'d archiver \<Rightarrow> ZMPushToken option \<Rightarrow> 'd token_context \<Rightarrow> 'd token_context" where
  "setPushKitToken A = token_setter A PushKitTokenKey PushKitTokenDataKey"

text \<open>
  The messages of the category, and \<open>MetadataReplaced\<close>: the metadata belongs to the store, which
  other contexts write as well.
\<close>

datatype 'd NSManagedObjectContext_PushToken =
    GetPushToken
  | SetPushToken "ZMPushToken option"
  | GetPushKitToken
  | SetPushKitToken "ZMPushToken option"
  | MetadataReplaced NSString "'d option"

primrec token_context_send ::
  "'d archiver \<Rightarrow> 'd NSManagedObjectContext_PushToken \<Rightarrow> 'd token_context \<Rightarrow> 'd token_context" where
  "token_context_send A GetPushToken c = snd (pushToken A c)"
| "token_context_send A (SetPushToken t) c = setPushToken A t c"
| "token_context_send A GetPushKitToken c = snd (pushKitToken A c)"
| "token_context_send A (SetPushKitToken t) c = setPushKitToken A t c"
| "token_context_send A (MetadataReplaced k d) c = c\<lparr>storeMetadata := (storeMetadata c)(k := d)\<rparr>"

text \<open>What is stored, without the cache.\<close>

definition stored_token :: "'d archiver \<Rightarrow> NSString \<Rightarrow> 'd token_context \<Rightarrow> ZMPushToken option" where
  "stored_token A k c = Option.bind (storeMetadata c k) (decode_token A k)"

definition cache_agrees :: "'d archiver \<Rightarrow> NSString \<Rightarrow> NSString \<Rightarrow> 'd token_context \<Rightarrow> bool" where
  "cache_agrees A k dk c \<longleftrightarrow>
     (\<forall>d t. userInfoData c dk = Some d \<longrightarrow> userInfoToken c k = Some t \<longrightarrow> decode_token A k d = Some t)"

definition caches_agree :: "'d archiver \<Rightarrow> 'd token_context \<Rightarrow> bool" where
  "caches_agree A c \<longleftrightarrow>
     cache_agrees A PushTokenKey PushTokenDataKey c \<and> cache_agrees A PushKitTokenKey PushKitTokenDataKey c"

definition empty_token_context :: "'d token_context" where
  "empty_token_context = \<lparr>storeMetadata = (\<lambda>_. None), userInfoData = (\<lambda>_. None), userInfoToken = (\<lambda>_. None)\<rparr>"

lemmas token_keys = PushTokenKey_def PushKitTokenKey_def PushTokenDataKey_def PushKitTokenDataKey_def
lemmas token_properties = pushToken_def setPushToken_def pushKitToken_def setPushKitToken_def

lemma distinct_token_keys [simp]:
  "PushTokenKey \<noteq> PushKitTokenKey" "PushKitTokenKey \<noteq> PushTokenKey"
  "PushTokenDataKey \<noteq> PushKitTokenDataKey" "PushKitTokenDataKey \<noteq> PushTokenDataKey"
  by (simp_all add: token_keys)

lemma decode_archived [simp]:
  "archiver_law A \<Longrightarrow> decode_token A k (archivedData A k (encodeWithCoder t)) = Some t"
  by (simp add: archiver_law_def decode_token_def)

lemma getter_reads_store:
  "cache_agrees A k dk c \<Longrightarrow> fst (token_getter A k dk c) = stored_token A k c"
  by (auto simp: token_getter_def cached_token_def stored_token_def cache_agrees_def Let_def split: option.splits)

lemma getter_keeps_store [simp]: "storeMetadata (snd (token_getter A k dk c)) = storeMetadata c"
  by (simp add: token_getter_def Let_def split: option.split)

lemma getter_keeps_own_cache: "cache_agrees A k dk c \<Longrightarrow> cache_agrees A k dk (snd (token_getter A k dk c))"
  by (simp add: token_getter_def cached_token_def cache_agrees_def Let_def split: option.split)

lemma getter_keeps_other_cache:
  "cache_agrees A k dk c \<Longrightarrow> k \<noteq> k' \<Longrightarrow> dk \<noteq> dk' \<Longrightarrow> cache_agrees A k dk (snd (token_getter A k' dk' c))"
  by (simp add: token_getter_def cache_agrees_def Let_def split: option.split)

lemma setter_keeps_own_cache: "archiver_law A \<Longrightarrow> cache_agrees A k dk (token_setter A k dk t c)"
  by (auto simp: token_setter_def cache_agrees_def Let_def)

lemma setter_keeps_other_cache:
  "cache_agrees A k dk c \<Longrightarrow> k \<noteq> k' \<Longrightarrow> dk \<noteq> dk' \<Longrightarrow> cache_agrees A k dk (token_setter A k' dk' t c)"
  by (simp add: token_setter_def cache_agrees_def Let_def)

lemma setter_stores [simp]:
  "archiver_law A \<Longrightarrow> stored_token A k (token_setter A k dk t c) = t"
  "k \<noteq> k' \<Longrightarrow> stored_token A k (token_setter A k' dk' t c) = stored_token A k c"
  by (cases t; simp add: stored_token_def token_setter_def Let_def)+

lemmas cache_rules = getter_keeps_own_cache getter_keeps_other_cache setter_keeps_own_cache
  setter_keeps_other_cache

lemma caches_agree_step:
  assumes "archiver_law A" "caches_agree A c"
  shows "caches_agree A (token_context_send A m c)"
proof (cases m)
  case (MetadataReplaced k d)
  then show ?thesis using assms(2) by (simp add: caches_agree_def cache_agrees_def)
qed (use assms in \<open>auto simp: caches_agree_def token_properties intro!: cache_rules\<close>)

lemma caches_agree_run:
  assumes "archiver_law A"
  shows "caches_agree A (run (token_context_send A) empty_token_context ms)"
  by (rule run_invariant, rule caches_agree_step [OF assms], assumption)
     (simp add: caches_agree_def cache_agrees_def empty_token_context_def)

text \<open>C28: after any sequence of reads and writes of the two token properties, with other contexts
  replacing the metadata in between, reading a property gives what the store holds: the cache in
  \<^verbatim>\<open>userInfo\<close> is never stale.\<close>

theorem token_cache_is_never_stale:
  assumes "archiver_law A"
    and "c = run (token_context_send A) empty_token_context ms"
  shows "fst (pushToken A c) = stored_token A PushTokenKey c \<and>
         fst (pushKitToken A c) = stored_token A PushKitTokenKey c"
  using caches_agree_run [OF assms(1), of ms] assms(2)
  by (simp add: caches_agree_def token_properties getter_reads_store)

text \<open>An archiver that keeps the coder beside its key.\<close>

definition plain_archiver :: "(NSString \<times> NSCoder) archiver" where
  "plain_archiver = \<lparr>archivedData = Pair, unarchived = (\<lambda>(k, c) k'. if k = k' then Some c else None)\<rparr>"

lemma plain_archiver_law [simp]: "archiver_law plain_archiver"
  by (simp add: archiver_law_def plain_archiver_def)

definition sample_token :: ZMPushToken where
  "sample_token = initWithDeviceToken (Some [18, 255]) (Some ''com.wire'') (Some ''APNS'') None False"

theorem token_cache_is_never_stale_witness:
  "archiver_law plain_archiver \<and>
   fst (pushToken plain_archiver
     (run (token_context_send plain_archiver) empty_token_context [GetPushToken, SetPushToken (Some sample_token)])) =
   Some sample_token"
  using token_cache_is_never_stale [OF plain_archiver_law refl, of "[GetPushToken, SetPushToken (Some sample_token)]"]
  by (simp add: setPushToken_def)

section \<open>The hexadecimal form of a token\<close>

text \<open>
  Characters up to \<^verbatim>\<open>U+00FF\<close>: \<^verbatim>\<open>length\<close> counts characters, the data is their UTF-8 form. The loop
  reads two bytes at a time and drops an odd last byte.
\<close>

definition utf8_char :: "char \<Rightarrow> nat list" where
  "utf8_char c =
     (let n = of_char c in if n < 128 then [n] else [192 + n div 64, 128 + n mod 64])"

definition dataUsingUTF8 :: "NSString \<Rightarrow> NSData" where
  "dataUsingUTF8 s = concat (map utf8_char s)"

text \<open>
  \<^verbatim>\<open>sscanf_l(s, locale, "%x", &value)\<close> on a C string: white space is skipped, a sign is accepted, then the
  longest run of hexadecimal digits is read. The text ends at the first 0 byte. With at most two
  characters a \<^verbatim>\<open>0x\<close> has no digit behind it and is read as 0.
\<close>

definition hex_digit :: "nat \<Rightarrow> nat option" where
  "hex_digit b =
     (if 48 \<le> b \<and> b \<le> 57 then Some (b - 48)
      else if 65 \<le> b \<and> b \<le> 70 then Some (b - 55)
      else if 97 \<le> b \<and> b \<le> 102 then Some (b - 87)
      else None)"

fun hex_digits :: "nat list \<Rightarrow> nat list" where
  "hex_digits [] = []"
| "hex_digits (b # bs) = (case hex_digit b of None \<Rightarrow> [] | Some d \<Rightarrow> d # hex_digits bs)"

definition hex_number :: "nat list \<Rightarrow> nat option" where
  "hex_number bs =
     (case hex_digits bs of [] \<Rightarrow> None | ds \<Rightarrow> Some (foldl (\<lambda>n d. n * 16 + d) 0 ds mod 2 ^ 32))"

definition is_space :: "nat \<Rightarrow> bool" where
  "is_space b \<longleftrightarrow> b = 32 \<or> (9 \<le> b \<and> b \<le> 13)"

definition scan_hex :: "nat list \<Rightarrow> nat option" where
  "scan_hex s =
     (case dropWhile is_space (takeWhile (\<lambda>b. b \<noteq> 0) s) of
        [] \<Rightarrow> None
      | b # bs \<Rightarrow>
          if b = 43 then hex_number bs
          else if b = 45 then map_option (\<lambda>v. (2 ^ 32 - v) mod 2 ^ 32) (hex_number bs)
          else hex_number (b # bs))"

fun token_bytes :: "nat list \<Rightarrow> NSData option" where
  "token_bytes (a # b # rest) =
     (case scan_hex [a, b] of
        None \<Rightarrow> None
      | Some v \<Rightarrow> map_option (\<lambda>bytes. v mod 256 # bytes) (token_bytes rest))"
| "token_bytes _ = Some []"

definition zmDeviceTokenData :: "NSString \<Rightarrow> NSData option" where
  "zmDeviceTokenData s = (if length s mod 2 = 0 then token_bytes (dataUsingUTF8 s) else None)"

text \<open>The \<^verbatim>\<open>%02x\<close> of a byte, as the transcoder writes it.\<close>

definition hex_char :: "nat \<Rightarrow> char" where
  "hex_char d = char_of (if d < 10 then 48 + d else 87 + d)"

definition hex_encode :: "NSData \<Rightarrow> NSString" where
  "hex_encode bs = concat (map (\<lambda>b. [hex_char (b div 16), hex_char (b mod 16)]) bs)"

lemma utf8_hex_char [simp]:
  "d < 16 \<Longrightarrow> utf8_char (hex_char d) = [if d < 10 then 48 + d else 87 + d]"
  by (simp add: utf8_char_def hex_char_def Let_def)

lemma hex_digit_of [simp]: "d < 16 \<Longrightarrow> hex_digit (if d < 10 then 48 + d else 87 + d) = Some d"
  by (auto simp: hex_digit_def)

lemma scan_hex_pair:
  assumes "h < 16" "l < 16"
  shows "scan_hex [if h < 10 then 48 + h else 87 + h, if l < 10 then 48 + l else 87 + l] = Some (h * 16 + l)"
proof -
  have d: "hex_digits [if h < 10 then 48 + h else 87 + h, if l < 10 then 48 + l else 87 + l] = [h, l]"
    using assms by (simp del: if_split)
  have "h * 16 + l < 2 ^ 32" using assms by simp
  with d have "hex_number [if h < 10 then 48 + h else 87 + h, if l < 10 then 48 + l else 87 + l] = Some (h * 16 + l)"
    by (simp add: hex_number_def)
  then show ?thesis using assms by (auto simp: scan_hex_def is_space_def)
qed

lemma dataUsingUTF8_hex_encode:
  "(\<And>b. b \<in> set bs \<Longrightarrow> b < 256) \<Longrightarrow> token_bytes (dataUsingUTF8 (hex_encode bs)) = Some bs"
proof (induction bs)
  case Nil
  then show ?case by (simp add: dataUsingUTF8_def hex_encode_def)
next
  case (Cons b bs)
  then have b: "b div 16 < 16" "b mod 16 < 16" "b < 256" by (auto simp: less_mult_imp_div_less)
  have rest: "token_bytes (dataUsingUTF8 (hex_encode bs)) = Some bs" using Cons by simp
  have "dataUsingUTF8 (hex_encode (b # bs)) =
      (if b div 16 < 10 then 48 + b div 16 else 87 + b div 16) #
      (if b mod 16 < 10 then 48 + b mod 16 else 87 + b mod 16) # dataUsingUTF8 (hex_encode bs)"
    using b by (simp add: dataUsingUTF8_def hex_encode_def del: if_split)
  then show ?case using b rest scan_hex_pair [OF b(1,2)] by (simp del: if_split)
qed

lemma length_hex_encode: "length (hex_encode bs) = 2 * length bs"
  by (induction bs) (simp_all add: hex_encode_def)

lemma hex_round_trip:
  "(\<And>b. b \<in> set bs \<Longrightarrow> b < 256) \<Longrightarrow> zmDeviceTokenData (hex_encode bs) = Some bs"
  by (simp add: zmDeviceTokenData_def length_hex_encode dataUsingUTF8_hex_encode)

text \<open>The parser is not strict: it reads texts that no token is written as.\<close>

lemma hex_parser_accepts_more:
  "zmDeviceTokenData ''-1'' = Some [255]" "zmDeviceTokenData '' 7'' = Some [7]" "zmDeviceTokenData ''7z'' = Some [7]"
  by (simp_all add: zmDeviceTokenData_def dataUsingUTF8_def utf8_char_def scan_hex_def is_space_def hex_number_def
        hex_digit_def)

end
