(* ===== verification/PushTokenTranscoder.thy ===== *)
theory PushTokenTranscoder
  imports PushTokens
begin

text \<open>
  \<^verbatim>\<open>ZMPushTokenTranscoder\<close>: four single request syncs register and remove the two push tokens. The
  transcoder's state is the four syncs, the token properties of its context and the number of
  \<^verbatim>\<open>save:\<close> calls. \<^verbatim>\<open>stringForKey:\<close> of the transport framework is read as the optional variant, which
  differs in a log message only. The identifier of the self client is an argument.

  The lemmas show the requests and outcomes; the properties show that a registration that the backend
  echoes ends with the token registered, that the same echo brings back a token that was removed
  meanwhile, and that a remove event cancels a removal that is under way.
\<close>

section \<open>State and requests\<close>

datatype (plugins only: code size) push_sync = ApplicationTokenSync | PushKitTokenSync | PushKitTokenDeletionSync | PushTokenDeletionSync

record 'd ZMPushTokenTranscoder =
  tokenSyncs :: "push_sync \<Rightarrow> ZMSingleRequestSync"
  tokenContext :: "'d token_context"
  saveCount :: nat

definition initPushTokenTranscoder :: "'d token_context \<Rightarrow> 'd ZMPushTokenTranscoder" where
  "initPushTokenTranscoder c =
     \<lparr>tokenSyncs = (\<lambda>_. initWithSingleRequestTranscoder), tokenContext = c, saveCount = 0\<rparr>"

definition push_requestGenerators :: "ZMClientRegistrationPhase \<Rightarrow> push_sync list" where
  "push_requestGenerators phase =
     (if phase \<noteq> ZMClientRegistrationPhaseRegistered then []
      else [ApplicationTokenSync, PushKitTokenSync, PushKitTokenDeletionSync, PushTokenDeletionSync])"

definition for_application :: "push_sync \<Rightarrow> bool" where
  "for_application r \<longleftrightarrow> r = ApplicationTokenSync \<or> r = PushTokenDeletionSync"

definition for_deletion :: "push_sync \<Rightarrow> bool" where
  "for_deletion r \<longleftrightarrow> r = PushKitTokenDeletionSync \<or> r = PushTokenDeletionSync"

definition tokenForSingleRequestSync ::
  "'d archiver \<Rightarrow> push_sync \<Rightarrow> 'd token_context \<Rightarrow> ZMPushToken option \<times> 'd token_context" where
  "tokenForSingleRequestSync A r = (if for_application r then pushToken A else pushKitToken A)"

definition setToken_forSingleRequestSync ::
  "'d archiver \<Rightarrow> ZMPushToken option \<Rightarrow> push_sync \<Rightarrow> 'd token_context \<Rightarrow> 'd token_context" where
  "setToken_forSingleRequestSync A t r = (if for_application r then setPushToken A t else setPushKitToken A t)"

definition push_payload :: "ZMPushToken \<Rightarrow> NSString option \<Rightarrow> json" where
  "push_payload t clientID =
     JObj (encode_if ''token'' (map_option (JStr \<circ> hex_encode) (deviceToken t)) @
           encode_if ''app'' (map_option JStr (appIdentifier t)) @
           encode_if ''transport'' (map_option JStr (transportType t)) @
           encode_if ''fallback'' (map_option JStr (fallback t)) @
           encode_if ''client'' (map_option JStr clientID))"

definition token_request :: "push_sync \<Rightarrow> NSString option \<Rightarrow> ZMPushToken \<Rightarrow> ZMTransportRequest option" where
  "token_request r clientID t =
     (let encodedToken = hex_encode (case deviceToken t of None \<Rightarrow> [] | Some d \<Rightarrow> d)
      in if encodedToken = '''' then None
         else if isMarkedForDeletion t then
           (if for_deletion r then
              Some \<lparr>req_method = MethodDELETE, req_path = ''/push/tokens/'' @ encodedToken, req_payload = None\<rparr>
            else None)
         else Some \<lparr>req_method = MethodPOST, req_path = ''/push/tokens'', req_payload = Some (push_payload t clientID)\<rparr>)"

definition push_requestForSingleRequestSync ::
  "'d archiver \<Rightarrow> NSString option \<Rightarrow> push_sync \<Rightarrow> ZMSingleRequestSync \<Rightarrow> 'd token_context \<Rightarrow>
   ZMTransportRequest option \<times> ZMSingleRequestSync \<times> 'd token_context" where
  "push_requestForSingleRequestSync A clientID r s c =
     (case tokenForSingleRequestSync A r c of
        (None, c) \<Rightarrow> (None, resetCompletionState s, c)
      | (Some t, c) \<Rightarrow>
          if isRegistered t \<and> \<not> isMarkedForDeletion t then (None, resetCompletionState s, c)
          else if deviceToken t = None \<or> appIdentifier t = None \<or> transportType t = None then
            (None, resetCompletionState s, setToken_forSingleRequestSync A None r c)
          else (token_request r clientID t, s, c))"

text \<open>
  A sync asks for a request only while it is in progress, when \<^verbatim>\<open>resetCompletionState\<close> does nothing. So
  the callback leaves the sync as it is, which is the form the callbacks of \<open>SingleRequest\<close> have.
\<close>

lemma request_keeps_sync:
  "status s = ZMSingleRequestInProgress \<Longrightarrow>
   fst (snd (push_requestForSingleRequestSync A clientID r s c)) = s"
  by (simp add: push_requestForSingleRequestSync_def resetCompletionState_def split: prod.split option.split)

section \<open>Responses\<close>

definition setPushTokenWithResponse ::
  "'d archiver \<Rightarrow> ZMTransportResponse \<Rightarrow> push_sync \<Rightarrow> 'd token_context \<Rightarrow> 'd token_context" where
  "setPushTokenWithResponse A response r c =
     (let p = asDictionary (resp_payload response);
          d = Option.bind (optionalStringForKey ''token'' p) zmDeviceTokenData;
          identifier = optionalStringForKey ''app'' p;
          tt = optionalStringForKey ''transport'' p;
          fb = optionalStringForKey ''fallback'' p
      in if d \<noteq> None \<and> identifier \<noteq> None \<and> tt \<noteq> None
         then setToken_forSingleRequestSync A (Some (initWithDeviceToken d identifier tt fb True)) r c
         else c)"

definition token_outcome ::
  "'d archiver \<Rightarrow> ZMTransportResponse \<Rightarrow> push_sync \<Rightarrow> 'd token_context \<Rightarrow> 'd token_context" where
  "token_outcome A response r c =
     (if for_deletion r then
        (case resp_result response of
           ZMTransportResponseStatusSuccess \<Rightarrow>
             (case tokenForSingleRequestSync A r c of
                (Some t, c) \<Rightarrow> if isMarkedForDeletion t then setToken_forSingleRequestSync A None r c else c
              | (None, c) \<Rightarrow> c)
         | ZMTransportResponseStatusPermanentError \<Rightarrow> setToken_forSingleRequestSync A None r c
         | _ \<Rightarrow> c)
      else if resp_result response = ZMTransportResponseStatusSuccess then setPushTokenWithResponse A response r c
      else setToken_forSingleRequestSync A None r c)"

definition push_didReceiveResponse ::
  "'d archiver \<Rightarrow> push_sync \<Rightarrow> ZMTransportResponse \<Rightarrow> ZMSingleRequestSync \<times> 'd token_context \<times> nat \<Rightarrow>
   ZMSingleRequestSync \<times> 'd token_context \<times> nat" where
  "push_didReceiveResponse A r response st =
     (case st of (s, c, saves) \<Rightarrow> (resetCompletionState s, token_outcome A response r c, Suc saves))"

definition push_transcoder ::
  "'d archiver \<Rightarrow> NSString option \<Rightarrow> push_sync \<Rightarrow> (ZMSingleRequestSync, 'd token_context \<times> nat) ZMSingleRequestTranscoder" where
  "push_transcoder A clientID r =
     \<lparr>requestForSingleRequestSync = (\<lambda>s (c, saves).
        (case push_requestForSingleRequestSync A clientID r s c of (req, _, c) \<Rightarrow> (req, c, saves))),
      didReceiveResponse_forSingleRequest = push_didReceiveResponse A r\<rparr>"

section \<open>Changes, events and the requests of the transcoder\<close>

definition put_sync ::
  "push_sync \<Rightarrow> ZMSingleRequestSync \<times> 'd token_context \<times> nat \<Rightarrow> 'd ZMPushTokenTranscoder \<Rightarrow> 'd ZMPushTokenTranscoder" where
  "put_sync r st x =
     (case st of (s, c, saves) \<Rightarrow> x\<lparr>tokenSyncs := (tokenSyncs x)(r := s), tokenContext := c, saveCount := saves\<rparr>)"

definition ready_unless_busy :: "push_sync \<Rightarrow> 'd ZMPushTokenTranscoder \<Rightarrow> 'd ZMPushTokenTranscoder" where
  "ready_unless_busy r x =
     (if status (tokenSyncs x r) \<noteq> ZMSingleRequestInProgress
      then x\<lparr>tokenSyncs := (tokenSyncs x)(r := readyForNextRequest (tokenSyncs x r))\<rparr> else x)"

definition schedule :: "ZMPushToken option \<Rightarrow> push_sync \<Rightarrow> push_sync \<Rightarrow> 'd ZMPushTokenTranscoder \<Rightarrow> 'd ZMPushTokenTranscoder" where
  "schedule t registration deletion x =
     (case t of
        None \<Rightarrow> x
      | Some t \<Rightarrow>
          if isMarkedForDeletion t then ready_unless_busy deletion x
          else if \<not> isRegistered t then ready_unless_busy registration x
          else x)"

definition push_objectsDidChange :: "'d archiver \<Rightarrow> 'd ZMPushTokenTranscoder \<Rightarrow> 'd ZMPushTokenTranscoder" where
  "push_objectsDidChange A x =
     (case pushToken A (tokenContext x) of (t, c) \<Rightarrow>
        let x = schedule t ApplicationTokenSync PushTokenDeletionSync (x\<lparr>tokenContext := c\<rparr>) in
        case pushKitToken A (tokenContext x) of (t, c) \<Rightarrow>
          schedule t PushKitTokenSync PushKitTokenDeletionSync (x\<lparr>tokenContext := c\<rparr>))"

definition push_processUpdateEvent ::
  "'d archiver \<Rightarrow> bool \<Rightarrow> 'd token_context \<Rightarrow> 'd token_context" where
  "push_processUpdateEvent A isUserPushRemove c =
     (if \<not> isUserPushRemove then c
      else case pushToken A c of (t, c) \<Rightarrow>
        let c = setPushToken A (map_option unregisteredCopy t) c in
        case pushKitToken A c of (t, c) \<Rightarrow> setPushKitToken A (map_option unregisteredCopy t) c)"

definition push_processEvents ::
  "'d archiver \<Rightarrow> bool list \<Rightarrow> bool \<Rightarrow> 'd ZMPushTokenTranscoder \<Rightarrow> 'd ZMPushTokenTranscoder" where
  "push_processEvents A events liveEvents x =
     (if \<not> liveEvents then x else x\<lparr>tokenContext := fold (push_processUpdateEvent A) events (tokenContext x)\<rparr>)"

definition ask_sync ::
  "'d archiver \<Rightarrow> NSString option \<Rightarrow> push_sync \<Rightarrow> 'd ZMPushTokenTranscoder \<Rightarrow>
   ZMTransportRequest option \<times> 'd ZMPushTokenTranscoder" where
  "ask_sync A clientID r x =
     (case nextRequest (push_transcoder A clientID r) (tokenSyncs x r, tokenContext x, saveCount x) of
        (req, st) \<Rightarrow> (req, put_sync r st x))"

definition push_nextRequest ::
  "'d archiver \<Rightarrow> NSString option \<Rightarrow> ZMClientRegistrationPhase \<Rightarrow> 'd ZMPushTokenTranscoder \<Rightarrow>
   ZMTransportRequest option \<times> 'd ZMPushTokenTranscoder" where
  "push_nextRequest A clientID phase x = nextRequest_array (ask_sync A clientID) (push_requestGenerators phase) x"

definition push_respond ::
  "'d archiver \<Rightarrow> push_sync \<Rightarrow> ZMTransportResponse \<Rightarrow> 32 word \<Rightarrow> 'd ZMPushTokenTranscoder \<Rightarrow> 'd ZMPushTokenTranscoder" where
  "push_respond A r response n x =
     put_sync r (processResponse (push_transcoder A None r) response n (tokenSyncs x r, tokenContext x, saveCount x)) x"

text \<open>The declared interface, with the protocol methods the class states that it has.\<close>

datatype (plugins only: code size) ZMPushTokenTranscoder_msg =
    PushObjectsDidChange
  | PushProcessEvents "bool list" bool
  | PushNextRequest ZMClientRegistrationPhase
  | PushResponse push_sync ZMTransportResponse "32 word"

primrec push_send ::
  "'d archiver \<Rightarrow> NSString option \<Rightarrow> ZMPushTokenTranscoder_msg \<Rightarrow> 'd ZMPushTokenTranscoder \<Rightarrow> 'd ZMPushTokenTranscoder" where
  "push_send A clientID PushObjectsDidChange x = push_objectsDidChange A x"
| "push_send A clientID (PushProcessEvents events live) x = push_processEvents A events live x"
| "push_send A clientID (PushNextRequest phase) x = snd (push_nextRequest A clientID phase x)"
| "push_send A clientID (PushResponse r response n) x = push_respond A r response n x"

section \<open>Tokens as the store holds them\<close>

definition token_of :: "'d archiver \<Rightarrow> push_sync \<Rightarrow> 'd token_context \<Rightarrow> ZMPushToken option" where
  "token_of A r = stored_token A (if for_application r then PushTokenKey else PushKitTokenKey)"

lemma getters_keep_stored [simp]:
  "stored_token A k (snd (pushToken A c)) = stored_token A k c"
  "stored_token A k (snd (pushKitToken A c)) = stored_token A k c"
  by (simp_all add: stored_token_def token_properties)

lemma getters_read_stored:
  "caches_agree A c \<Longrightarrow> fst (pushToken A c) = stored_token A PushTokenKey c"
  "caches_agree A c \<Longrightarrow> fst (pushKitToken A c) = stored_token A PushKitTokenKey c"
  by (simp_all add: caches_agree_def token_properties getter_reads_store)

lemma setters_store [simp]:
  "archiver_law A \<Longrightarrow> stored_token A PushTokenKey (setPushToken A t c) = t"
  "archiver_law A \<Longrightarrow> stored_token A PushKitTokenKey (setPushKitToken A t c) = t"
  "stored_token A PushKitTokenKey (setPushToken A t c) = stored_token A PushKitTokenKey c"
  "stored_token A PushTokenKey (setPushKitToken A t c) = stored_token A PushTokenKey c"
  by (simp_all add: token_properties)

lemma properties_keep_caches [inv_intros]:
  assumes "archiver_law A" "caches_agree A c"
  shows "caches_agree A (snd (pushToken A c))" "caches_agree A (snd (pushKitToken A c))"
    "caches_agree A (setPushToken A t c)" "caches_agree A (setPushKitToken A t c)"
  using caches_agree_step [OF assms, of GetPushToken] caches_agree_step [OF assms, of GetPushKitToken]
    caches_agree_step [OF assms, of "SetPushToken t"] caches_agree_step [OF assms, of "SetPushKitToken t"]
  by simp_all

lemma token_of_sync:
  "caches_agree A c \<Longrightarrow> fst (tokenForSingleRequestSync A r c) = token_of A r c"
  "token_of A r' (snd (tokenForSingleRequestSync A r c)) = token_of A r' c"
  by (simp_all add: tokenForSingleRequestSync_def token_of_def getters_read_stored)

lemma token_of_set [simp]:
  "archiver_law A \<Longrightarrow> token_of A r (setToken_forSingleRequestSync A t r c) = t"
  by (simp add: setToken_forSingleRequestSync_def token_of_def)

lemma token_operations_keep_caches [inv_intros]:
  assumes "archiver_law A" "caches_agree A c"
  shows "caches_agree A (snd (tokenForSingleRequestSync A r c))"
    "caches_agree A (setToken_forSingleRequestSync A t r c)"
    "caches_agree A (push_processUpdateEvent A removed c)"
  by (auto simp: tokenForSingleRequestSync_def setToken_forSingleRequestSync_def push_processUpdateEvent_def Let_def
      case_prod_beta intro!: properties_keep_caches assms)

lemma outcome_keeps_caches [inv_intros]:
  assumes "archiver_law A" "caches_agree A c"
  shows "caches_agree A (token_outcome A response r c)"
  using assms token_operations_keep_caches(1) [OF assms, of r]
  by (auto simp: token_outcome_def setPushTokenWithResponse_def Let_def intro!: token_operations_keep_caches
      split: ZMTransportResponseStatus.split prod.split option.split)

definition complete_token :: "ZMPushToken \<Rightarrow> bool" where
  "complete_token t \<longleftrightarrow>
     (\<exists>d. deviceToken t = Some d \<and> d \<noteq> [] \<and> (\<forall>b\<in>set d. b < 256)) \<and> appIdentifier t \<noteq> None \<and> transportType t \<noteq> None"

lemma complete_token_text: "complete_token t \<Longrightarrow> hex_encode (case deviceToken t of None \<Rightarrow> [] | Some d \<Rightarrow> d) \<noteq> ''''"
  by (auto simp: complete_token_def hex_encode_def neq_Nil_conv)

lemma registration_request:
  assumes "caches_agree A c" "token_of A r c = Some t" "\<not> isRegistered t" "\<not> isMarkedForDeletion t" "complete_token t"
  shows "fst (push_requestForSingleRequestSync A clientID r s c) =
    Some \<lparr>req_method = MethodPOST, req_path = ''/push/tokens'', req_payload = Some (push_payload t clientID)\<rparr>"
  using assms token_of_sync(1) [OF assms(1), of r] complete_token_text [OF assms(5)]
  by (auto simp: push_requestForSingleRequestSync_def token_request_def complete_token_def Let_def split: prod.split)

lemma deletion_request:
  assumes "caches_agree A c" "token_of A r c = Some t" "isMarkedForDeletion t" "complete_token t" "for_deletion r"
  shows "fst (push_requestForSingleRequestSync A clientID r s c) =
    Some \<lparr>req_method = MethodDELETE,
          req_path = ''/push/tokens/'' @ hex_encode (the (deviceToken t)), req_payload = None\<rparr>"
  using assms token_of_sync(1) [OF assms(1), of r] complete_token_text [OF assms(4)]
  by (auto simp: push_requestForSingleRequestSync_def token_request_def complete_token_def Let_def split: prod.split)

lemma payload_texts:
  "optionalStringForKey ''token'' (asDictionary (Some (push_payload t cid))) = map_option hex_encode (deviceToken t)"
  "optionalStringForKey ''app'' (asDictionary (Some (push_payload t cid))) = appIdentifier t"
  "optionalStringForKey ''transport'' (asDictionary (Some (push_payload t cid))) = transportType t"
  "optionalStringForKey ''fallback'' (asDictionary (Some (push_payload t cid))) = fallback t"
  by (auto simp: push_payload_def optionalStringForKey_def optionalValueForKey_def encode_if_def map_add_def
      split: option.split)

lemma echo_registers:
  assumes "archiver_law A" "complete_token t" "\<not> isMarkedForDeletion t" "\<not> for_deletion r"
    "resp_result response = ZMTransportResponseStatusSuccess" "resp_payload response = Some (push_payload t clientID)"
  shows "token_of A r (token_outcome A response r c) = Some (t\<lparr>isRegistered := True\<rparr>)"
proof -
  obtain d where d: "deviceToken t = Some d" "\<forall>b\<in>set d. b < 256" using assms(2) by (auto simp: complete_token_def)
  then have "zmDeviceTokenData (hex_encode d) = Some d" by (auto intro: hex_round_trip)
  with d assms show ?thesis
    by (auto simp: token_outcome_def setPushTokenWithResponse_def Let_def payload_texts complete_token_def
        initWithDeviceToken_def)
qed

lemma deletion_outcomes:
  assumes "archiver_law A" "caches_agree A c" "for_deletion r"
  shows "token_of A r (token_outcome A response r c) =
    (case resp_result response of
       ZMTransportResponseStatusSuccess \<Rightarrow>
         (case token_of A r c of Some t \<Rightarrow> if isMarkedForDeletion t then None else Some t | None \<Rightarrow> None)
     | ZMTransportResponseStatusPermanentError \<Rightarrow> None
     | _ \<Rightarrow> token_of A r c)"
  using assms token_of_sync(1) [OF assms(2), of r] token_of_sync(2) [of A r r c]
  by (auto simp: token_outcome_def split: ZMTransportResponseStatus.split prod.split option.split)

lemma push_remove_unregisters:
  assumes "archiver_law A" "caches_agree A c"
  shows "token_of A r (push_processUpdateEvent A True c) = map_option unregisteredCopy (token_of A r c)"
proof -
  have k: "caches_agree A (setPushToken A t (snd (pushToken A c)))" for t
    by (intro inv_intros assms)
  show ?thesis
    using getters_read_stored [OF assms(2)] getters_read_stored [OF k]
    by (auto simp: push_processUpdateEvent_def token_of_def Let_def case_prod_beta assms(1))
qed

section \<open>Properties\<close>

text \<open>Asking a sync that wants a request, and the answer to that request while the sync waits for it.\<close>

lemma ask_sync_wanted:
  assumes "progress_of (tokenSyncs x r) = PWanted"
    and "push_requestForSingleRequestSync A clientID r (tokenSyncs x r) (tokenContext x) = (Some req, s', c')"
  shows "ask_sync A clientID r x =
    (Some req, x\<lparr>tokenSyncs := (tokenSyncs x)(r := (tokenSyncs x r)\<lparr>currentRequest := Some req\<rparr>),
                 tokenContext := c'\<rparr>)"
  using assms
  by (auto simp: ask_sync_def nextRequest_def push_transcoder_def put_sync_def progress_of_def
      split: ZMSingleRequestProgress.splits option.splits)

lemma respond_success:
  assumes "resp_result response = ZMTransportResponseStatusSuccess"
  shows "tokenContext (push_respond A r response (requestUniqueCounter (tokenSyncs x r)) x) =
           token_outcome A response r (tokenContext x)"
    and "progress_of (tokenSyncs (push_respond A r response (requestUniqueCounter (tokenSyncs x r)) x) r) = PIdle"
  using assms
  by (simp_all add: push_respond_def processResponse_def push_transcoder_def push_didReceiveResponse_def put_sync_def
      resetCompletionState_def progress_of_def Let_def)

lemma ask_for_registration:
  assumes "caches_agree A (tokenContext x)" "token_of A r (tokenContext x) = Some t" "\<not> isRegistered t"
    "\<not> isMarkedForDeletion t" "complete_token t" "progress_of (tokenSyncs x r) = PWanted"
  shows "Option.bind (fst (ask_sync A clientID r x)) req_payload = Some (push_payload t clientID)"
    and "requestUniqueCounter (tokenSyncs (snd (ask_sync A clientID r x)) r) = requestUniqueCounter (tokenSyncs x r)"
proof -
  obtain s' c' where "push_requestForSingleRequestSync A clientID r (tokenSyncs x r) (tokenContext x) =
    (Some \<lparr>req_method = MethodPOST, req_path = ''/push/tokens'', req_payload = Some (push_payload t clientID)\<rparr>, s', c')"
    using registration_request [OF assms(1-5), of clientID "tokenSyncs x r"] by (metis prod.collapse)
  from ask_sync_wanted [OF assms(6) this]
  show "Option.bind (fst (ask_sync A clientID r x)) req_payload = Some (push_payload t clientID)"
    and "requestUniqueCounter (tokenSyncs (snd (ask_sync A clientID r x)) r) = requestUniqueCounter (tokenSyncs x r)"
    by simp_all
qed

text \<open>C39: A token that is not registered is uploaded in hexadecimal form, and the answer of a backend that
  echoes the upload leaves exactly that token stored as registered, with the sync idle.\<close>

theorem registration_round_trip:
  assumes "archiver_law A" "caches_agree A (tokenContext x)" "\<not> for_deletion r"
    and "token_of A r (tokenContext x) = Some t" "\<not> isRegistered t" "\<not> isMarkedForDeletion t" "complete_token t"
    and "progress_of (tokenSyncs x r) = PWanted"
    and "resp_result response = ZMTransportResponseStatusSuccess"
    and "resp_payload response = Option.bind (fst (ask_sync A clientID r x)) req_payload"
  shows "let y = push_respond A r response (requestUniqueCounter (tokenSyncs x r)) (snd (ask_sync A clientID r x))
         in token_of A r (tokenContext y) = Some (t\<lparr>isRegistered := True\<rparr>) \<and> progress_of (tokenSyncs y r) = PIdle"
proof -
  note ask = ask_for_registration [OF assms(2,4-8), of clientID]
  show ?thesis
    using respond_success [OF assms(9), of A r "snd (ask_sync A clientID r x)"]
      echo_registers [OF assms(1,7,6,3,9), of clientID "tokenContext (snd (ask_sync A clientID r x))"] assms(10) ask
    by (simp add: Let_def)
qed

text \<open>A context with one unregistered token, a transcoder that wants to upload it, and the backend's echo.\<close>

definition sample_context :: "(NSString \<times> NSCoder) token_context" where
  "sample_context = setPushToken plain_archiver (Some sample_token) empty_token_context"

definition sample_transcoder :: "(NSString \<times> NSCoder) ZMPushTokenTranscoder" where
  "sample_transcoder = ready_unless_busy ApplicationTokenSync (initPushTokenTranscoder sample_context)"

definition sample_echo :: ZMTransportResponse where
  "sample_echo = \<lparr>resp_result = ZMTransportResponseStatusSuccess, resp_HTTPStatus = 201,
     resp_payload = Some (push_payload sample_token None), resp_payloadLabel = None\<rparr>"

lemma sample_caches: "caches_agree plain_archiver sample_context"
  using caches_agree_run [OF plain_archiver_law, of "[SetPushToken (Some sample_token)]"]
  by (simp add: sample_context_def)

lemma sample_push_facts:
  "caches_agree plain_archiver (tokenContext sample_transcoder)" "\<not> for_deletion ApplicationTokenSync"
  "token_of plain_archiver ApplicationTokenSync (tokenContext sample_transcoder) = Some sample_token"
  "\<not> isRegistered sample_token" "\<not> isMarkedForDeletion sample_token" "complete_token sample_token"
  "progress_of (tokenSyncs sample_transcoder ApplicationTokenSync) = PWanted"
  "resp_result sample_echo = ZMTransportResponseStatusSuccess"
  using sample_caches
  by (simp_all add: sample_transcoder_def sample_context_def ready_unless_busy_def initPushTokenTranscoder_def
      initWithSingleRequestTranscoder_def readyForNextRequest_def progress_of_def for_deletion_def for_application_def
      token_of_def sample_token_def initWithDeviceToken_def complete_token_def sample_echo_def)

lemma sample_echo_payload:
  "resp_payload sample_echo =
     Option.bind (fst (ask_sync plain_archiver None ApplicationTokenSync sample_transcoder)) req_payload"
  using ask_for_registration(1) [OF sample_push_facts(1,3-7), of None] by (simp add: sample_echo_def)

theorem registration_round_trip_witness:
  "let y = push_respond plain_archiver ApplicationTokenSync sample_echo
       (requestUniqueCounter (tokenSyncs sample_transcoder ApplicationTokenSync))
       (snd (ask_sync plain_archiver None ApplicationTokenSync sample_transcoder))
   in token_of plain_archiver ApplicationTokenSync (tokenContext y) = Some (sample_token\<lparr>isRegistered := True\<rparr>) \<and>
      progress_of (tokenSyncs y ApplicationTokenSync) = PIdle"
  by (rule registration_round_trip [OF plain_archiver_law sample_push_facts sample_echo_payload])

text \<open>Removing the token while its registration is in flight has no lasting effect: whatever the context
  holds when the answer arrives, also no token at all, the token is stored as registered again.\<close>

lemma removed_token_comes_back:
  assumes "archiver_law A" "caches_agree A (tokenContext x)" "\<not> for_deletion r"
    and "token_of A r (tokenContext x) = Some t" "\<not> isRegistered t" "\<not> isMarkedForDeletion t" "complete_token t"
    and "progress_of (tokenSyncs x r) = PWanted"
    and "resp_result response = ZMTransportResponseStatusSuccess"
    and "resp_payload response = Option.bind (fst (ask_sync A clientID r x)) req_payload"
    and "removed = (snd (ask_sync A clientID r x))\<lparr>tokenContext :=
           setToken_forSingleRequestSync A (forDeletionMarkedCopy t) r (tokenContext (snd (ask_sync A clientID r x)))\<rparr>"
  shows "token_of A r (tokenContext removed) = None \<and>
    token_of A r (tokenContext (push_respond A r response (requestUniqueCounter (tokenSyncs x r)) removed)) =
      Some (t\<lparr>isRegistered := True\<rparr>)"
proof -
  note ask = ask_for_registration [OF assms(2,4-8), of clientID]
  show ?thesis
    using respond_success(1) [OF assms(9), of A r removed] assms(1,5,10,11) ask
      echo_registers [OF assms(1,7,6,3,9), of clientID "tokenContext removed"]
    by (simp add: forDeletionMarkedCopy_def)
qed

lemma removed_token_comes_back_example:
  "\<exists>removed. token_of plain_archiver ApplicationTokenSync (tokenContext removed) = None \<and>
     token_of plain_archiver ApplicationTokenSync (tokenContext
       (push_respond plain_archiver ApplicationTokenSync sample_echo
         (requestUniqueCounter (tokenSyncs sample_transcoder ApplicationTokenSync)) removed)) =
     Some (sample_token\<lparr>isRegistered := True\<rparr>)"
  using removed_token_comes_back [OF plain_archiver_law sample_push_facts sample_echo_payload refl] by blast

text \<open>A \<^verbatim>\<open>user.push-remove\<close> event that arrives while a token is being removed clears its deletion mark. The
  successful answer to the deletion then keeps the token, and it is offered for registration again.\<close>

lemma push_remove_undoes_deletion:
  assumes "archiver_law A" "caches_agree A c"
    and "token_of A PushTokenDeletionSync c = Some t" "isMarkedForDeletion t" "complete_token t"
    and "resp_result response = ZMTransportResponseStatusSuccess"
    and "after = token_outcome A response PushTokenDeletionSync (push_processUpdateEvent A True c)"
  shows "token_of A PushTokenDeletionSync after = Some (unregisteredCopy t) \<and>
    fst (push_requestForSingleRequestSync A clientID ApplicationTokenSync s after) =
      Some \<lparr>req_method = MethodPOST, req_path = ''/push/tokens'',
            req_payload = Some (push_payload (unregisteredCopy t) clientID)\<rparr>"
proof -
  let ?c = "push_processUpdateEvent A True c"
  have agree: "caches_agree A ?c" by (intro inv_intros assms(1,2))
  have kept: "token_of A PushTokenDeletionSync after = Some (unregisteredCopy t)"
    using deletion_outcomes [OF assms(1) agree, of PushTokenDeletionSync response] assms(3,6,7)
      push_remove_unregisters [OF assms(1,2), of PushTokenDeletionSync]
    by (simp add: for_deletion_def unregisteredCopy_def initWithDeviceToken_def)
  moreover have "caches_agree A after"
    using agree assms(1,7) by (simp add: inv_intros)
  moreover have "token_of A ApplicationTokenSync after = token_of A PushTokenDeletionSync after"
    by (simp add: token_of_def for_application_def)
  moreover have "complete_token (unregisteredCopy t)" "\<not> isRegistered (unregisteredCopy t)"
    "\<not> isMarkedForDeletion (unregisteredCopy t)"
    using assms(5) by (simp_all add: complete_token_def unregisteredCopy_def initWithDeviceToken_def)
  ultimately show ?thesis using registration_request by metis
qed

definition marked_token :: ZMPushToken where
  "marked_token = sample_token\<lparr>isRegistered := True, isMarkedForDeletion := True\<rparr>"

definition marked_context :: "(NSString \<times> NSCoder) token_context" where
  "marked_context = setPushToken plain_archiver (Some marked_token) empty_token_context"

lemma marked_facts:
  "caches_agree plain_archiver marked_context"
  "token_of plain_archiver PushTokenDeletionSync marked_context = Some marked_token"
  "isMarkedForDeletion marked_token" "complete_token marked_token"
  using caches_agree_run [OF plain_archiver_law, of "[SetPushToken (Some marked_token)]"]
  by (simp_all add: marked_context_def token_of_def for_application_def marked_token_def sample_token_def
      initWithDeviceToken_def complete_token_def)

lemma push_remove_undoes_deletion_example:
  "token_of plain_archiver PushTokenDeletionSync
     (token_outcome plain_archiver sample_echo PushTokenDeletionSync
       (push_processUpdateEvent plain_archiver True marked_context)) = Some (unregisteredCopy marked_token)"
  using push_remove_undoes_deletion [OF plain_archiver_law marked_facts sample_push_facts(8) refl] by blast

end
