(* ===== verification/UserSession.thy ===== *)
theory UserSession
  imports PushTokens
begin

text \<open>
  The facade \<^verbatim>\<open>ZMUserSession\<close> with its categories for internal use, push tokens, network state, registration,
  authentication, profile editing and clients. It composes the status objects of \<open>Authentication\<close>,
  \<open>ProfileUpdate\<close> and \<open>ClientRegistration\<close> with the token properties of \<open>PushTokens\<close>.

  A block given to a context's queue is run where it is enqueued, in the order of the statements. Calls to
  the data model, the transport session, the operation loop, delegates and the application object are
  recorded in \<open>effects\<close>. The validators of the data model, the push environment and the address book are
  fields of \<open>user_session_env\<close>. Messages to a session that has been torn down are not modelled.
\<close>

section \<open>Types\<close>

datatype ZMNetworkState = ZMNetworkStateOnline | ZMNetworkStateOffline | ZMNetworkStateOnlineSynchronizing

record ZMStoredLocalNotification =
  stored_conversation :: "ZMManagedObject option"
  stored_message :: "ZMManagedObject option"
  stored_senderUUID :: "NSUUID option"
  stored_category :: "NSString option"
  stored_actionIdentifier :: "NSString option"
  stored_textInput :: "NSString option"

text \<open>The observer and delegate protocols of \<^verbatim>\<open>ZMUserSession.h\<close>.\<close>

datatype (plugins only: code size) session_delegate_call =
    FailedToAccessAddressBook
  | ShowMessage ZMManagedObject ZMManagedObject
  | ShowConversation ZMManagedObject
  | ShowConversationList
  | UserSessionIsReadyToUploadServicesData

datatype UIBackgroundFetchResult =
  UIBackgroundFetchResultNewData | UIBackgroundFetchResultNoData | UIBackgroundFetchResultFailed

datatype ZMPushNotficationType = ZMPushNotficationTypeAlert | ZMPushNotficationTypeVoIP

datatype ZMPushPayloadResult = ZMPushPayloadResultFailure | ZMPushPayloadResultSuccess | ZMPushPayloadResultNoData

datatype ZMSyncStateDelegate = DidStartSync | DidFinishSync

datatype (plugins only: code size) session_effect =
    SaveOrRollbackUI
  | SaveOrRollbackSync
  | ForceSaveOrRollbackUI
  | EnqueueDelayedSaveUI
  | RanBlock nat
  | DelegateCall session_delegate_call
  | PostedNetworkState ZMNetworkState
  | StartedBlacklistVerificator NSTimeInterval
  | CalledBlackListedBlock
  | RegisteredForRemoteNotifications
  | ResetSignalingKeys
  | AccessTokenDidChange "NSString option" "NSString option"
  | RestartedPushChannel
  | AddedBackgroundHandler NSString nat
  | MarkedAddressBookForUpload
  | MarkedEmptyAddressBookForUpload
  | SentInvitationToConnect NSString
  | StoredInvitationToConnect NSString
  | LaunchedWithPhoneVerificationCode NSString
  | RequestedToOpenSyncConversation ZMManagedObject
  | AppendedAVSLog "ZMManagedObject option" NSString
  | AddedObserver nat
  | RemovedObserver nat
  | RequestedGiphy NSString
  | PreparedLocalStore
  | StartedCommonContactsSearch NSUUID "64 word"
  | CalledBack bool
  | SelfUserUpdated ZMCompleteRegistrationUser
  | ClearPersistentStoreOnStart
  | SynchronizedDefaults
  | Exited
  | MarkedClientForDeletion ZMManagedObject
  | DeleteClientsWithCredentials "ZMCredentials option"
  | NeedsToFetchClients bool
  | EnabledPushNotifications
  | SetMinimumBackgroundFetchInterval NSTimeInterval
  | ToreDownOperationLoop
  | ToreDownLocalNotifications
  | ToreDownBlacklist
  | ToreDownTransportSession
  | ToreDownClientUpdateStatus
  | ToreDownContexts
  | RemovedAllObservers
  | CalledHandler nat
  | CalledFetchHandler nat UIBackgroundFetchResult
  | CalledPushHandler nat ZMPushPayloadResult
  | SavedEventsForPayload "(NSString \<times> json) list" "nat option" ZMPushNotficationType
  | ForwardedDeviceToken NSData
  | ForwardedRemoteNotification "(NSString \<times> json) list" "nat option"
  | RegisteredNotificationCategories "NSString list"
  | StartedBackgroundFetch nat
  | StartedBackgroundTask ZMManagedObject "nat option"
  | BeganActivity NSString
  | EndedActivity
  | IgnoredCall "ZMManagedObject option"
  | AppendedMessage ZMManagedObject NSString
  | FailedToSendMessage ZMManagedObject
  | JoinedVoiceChannel ZMManagedObject
  | AcceptedConnection ZMManagedObject

record 'd ZMUserSession =
  us_session :: session
  us_tokens :: "'d token_context"
  networkIsOnline :: bool
  isPerformingSync :: bool
  didStartInitialSync :: bool
  didNotifyThirdPartyServices :: bool
  networkState :: ZMNetworkState
  isOffline :: bool
  isVersionBlacklisted :: bool
  blackList :: bool
  blackListedBlock :: bool
  transportClientID :: "NSString option"
  cachedAddressBookContacts :: "nat list option"
  loadAddressBookContactsOnce :: bool
  CommonContactsSearchUniqueCounter :: "64 word"
  pendingLocalNotification :: "ZMStoredLocalNotification option"
  ownsQueue :: bool
  hasContexts :: bool
  effects :: "session_effect list"

text \<open>
  What the session takes from frameworks. \<open>validatedPhone\<close> gives the normalised number of a valid one.
  \<open>invitationURL\<close> and \<open>phoneCodeOfURL\<close> are the URL categories.
\<close>

record user_session_env =
  ue_session :: session_env
  validatePassword :: "NSString option \<Rightarrow> bool"
  validatePhoneVerificationCode :: "NSString option \<Rightarrow> bool"
  validatedPhone :: "NSString option \<Rightarrow> NSString option"
  transportTypeNormal :: "NSString option"
  transportTypeVoIP :: "NSString option"
  fallbackVoIP :: "NSString option"
  apnsAppIdentifier :: "NSString option"
  registrantToken :: "NSData option"
  addressBookAuthorized :: bool
  addressBook_contacts :: "nat list"
  invitationURL :: "NSString \<Rightarrow> bool"
  phoneCodeOfURL :: "NSString \<Rightarrow> NSString option"
  thirdPartyDelegate :: bool
  openViewDelegate :: bool

definition emit :: "session_effect \<Rightarrow> 'd ZMUserSession \<Rightarrow> 'd ZMUserSession" where
  "emit e u = u\<lparr>effects := effects u @ [e]\<rparr>"

definition on_session :: "(session \<Rightarrow> session) \<Rightarrow> 'd ZMUserSession \<Rightarrow> 'd ZMUserSession" where
  "on_session f u = u\<lparr>us_session := f (us_session u)\<rparr>"

definition notifyNewRequestsAvailable :: "'d ZMUserSession \<Rightarrow> 'd ZMUserSession" where
  "notifyNewRequestsAvailable = on_session (post NotifyNewRequestsAvailable)"

definition needsCredentialsError :: NSError where
  "needsCredentialsError = userSessionErrorWithErrorCode ZMUserSessionNeedsCredentials []"

section \<open>Life of a session\<close>

definition selfUserClient :: "user_session_env \<Rightarrow> 'd ZMUserSession \<Rightarrow> UserClient option" where
  "selfUserClient env u = selfClient (ue_session env) (us_session u)"

text \<open>\<^verbatim>\<open>arc4random_uniform(5 * 60)\<close> is a number below 300; \<open>random\<close> is the number drawn, \<open>app\<close> whether there is an
  application object.\<close>

definition enableBackgroundFetch :: "bool \<Rightarrow> nat \<Rightarrow> 'd ZMUserSession \<Rightarrow> objc_failure + 'd ZMUserSession" where
  "enableBackgroundFetch app random u =
     (if \<not> app then Inl AssertionFailure
      else Inr (emit (SetMinimumBackgroundFetchInterval (10 * 60 + real (random mod (5 * 60)))) u))"

definition initWithTransportSession ::
  "user_session_env \<Rightarrow> bool \<Rightarrow> nat \<Rightarrow> session \<Rightarrow> 'd token_context \<Rightarrow> objc_failure + 'd ZMUserSession" where
  "initWithTransportSession env app random s c =
     (let u = \<lparr>us_session = initClientRegistrationStatus (initUserProfileUpdateStatus (initAuthenticationStatus s)),
               us_tokens = c, networkIsOnline = True, isPerformingSync = False, didStartInitialSync = False,
               didNotifyThirdPartyServices = False, networkState = ZMNetworkStateOnline, isOffline = False,
               isVersionBlacklisted = False, blackList = False, blackListedBlock = False, transportClientID = None,
               cachedAddressBookContacts = None, loadAddressBookContactsOnce = False,
               CommonContactsSearchUniqueCounter = 0, pendingLocalNotification = None, ownsQueue = False,
               hasContexts = True, effects = []\<rparr>;
          u = u\<lparr>transportClientID := Option.bind (selfUserClient env u) uc_remoteIdentifier\<rparr>
      in enableBackgroundFetch app random (emit EnabledPushNotifications u))"

definition initWithMediaManager ::
  "user_session_env \<Rightarrow> bool \<Rightarrow> nat \<Rightarrow> session \<Rightarrow> 'd token_context \<Rightarrow> objc_failure + 'd ZMUserSession" where
  "initWithMediaManager env app random s c =
     map_sum id (\<lambda>u. u\<lparr>ownsQueue := True, loadAddressBookContactsOnce := False\<rparr>)
       (initWithTransportSession env app random s c)"

definition session_tearDown :: "'d ZMUserSession \<Rightarrow> 'd ZMUserSession" where
  "session_tearDown u =
     (let u = emit ToreDownLocalNotifications (emit ToreDownOperationLoop u);
          u = (if blackList u then emit ToreDownBlacklist u else u);
          u = (if ownsQueue u then emit ToreDownTransportSession u else u);
          u = on_session clientReg_tearDown (emit ToreDownClientUpdateStatus u)
      in emit RemovedAllObservers (emit ToreDownContexts (u\<lparr>hasContexts := False\<rparr>)))"

definition session_isLoggedIn :: "'d ZMUserSession \<Rightarrow> bool" where
  "session_isLoggedIn u \<longleftrightarrow>
     currentPhase (us_session u) = ZMAuthenticationPhaseAuthenticated \<and>
     clientReg_currentPhase (us_session u) = ZMClientRegistrationPhaseRegistered"

definition didRequestToOpenSyncConversation ::
  "user_session_env \<Rightarrow> ZMManagedObject option \<Rightarrow> 'd ZMUserSession \<Rightarrow> 'd ZMUserSession" where
  "didRequestToOpenSyncConversation env ob u =
     (case ob of
        Some c \<Rightarrow> if openViewDelegate env then emit (DelegateCall (ShowConversation c)) u else u
      | None \<Rightarrow> u)"

definition performChanges :: "nat \<Rightarrow> 'd ZMUserSession \<Rightarrow> 'd ZMUserSession" where
  "performChanges block u = emit SaveOrRollbackUI (emit (RanBlock block) u)"

definition enqueueChanges :: "nat \<Rightarrow> nat option \<Rightarrow> 'd ZMUserSession \<Rightarrow> 'd ZMUserSession" where
  "enqueueChanges block completionHandler u =
     (let u = emit SaveOrRollbackUI (emit (RanBlock block) u)
      in case completionHandler of None \<Rightarrow> u | Some h \<Rightarrow> emit (RanBlock h) u)"

definition didStartApplication :: "user_session_env \<Rightarrow> 'd ZMUserSession \<Rightarrow> 'd ZMUserSession" where
  "didStartApplication env u =
     (if session_isLoggedIn u then
        on_session (authenticationNote ZMAuthenticationNotificationAuthenticationDidSuceeded None) u
      else if needsCredentialsToLogin (us_session u) then
        on_session (authenticationNote ZMAuthenticationNotificationAuthenticationDidFail (Some needsCredentialsError)) u
      else on_session (prepareForClientRegistration (ue_session env)) u)"

definition session_start :: "user_session_env \<Rightarrow> 'd ZMUserSession \<Rightarrow> 'd ZMUserSession" where
  "session_start env u = notifyNewRequestsAvailable (didStartApplication env u)"

definition startAndCheckClientVersion ::
  "user_session_env \<Rightarrow> NSTimeInterval \<Rightarrow> bool \<Rightarrow> 'd ZMUserSession \<Rightarrow> 'd ZMUserSession" where
  "startAndCheckClientVersion env interval block u =
     emit (StartedBlacklistVerificator interval) ((session_start env u)\<lparr>blackList := True, blackListedBlock := block\<rparr>)"

text \<open>The callback given to the blacklist verificator, called for every downloaded list.\<close>

definition blacklistCallback :: "bool \<Rightarrow> 'd ZMUserSession \<Rightarrow> 'd ZMUserSession" where
  "blacklistCallback isBlackListed u =
     (if \<not> isVersionBlacklisted u \<and> isBlackListed \<and> blackListedBlock u
      then (emit CalledBlackListedBlock u)\<lparr>isVersionBlacklisted := True\<rparr> else u)"

definition initiateUserDeletion :: "'d ZMUserSession \<Rightarrow> 'd ZMUserSession" where
  "initiateUserDeletion u =
     notifyNewRequestsAvailable
       (on_session (setPersistentStoreMetadata ''ZMUserDeletionInitiatedKey'' (Some (JBool True))) u)"

definition transportSessionAccessTokenDidFail :: "'d ZMUserSession \<Rightarrow> 'd ZMUserSession" where
  "transportSessionAccessTokenDidFail =
     on_session (authenticationNote ZMAuthenticationNotificationAuthenticationDidFail (Some needsCredentialsError))"

definition notifyThirdPartyServices :: "user_session_env \<Rightarrow> 'd ZMUserSession \<Rightarrow> 'd ZMUserSession" where
  "notifyThirdPartyServices env u =
     (if didNotifyThirdPartyServices u then u
      else let u = u\<lparr>didNotifyThirdPartyServices := True\<rparr>
           in if thirdPartyDelegate env then emit (DelegateCall UserSessionIsReadyToUploadServicesData) u else u)"

definition session_didRegisterUserClient :: "UserClient \<Rightarrow> 'd ZMUserSession \<Rightarrow> 'd ZMUserSession" where
  "session_didRegisterUserClient client u =
     emit RestartedPushChannel (u\<lparr>transportClientID := uc_remoteIdentifier client\<rparr>)"

section \<open>Push tokens of the session\<close>

definition differs_from :: "ZMPushToken option \<Rightarrow> ZMPushToken option \<Rightarrow> bool" where
  "differs_from current token =
     (case current of None \<Rightarrow> token \<noteq> None | Some t \<Rightarrow> \<not> token_isEqual t token)"

definition new_token ::
  "user_session_env \<Rightarrow> NSString option \<Rightarrow> NSString option \<Rightarrow> NSData option \<Rightarrow> ZMPushToken option" where
  "new_token env tt fb d =
     (if tt \<noteq> None \<and> d \<noteq> None \<and> apnsAppIdentifier env \<noteq> None
      then Some (initWithDeviceToken d (apnsAppIdentifier env) tt fb False) else None)"

definition session_setPushToken ::
  "'d archiver \<Rightarrow> user_session_env \<Rightarrow> NSData option \<Rightarrow> 'd ZMUserSession \<Rightarrow> 'd ZMUserSession" where
  "session_setPushToken A env d u =
     (let token = new_token env (transportTypeNormal env) None d in
      case pushToken A (us_tokens u) of (current, c) \<Rightarrow>
        let u = u\<lparr>us_tokens := c\<rparr> in
        if differs_from current token
        then emit ForceSaveOrRollbackUI (u\<lparr>us_tokens := setPushToken A token (us_tokens u)\<rparr>) else u)"

definition session_setPushKitToken ::
  "'d archiver \<Rightarrow> user_session_env \<Rightarrow> NSData option \<Rightarrow> 'd ZMUserSession \<Rightarrow> 'd ZMUserSession" where
  "session_setPushKitToken A env d u =
     (let token = new_token env (transportTypeVoIP env) (fallbackVoIP env) d in
      case pushKitToken A (us_tokens u) of (current, c) \<Rightarrow>
        let u = u\<lparr>us_tokens := c\<rparr> in
        if differs_from current token
        then emit ForceSaveOrRollbackUI (u\<lparr>us_tokens := setPushKitToken A token (us_tokens u)\<rparr>) else u)"

definition deletePushKitToken :: "'d archiver \<Rightarrow> 'd ZMUserSession \<Rightarrow> 'd ZMUserSession" where
  "deletePushKitToken A u =
     (case pushKitToken A (us_tokens u) of
        (None, c) \<Rightarrow> u\<lparr>us_tokens := c\<rparr>
      | (Some t, c) \<Rightarrow> emit ForceSaveOrRollbackUI (u\<lparr>us_tokens := setPushKitToken A (forDeletionMarkedCopy t) c\<rparr>))"

definition deletePushToken :: "'d archiver \<Rightarrow> 'd ZMUserSession \<Rightarrow> 'd ZMUserSession" where
  "deletePushToken A u =
     (case pushToken A (us_tokens u) of
        (None, c) \<Rightarrow> u\<lparr>us_tokens := c\<rparr>
      | (Some t, c) \<Rightarrow> emit ForceSaveOrRollbackUI (u\<lparr>us_tokens := setPushToken A (forDeletionMarkedCopy t) c\<rparr>))"

definition resetPushTokens :: "'d archiver \<Rightarrow> user_session_env \<Rightarrow> 'd ZMUserSession \<Rightarrow> 'd ZMUserSession" where
  "resetPushTokens A env u =
     (let u = (case registrantToken env of
                 Some d \<Rightarrow> session_setPushKitToken A env (Some d) (u\<lparr>us_tokens := setPushKitToken A None (us_tokens u)\<rparr>)
               | None \<Rightarrow> u);
          (stored, c) = pushToken A (us_tokens u);
          u = u\<lparr>us_tokens := c\<rparr>;
          u = (case stored of
                 Some t \<Rightarrow> session_setPushToken A env (deviceToken t) (u\<lparr>us_tokens := setPushToken A None (us_tokens u)\<rparr>)
               | None \<Rightarrow> u)
      in emit ForceSaveOrRollbackUI (emit ResetSignalingKeys (emit RegisteredForRemoteNotifications u)))"

definition reregisterPushTokensIfNecessary :: "'d archiver \<Rightarrow> 'd ZMUserSession \<Rightarrow> 'd ZMUserSession" where
  "reregisterPushTokensIfNecessary A u =
     (let (kit, c) = pushKitToken A (us_tokens u);
          again = (\<lambda>t. case t of Some t \<Rightarrow> isRegistered t | None \<Rightarrow> False);
          c = (if again kit then setPushKitToken A (map_option unregisteredCopy kit) c else c);
          (apns, c) = pushToken A c;
          c = (if again apns then setPushToken A (map_option unregisteredCopy apns) c else c);
          u = u\<lparr>us_tokens := c\<rparr>
      in if again kit \<or> again apns then emit EnqueueDelayedSaveUI u else u)"

section \<open>Network state\<close>

definition network_state_of :: "bool \<Rightarrow> bool \<Rightarrow> ZMNetworkState" where
  "network_state_of online syncing =
     (if online then (if syncing then ZMNetworkStateOnlineSynchronizing else ZMNetworkStateOnline)
      else ZMNetworkStateOffline)"

definition changeNetworkStateAndNotify :: "UIApplicationState \<Rightarrow> 'd ZMUserSession \<Rightarrow> 'd ZMUserSession" where
  "changeNetworkStateAndNotify app u =
     (let state = network_state_of (networkIsOnline u) (isPerformingSync u);
          previous = networkState u;
          u = u\<lparr>isOffline := \<not> networkIsOnline u, networkState := state\<rparr>
      in if previous \<noteq> state \<and> app \<noteq> UIApplicationStateBackground then emit (PostedNetworkState state) u else u)"

definition didReceiveData :: "UIApplicationState \<Rightarrow> 'd ZMUserSession \<Rightarrow> 'd ZMUserSession" where
  "didReceiveData app u = changeNetworkStateAndNotify app (u\<lparr>networkIsOnline := True\<rparr>)"

definition didGoOffline :: "UIApplicationState \<Rightarrow> 'd ZMUserSession \<Rightarrow> 'd ZMUserSession" where
  "didGoOffline app u = emit SaveOrRollbackUI (changeNetworkStateAndNotify app (u\<lparr>networkIsOnline := False\<rparr>))"

primrec syncState_send ::
  "user_session_env \<Rightarrow> UIApplicationState \<Rightarrow> ZMSyncStateDelegate \<Rightarrow> 'd ZMUserSession \<Rightarrow> 'd ZMUserSession" where
  "syncState_send env app DidStartSync u =
     changeNetworkStateAndNotify app (u\<lparr>isPerformingSync := True, didStartInitialSync := True\<rparr>)"
| "syncState_send env app DidFinishSync u =
     notifyThirdPartyServices env (changeNetworkStateAndNotify app (u\<lparr>isPerformingSync := False\<rparr>))"

section \<open>Address book and searches\<close>

definition MaximumContactsToParse :: nat where "MaximumContactsToParse = 10000"

text \<open>The loop over the contacts: the count is tested before a contact is added.\<close>

fun parse_contacts :: "'c list \<Rightarrow> 'c list \<Rightarrow> 'c list" where
  "parse_contacts contacts [] = contacts"
| "parse_contacts contacts (c # cs) =
     (if length contacts > MaximumContactsToParse then contacts else parse_contacts (contacts @ [c]) cs)"

definition reloadAddressBookContacts :: "user_session_env \<Rightarrow> 'd ZMUserSession \<Rightarrow> 'd ZMUserSession" where
  "reloadAddressBookContacts env u = u\<lparr>cachedAddressBookContacts := Some (parse_contacts [] (addressBook_contacts env))\<rparr>"

definition addressBookContacts ::
  "user_session_env \<Rightarrow> 'd ZMUserSession \<Rightarrow> nat list option \<times> 'd ZMUserSession" where
  "addressBookContacts env u =
     (if cachedAddressBookContacts u = None then
        (if \<not> addressBookAuthorized env then (Some [], u)
         else let u = (if loadAddressBookContactsOnce u then u
                       else reloadAddressBookContacts env (u\<lparr>loadAddressBookContactsOnce := True\<rparr>))
              in (cachedAddressBookContacts u, u))
      else (cachedAddressBookContacts u, u))"

definition searchCommonContacts :: "NSUUID \<Rightarrow> 'd ZMUserSession \<Rightarrow> 64 word \<times> 'd ZMUserSession" where
  "searchCommonContacts userID u =
     (let n = CommonContactsSearchUniqueCounter u + 1
      in (n, emit (StartedCommonContactsSearch userID n) (u\<lparr>CommonContactsSearchUniqueCounter := n\<rparr>)))"

definition didLaunchWithURL :: "user_session_env \<Rightarrow> NSString \<Rightarrow> 'd ZMUserSession \<Rightarrow> 'd ZMUserSession" where
  "didLaunchWithURL env url u =
     (if invitationURL env url then
        emit SaveOrRollbackSync
          (emit (if session_isLoggedIn u then SentInvitationToConnect url else StoredInvitationToConnect url) u)
      else case phoneCodeOfURL env url of
             Some code \<Rightarrow> emit (LaunchedWithPhoneVerificationCode code) u
           | None \<Rightarrow> u)"

definition TrackingIdentifierKey :: NSString where "TrackingIdentifierKey = ''ZMTrackingIdentifier''"

definition setUserSessionTrackingIdentifier :: "NSString option \<Rightarrow> 'd ZMUserSession \<Rightarrow> 'd ZMUserSession" where
  "setUserSessionTrackingIdentifier i = on_session (setPersistentStoreMetadata TrackingIdentifierKey (map_option JStr i))"

definition trackingIdentifier :: "'d ZMUserSession \<Rightarrow> json option" where
  "trackingIdentifier u = metadata (us_session u) TrackingIdentifierKey"

end
