(* ===== verification/SessionFacade.thy ===== *)
theory SessionFacade
  imports UserSession
begin

text \<open>
  The categories of \<^verbatim>\<open>ZMUserSession\<close> a client calls: registration, authentication, editing of the profile and
  management of clients, with the observers they notify; then the declared interface of the facade as
  messages, and the properties of the whole session: what every run keeps, the limits of the address book
  and the delayed fetch, and a registration that goes on after its failure was announced.
\<close>

section \<open>Registration\<close>

definition updateFromRegistrationUser :: "ZMCompleteRegistrationUser \<Rightarrow> 'd ZMUserSession \<Rightarrow> 'd ZMUserSession" where
  "updateFromRegistrationUser r u =
     emit (SelfUserUpdated r) (on_session (\<lambda>s. s\<lparr>selfUser_emailAddress := ru_emailAddress r\<rparr>) u)"

definition registrationDidFail :: "'d ZMUserSession \<Rightarrow> 'd ZMUserSession" where
  "registrationDidFail =
     on_session (registrationNote ZMRegistrationNotificationRegistrationDidFail (Some needsCredentialsError))"

text \<open>The second test has no \<^verbatim>\<open>return\<close>.\<close>

definition registerSelfUser ::
  "user_session_env \<Rightarrow> ZMCompleteRegistrationUser \<Rightarrow> 'd ZMUserSession \<Rightarrow> 'd ZMUserSession" where
  "registerSelfUser env r u =
     (let u = emit MarkedEmptyAddressBookForUpload u;
          phone = ru_phoneNumber r
      in if phone = None \<and> (ru_password r = None \<or> \<not> validatePassword env (ru_password r)) then registrationDidFail u
         else
           let u = (if ru_invitationCode r = None \<and> phone \<noteq> None \<and>
                       \<not> validatePhoneVerificationCode env (ru_phoneVerificationCode r)
                    then registrationDidFail u else u)
           in if phone \<noteq> None \<and> validatedPhone env phone = None then registrationDidFail u
              else notifyNewRequestsAvailable (on_session (prepareForRegistrationOfUser (Some r))
                     (emit SaveOrRollbackUI (updateFromRegistrationUser r u))))"

definition cancelWaitForEmailVerification :: "'d ZMUserSession \<Rightarrow> 'd ZMUserSession" where
  "cancelWaitForEmailVerification = on_session cancelWaitingForEmailVerification"

definition requestPhoneVerificationCodeForRegistration ::
  "user_session_env \<Rightarrow> NSString option \<Rightarrow> 'd ZMUserSession \<Rightarrow> 'd ZMUserSession" where
  "requestPhoneVerificationCodeForRegistration env p u =
     notifyNewRequestsAvailable
       (on_session (prepareForRequestingPhoneVerificationCodeForRegistration (ue_session env) p) u)"

definition verifyPhoneNumberForRegistration ::
  "user_session_env \<Rightarrow> NSString \<Rightarrow> NSString \<Rightarrow> 'd ZMUserSession \<Rightarrow> 'd ZMUserSession" where
  "verifyPhoneNumberForRegistration env p code u =
     notifyNewRequestsAvailable (on_session (\<lambda>s.
       prepareForRegistrationPhoneVerificationWithCredentials
         (Some (credentialsWithPhoneNumber (validatePhone (ue_session env)) (nextAddress s) p code)) (allocate s)) u)"

definition resendRegistrationVerificationEmail :: "'d ZMUserSession \<Rightarrow> 'd ZMUserSession" where
  "resendRegistrationVerificationEmail = on_session (post VerificationEmailResendRequest)"

datatype (plugins only: code size) ZMUserSession_Registration =
    RegisterSelfUser ZMCompleteRegistrationUser
  | RequestPhoneVerificationCodeForRegistration "NSString option"
  | VerifyPhoneNumberForRegistration NSString NSString
  | ResendRegistrationVerificationEmail
  | CancelWaitForEmailVerification
  | CancelWaitForPhoneVerification
  | AddRegistrationObserver nat
  | RemoveRegistrationObserverForToken nat

primrec registration_send ::
  "user_session_env \<Rightarrow> ZMUserSession_Registration \<Rightarrow> 'd ZMUserSession \<Rightarrow> 'd ZMUserSession" where
  "registration_send env (RegisterSelfUser r) = registerSelfUser env r"
| "registration_send env (RequestPhoneVerificationCodeForRegistration p) =
     requestPhoneVerificationCodeForRegistration env p"
| "registration_send env (VerifyPhoneNumberForRegistration p code) = verifyPhoneNumberForRegistration env p code"
| "registration_send env ResendRegistrationVerificationEmail = resendRegistrationVerificationEmail"
| "registration_send env CancelWaitForEmailVerification = cancelWaitForEmailVerification"
| "registration_send env CancelWaitForPhoneVerification = (\<lambda>u. u)"
| "registration_send env (AddRegistrationObserver ob) = emit (AddedObserver ob)"
| "registration_send env (RemoveRegistrationObserverForToken ob) = emit (RemovedObserver ob)"

text \<open>The optional methods of an observer, and the one a notification calls, if the observer has it.\<close>

datatype (plugins only: code size) ZMRegistrationObserver =
    ObserverRegistrationDidFail "NSError option"
  | ObserverPhoneVerificationCodeRequestDidFail "NSError option"
  | ObserverPhoneVerificationCodeRequestDidSucceed
  | ObserverPhoneVerificationDidSucceed
  | ObserverPhoneVerificationDidFail "NSError option"
  | ObserverEmailVerificationDidSucceed
  | ObserverEmailVerificationDidFail "NSError option"

primrec registration_callback ::
  "ZMUserSessionRegistrationNotificationType \<Rightarrow> NSError option \<Rightarrow> ZMRegistrationObserver" where
  "registration_callback ZMRegistrationNotificationEmailVerificationDidFail e = ObserverEmailVerificationDidFail e"
| "registration_callback ZMRegistrationNotificationEmailVerificationDidSucceed e = ObserverEmailVerificationDidSucceed"
| "registration_callback ZMRegistrationNotificationPhoneNumberVerificationDidFail e = ObserverPhoneVerificationDidFail e"
| "registration_callback ZMRegistrationNotificationPhoneNumberVerificationCodeRequestDidFail e =
     ObserverPhoneVerificationCodeRequestDidFail e"
| "registration_callback ZMRegistrationNotificationPhoneNumberVerificationDidSucceed e =
     ObserverPhoneVerificationDidSucceed"
| "registration_callback ZMRegistrationNotificationRegistrationDidFail e = ObserverRegistrationDidFail e"
| "registration_callback ZMRegistrationNotificationPhoneNumberVerificationCodeRequestDidSucceed e =
     ObserverPhoneVerificationCodeRequestDidSucceed"

definition observe_registration ::
  "(ZMRegistrationObserver \<Rightarrow> bool) \<Rightarrow> ZMUserSessionRegistrationNotification \<Rightarrow> ZMRegistrationObserver option" where
  "observe_registration responds note =
     (let m = registration_callback (reg_note_type note) (reg_note_error note) in if responds m then Some m else None)"

section \<open>Authentication\<close>

definition session_needsToRegisterClient :: "'d ZMUserSession \<Rightarrow> bool" where
  "session_needsToRegisterClient u \<longleftrightarrow> clientReg_currentPhase (us_session u) \<noteq> ZMClientRegistrationPhaseRegistered"

definition blank :: "NSString option \<Rightarrow> bool" where
  "blank s \<longleftrightarrow> s = None \<or> s = Some ''''"

definition unusable :: "ZMCredentials \<Rightarrow> bool" where
  "unusable c \<longleftrightarrow>
     (blank (email c) \<or> blank (password c)) \<and> (blank (phoneNumber c) \<or> blank (phoneNumberVerificationCode c))"

definition login_block :: "user_session_env \<Rightarrow> ZMCredentials \<Rightarrow> 'd ZMUserSession \<Rightarrow> 'd ZMUserSession" where
  "login_block env c u =
     (if session_isLoggedIn u then
        notifyNewRequestsAvailable
          (on_session (authenticationNote ZMAuthenticationNotificationAuthenticationDidSuceeded None) u)
      else if unusable c then
        on_session (authenticationNote ZMAuthenticationNotificationAuthenticationDidFail (Some needsCredentialsError)) u
      else
        let u = on_session (prepareForLoginWithCredentials (Some c)) u
        in if session_needsToRegisterClient u then on_session (prepareForClientRegistration (ue_session env)) u
           else session_start env u)"

definition loginWithCredentials ::
  "'d archiver \<Rightarrow> user_session_env \<Rightarrow> ZMCredentials \<Rightarrow> 'd ZMUserSession \<Rightarrow> 'd ZMUserSession" where
  "loginWithCredentials A env c u =
     notifyNewRequestsAvailable (login_block env c (reregisterPushTokensIfNecessary A u))"

definition requestPhoneVerificationCodeForLogin ::
  "user_session_env \<Rightarrow> NSString option \<Rightarrow> 'd ZMUserSession \<Rightarrow> bool \<times> 'd ZMUserSession" where
  "requestPhoneVerificationCodeForLogin env p u =
     (case validatedPhone env p of
        None \<Rightarrow> (False, u)
      | Some q \<Rightarrow> (True, notifyNewRequestsAvailable
          (on_session (prepareForRequestingPhoneVerificationCodeForLogin (ue_session env) (Some q)) u)))"

definition checkIfLoggedIn :: "bool \<Rightarrow> 'd ZMUserSession \<Rightarrow> 'd ZMUserSession" where
  "checkIfLoggedIn callback u = (if callback then emit (CalledBack (session_isLoggedIn u)) u else u)"

definition session_deleteAllKeychainItems :: "'d ZMUserSession \<Rightarrow> 'd ZMUserSession" where
  "session_deleteAllKeychainItems = on_session (\<lambda>s. (post DeletedAllKeychainItems s)\<lparr>cookieData := None\<rparr>)"

definition resetStateAndExit :: "'d ZMUserSession \<Rightarrow> 'd ZMUserSession" where
  "resetStateAndExit u =
     emit Exited (emit SynchronizedDefaults (emit SynchronizedDefaults
       (emit ClearPersistentStoreOnStart (session_deleteAllKeychainItems u))))"

datatype (plugins only: code size) ZMUserSession_Authentication =
    AddAuthenticationObserver nat
  | RemoveAuthenticationObserverForToken nat
  | CheckIfLoggedInWithCallback bool
  | LoginWithCredentials ZMCredentials
  | RequestPhoneVerificationCodeForLogin "NSString option"
  | DeleteAllKeychainItems
  | ResetStateAndExit
  | DeleteCacheOnRelaunch

primrec authentication_send ::
  "'d archiver \<Rightarrow> user_session_env \<Rightarrow> ZMUserSession_Authentication \<Rightarrow> 'd ZMUserSession \<Rightarrow> 'd ZMUserSession" where
  "authentication_send A env (AddAuthenticationObserver ob) = emit (AddedObserver ob)"
| "authentication_send A env (RemoveAuthenticationObserverForToken ob) = emit (RemovedObserver ob)"
| "authentication_send A env (CheckIfLoggedInWithCallback callback) = checkIfLoggedIn callback"
| "authentication_send A env (LoginWithCredentials c) = loginWithCredentials A env c"
| "authentication_send A env (RequestPhoneVerificationCodeForLogin p) =
     (\<lambda>u. snd (requestPhoneVerificationCodeForLogin env p u))"
| "authentication_send A env DeleteAllKeychainItems = session_deleteAllKeychainItems"
| "authentication_send A env ResetStateAndExit = resetStateAndExit"
| "authentication_send A env DeleteCacheOnRelaunch = emit ClearPersistentStoreOnStart"

datatype (plugins only: code size) ZMAuthenticationObserver =
    ObserverLoginCodeRequestDidFail "NSError option"
  | ObserverLoginCodeRequestDidSucceed
  | ObserverAuthenticationDidFail "NSError option"
  | ObserverAuthenticationDidSucceed

text \<open>
  The error of a failed authentication with too many clients carries object identifiers, which are replaced
  by the objects of the user interface context (\<open>existing\<close>); the other user information is dropped.
\<close>

definition forwardedError :: "(json \<Rightarrow> json) \<Rightarrow> NSError option \<Rightarrow> NSError option" where
  "forwardedError existing e =
     (case e of
        None \<Rightarrow> None
      | Some e \<Rightarrow>
          if err_code e = error_code ZMUserSessionCanNotRegisterMoreClients then
            Some (e\<lparr>err_userInfo :=
              (case map_of (err_userInfo e) ZMClientsKey of
                 Some (JArr ids) \<Rightarrow> [(ZMClientsKey, JArr (map existing ids))]
               | _ \<Rightarrow> [])\<rparr>)
          else Some e)"

primrec authentication_callback ::
  "(json \<Rightarrow> json) \<Rightarrow> ZMUserSessionAuthenticationNotificationType \<Rightarrow> NSError option \<Rightarrow> ZMAuthenticationObserver" where
  "authentication_callback ex ZMAuthenticationNotificationLoginCodeRequestDidFail e = ObserverLoginCodeRequestDidFail e"
| "authentication_callback ex ZMAuthenticationNotificationAuthenticationDidSuceeded e = ObserverAuthenticationDidSucceed"
| "authentication_callback ex ZMAuthenticationNotificationAuthenticationDidFail e =
     ObserverAuthenticationDidFail (forwardedError ex e)"
| "authentication_callback ex ZMAuthenticationNotificationLoginCodeRequestDidSucceed e = ObserverLoginCodeRequestDidSucceed"

section \<open>Editing the profile\<close>

text \<open>\<open>selfPhone\<close> is the phone number of the self user.\<close>

definition currentlyUpdatingEmail :: "'d ZMUserSession \<Rightarrow> json option" where
  "currentlyUpdatingEmail u =
     (if blank (selfUser_emailAddress (us_session u)) then emailToUpdate (us_session u) else None)"

definition currentlyUpdatingPhone :: "NSString option \<Rightarrow> 'd ZMUserSession \<Rightarrow> json option" where
  "currentlyUpdatingPhone selfPhone u =
     (if selfPhone \<noteq> None then None
      else case profilePhoneNumberThatNeedsAValidationCode (us_session u) of
             Some p \<Rightarrow> Some p
           | None \<Rightarrow> map_option JStr (Option.bind (phoneCredentialsToUpdate (profile (us_session u))) phoneNumber))"

datatype (plugins only: code size) ZMUserSession_EditingVerification =
    RequestVerificationEmailForEmailUpdate "ZMCredentials option"
  | RequestVerificationCodeForPhoneNumberUpdate "NSString option"
  | VerifyPhoneNumberForUpdate "ZMCredentials option"
  | AddUserEditingObserver nat
  | RemoveUserEditingObserverForToken nat

primrec editing_send ::
  "user_session_env \<Rightarrow> ZMUserSession_EditingVerification \<Rightarrow> 'd ZMUserSession \<Rightarrow> 'd ZMUserSession" where
  "editing_send env (RequestVerificationEmailForEmailUpdate c) u =
     notifyNewRequestsAvailable (on_session (prepareForEmailAndPasswordChangeWithCredentials c) u)"
| "editing_send env (RequestVerificationCodeForPhoneNumberUpdate p) u =
     notifyNewRequestsAvailable (on_session (profile_prepareForRequestingPhoneVerificationCode (ue_session env) p) u)"
| "editing_send env (VerifyPhoneNumberForUpdate c) u =
     notifyNewRequestsAvailable (on_session (prepareForPhoneChangeWithCredentials c) u)"
| "editing_send env (AddUserEditingObserver ob) u = emit (AddedObserver ob) u"
| "editing_send env (RemoveUserEditingObserverForToken ob) u = emit (RemovedObserver ob) u"

section \<open>Clients\<close>

definition deleteClient :: "ZMManagedObject \<Rightarrow> 'd ZMUserSession \<Rightarrow> 'd ZMUserSession" where
  "deleteClient client u =
     emit (DeleteClientsWithCredentials (clientReg_emailCredentials (us_session u)))
       (emit SaveOrRollbackUI (emit (MarkedClientForDeletion client) u))"

definition deleteClients ::
  "ZMManagedObject list \<Rightarrow> ZMCredentials option \<Rightarrow> 'd ZMUserSession \<Rightarrow> 'd ZMUserSession" where
  "deleteClients clients c u =
     (let u = fold (\<lambda>client. emit (MarkedClientForDeletion client)) clients u;
          u = (if clients = [] then u else emit SaveOrRollbackUI u)
      in emit (DeleteClientsWithCredentials c) u)"

definition fetchAllClients :: "'d ZMUserSession \<Rightarrow> 'd ZMUserSession" where
  "fetchAllClients u = notifyNewRequestsAvailable (emit (NeedsToFetchClients True) u)"

datatype (plugins only: code size) ZMUserSession_OTR =
    DeleteClient ZMManagedObject
  | FetchAllClients
  | DeleteClients "ZMManagedObject list" "ZMCredentials option"
  | AddClientUpdateObserver nat
  | RemoveClientUpdateObserver nat

primrec otr_send :: "ZMUserSession_OTR \<Rightarrow> 'd ZMUserSession \<Rightarrow> 'd ZMUserSession" where
  "otr_send (DeleteClient c) = deleteClient c"
| "otr_send FetchAllClients = fetchAllClients"
| "otr_send (DeleteClients cs c) = deleteClients cs c"
| "otr_send (AddClientUpdateObserver ob) = emit (AddedObserver ob)"
| "otr_send (RemoveClientUpdateObserver ob) = emit (RemovedObserver ob)"

datatype (plugins only: code size) ZMClientUpdateObserver =
    FinishedFetchingClients "ZMManagedObject list"
  | FailedToFetchClientsWithError "NSError option"
  | FinishedDeletingClients "ZMManagedObject list"
  | FailedToDeleteClientsWithError "NSError option"

definition client_callback :: "ZMClientUpdateNotification \<Rightarrow> ZMClientUpdateObserver" where
  "client_callback note =
     (case client_note_type note of
        ZMClientUpdateNotificationTypeFetchCompleted \<Rightarrow> FinishedFetchingClients (client_note_clientObjectIDs note)
      | ZMClientUpdateNotificationTypeFetchFailed \<Rightarrow> FailedToFetchClientsWithError (client_note_error note)
      | ZMClientUpdateNotificationTypeDeletionCompleted \<Rightarrow> FinishedDeletingClients (client_note_clientObjectIDs note)
      | ZMClientUpdateNotificationTypeDeletionFailed \<Rightarrow> FailedToDeleteClientsWithError (client_note_error note))"

section \<open>The interface of the facade\<close>

datatype (plugins only: code size) ZMUserSession_msg =
    PrepareLocalStore
  | StartAndCheckClientVersion NSTimeInterval bool
  | SessionStart
  | SaveOrRollbackChanges
  | PerformChanges nat
  | EnqueueChanges nat "nat option"
  | ResetPushTokens
  | InitiateUserDeletion
  | AddCompletionHandlerForBackgroundURLSession NSString nat
  | AddAddressBookUploadObserver nat
  | RemoveAddressBookUploadObserver nat
  | UploadAddressBook
  | DidLaunchWithURL NSString
  | AddAVSLogObserver nat
  | RemoveAVSLogObserver nat
  | AppendAVSLogMessage "ZMManagedObject option" NSString

primrec session_send ::
  "'d archiver \<Rightarrow> user_session_env \<Rightarrow> ZMUserSession_msg \<Rightarrow> 'd ZMUserSession \<Rightarrow> 'd ZMUserSession" where
  "session_send A env PrepareLocalStore = emit PreparedLocalStore"
| "session_send A env (StartAndCheckClientVersion interval block) = startAndCheckClientVersion env interval block"
| "session_send A env SessionStart = session_start env"
| "session_send A env SaveOrRollbackChanges = emit SaveOrRollbackUI"
| "session_send A env (PerformChanges block) = performChanges block"
| "session_send A env (EnqueueChanges block handler) = enqueueChanges block handler"
| "session_send A env ResetPushTokens = resetPushTokens A env"
| "session_send A env InitiateUserDeletion = initiateUserDeletion"
| "session_send A env (AddCompletionHandlerForBackgroundURLSession i h) = emit (AddedBackgroundHandler i h)"
| "session_send A env (AddAddressBookUploadObserver ob) = emit (AddedObserver ob)"
| "session_send A env (RemoveAddressBookUploadObserver ob) = emit (RemovedObserver ob)"
| "session_send A env UploadAddressBook = (\<lambda>u. emit ForceSaveOrRollbackUI (emit MarkedAddressBookForUpload u))"
| "session_send A env (DidLaunchWithURL url) = didLaunchWithURL env url"
| "session_send A env (AddAVSLogObserver ob) = emit (AddedObserver ob)"
| "session_send A env (RemoveAVSLogObserver ob) = emit (RemovedObserver ob)"
| "session_send A env (AppendAVSLogMessage conv m) = emit (AppendedAVSLog conv m)"

datatype (plugins only: code size) ZMUserSession_Internal =
    SessionTearDown
  | EnablePushNotifications
  | NotifyThirdPartyServices
  | DidRegisterUserClientDelegate UserClient
  | NetworkDidReceiveData
  | NetworkDidGoOffline
  | SyncState ZMSyncStateDelegate
  | SearchCommonContacts NSUUID
  | SetUserSessionTrackingIdentifier "NSString option"
  | RequestToOpenSyncConversationOnUI ZMManagedObject
  | SessionSetPushToken "NSData option"
  | SessionSetPushKitToken "NSData option"
  | DeletePushKitToken
  | DeletePushToken
  | AddressBookContacts
  | ReloadAddressBookContacts

primrec internal_send ::
  "'d archiver \<Rightarrow> user_session_env \<Rightarrow> UIApplicationState \<Rightarrow> ZMUserSession_Internal \<Rightarrow> 'd ZMUserSession \<Rightarrow> 'd ZMUserSession" where
  "internal_send A env app SessionTearDown = session_tearDown"
| "internal_send A env app EnablePushNotifications = emit EnabledPushNotifications"
| "internal_send A env app NotifyThirdPartyServices = notifyThirdPartyServices env"
| "internal_send A env app (DidRegisterUserClientDelegate c) = session_didRegisterUserClient c"
| "internal_send A env app NetworkDidReceiveData = didReceiveData app"
| "internal_send A env app NetworkDidGoOffline = didGoOffline app"
| "internal_send A env app (SyncState m) = syncState_send env app m"
| "internal_send A env app (SearchCommonContacts i) = (\<lambda>u. snd (searchCommonContacts i u))"
| "internal_send A env app (SetUserSessionTrackingIdentifier i) = setUserSessionTrackingIdentifier i"
| "internal_send A env app (RequestToOpenSyncConversationOnUI c) =
     (\<lambda>u. didRequestToOpenSyncConversation env (Some c) (emit (RequestedToOpenSyncConversation c) u))"
| "internal_send A env app (SessionSetPushToken d) = session_setPushToken A env d"
| "internal_send A env app (SessionSetPushKitToken d) = session_setPushKitToken A env d"
| "internal_send A env app DeletePushKitToken = deletePushKitToken A"
| "internal_send A env app DeletePushToken = deletePushToken A"
| "internal_send A env app AddressBookContacts = (\<lambda>u. snd (addressBookContacts env u))"
| "internal_send A env app ReloadAddressBookContacts = reloadAddressBookContacts env"

text \<open>
  Everything that reaches a session: the interfaces, the answers of the blacklist verificator and of the
  transport session. The application state is that at the time of the message.
\<close>

datatype (plugins only: code size) facade_msg =
    ToSession ZMUserSession_msg
  | ToInternal UIApplicationState ZMUserSession_Internal
  | ToRegistration ZMUserSession_Registration
  | ToAuthentication ZMUserSession_Authentication
  | ToEditing ZMUserSession_EditingVerification
  | ToOTR ZMUserSession_OTR
  | BlacklistAnswer bool
  | AccessTokenFailed
  | AccessTokenSucceeded "NSString option" "NSString option"

primrec facade_send ::
  "'d archiver \<Rightarrow> user_session_env \<Rightarrow> facade_msg \<Rightarrow> 'd ZMUserSession \<Rightarrow> 'd ZMUserSession" where
  "facade_send A env (ToSession m) = session_send A env m"
| "facade_send A env (ToInternal app m) = internal_send A env app m"
| "facade_send A env (ToRegistration m) = registration_send env m"
| "facade_send A env (ToAuthentication m) = authentication_send A env m"
| "facade_send A env (ToEditing m) = editing_send env m"
| "facade_send A env (ToOTR m) = otr_send m"
| "facade_send A env (BlacklistAnswer b) = blacklistCallback b"
| "facade_send A env AccessTokenFailed = transportSessionAccessTokenDidFail"
| "facade_send A env (AccessTokenSucceeded t ty) = emit (AccessTokenDidChange t ty)"

section \<open>What every run keeps\<close>

definition contacts_bounded :: "nat list option \<Rightarrow> bool" where
  "contacts_bounded cs = (case cs of None \<Rightarrow> True | Some cs \<Rightarrow> length cs \<le> MaximumContactsToParse + 1)"

definition facade_inv :: "'d ZMUserSession \<Rightarrow> bool" where
  "facade_inv u \<longleftrightarrow>
     networkState u = network_state_of (networkIsOnline u) (isPerformingSync u) \<and>
     isOffline u = (\<not> networkIsOnline u) \<and>
     count_list (effects u) CalledBlackListedBlock = (if isVersionBlacklisted u then 1 else 0) \<and>
     contacts_bounded (cachedAddressBookContacts u)"

lemma facade_inv_updates [simp]:
  "e \<noteq> CalledBlackListedBlock \<Longrightarrow> facade_inv (emit e u) = facade_inv u"
  "facade_inv (on_session f u) = facade_inv u"
  "facade_inv (u\<lparr>us_tokens := c\<rparr>) = facade_inv u"
  "facade_inv (u\<lparr>didNotifyThirdPartyServices := b\<rparr>) = facade_inv u"
  "facade_inv (u\<lparr>hasContexts := b\<rparr>) = facade_inv u"
  "facade_inv (u\<lparr>transportClientID := i\<rparr>) = facade_inv u"
  "facade_inv (u\<lparr>CommonContactsSearchUniqueCounter := n\<rparr>) = facade_inv u"
  "facade_inv (u\<lparr>loadAddressBookContactsOnce := b\<rparr>) = facade_inv u"
  "facade_inv (u\<lparr>blackList := b\<rparr>) = facade_inv u"
  "facade_inv (u\<lparr>blackList := b, blackListedBlock := b'\<rparr>) = facade_inv u"
  "facade_inv (u\<lparr>pendingLocalNotification := note\<rparr>) = facade_inv u"
  by (simp_all add: facade_inv_def emit_def on_session_def)

lemma facade_inv_requests [simp]: "facade_inv (notifyNewRequestsAvailable u) = facade_inv u"
  by (simp add: notifyNewRequestsAvailable_def)

lemma parse_contacts_length:
  "length acc \<le> MaximumContactsToParse + 1 \<Longrightarrow>
   length (parse_contacts acc cs) = min (length acc + length cs) (MaximumContactsToParse + 1)"
  by (induction acc cs rule: parse_contacts.induct) auto

lemma parse_contacts_take:
  "length acc \<le> MaximumContactsToParse + 1 \<Longrightarrow>
   parse_contacts acc cs = acc @ take (MaximumContactsToParse + 1 - length acc) cs"
proof (induction acc cs rule: parse_contacts.induct)
  case (2 acc c cs)
  show ?case
  proof (cases "length acc > MaximumContactsToParse")
    case False
    then have "MaximumContactsToParse + 1 - length acc = Suc (MaximumContactsToParse + 1 - length (acc @ [c]))" by simp
    with False 2 show ?thesis by simp
  qed (use 2 in simp)
qed simp

lemma facade_inv_reload [simp]: "facade_inv u \<Longrightarrow> facade_inv (reloadAddressBookContacts env u)"
  using parse_contacts_length [of "[]" "addressBook_contacts env"]
  by (simp add: facade_inv_def reloadAddressBookContacts_def contacts_bounded_def)

lemma facade_inv_network [simp]:
  "isVersionBlacklisted u' = isVersionBlacklisted u \<Longrightarrow> effects u' = effects u \<Longrightarrow>
   cachedAddressBookContacts u' = cachedAddressBookContacts u \<Longrightarrow> facade_inv u \<Longrightarrow>
   facade_inv (changeNetworkStateAndNotify app u')"
  by (simp add: facade_inv_def changeNetworkStateAndNotify_def Let_def emit_def)

lemmas facade_operations = startAndCheckClientVersion_def session_start_def didStartApplication_def performChanges_def
  enqueueChanges_def initiateUserDeletion_def didLaunchWithURL_def session_tearDown_def notifyThirdPartyServices_def
  session_didRegisterUserClient_def didReceiveData_def didGoOffline_def searchCommonContacts_def
  setUserSessionTrackingIdentifier_def didRequestToOpenSyncConversation_def addressBookContacts_def

lemmas token_operations = session_setPushToken_def session_setPushKitToken_def deletePushKitToken_def deletePushToken_def
  resetPushTokens_def reregisterPushTokensIfNecessary_def

lemma facade_inv_tokens [simp]:
  "facade_inv (session_setPushToken A env d u) = facade_inv u"
  "facade_inv (session_setPushKitToken A env d u) = facade_inv u"
  "facade_inv (deletePushKitToken A u) = facade_inv u"
  "facade_inv (deletePushToken A u) = facade_inv u"
  by (simp_all add: session_setPushToken_def session_setPushKitToken_def deletePushKitToken_def deletePushToken_def
      Let_def split: prod.split option.split)

lemma facade_inv_reset [simp]:
  "facade_inv (resetPushTokens A env u) = facade_inv u"
  "facade_inv (reregisterPushTokensIfNecessary A u) = facade_inv u"
  by (simp_all add: resetPushTokens_def reregisterPushTokensIfNecessary_def Let_def case_prod_beta split: option.split)

lemma facade_inv_session: "facade_inv u \<Longrightarrow> facade_inv (session_send A env m u)"
  by (cases m) (simp_all add: facade_operations Let_def split: option.split)

lemma facade_inv_internal: "facade_inv u \<Longrightarrow> facade_inv (internal_send A env app m u)"
proof (cases m)
  case (SyncState d)
  then show "facade_inv u \<Longrightarrow> ?thesis" by (cases d) (simp_all add: notifyThirdPartyServices_def Let_def)
qed (simp_all add: facade_operations Let_def split: option.split)

lemma facade_inv_registration: "facade_inv u \<Longrightarrow> facade_inv (registration_send env m u)"
  by (cases m)
     (simp_all add: registerSelfUser_def registrationDidFail_def updateFromRegistrationUser_def Let_def
        requestPhoneVerificationCodeForRegistration_def verifyPhoneNumberForRegistration_def
        resendRegistrationVerificationEmail_def cancelWaitForEmailVerification_def)

lemma facade_inv_authentication: "facade_inv u \<Longrightarrow> facade_inv (authentication_send A env m u)"
  by (cases m)
     (simp_all add: loginWithCredentials_def login_block_def session_start_def didStartApplication_def Let_def
        requestPhoneVerificationCodeForLogin_def checkIfLoggedIn_def session_deleteAllKeychainItems_def
        resetStateAndExit_def split: option.split)

lemma facade_inv_marks: "facade_inv (fold (\<lambda>client. emit (MarkedClientForDeletion client)) cs u) = facade_inv u"
  by (induction cs arbitrary: u) simp_all

lemma facade_inv_step: "facade_inv u \<Longrightarrow> facade_inv (facade_send A env m u)"
proof (cases m)
  case (ToEditing e)
  then show "facade_inv u \<Longrightarrow> ?thesis" by (cases e) simp_all
next
  case (ToOTR e)
  then show "facade_inv u \<Longrightarrow> ?thesis"
    by (cases e) (simp_all add: deleteClient_def deleteClients_def fetchAllClients_def Let_def facade_inv_marks)
next
  case (BlacklistAnswer b)
  then show "facade_inv u \<Longrightarrow> ?thesis" by (simp add: blacklistCallback_def facade_inv_def emit_def)
qed (simp_all add: facade_inv_session facade_inv_internal facade_inv_registration facade_inv_authentication
       transportSessionAccessTokenDidFail_def)

interpretation facade: component "facade_send A env" facade_inv for A env
  by unfold_locales (rule facade_inv_step)

lemma facade_inv_init: "initWithTransportSession env app random s c = Inr u \<Longrightarrow> facade_inv u"
  by (auto simp: initWithTransportSession_def enableBackgroundFetch_def Let_def split: if_splits)
     (simp add: facade_inv_def emit_def network_state_of_def contacts_bounded_def)

text \<open>C12: whatever reaches a session after its creation, its network state is the one its two flags stand for,
  the user interface context is offline exactly when the network is, the block for blacklisted versions has
  been called at most once, and the cached address book is bounded.\<close>

theorem session_stays_consistent:
  assumes "initWithTransportSession env app random s c = Inr u\<^sub>0"
    and "u = run (facade_send A env) u\<^sub>0 ms"
  shows "networkState u = network_state_of (networkIsOnline u) (isPerformingSync u) \<and>
         isOffline u = (\<not> networkIsOnline u) \<and>
         count_list (effects u) CalledBlackListedBlock \<le> 1 \<and>
         contacts_bounded (cachedAddressBookContacts u)"
  using facade.run_invar [OF facade_inv_init [OF assms(1)], of A env ms] assms(2) by (simp add: facade_inv_def)

definition sample_ue :: user_session_env where
  "sample_ue = \<lparr>ue_session = plain_env, validatePassword = (\<lambda>p. p \<noteq> None), validatePhoneVerificationCode = (\<lambda>c. c \<noteq> None),
     validatedPhone = (\<lambda>p. p), transportTypeNormal = Some ''APNS'', transportTypeVoIP = Some ''APNS_VOIP'',
     fallbackVoIP = Some ''APNS'', apnsAppIdentifier = Some ''com.wire'', registrantToken = None,
     addressBookAuthorized = True, addressBook_contacts = [3, 4], invitationURL = (\<lambda>_. False),
     phoneCodeOfURL = (\<lambda>_. None), thirdPartyDelegate = True, openViewDelegate = True\<rparr>"

definition sample_session :: "(NSString \<times> NSCoder) ZMUserSession" where
  "sample_session =
     (case initWithTransportSession sample_ue True 0 blank_session empty_token_context of Inr u \<Rightarrow> u)"

lemma sample_session_init:
  "initWithTransportSession sample_ue True 0 blank_session (empty_token_context :: (NSString \<times> NSCoder) token_context) =
     Inr sample_session"
  by (simp add: sample_session_def initWithTransportSession_def enableBackgroundFetch_def Let_def)

theorem session_stays_consistent_witness:
  "let u = run (facade_send plain_archiver sample_ue) sample_session
       [ToSession (StartAndCheckClientVersion 60 True), ToInternal UIApplicationStateActive NetworkDidGoOffline,
        BlacklistAnswer True, BlacklistAnswer True]
   in networkState u = network_state_of (networkIsOnline u) (isPerformingSync u) \<and>
      count_list (effects u) CalledBlackListedBlock \<le> 1"
  using session_stays_consistent [OF sample_session_init refl] unfolding Let_def by blast

text \<open>The cached address book holds the first contacts, up to one more than \<^verbatim>\<open>MaximumContactsToParse\<close>: a larger
  address book is cut after 10001 contacts, not 10000.\<close>

lemma address_book_exceeds_maximum_by_one:
  "cachedAddressBookContacts (reloadAddressBookContacts env u) = Some (take 10001 (addressBook_contacts env)) \<and>
   MaximumContactsToParse = 10000"
  using parse_contacts_take [of "[]" "addressBook_contacts env"]
  by (simp add: reloadAddressBookContacts_def MaximumContactsToParse_def)

text \<open>When the verification code of a registration by phone is not valid, the failure of the registration is
  announced, and the registration of the same user is started all the same.\<close>

lemma registration_continues_after_failure:
  assumes "ru_phoneNumber r = Some p" "validatedPhone env (Some p) \<noteq> None"
    and "ru_invitationCode r = None" "\<not> validatePhoneVerificationCode env (ru_phoneVerificationCode r)"
  shows "RegistrationNote \<lparr>reg_note_type = ZMRegistrationNotificationRegistrationDidFail,
             reg_note_error = Some needsCredentialsError\<rparr> \<in> set (posted (us_session (registerSelfUser env r u))) \<and>
         registrationUser (us_session (registerSelfUser env r u)) = Some r"
  using assms
  by (auto simp: registerSelfUser_def registrationDidFail_def updateFromRegistrationUser_def Let_def on_session_def emit_def
      notifyNewRequestsAvailable_def prepareForRegistrationOfUser_def setRegistrationUser_def registrationNote_def post_def
      resetLoginAndRegistrationStatus_def registrationUser_def setLoginCredentials_def)

definition phone_user :: ZMCompleteRegistrationUser where
  "phone_user = mail_user\<lparr>ru_phoneNumber := Some ''+491'', ru_phoneVerificationCode := None\<rparr>"

lemma registration_continues_after_failure_example:
  "registrationUser (us_session (registerSelfUser sample_ue phone_user sample_session)) = Some phone_user"
  using registration_continues_after_failure [of phone_user "''+491''" sample_ue sample_session]
  by (simp add: phone_user_def mail_user_def sample_ue_def)

end
