(* ===== verification/SessionBackground.thy ===== *)
theory SessionBackground
  imports SessionFacade
begin

text \<open>
  \<^verbatim>\<open>ZMUserSession+Background\<close>: push payloads, local notifications and their actions, background fetches, and
  the notification that waits for the session to process events (\<^verbatim>\<open>ZMStoredLocalNotification\<close>).

  A handler is a number, \<open>None\<close> for \<^verbatim>\<open>nil\<close>; calls of handlers are effects. A local notification is opaque;
  what the lookups of \<^verbatim>\<open>ZMLocalNotification\<close> and of the data model give for it are fields of
  \<open>background_env\<close>. The properties count the calls of a completion handler.
\<close>

section \<open>Constants and lookups\<close>

definition ZMConversationCategory :: NSString where "ZMConversationCategory = ''conversationCategory''"
definition ZMConversationOpenAction :: NSString where "ZMConversationOpenAction = ''conversationOpenAction''"
definition ZMConversationDirectReplyAction :: NSString where
  "ZMConversationDirectReplyAction = ''conversationDirectReplyAction''"
definition ZMCallCategory :: NSString where "ZMCallCategory = ''callCategory''"
definition ZMCallIgnoreAction :: NSString where "ZMCallIgnoreAction = ''ignoreCallAction''"
definition ZMCallAcceptAction :: NSString where "ZMCallAcceptAction = ''acceptCallAction''"
definition ZMConnectCategory :: NSString where "ZMConnectCategory = ''connectCategory''"
definition ZMConnectAcceptAction :: NSString where "ZMConnectAcceptAction = ''acceptConnectAction''"

lemmas category_names = ZMConversationCategory_def ZMConversationOpenAction_def ZMConversationDirectReplyAction_def
  ZMCallCategory_def ZMCallIgnoreAction_def ZMCallAcceptAction_def ZMConnectCategory_def ZMConnectAcceptAction_def

text \<open>The three categories of notifications: identifier, default actions, minimal actions.\<close>

datatype ZMUserSession_UserNotificationCategories = ReplyCategory | CallCategory | ConnectCategory

primrec notification_category ::
  "ZMUserSession_UserNotificationCategories \<Rightarrow> NSString \<times> NSString list \<times> NSString list" where
  "notification_category ReplyCategory =
     (ZMConversationCategory, [ZMConversationDirectReplyAction],
      [ZMConversationDirectReplyAction, ZMConversationOpenAction])"
| "notification_category CallCategory =
     (ZMCallCategory, [ZMCallAcceptAction, ZMCallIgnoreAction, ZMConversationDirectReplyAction],
      [ZMCallAcceptAction, ZMCallIgnoreAction, ZMConversationDirectReplyAction])"
| "notification_category ConnectCategory = (ZMConnectCategory, [ZMConnectAcceptAction], [ZMConnectAcceptAction])"

record push_event =
  pe_isUserConnection :: bool
  pe_senderUUID :: "NSUUID option"
  pe_conversationUUID :: "NSUUID option"
  pe_messageNonce :: "NSUUID option"

record background_env =
  be_session :: user_session_env
  conversationForLocalNotification :: "nat \<Rightarrow> ZMManagedObject option"
  messageForLocalNotification :: "nat \<Rightarrow> ZMManagedObject \<Rightarrow> ZMManagedObject option"
  senderForLocalNotification :: "nat \<Rightarrow> NSUUID option"
  categoryOfLocalNotification :: "nat \<Rightarrow> NSString option"
  optionalUuidForKey :: "NSString \<Rightarrow> (NSString \<times> json) list \<Rightarrow> NSUUID option"
  conversationWithRemoteID :: "NSUUID \<Rightarrow> ZMManagedObject option"
  isCallStateType :: "NSString option \<Rightarrow> bool"
  firstPushEvent :: "(NSString \<times> json) list \<Rightarrow> push_event option"
  messageWithNonce :: "NSUUID \<Rightarrow> ZMManagedObject option \<Rightarrow> ZMManagedObject option"
  userWithRemoteIdentifier :: "NSUUID option \<Rightarrow> ZMManagedObject option"
  connectionConversation :: "ZMManagedObject \<Rightarrow> ZMManagedObject option"
  otherConversationHasActiveCall :: "ZMManagedObject \<Rightarrow> bool"
  callParticipantCount :: "ZMManagedObject \<Rightarrow> nat"
  newerThan_iOS_8_4 :: bool

definition call_handler :: "nat option \<Rightarrow> 'd ZMUserSession \<Rightarrow> 'd ZMUserSession" where
  "call_handler h u = (case h of None \<Rightarrow> u | Some h \<Rightarrow> emit (CalledHandler h) u)"

section \<open>Stored notifications\<close>

definition initWithNotification ::
  "background_env \<Rightarrow> nat \<Rightarrow> NSString option \<Rightarrow> NSString option \<Rightarrow> ZMStoredLocalNotification" where
  "initWithNotification be n identifier text =
     (let conversation = conversationForLocalNotification be n
      in \<lparr>stored_conversation = conversation,
          stored_message = Option.bind conversation (messageForLocalNotification be n),
          stored_senderUUID = senderForLocalNotification be n, stored_category = categoryOfLocalNotification be n,
          stored_actionIdentifier = identifier, stored_textInput = text\<rparr>)"

definition storedFromAPNSDictionary ::
  "background_env \<Rightarrow> (NSString \<times> json) list \<Rightarrow> ZMStoredLocalNotification option" where
  "storedFromAPNSDictionary be d =
     (if d = [] then None
      else case optionalUuidForKey be ''conversation_id'' d of
             None \<Rightarrow> None
           | Some i \<Rightarrow>
               Some \<lparr>stored_conversation = conversationWithRemoteID be i, stored_message = None, stored_senderUUID = None,
                     stored_category = Some (if isCallStateType be (optionalStringForKey ''msg_type'' (Some d))
                       then ZMCallCategory else ZMConversationCategory),
                     stored_actionIdentifier = None, stored_textInput = None\<rparr>)"

definition storedFromDataDictionary ::
  "background_env \<Rightarrow> (NSString \<times> json) list \<Rightarrow> ZMStoredLocalNotification option" where
  "storedFromDataDictionary be d =
     (if d = [] then None
      else let d = (case optionalDictionaryForKey ''data'' (Some d) of Some (x # xs) \<Rightarrow> x # xs | _ \<Rightarrow> d)
           in case firstPushEvent be d of
                None \<Rightarrow> None
              | Some e \<Rightarrow>
                  let conversation = Option.bind (pe_conversationUUID e) (conversationWithRemoteID be);
                      message = (if pe_conversationUUID e = None then None
                                 else Option.bind (pe_messageNonce e) (\<lambda>nonce. messageWithNonce be nonce conversation))
                  in Some \<lparr>stored_conversation = conversation, stored_message = message,
                           stored_senderUUID = pe_senderUUID e,
                           stored_category = Some (if pe_isUserConnection e then ZMConnectCategory else ZMConversationCategory),
                           stored_actionIdentifier = None, stored_textInput = None\<rparr>)"

definition initWithPushPayload ::
  "background_env \<Rightarrow> (NSString \<times> json) list \<Rightarrow> ZMStoredLocalNotification option" where
  "initWithPushPayload be userInfo =
     (let aps = (if map_of userInfo ''aps'' = None then None
                 else Option.bind (optionalDictionaryForKey ''aps'' (Some userInfo)) (storedFromAPNSDictionary be))
      in case aps of
           Some note \<Rightarrow> Some note
         | None \<Rightarrow> Option.bind (optionalDictionaryForKey ''data'' (Some userInfo)) (storedFromDataDictionary be))"

section \<open>Processing the pending notification\<close>

definition openConversation ::
  "background_env \<Rightarrow> ZMManagedObject option \<Rightarrow> ZMManagedObject option \<Rightarrow> 'd ZMUserSession \<Rightarrow> 'd ZMUserSession" where
  "openConversation be conversation message u =
     (if \<not> openViewDelegate (be_session be) then u
      else emit (DelegateCall
        (case conversation of
           None \<Rightarrow> ShowConversationList
         | Some c \<Rightarrow> (case message of None \<Rightarrow> ShowConversation c | Some m \<Rightarrow> ShowMessage m c))) u)"

definition handleConnectionRequestCategoryNotification ::
  "background_env \<Rightarrow> ZMStoredLocalNotification \<Rightarrow> 'd ZMUserSession \<Rightarrow> 'd ZMUserSession" where
  "handleConnectionRequestCategoryNotification be note u =
     (case userWithRemoteIdentifier be (stored_senderUUID note) of
        None \<Rightarrow> openConversation be (stored_conversation note) None u
      | Some sender \<Rightarrow>
          openConversation be (connectionConversation be sender) None
            (if stored_actionIdentifier note = Some ZMConnectAcceptAction
             then emit SaveOrRollbackUI (emit (AcceptedConnection sender) u) else u))"

definition handleCallCategoryNotification ::
  "background_env \<Rightarrow> ZMStoredLocalNotification \<Rightarrow> 'd ZMUserSession \<Rightarrow> 'd ZMUserSession" where
  "handleCallCategoryNotification be note u =
     openConversation be (stored_conversation note) None
       (case stored_conversation note of
          Some c \<Rightarrow>
            if (stored_actionIdentifier note = None \<or> stored_actionIdentifier note = Some ZMCallAcceptAction) \<and>
               \<not> otherConversationHasActiveCall be c \<and> callParticipantCount be c > 0
            then emit SaveOrRollbackUI (emit (JoinedVoiceChannel c) u) else u
        | None \<Rightarrow> u)"

definition didEnterEventProcessingState :: "background_env \<Rightarrow> 'd ZMUserSession \<Rightarrow> 'd ZMUserSession" where
  "didEnterEventProcessingState be u =
     (case pendingLocalNotification u of
        None \<Rightarrow> u
      | Some note \<Rightarrow>
          (if stored_category note = Some ZMConnectCategory then handleConnectionRequestCategoryNotification be note u
           else if stored_category note = Some ZMCallCategory then handleCallCategoryNotification be note u
           else openConversation be (stored_conversation note) (stored_message note) u)
          \<lparr>pendingLocalNotification := None\<rparr>)"

section \<open>Actions\<close>

definition ignoreCallForNotification ::
  "background_env \<Rightarrow> nat \<Rightarrow> nat option \<Rightarrow> 'd ZMUserSession \<Rightarrow> 'd ZMUserSession" where
  "ignoreCallForNotification be n handler u =
     call_handler handler (emit EndedActivity (emit SaveOrRollbackUI
       (emit (IgnoredCall (conversationForLocalNotification be n)) (emit (BeganActivity ''IgnoreCall Action Handler'') u))))"

text \<open>The operation loop keeps the handler of the background task; \<open>replyTaskCompleted\<close> is that handler.\<close>

definition replyToNotification ::
  "background_env \<Rightarrow> nat \<Rightarrow> NSString option \<Rightarrow> nat option \<Rightarrow> 'd ZMUserSession \<Rightarrow> 'd ZMUserSession" where
  "replyToNotification be n reply handler u =
     (case reply of
        Some (c # cs) \<Rightarrow>
          (let u = emit (BeganActivity ''DirectReply Action Handler'') u
           in case conversationForLocalNotification be n of
                Some conversation \<Rightarrow>
                  emit SaveOrRollbackUI (emit (AppendedMessage conversation (c # cs))
                    (emit (StartedBackgroundTask conversation handler) u))
              | None \<Rightarrow> call_handler handler (emit EndedActivity u))
      | _ \<Rightarrow> call_handler handler u)"

definition replyTaskCompleted ::
  "bool \<Rightarrow> ZMManagedObject \<Rightarrow> nat option \<Rightarrow> 'd ZMUserSession \<Rightarrow> 'd ZMUserSession" where
  "replyTaskCompleted failed conversation handler u =
     call_handler handler (emit EndedActivity (if failed then emit (FailedToSendMessage conversation) u else u))"

text \<open>There is no \<^verbatim>\<open>return\<close> after a call is ignored.\<close>

definition handleActionWithIdentifier ::
  "background_env \<Rightarrow> UIApplicationState \<Rightarrow> NSString option \<Rightarrow> nat \<Rightarrow> (NSString \<times> json) list \<Rightarrow> nat option \<Rightarrow>
   'd ZMUserSession \<Rightarrow> 'd ZMUserSession" where
  "handleActionWithIdentifier be app identifier n responseInfo handler u =
     (let u = (if identifier = Some ZMCallIgnoreAction then ignoreCallForNotification be n handler u else u)
      in if newerThan_iOS_8_4 be \<and> identifier = Some ZMConversationDirectReplyAction then
           replyToNotification be n
             (optionalStringForKey ''UIUserNotificationActionResponseTypedTextKey'' (Some responseInfo)) handler u
         else
           let u = (if app = UIApplicationStateInactive then
                      let u = u\<lparr>pendingLocalNotification := Some (initWithNotification be n identifier None)\<rparr>
                      in if didStartInitialSync u \<and> \<not> isPerformingSync u then didEnterEventProcessingState be u else u
                    else u)
           in call_handler handler u)"

section \<open>Pushes and fetches\<close>

definition receivedPushNotification ::
  "UIApplicationState \<Rightarrow> (NSString \<times> json) list \<Rightarrow> nat option \<Rightarrow> ZMPushNotficationType \<Rightarrow>
   'd ZMUserSession \<Rightarrow> 'd ZMUserSession" where
  "receivedPushNotification app payload handler source u =
     (if currentPhase (us_session u) \<noteq> ZMAuthenticationPhaseAuthenticated \<or> app \<noteq> UIApplicationStateBackground then
        (case handler of None \<Rightarrow> u | Some h \<Rightarrow> emit (CalledPushHandler h ZMPushPayloadResultSuccess) u)
      else emit (SavedEventsForPayload payload handler source) u)"

definition didReceiveRemoteNotification ::
  "background_env \<Rightarrow> UIApplicationState \<Rightarrow> (NSString \<times> json) list \<Rightarrow> nat option \<Rightarrow>
   'd ZMUserSession \<Rightarrow> 'd ZMUserSession" where
  "didReceiveRemoteNotification be app userInfo handler u =
     (if app = UIApplicationStateInactive then
        let u = u\<lparr>pendingLocalNotification := initWithPushPayload be userInfo\<rparr>
        in case handler of None \<Rightarrow> u | Some h \<Rightarrow> emit (CalledFetchHandler h UIBackgroundFetchResultNewData) u
      else emit (ForwardedRemoteNotification userInfo handler) u)"

definition didReceiveLocalNotification ::
  "background_env \<Rightarrow> UIApplicationState \<Rightarrow> nat \<Rightarrow> 'd ZMUserSession \<Rightarrow> 'd ZMUserSession" where
  "didReceiveLocalNotification be app n u =
     (if app = UIApplicationStateInactive
      then u\<lparr>pendingLocalNotification := Some (initWithNotification be n None None)\<rparr> else u)"

text \<open>The remote notification of the launch options has a handler of its own that does nothing; it is the number
  \<open>launch_handler\<close>.\<close>

definition didFinishLaunchingWithOptions ::
  "background_env \<Rightarrow> UIApplicationState \<Rightarrow> nat \<Rightarrow> nat option \<Rightarrow> (NSString \<times> json) list option \<Rightarrow>
   'd ZMUserSession \<Rightarrow> 'd ZMUserSession" where
  "didFinishLaunchingWithOptions be app launch_handler local remote u =
     (let u = (case local of None \<Rightarrow> u | Some n \<Rightarrow> didReceiveLocalNotification be app n u)
      in case remote of
           None \<Rightarrow> u
         | Some payload \<Rightarrow> didReceiveRemoteNotification be app payload (Some launch_handler) u)"

datatype (plugins only: code size) ZMUserSession_ZMBackground =
    DidRegisterForRemoteNotifications NSData
  | RemoveRemoteNotificationTokenIfNeeded
  | DidReceiveRemoteNotification "(NSString \<times> json) list" "nat option"
  | DidReceiveLocalNotification nat
  | HandleActionWithIdentifier "NSString option" nat "(NSString \<times> json) list" "nat option"
  | PerformFetchWithCompletionHandler nat
  | HandleEventsForBackgroundURLSession NSString nat
  | DidFinishLaunchingWithOptions nat "nat option" "(NSString \<times> json) list option"
  | SetupPushNotifications
  | ApplicationDidEnterBackground
  | ApplicationWillEnterForeground

primrec background_send ::
  "'d archiver \<Rightarrow> background_env \<Rightarrow> UIApplicationState \<Rightarrow> ZMUserSession_ZMBackground \<Rightarrow>
   'd ZMUserSession \<Rightarrow> 'd ZMUserSession" where
  "background_send A be app (DidRegisterForRemoteNotifications d) = emit (ForwardedDeviceToken d)"
| "background_send A be app RemoveRemoteNotificationTokenIfNeeded = deletePushToken A"
| "background_send A be app (DidReceiveRemoteNotification p h) = didReceiveRemoteNotification be app p h"
| "background_send A be app (DidReceiveLocalNotification n) = didReceiveLocalNotification be app n"
| "background_send A be app (HandleActionWithIdentifier i n r h) = handleActionWithIdentifier be app i n r h"
| "background_send A be app (PerformFetchWithCompletionHandler h) = emit (StartedBackgroundFetch h)"
| "background_send A be app (HandleEventsForBackgroundURLSession i h) =
     emit (CalledFetchHandler h UIBackgroundFetchResultFailed)"
| "background_send A be app (DidFinishLaunchingWithOptions l n p) = didFinishLaunchingWithOptions be app l n p"
| "background_send A be app SetupPushNotifications =
     (\<lambda>u. emit (RegisteredNotificationCategories
        (map (fst \<circ> notification_category) [ReplyCategory, CallCategory, ConnectCategory]))
        (emit RegisteredForRemoteNotifications u))"
| "background_send A be app ApplicationDidEnterBackground = notifyThirdPartyServices (be_session be)"
| "background_send A be app ApplicationWillEnterForeground = (\<lambda>u. u\<lparr>didNotifyThirdPartyServices := False\<rparr>)"

section \<open>Calls of a completion handler\<close>

definition handler_calls :: "nat \<Rightarrow> 'd ZMUserSession \<Rightarrow> nat" where
  "handler_calls h u = count_list (effects u) (CalledHandler h)"

lemma handler_calls_simps [simp]:
  "handler_calls h (emit e u) = handler_calls h u + (if e = CalledHandler h then 1 else 0)"
  "handler_calls h (u\<lparr>pendingLocalNotification := n\<rparr>) = handler_calls h u"
  "handler_calls h (call_handler h' u) = handler_calls h u + (if h' = Some h then 1 else 0)"
  by (simp_all add: handler_calls_def emit_def call_handler_def split: option.split)

lemma handler_calls_open [simp]: "handler_calls h (openConversation be c m u) = handler_calls h u"
  by (simp add: openConversation_def)

lemma handler_calls_processing [simp]: "handler_calls h (didEnterEventProcessingState be u) = handler_calls h u"
  by (simp add: didEnterEventProcessingState_def handleConnectionRequestCategoryNotification_def
      handleCallCategoryNotification_def split: option.split)

lemma handler_calls_ignore [simp]:
  "handler_calls h (ignoreCallForNotification be n (Some h) u) = handler_calls h u + 1"
  by (simp add: ignoreCallForNotification_def)

text \<open>The completion handler of a notification action is called once for every action that does not start a
  reply, except that the action to ignore a call calls it twice.\<close>

lemma ignored_call_completes_twice:
  assumes "identifier \<noteq> Some ZMConversationDirectReplyAction"
  shows "handler_calls h (handleActionWithIdentifier be app identifier n info (Some h) u) =
    handler_calls h u + (if identifier = Some ZMCallIgnoreAction then 2 else 1)"
  using assms by (simp add: handleActionWithIdentifier_def Let_def)

definition sample_be :: background_env where
  "sample_be = \<lparr>be_session = sample_ue, conversationForLocalNotification = (\<lambda>_. Some 7),
     messageForLocalNotification = (\<lambda>_ _. None), senderForLocalNotification = (\<lambda>_. None),
     categoryOfLocalNotification = (\<lambda>_. Some ZMCallCategory), optionalUuidForKey = (\<lambda>_ _. None),
     conversationWithRemoteID = (\<lambda>_. None), isCallStateType = (\<lambda>_. False), firstPushEvent = (\<lambda>_. None),
     messageWithNonce = (\<lambda>_ _. None), userWithRemoteIdentifier = (\<lambda>_. None), connectionConversation = (\<lambda>_. None),
     otherConversationHasActiveCall = (\<lambda>_. False), callParticipantCount = (\<lambda>_. 2), newerThan_iOS_8_4 = True\<rparr>"

lemma ignored_call_completes_twice_example:
  "handler_calls 5 (handleActionWithIdentifier sample_be UIApplicationStateBackground (Some ZMCallIgnoreAction) 3 []
     (Some 5) sample_session) = handler_calls 5 sample_session + 2"
  using ignored_call_completes_twice [of "Some ZMCallIgnoreAction" 5 sample_be UIApplicationStateBackground 3 "[]" sample_session]
  by (simp add: category_names)

text \<open>A reply calls the handler at once or hands it to a background task, never both.\<close>

lemma reply_handler:
  "handler_calls h (replyToNotification be n reply (Some h) u) - handler_calls h u =
     (if reply \<noteq> None \<and> reply \<noteq> Some '''' \<and> conversationForLocalNotification be n \<noteq> None then 0 else 1)"
  by (auto simp: replyToNotification_def Let_def split: option.split list.split)

text \<open>The pending notification is processed once.\<close>

lemma pending_processed_once:
  "didEnterEventProcessingState be (didEnterEventProcessingState be u) = didEnterEventProcessingState be u"
  by (cases "pendingLocalNotification u") (simp_all add: didEnterEventProcessingState_def)

end
