(* ===== verification/SessionNotifications.thy ===== *)
theory SessionNotifications
  imports UserSession
begin

text \<open>
  The notification classes of the session over a model of \<^verbatim>\<open>NSNotificationCenter\<close>: a list of registrations
  with a name and an object they are limited to. A notification reaches the registrations of its name that are
  not limited, or limited to its object. The lemmas show who is notified; the property shows that the
  observers of the connection limit are not.
\<close>

section \<open>The notification centre\<close>

datatype note_object = ObSession nat | ObConversation ZMManagedObject | ObClass NSString

record observation =
  obs_observer :: nat
  obs_name :: NSString
  obs_object :: "note_object option"

type_synonym notification_center = "observation list"

datatype (plugins only: code size) note_content =
    NetworkContent ZMNetworkState
  | TypingContent "ZMManagedObject list"
  | PlainContent
  | RegistrationContent ZMUserSessionRegistrationNotification
  | AuthenticationContent ZMUserSessionAuthenticationNotification
  | ProfileContent ZMUserProfileUpdateNotification
  | ClientContent ZMClientUpdateNotification

record NSNotification =
  note_name :: NSString
  note_object :: "note_object option"
  note_content :: note_content

definition addObserver :: "nat \<Rightarrow> NSString \<Rightarrow> note_object option \<Rightarrow> notification_center \<Rightarrow> notification_center" where
  "addObserver ob name on c = c @ [\<lparr>obs_observer = ob, obs_name = name, obs_object = on\<rparr>]"

text \<open>\<^verbatim>\<open>removeObserver:name:object:\<close>; an argument that is \<^verbatim>\<open>nil\<close> does not restrict what is removed.\<close>

definition removeObserver ::
  "nat \<Rightarrow> NSString option \<Rightarrow> note_object option \<Rightarrow> notification_center \<Rightarrow> notification_center" where
  "removeObserver ob name on c =
     filter (\<lambda>r. \<not> (obs_observer r = ob \<and> (name = None \<or> name = Some (obs_name r)) \<and>
                     (on = None \<or> on = obs_object r))) c"

definition receives :: "NSNotification \<Rightarrow> observation \<Rightarrow> bool" where
  "receives n r \<longleftrightarrow> obs_name r = note_name n \<and> (obs_object r = None \<or> obs_object r = note_object n)"

definition postNotification :: "NSNotification \<Rightarrow> notification_center \<Rightarrow> nat list" where
  "postNotification n c = map obs_observer (filter (receives n) c)"

section \<open>Notifications of the user session\<close>

definition ZMNetworkAvailabilityChangeNotificationName :: NSString where
  "ZMNetworkAvailabilityChangeNotificationName = ''ZMNetworkAvailabilityChangeNotification''"
definition ZMTypingChangeNotificationName :: NSString where
  "ZMTypingChangeNotificationName = ''ZMTypingChangeNotification''"
definition ZMConnectionLimitReachedNotificationName :: NSString where
  "ZMConnectionLimitReachedNotificationName = ''ZMConnectionLimitReachedNotification''"
definition ZMInitialSyncCompletedNotificationName :: NSString where
  "ZMInitialSyncCompletedNotificationName = ''ZMInitialSyncCompletedNotification''"
definition UserSessionRegistrationNotificationName :: NSString where
  "UserSessionRegistrationNotificationName = ''ZMUserSessionRegistrationNotification''"
definition VerificationEmailResendRequestNotificationName :: NSString where
  "VerificationEmailResendRequestNotificationName = ''ZMVerificationEmailResendRequest''"
definition UserSessionAuthenticationNotificationName :: NSString where
  "UserSessionAuthenticationNotificationName = ''ZMUserSessionAuthenticationNotificationName''"
definition ClientUpdateNotificationName :: NSString where
  "ClientUpdateNotificationName = ''ClientUpdateNotification''"
definition UserProfileNotificationName :: NSString where
  "UserProfileNotificationName = ''ZMUUserProfileNotificationName''"

lemmas notification_names = ZMNetworkAvailabilityChangeNotificationName_def ZMTypingChangeNotificationName_def
  ZMConnectionLimitReachedNotificationName_def ZMInitialSyncCompletedNotificationName_def
  UserSessionRegistrationNotificationName_def VerificationEmailResendRequestNotificationName_def
  UserSessionAuthenticationNotificationName_def ClientUpdateNotificationName_def UserProfileNotificationName_def

text \<open>The factory methods of the internal header.\<close>

datatype (plugins only: code size) ZMNotifications_UserSessionInternal =
    NotifyInitialSyncCompleted
  | NetworkAvailabilityChange ZMNetworkState nat
  | TypingChange ZMManagedObject "ZMManagedObject list"
  | ConnectionLimit

primrec internal_notification :: "ZMNotifications_UserSessionInternal \<Rightarrow> NSNotification" where
  "internal_notification NotifyInitialSyncCompleted =
     \<lparr>note_name = ZMInitialSyncCompletedNotificationName, note_object = None, note_content = PlainContent\<rparr>"
| "internal_notification (NetworkAvailabilityChange state session) =
     \<lparr>note_name = ZMNetworkAvailabilityChangeNotificationName, note_object = Some (ObSession session),
      note_content = NetworkContent state\<rparr>"
| "internal_notification (TypingChange conversation users) =
     \<lparr>note_name = ZMTypingChangeNotificationName, note_object = Some (ObConversation conversation),
      note_content = TypingContent users\<rparr>"
| "internal_notification ConnectionLimit =
     \<lparr>note_name = ZMConnectionLimitReachedNotificationName, note_object = None, note_content = PlainContent\<rparr>"

text \<open>
  The public header: observers of the initial sync, of the network of a session, of the typing in a
  conversation and of the connection limit. The methods for the last two are class methods, where
  \<^verbatim>\<open>self\<close> is the class.
\<close>

datatype (plugins only: code size) ZMNotifications_UserSession =
    AddInitalSyncCompletionObserver nat
  | RemoveInitalSyncCompletionObserver nat
  | AddNetworkAvailabilityObserver nat nat
  | RemoveNetworkAvailabilityObserver nat
  | AddTypingObserver nat ZMManagedObject
  | RemoveTypingObserver nat
  | AddConnectionLimitObserver nat
  | RemoveConnectionLimitObserver nat

definition connectionLimitClass :: note_object where
  "connectionLimitClass = ObClass ''ZMConnectionLimitNotification''"

primrec observers_send :: "ZMNotifications_UserSession \<Rightarrow> notification_center \<Rightarrow> notification_center" where
  "observers_send (AddInitalSyncCompletionObserver ob) = addObserver ob ZMInitialSyncCompletedNotificationName None"
| "observers_send (RemoveInitalSyncCompletionObserver ob) =
     removeObserver ob (Some ZMInitialSyncCompletedNotificationName) None"
| "observers_send (AddNetworkAvailabilityObserver ob session) =
     addObserver ob ZMNetworkAvailabilityChangeNotificationName (Some (ObSession session))"
| "observers_send (RemoveNetworkAvailabilityObserver ob) =
     removeObserver ob (Some ZMNetworkAvailabilityChangeNotificationName) None"
| "observers_send (AddTypingObserver ob conversation) =
     addObserver ob ZMTypingChangeNotificationName (Some (ObConversation conversation))"
| "observers_send (RemoveTypingObserver ob) = removeObserver ob (Some ZMTypingChangeNotificationName) None"
| "observers_send (AddConnectionLimitObserver ob) =
     addObserver ob ZMConnectionLimitReachedNotificationName (Some connectionLimitClass)"
| "observers_send (RemoveConnectionLimitObserver ob) =
     removeObserver ob (Some ZMConnectionLimitReachedNotificationName) (Some connectionLimitClass)"

section \<open>Notifications of the status objects\<close>

text \<open>The notifying methods; those that assert that there is an error fail without one.\<close>

datatype (plugins only: code size) ZMUserSessionRegistrationNotification_msg =
    NotifyRegistrationDidFail "NSError option"
  | NotifyPhoneNumberVerificationDidFail "NSError option"
  | NotifyPhoneNumberVerificationCodeRequestDidFail "NSError option"
  | NotifyEmailVerificationDidSucceed
  | NotifyPhoneNumberVerificationDidSucceed
  | NotifyPhoneNumberVerificationCodeRequestDidSucceed
  | ResendValidationForRegistrationEmail

definition registration_notification ::
  "ZMUserSessionRegistrationNotificationType \<Rightarrow> NSError option \<Rightarrow> NSNotification" where
  "registration_notification t e =
     \<lparr>note_name = UserSessionRegistrationNotificationName, note_object = None,
      note_content = RegistrationContent \<lparr>reg_note_type = t, reg_note_error = e\<rparr>\<rparr>"

definition require_error ::
  "(NSError option \<Rightarrow> NSNotification) \<Rightarrow> NSError option \<Rightarrow> objc_failure + NSNotification" where
  "require_error f e = (if e = None then Inl AssertionFailure else Inr (f e))"

primrec registration_notify :: "ZMUserSessionRegistrationNotification_msg \<Rightarrow> objc_failure + NSNotification" where
  "registration_notify (NotifyRegistrationDidFail e) =
     require_error (registration_notification ZMRegistrationNotificationRegistrationDidFail) e"
| "registration_notify (NotifyPhoneNumberVerificationDidFail e) =
     require_error (registration_notification ZMRegistrationNotificationPhoneNumberVerificationDidFail) e"
| "registration_notify (NotifyPhoneNumberVerificationCodeRequestDidFail e) =
     require_error (registration_notification ZMRegistrationNotificationPhoneNumberVerificationCodeRequestDidFail) e"
| "registration_notify NotifyEmailVerificationDidSucceed =
     Inr (registration_notification ZMRegistrationNotificationEmailVerificationDidSucceed None)"
| "registration_notify NotifyPhoneNumberVerificationDidSucceed =
     Inr (registration_notification ZMRegistrationNotificationPhoneNumberVerificationDidSucceed None)"
| "registration_notify NotifyPhoneNumberVerificationCodeRequestDidSucceed =
     Inr (registration_notification ZMRegistrationNotificationPhoneNumberVerificationCodeRequestDidSucceed None)"
| "registration_notify ResendValidationForRegistrationEmail =
     Inr \<lparr>note_name = VerificationEmailResendRequestNotificationName, note_object = None, note_content = PlainContent\<rparr>"

datatype (plugins only: code size) ZMUserSessionAuthenticationNotification_msg =
    NotifyAuthenticationDidFail "NSError option"
  | NotifyAuthenticationDidSucceed
  | NotifyLoginCodeRequestDidFail "NSError option"
  | NotifyLoginCodeRequestDidSucceed

definition authentication_notification ::
  "ZMUserSessionAuthenticationNotificationType \<Rightarrow> NSError option \<Rightarrow> NSNotification" where
  "authentication_notification t e =
     \<lparr>note_name = UserSessionAuthenticationNotificationName, note_object = None,
      note_content = AuthenticationContent \<lparr>auth_note_type = t, auth_note_error = e\<rparr>\<rparr>"

primrec authentication_notify :: "ZMUserSessionAuthenticationNotification_msg \<Rightarrow> objc_failure + NSNotification" where
  "authentication_notify (NotifyAuthenticationDidFail e) =
     require_error (authentication_notification ZMAuthenticationNotificationAuthenticationDidFail) e"
| "authentication_notify NotifyAuthenticationDidSucceed =
     Inr (authentication_notification ZMAuthenticationNotificationAuthenticationDidSuceeded None)"
| "authentication_notify (NotifyLoginCodeRequestDidFail e) =
     require_error (authentication_notification ZMAuthenticationNotificationLoginCodeRequestDidFail) e"
| "authentication_notify NotifyLoginCodeRequestDidSucceed =
     Inr (authentication_notification ZMAuthenticationNotificationLoginCodeRequestDidSucceed None)"

datatype (plugins only: code size) ZMUserProfileUpdateNotification_msg =
    NotifyPasswordUpdateDidFail
  | NotifyEmailUpdateDidFail "NSError option"
  | NotifyPhoneCodeRequestDidFailWithError "NSError option"
  | NotifyPhoneCodeRequestDidSucceed
  | NotifyDidSendEmailVerification
  | NotifyProfilePhoneVerificationDidFail "NSError option"

definition profile_notification :: "ZMUserProfileUpdateNotificationType \<Rightarrow> NSError option \<Rightarrow> NSNotification" where
  "profile_notification t e =
     \<lparr>note_name = UserProfileNotificationName, note_object = None,
      note_content = ProfileContent \<lparr>profile_note_type = t, profile_note_error = e\<rparr>\<rparr>"

primrec profile_notify :: "ZMUserProfileUpdateNotification_msg \<Rightarrow> NSNotification" where
  "profile_notify NotifyPasswordUpdateDidFail = profile_notification ZMUserProfileNotificationPasswordUpdateDidFail None"
| "profile_notify (NotifyEmailUpdateDidFail e) = profile_notification ZMUserProfileNotificationEmailUpdateDidFail e"
| "profile_notify (NotifyPhoneCodeRequestDidFailWithError e) =
     profile_notification ZMUserProfileNotificationPhoneNumberVerificationCodeRequestDidFail e"
| "profile_notify NotifyPhoneCodeRequestDidSucceed =
     profile_notification ZMUserProfileNotificationPhoneNumberVerificationCodeRequestDidSucceed None"
| "profile_notify NotifyDidSendEmailVerification =
     profile_notification ZMUserProfileNotificationEmailDidSendVerification None"
| "profile_notify (NotifyProfilePhoneVerificationDidFail e) =
     profile_notification ZMUserProfileNotificationPhoneNumberVerificationDidFail e"

datatype (plugins only: code size) ZMClientUpdateNotification_Internal =
    NotifyFetchingClientsCompleted "UserClient list"
  | NotifyFetchingClientsDidFail "NSError option"
  | NotifyDeletionCompleted "UserClient list"
  | NotifyDeletionFailed "NSError option"

definition client_notification ::
  "ZMClientUpdateNotificationType \<Rightarrow> UserClient list \<Rightarrow> NSError option \<Rightarrow> NSNotification" where
  "client_notification t cs e =
     \<lparr>note_name = ClientUpdateNotificationName, note_object = None,
      note_content = ClientContent \<lparr>client_note_error = e, client_note_clientObjectIDs = map uc_objectID cs,
        client_note_type = t\<rparr>\<rparr>"

primrec client_notify :: "ZMClientUpdateNotification_Internal \<Rightarrow> NSNotification" where
  "client_notify (NotifyFetchingClientsCompleted cs) = client_notification ZMClientUpdateNotificationTypeFetchCompleted cs None"
| "client_notify (NotifyFetchingClientsDidFail e) = client_notification ZMClientUpdateNotificationTypeFetchFailed [] e"
| "client_notify (NotifyDeletionCompleted cs) = client_notification ZMClientUpdateNotificationTypeDeletionCompleted cs None"
| "client_notify (NotifyDeletionFailed e) = client_notification ZMClientUpdateNotificationTypeDeletionFailed [] e"

section \<open>Who is notified\<close>

lemma receivers_of_added:
  "postNotification n (addObserver ob name on c) =
     postNotification n c @ (if name = note_name n \<and> (on = None \<or> on = note_object n) then [ob] else [])"
  by (simp add: postNotification_def addObserver_def receives_def)

lemma receivers_of_removed:
  "postNotification n (removeObserver ob (Some (note_name n)) None c) = filter (\<lambda>o'. o' \<noteq> ob) (postNotification n c)"
  by (induction c) (auto simp: postNotification_def removeObserver_def receives_def)

text \<open>Network observers hear of their session only.\<close>

lemma network_observer_notified:
  "postNotification (internal_notification (NetworkAvailabilityChange state session))
     (observers_send (AddNetworkAvailabilityObserver ob session') c) =
   postNotification (internal_notification (NetworkAvailabilityChange state session)) c @
     (if session' = session then [ob] else [])"
  by (simp add: receivers_of_added)

lemma network_observer_removed:
  "ob \<notin> set (postNotification (internal_notification (NetworkAvailabilityChange state session))
     (observers_send (RemoveNetworkAvailabilityObserver ob) c))"
  using receivers_of_removed [of "internal_notification (NetworkAvailabilityChange state session)" ob c] by simp

definition limited_to_class :: "notification_center \<Rightarrow> bool" where
  "limited_to_class c \<longleftrightarrow>
     (\<forall>r\<in>set c. obs_name r = ZMConnectionLimitReachedNotificationName \<longrightarrow> obs_object r = Some connectionLimitClass)"

lemma limited_to_class_step: "limited_to_class c \<Longrightarrow> limited_to_class (observers_send m c)"
  by (cases m) (auto simp: limited_to_class_def addObserver_def removeObserver_def notification_names)

interpretation session_observers: component observers_send limited_to_class
  by unfold_locales (rule limited_to_class_step)

text \<open>However the observers are added and removed, posting the notification that the connection limit was
  reached calls none of them: they are registered for the class as the object, and it is posted without one.\<close>

lemma connection_limit_observers_hear_nothing:
  "postNotification (internal_notification ConnectionLimit) (run observers_send [] ms) = []"
proof -
  have "limited_to_class (run observers_send [] ms)"
    by (rule session_observers.run_invar) (simp add: limited_to_class_def)
  then show ?thesis
    by (auto simp: postNotification_def receives_def limited_to_class_def filter_empty_conv connectionLimitClass_def)
qed

text \<open>The observers of the initial sync, registered without an object, do hear of it.\<close>

lemma initial_sync_observer_notified:
  "ob \<in> set (postNotification (internal_notification NotifyInitialSyncCompleted)
     (observers_send (AddInitalSyncCompletionObserver ob) c))"
  by (simp add: receivers_of_added)

end
