(* ===== verification/FlowManager.thy ===== *)
theory FlowManager
  imports Prelude
begin

text \<open>
  The calling library (\<^verbatim>\<open>AVSFlowManager.h\<close>) as the program sees it, and the object that creates its
  one instance on demand (\<^verbatim>\<open>ZMOnDemandFlowManager\<close>, \<^verbatim>\<open>ZMAVSBridge\<close>). The library itself is not part of
  the sources: its answers are the fields of \<open>AVSFlowManager\<close>, the messages it receives are the
  constructors of \<open>AVSFlowManager_msg\<close>, and what it may tell its delegate are those of
  \<open>AVSFlowManagerDelegate\<close>.
\<close>

section \<open>AVSFlowManager\<close>

datatype (plugins only: code size) AVSFlowManagerCategory =
    FLOWMANAGER_CATEGORY_NORMAL
  | FLOWMANAGER_CATEGORY_HOLD
  | FLOWMANAGER_CATEGORY_PLAYBACK
  | FLOWMANAGER_CATEGORY_CALL
  | FLOWMANAGER_CATEGORY_CALL_VIDEO

datatype (plugins only: code size) AVSFlowManagerLogLevel =
    FLOWMANAGER_LOGLEVEL_DEBUG
  | FLOWMANAGER_LOGLEVEL_INFO
  | FLOWMANAGER_LOGLEVEL_WARN
  | FLOWMANAGER_LOGLEVEL_ERROR

datatype (plugins only: code size) AVSFlowManagerAudioSource =
    FLOMANAGER_AUDIO_SOURCE_INTMIC
  | FLOMANAGER_AUDIO_SOURCE_EXTMIC
  | FLOMANAGER_AUDIO_SOURCE_HEADSET
  | FLOMANAGER_AUDIO_SOURCE_BT
  | FLOMANAGER_AUDIO_SOURCE_LINEIN
  | FLOMANAGER_AUDIO_SOURCE_SPDIF

datatype (plugins only: code size) AVSFlowManagerAudioPlay =
    FLOWMANAGER_AUDIO_PLAY_EARPIECE
  | FLOWMANAGER_AUDIO_PLAY_SPEAKER
  | FLOWMANAGER_AUDIO_PLAY_HEADSET
  | FLOWMANAGER_AUDIO_PLAY_BT
  | FLOWMANAGER_AUDIO_PLAY_LINEOUT
  | FLOWMANAGER_AUDIO_PLAY_SPDIF

datatype AVSFlowActivityState =
    AVSFlowActivityStateInvalid
  | AVSFlowActivityStateCallActive
  | AVSFlowActivityStateNoActivity

datatype AVSFlowManagerVideoSendState = FLOWMANAGER_VIDEO_SEND_NONE | FLOWMANAGER_VIDEO_SEND

datatype (plugins only: code size) AVSPlaybackRoute =
    AVSPlaybackRouteUnknown
  | AVSPlaybackRouteBuiltIn
  | AVSPlaybackRouteHeadset
  | AVSPlaybackRouteSpeaker

text \<open>
  The messages of the interface, one constructor for each method that is not a plain question. An
  identifier is the transport string of a \<^verbatim>\<open>NSUUID\<close> (\<open>None\<close>: \<^verbatim>\<open>nil\<close>), a view and a request context are
  opaque numbers.
\<close>

type_synonym convId = "NSString option"

datatype (plugins only: code size) AVSFlowManager_msg =
    SetLogLevel AVSFlowManagerLogLevel
  | AppendLogForConversation convId "NSString option"
  | ProcessResponse int NSString NSString "NSData option" nat
  | ProcessEvent NSString NSData
  | AcquireFlows convId
  | ReleaseFlows convId
  | SetActive convId bool
  | AddUser convId "NSString option" "NSString option"
  | SetSelfUser NSString
  | RefreshAccessToken NSString NSString
  | NetworkChanged
  | CallInterruptionStart convId
  | CallInterruptionEnd convId
  | AusrcChanged AVSFlowManagerAudioSource
  | AuplayChanged AVSFlowManagerAudioPlay
  | SetMute bool
  | MediaCategoryChanged convId AVSFlowManagerCategory
  | PlaybackRouteDidChange AVSPlaybackRoute
  | UpdateMode convId AVSFlowManagerCategory
  | UpdateVolumeForUser NSString real real convId
  | HandleError int convId
  | MediaEstablished convId
  | ConferenceParticipants "NSString list" convId
  | SetEnableLogging bool
  | SetEnableMetrics bool
  | SetSessionId NSString convId
  | SetVideoSendState AVSFlowManagerVideoSendState convId
  | SetVideoPreview nat
  | SetVideoView nat
  | SetVideoCaptureDevice NSString convId
  | VmStartRecord NSString
  | VmStopRecord
  | VmStartPlay NSString int
  | VmStopPlay

text \<open>The questions the program asks it.\<close>

record AVSFlowManager =
  isReady :: bool
  fm_events :: "NSString list"
  isMediaEstablishedInConversation :: "convId \<Rightarrow> bool"
  canSendVideoForConversation :: "convId \<Rightarrow> bool"
  isSendingVideoInConversation :: "convId \<Rightarrow> NSString option \<Rightarrow> bool"

datatype (plugins only: code size) AVSFlowManagerDelegate =
    LogMessage NSString
  | RequestWithPath NSString NSString NSString "NSData option" nat
  | DidEstablishMedia NSString
  | SetFlowManagerActivityState AVSFlowActivityState
  | NetworkQuality real NSString
  | MediaWarning NSString
  | ErrorHandler int NSString nat
  | VmStatushandler bool int int
  | DidUpdateVolume real NSString NSString
  | DidEstablishMediaForUser NSString NSString
  | ConferenceParticipantsDidChange "NSString list" NSString

section \<open>ZMAVSBridge and ZMOnDemandFlowManager\<close>

text \<open>
  Whether the class \<^verbatim>\<open>AVSFlowManager\<close> is linked, the default \<^verbatim>\<open>ZMDisableAVS\<close>, whether tests interpose a
  manager of their own (\<^verbatim>\<open>ZMFlowSyncInternalFlowManagerOverride\<close>), and the shared instance with its
  answers at the moment.
\<close>

record avs_env =
  classLinked :: bool
  ZMDisableAVS :: bool
  overrideFlowManager :: bool
  getInstance :: "AVSFlowManager option"

datatype flowManager_class = LinkedClass | OverrideClass

definition bridge_flowManagerClass :: "avs_env \<Rightarrow> objc_failure + flowManager_class option" where
  "bridge_flowManagerClass env =
     (if \<not> classLinked env then Inl AssertionFailure
      else if ZMDisableAVS env then Inr None
      else Inr (Some (if overrideFlowManager env then OverrideClass else LinkedClass)))"

text \<open>The manager once created (\<^verbatim>\<open>nil\<close> before), and how often it was announced.\<close>

record ZMOnDemandFlowManager =
  od_flowManager :: "flowManager_class option"
  od_announced :: nat

definition onDemand_init :: "avs_env \<Rightarrow> objc_failure + ZMOnDemandFlowManager" where
  "onDemand_init env =
     (if \<not> classLinked env then Inl AssertionFailure else Inr \<lparr>od_flowManager = None, od_announced = 0\<rparr>)"

definition initializeFlowManagerWithDelegate ::
  "avs_env \<Rightarrow> ZMOnDemandFlowManager \<Rightarrow> objc_failure + ZMOnDemandFlowManager" where
  "initializeFlowManagerWithDelegate env od =
     (if od_flowManager od = None \<and> \<not> ZMDisableAVS env then
        if overrideFlowManager env then Inr (od\<lparr>od_flowManager := Some OverrideClass, od_announced := Suc (od_announced od)\<rparr>)
        else if \<not> classLinked env then Inl AssertionFailure
        else Inr (od\<lparr>od_flowManager := Some LinkedClass, od_announced := Suc (od_announced od)\<rparr>)
      else Inr od)"

text \<open>However often it is asked for, the manager is created and announced at most once.\<close>

definition onDemand_inv :: "ZMOnDemandFlowManager \<Rightarrow> bool" where
  "onDemand_inv od \<longleftrightarrow> od_announced od = (if od_flowManager od = None then 0 else 1)"

lemma onDemand_init_inv: "onDemand_init env = Inr od \<Longrightarrow> onDemand_inv od"
  by (auto simp: onDemand_init_def onDemand_inv_def split: if_splits)

lemma initialize_inv:
  "onDemand_inv od \<Longrightarrow> initializeFlowManagerWithDelegate env od = Inr od' \<Longrightarrow> onDemand_inv od'"
  by (auto simp: initializeFlowManagerWithDelegate_def onDemand_inv_def split: if_splits)

lemma initialize_keeps:
  "od_flowManager od = Some m \<Longrightarrow> initializeFlowManagerWithDelegate env od = Inr od"
  by (simp add: initializeFlowManagerWithDelegate_def)

end
