(* ===== verification/VoiceChannel.thy ===== *)
theory VoiceChannel
  imports FlowManager
begin

text \<open>
  The voice channel of a conversation: joining, leaving and ignoring calls, the participants
  (\<^verbatim>\<open>ZMVoiceChannel+CallFlow\<close>), video (\<^verbatim>\<open>ZMVoiceChannel+VideoCalling\<close>) and the timers that end a call nobody
  answers (\<^verbatim>\<open>ZMCallTimer\<close>). The conversation and the computation of the state of a channel belong to the
  data model: the conversation is the record of the attributes the sources read and write, the state
  is a field of the environment.
\<close>

section \<open>Conversations and channels\<close>

datatype ZMCallStateReasonToLeave =
    ZMCallStateReasonToLeaveNone
  | ZMCallStateReasonToLeaveUser
  | ZMCallStateReasonToLeaveAVSError

datatype (plugins only: code size) ZMVoiceChannelState =
    ZMVoiceChannelStateInvalid
  | ZMVoiceChannelStateNoActiveUsers
  | ZMVoiceChannelStateOutgoingCall
  | ZMVoiceChannelStateOutgoingCallInactive
  | ZMVoiceChannelStateIncomingCall
  | ZMVoiceChannelStateIncomingCallInactive
  | ZMVoiceChannelStateSelfIsJoiningActiveChannel
  | ZMVoiceChannelStateSelfConnectedToActiveChannel
  | ZMVoiceChannelStateDeviceTransferReady

datatype (plugins only: code size) ZMVoiceChannelError =
    switchToVideoNotAllowedError
  | noFlowManagerError
  | videoNotActiveError
  | noMediaError
  | videoCallNotSupportedError

record ZMConversation =
  conv_remoteIdentifier :: convId
  conversationType :: ZMConversationType
  callDeviceIsActive :: bool
  isFlowActive :: bool
  isVideoCall :: bool
  isSendingVideo :: bool
  isOutgoingCall :: bool
  isIgnoringCall :: bool
  callTimedOut :: bool
  reasonToLeave :: ZMCallStateReasonToLeave
  callParticipants :: "ZMManagedObject list"
  activeFlowParticipants :: "ZMManagedObject list"
  otherActiveVideoCallParticipants :: "ZMManagedObject list"

datatype (plugins only: code size) channel_effect =
    CallingFailedOngoingGSMCall
  | KeepWebsocketOpen bool
  | ChannelLog NSString
  | ToFlowManager AVSFlowManager_msg
  | AddAndStartCallTimer
  | ResetCallTimer

record ZMVoiceChannel =
  vc_conversation :: ZMConversation
  currentVideoDeviceID :: "NSString option"
  vc_effects :: "channel_effect list"

type_synonym NSComparator = "NSString \<Rightarrow> NSString \<Rightarrow> int"

record channel_env =
  ch_avs :: avs_env
  hasOngoingGSMCall :: bool
  channel_state :: "ZMConversation \<Rightarrow> ZMVoiceChannelState"
  zm_isSyncContext :: bool
  isSelfUser :: "ZMManagedObject \<Rightarrow> bool"
  avs_conferenceComparator :: "NSComparator option"
  string_compare :: NSComparator
  reasonToLeaveToString :: "ZMCallStateReasonToLeave \<Rightarrow> NSString"
  zm_sortUsingComparator :: "NSComparator \<Rightarrow> ZMManagedObject list \<Rightarrow> ZMManagedObject list"

definition on_conv :: "(ZMConversation \<Rightarrow> ZMConversation) \<Rightarrow> ZMVoiceChannel \<Rightarrow> ZMVoiceChannel" where
  "on_conv f ch = ch\<lparr>vc_conversation := f (vc_conversation ch)\<rparr>"

definition channel_emit :: "channel_effect \<Rightarrow> ZMVoiceChannel \<Rightarrow> ZMVoiceChannel" where
  "channel_emit e ch = ch\<lparr>vc_effects := vc_effects ch @ [e]\<rparr>"

lemma on_conv_simps [simp]:
  "vc_conversation (on_conv f ch) = f (vc_conversation ch)"
  "currentVideoDeviceID (on_conv f ch) = currentVideoDeviceID ch"
  "vc_effects (on_conv f ch) = vc_effects ch"
  by (simp_all add: on_conv_def)

lemma channel_emit_simps [simp]:
  "vc_conversation (channel_emit e ch) = vc_conversation ch"
  "currentVideoDeviceID (channel_emit e ch) = currentVideoDeviceID ch"
  "vc_effects (channel_emit e ch) = vc_effects ch @ [e]"
  by (simp_all add: channel_emit_def)

section \<open>Call timers\<close>

text \<open>
  The timers by conversation; the order of the list is the order in which the dictionary is
  enumerated. A timer is a number and fires at its date.
\<close>

record ZMTimer =
  tm_id :: nat
  fireDate :: NSDate

type_synonym conversationIDToTimerMap = "(ZMManagedObject \<times> ZMTimer) list"

definition call_timeout :: "NSTimeInterval \<Rightarrow> ZMConversation \<Rightarrow> NSTimeInterval" where
  "call_timeout testTimeout c =
     (if testTimeout > 0 then testTimeout else if conversationType c = ZMConversationTypeGroup then 30 else 60)"

definition addAndStartTimer ::
  "NSTimeInterval \<Rightarrow> NSDate \<Rightarrow> nat \<Rightarrow> ZMManagedObject \<Rightarrow> ZMConversation \<Rightarrow> conversationIDToTimerMap \<Rightarrow>
   conversationIDToTimerMap" where
  "addAndStartTimer testTimeout now new ob c ts =
     (if map_of ts ob = None \<and> \<not> callTimedOut c
      then dict_put ob \<lparr>tm_id = new, fireDate = now + call_timeout testTimeout c\<rparr> ts else ts)"

definition timer_resetTimer :: "ZMManagedObject \<Rightarrow> conversationIDToTimerMap \<Rightarrow> conversationIDToTimerMap" where
  "timer_resetTimer ob ts = dict_remove ob ts"

text \<open>The conversation whose channel is told, if any: the loop returns at the first other timer.\<close>

definition timerDidFire :: "nat \<Rightarrow> conversationIDToTimerMap \<Rightarrow> ZMManagedObject option \<times> conversationIDToTimerMap" where
  "timerDidFire aTimer ts =
     (case ts of
        [] \<Rightarrow> (None, ts)
      | (ob, t) # _ \<Rightarrow> if tm_id t \<noteq> aTimer then (None, ts) else (Some ob, timer_resetTimer ob ts))"

section \<open>Joining and leaving\<close>

definition channel_flowManager :: "channel_env \<Rightarrow> objc_failure + AVSFlowManager option" where
  "channel_flowManager env =
     bindE (bridge_flowManagerClass (ch_avs env))
       (\<lambda>c. Inr (case c of None \<Rightarrow> None | Some _ \<Rightarrow> getInstance (ch_avs env)))"

text \<open>A message to the flow manager of the channel; to \<^verbatim>\<open>nil\<close> it is dropped.\<close>

definition tell_flowManager ::
  "channel_env \<Rightarrow> AVSFlowManager_msg \<Rightarrow> ZMVoiceChannel \<Rightarrow> objc_failure + ZMVoiceChannel" where
  "tell_flowManager env m ch =
     bindE (channel_flowManager env) (\<lambda>fm. Inr (if fm = None then ch else channel_emit (ToFlowManager m) ch))"

definition channel_startTimer :: "channel_env \<Rightarrow> ZMVoiceChannel \<Rightarrow> ZMVoiceChannel" where
  "channel_startTimer env ch = (if zm_isSyncContext env then channel_emit AddAndStartCallTimer ch else ch)"

definition channel_resetTimer :: "channel_env \<Rightarrow> ZMVoiceChannel \<Rightarrow> ZMVoiceChannel" where
  "channel_resetTimer env ch =
     (if zm_isSyncContext env
      then on_conv (\<lambda>c. c\<lparr>callTimedOut := False\<rparr>) (channel_emit ResetCallTimer ch) else ch)"

definition startOrCancelTimerForState :: "channel_env \<Rightarrow> ZMVoiceChannelState \<Rightarrow> ZMVoiceChannel \<Rightarrow> ZMVoiceChannel" where
  "startOrCancelTimerForState env st ch =
     (if st \<in> {ZMVoiceChannelStateOutgoingCall, ZMVoiceChannelStateIncomingCall} then
        if callParticipants (vc_conversation ch) \<noteq> [] then channel_startTimer env ch else channel_resetTimer env ch
      else if st \<in> {ZMVoiceChannelStateIncomingCallInactive, ZMVoiceChannelStateOutgoingCallInactive} then ch
      else channel_resetTimer env ch)"

definition channel_join :: "channel_env \<Rightarrow> ZMVoiceChannel \<Rightarrow> ZMVoiceChannel" where
  "channel_join env ch =
     (if hasOngoingGSMCall env then channel_emit CallingFailedOngoingGSMCall ch
      else
        (let ch = channel_emit (KeepWebsocketOpen True) ch;
             ch = (if \<not> callDeviceIsActive (vc_conversation ch)
                   then channel_emit (ChannelLog ''Self user wants to join voice channel'') ch else ch)
         in on_conv (\<lambda>c. c\<lparr>isOutgoingCall := callParticipants c = [], isIgnoringCall := False,
                           callDeviceIsActive := True\<rparr>) ch))"

definition resetCallState :: "channel_env \<Rightarrow> ZMVoiceChannel \<Rightarrow> ZMVoiceChannel" where
  "resetCallState env ch =
     (let ch = on_conv (\<lambda>c. c\<lparr>callParticipants := [], callTimedOut := False, isIgnoringCall := False,
                 isOutgoingCall := False, isVideoCall := False, isSendingVideo := False, isFlowActive := False,
                 activeFlowParticipants := [], otherActiveVideoCallParticipants := []\<rparr>) ch
      in if zm_isSyncContext env then channel_emit ResetCallTimer ch else ch)"

definition leaveWithReason ::
  "channel_env \<Rightarrow> ZMCallStateReasonToLeave \<Rightarrow> ZMVoiceChannel \<Rightarrow> objc_failure + ZMVoiceChannel" where
  "leaveWithReason env reason ch =
     bindE
       (if isVideoCall (vc_conversation ch)
        then tell_flowManager env
               (SetVideoSendState FLOWMANAGER_VIDEO_SEND_NONE (conv_remoteIdentifier (vc_conversation ch))) ch
        else Inr ch)
       (\<lambda>ch.
          let ch = (if callDeviceIsActive (vc_conversation ch)
                    then channel_emit (ChannelLog (''Left voice channel: reason is '' @ reasonToLeaveToString env reason)) ch else ch);
              ch = on_conv (\<lambda>c. c\<lparr>callDeviceIsActive := False, reasonToLeave := reason,
                     isIgnoringCall := isIgnoringCall c \<or> conversationType c \<noteq> ZMConversationTypeOneOnOne\<rparr>) ch;
              ch = (if length (callParticipants (vc_conversation ch)) \<le> 2 then resetCallState env ch else ch)
          in Inr (channel_emit (KeepWebsocketOpen False) ch))"

definition ignoreIncomingCall :: "ZMVoiceChannel \<Rightarrow> ZMVoiceChannel" where
  "ignoreIncomingCall ch =
     on_conv (\<lambda>c. c\<lparr>isIgnoringCall := True\<rparr>)
       (if \<not> isIgnoringCall (vc_conversation ch)
        then channel_emit (ChannelLog ''Self user wants to ignore incoming call'') ch else ch)"

definition channel_tearDown :: "channel_env \<Rightarrow> ZMVoiceChannel \<Rightarrow> ZMVoiceChannel" where
  "channel_tearDown env ch = (if zm_isSyncContext env then channel_emit ResetCallTimer ch else ch)"

text \<open>When the call timer fires, on the conversation of the user interface context.\<close>

definition channel_callTimerDidFire :: "channel_env \<Rightarrow> ZMVoiceChannel \<Rightarrow> objc_failure + ZMVoiceChannel" where
  "channel_callTimerDidFire env ch =
     (let c = vc_conversation ch
      in if conversationType c = ZMConversationTypeGroup \<or>
            conversationType c = ZMConversationTypeOneOnOne \<and> \<not> isOutgoingCall c
         then Inr (on_conv (\<lambda>c. c\<lparr>callTimedOut := True\<rparr>) ch)
         else if conversationType c = ZMConversationTypeOneOnOne \<and> isOutgoingCall c
         then leaveWithReason env ZMCallStateReasonToLeaveUser ch
         else Inr ch)"

section \<open>Video\<close>

definition ZMFrontCameraDeviceID :: NSString where
  "ZMFrontCameraDeviceID = ''com.apple.avfoundation.avcapturedevice.built-in_video:1''"

definition ready_manager :: "channel_env \<Rightarrow> objc_failure + AVSFlowManager option" where
  "ready_manager env =
     bindE (channel_flowManager env)
       (\<lambda>fm. Inr (case fm of Some m \<Rightarrow> if isReady m then Some m else None | None \<Rightarrow> None))"

definition joinVideoCall :: "channel_env \<Rightarrow> ZMVoiceChannel \<Rightarrow> ZMVoiceChannelError option \<times> ZMVoiceChannel" where
  "joinVideoCall env ch =
     (if callDeviceIsActive (vc_conversation ch) \<and> \<not> isVideoCall (vc_conversation ch)
      then (Some switchToVideoNotAllowedError, ch)
      else (None, channel_join env (on_conv (\<lambda>c. c\<lparr>isVideoCall := True\<rparr>) ch)))"

definition isSendingVideoForParticipant ::
  "channel_env \<Rightarrow> NSString option \<Rightarrow> ZMVoiceChannel \<Rightarrow> objc_failure + ZMVoiceChannelError + bool" where
  "isSendingVideoForParticipant env participant ch =
     bindE (ready_manager env)
       (\<lambda>fm. Inr (case fm of
            None \<Rightarrow> Inl noFlowManagerError
          | Some m \<Rightarrow>
              if \<not> isVideoCall (vc_conversation ch) then Inl videoNotActiveError
              else Inr (isSendingVideoInConversation m (conv_remoteIdentifier (vc_conversation ch)) participant)))"

definition isVideoCallingPossibleInConversation ::
  "channel_env \<Rightarrow> ZMConversation \<Rightarrow> objc_failure + ZMVoiceChannelError option" where
  "isVideoCallingPossibleInConversation env c =
     bindE (ready_manager env)
       (\<lambda>fm. Inr (case fm of
            None \<Rightarrow> Some noFlowManagerError
          | Some m \<Rightarrow>
              if \<not> isMediaEstablishedInConversation m (conv_remoteIdentifier c) then Some noMediaError
              else if \<not> canSendVideoForConversation m (conv_remoteIdentifier c) then Some videoCallNotSupportedError
              else None))"

definition channel_setVideoSendState ::
  "channel_env \<Rightarrow> AVSFlowManagerVideoSendState \<Rightarrow> ZMVoiceChannel \<Rightarrow>
   objc_failure + ZMVoiceChannelError option \<times> ZMVoiceChannel" where
  "channel_setVideoSendState env st ch =
     bindE (if st = FLOWMANAGER_VIDEO_SEND then isVideoCallingPossibleInConversation env (vc_conversation ch) else Inr None)
       (\<lambda>err. case err of
          Some e \<Rightarrow> Inr (Some e, ch)
        | None \<Rightarrow>
            let ch = ch\<lparr>currentVideoDeviceID :=
                        if st = FLOWMANAGER_VIDEO_SEND_NONE then None else Some ZMFrontCameraDeviceID\<rparr>;
                ch = on_conv (\<lambda>c. c\<lparr>isSendingVideo := (st = FLOWMANAGER_VIDEO_SEND)\<rparr>) ch
            in bindE (tell_flowManager env (SetVideoSendState st (conv_remoteIdentifier (vc_conversation ch))) ch)
                 (\<lambda>ch. Inr (None, ch)))"

definition setVideoSendActive ::
  "channel_env \<Rightarrow> bool \<Rightarrow> ZMVoiceChannel \<Rightarrow> objc_failure + ZMVoiceChannelError option \<times> ZMVoiceChannel" where
  "setVideoSendActive env active =
     channel_setVideoSendState env (if active then FLOWMANAGER_VIDEO_SEND else FLOWMANAGER_VIDEO_SEND_NONE)"

definition channel_setVideoCaptureDevice ::
  "channel_env \<Rightarrow> NSString \<Rightarrow> ZMVoiceChannel \<Rightarrow> objc_failure + ZMVoiceChannelError option \<times> ZMVoiceChannel" where
  "channel_setVideoCaptureDevice env device ch =
     bindE (ready_manager env)
       (\<lambda>fm. case fm of
          None \<Rightarrow> Inr (Some noFlowManagerError, ch)
        | Some _ \<Rightarrow>
            if \<not> isVideoCall (vc_conversation ch) then Inr (Some videoNotActiveError, ch)
            else bindE (tell_flowManager env (SetVideoCaptureDevice device (conv_remoteIdentifier (vc_conversation ch)))
                          (ch\<lparr>currentVideoDeviceID := Some device\<rparr>))
                   (\<lambda>ch. Inr (None, ch)))"

section \<open>Participants\<close>

definition channel_conferenceComparator :: "channel_env \<Rightarrow> objc_failure + NSComparator" where
  "channel_conferenceComparator env =
     bindE (bridge_flowManagerClass (ch_avs env))
       (\<lambda>c. Inr (case (c, avs_conferenceComparator env) of
            (Some _, Some cmp) \<Rightarrow> cmp
          | _ \<Rightarrow> string_compare env))"

definition reSortCallParticipants :: "channel_env \<Rightarrow> ZMManagedObject list \<Rightarrow> objc_failure + ZMManagedObject list" where
  "reSortCallParticipants env ps =
     bindE (channel_conferenceComparator env) (\<lambda>cmp. Inr (zm_sortUsingComparator env cmp ps))"

definition updateForStateChange :: "channel_env \<Rightarrow> ZMVoiceChannel \<Rightarrow> objc_failure + ZMVoiceChannel" where
  "updateForStateChange env ch =
     (let ch = startOrCancelTimerForState env (channel_state env (vc_conversation ch)) ch
      in if isVideoCall (vc_conversation ch) \<and> channel_state env (vc_conversation ch) = ZMVoiceChannelStateNoActiveUsers
         then bindE (channel_setVideoSendState env FLOWMANAGER_VIDEO_SEND_NONE ch) (\<lambda>r. Inr (snd r))
         else Inr ch)"

text \<open>
  The early return of the source compares an ordered set with an array, which are never equal.
\<close>

definition updateActiveFlowParticipants ::
  "channel_env \<Rightarrow> ZMManagedObject list \<Rightarrow> ZMVoiceChannel \<Rightarrow> objc_failure + ZMVoiceChannel" where
  "updateActiveFlowParticipants env new ch =
     bindE (reSortCallParticipants env (remdups new))
       (\<lambda>ps. updateForStateChange env
               (on_conv (\<lambda>c. c\<lparr>isOutgoingCall := False, activeFlowParticipants := ps\<rparr>) ch))"

definition addCallParticipant :: "channel_env \<Rightarrow> ZMManagedObject \<Rightarrow> ZMVoiceChannel \<Rightarrow> objc_failure + ZMVoiceChannel" where
  "addCallParticipant env p ch =
     bindE (reSortCallParticipants env (oset_add (callParticipants (vc_conversation ch)) p))
       (\<lambda>ps. updateForStateChange env (on_conv (\<lambda>c. c\<lparr>callParticipants := ps\<rparr>) ch))"

definition removeCallParticipant :: "channel_env \<Rightarrow> ZMManagedObject \<Rightarrow> ZMVoiceChannel \<Rightarrow> objc_failure + ZMVoiceChannel" where
  "removeCallParticipant env p ch =
     (let left = oset_remove p (callParticipants (vc_conversation ch));
          ch = on_conv (\<lambda>c. c\<lparr>callParticipants := left\<rparr>) ch;
          ch = (if isSelfUser env p then channel_emit (KeepWebsocketOpen False) ch else ch)
      in bindE
           (if left \<noteq> [] then
              bindE (reSortCallParticipants env left)
                (\<lambda>ps. Inr (on_conv (\<lambda>c. c\<lparr>callParticipants := ps, isIgnoringCall := isIgnoringCall c \<or> isSelfUser env p\<rparr>) ch))
            else Inr (resetCallState env ch))
           (updateForStateChange env))"

definition removeAllCallParticipants :: "channel_env \<Rightarrow> ZMVoiceChannel \<Rightarrow> objc_failure + ZMVoiceChannel" where
  "removeAllCallParticipants env ch =
     (if callParticipants (vc_conversation ch) = [] then Inr ch
      else updateForStateChange env (resetCallState env ch))"

section \<open>The interface\<close>

datatype (plugins only: code size) ZMVoiceChannel_CallFlow =
    Join
  | Leave
  | LeaveOnAVSError
  | IgnoreIncomingCall
  | UpdateActiveFlowParticipants "ZMManagedObject list"
  | AddCallParticipant ZMManagedObject
  | RemoveCallParticipant ZMManagedObject
  | RemoveAllCallParticipants
  | UpdateForStateChange
  | ResetCallState
  | ChannelTearDown

primrec callFlow_send :: "channel_env \<Rightarrow> ZMVoiceChannel_CallFlow \<Rightarrow> ZMVoiceChannel \<Rightarrow> objc_failure + ZMVoiceChannel" where
  "callFlow_send env Join ch = Inr (channel_join env ch)"
| "callFlow_send env Leave ch = leaveWithReason env ZMCallStateReasonToLeaveUser ch"
| "callFlow_send env LeaveOnAVSError ch = leaveWithReason env ZMCallStateReasonToLeaveAVSError ch"
| "callFlow_send env IgnoreIncomingCall ch = Inr (ignoreIncomingCall ch)"
| "callFlow_send env (UpdateActiveFlowParticipants ps) ch = updateActiveFlowParticipants env ps ch"
| "callFlow_send env (AddCallParticipant p) ch = addCallParticipant env p ch"
| "callFlow_send env (RemoveCallParticipant p) ch = removeCallParticipant env p ch"
| "callFlow_send env RemoveAllCallParticipants ch = removeAllCallParticipants env ch"
| "callFlow_send env UpdateForStateChange ch = updateForStateChange env ch"
| "callFlow_send env ResetCallState ch = Inr (resetCallState env ch)"
| "callFlow_send env ChannelTearDown ch = Inr (channel_tearDown env ch)"

datatype (plugins only: code size) ZMVoiceChannel_VideoCalling =
    JoinVideoCall
  | SetVideoSendActive bool
  | SetCaptureDevice NSString
  | SetSendState AVSFlowManagerVideoSendState

primrec video_send ::
  "channel_env \<Rightarrow> ZMVoiceChannel_VideoCalling \<Rightarrow> ZMVoiceChannel \<Rightarrow>
   objc_failure + ZMVoiceChannelError option \<times> ZMVoiceChannel" where
  "video_send env JoinVideoCall ch = Inr (joinVideoCall env ch)"
| "video_send env (SetVideoSendActive b) ch = setVideoSendActive env b ch"
| "video_send env (SetCaptureDevice d) ch = channel_setVideoCaptureDevice env d ch"
| "video_send env (SetSendState st) ch = channel_setVideoSendState env st ch"

datatype channel_msg = CallFlow ZMVoiceChannel_CallFlow | VideoCalling ZMVoiceChannel_VideoCalling | CallTimerFired

definition channel_send :: "channel_env \<times> channel_msg \<Rightarrow> ZMVoiceChannel \<Rightarrow> objc_failure + ZMVoiceChannel" where
  "channel_send em ch =
     (case snd em of
        CallFlow m \<Rightarrow> callFlow_send (fst em) m ch
      | VideoCalling m \<Rightarrow> bindE (video_send (fst em) m ch) (\<lambda>r. Inr (snd r))
      | CallTimerFired \<Rightarrow> channel_callTimerDidFire (fst em) ch)"

section \<open>Consistency\<close>

text \<open>Participants do not repeat, and video is sent from a camera. Sorting permutes the participants.\<close>

definition channel_inv :: "ZMVoiceChannel \<Rightarrow> bool" where
  "channel_inv ch \<longleftrightarrow>
     distinct (callParticipants (vc_conversation ch)) \<and> distinct (activeFlowParticipants (vc_conversation ch)) \<and>
     (isSendingVideo (vc_conversation ch) \<longrightarrow> currentVideoDeviceID ch \<noteq> None)"

definition sorting :: "channel_env \<Rightarrow> bool" where
  "sorting env \<longleftrightarrow>
     (\<forall>cmp xs. set (zm_sortUsingComparator env cmp xs) = set xs \<and> length (zm_sortUsingComparator env cmp xs) = length xs)"

lemma reSort_distinct:
  "sorting env \<Longrightarrow> reSortCallParticipants env ps = Inr qs \<Longrightarrow> distinct ps \<Longrightarrow> distinct qs \<and> set qs = set ps"
  by (auto simp: reSortCallParticipants_def sorting_def) (metis card_distinct distinct_card)

lemma tell_flowManager_keeps:
  "tell_flowManager env m ch = Inr ch' \<Longrightarrow>
   vc_conversation ch' = vc_conversation ch \<and> currentVideoDeviceID ch' = currentVideoDeviceID ch"
  by (auto simp: tell_flowManager_def split: if_splits)

lemma channel_inv_cong:
  "vc_conversation ch' = vc_conversation ch \<Longrightarrow> currentVideoDeviceID ch' = currentVideoDeviceID ch \<Longrightarrow>
   channel_inv ch' = channel_inv ch"
  by (simp add: channel_inv_def)

lemma channel_inv_emit [simp]: "channel_inv (channel_emit e ch) = channel_inv ch"
  by (simp add: channel_inv_def)

lemma channel_inv_flags [simp]:
  "channel_inv (on_conv (\<lambda>c. c\<lparr>isVideoCall := b\<rparr>) ch) = channel_inv ch"
  "channel_inv (on_conv (\<lambda>c. c\<lparr>callTimedOut := b\<rparr>) ch) = channel_inv ch"
  by (simp_all add: channel_inv_def)

lemma channel_inv_device:
  "channel_inv ch \<Longrightarrow> vc_conversation ch' = vc_conversation ch \<Longrightarrow> currentVideoDeviceID ch' = Some d \<Longrightarrow> channel_inv ch'"
  by (simp add: channel_inv_def)

lemma join_inv [simp]: "channel_inv (channel_join env ch) = channel_inv ch"
  by (simp add: channel_join_def channel_inv_def Let_def)

lemma reset_inv [simp]: "channel_inv (resetCallState env ch)"
  by (simp add: resetCallState_def channel_inv_def Let_def)

lemma timer_inv [simp]: "channel_inv (startOrCancelTimerForState env st ch) = channel_inv ch"
  by (simp add: startOrCancelTimerForState_def channel_startTimer_def channel_resetTimer_def channel_inv_def)

lemma leave_conversation:
  assumes "leaveWithReason env r ch = Inr ch'"
  shows "vc_conversation ch' =
     (if length (callParticipants (vc_conversation ch)) \<le> 2
      then (vc_conversation ch)\<lparr>callDeviceIsActive := False, reasonToLeave := r, callParticipants := [],
             callTimedOut := False, isIgnoringCall := False, isOutgoingCall := False, isVideoCall := False,
             isSendingVideo := False, isFlowActive := False, activeFlowParticipants := [],
             otherActiveVideoCallParticipants := []\<rparr>
      else (vc_conversation ch)\<lparr>callDeviceIsActive := False, reasonToLeave := r,
             isIgnoringCall := isIgnoringCall (vc_conversation ch) \<or>
               conversationType (vc_conversation ch) \<noteq> ZMConversationTypeOneOnOne\<rparr>)"
  using assms by (cases "isVideoCall (vc_conversation ch)")
    (auto simp: leaveWithReason_def Let_def resetCallState_def tell_flowManager_def)

lemma leave_device: "leaveWithReason env r ch = Inr ch' \<Longrightarrow> currentVideoDeviceID ch' = currentVideoDeviceID ch"
  by (cases "isVideoCall (vc_conversation ch)")
    (auto simp: leaveWithReason_def Let_def resetCallState_def tell_flowManager_def)

lemma leave_inv: "channel_inv ch \<Longrightarrow> leaveWithReason env r ch = Inr ch' \<Longrightarrow> channel_inv ch'"
  by (simp add: channel_inv_def leave_conversation leave_device)

lemma setVideoSendState_inv:
  "channel_inv ch \<Longrightarrow> channel_setVideoSendState env st ch = Inr (err, ch') \<Longrightarrow> channel_inv ch'"
  by (cases st) (auto simp: channel_setVideoSendState_def Let_def channel_inv_def dest!: tell_flowManager_keeps
      split: if_splits option.splits)

lemma updateForStateChange_inv: "channel_inv ch \<Longrightarrow> updateForStateChange env ch = Inr ch' \<Longrightarrow> channel_inv ch'"
  by (auto simp: updateForStateChange_def Let_def intro: setVideoSendState_inv [rotated] split: if_splits)

lemma updateActiveFlowParticipants_inv:
  assumes "sorting env" and "channel_inv ch" and "updateActiveFlowParticipants env ps ch = Inr ch'"
  shows "channel_inv ch'"
proof -
  obtain qs where qs: "reSortCallParticipants env (remdups ps) = Inr qs"
    and ch': "updateForStateChange env (on_conv (\<lambda>c. c\<lparr>isOutgoingCall := False, activeFlowParticipants := qs\<rparr>) ch) = Inr ch'"
    using assms(3) by (auto simp: updateActiveFlowParticipants_def)
  show ?thesis
    by (rule updateForStateChange_inv [OF _ ch']) (use assms(2) reSort_distinct [OF assms(1) qs] in \<open>simp add: channel_inv_def\<close>)
qed

lemma addCallParticipant_inv:
  assumes "sorting env" and "channel_inv ch" and "addCallParticipant env p ch = Inr ch'"
  shows "channel_inv ch'"
proof -
  obtain qs where qs: "reSortCallParticipants env (oset_add (callParticipants (vc_conversation ch)) p) = Inr qs"
    and ch': "updateForStateChange env (on_conv (\<lambda>c. c\<lparr>callParticipants := qs\<rparr>) ch) = Inr ch'"
    using assms(3) by (auto simp: addCallParticipant_def)
  show ?thesis
    by (rule updateForStateChange_inv [OF _ ch'])
      (use assms(2) reSort_distinct [OF assms(1) qs] in \<open>simp add: channel_inv_def oset_add_def split: if_splits\<close>)
qed

lemma removeCallParticipant_inv:
  assumes "sorting env" and "channel_inv ch" and "removeCallParticipant env p ch = Inr ch'"
  shows "channel_inv ch'"
proof -
  let ?left = "oset_remove p (callParticipants (vc_conversation ch))"
  let ?ch = "on_conv (\<lambda>c. c\<lparr>callParticipants := ?left\<rparr>) ch"
  let ?ch1 = "if isSelfUser env p then channel_emit (KeepWebsocketOpen False) ?ch else ?ch"
  have left: "distinct ?left"
    using assms(2) by (simp add: oset_remove_def channel_inv_def)
  show ?thesis
  proof (cases "?left = []")
    case True
    then have "updateForStateChange env (resetCallState env ?ch1) = Inr ch'"
      using assms(3) by (auto simp: removeCallParticipant_def Let_def split: if_splits)
    then show ?thesis
      by (rule updateForStateChange_inv [rotated]) simp
  next
    case False
    then obtain qs where qs: "reSortCallParticipants env ?left = Inr qs"
      and ch': "updateForStateChange env
        (on_conv (\<lambda>c. c\<lparr>callParticipants := qs, isIgnoringCall := isIgnoringCall c \<or> isSelfUser env p\<rparr>) ?ch1) = Inr ch'"
      using assms(3) by (simp only: removeCallParticipant_def Let_def) auto
    show ?thesis
      by (rule updateForStateChange_inv [OF _ ch'])
        (use assms(2) reSort_distinct [OF assms(1) qs left] in \<open>simp add: channel_inv_def\<close>)
  qed
qed

lemma ignore_inv [simp]: "channel_inv (ignoreIncomingCall ch) = channel_inv ch"
  by (simp add: ignoreIncomingCall_def channel_inv_def)

lemma tearDown_inv [simp]: "channel_inv (channel_tearDown env ch) = channel_inv ch"
  by (simp add: channel_tearDown_def)

lemma removeAllCallParticipants_inv:
  "channel_inv ch \<Longrightarrow> removeAllCallParticipants env ch = Inr ch' \<Longrightarrow> channel_inv ch'"
  by (auto simp: removeAllCallParticipants_def intro: updateForStateChange_inv [rotated] split: if_splits)

lemmas [inv_intros] =
  leave_inv updateForStateChange_inv updateActiveFlowParticipants_inv addCallParticipant_inv removeCallParticipant_inv
  removeAllCallParticipants_inv setVideoSendState_inv

lemma callFlow_send_inv:
  "sorting env \<Longrightarrow> channel_inv ch \<Longrightarrow> callFlow_send env m ch = Inr ch' \<Longrightarrow> channel_inv ch'"
  by (cases m) (auto intro: inv_intros)

lemma video_send_inv:
  "channel_inv ch \<Longrightarrow> video_send env m ch = Inr (err, ch') \<Longrightarrow> channel_inv ch'"
  by (cases m)
    (auto simp: joinVideoCall_def setVideoSendActive_def channel_setVideoCaptureDevice_def
      intro: setVideoSendState_inv channel_inv_device dest!: tell_flowManager_keeps split: if_splits option.splits)

lemma callTimer_inv: "channel_inv ch \<Longrightarrow> channel_callTimerDidFire env ch = Inr ch' \<Longrightarrow> channel_inv ch'"
  by (auto simp: channel_callTimerDidFire_def Let_def intro: leave_inv split: if_splits)

lemma channel_send_inv:
  "sorting (fst em) \<Longrightarrow> channel_inv ch \<Longrightarrow> channel_send em ch = Inr ch' \<Longrightarrow> channel_inv ch'"
  by (cases "snd em") (auto simp: channel_send_def intro: callFlow_send_inv video_send_inv callTimer_inv)

section \<open>What the channel does\<close>

text \<open>A group conversation with a call of two participants, and circumstances without a GSM call or a manager.\<close>

definition sample_conversation :: ZMConversation where
  "sample_conversation =
     \<lparr>conv_remoteIdentifier = Some ''c'', conversationType = ZMConversationTypeGroup, callDeviceIsActive = True,
      isFlowActive = True, isVideoCall = False, isSendingVideo = False, isOutgoingCall = False, isIgnoringCall = False,
      callTimedOut = False, reasonToLeave = ZMCallStateReasonToLeaveNone, callParticipants = [10, 11],
      activeFlowParticipants = [10], otherActiveVideoCallParticipants = []\<rparr>"

definition sample_channel :: ZMVoiceChannel where
  "sample_channel = \<lparr>vc_conversation = sample_conversation, currentVideoDeviceID = None, vc_effects = []\<rparr>"

definition sample_channel_env :: channel_env where
  "sample_channel_env =
     \<lparr>ch_avs = \<lparr>classLinked = True, ZMDisableAVS = False, overrideFlowManager = False, getInstance = None\<rparr>,
      hasOngoingGSMCall = False, channel_state = (\<lambda>c. ZMVoiceChannelStateNoActiveUsers), zm_isSyncContext = True,
      isSelfUser = (\<lambda>u. u = 10), avs_conferenceComparator = None, string_compare = (\<lambda>a b. 0),
      reasonToLeaveToString = (\<lambda>r. ''user''), zm_sortUsingComparator = (\<lambda>cmp xs. rev xs)\<rparr>"

lemma sample_sorting: "sorting sample_channel_env"
  by (simp add: sorting_def sample_channel_env_def)

lemmas sample_channel_defs = sample_channel_def sample_conversation_def sample_channel_env_def

text \<open>In every run of the messages of a voice channel, whatever the circumstances of each message, the call
  participants and the participants with a flow do not repeat, and while video is sent a camera is selected. Only the
  messages of the channel itself are meant: \<^verbatim>\<open>ZMFlowSync\<close> sets that video is sent without looking at the camera.\<close>

lemma channel_stays_consistent:
  "(\<forall>em \<in> set ems. sorting (fst em)) \<Longrightarrow> channel_inv ch \<Longrightarrow> foldE channel_send ems ch = Inr ch' \<Longrightarrow> channel_inv ch'"
  by (induction ems arbitrary: ch) (auto intro: channel_send_inv split: sum.splits)

lemma channel_stays_consistent_example:
  "\<exists>ch. foldE channel_send
      [(sample_channel_env, CallFlow (AddCallParticipant 12)), (sample_channel_env, CallFlow (RemoveCallParticipant 10))]
      sample_channel = Inr ch \<and> callParticipants (vc_conversation ch) = [11, 12] \<and> channel_inv ch"
proof -
  let ?ems = "[(sample_channel_env, CallFlow (AddCallParticipant 12)), (sample_channel_env, CallFlow (RemoveCallParticipant 10))]"
  obtain ch where ch: "foldE channel_send ?ems sample_channel = Inr ch" "callParticipants (vc_conversation ch) = [11, 12]"
    by (simp add: sample_channel_defs channel_send_def addCallParticipant_def removeCallParticipant_def
        reSortCallParticipants_def channel_conferenceComparator_def bridge_flowManagerClass_def oset_add_def oset_remove_def
        updateForStateChange_def startOrCancelTimerForState_def channel_resetTimer_def Let_def)
  have "channel_inv ch"
    by (rule channel_stays_consistent [OF _ _ ch(1)])
      (simp_all add: sample_sorting, simp add: channel_inv_def sample_channel_defs)
  then show ?thesis
    using ch by blast
qed

text \<open>Leaving a call in a conversation that is not one-to-one keeps it from ringing again only while more than two
  participants are left: with two or fewer, the reset of the call state takes the mark back.\<close>

lemma group_call_rings_again_after_leaving:
  "conversationType (vc_conversation ch) \<noteq> ZMConversationTypeOneOnOne \<Longrightarrow> leaveWithReason env r ch = Inr ch' \<Longrightarrow>
   \<not> callDeviceIsActive (vc_conversation ch') \<and>
   (isIgnoringCall (vc_conversation ch') \<longleftrightarrow> 2 < length (callParticipants (vc_conversation ch)))"
  by (drule leave_conversation) (simp add: not_le)

lemma group_call_rings_again_after_leaving_example:
  "\<exists>ch. leaveWithReason sample_channel_env ZMCallStateReasonToLeaveUser sample_channel = Inr ch \<and>
        \<not> isIgnoringCall (vc_conversation ch)"
proof -
  obtain ch where ch: "leaveWithReason sample_channel_env ZMCallStateReasonToLeaveUser sample_channel = Inr ch"
    by (simp add: leaveWithReason_def Let_def sample_channel_defs)
  show ?thesis
    using group_call_rings_again_after_leaving [OF _ ch] ch by (simp add: sample_channel_defs)
qed

text \<open>While a GSM call is going on, joining a video call reports success although nothing is joined, and leaves the
  conversation marked as a video call.\<close>

lemma video_join_succeeds_without_joining:
  "hasOngoingGSMCall env \<Longrightarrow> \<not> callDeviceIsActive (vc_conversation ch) \<Longrightarrow>
   joinVideoCall env ch = (None, channel_emit CallingFailedOngoingGSMCall (on_conv (\<lambda>c. c\<lparr>isVideoCall := True\<rparr>) ch))"
  by (simp add: joinVideoCall_def channel_join_def)

text \<open>A call timer that fires while another one comes first in the dictionary is lost: its conversation is not told,
  and because its entry stays, no new timer can be started for that conversation.\<close>

lemma late_call_timer_is_lost:
  assumes "ts = (ob0, t0) # rest" and "map_of rest ob = Some t" and "ob \<noteq> ob0" and "tm_id t \<noteq> tm_id t0"
  shows "timerDidFire (tm_id t) ts = (None, ts) \<and> addAndStartTimer timeout now new ob c ts = ts"
  using assms by (auto simp: timerDidFire_def addAndStartTimer_def)

lemma late_call_timer_is_lost_example:
  "timerDidFire 21 [(10, \<lparr>tm_id = 20, fireDate = 0\<rparr>), (11, \<lparr>tm_id = 21, fireDate = 0\<rparr>)] =
     (None, [(10, \<lparr>tm_id = 20, fireDate = 0\<rparr>), (11, \<lparr>tm_id = 21, fireDate = 0\<rparr>)])"
  using late_call_timer_is_lost [OF refl, of "[(11, \<lparr>tm_id = 21, fireDate = 0\<rparr>)]" 11 "\<lparr>tm_id = 21, fireDate = 0\<rparr>"
      10 "\<lparr>tm_id = 20, fireDate = 0\<rparr>" 0 0 22 sample_conversation]
  by simp

end
