(* ===== verification/FlowSync.thy ===== *)
theory FlowSync
  imports VoiceChannel
begin

text \<open>
  \<^verbatim>\<open>ZMFlowSync\<close> connects the calling library with the rest of the program: it forwards push events,
  acquires and releases the flows of conversations, sends the requests of the library, and buffers
  what arrives before the library is ready. Managed objects live in the sync and in the user
  interface context; sets are lists without repetitions whose order is the order of enumeration.
\<close>

section \<open>State\<close>

datatype ZMFlowManagerCategory = ZMFlowManagerCategoryIdle | ZMFlowManagerCategoryCallInProgress

record call_event =
  ce_type :: nat
  ce_payload :: json

record flow_request =
  fr_path :: NSString
  fr_method :: NSString
  fr_mediaType :: NSString
  fr_content :: "NSData option"
  fr_context :: nat

datatype (plugins only: code size) flow_effect =
    FlowRequestsAvailable
  | CallingFailedVideoNotSupported
  | SyncedIsSendingVideo ZMManagedObject
  | SavedSyncContext
  | SavedUIContext
  | EnqueuedDelayedSave
  | AppendedUILog "ZMManagedObject option" NSString
  | EnqueuedVoiceGain ZMManagedObject ZMManagedObject real

record ZMFlowSync =
  requestStack :: "flow_request list"
  onDemandFlowManager :: ZMOnDemandFlowManager
  eventTypesToForward :: "nat list option"
  fs_pushChannelIsOpen :: bool
  conversationsNeedingUpdate :: "ZMManagedObject list"
  usersNeedingToBeAdded :: "(NSString \<times> ZMManagedObject list) list"
  eventsNeedingToBeForwarded :: "call_event list"
  sync_channel :: "ZMManagedObject \<Rightarrow> ZMVoiceChannel"
  ui_channel :: "ZMManagedObject \<Rightarrow> ZMVoiceChannel"
  avs :: "AVSFlowManager_msg list"
  fs_effects :: "flow_effect list"

text \<open>
  The circumstances of a message: the answers of the manager, the state of the application, and what
  the data model and Foundation answer. \<open>usersWithRemoteIDs\<close> is the mapping of an array of identifiers to
  the users that exist.
\<close>

record flow_env =
  fe_avs :: avs_env
  fe_manager :: AVSFlowManager
  applicationState :: UIApplicationState
  fe_syncChannel :: channel_env
  fe_uiChannel :: channel_env
  user_remoteIdentifier :: "ZMManagedObject \<Rightarrow> NSString option"
  user_name :: "ZMManagedObject \<Rightarrow> NSString option"
  fe_selfUser :: ZMManagedObject
  connectedUser :: "ZMManagedObject \<Rightarrow> ZMManagedObject option"
  conversationWithRemoteID :: "NSString \<Rightarrow> ZMManagedObject option"
  userWithRemoteID :: "NSString \<Rightarrow> ZMManagedObject option"
  usersWithRemoteIDs :: "NSString list \<Rightarrow> ZMManagedObject list"
  updateEventTypeForEventTypeString :: "NSString \<Rightarrow> nat option"
  dataWithJSONObject :: "json \<Rightarrow> NSData"
  newUUID :: NSString

type_synonym flow_result = "objc_failure + ZMFlowSync"

definition DefaultMediaType :: NSString where
  "DefaultMediaType = ''application/json''"

definition isFlowManagerReady :: "flow_env \<Rightarrow> ZMFlowSync \<Rightarrow> bool" where
  "isFlowManagerReady env s \<longleftrightarrow> od_flowManager (onDemandFlowManager s) \<noteq> None \<and> isReady (fe_manager env)"

text \<open>A message to \<^verbatim>\<open>self.flowManager\<close>; dropped while there is none.\<close>

definition tell :: "AVSFlowManager_msg \<Rightarrow> ZMFlowSync \<Rightarrow> ZMFlowSync" where
  "tell m s = (if od_flowManager (onDemandFlowManager s) = None then s else s\<lparr>avs := avs s @ [m]\<rparr>)"

definition flow_emit :: "flow_effect \<Rightarrow> ZMFlowSync \<Rightarrow> ZMFlowSync" where
  "flow_emit e s = s\<lparr>fs_effects := fs_effects s @ [e]\<rparr>"

definition on_sync :: "(ZMConversation \<Rightarrow> ZMConversation) \<Rightarrow> ZMManagedObject \<Rightarrow> ZMFlowSync \<Rightarrow> ZMFlowSync" where
  "on_sync f ob s = s\<lparr>sync_channel := (sync_channel s)(ob := on_conv f (sync_channel s ob))\<rparr>"

definition sync_conv :: "ZMFlowSync \<Rightarrow> ZMManagedObject \<Rightarrow> ZMConversation" where
  "sync_conv s ob = vc_conversation (sync_channel s ob)"

section \<open>Creating the manager\<close>

definition createEventTypesToForward :: "flow_env \<Rightarrow> ZMFlowSync \<Rightarrow> ZMFlowSync" where
  "createEventTypesToForward env s =
     s\<lparr>eventTypesToForward := Some
        (List.map_filter (updateEventTypeForEventTypeString env)
           (if od_flowManager (onDemandFlowManager s) = None then [] else fm_events (fe_manager env)))\<rparr>"

definition setUpFlowManagerIfNeeded :: "flow_env \<Rightarrow> ZMFlowSync \<Rightarrow> flow_result" where
  "setUpFlowManagerIfNeeded env s =
     bindE (initializeFlowManagerWithDelegate (fe_avs env) (onDemandFlowManager s))
       (\<lambda>od. let s = s\<lparr>onDemandFlowManager := od\<rparr>
             in Inr (if eventTypesToForward s = None then createEventTypesToForward env s else s))"

definition flowSync_init ::
  "flow_env \<Rightarrow> ZMOnDemandFlowManager \<Rightarrow> (ZMManagedObject \<Rightarrow> ZMVoiceChannel) \<Rightarrow> (ZMManagedObject \<Rightarrow> ZMVoiceChannel) \<Rightarrow>
   flow_result" where
  "flowSync_init env od sync ui =
     (let s = \<lparr>requestStack = [], onDemandFlowManager = od, eventTypesToForward = None, fs_pushChannelIsOpen = False,
               conversationsNeedingUpdate = [], usersNeedingToBeAdded = [], eventsNeedingToBeForwarded = [],
               sync_channel = sync, ui_channel = ui, avs = [], fs_effects = []\<rparr>
      in if applicationState env = UIApplicationStateActive then setUpFlowManagerIfNeeded env s else Inr s)"

definition setUp_unless_background :: "flow_env \<Rightarrow> ZMFlowSync \<Rightarrow> flow_result" where
  "setUp_unless_background env s =
     (if applicationState env \<noteq> UIApplicationStateBackground then setUpFlowManagerIfNeeded env s else Inr s)"

section \<open>Flows, participants and events\<close>

text \<open>The identifier of the conversation is the transport string of its remote identifier.\<close>

definition appendLogForConversationID :: "convId \<Rightarrow> NSString \<Rightarrow> ZMFlowSync \<Rightarrow> ZMFlowSync" where
  "appendLogForConversationID c msg = tell (AppendLogForConversation c (Some msg))"

definition acquireFlowsForConversation :: "flow_env \<Rightarrow> ZMManagedObject \<Rightarrow> ZMFlowSync \<Rightarrow> flow_result" where
  "acquireFlowsForConversation env ob s =
     bindE (setUp_unless_background env s)
       (\<lambda>s. Inr
          (if \<not> isFlowManagerReady env s
           then s\<lparr>conversationsNeedingUpdate := oset_add (conversationsNeedingUpdate s) ob\<rparr>
           else
             (let s = s\<lparr>conversationsNeedingUpdate := oset_remove ob (conversationsNeedingUpdate s)\<rparr>
              in case conv_remoteIdentifier (sync_conv s ob) of
                   None \<Rightarrow> s
                 | Some i \<Rightarrow> tell (AcquireFlows (Some i)) s)))"

definition releaseFlowsForConversation :: "flow_env \<Rightarrow> ZMManagedObject \<Rightarrow> ZMFlowSync \<Rightarrow> flow_result" where
  "releaseFlowsForConversation env ob s =
     bindE (setUp_unless_background env s)
       (\<lambda>s. Inr
          (if \<not> isFlowManagerReady env s
           then s\<lparr>conversationsNeedingUpdate := oset_add (conversationsNeedingUpdate s) ob\<rparr>
           else
             (let s = s\<lparr>conversationsNeedingUpdate := oset_remove ob (conversationsNeedingUpdate s)\<rparr>
              in case conv_remoteIdentifier (sync_conv s ob) of
                   None \<Rightarrow> s
                 | Some i \<Rightarrow> on_sync (\<lambda>c. c\<lparr>isFlowActive := False\<rparr>) ob (tell (ReleaseFlows (Some i)) s))))"

definition updateFlowsForConversation :: "flow_env \<Rightarrow> ZMManagedObject \<Rightarrow> ZMFlowSync \<Rightarrow> flow_result" where
  "updateFlowsForConversation env ob s =
     (let c = sync_conv s ob
      in if callDeviceIsActive c
         then acquireFlowsForConversation env ob
                (if \<not> isFlowActive c then appendLogForConversationID (conv_remoteIdentifier c) ''Acquiring Flows'' s else s)
         else releaseFlowsForConversation env ob
                (if isFlowActive c then appendLogForConversationID (conv_remoteIdentifier c) ''Releasing Flows'' s else s))"

definition setSessionIdentifier :: "flow_env \<Rightarrow> NSString \<Rightarrow> convId \<Rightarrow> ZMFlowSync \<Rightarrow> ZMFlowSync" where
  "setSessionIdentifier env sessionID c s =
     (let userID = (case user_remoteIdentifier env (fe_selfUser env) of None \<Rightarrow> ''na'' | Some u \<Rightarrow> u)
      in tell (SetSessionId (sessionID @ ''_U-'' @ userID @ ''_D-'' @ newUUID env) c) s)"

text \<open>A missing identifier is no key of the dictionary of users to add.\<close>

definition addJoinedCallParticipant :: "flow_env \<Rightarrow> ZMManagedObject \<Rightarrow> convId \<Rightarrow> ZMFlowSync \<Rightarrow> flow_result" where
  "addJoinedCallParticipant env user c s =
     (if \<not> isFlowManagerReady env s then
        (case c of
           None \<Rightarrow> Inl NSInvalidArgumentException
         | Some i \<Rightarrow>
             let users = (case map_of (usersNeedingToBeAdded s) i of None \<Rightarrow> [] | Some us \<Rightarrow> us)
             in Inr (s\<lparr>usersNeedingToBeAdded := dict_put i (oset_add users user) (usersNeedingToBeAdded s)\<rparr>))
      else
        (let s = (case Option.bind c (map_of (usersNeedingToBeAdded s)) of
                    None \<Rightarrow> s
                  | Some us \<Rightarrow>
                      let left = oset_remove user us
                      in s\<lparr>usersNeedingToBeAdded :=
                             if left \<noteq> [] then dict_put (the c) left (usersNeedingToBeAdded s)
                             else dict_remove (the c) (usersNeedingToBeAdded s)\<rparr>)
         in Inr (tell (AddUser c (user_remoteIdentifier env user) (user_name env user)) s)))"

definition processFlowEvent :: "flow_env \<Rightarrow> call_event \<Rightarrow> ZMFlowSync \<Rightarrow> ZMFlowSync" where
  "processFlowEvent env e s =
     (if \<not> isFlowManagerReady env s then s
      else tell (ProcessEvent DefaultMediaType (dataWithJSONObject env (ce_payload e)))
             (s\<lparr>eventsNeedingToBeForwarded := oset_remove e (eventsNeedingToBeForwarded s)\<rparr>))"

definition forwarded :: "ZMFlowSync \<Rightarrow> call_event \<Rightarrow> bool" where
  "forwarded s e \<longleftrightarrow> (case eventTypesToForward s of None \<Rightarrow> False | Some ts \<Rightarrow> ce_type e \<in> set ts)"

text \<open>The loop over the events returns at the first one of another type.\<close>

fun process_loop :: "flow_env \<Rightarrow> call_event list \<Rightarrow> ZMFlowSync \<Rightarrow> ZMFlowSync" where
  "process_loop env [] s = s"
| "process_loop env (e # es) s = (if \<not> forwarded s e then s else process_loop env es (processFlowEvent env e s))"

definition flow_processEvents :: "flow_env \<Rightarrow> call_event list \<Rightarrow> bool \<Rightarrow> ZMFlowSync \<Rightarrow> flow_result" where
  "flow_processEvents env events liveEvents s =
     (if \<not> liveEvents then Inr s
      else bindE (setUp_unless_background env s)
        (\<lambda>s. Inr
           (if \<not> isFlowManagerReady env s
            then s\<lparr>eventsNeedingToBeForwarded :=
                   oset_union (eventsNeedingToBeForwarded s) (filter (forwarded s) events)\<rparr>
            else process_loop env events s)))"

section \<open>What was buffered\<close>

text \<open>
  The dictionary of users is copied, but its sets are not: adding a user takes it out of the very set
  that is being enumerated. Enumeration raises when it goes on after the set has changed.
\<close>

fun add_buffered_users :: "flow_env \<Rightarrow> NSString \<Rightarrow> ZMManagedObject list \<Rightarrow> ZMFlowSync \<Rightarrow> flow_result" where
  "add_buffered_users env i [] s = Inr s"
| "add_buffered_users env i (u # us) s =
     bindE (addJoinedCallParticipant env u (Some i) s)
       (\<lambda>s'. if us \<noteq> [] \<and> map_of (usersNeedingToBeAdded s') i \<noteq> map_of (usersNeedingToBeAdded s) i
             then Inl NSGenericException
             else add_buffered_users env i us s')"

definition processBufferedEventsIfNeeded :: "flow_env \<Rightarrow> ZMFlowSync \<Rightarrow> flow_result" where
  "processBufferedEventsIfNeeded env s =
     bindE (foldE (updateFlowsForConversation env) (conversationsNeedingUpdate s) s)
       (\<lambda>s. let s = s\<lparr>conversationsNeedingUpdate := []\<rparr>
            in bindE (foldE (\<lambda>(i, us). add_buffered_users env i us) (usersNeedingToBeAdded s) s)
                 (\<lambda>s. let s = s\<lparr>usersNeedingToBeAdded := []\<rparr>;
                          s = fold (processFlowEvent env) (eventsNeedingToBeForwarded s) s
                      in Inr (s\<lparr>eventsNeedingToBeForwarded := []\<rparr>)))"

definition appDidBecomeActive :: "flow_env \<Rightarrow> ZMFlowSync \<Rightarrow> flow_result" where
  "appDidBecomeActive env s = bindE (setUpFlowManagerIfNeeded env s) (processBufferedEventsIfNeeded env)"

section \<open>Requests of the manager\<close>

text \<open>New requests go to the front of the array, the next one is taken from its end.\<close>

definition requestWithPath ::
  "NSString \<Rightarrow> NSString \<Rightarrow> NSString \<Rightarrow> NSData option \<Rightarrow> nat \<Rightarrow> ZMFlowSync \<Rightarrow> bool \<times> ZMFlowSync" where
  "requestWithPath path methodString mtype content ctx s =
     (if path = [] \<or> methodString = [] then (False, s)
      else
        (let s = s\<lparr>requestStack := \<lparr>fr_path = path, fr_method = methodString, fr_mediaType = mtype, fr_content = content,
                                    fr_context = ctx\<rparr> # requestStack s\<rparr>
         in (True, if fs_pushChannelIsOpen s then flow_emit FlowRequestsAvailable s else s)))"

definition flow_nextRequest :: "flow_env \<Rightarrow> ZMFlowSync \<Rightarrow> objc_failure + flow_request option \<times> ZMFlowSync" where
  "flow_nextRequest env s =
     (if \<not> fs_pushChannelIsOpen s then Inr (None, s)
      else bindE (if applicationState env \<noteq> UIApplicationStateBackground \<and> od_flowManager (onDemandFlowManager s) = None
                  then setUpFlowManagerIfNeeded env s else Inr s)
        (\<lambda>s. bindE (if isFlowManagerReady env s then processBufferedEventsIfNeeded env s else Inr s)
           (\<lambda>s. Inr (if requestStack s = [] then (None, s)
                     else (Some (last (requestStack s)), s\<lparr>requestStack := butlast (requestStack s)\<rparr>)))))"

definition flow_requestCompleted ::
  "flow_env \<Rightarrow> ZMTransportResponse \<Rightarrow> NSString \<Rightarrow> nat \<Rightarrow> ZMFlowSync \<Rightarrow> ZMFlowSync" where
  "flow_requestCompleted env r status ctx =
     tell (ProcessResponse (resp_HTTPStatus r) status DefaultMediaType
             (map_option (dataWithJSONObject env) (resp_payload r)) ctx)"

definition pushChannelDidChange :: "bool \<Rightarrow> ZMFlowSync \<Rightarrow> ZMFlowSync" where
  "pushChannelDidChange isOpen s =
     (let oldValue = fs_pushChannelIsOpen s;
          s = s\<lparr>fs_pushChannelIsOpen := isOpen\<rparr>;
          s = (if isOpen then tell NetworkChanged s else s)
      in if \<not> oldValue \<and> isOpen \<and> requestStack s \<noteq> [] then flow_emit FlowRequestsAvailable s else s)"

definition flow_registerSelfUser :: "flow_env \<Rightarrow> ZMFlowSync \<Rightarrow> ZMFlowSync" where
  "flow_registerSelfUser env s =
     (case user_remoteIdentifier env (fe_selfUser env) of None \<Rightarrow> s | Some u \<Rightarrow> tell (SetSelfUser u) s)"

definition accessTokenDidChange :: "NSString option \<Rightarrow> NSString option \<Rightarrow> ZMFlowSync \<Rightarrow> ZMFlowSync" where
  "accessTokenDidChange token type s =
     (case (token, type) of (Some t, Some ty) \<Rightarrow> tell (RefreshAccessToken t ty) s | _ \<Rightarrow> s)"

section \<open>What the manager reports\<close>

definition didEstablishMediaInConversation :: "flow_env \<Rightarrow> NSString \<Rightarrow> ZMFlowSync \<Rightarrow> ZMFlowSync" where
  "didEstablishMediaInConversation env i s =
     (case conversationWithRemoteID env i of
        None \<Rightarrow> flow_emit SavedSyncContext s
      | Some ob \<Rightarrow>
          let video = isVideoCall (sync_conv s ob);
              canSendVideo = (video \<and> od_flowManager (onDemandFlowManager s) \<noteq> None \<and>
                              canSendVideoForConversation (fe_manager env) (Some i));
              s = (if canSendVideo then tell (SetVideoSendState FLOWMANAGER_VIDEO_SEND (Some i)) s
                   else if video then flow_emit CallingFailedVideoNotSupported s else s);
              s = (if video then on_sync (\<lambda>c. c\<lparr>isSendingVideo := canSendVideo\<rparr>) ob s else s);
              s = (if canSendVideo then flow_emit (SyncedIsSendingVideo ob) s else s)
          in flow_emit SavedSyncContext (on_sync (\<lambda>c. c\<lparr>isFlowActive := True\<rparr>) ob s))"

definition leaveCallInConversationWithRemoteID :: "flow_env \<Rightarrow> NSString \<Rightarrow> NSString \<Rightarrow> ZMFlowSync \<Rightarrow> flow_result" where
  "leaveCallInConversationWithRemoteID env i reason s =
     (let found = conversationWithRemoteID env i;
          s = (case found of
                 None \<Rightarrow> s
               | Some ob \<Rightarrow>
                   let s = on_sync (\<lambda>c. c\<lparr>isFlowActive := False\<rparr>) ob s
                   in if isVideoCall (sync_conv s ob)
                      then tell (SetVideoSendState FLOWMANAGER_VIDEO_SEND_NONE (conv_remoteIdentifier (sync_conv s ob))) s
                      else s);
          s = flow_emit (AppendedUILog found (''Self user wants to leave voice channel. Reason: '' @ reason))
                (flow_emit SavedSyncContext s);
          stay = flow_emit (AppendedUILog found ''Self user can't leave voice channel (callDeviceIsActive = NO)'') s
      in case found of
           None \<Rightarrow> Inr stay
         | Some ob \<Rightarrow>
             if \<not> callDeviceIsActive (vc_conversation (ui_channel s ob)) then Inr stay
             else bindE (leaveWithReason (fe_uiChannel env) ZMCallStateReasonToLeaveAVSError (ui_channel s ob))
                    (\<lambda>ch. Inr (flow_emit SavedUIContext (s\<lparr>ui_channel := (ui_channel s)(ob := ch)\<rparr>))))"

definition didUpdateVolume :: "flow_env \<Rightarrow> real \<Rightarrow> NSString \<Rightarrow> NSString \<Rightarrow> ZMFlowSync \<Rightarrow> ZMFlowSync" where
  "didUpdateVolume env volume i participantId s =
     (case conversationWithRemoteID env i of
        None \<Rightarrow> s
      | Some ob \<Rightarrow>
          (case (if participantId = ''self'' then Some (fe_selfUser env)
                 else if participantId = ''other'' then connectedUser env ob
                 else userWithRemoteID env participantId) of
             None \<Rightarrow> s
           | Some user \<Rightarrow> flow_emit (EnqueuedVoiceGain ob user volume) s))"

definition conferenceParticipantsDidChange :: "flow_env \<Rightarrow> NSString list \<Rightarrow> NSString \<Rightarrow> ZMFlowSync \<Rightarrow> flow_result" where
  "conferenceParticipantsDidChange env ids i s =
     (case conversationWithRemoteID env i of
        None \<Rightarrow> Inr (flow_emit EnqueuedDelayedSave s)
      | Some ob \<Rightarrow>
          bindE (updateActiveFlowParticipants (fe_syncChannel env) (usersWithRemoteIDs env ids) (sync_channel s ob))
            (\<lambda>ch. Inr (flow_emit EnqueuedDelayedSave (s\<lparr>sync_channel := (sync_channel s)(ob := ch)\<rparr>))))"

text \<open>The number of an error in a message is printed by \<^verbatim>\<open>stringWithFormat:\<close>; \<open>dec\<close> prints it.\<close>

primrec delegate_send :: "flow_env \<Rightarrow> (int \<Rightarrow> NSString) \<Rightarrow> AVSFlowManagerDelegate \<Rightarrow> ZMFlowSync \<Rightarrow> flow_result" where
  "delegate_send env dec (LogMessage m) s = Inr s"
| "delegate_send env dec (RequestWithPath p m t d c) s = Inr (snd (requestWithPath p m t d c s))"
| "delegate_send env dec (DidEstablishMedia i) s = Inr (didEstablishMediaInConversation env i s)"
| "delegate_send env dec (SetFlowManagerActivityState a) s = Inr s"
| "delegate_send env dec (NetworkQuality q i) s = Inr s"
| "delegate_send env dec (MediaWarning i) s = leaveCallInConversationWithRemoteID env i ''AVS Media warning'' s"
| "delegate_send env dec (ErrorHandler e i c) s =
     leaveCallInConversationWithRemoteID env i (''AVS error handler with error '' @ dec e) s"
| "delegate_send env dec (VmStatushandler b t l) s = Inr s"
| "delegate_send env dec (DidUpdateVolume v i p) s = Inr (didUpdateVolume env v i p s)"
| "delegate_send env dec (DidEstablishMediaForUser i u) s = Inr s"
| "delegate_send env dec (ConferenceParticipantsDidChange ps i) s = conferenceParticipantsDidChange env ps i s"

section \<open>The interface\<close>

datatype (plugins only: code size) ZMFlowSync_msg =
    AcquireFlowsForConversation ZMManagedObject
  | ReleaseFlowsForConversation ZMManagedObject
  | SetSessionIdentifier NSString convId
  | AppendLog convId NSString
  | AddJoinedCallParticipant ZMManagedObject ZMManagedObject
  | AccessTokenChanged "NSString option" "NSString option"
  | UpdateFlowsForConversation ZMManagedObject

primrec flowSync_send :: "flow_env \<Rightarrow> ZMFlowSync_msg \<Rightarrow> ZMFlowSync \<Rightarrow> flow_result" where
  "flowSync_send env (AcquireFlowsForConversation ob) s = acquireFlowsForConversation env ob s"
| "flowSync_send env (ReleaseFlowsForConversation ob) s = releaseFlowsForConversation env ob s"
| "flowSync_send env (SetSessionIdentifier i c) s = Inr (setSessionIdentifier env i c s)"
| "flowSync_send env (AppendLog c m) s = Inr (appendLogForConversationID c m s)"
| "flowSync_send env (AddJoinedCallParticipant u ob) s =
     addJoinedCallParticipant env u (conv_remoteIdentifier (sync_conv s ob)) s"
| "flowSync_send env (AccessTokenChanged t ty) s = Inr (accessTokenDidChange t ty s)"
| "flowSync_send env (UpdateFlowsForConversation ob) s = updateFlowsForConversation env ob s"

text \<open>Every way in which the flow sync is called, with the request it hands out.\<close>

datatype (plugins only: code size) flow_msg =
    ToFlowSync ZMFlowSync_msg
  | FromManager AVSFlowManagerDelegate
  | AskForRequest
  | PushEvents "call_event list" bool
  | ResponseArrived ZMTransportResponse NSString nat
  | PushChannelChanged bool
  | BecameActive
  | LoggedIn

primrec flow_step ::
  "flow_env \<Rightarrow> (int \<Rightarrow> NSString) \<Rightarrow> flow_msg \<Rightarrow> ZMFlowSync \<Rightarrow> objc_failure + flow_request option \<times> ZMFlowSync" where
  "flow_step env dec (ToFlowSync m) s = map_sum id (Pair None) (flowSync_send env m s)"
| "flow_step env dec (FromManager m) s = map_sum id (Pair None) (delegate_send env dec m s)"
| "flow_step env dec AskForRequest s = flow_nextRequest env s"
| "flow_step env dec (PushEvents es live) s = map_sum id (Pair None) (flow_processEvents env es live s)"
| "flow_step env dec (ResponseArrived r status ctx) s = Inr (None, flow_requestCompleted env r status ctx s)"
| "flow_step env dec (PushChannelChanged b) s = Inr (None, pushChannelDidChange b s)"
| "flow_step env dec BecameActive s = map_sum id (Pair None) (appDidBecomeActive env s)"
| "flow_step env dec LoggedIn s = Inr (None, flow_registerSelfUser env s)"

fun flow_run ::
  "(int \<Rightarrow> NSString) \<Rightarrow> (flow_env \<times> flow_msg) list \<Rightarrow> ZMFlowSync \<Rightarrow> objc_failure + flow_request list \<times> ZMFlowSync" where
  "flow_run dec [] s = Inr ([], s)"
| "flow_run dec ((env, m) # ms) s =
     bindE (flow_step env dec m s)
       (\<lambda>(r, s'). bindE (flow_run dec ms s') (\<lambda>(rs, s''). Inr (case r of None \<Rightarrow> rs | Some q \<Rightarrow> q # rs, s'')))"

section \<open>A sample\<close>

text \<open>A created manager that is ready or not, wants one type of events, and nothing else known.\<close>

definition sample_flow_env :: "bool \<Rightarrow> flow_env" where
  "sample_flow_env ready =
     \<lparr>fe_avs = \<lparr>classLinked = True, ZMDisableAVS = False, overrideFlowManager = False, getInstance = None\<rparr>,
      fe_manager = \<lparr>isReady = ready, fm_events = [''call''], isMediaEstablishedInConversation = (\<lambda>_. False),
                    canSendVideoForConversation = (\<lambda>_. False), isSendingVideoInConversation = (\<lambda>_ _. False)\<rparr>,
      applicationState = UIApplicationStateActive, fe_syncChannel = sample_channel_env,
      fe_uiChannel = sample_channel_env, user_remoteIdentifier = (\<lambda>_. Some ''u''), user_name = (\<lambda>_. None),
      fe_selfUser = 10, connectedUser = (\<lambda>_. None), conversationWithRemoteID = (\<lambda>_. None),
      userWithRemoteID = (\<lambda>_. None), usersWithRemoteIDs = (\<lambda>_. []),
      updateEventTypeForEventTypeString = (\<lambda>n. if n = ''call'' then Some 5 else None),
      dataWithJSONObject = (\<lambda>_. []), newUUID = ''r''\<rparr>"

definition sample_flow :: ZMFlowSync where
  "sample_flow =
     \<lparr>requestStack = [], onDemandFlowManager = \<lparr>od_flowManager = Some LinkedClass, od_announced = 1\<rparr>,
      eventTypesToForward = Some [5], fs_pushChannelIsOpen = True, conversationsNeedingUpdate = [],
      usersNeedingToBeAdded = [], eventsNeedingToBeForwarded = [], sync_channel = (\<lambda>_. sample_channel),
      ui_channel = (\<lambda>_. sample_channel), avs = [], fs_effects = []\<rparr>"

lemmas sample_flow_defs = sample_flow_def sample_flow_env_def

section \<open>Requests leave in the order they were made\<close>

lemma tell_simps [simp]:
  "requestStack (tell m s) = requestStack s"
  "onDemandFlowManager (tell m s) = onDemandFlowManager s"
  "eventTypesToForward (tell m s) = eventTypesToForward s"
  "conversationsNeedingUpdate (tell m s) = conversationsNeedingUpdate s"
  "usersNeedingToBeAdded (tell m s) = usersNeedingToBeAdded s"
  "eventsNeedingToBeForwarded (tell m s) = eventsNeedingToBeForwarded s"
  "sync_channel (tell m s) = sync_channel s"
  "fs_pushChannelIsOpen (tell m s) = fs_pushChannelIsOpen s"
  by (simp_all add: tell_def)

lemma flow_emit_simps [simp]:
  "requestStack (flow_emit e s) = requestStack s"
  "onDemandFlowManager (flow_emit e s) = onDemandFlowManager s"
  by (simp_all add: flow_emit_def)

lemma on_sync_simps [simp]:
  "requestStack (on_sync f ob s) = requestStack s"
  "onDemandFlowManager (on_sync f ob s) = onDemandFlowManager s"
  "usersNeedingToBeAdded (on_sync f ob s) = usersNeedingToBeAdded s"
  "eventsNeedingToBeForwarded (on_sync f ob s) = eventsNeedingToBeForwarded s"
  by (simp_all add: on_sync_def)

lemma setUp_stack: "setUpFlowManagerIfNeeded env s = Inr s' \<Longrightarrow> requestStack s' = requestStack s"
  by (auto simp: setUpFlowManagerIfNeeded_def createEventTypesToForward_def Let_def split: if_splits)

lemma setUp_unless_stack: "setUp_unless_background env s = Inr s' \<Longrightarrow> requestStack s' = requestStack s"
  by (auto simp: setUp_unless_background_def dest: setUp_stack split: if_splits)

lemma acquire_stack: "acquireFlowsForConversation env ob s = Inr s' \<Longrightarrow> requestStack s' = requestStack s"
  by (auto simp: acquireFlowsForConversation_def Let_def dest!: setUp_unless_stack split: if_splits option.splits)

lemma release_stack: "releaseFlowsForConversation env ob s = Inr s' \<Longrightarrow> requestStack s' = requestStack s"
  by (auto simp: releaseFlowsForConversation_def Let_def dest!: setUp_unless_stack split: if_splits option.splits)

lemma updateFlows_stack: "updateFlowsForConversation env ob s = Inr s' \<Longrightarrow> requestStack s' = requestStack s"
  by (auto simp: updateFlowsForConversation_def appendLogForConversationID_def Let_def
      dest!: acquire_stack release_stack split: if_splits)

lemma addJoined_stack: "addJoinedCallParticipant env u c s = Inr s' \<Longrightarrow> requestStack s' = requestStack s"
  by (auto simp: addJoinedCallParticipant_def Let_def split: if_splits option.splits)

lemma processFlowEvent_stack [simp]: "requestStack (processFlowEvent env e s) = requestStack s"
  by (simp add: processFlowEvent_def)

lemma process_loop_stack [simp]: "requestStack (process_loop env es s) = requestStack s"
  by (induction es arbitrary: s) auto

lemma fold_events_stack [simp]: "requestStack (fold (processFlowEvent env) es s) = requestStack s"
  by (induction es arbitrary: s) auto

lemma add_buffered_stack: "add_buffered_users env i us s = Inr s' \<Longrightarrow> requestStack s' = requestStack s"
  by (induction us arbitrary: s) (auto dest: addJoined_stack split: if_splits)

lemma foldE_stack:
  "(\<And>x s s'. f x s = Inr s' \<Longrightarrow> requestStack s' = requestStack s) \<Longrightarrow> foldE f xs s = Inr s' \<Longrightarrow>
   requestStack s' = requestStack s"
  by (induction xs arbitrary: s) (auto split: sum.splits)

lemma processBuffered_stack: "processBufferedEventsIfNeeded env s = Inr s' \<Longrightarrow> requestStack s' = requestStack s"
  by (auto simp: processBufferedEventsIfNeeded_def Let_def dest!: foldE_stack [rotated]
      intro: updateFlows_stack add_buffered_stack)

lemma processEvents_stack: "flow_processEvents env es live s = Inr s' \<Longrightarrow> requestStack s' = requestStack s"
  by (auto simp: flow_processEvents_def dest!: setUp_unless_stack split: if_splits)

lemma flowSync_send_stack: "flowSync_send env m s = Inr s' \<Longrightarrow> requestStack s' = requestStack s"
  by (cases m) (auto simp: setSessionIdentifier_def appendLogForConversationID_def accessTokenDidChange_def Let_def
      dest: acquire_stack release_stack addJoined_stack updateFlows_stack split: option.splits)

text \<open>What a message adds to the queue.\<close>

fun requested :: "flow_msg \<Rightarrow> flow_request list" where
  "requested (FromManager (RequestWithPath p m t d c)) =
     (if p = [] \<or> m = [] then []
      else [\<lparr>fr_path = p, fr_method = m, fr_mediaType = t, fr_content = d, fr_context = c\<rparr>])"
| "requested _ = []"

lemma leaveCall_stack:
  "leaveCallInConversationWithRemoteID env i r s = Inr s' \<Longrightarrow> requestStack s' = requestStack s"
  by (auto simp: leaveCallInConversationWithRemoteID_def Let_def split: option.splits if_splits)

lemma delegate_send_stack:
  "delegate_send env dec m s = Inr s' \<Longrightarrow> rev (requestStack s') = rev (requestStack s) @ requested (FromManager m)"
  by (cases m)
    (auto simp: requestWithPath_def didEstablishMediaInConversation_def didUpdateVolume_def
      conferenceParticipantsDidChange_def Let_def dest: leaveCall_stack split: option.splits)

lemma nextRequest_stack:
  assumes "flow_nextRequest env s = Inr (r, s')"
  shows "rev (requestStack s) = (case r of None \<Rightarrow> [] | Some q \<Rightarrow> [q]) @ rev (requestStack s')"
proof -
  have *: "xs \<noteq> [] \<Longrightarrow> rev xs = last xs # rev (butlast xs)" for xs :: "flow_request list"
    by (induction xs rule: rev_induct) auto
  show ?thesis
    using assms
    by (auto simp: flow_nextRequest_def * dest!: setUp_stack processBuffered_stack split: if_splits)
qed

lemma flow_step_stack:
  "flow_step env dec m s = Inr (r, s') \<Longrightarrow>
   (case r of None \<Rightarrow> [] | Some q \<Rightarrow> [q]) @ rev (requestStack s') = rev (requestStack s) @ requested m"
  by (cases m)
    (auto simp: flow_requestCompleted_def pushChannelDidChange_def flow_registerSelfUser_def appDidBecomeActive_def Let_def
      nextRequest_stack map_sum_Inr
      dest!: flowSync_send_stack delegate_send_stack processEvents_stack setUp_stack processBuffered_stack
      split: option.splits sum.splits)

text \<open>C13: In every run of the flow sync, whatever arrives in between, the requests handed out are the accepted requests of
  the calling library in the order it made them: those handed out followed by those still waiting are those that waited
  before followed by the accepted ones.\<close>

theorem flow_requests_leave_in_order:
  "flow_run dec ms s = Inr (rs, s') \<Longrightarrow>
   rs @ rev (requestStack s') = rev (requestStack s) @ concat (map (requested \<circ> snd) ms)"
proof (induction ms arbitrary: s rs)
  case (Cons em ms)
  obtain env m r s1 qs where em: "em = (env, m)" and st: "flow_step env dec m s = Inr (r, s1)"
    and rest: "flow_run dec ms s1 = Inr (qs, s')" and rs: "rs = (case r of None \<Rightarrow> [] | Some q \<Rightarrow> [q]) @ qs"
    using Cons.prems by (cases em) (auto split: option.splits)
  show ?case
    using Cons.IH [OF rest] flow_step_stack [OF st] by (simp add: em rs)
qed simp

theorem flow_requests_leave_in_order_witness:
  "\<exists>q s'. flow_run (\<lambda>_. []) (map (Pair (sample_flow_env False))
      [FromManager (RequestWithPath ''/a'' ''GET'' [] None 7), FromManager (RequestWithPath ''/b'' ''GET'' [] None 8),
       AskForRequest]) sample_flow = Inr ([q], s') \<and> fr_path q = ''/a'' \<and> map fr_path (requestStack s') = [''/b'']"
proof -
  let ?ms = "map (Pair (sample_flow_env False))
      [FromManager (RequestWithPath ''/a'' ''GET'' [] None 7), FromManager (RequestWithPath ''/b'' ''GET'' [] None 8),
       AskForRequest]"
  obtain q s' where run: "flow_run (\<lambda>_. []) ?ms sample_flow = Inr ([q], s')"
    by (simp add: requestWithPath_def flow_nextRequest_def isFlowManagerReady_def flow_emit_def sample_flow_defs Let_def)
  show ?thesis
    using flow_requests_leave_in_order [OF run] run by (auto simp: sample_flow_def)
qed

section \<open>Batches of events\<close>

definition event_msg :: "flow_env \<Rightarrow> call_event \<Rightarrow> AVSFlowManager_msg" where
  "event_msg env e = ProcessEvent DefaultMediaType (dataWithJSONObject env (ce_payload e))"

lemma ready_tell [simp]: "isFlowManagerReady env (tell m s) = isFlowManagerReady env s"
  by (simp add: isFlowManagerReady_def)

lemma processFlowEvent_ready:
  assumes "isFlowManagerReady env s"
  shows "avs (processFlowEvent env e s) = avs s @ [event_msg env e]"
    and "isFlowManagerReady env (processFlowEvent env e s)"
    and "eventTypesToForward (processFlowEvent env e s) = eventTypesToForward s"
  using assms by (simp_all add: processFlowEvent_def event_msg_def tell_def isFlowManagerReady_def)

lemma process_loop_ready:
  "isFlowManagerReady env s \<Longrightarrow>
   avs (process_loop env es s) = avs s @ map (event_msg env) (takeWhile (forwarded s) es)"
proof (induction es arbitrary: s)
  case (Cons e es)
  have "forwarded (processFlowEvent env e s) = forwarded s"
    by (simp add: forwarded_def fun_eq_iff processFlowEvent_ready [OF Cons.prems])
  then show ?case
    by (simp add: Cons processFlowEvent_ready [OF Cons.prems])
qed simp

lemma setUp_done:
  "od_flowManager (onDemandFlowManager s) \<noteq> None \<Longrightarrow> eventTypesToForward s \<noteq> None \<Longrightarrow>
   setUp_unless_background env s = Inr s"
  by (auto simp: setUp_unless_background_def setUpFlowManagerIfNeeded_def initialize_keeps)

text \<open>Once the calling library exists, a batch of live events is treated differently before and after it is ready:
  before, every event of a type the library wants is kept; after, the events are forwarded only up to the first one of
  another type, and the rest of the batch is dropped.\<close>

lemma batch_is_cut_at_foreign_event:
  assumes "od_flowManager (onDemandFlowManager s) \<noteq> None" and "eventTypesToForward s = Some ts"
    and "flow_processEvents env es True s = Inr s'"
  shows "if isReady (fe_manager env)
         then avs s' = avs s @ map (event_msg env) (takeWhile (\<lambda>e. ce_type e \<in> set ts) es)
         else avs s' = avs s \<and>
              set (eventsNeedingToBeForwarded s') =
                set (eventsNeedingToBeForwarded s) \<union> {e \<in> set es. ce_type e \<in> set ts}"
proof -
  have "forwarded s = (\<lambda>e. ce_type e \<in> set ts)"
    by (simp add: forwarded_def assms(2) fun_eq_iff)
  then show ?thesis
    using assms process_loop_ready [of env s es]
    by (auto simp: flow_processEvents_def setUp_done isFlowManagerReady_def set_oset_union)
qed

lemma batch_is_cut_at_foreign_event_example:
  "\<exists>s'. flow_processEvents (sample_flow_env True)
      [\<lparr>ce_type = 5, ce_payload = JNull\<rparr>, \<lparr>ce_type = 6, ce_payload = JNull\<rparr>, \<lparr>ce_type = 5, ce_payload = JBool True\<rparr>] True
      sample_flow = Inr s' \<and> length (avs s') = Suc 0"
proof -
  let ?es = "[\<lparr>ce_type = 5, ce_payload = JNull\<rparr>, \<lparr>ce_type = 6, ce_payload = JNull\<rparr>, \<lparr>ce_type = 5, ce_payload = JBool True\<rparr>]"
  obtain s' where s': "flow_processEvents (sample_flow_env True) ?es True sample_flow = Inr s'"
    by (simp add: flow_processEvents_def setUp_done sample_flow_def)
  show ?thesis
    using batch_is_cut_at_foreign_event [OF _ _ s'] s' by (auto simp: sample_flow_defs)
qed

section \<open>Delivering what was buffered\<close>

text \<open>What updating the flows of a conversation leaves alone while the manager is ready.\<close>

definition same_buffers :: "ZMFlowSync \<Rightarrow> ZMFlowSync \<Rightarrow> bool" where
  "same_buffers s s' \<longleftrightarrow>
     onDemandFlowManager s' = onDemandFlowManager s \<and> usersNeedingToBeAdded s' = usersNeedingToBeAdded s \<and>
     eventsNeedingToBeForwarded s' = eventsNeedingToBeForwarded s"

lemma setUp_ready:
  assumes "isFlowManagerReady env s"
  shows "\<exists>s'. setUp_unless_background env s = Inr s' \<and> same_buffers s s' \<and> isFlowManagerReady env s'"
proof -
  obtain m where "od_flowManager (onDemandFlowManager s) = Some m"
    using assms by (auto simp: isFlowManagerReady_def)
  then show ?thesis
    using assms
    by (auto simp: setUp_unless_background_def setUpFlowManagerIfNeeded_def initialize_keeps Let_def same_buffers_def
        createEventTypesToForward_def isFlowManagerReady_def)
qed

lemma same_buffers_trans: "same_buffers s t \<Longrightarrow> same_buffers t u \<Longrightarrow> same_buffers s u"
  by (simp add: same_buffers_def)

lemma acquire_ready:
  assumes "isFlowManagerReady env s"
  shows "\<exists>s'. acquireFlowsForConversation env ob s = Inr s' \<and> same_buffers s s' \<and> isFlowManagerReady env s'"
proof -
  obtain s1 where "setUp_unless_background env s = Inr s1" "same_buffers s s1" "isFlowManagerReady env s1"
    using setUp_ready [OF assms] by blast
  then show ?thesis
    by (auto simp: acquireFlowsForConversation_def Let_def same_buffers_def isFlowManagerReady_def split: option.splits)
qed

lemma release_ready:
  assumes "isFlowManagerReady env s"
  shows "\<exists>s'. releaseFlowsForConversation env ob s = Inr s' \<and> same_buffers s s' \<and> isFlowManagerReady env s'"
proof -
  obtain s1 where "setUp_unless_background env s = Inr s1" "same_buffers s s1" "isFlowManagerReady env s1"
    using setUp_ready [OF assms] by blast
  then show ?thesis
    by (auto simp: releaseFlowsForConversation_def Let_def same_buffers_def isFlowManagerReady_def split: option.splits)
qed

lemma updateFlows_ready:
  assumes "isFlowManagerReady env s"
  shows "\<exists>s'. updateFlowsForConversation env ob s = Inr s' \<and> same_buffers s s' \<and> isFlowManagerReady env s'"
proof -
  obtain t where t: "same_buffers s t" "isFlowManagerReady env t"
    and "updateFlowsForConversation env ob s = acquireFlowsForConversation env ob t \<or>
         updateFlowsForConversation env ob s = releaseFlowsForConversation env ob t"
    by (rule that [of "if isFlowActive (sync_conv s ob) = callDeviceIsActive (sync_conv s ob) then s
        else appendLogForConversationID (conv_remoteIdentifier (sync_conv s ob))
               (if callDeviceIsActive (sync_conv s ob) then ''Acquiring Flows'' else ''Releasing Flows'') s"])
      (simp_all add: assms updateFlowsForConversation_def appendLogForConversationID_def Let_def same_buffers_def)
  then show ?thesis
    using acquire_ready [OF t(2), of ob] release_ready [OF t(2), of ob] t(1)
    by (auto intro: same_buffers_trans)
qed

lemma foldE_updateFlows_ready:
  "isFlowManagerReady env s \<Longrightarrow>
   \<exists>s'. foldE (updateFlowsForConversation env) obs s = Inr s' \<and> same_buffers s s' \<and> isFlowManagerReady env s'"
proof (induction obs arbitrary: s)
  case (Cons ob obs)
  then show ?case
    using updateFlows_ready [OF Cons.prems, of ob] by (fastforce intro: same_buffers_trans)
qed (simp add: same_buffers_def)

lemma addJoined_ready:
  assumes "isFlowManagerReady env s" and "map_of (usersNeedingToBeAdded s) i = Some us"
  obtains s' where "addJoinedCallParticipant env u (Some i) s = Inr s'"
    and "map_of (usersNeedingToBeAdded s') =
           (map_of (usersNeedingToBeAdded s))(i := if oset_remove u us = [] then None else Some (oset_remove u us))"
    and "isFlowManagerReady env s'" and "conversationsNeedingUpdate s' = conversationsNeedingUpdate s"
  using assms by (auto simp: addJoinedCallParticipant_def Let_def isFlowManagerReady_def)

text \<open>The users of one conversation: one user is added, two or more raise.\<close>

lemma add_buffered_one:
  assumes "isFlowManagerReady env s" and "map_of (usersNeedingToBeAdded s) i = Some [u]"
  obtains s' where "add_buffered_users env i [u] s = Inr s'" and "isFlowManagerReady env s'"
    and "map_of (usersNeedingToBeAdded s') = (map_of (usersNeedingToBeAdded s))(i := None)"
    and "conversationsNeedingUpdate s' = conversationsNeedingUpdate s"
  using addJoined_ready [OF assms, of u] by (auto simp: oset_remove_def)

lemma add_buffered_more:
  assumes "isFlowManagerReady env s" and "map_of (usersNeedingToBeAdded s) i = Some (u # v # us)"
  shows "add_buffered_users env i (u # v # us) s = Inl NSGenericException"
proof -
  have "length (oset_remove u (u # v # us)) < length (u # v # us)"
    by (simp add: oset_remove_def le_imp_less_Suc le_SucI)
  then have less: "oset_remove u (u # v # us) \<noteq> u # v # us"
    by auto
  obtain s' where "addJoinedCallParticipant env u (Some i) s = Inr s'"
    and "map_of (usersNeedingToBeAdded s') =
           (map_of (usersNeedingToBeAdded s))
             (i := if oset_remove u (u # v # us) = [] then None else Some (oset_remove u (u # v # us)))"
    by (rule addJoined_ready [OF assms])
  then show ?thesis
    using less assms(2) by simp
qed

abbreviation crowded :: "(NSString \<times> ZMManagedObject list) list \<Rightarrow> bool" where
  "crowded l \<equiv> list_ex (\<lambda>p. 2 \<le> length (snd p)) l"

lemma foldE_add_buffered:
  assumes "isFlowManagerReady env s" and "distinct (map fst l)"
    and "\<And>i us. (i, us) \<in> set l \<Longrightarrow> us \<noteq> [] \<and> map_of (usersNeedingToBeAdded s) i = Some us"
  shows "(crowded l \<longrightarrow> foldE (\<lambda>(i, us). add_buffered_users env i us) l s = Inl NSGenericException) \<and>
         (\<not> crowded l \<longrightarrow> (\<exists>s'. foldE (\<lambda>(i, us). add_buffered_users env i us) l s = Inr s' \<and>
            conversationsNeedingUpdate s' = conversationsNeedingUpdate s))"
  using assms
proof (induction l arbitrary: s)
  case (Cons p l)
  obtain i us where p: "p = (i, us)" by (cases p)
  have us: "us \<noteq> []" "map_of (usersNeedingToBeAdded s) i = Some us"
    using Cons.prems(3) [of i us] by (auto simp: p)
  show ?case
  proof (cases "2 \<le> length us")
    case True
    then obtain u v ws where "us = u # v # ws"
      by (cases us; cases "tl us") auto
    then show ?thesis
      using add_buffered_more [OF Cons.prems(1)] us(2) by (simp add: p)
  next
    case False
    then obtain u where u: "us = [u]"
      using us(1) by (cases us; cases "tl us") auto
    obtain s1 where s1: "add_buffered_users env i us s = Inr s1" "isFlowManagerReady env s1"
      "map_of (usersNeedingToBeAdded s1) = (map_of (usersNeedingToBeAdded s))(i := None)"
      "conversationsNeedingUpdate s1 = conversationsNeedingUpdate s"
      using add_buffered_one [OF Cons.prems(1), of i u] us(2) u by blast
    have "vs \<noteq> [] \<and> map_of (usersNeedingToBeAdded s1) j = Some vs" if "(j, vs) \<in> set l" for j vs
      using Cons.prems(2) Cons.prems(3) [of j vs] that by (force simp: p s1(3))
    then show ?thesis
      using Cons.IH [OF s1(2)] Cons.prems(2) False s1(1,4) by (simp add: p)
  qed
qed simp

lemma fold_events_keep:
  "conversationsNeedingUpdate (fold (processFlowEvent env) es s) = conversationsNeedingUpdate s"
  "usersNeedingToBeAdded (fold (processFlowEvent env) es s) = usersNeedingToBeAdded s"
  by (induction es arbitrary: s) (simp_all add: processFlowEvent_def)

text \<open>The sets of users are not empty; there is one for a conversation.\<close>

definition users_inv :: "ZMFlowSync \<Rightarrow> bool" where
  "users_inv s \<longleftrightarrow>
     distinct (map fst (usersNeedingToBeAdded s)) \<and> (\<forall>(i, us) \<in> set (usersNeedingToBeAdded s). us \<noteq> [])"

lemma addJoined_users_inv:
  "users_inv s \<Longrightarrow> addJoinedCallParticipant env u c s = Inr s' \<Longrightarrow> users_inv s'"
  by (auto simp: addJoinedCallParticipant_def users_inv_def Let_def oset_add_def dict_remove_def distinct_map_filter
      split: if_splits option.splits dest!: set_dict_put_subset [THEN subsetD])

text \<open>When the calling library is ready, delivering what was buffered empties the buffers, unless two or more users
  wait for the same conversation: then the set of users changes while it is enumerated, and the program ends with an
  exception.\<close>

lemma two_waiting_users_raise:
  assumes "isFlowManagerReady env s" and "users_inv s"
  shows "if \<exists>p \<in> set (usersNeedingToBeAdded s). 2 \<le> length (snd p)
         then processBufferedEventsIfNeeded env s = Inl NSGenericException
         else \<exists>s'. processBufferedEventsIfNeeded env s = Inr s' \<and> conversationsNeedingUpdate s' = [] \<and>
                usersNeedingToBeAdded s' = [] \<and> eventsNeedingToBeForwarded s' = []"
proof -
  obtain s1 where s1: "foldE (updateFlowsForConversation env) (conversationsNeedingUpdate s) s = Inr s1"
    "same_buffers s s1" "isFlowManagerReady env s1"
    using foldE_updateFlows_ready [OF assms(1)] by blast
  define s2 where "s2 = s1\<lparr>conversationsNeedingUpdate := []\<rparr>"
  have s2: "isFlowManagerReady env s2" "usersNeedingToBeAdded s2 = usersNeedingToBeAdded s" "conversationsNeedingUpdate s2 = []"
    using s1 by (simp_all add: s2_def isFlowManagerReady_def same_buffers_def)
  have users: "us \<noteq> [] \<and> map_of (usersNeedingToBeAdded s2) i = Some us" if "(i, us) \<in> set (usersNeedingToBeAdded s)" for i us
    using assms(2) that by (auto simp: users_inv_def s2)
  have "processBufferedEventsIfNeeded env s =
      bindE (foldE (\<lambda>(i, us). add_buffered_users env i us) (usersNeedingToBeAdded s) s2)
        (\<lambda>s. Inr ((fold (processFlowEvent env) (eventsNeedingToBeForwarded s) (s\<lparr>usersNeedingToBeAdded := []\<rparr>))
                    \<lparr>eventsNeedingToBeForwarded := []\<rparr>))"
    using s1(2) by (simp add: processBufferedEventsIfNeeded_def s1(1) Let_def s2_def same_buffers_def)
  moreover have "distinct (map fst (usersNeedingToBeAdded s))"
    using assms(2) by (simp add: users_inv_def)
  ultimately show ?thesis
    using foldE_add_buffered [OF s2(1) _ users, of "usersNeedingToBeAdded s"]
    by (auto simp: list_ex_iff s2(3) fold_events_keep)
qed

text \<open>Two participants who join before the library is ready.\<close>

lemma two_waiting_users_raise_example:
  "\<exists>s. foldE (\<lambda>u. addJoinedCallParticipant (sample_flow_env False) u (Some ''c'')) [20, 21] sample_flow = Inr s \<and>
       processBufferedEventsIfNeeded (sample_flow_env True) s = Inl NSGenericException"
proof -
  obtain s where s: "foldE (\<lambda>u. addJoinedCallParticipant (sample_flow_env False) u (Some ''c'')) [20, 21] sample_flow = Inr s"
    and users: "usersNeedingToBeAdded s = [(''c'', [20, 21])]" and od: "onDemandFlowManager s = onDemandFlowManager sample_flow"
    by (simp add: addJoinedCallParticipant_def isFlowManagerReady_def sample_flow_defs oset_add_def)
  have "isFlowManagerReady (sample_flow_env True) s"
    by (simp add: isFlowManagerReady_def od sample_flow_defs)
  from two_waiting_users_raise [OF this] show ?thesis
    using s by (simp add: users users_inv_def)
qed

end
