(* ===== verification/CallHandling.thy ===== *)
theory CallHandling
  imports FlowSync
begin

text \<open>
  Two helpers of the call state transcoder: \<^verbatim>\<open>ZMGSMCallHandler\<close>, which interrupts a call while the phone is
  used for a GSM call and rejoins it afterwards, and \<^verbatim>\<open>ZMCallStateLogger\<close>, which writes the state of a call
  into the log of the calling library.
\<close>

section \<open>ZMGSMCallHandler\<close>

text \<open>
  The conversation of the interrupted call is kept in the metadata of the store, so that it survives the
  end of the program. The states of a GSM call are those of \<^verbatim>\<open>CoreTelephony\<close>; whether a stored conversation
  still exists, the number of current calls and of participants of a channel are circumstances.
\<close>

datatype (plugins only: code size) CTCallState = CTCallStateDialing | CTCallStateIncoming | CTCallStateConnected | CTCallStateDisconnected

record ZMGSMCallHandler =
  gsm_metadata :: "ZMManagedObject option"
  activeCallUIConversation :: "ZMManagedObject option"
  canUpdateCallState :: bool
  gsm_channel :: "ZMManagedObject \<Rightarrow> ZMVoiceChannel"
  gsm_log :: "(ZMManagedObject \<times> bool) list"

record gsm_env =
  ge_channel :: channel_env
  ge_exists :: "ZMManagedObject \<Rightarrow> bool"
  ge_currentCalls :: nat
  ge_participants :: "ZMConversation \<Rightarrow> nat"
  isTemporaryID :: "ZMManagedObject \<Rightarrow> bool"

definition hasStoredInterruptedCallConversation :: "ZMGSMCallHandler \<Rightarrow> bool" where
  "hasStoredInterruptedCallConversation h \<longleftrightarrow> gsm_metadata h \<noteq> None"

definition storedConversation :: "gsm_env \<Rightarrow> ZMGSMCallHandler \<Rightarrow> ZMManagedObject option" where
  "storedConversation env h =
     (case gsm_metadata h of None \<Rightarrow> None | Some ob \<Rightarrow> if ge_exists env ob then Some ob else None)"

definition gsm_init :: "gsm_env \<Rightarrow> ZMManagedObject option \<Rightarrow> (ZMManagedObject \<Rightarrow> ZMVoiceChannel) \<Rightarrow> ZMGSMCallHandler" where
  "gsm_init env metadata channels =
     (let h = \<lparr>gsm_metadata = metadata, activeCallUIConversation = None, canUpdateCallState = False,
               gsm_channel = channels, gsm_log = []\<rparr>
      in h\<lparr>activeCallUIConversation := storedConversation env h\<rparr>)"

definition logIsInterrupted :: "bool \<Rightarrow> ZMGSMCallHandler \<Rightarrow> ZMGSMCallHandler" where
  "logIsInterrupted b h =
     (case activeCallUIConversation h of None \<Rightarrow> h | Some ob \<Rightarrow> h\<lparr>gsm_log := gsm_log h @ [(ob, b)]\<rparr>)"

definition interruptCall :: "gsm_env \<Rightarrow> ZMGSMCallHandler \<Rightarrow> ZMGSMCallHandler" where
  "interruptCall env h =
     (let h = (logIsInterrupted True h)\<lparr>gsm_metadata := activeCallUIConversation h\<rparr>
      in case activeCallUIConversation h of
           None \<Rightarrow> h
         | Some ob \<Rightarrow> h\<lparr>gsm_channel := (gsm_channel h)(ob := channel_join (ge_channel env) (gsm_channel h ob))\<rparr>)"

definition rejoinVoiceChannelAfterGSMInterruption :: "gsm_env \<Rightarrow> ZMGSMCallHandler \<Rightarrow> objc_failure + ZMGSMCallHandler" where
  "rejoinVoiceChannelAfterGSMInterruption env h =
     (let h = (logIsInterrupted False h)\<lparr>gsm_metadata := None\<rparr>
      in case activeCallUIConversation h of
           None \<Rightarrow> Inr h
         | Some ob \<Rightarrow>
             let ch = gsm_channel h ob
             in if ge_participants env (vc_conversation ch) > 0
                then Inr (h\<lparr>gsm_channel := (gsm_channel h)(ob := channel_join (ge_channel env) ch)\<rparr>)
                else if callDeviceIsActive (vc_conversation ch)
                then bindE (leaveWithReason (ge_channel env) ZMCallStateReasonToLeaveUser ch)
                       (\<lambda>ch. Inr (h\<lparr>gsm_channel := (gsm_channel h)(ob := ch)\<rparr>))
                else Inr h)"

definition gsm_didFinishSync :: "gsm_env \<Rightarrow> ZMGSMCallHandler \<Rightarrow> objc_failure + ZMGSMCallHandler" where
  "gsm_didFinishSync env h =
     (let h = h\<lparr>canUpdateCallState := True\<rparr>
      in if ge_currentCalls env = 0 \<and> hasStoredInterruptedCallConversation h
         then rejoinVoiceChannelAfterGSMInterruption env h else Inr h)"

definition callEventHandler :: "gsm_env \<Rightarrow> CTCallState \<Rightarrow> ZMGSMCallHandler \<Rightarrow> objc_failure + ZMGSMCallHandler" where
  "callEventHandler env st h =
     (if \<not> canUpdateCallState h then Inr h
      else if (st = CTCallStateDialing \<or> st = CTCallStateIncoming) \<and> activeCallUIConversation h \<noteq> None \<and>
              (\<not> hasStoredInterruptedCallConversation h \<or> storedConversation env h \<noteq> activeCallUIConversation h)
      then Inr (interruptCall env h)
      else if st = CTCallStateDisconnected \<and> hasStoredInterruptedCallConversation h
      then rejoinVoiceChannelAfterGSMInterruption env h
      else Inr h)"

definition setActiveCallSyncConversation :: "gsm_env \<Rightarrow> ZMManagedObject option \<Rightarrow> ZMGSMCallHandler \<Rightarrow> ZMGSMCallHandler" where
  "setActiveCallSyncConversation env c h =
     (case c of
        None \<Rightarrow> h\<lparr>activeCallUIConversation := None, gsm_metadata := None\<rparr>
      | Some ob \<Rightarrow>
          if isTemporaryID env ob then h\<lparr>activeCallUIConversation := None, gsm_metadata := None\<rparr>
          else h\<lparr>activeCallUIConversation := Some ob\<rparr>)"

definition isInterruptedCallConversation :: "gsm_env \<Rightarrow> ZMManagedObject \<Rightarrow> ZMGSMCallHandler \<Rightarrow> bool" where
  "isInterruptedCallConversation env ob h \<longleftrightarrow> storedConversation env h = Some ob"

text \<open>The interface, and what the notification centre and the call centre deliver.\<close>

datatype ZMGSMCallHandler_msg = SetActiveCallSyncConversation "ZMManagedObject option"

datatype gsm_msg = GSMInterface ZMGSMCallHandler_msg | DidFinishSync | CallEvent CTCallState

fun gsm_send :: "gsm_env \<times> gsm_msg \<Rightarrow> ZMGSMCallHandler \<Rightarrow> objc_failure + ZMGSMCallHandler" where
  "gsm_send (env, GSMInterface (SetActiveCallSyncConversation c)) h = Inr (setActiveCallSyncConversation env c h)"
| "gsm_send (env, DidFinishSync) h = gsm_didFinishSync env h"
| "gsm_send (env, CallEvent st) h = callEventHandler env st h"

text \<open>A stored interruption is always one of a call that is known to be active.\<close>

definition gsm_inv :: "ZMGSMCallHandler \<Rightarrow> bool" where
  "gsm_inv h \<longleftrightarrow> (gsm_metadata h \<noteq> None \<longrightarrow> activeCallUIConversation h \<noteq> None)"

lemma logIsInterrupted_simps [simp]:
  "gsm_metadata (logIsInterrupted b h) = gsm_metadata h"
  "activeCallUIConversation (logIsInterrupted b h) = activeCallUIConversation h"
  "canUpdateCallState (logIsInterrupted b h) = canUpdateCallState h"
  "gsm_channel (logIsInterrupted b h) = gsm_channel h"
  by (simp_all add: logIsInterrupted_def split: option.split)

lemma gsm_init_inv: "(\<forall>ob. metadata = Some ob \<longrightarrow> ge_exists env ob) \<Longrightarrow> gsm_inv (gsm_init env metadata channels)"
  by (auto simp: gsm_init_def gsm_inv_def storedConversation_def Let_def split: option.splits)

lemma rejoin_clears: "rejoinVoiceChannelAfterGSMInterruption env h = Inr h' \<Longrightarrow> gsm_metadata h' = None"
  by (auto simp: rejoinVoiceChannelAfterGSMInterruption_def Let_def split: option.splits if_splits)

lemma gsm_send_inv: "gsm_inv h \<Longrightarrow> gsm_send em h = Inr h' \<Longrightarrow> gsm_inv h'"
proof (induction em h rule: gsm_send.induct)
  case (1 env c h)
  then show ?case
    by (auto simp: setActiveCallSyncConversation_def gsm_inv_def split: option.splits if_splits)
next
  case (2 env h)
  then show ?case
    by (auto simp: gsm_didFinishSync_def gsm_inv_def Let_def dest: rejoin_clears split: if_splits)
next
  case (3 env st h)
  then show ?case
    by (auto simp: callEventHandler_def gsm_inv_def interruptCall_def Let_def dest: rejoin_clears
        split: if_splits option.splits)
qed

text \<open>A GSM call interrupts the active call and its end resumes it: ringing stores the conversation of the call, which
  then counts as interrupted, a second call while it is stored changes nothing, and hanging up clears the storage and
  joins the channel again if it still has participants.\<close>

lemma gsm_interruption_round_trip:
  assumes "canUpdateCallState h" and "activeCallUIConversation h = Some ob" and "gsm_metadata h = None"
    and "ge_exists env ob" and "gsm_send (env, CallEvent CTCallStateIncoming) h = Inr h1"
    and "ge_participants env (vc_conversation (gsm_channel h1 ob)) > 0"
  shows "isInterruptedCallConversation env ob h1 \<and>
    gsm_send (env, CallEvent CTCallStateDialing) h1 = Inr h1 \<and>
    (\<exists>h2. gsm_send (env, CallEvent CTCallStateDisconnected) h1 = Inr h2 \<and> gsm_metadata h2 = None \<and>
       activeCallUIConversation h2 = Some ob \<and>
       gsm_channel h2 ob = channel_join (ge_channel env) (channel_join (ge_channel env) (gsm_channel h ob)))"
proof -
  have h1: "h1 = interruptCall env h"
    using assms(1-3,5) by (simp add: callEventHandler_def hasStoredInterruptedCallConversation_def)
  then have "gsm_metadata h1 = Some ob" "activeCallUIConversation h1 = Some ob" "canUpdateCallState h1"
    "gsm_channel h1 ob = channel_join (ge_channel env) (gsm_channel h ob)"
    using assms(1,2) by (simp_all add: interruptCall_def Let_def)
  then show ?thesis
    using assms(4,6)
    by (simp add: callEventHandler_def hasStoredInterruptedCallConversation_def storedConversation_def
        isInterruptedCallConversation_def rejoinVoiceChannelAfterGSMInterruption_def Let_def)
qed

lemma gsm_interruption_round_trip_example:
  "\<exists>h1 h2. gsm_send (\<lparr>ge_channel = sample_channel_env, ge_exists = (\<lambda>_. True), ge_currentCalls = 0,
       ge_participants = (\<lambda>c. length (callParticipants c)), isTemporaryID = (\<lambda>_. False)\<rparr>, CallEvent CTCallStateIncoming)
     \<lparr>gsm_metadata = None, activeCallUIConversation = Some 30, canUpdateCallState = True,
      gsm_channel = (\<lambda>_. sample_channel), gsm_log = []\<rparr> = Inr h1 \<and> gsm_metadata h1 = Some 30 \<and>
     gsm_send (\<lparr>ge_channel = sample_channel_env, ge_exists = (\<lambda>_. True), ge_currentCalls = 0,
       ge_participants = (\<lambda>c. length (callParticipants c)), isTemporaryID = (\<lambda>_. False)\<rparr>, CallEvent CTCallStateDisconnected)
     h1 = Inr h2 \<and> gsm_metadata h2 = None"
proof -
  let ?env = "\<lparr>ge_channel = sample_channel_env, ge_exists = (\<lambda>_. True), ge_currentCalls = 0,
       ge_participants = (\<lambda>c. length (callParticipants c)), isTemporaryID = (\<lambda>_. False)\<rparr>"
  let ?h = "\<lparr>gsm_metadata = None, activeCallUIConversation = Some 30, canUpdateCallState = True,
      gsm_channel = (\<lambda>_. sample_channel), gsm_log = []\<rparr>"
  obtain h1 where h1: "gsm_send (?env, CallEvent CTCallStateIncoming) ?h = Inr h1"
    and meta: "gsm_metadata h1 = Some 30"
    and ch: "callParticipants (vc_conversation (gsm_channel h1 30)) = [10, 11]"
    by (simp add: callEventHandler_def hasStoredInterruptedCallConversation_def interruptCall_def Let_def
        channel_join_def sample_channel_defs)
  show ?thesis
    using gsm_interruption_round_trip [OF _ _ _ _ h1, of 30] h1 meta ch by auto
qed

section \<open>ZMCallStateLogger\<close>

datatype ZMCallEventSource = ZMCallEventSourcePushChannel | ZMCallEventSourceDownstream | ZMCallEventSourceUpstream

text \<open>
  A logger is the flag \<^verbatim>\<open>pushChannelIsOpen\<close>; what it does is told to the flow sync, or recorded in
  \<^verbatim>\<open>ZMVoiceChannel\<close> or a trace. A conversation that is \<^verbatim>\<open>nil\<close> is \<open>None\<close>.
\<close>

datatype (plugins only: code size) log_effect =
    LogToFlowSync convId NSString
  | SetSession NSString convId
  | SetLastSession NSString
  | TraceCallEventSelf convId ZMCallEventSource bool bool

record logged_conversation =
  lc_conversation :: ZMConversation
  hasLocalModificationsForCallDeviceIsActive :: bool
  lc_state :: ZMVoiceChannelState
  lc_selfUser :: ZMManagedObject

definition boolean :: "bool \<Rightarrow> NSString" where
  "boolean b = (if b then ''1'' else ''0'')"

definition description :: "NSString option \<Rightarrow> NSString" where
  "description s = (case s of None \<Rightarrow> ''(null)'' | Some t \<Rightarrow> t)"

primrec descriptionForVoiceChannelState :: "ZMVoiceChannelState \<Rightarrow> NSString" where
  "descriptionForVoiceChannelState ZMVoiceChannelStateDeviceTransferReady = ''TransferReady''"
| "descriptionForVoiceChannelState ZMVoiceChannelStateInvalid = ''Invalid''"
| "descriptionForVoiceChannelState ZMVoiceChannelStateNoActiveUsers = ''NoActiveUsers''"
| "descriptionForVoiceChannelState ZMVoiceChannelStateIncomingCall = ''IncomingCall''"
| "descriptionForVoiceChannelState ZMVoiceChannelStateIncomingCallInactive = ''IncomingCallInactive''"
| "descriptionForVoiceChannelState ZMVoiceChannelStateSelfConnectedToActiveChannel = ''ConnectedToActiveChannel''"
| "descriptionForVoiceChannelState ZMVoiceChannelStateOutgoingCall = ''OutgoingCall''"
| "descriptionForVoiceChannelState ZMVoiceChannelStateOutgoingCallInactive = ''OutgoingCallInactive''"
| "descriptionForVoiceChannelState ZMVoiceChannelStateSelfIsJoiningActiveChannel = ''SelfIsJoiningActiveChannel''"

text \<open>A line of a message: \<^verbatim>\<open>-->\<close>, a label and a value, after the line before it.\<close>

definition log_line :: "NSString \<Rightarrow> NSString \<Rightarrow> NSString" where
  "log_line label v = CHR 0x0A # ''-->  '' @ label @ '': '' @ v"

definition messageForConversation :: "bool \<Rightarrow> logged_conversation \<Rightarrow> NSString option \<Rightarrow> NSString" where
  "messageForConversation pushChannelIsOpen l message =
     (let c = lc_conversation l;
          selfJoined = lc_selfUser l \<in> set (callParticipants c);
          otherJoined = (\<exists>u \<in> set (callParticipants c). u \<noteq> lc_selfUser l)
      in (case message of None \<Rightarrow> ''Logging conversation'' | Some m \<Rightarrow> m) @ '' ''
         @ log_line ''conversation remoteID'' (description (conv_remoteIdentifier c)) @ '' ''
         @ log_line ''current voiceChannel state'' (descriptionForVoiceChannelState (lc_state l)) @ '' ''
         @ log_line ''current callDeviceIsActive'' (boolean (callDeviceIsActive c)) @ '' ''
         @ log_line ''current hasLocalModificationsForCallDeviceIsActive''
             (boolean (hasLocalModificationsForCallDeviceIsActive l)) @ '' ''
         @ log_line ''current is flow active'' (boolean (activeFlowParticipants c \<noteq> [])) @ '' ''
         @ log_line ''current self isJoined'' (boolean selfJoined) @ '' ''
         @ log_line ''current other isJoined'' (boolean otherJoined) @ '' ''
         @ log_line ''current isIgnoringCall'' (boolean (isIgnoringCall c)) @ '' ''
         @ log_line ''conversation.isOutgoingCall'' (boolean (isOutgoingCall c))
         @ log_line ''websocket is open'' (boolean pushChannelIsOpen))"

definition logCurrentStateForConversation ::
  "bool \<Rightarrow> logged_conversation option \<Rightarrow> NSString option \<Rightarrow> log_effect list" where
  "logCurrentStateForConversation open' c message =
     (case c of
        None \<Rightarrow> []
      | Some l \<Rightarrow> [LogToFlowSync (conv_remoteIdentifier (lc_conversation l)) (messageForConversation open' l message)])"

definition logSessionIDFromPayload ::
  "(NSString \<times> json) list option \<Rightarrow> logged_conversation option \<Rightarrow> log_effect list" where
  "logSessionIDFromPayload payload c =
     (case (optionalStringForKey ''session'' payload, c) of
        (Some sid, Some l) \<Rightarrow> [SetLastSession sid, SetSession sid (conv_remoteIdentifier (lc_conversation l))]
      | _ \<Rightarrow> [])"

definition logSelfInfoForConversation :: "logged_conversation option \<Rightarrow> bool \<Rightarrow> NSString option \<Rightarrow> log_effect list" where
  "logSelfInfoForConversation c oldCallDeviceIsActive state =
     (case c of
        None \<Rightarrow> []
      | Some l \<Rightarrow>
          let i = conv_remoteIdentifier (lc_conversation l);
              active = callDeviceIsActive (lc_conversation l)
          in [LogToFlowSync i (''Received self call state '' @ [CHR 0x27] @ description state @ [CHR 0x27] @ '' ''
                @ log_line ''conversation remoteID'' (description i) @ '' ''
                @ log_line ''current callDeviceIsActive'' (boolean oldCallDeviceIsActive) @ '' '' @ [CHR 0x0A])]
             @ (if hasLocalModificationsForCallDeviceIsActive l
                then [LogToFlowSync i (''Rejecting state change - conversation has local modifications for call device is active (local: ''
                        @ boolean active @ '')'')] else [])
             @ (if \<not> active \<and> oldCallDeviceIsActive
                then [LogToFlowSync i ''Setting callDeviceIsActive to NO''] else []))"

definition participant_change :: "bool \<Rightarrow> bool \<Rightarrow> NSString" where
  "participant_change oldIsJoined participantIsActive =
     (if oldIsJoined \<and> \<not> participantIsActive then ''left the voiceChannel''
      else if \<not> oldIsJoined \<and> participantIsActive then ''joined the voiceChannel''
      else if oldIsJoined then ''stayed in voiceChannel'' else ''did not join voiceChannel'')"

definition logParticipantInfoForParticipant ::
  "(ZMManagedObject \<times> NSString option) option \<Rightarrow> logged_conversation \<Rightarrow> NSString option \<Rightarrow> bool \<Rightarrow> log_effect list" where
  "logParticipantInfoForParticipant participant l state oldIsJoined =
     (case participant of
        None \<Rightarrow> []
      | Some (p, pid) \<Rightarrow>
          let i = conv_remoteIdentifier (lc_conversation l)
          in [LogToFlowSync i (''Received participant state '' @ [CHR 0x27] @ description state @ [CHR 0x27] @ '' ''
                @ log_line ''conversation remoteID'' (description i) @ '' ''
                @ log_line ''previous isJoined'' (boolean oldIsJoined) @ '' '' @ [CHR 0x0A] @ ''-->  Participant with remoteID ''
                @ description pid @ '' '' @ participant_change oldIsJoined (p \<in> set (callParticipants (lc_conversation l)))
                @ '' '' @ [CHR 0x0A])])"

definition traceSelfInfoForConversation ::
  "logged_conversation \<Rightarrow> NSString \<Rightarrow> ZMCallEventSource \<Rightarrow> log_effect list" where
  "traceSelfInfoForConversation l state src =
     (if state = ''joined'' \<or> state = ''idle''
      then [TraceCallEventSelf (conv_remoteIdentifier (lc_conversation l)) src (state = ''joined'')
              (callDeviceIsActive (lc_conversation l))]
      else [])"

text \<open>The interface of the logger; \<open>status\<close> is the description of the response status of the push channel.\<close>

datatype (plugins only: code size) ZMCallStateLogger_msg =
    SetPushChannelIsOpen bool
  | LogCurrentState "logged_conversation option" "NSString option"
  | LogSessionID "(NSString \<times> json) list option" "logged_conversation option"
  | LogCallInterruption "logged_conversation option" bool
  | LogPushChannelChanges bool "NSString option" "logged_conversation option"
  | LogSelfInfo "logged_conversation option" bool "NSString option"
  | LogParticipantInfo "(ZMManagedObject \<times> NSString option) option" logged_conversation "NSString option" bool
  | TraceSelfInfo logged_conversation NSString ZMCallEventSource
  | LogFinalState "logged_conversation option" ZMCallEventSource

primrec logger_send :: "ZMCallStateLogger_msg \<Rightarrow> bool \<Rightarrow> log_effect list \<times> bool" where
  "logger_send (SetPushChannelIsOpen b) op = ([], b)"
| "logger_send (LogCurrentState c m) op = (logCurrentStateForConversation op c m, op)"
| "logger_send (LogSessionID p c) op = (logSessionIDFromPayload p c, op)"
| "logger_send (LogCallInterruption c b) op =
     (logCurrentStateForConversation op c
        (Some (''Wire call '' @ (if b then ''interrupted by'' else ''resumed after'') @ '' GSM call'')), op)"
| "logger_send (LogPushChannelChanges b status c) op =
     (logCurrentStateForConversation op c
        (Some (''PushChannel '' @ (if b then ''did open'' else ''did close'') @ '' with status code '' @ description status)), op)"
| "logger_send (LogSelfInfo c old st) op = (logSelfInfoForConversation c old st, op)"
| "logger_send (LogParticipantInfo p l st old) op = (logParticipantInfoForParticipant p l st old, op)"
| "logger_send (TraceSelfInfo l st src) op = (traceSelfInfoForConversation l st src, op)"
| "logger_send (LogFinalState c src) op =
     ((case src of
         ZMCallEventSourceUpstream \<Rightarrow> logCurrentStateForConversation op c (Some ''Done pushing call state to BE'')
       | ZMCallEventSourceDownstream \<Rightarrow> []
       | ZMCallEventSourcePushChannel \<Rightarrow>
           logCurrentStateForConversation op c (Some ''Finished updating call state from push event'')), op)"

text \<open>Every message about a conversation reaches the log of that conversation, and no other one.\<close>

lemma logger_logs_to_its_conversation:
  "LogToFlowSync i t \<in> set (fst (logger_send (LogCurrentState (Some l) m) op)) \<Longrightarrow>
   i = conv_remoteIdentifier (lc_conversation l)"
  "LogToFlowSync i t \<in> set (fst (logger_send (LogSelfInfo (Some l) old st) op)) \<Longrightarrow>
   i = conv_remoteIdentifier (lc_conversation l)"
  "LogToFlowSync i t \<in> set (fst (logger_send (LogParticipantInfo p l st old) op)) \<Longrightarrow>
   i = conv_remoteIdentifier (lc_conversation l)"
  by (auto simp: logCurrentStateForConversation_def logSelfInfoForConversation_def logParticipantInfoForParticipant_def
      Let_def split: if_splits option.splits)

end
