(* ===== verification/SyncStrategy.thy ===== *)
theory SyncStrategy
  imports SyncMachine Downstream
begin

text \<open>
  \<^verbatim>\<open>ZMSyncStrategy\<close>: the object that owns all transcoders and request strategies, the state machine and the
  buffer of update events, and that is the strategy directory of the state machine. A strategy is the
  record of the methods of the protocol \<^verbatim>\<open>ZMObjectStrategy\<close> and of the optional protocols it conforms to,
  acting on a state that all strategies share.
\<close>

section \<open>Strategies\<close>

type_synonym 's ZMRequestGenerator = "'s \<Rightarrow> ZMTransportRequest option \<times> 's"
type_synonym 's ZMUpdateEventDecryptor = "ZMUpdateEvent list \<Rightarrow> 's \<Rightarrow> ZMUpdateEvent list option \<times> 's"

text \<open>\<^verbatim>\<open>ZMFetchRequestBatchResult\<close>, of the data model, is a number.\<close>

type_synonym prefetch_result = nat

record 's ZMObjectStrategy =
  os_isSlowSyncDone :: "'s \<Rightarrow> bool"
  os_setNeedsSlowSync :: "'s \<Rightarrow> 's"
  os_processEvents :: "ZMUpdateEvent list \<Rightarrow> bool \<Rightarrow> prefetch_result \<Rightarrow> 's \<Rightarrow> 's"
  messageNoncesToPrefetch :: "(ZMUpdateEvent list \<Rightarrow> NSUUID list) option"
  conversationRemoteIdentifiersToPrefetch :: "(ZMUpdateEvent list \<Rightarrow> NSUUID list) option"
  requestGenerators :: "'s ZMRequestGenerator list"
  contextChangeTrackers :: "('s, 's) ZMContextChangeTracker list"

text \<open>
  A member of the arrays of transcoders and request strategies, which are asked whether they conform to
  the protocols; the request strategies are generators themselves.
\<close>

record 's strategy_object =
  so_strategy :: "'s ZMObjectStrategy option"
  so_decryptor :: "'s ZMUpdateEventDecryptor option"
  so_trackers :: "('s, 's) ZMContextChangeTracker list option"
  so_nextRequest :: "'s ZMRequestGenerator"
  so_tearDown :: "('s \<Rightarrow> 's) option"

text \<open>The base class of the transcoders: a flag that is asserted when the object is released.\<close>

record ZMObjectSyncStrategy =
  oss_tornDown :: bool

definition oss_init :: ZMObjectSyncStrategy where
  "oss_init = \<lparr>oss_tornDown = False\<rparr>"

definition oss_tearDown :: "ZMObjectSyncStrategy \<Rightarrow> ZMObjectSyncStrategy" where
  "oss_tearDown s = s\<lparr>oss_tornDown := True\<rparr>"

definition oss_dealloc :: "ZMObjectSyncStrategy \<Rightarrow> objc_failure + unit" where
  "oss_dealloc s = (if oss_tornDown s then Inr () else Inl AssertionFailure)"

section \<open>The sync strategy\<close>

datatype (plugins only: code size) strategy_effect =
    SaveIfTooManyChanges
  | EnqueueDelayedSave
  | NotifyNewRequests
  | SetBadgeCount nat
  | MergedIntoSyncContext
  | MergedIntoUIContext
  | NotifiedCallState bool
  | SavedCryptoSessions
  | RemovedObservers

text \<open>What the strategies share, the buffered events, and the effects so far: the state of the directory.\<close>

record 's strategies =
  st_world :: 's
  eventsBuffer :: ZMUpdateEventsBuffer
  st_effects :: "strategy_effect list"

record 's ZMSyncStrategy =
  stateMachine :: "'s strategies machine"
  didFetchObjects :: bool
  ss_tornDown :: bool
  contextMergingDisabled :: bool

text \<open>
  The objects the initialiser creates, and what the data model answers: the kind of an event, the result of a prefetch,
  the number of unread conversations and whether a merge changed the call state.
\<close>

record 's strategy_parts =
  transcoder_object :: "transcoder \<Rightarrow> 's strategy_object"
  requestStrategies :: "'s strategy_object list"
  conversationStatusSync :: "('s, 's) ZMContextChangeTracker"
  remaining_tearDowns :: "('s \<Rightarrow> 's) list"
  fetchObjectsForChangeTrackers :: "'s \<Rightarrow> 's"
  sp_directory :: "'s ZMObjectStrategyDirectory"
  isFlowEvent :: "ZMUpdateEvent \<Rightarrow> bool"
  isCallStateEvent :: "ZMUpdateEvent \<Rightarrow> bool"
  event_conversationUUID :: "ZMUpdateEvent \<Rightarrow> NSUUID option"
  executeFetchRequestBatch :: "NSUUID list \<Rightarrow> NSUUID list \<Rightarrow> 's \<Rightarrow> prefetch_result"
  unreadConversationCount :: "'s \<Rightarrow> nat"
  mergeCallStateChanges :: "'s \<Rightarrow> ZMManagedObject list"
  flow_accessTokenDidChange :: "NSString \<Rightarrow> NSString \<Rightarrow> 's \<Rightarrow> 's"

text \<open>The order of the array of transcoders.\<close>

definition ss_allTranscoders :: "transcoder list" where
  "ss_allTranscoders =
     [connectionTranscoder, userTranscoder, selfTranscoder, conversationTranscoder, systemMessageTranscoder,
      textMessageTranscoder, clientMessageTranscoder, knockTranscoder, assetTranscoder, userImageTranscoder,
      missingUpdateEventsTranscoder, lastUpdateEventIDTranscoder, registrationTranscoder, flowTranscoder,
      callStateTranscoder, addressBookTranscoder, pushTokenTranscoder, searchUserImageTranscoder, typingTranscoder,
      removedSuggestedPeopleTranscoder, phoneNumberVerificationTranscoder, loginCodeRequestTranscoder,
      userProfileUpdateTranscoder, loginTranscoder]"

definition transcoder_objects :: "'s strategy_parts \<Rightarrow> 's strategy_object list" where
  "transcoder_objects P = map (transcoder_object P) ss_allTranscoders"

definition allObjectStrategies :: "'s strategy_parts \<Rightarrow> 's strategy_object list" where
  "allObjectStrategies P = transcoder_objects P @ requestStrategies P"

definition st_emit :: "strategy_effect \<Rightarrow> 's strategies \<Rightarrow> 's strategies" where
  "st_emit e st = st\<lparr>st_effects := st_effects st @ [e]\<rparr>"

definition on_world :: "('s \<Rightarrow> 's) \<Rightarrow> 's strategies \<Rightarrow> 's strategies" where
  "on_world f st = st\<lparr>st_world := f (st_world st)\<rparr>"

lemma st_emit_simps [simp]:
  "st_world (st_emit e st) = st_world st" "eventsBuffer (st_emit e st) = eventsBuffer st"
  "st_effects (st_emit e st) = st_effects st @ [e]"
  by (simp_all add: st_emit_def)

lemma on_world_simps [simp]:
  "st_world (on_world f st) = f (st_world st)" "eventsBuffer (on_world f st) = eventsBuffer st"
  "st_effects (on_world f st) = st_effects st"
  by (simp_all add: on_world_def)

section \<open>Consuming events\<close>

definition decryptUpdateEvents ::
  "'s strategy_parts \<Rightarrow> ZMUpdateEvent list \<Rightarrow> 's \<Rightarrow> ZMUpdateEvent list \<times> 's" where
  "decryptUpdateEvents P events w =
     fold (\<lambda>ob (es, w).
        case so_decryptor ob of
          None \<Rightarrow> (es, w)
        | Some decrypt \<Rightarrow> (case decrypt es w of (None, w') \<Rightarrow> (es, w') | (Some es', w') \<Rightarrow> (es', w')))
       (allObjectStrategies P) (events, w)"

text \<open>The nonces and the identifiers to prefetch are the unions of what the strategies name.\<close>

definition fetchRequestBatchForEvents ::
  "'s strategy_parts \<Rightarrow> ZMUpdateEvent list \<Rightarrow> NSUUID list \<times> NSUUID list" where
  "fetchRequestBatchForEvents P events =
     (let gather = (\<lambda>sel. foldl oset_union []
            (List.map_filter (\<lambda>ob. map_option (\<lambda>f. f events) (Option.bind (so_strategy ob) sel)) (allObjectStrategies P)))
      in (gather messageNoncesToPrefetch, gather conversationRemoteIdentifiersToPrefetch))"

definition deliver ::
  "'s strategy_object list \<Rightarrow> ZMUpdateEvent list \<Rightarrow> bool \<Rightarrow> prefetch_result \<Rightarrow> 's \<Rightarrow> 's" where
  "deliver obs events live prefetched =
     fold (\<lambda>ob w. case so_strategy ob of None \<Rightarrow> w | Some s \<Rightarrow> os_processEvents s events live prefetched w) obs"

definition consumeUpdateEvents ::
  "'s strategy_parts \<Rightarrow> ZMUpdateEvent list \<Rightarrow> 's strategies \<Rightarrow> 's strategies" where
  "consumeUpdateEvents P events st =
     (let (es, w) = decryptUpdateEvents P events (st_world st);
          (nonces, ids) = fetchRequestBatchForEvents P es;
          w' = deliver (allObjectStrategies P) es True (executeFetchRequestBatch P nonces ids w) w
      in st_emit SaveIfTooManyChanges (st\<lparr>st_world := w'\<rparr>))"

definition processDownloadedEvents ::
  "'s strategy_parts \<Rightarrow> ZMUpdateEvent list \<Rightarrow> 's strategies \<Rightarrow> 's strategies" where
  "processDownloadedEvents P events st =
     (let (es, w) = decryptUpdateEvents P events (st_world st);
          (nonces, ids) = fetchRequestBatchForEvents P es
      in st\<lparr>st_world := deliver (transcoder_objects P) es False (executeFetchRequestBatch P nonces ids w) w\<rparr>)"

definition processUpdateEvents ::
  "'s strategy_parts \<Rightarrow> ZMUpdateEventsPolicy \<Rightarrow> ZMUpdateEvent list \<Rightarrow> bool \<Rightarrow> 's strategies \<Rightarrow> 's strategies" where
  "processUpdateEvents P policy events ignoreBuffer st =
     (if ignoreBuffer then st_emit EnqueueDelayedSave (consumeUpdateEvents P events st)
      else
        (let flowEvents = filter (isFlowEvent P) events;
             callstateEvents = filter (isCallStateEvent P) events;
             notFlowEvents = filter (\<lambda>e. \<not> isFlowEvent P e) events;
             st = (if flowEvents \<noteq> [] then consumeUpdateEvents P flowEvents st else st);
             st = (case policy of
                     ZMUpdateEventPolicyIgnore \<Rightarrow>
                       if callstateEvents \<noteq> [] then consumeUpdateEvents P callstateEvents st else st
                   | ZMUpdateEventPolicyBuffer \<Rightarrow> st\<lparr>eventsBuffer := fold addUpdateEvent notFlowEvents (eventsBuffer st)\<rparr>
                   | ZMUpdateEventPolicyProcess \<Rightarrow>
                       if notFlowEvents \<noteq> [] then consumeUpdateEvents P notFlowEvents st else st)
         in st_emit EnqueueDelayedSave st))"

definition ss_processAllEventsInBuffer :: "'s strategy_parts \<Rightarrow> 's strategies \<Rightarrow> 's strategies" where
  "ss_processAllEventsInBuffer P st =
     (let (b, st') = buffer_processAllEventsInBuffer (\<lambda>es. consumeUpdateEvents P es) (eventsBuffer st, st)
      in st_emit EnqueueDelayedSave (st'\<lparr>eventsBuffer := b\<rparr>))"

definition conversationIdsThatHaveBufferedUpdatesForCallState :: "'s strategy_parts \<Rightarrow> 's strategies \<Rightarrow> NSUUID list" where
  "conversationIdsThatHaveBufferedUpdatesForCallState P st =
     List.map_filter (\<lambda>e. if isCallStateEvent P e then event_conversationUUID P e else None) (eventsBuffer st)"

section \<open>The strategy as the directory of the state machine\<close>

definition strategy_directory :: "'s strategy_parts \<Rightarrow> 's strategies ZMObjectStrategyDirectory" where
  "strategy_directory P =
     (let D = sp_directory P
      in \<lparr>generators_nextRequest = (\<lambda>t st. case generators_nextRequest D t (st_world st) of (r, w) \<Rightarrow> (r, st\<lparr>st_world := w\<rparr>)),
          setNeedsSlowSync = (\<lambda>t. on_world (setNeedsSlowSync D t)),
          isSlowSyncDone = (\<lambda>t st. isSlowSyncDone D t (st_world st)),
          allTranscoders = (\<lambda>st. ss_allTranscoders),
          processAllEventsInBuffer = ss_processAllEventsInBuffer P,
          dir_lastUpdateEventID = (\<lambda>st. dir_lastUpdateEventID D (st_world st)),
          hasLastUpdateEventID = (\<lambda>st. hasLastUpdateEventID D (st_world st)),
          startDownloadingMissingNotifications = on_world (startDownloadingMissingNotifications D),
          isDownloadingMissingNotifications = (\<lambda>st. isDownloadingMissingNotifications D (st_world st)),
          startRequestingLastUpdateEventID = on_world (startRequestingLastUpdateEventID D),
          isDownloadingLastUpdateEventID = (\<lambda>st. isDownloadingLastUpdateEventID D (st_world st)),
          persistLastUpdateEventID = on_world (persistLastUpdateEventID D),
          hasOutstandingItems = (\<lambda>st. hasOutstandingItems D (st_world st)),
          hasPendingMessages = (\<lambda>st. hasPendingMessages D (st_world st)),
          isSelfUserComplete = (\<lambda>st. isSelfUserComplete D (st_world st)),
          resetRegistrationState = on_world (resetRegistrationState D)\<rparr>)"

text \<open>The circumstances of a message: the override of the login timeout and the time.\<close>

record strategy_env =
  se_override :: NSTimeInterval
  se_now :: NSDate

definition on_machine ::
  "'s strategy_parts \<Rightarrow> strategy_env \<Rightarrow> 's strategies ZMSyncStateMachine_msg \<Rightarrow> 's ZMSyncStrategy \<Rightarrow> 's ZMSyncStrategy" where
  "on_machine P env m s =
     s\<lparr>stateMachine := machine_send (strategy_directory P) (se_override env) (se_now env) m (stateMachine s)\<rparr>"

definition on_strategies :: "('s strategies \<Rightarrow> 's strategies) \<Rightarrow> 's ZMSyncStrategy \<Rightarrow> 's ZMSyncStrategy" where
  "on_strategies f s = s\<lparr>stateMachine := on_dir f (stateMachine s)\<rparr>"

definition ss_updateEventsPolicy :: "'s ZMSyncStrategy \<Rightarrow> ZMUpdateEventsPolicy" where
  "ss_updateEventsPolicy s =
     (case currentState (stateMachine s) of None \<Rightarrow> ZMUpdateEventPolicyIgnore | Some st \<Rightarrow> state_updateEventsPolicy st)"

definition syncStrategy_init ::
  "'s strategy_parts \<Rightarrow> strategy_env \<Rightarrow> session \<Rightarrow> 's \<Rightarrow> bool \<Rightarrow> 's ZMSyncStrategy" where
  "syncStrategy_init P env s w inBackground =
     \<lparr>stateMachine = initSyncStateMachine (strategy_directory P) (se_override env) (se_now env) s
                       \<lparr>st_world = w, eventsBuffer = [], st_effects = []\<rparr> inBackground,
      didFetchObjects = False, ss_tornDown = False, contextMergingDisabled = False\<rparr>"

section \<open>Requests, changes and saves\<close>

definition ss_nextRequest ::
  "'s strategy_parts \<Rightarrow> strategy_env \<Rightarrow> 's ZMSyncStrategy \<Rightarrow> ZMTransportRequest option \<times> 's ZMSyncStrategy" where
  "ss_nextRequest P env s =
     (let s = (if didFetchObjects s then s
               else on_strategies (on_world (fetchObjectsForChangeTrackers P)) (s\<lparr>didFetchObjects := True\<rparr>))
      in if ss_tornDown s then (None, s)
         else
           (case machine_nextRequest (strategy_directory P) (se_override env) (se_now env) (stateMachine s) of
              (Some r, m) \<Rightarrow> (Some r, s\<lparr>stateMachine := m\<rparr>)
            | (None, m) \<Rightarrow>
                (case nextRequest_array so_nextRequest (requestStrategies P) (st_world (dir m)) of
                   (r, w) \<Rightarrow> (r, s\<lparr>stateMachine := on_dir (on_world (\<lambda>_. w)) m\<rparr>))))"

definition allChangeTrackers :: "'s strategy_parts \<Rightarrow> ('s, 's) ZMContextChangeTracker list" where
  "allChangeTrackers P =
     concat (map (\<lambda>ob. case so_strategy ob of None \<Rightarrow> [] | Some s \<Rightarrow> contextChangeTrackers s) (transcoder_objects P))
     @ concat (List.map_filter so_trackers (requestStrategies P)) @ [conversationStatusSync P]"

definition processSaveWithInsertedObjects ::
  "'s strategy_parts \<Rightarrow> ZMManagedObject list \<Rightarrow> ZMManagedObject list \<Rightarrow> 's \<Rightarrow> 's" where
  "processSaveWithInsertedObjects P inserted updated =
     fold (\<lambda>t. tracker_objectsDidChange t (oset_union (oset_union [] inserted) updated)) (allChangeTrackers P)"

text \<open>
  What a save notification holds, and which context saved: that of the user interface, that of the
  sync strategy, or another one of these kinds, which is a programming error. \<open>uiMOC\<close> says whether the
  context of the user interface still exists; \<open>changed\<close> are the conversations whose call state changed in it.
\<close>

datatype (plugins only: code size) saved_context = SavedUI | SavedOtherUI | SavedSync | SavedOtherSync | SavedOther

record did_save =
  saved_context :: saved_context
  note_inserted :: "ZMManagedObject list"
  note_updated :: "ZMManagedObject list"
  note_deleted :: "ZMManagedObject list"
  note_refreshed :: "ZMManagedObject list"
  note_callState :: "ZMManagedObject list option"

definition shouldForwardCallStateChangeDirectlyForNote :: "did_save \<Rightarrow> bool" where
  "shouldForwardCallStateChangeDirectlyForNote note \<longleftrightarrow>
     note_inserted note = [] \<and> note_deleted note = [] \<and> note_updated note = [] \<and> note_refreshed note = []"

definition managedObjectContextDidSave ::
  "'s strategy_parts \<Rightarrow> bool \<Rightarrow> did_save \<Rightarrow> 's ZMSyncStrategy \<Rightarrow> objc_failure + 's ZMSyncStrategy" where
  "managedObjectContextDidSave P uiMOC note s =
     (if ss_tornDown s \<or> contextMergingDisabled s then Inr s
      else if saved_context note \<in> {SavedUI, SavedOtherUI} \<and> uiMOC then
        if saved_context note = SavedOtherUI then Inl AssertionFailure
        else Inr (on_strategies
          (\<lambda>st. let st = (if note_callState note = None then st else st_emit (NotifiedCallState True) st);
                    changed = mergeCallStateChanges P (st_world st)
                in on_world (processSaveWithInsertedObjects P [] changed) (st_emit MergedIntoSyncContext st)) s)
      else if saved_context note \<in> {SavedSync, SavedOtherSync} then
        if saved_context note = SavedOtherSync then Inl AssertionFailure
        else Inr (on_strategies
          (\<lambda>st. let st = (if uiMOC
                          then st_emit MergedIntoUIContext
                                 (st_emit (NotifiedCallState (shouldForwardCallStateChangeDirectlyForNote note)) st)
                          else st)
                in st_emit SavedCryptoSessions st) s)
      else Inr s)"




definition machine_tearDown :: "'d machine \<Rightarrow> 'd machine" where
  "machine_tearDown m =
     (let m = (cancel (map_option fst (loginFailureTimer m)) m)\<lparr>loginFailureTimer := None, observesAuthentication := False\<rparr>;
          m = leave_PreBackground m;
          m = (cancel (fetch_timer m) m)\<lparr>fetch_timer := None\<rparr>
      in (cancel (task_timer m) m)\<lparr>task_timer := None\<rparr>)"

definition ss_tearDown :: "'s strategy_parts \<Rightarrow> 's ZMSyncStrategy \<Rightarrow> 's ZMSyncStrategy" where
  "ss_tearDown P s =
     on_strategies
       (\<lambda>st. on_world (\<lambda>w. fold (\<lambda>f. f) (List.map_filter so_tearDown (allObjectStrategies P) @ remaining_tearDowns P) w)
               (st_emit RemovedObservers st))
       (s\<lparr>ss_tornDown := True, stateMachine := machine_tearDown (stateMachine s)\<rparr>)"

definition updateBadgeCount :: "'s strategy_parts \<Rightarrow> 's strategies \<Rightarrow> 's strategies" where
  "updateBadgeCount P st = st_emit (SetBadgeCount (unreadConversationCount P (st_world st))) st"

definition ss_appDidEnterBackground :: "'s strategy_parts \<Rightarrow> strategy_env \<Rightarrow> 's ZMSyncStrategy \<Rightarrow> 's ZMSyncStrategy" where
  "ss_appDidEnterBackground P env s =
     on_strategies (\<lambda>st. updateBadgeCount P (st_emit NotifyNewRequests st)) (on_machine P env EnterBackground s)"

definition ss_appWillEnterForeground :: "'s strategy_parts \<Rightarrow> strategy_env \<Rightarrow> 's ZMSyncStrategy \<Rightarrow> 's ZMSyncStrategy" where
  "ss_appWillEnterForeground P env s = on_strategies (st_emit NotifyNewRequests) (on_machine P env EnterForeground s)"

section \<open>The interface\<close>

datatype (plugins only: code size) ZMSyncStrategy_msg =
    SSDidInterruptUpdateEventsStream
  | SSDidEstablishUpdateEventsStream
  | SSNextRequest
  | SSDataDidChange
  | SSProcessUpdateEvents "ZMUpdateEvent list" bool
  | SSProcessDownloadedEvents "ZMUpdateEvent list"
  | SSProcessSave "ZMManagedObject list" "ZMManagedObject list"
  | SSTearDown
  | SSStartBackgroundFetch nat
  | SSStartBackgroundTask nat
  | SSAccessTokenDidSucceed NSString NSString

primrec ss_send ::
  "'s strategy_parts \<Rightarrow> strategy_env \<Rightarrow> ZMSyncStrategy_msg \<Rightarrow> 's ZMSyncStrategy \<Rightarrow> 's ZMSyncStrategy" where
  "ss_send P env SSDidInterruptUpdateEventsStream s = on_machine P env DidInterruptUpdateEventsStream s"
| "ss_send P env SSDidEstablishUpdateEventsStream s = on_machine P env DidEstablishUpdateEventsStream s"
| "ss_send P env SSNextRequest s = snd (ss_nextRequest P env s)"
| "ss_send P env SSDataDidChange s = on_machine P env DataDidChange s"
| "ss_send P env (SSProcessUpdateEvents es ib) s =
     on_strategies (processUpdateEvents P (ss_updateEventsPolicy s) es ib) s"
| "ss_send P env (SSProcessDownloadedEvents es) s = on_strategies (processDownloadedEvents P es) s"
| "ss_send P env (SSProcessSave ins upd) s = on_strategies (on_world (processSaveWithInsertedObjects P ins upd)) s"
| "ss_send P env SSTearDown s = ss_tearDown P s"
| "ss_send P env (SSStartBackgroundFetch h) s = on_machine P env (StartBackgroundFetch h) s"
| "ss_send P env (SSStartBackgroundTask h) s = on_machine P env (StartBackgroundTask h) s"
| "ss_send P env (SSAccessTokenDidSucceed t ty) s = on_strategies (on_world (flow_accessTokenDidChange P t ty)) s"

datatype (plugins only: code size) ZMSyncStrategy_Internal = UpdateBadgeCount | AppDidEnterBackground | AppWillEnterForeground | SetContextMergingDisabled bool

primrec ss_internal_send ::
  "'s strategy_parts \<Rightarrow> strategy_env \<Rightarrow> ZMSyncStrategy_Internal \<Rightarrow> 's ZMSyncStrategy \<Rightarrow> 's ZMSyncStrategy" where
  "ss_internal_send P env UpdateBadgeCount s = on_strategies (updateBadgeCount P) s"
| "ss_internal_send P env AppDidEnterBackground s = ss_appDidEnterBackground P env s"
| "ss_internal_send P env AppWillEnterForeground s = ss_appWillEnterForeground P env s"
| "ss_internal_send P env (SetContextMergingDisabled b) s = s\<lparr>contextMergingDisabled := b\<rparr>"

section \<open>The order of events\<close>

text \<open>
  To see what a strategy gets, let it record its events: \<open>seen\<close> reads the record from the shared state. Processing events
  appends them to the record of that strategy, and nothing else changes it: not the other strategies, not the decryption
  (which leaves these events as they are), not storing the identifier of the last event.
\<close>

definition recording :: "'s strategy_parts \<Rightarrow> ('s \<Rightarrow> ZMUpdateEvent list) \<Rightarrow> bool" where
  "recording P seen \<longleftrightarrow>
     (\<exists>before ob after S. allObjectStrategies P = before @ ob # after \<and> so_strategy ob = Some S \<and>
        (\<forall>es live prefetched w. seen (os_processEvents S es live prefetched w) = seen w @ es) \<and>
        (\<forall>ob' \<in> set (before @ after). \<forall>S' es live prefetched w.
           so_strategy ob' = Some S' \<longrightarrow> seen (os_processEvents S' es live prefetched w) = seen w)) \<and>
     (\<forall>ob \<in> set (allObjectStrategies P). \<forall>decrypt es w. so_decryptor ob = Some decrypt \<longrightarrow>
        fst (decrypt es w) \<in> {None, Some es} \<and> seen (snd (decrypt es w)) = seen w) \<and>
     (\<forall>w. seen (persistLastUpdateEventID (sp_directory P) w) = seen w)"

definition others :: "'s strategy_parts \<Rightarrow> ZMUpdateEvent list \<Rightarrow> ZMUpdateEvent list" where
  "others P es = filter (\<lambda>e. \<not> isFlowEvent P e) es"

definition history :: "'s strategy_parts \<Rightarrow> ('s \<Rightarrow> ZMUpdateEvent list) \<Rightarrow> 's strategies \<Rightarrow> ZMUpdateEvent list" where
  "history P seen st = others P (seen (st_world st))"

lemma others_simps [simp]:
  "others P [] = []" "others P (es @ fs) = others P es @ others P fs" "others P (others P es) = others P es"
  "others P (filter (\<lambda>e. \<not> isFlowEvent P e) es) = others P es" "others P (filter (isFlowEvent P) es) = []"
  by (simp_all add: others_def)

lemma deliver_others:
  assumes "\<forall>ob \<in> set obs. \<forall>S es live prefetched w. so_strategy ob = Some S \<longrightarrow> seen (os_processEvents S es live prefetched w) = seen w"
  shows "seen (deliver obs es live prefetched w) = seen w"
  using assms by (induction obs arbitrary: w) (auto simp: deliver_def split: option.split)

lemma deliver_records:
  assumes "recording P seen"
  shows "seen (deliver (allObjectStrategies P) es live prefetched w) = seen w @ es"
proof -
  from assms obtain before ob after S where obs: "allObjectStrategies P = before @ ob # after" "so_strategy ob = Some S"
    and S: "\<And>es live prefetched w. seen (os_processEvents S es live prefetched w) = seen w @ es"
    and rest: "\<forall>ob' \<in> set (before @ after). \<forall>S' es live prefetched w.
      so_strategy ob' = Some S' \<longrightarrow> seen (os_processEvents S' es live prefetched w) = seen w"
    unfolding recording_def by blast
  have "deliver (allObjectStrategies P) es live prefetched w =
      deliver after es live prefetched (os_processEvents S es live prefetched (deliver before es live prefetched w))"
    using obs by (simp add: deliver_def)
  moreover have "seen (deliver before es live prefetched w) = seen w" for w
    by (rule deliver_others) (use rest in \<open>simp add: ball_Un\<close>)
  moreover have "seen (deliver after es live prefetched w) = seen w" for w
    by (rule deliver_others) (use rest in \<open>simp add: ball_Un\<close>)
  ultimately show ?thesis
    using S by simp
qed

lemma decrypt_records:
  assumes "recording P seen"
  shows "fst (decryptUpdateEvents P es w) = es \<and> seen (snd (decryptUpdateEvents P es w)) = seen w"
proof -
  let ?step = "\<lambda>ob (es, w). case so_decryptor ob of None \<Rightarrow> (es, w)
      | Some decrypt \<Rightarrow> (case decrypt es w of (None, w') \<Rightarrow> (es, w') | (Some es', w') \<Rightarrow> (es', w'))"
  have step: "fst (?step ob x) = fst x \<and> seen (snd (?step ob x)) = seen (snd x)" if "ob \<in> set (allObjectStrategies P)" for ob x
  proof (cases "so_decryptor ob")
    case (Some decrypt)
    with assms that have "fst (decrypt (fst x) (snd x)) \<in> {None, Some (fst x)}" "seen (snd (decrypt (fst x) (snd x))) = seen (snd x)"
      unfolding recording_def by blast+
    with Some show ?thesis
      by (auto split: prod.splits option.splits)
  qed (simp split: prod.split)
  have "fst (fold ?step obs x) = fst x \<and> seen (snd (fold ?step obs x)) = seen (snd x)"
    if "set obs \<subseteq> set (allObjectStrategies P)" for obs x
    using that by (induction obs arbitrary: x) (use step in auto)
  from this [of "allObjectStrategies P" "(es, w)"] show ?thesis
    by (simp add: decryptUpdateEvents_def)
qed

lemma consume_records:
  assumes "recording P seen"
  shows "history P seen (consumeUpdateEvents P es st) = history P seen st @ others P es"
  using decrypt_records [OF assms, of es "st_world st"] deliver_records [OF assms]
  by (auto simp: consumeUpdateEvents_def history_def split: prod.split)

lemma consume_buffer [simp]: "eventsBuffer (consumeUpdateEvents P es st) = eventsBuffer st"
  by (simp add: consumeUpdateEvents_def split: prod.split)

lemma history_simps [simp]:
  "history P seen (st_emit e st) = history P seen st" "history P seen (st\<lparr>eventsBuffer := b\<rparr>) = history P seen st"
  by (simp_all add: history_def)



lemma process_batch:
  assumes "recording P seen"
  shows "history P seen (processUpdateEvents P ZMUpdateEventPolicyProcess es False st) = history P seen st @ others P es"
    and "eventsBuffer (processUpdateEvents P ZMUpdateEventPolicyProcess es False st) = eventsBuffer st"
  by (simp_all add: processUpdateEvents_def Let_def consume_records [OF assms]) (auto simp: others_def)


text \<open>The same for the strategy with its state machine, whose state gives the policy.\<close>

abbreviation strategies_of :: "'s ZMSyncStrategy \<Rightarrow> 's strategies" where
  "strategies_of s \<equiv> dir (stateMachine s)"

definition arrive :: "'s strategy_parts \<Rightarrow> strategy_env \<Rightarrow> ZMUpdateEvent list list \<Rightarrow> 's ZMSyncStrategy \<Rightarrow> 's ZMSyncStrategy" where
  "arrive P env batches s = fold (\<lambda>es. ss_send P env (SSProcessUpdateEvents es False)) batches s"


lemma arrive_policy [simp]: "ss_updateEventsPolicy (arrive P env bs s) = ss_updateEventsPolicy s"
  by (induction bs arbitrary: s) (simp_all add: arrive_def ss_updateEventsPolicy_def on_strategies_def)

lemma arrive_state [simp]: "currentState (stateMachine (arrive P env bs s)) = currentState (stateMachine s)"
  by (induction bs arbitrary: s) (simp_all add: arrive_def on_strategies_def)


lemma send_policy [simp]:
  "ss_updateEventsPolicy (ss_send P env (SSProcessUpdateEvents es False) s) = ss_updateEventsPolicy s"
  "strategies_of (ss_send P env (SSProcessUpdateEvents es False) s) =
     processUpdateEvents P (ss_updateEventsPolicy s) es False (strategies_of s)"
  by (simp_all add: ss_updateEventsPolicy_def on_strategies_def on_dir_def)














text \<open>Going to the background during a sync is different: the state before the background processes live events at
  once, so they overtake the events that are still buffered.\<close>

lemma events_overtake_the_buffer:
  assumes "recording P seen" and "ss_updateEventsPolicy s = ZMUpdateEventPolicyProcess"
  shows "eventsBuffer (strategies_of (ss_send P env (SSProcessUpdateEvents es False) s)) = eventsBuffer (strategies_of s) \<and>
         history P seen (strategies_of (ss_send P env (SSProcessUpdateEvents es False) s)) =
           history P seen (strategies_of s) @ others P es"
  using assms by (simp del: ss_send.simps add: process_batch)

lemma before_the_background_events_are_processed: "state_updateEventsPolicy PreBackgroundState = ZMUpdateEventPolicyProcess"
  by simp

section \<open>Requests\<close>

text \<open>A strategy that was torn down offers no request and asks nobody for one.\<close>

lemma torn_down_strategy_is_silent:
  "ss_tornDown s \<Longrightarrow> didFetchObjects s \<Longrightarrow> ss_nextRequest P env s = (None, s)"
  by (simp add: ss_nextRequest_def Let_def)

text \<open>The trackers fetch their objects before the first request, and only then.\<close>

lemma objects_are_fetched_once: "didFetchObjects (snd (ss_nextRequest P env s))"
  by (simp add: ss_nextRequest_def Let_def on_strategies_def split: prod.split option.split)

end
