(* ===== verification/OperationLoop.thy ===== *)
theory OperationLoop
  imports SyncStrategy UserSession
begin

text \<open>
  \<^verbatim>\<open>ZMOperationLoop\<close>: it offers the requests of the sync strategy to the transport session until that has
  enough, tells the strategy about saves and the push channel, and handles push notifications. The
  transport session is an argument; the run loop that \<^verbatim>\<open>tearDown\<close> keeps going until the queue of the sync
  context is empty is not modelled.
\<close>

section \<open>State\<close>

datatype push_handler_kind = AfterEvents | ForwardingNotice

record EventsWithIdentifier =
  ewi_events :: "ZMUpdateEvent list option"
  ewi_identifier :: "NSUUID option"
  ewi_isNotice :: bool

datatype (plugins only: code size) loop_effect =
    LoopNotifyNewRequests
  | PostedPushChannelState bool int
  | OpenedPushChannel
  | ClosedPushChannel
  | ToreDownSyncStrategy
  | LoopBeganActivity
  | LoopEndedActivity
  | LoopSavedSync
  | LoopDelayedSave
  | CalledPushResult nat ZMPushPayloadResult
  | ReceivedVoIPNotification "EventsWithIdentifier option" push_handler_kind "nat option"

record ('s, 't) ZMOperationLoop =
  ol_syncStrategy :: "'s ZMSyncStrategy option"
  ol_transport :: 't
  shouldStopEnqueueing :: bool
  ownsSyncStrategy :: bool
  ol_tornDown :: bool
  apsSignalKeyStore :: bool
  cryptoBox :: bool
  ol_effects :: "loop_effect list"

text \<open>
  An attempt to enqueue asks the generator for a request, if there is room, and answers whether it
  generated a request and whether there were fewer requests than the maximum.
\<close>

type_synonym ('x, 't) transport = "('x \<Rightarrow> ZMTransportRequest option \<times> 'x) \<Rightarrow> 't \<times> 'x \<Rightarrow> (bool \<times> bool) \<times> 't \<times> 'x"

record ('s, 't) loop_env =
  le_parts :: "'s strategy_parts"
  le_strategy :: strategy_env
  attemptToEnqueue :: "('s ZMSyncStrategy, 't) transport"
  stopsEnqueueing :: "nat \<Rightarrow> bool"
  onMainQueue :: bool
  eventsArrayFromTransportData :: "(NSString \<times> json) list \<Rightarrow> ZMUpdateEvent list option"
  optionalUuidForKey :: "NSString \<Rightarrow> (NSString \<times> json) list option \<Rightarrow> NSUUID option"
  decryptDataDictionary :: "(NSString \<times> json) list \<Rightarrow> (NSString \<times> json) list option"
  decryptEventsAndAddClients :: "ZMUpdateEvent list \<Rightarrow> ZMUpdateEvent list"
  event_messageNonce :: "ZMUpdateEvent \<Rightarrow> NSUUID option"
  fetchPreexistingMessageNonces :: "ZMUpdateEvent list \<Rightarrow> NSUUID list"
  selfClientExists :: bool

definition loop_emit :: "loop_effect \<Rightarrow> ('s, 't) ZMOperationLoop \<Rightarrow> ('s, 't) ZMOperationLoop" where
  "loop_emit e l = l\<lparr>ol_effects := ol_effects l @ [e]\<rparr>"

text \<open>A message to the strategy, which is \<^verbatim>\<open>nil\<close> after the loop was torn down.\<close>

definition on_strategy ::
  "('s ZMSyncStrategy \<Rightarrow> 's ZMSyncStrategy) \<Rightarrow> ('s, 't) ZMOperationLoop \<Rightarrow> ('s, 't) ZMOperationLoop" where
  "on_strategy f l = l\<lparr>ol_syncStrategy := map_option f (ol_syncStrategy l)\<rparr>"

lemma loop_emit_simps [simp]:
  "ol_effects (loop_emit e l) = ol_effects l @ [e]" "ol_syncStrategy (loop_emit e l) = ol_syncStrategy l"
  "shouldStopEnqueueing (loop_emit e l) = shouldStopEnqueueing l" "ol_transport (loop_emit e l) = ol_transport l"
  by (simp_all add: loop_emit_def)

lemma on_strategy_simps [simp]:
  "ol_effects (on_strategy f l) = ol_effects l" "shouldStopEnqueueing (on_strategy f l) = shouldStopEnqueueing l"
  by (simp_all add: on_strategy_def)

definition loop_init :: "'s ZMSyncStrategy \<Rightarrow> 't \<Rightarrow> bool \<Rightarrow> ('s, 't) ZMOperationLoop" where
  "loop_init strategy transport box =
     loop_emit OpenedPushChannel
       \<lparr>ol_syncStrategy = Some strategy, ol_transport = transport, shouldStopEnqueueing = False,
        ownsSyncStrategy = False, ol_tornDown = False, apsSignalKeyStore = False, cryptoBox = box, ol_effects = []\<rparr>"

text \<open>The designated initialiser creates the strategy and owns it.\<close>

definition loop_initWithTransportSession ::
  "('s, 't) loop_env \<Rightarrow> session \<Rightarrow> 's \<Rightarrow> bool \<Rightarrow> 't \<Rightarrow> bool \<Rightarrow> ('s, 't) ZMOperationLoop" where
  "loop_initWithTransportSession env s w inBackground transport box =
     (loop_init (syncStrategy_init (le_parts env) (le_strategy env) s w inBackground) transport box)\<lparr>ownsSyncStrategy := True\<rparr>"

definition loop_tearDown :: "('s, 't) loop_env \<Rightarrow> ('s, 't) ZMOperationLoop \<Rightarrow> objc_failure + ('s, 't) ZMOperationLoop" where
  "loop_tearDown env l =
     (let l = loop_emit ClosedPushChannel (l\<lparr>ol_tornDown := True, shouldStopEnqueueing := True\<rparr>);
          l = (if ownsSyncStrategy l \<and> ol_syncStrategy l \<noteq> None then loop_emit ToreDownSyncStrategy l else l)\<lparr>ol_syncStrategy := None\<rparr>
      in if onMainQueue env then Inr l else Inl AssertionFailure)"

section \<open>Offering requests\<close>

text \<open>
  The loop runs on the queue of the sync context while \<^verbatim>\<open>tearDown\<close> runs on the main queue: \<open>stop n\<close> says whether the
  loop object is gone or \<^verbatim>\<open>shouldStopEnqueueing\<close> is set when the condition is tested before attempt \<open>n\<close>.
\<close>

partial_function (option) enqueue_loop ::
  "('x, 't) transport \<Rightarrow> ('x \<Rightarrow> ZMTransportRequest option \<times> 'x) \<Rightarrow> (nat \<Rightarrow> bool) \<Rightarrow> nat \<Rightarrow> 't \<times> 'x \<Rightarrow> ('t \<times> 'x) option" where
  "enqueue_loop attempt generator stop n w =
     (if stop n then Some w
      else case attempt generator w of
        ((didGenerate, room), w') \<Rightarrow>
          if didGenerate \<and> room then enqueue_loop attempt generator stop (Suc n) w' else Some w')"

definition requestGenerator ::
  "('s, 't) loop_env \<Rightarrow> 's ZMSyncStrategy \<Rightarrow> ZMTransportRequest option \<times> 's ZMSyncStrategy" where
  "requestGenerator env = ss_nextRequest (le_parts env) (le_strategy env)"

text \<open>The completion handler that the generator adds to a request.\<close>

definition loop_requestCompleted :: "('s, 't) ZMOperationLoop \<Rightarrow> ('s, 't) ZMOperationLoop" where
  "loop_requestCompleted l = loop_emit LoopNotifyNewRequests (loop_emit LoopNotifyNewRequests (loop_emit LoopDelayedSave l))"

text \<open>
  The result is \<open>None\<close> when the loop does not end. Without a strategy the generator has nothing to offer,
  and one attempt ends the loop.
\<close>

definition executeNextOperation :: "('s, 't) loop_env \<Rightarrow> ('s, 't) ZMOperationLoop \<Rightarrow> ('s, 't) ZMOperationLoop option" where
  "executeNextOperation env l =
     (let l = on_strategy (ss_send (le_parts env) (le_strategy env) SSDataDidChange) l
      in if shouldStopEnqueueing l then Some l
         else case ol_syncStrategy l of
           None \<Rightarrow> Some (loop_emit LoopEndedActivity (loop_emit LoopBeganActivity l))
         | Some s \<Rightarrow>
             map_option
               (\<lambda>(t, s'). loop_emit LoopEndedActivity
                  ((loop_emit LoopBeganActivity l)\<lparr>ol_transport := t, ol_syncStrategy := Some s'\<rparr>))
               (enqueue_loop (attemptToEnqueue env) (requestGenerator env) (stopsEnqueueing env) 0 (ol_transport l, s)))"

section \<open>Saves and the push channel\<close>

definition userInterfaceContextDidSave ::
  "('s, 't) loop_env \<Rightarrow> ZMManagedObject list \<Rightarrow> ZMManagedObject list \<Rightarrow> ('s, 't) ZMOperationLoop \<Rightarrow> ('s, 't) ZMOperationLoop" where
  "userInterfaceContextDidSave env inserted updated l =
     loop_emit LoopNotifyNewRequests
       (on_strategy (ss_send (le_parts env) (le_strategy env) (SSProcessSave inserted updated)) l)"

definition syncContextDidSave ::
  "('s, 't) loop_env \<Rightarrow> ZMManagedObject list \<Rightarrow> ZMManagedObject list \<Rightarrow> ('s, 't) ZMOperationLoop \<Rightarrow> ('s, 't) ZMOperationLoop" where
  "syncContextDidSave env inserted updated l =
     (if inserted = [] \<and> updated = [] then l
      else loop_emit LoopNotifyNewRequests
        (on_strategy (ss_send (le_parts env) (le_strategy env) (SSProcessSave inserted updated)) l))"

datatype push_channel = DidReceiveEvents "ZMUpdateEvent list" | DidClose int | DidOpen int

primrec pushChannel_send ::
  "('s, 't) loop_env \<Rightarrow> push_channel \<Rightarrow> ('s, 't) ZMOperationLoop \<Rightarrow> ('s, 't) ZMOperationLoop" where
  "pushChannel_send env (DidReceiveEvents es) l =
     (if es = [] then l
      else on_strategy (ss_send (le_parts env) (le_strategy env) (SSProcessUpdateEvents es False)) l)"
| "pushChannel_send env (DidClose code) l =
     loop_emit LoopNotifyNewRequests
       (on_strategy (ss_send (le_parts env) (le_strategy env) SSDidInterruptUpdateEventsStream)
          (loop_emit (PostedPushChannelState False code) l))"
| "pushChannel_send env (DidOpen code) l =
     loop_emit LoopNotifyNewRequests
       (on_strategy (ss_send (le_parts env) (le_strategy env) SSDidEstablishUpdateEventsStream)
          (loop_emit (PostedPushChannelState True code) l))"

section \<open>Push notifications\<close>

definition filteredWithoutPreexistingNonces ::
  "('s, 't) loop_env \<Rightarrow> NSUUID list \<Rightarrow> EventsWithIdentifier \<Rightarrow> EventsWithIdentifier" where
  "filteredWithoutPreexistingNonces env nonces e =
     e\<lparr>ewi_events := map_option (filter (\<lambda>ev. case event_messageNonce env ev of None \<Rightarrow> True | Some n \<Rightarrow> n \<notin> set nonces))
                       (ewi_events e)\<rparr>"

definition signalKeyStore :: "('s, 't) loop_env \<Rightarrow> ('s, 't) ZMOperationLoop \<Rightarrow> bool" where
  "signalKeyStore env l \<longleftrightarrow> apsSignalKeyStore l \<or> selfClientExists env"

definition eventArrayFromEncryptedMessage ::
  "('s, 't) loop_env \<Rightarrow> ('s, 't) ZMOperationLoop \<Rightarrow> (NSString \<times> json) list \<Rightarrow> EventsWithIdentifier option" where
  "eventArrayFromEncryptedMessage env l encryptedPayload =
     (if \<not> signalKeyStore env l \<or> \<not> cryptoBox l then None
      else
        (let dataPayload = optionalDictionaryForKey ''data'' (decryptDataDictionary env encryptedPayload);
             events = (case Option.bind dataPayload (eventsArrayFromTransportData env) of None \<Rightarrow> [] | Some es \<Rightarrow> es);
             decryptedEvents = decryptEventsAndAddClients env events
         in if decryptedEvents = [] then None
            else Some \<lparr>ewi_events = Some decryptedEvents,
                       ewi_identifier = optionalUuidForKey env ''id'' dataPayload, ewi_isNotice = False\<rparr>))"

definition eventsFromPushChannelData ::
  "('s, 't) loop_env \<Rightarrow> ('s, 't) ZMOperationLoop \<Rightarrow> (NSString \<times> json) list \<Rightarrow> EventsWithIdentifier option" where
  "eventsFromPushChannelData env l userInfo =
     (case optionalDictionaryForKey ''data'' (Some userInfo) of
        None \<Rightarrow> None
      | Some d \<Rightarrow>
          let type = optionalStringForKey ''type'' (Some d)
          in (case map_of d ''data'' of
                Some (JObj internal) \<Rightarrow>
                  let isNotice = (type = Some ''notice'')
                  in Some \<lparr>ewi_events = (if isNotice then None else eventsArrayFromTransportData env internal),
                           ewi_identifier = optionalUuidForKey env ''id'' (Some internal), ewi_isNotice = isNotice\<rparr>
              | Some (JStr _) \<Rightarrow>
                  if type \<noteq> Some ''cipher'' then None else eventArrayFromEncryptedMessage env l d
              | _ \<Rightarrow> Some \<lparr>ewi_events = eventsArrayFromTransportData env d,
                           ewi_identifier = optionalUuidForKey env ''id'' (Some d), ewi_isNotice = False\<rparr>))"

definition forwardEvents ::
  "('s, 't) loop_env \<Rightarrow> ZMUpdateEvent list \<Rightarrow> ('s, 't) ZMOperationLoop \<Rightarrow> ('s, 't) ZMOperationLoop" where
  "forwardEvents env events l =
     on_strategy (on_strategies (updateBadgeCount (le_parts env)))
       (loop_emit LoopSavedSync
          (on_strategy (on_strategies
             (consumeUpdateEvents (le_parts env) (filter (\<lambda>e. \<not> isFlowEvent (le_parts env) e) events))) l))"

definition saveEventsAndSendNotificationForPayload ::
  "('s, 't) loop_env \<Rightarrow> (NSString \<times> json) list \<Rightarrow> nat option \<Rightarrow> ZMPushNotficationType \<Rightarrow> ('s, 't) ZMOperationLoop \<Rightarrow>
   ('s, 't) ZMOperationLoop" where
  "saveEventsAndSendNotificationForPayload env payload completionHandler source l =
     (let l = loop_emit LoopBeganActivity l;
          eventsWithID = eventsFromPushChannelData env l payload;
          events = (case Option.bind eventsWithID ewi_events of None \<Rightarrow> [] | Some es \<Rightarrow> es);
          filtered = map_option (filteredWithoutPreexistingNonces env (fetchPreexistingMessageNonces env events)) eventsWithID;
          voip = (source = ZMPushNotficationTypeVoIP \<and> Option.bind eventsWithID ewi_identifier \<noteq> None)
      in if events \<noteq> [] then
           (let l = forwardEvents env events l;
                l = (if voip then loop_emit (ReceivedVoIPNotification filtered AfterEvents completionHandler) l else l)
            in loop_emit LoopEndedActivity l)
         else if (case filtered of None \<Rightarrow> False | Some f \<Rightarrow> ewi_isNotice f) \<and> voip then
           loop_emit (ReceivedVoIPNotification filtered ForwardingNotice completionHandler) l
         else (case completionHandler of
                 None \<Rightarrow> l
               | Some h \<Rightarrow> loop_emit LoopEndedActivity (loop_emit (CalledPushResult h ZMPushPayloadResultSuccess) l)))"

text \<open>When the status object of the VoIP notifications calls the handler it was given.\<close>

definition voip_handler ::
  "('s, 't) loop_env \<Rightarrow> push_handler_kind \<Rightarrow> nat option \<Rightarrow> ZMPushPayloadResult \<Rightarrow> ZMUpdateEvent list \<Rightarrow>
   ('s, 't) ZMOperationLoop \<Rightarrow> ('s, 't) ZMOperationLoop" where
  "voip_handler env kind completionHandler result receivedEvents l =
     (let l = (if kind = ForwardingNotice then forwardEvents env receivedEvents l else l)
      in case completionHandler of None \<Rightarrow> l | Some h \<Rightarrow> loop_emit (CalledPushResult h result) l)"

section \<open>The interface\<close>

datatype ZMOperationLoop_msg = NotifyNewRequestsAvailable | LoopTearDown | LoopAccessTokenDidChange NSString NSString

primrec loop_send ::
  "('s, 't) loop_env \<Rightarrow> ZMOperationLoop_msg \<Rightarrow> ('s, 't) ZMOperationLoop \<Rightarrow> objc_failure + ('s, 't) ZMOperationLoop" where
  "loop_send env NotifyNewRequestsAvailable l = Inr (loop_emit LoopNotifyNewRequests l)"
| "loop_send env LoopTearDown l = loop_tearDown env l"
| "loop_send env (LoopAccessTokenDidChange t ty) l =
     Inr (on_strategy (ss_send (le_parts env) (le_strategy env) (SSAccessTokenDidSucceed t ty)) l)"

datatype ZMOperationLoop_Background =
    SaveEventsAndSendNotification "(NSString \<times> json) list" "nat option" ZMPushNotficationType
  | LoopStartBackgroundFetch nat
  | LoopStartBackgroundTask nat

primrec loop_background_send ::
  "('s, 't) loop_env \<Rightarrow> ZMOperationLoop_Background \<Rightarrow> ('s, 't) ZMOperationLoop \<Rightarrow> ('s, 't) ZMOperationLoop" where
  "loop_background_send env (SaveEventsAndSendNotification p h src) l = saveEventsAndSendNotificationForPayload env p h src l"
| "loop_background_send env (LoopStartBackgroundFetch h) l =
     on_strategy (ss_send (le_parts env) (le_strategy env) (SSStartBackgroundFetch h)) l"
| "loop_background_send env (LoopStartBackgroundTask h) l =
     on_strategy (ss_send (le_parts env) (le_strategy env) (SSStartBackgroundTask h)) l"

section \<open>The loop ends\<close>

lemma enqueue_loop_ends:
  assumes step: "\<And>w w'. attempt generator w = ((True, True), w') \<Longrightarrow> running (fst w) < running (fst w') \<and> running (fst w') \<le> (limit :: nat)"
  shows "\<exists>w'. enqueue_loop attempt generator stop n w = Some w'"
proof (induction "limit - running (fst w)" arbitrary: n w rule: less_induct)
  case less
  obtain g f w1 where a: "attempt generator w = ((g, f), w1)"
    by (metis prod.exhaust)
  show ?case
  proof (cases "g \<and> f")
    case True
    then have "running (fst w) < running (fst w1) \<and> running (fst w1) \<le> limit"
      using step a by simp
    then have "\<exists>w'. enqueue_loop attempt generator stop (Suc n) w1 = Some w'"
      by (intro less) linarith
    then show ?thesis
      using a True by (simp add: enqueue_loop.simps)
  qed (auto simp: enqueue_loop.simps a)
qed

text \<open>A transport session that runs up to two requests, and strategies that do nothing.\<close>

definition sample_parts :: "nat strategy_parts" where
  "sample_parts =
     \<lparr>transcoder_object = (\<lambda>_. \<lparr>so_strategy = None, so_decryptor = None, so_trackers = None, so_nextRequest = (\<lambda>w. (None, w)),
                                so_tearDown = None\<rparr>),
      requestStrategies = [], conversationStatusSync = \<lparr>tracker_objectsDidChange = (\<lambda>_ w. w),
        tracker_fetchRequestForTrackedObjects = (\<lambda>_. None), tracker_addTrackedObjects = (\<lambda>_ w. w)\<rparr>,
      remaining_tearDowns = [], fetchObjectsForChangeTrackers = id, sp_directory = idle_directory,
      isFlowEvent = (\<lambda>_. False), isCallStateEvent = (\<lambda>_. False), event_conversationUUID = (\<lambda>_. None),
      executeFetchRequestBatch = (\<lambda>_ _ _. 0), unreadConversationCount = (\<lambda>_. 0), mergeCallStateChanges = (\<lambda>_. []),
      flow_accessTokenDidChange = (\<lambda>_ _ w. w)\<rparr>"

definition sample_attempt :: "('x, nat) transport" where
  "sample_attempt generator w =
     (if fst w < 2 then
        (case generator (snd w) of
           (Some r, x) \<Rightarrow> ((True, True), (Suc (fst w), x))
         | (None, x) \<Rightarrow> ((False, True), (fst w, x)))
      else ((False, False), w))"

definition sample_loop_env :: "(nat, nat) loop_env" where
  "sample_loop_env =
     \<lparr>le_parts = sample_parts, le_strategy = \<lparr>se_override = 0, se_now = 0\<rparr>, attemptToEnqueue = sample_attempt,
      stopsEnqueueing = (\<lambda>_. False),
      onMainQueue = True, eventsArrayFromTransportData = (\<lambda>_. Some [\<lparr>ev_uuid = None, ev_payload = None\<rparr>]),
      optionalUuidForKey = (\<lambda>_ _. Some 40), decryptDataDictionary = (\<lambda>_. None), decryptEventsAndAddClients = id,
      event_messageNonce = (\<lambda>_. None), fetchPreexistingMessageNonces = (\<lambda>_. []), selfClientExists = False\<rparr>"

definition sample_loop :: "(nat, nat) ZMOperationLoop" where
  "sample_loop =
     \<lparr>ol_syncStrategy = Some \<lparr>stateMachine = new_machine blank_session \<lparr>st_world = 0, eventsBuffer = [], st_effects = []\<rparr> False,
        didFetchObjects = True, ss_tornDown = False, contextMergingDisabled = False\<rparr>,
      ol_transport = 0, shouldStopEnqueueing = False, ownsSyncStrategy = False, ol_tornDown = False,
      apsSignalKeyStore = False, cryptoBox = False, ol_effects = []\<rparr>"

text \<open>Once the loop is to stop, it makes no further attempt; an attempt that had no room or no request is the last one.\<close>

lemma enqueue_loop_stops: "stop n \<Longrightarrow> enqueue_loop attempt generator stop n w = Some w"
  by (simp add: enqueue_loop.simps)

lemma enqueue_loop_last_attempt:
  "\<not> stop n \<Longrightarrow> attempt generator w = ((g, room), w') \<Longrightarrow> \<not> g \<or> \<not> room \<Longrightarrow>
   enqueue_loop attempt generator stop n w = Some w'"
  by (subst enqueue_loop.simps) auto

text \<open>Offering requests ends when the transport session limits the number of its requests: if every attempt that asks
  for more has started a request, none ends meanwhile, and there is a limit to the requests that run, the operation comes to
  its end.\<close>

lemma offering_requests_ends:
  assumes "\<And>w w'. attemptToEnqueue env (requestGenerator env) w = ((True, True), w') \<Longrightarrow>
     running (fst w) < running (fst w') \<and> running (fst w') \<le> (limit :: nat)"
  shows "\<exists>l'. executeNextOperation env l = Some l'"
proof -
  have "\<exists>w'. enqueue_loop (attemptToEnqueue env) (requestGenerator env) (stopsEnqueueing env) n w = Some w'" for n w
    by (rule enqueue_loop_ends) (rule assms)
  then show ?thesis
    by (auto simp: executeNextOperation_def Let_def split: option.splits)
qed

lemma offering_requests_ends_example:
  "\<exists>l. executeNextOperation sample_loop_env sample_loop = Some l"
proof -
  have *: "fst w < fst w' \<and> fst w' \<le> 2"
    if "attemptToEnqueue sample_loop_env (requestGenerator sample_loop_env) w = ((True, True), w')" for w w'
    using that by (auto simp: sample_loop_env_def sample_attempt_def split: if_splits prod.splits option.splits)
  show ?thesis
    using offering_requests_ends [of sample_loop_env "\<lambda>n. n" 2, OF *] by blast
qed

section \<open>Completion handlers of push notifications\<close>

text \<open>The handler was called, or handed to the status object that calls it.\<close>

fun completes :: "nat \<Rightarrow> loop_effect \<Rightarrow> bool" where
  "completes h (CalledPushResult h' r) \<longleftrightarrow> h' = h"
| "completes h (ReceivedVoIPNotification e k h') \<longleftrightarrow> h' = Some h"
| "completes h _ \<longleftrightarrow> False"

lemma forwardEvents_effects [simp]: "ol_effects (forwardEvents env es l) = ol_effects l @ [LoopSavedSync]"
  by (simp add: forwardEvents_def)

text \<open>The completion handler of a push notification is called or handed on exactly when the notification has no events
  or came by VoIP with an identifier: after events that came as an ordinary remote notification it is never called.\<close>

lemma ordinary_push_with_events_never_completes:
  assumes "eventsFromPushChannelData env (loop_emit LoopBeganActivity l) payload = e"
    and "\<not> list_ex (completes h) (ol_effects l)"
  shows "list_ex (completes h) (ol_effects (loop_background_send env (SaveEventsAndSendNotification payload (Some h) src) l)) \<longleftrightarrow>
    (case Option.bind e ewi_events of None \<Rightarrow> True | Some es \<Rightarrow> es = []) \<or>
    src = ZMPushNotficationTypeVoIP \<and> Option.bind e ewi_identifier \<noteq> None"
  using assms by (auto simp: saveEventsAndSendNotificationForPayload_def Let_def split: option.splits)

lemma ordinary_push_with_events_never_completes_example:
  "\<not> list_ex (completes 50) (ol_effects (loop_background_send sample_loop_env
      (SaveEventsAndSendNotification [(''data'', JObj [(''data'', JObj [])])] (Some 50) ZMPushNotficationTypeAlert) sample_loop))"
  using ordinary_push_with_events_never_completes
    [of sample_loop_env sample_loop "[(''data'', JObj [(''data'', JObj [])])]" _ 50 ZMPushNotficationTypeAlert, OF refl]
  by (simp add: eventsFromPushChannelData_def optionalDictionaryForKey_def optionalStringForKey_def optionalValueForKey_def
      sample_loop_env_def sample_loop_def)

end
