(* ===== verification/SearchRequests.thy ===== *)
theory SearchRequests
  imports Paginator
begin

text \<open>
  What a search asks for and what it returns: \<^verbatim>\<open>ZMSearchRequest\<close>, \<^verbatim>\<open>ZMSearchResult\<close>, the paths and answers
  of the backend (\<^verbatim>\<open>ZMSearchRequestCodec\<close>), the suggestions (\<^verbatim>\<open>ZMSuggestionResult\<close>,
  \<^verbatim>\<open>ZMSuggestedUserCommonConnections\<close> and the metadata of \<^verbatim>\<open>NSManagedObjectContext+ZMSearchDirectory\<close>) and
  the matching of users with the address book (\<^verbatim>\<open>ZMAddressBookMatcher\<close>).

  The class \<^verbatim>\<open>ZMSearchUser\<close> belongs to the data model; its internal interface is declared here, so
  its properties are a record and its constructors a record of functions. The text of a query is a
  list of ASCII characters.
\<close>

section \<open>Search users\<close>

record ZMSearchUser =
  su_pointer :: nat
  su_remoteIdentifier :: "NSUUID option"
  su_user :: "ZMManagedObject option"
  su_contact :: "nat option"
  su_mediumAssetID :: "NSUUID option"
  su_topCommonConnections :: "NSUUID list"
  su_totalCommonConnections :: nat

datatype ZMSearchUser_msg =
    NotifyNewSmallImageData NSData
  | SetAndNotifyNewMediumImageData NSData

text \<open>Connections of a user, of the data model.\<close>

datatype (plugins only: code size) ZMConnectionStatus =
    ZMConnectionStatusInvalid | ZMConnectionStatusAccepted | ZMConnectionStatusPending
  | ZMConnectionStatusIgnored | ZMConnectionStatusBlocked | ZMConnectionStatusSent

record search_env =
  se_usersWithUsers :: "ZMManagedObject list \<Rightarrow> ZMSearchUser list"
  se_usersWithPayloadArray :: "json list \<Rightarrow> ZMSearchUser list"
  se_initWithContact :: "nat \<Rightarrow> ZMManagedObject option \<Rightarrow> ZMSearchUser"
  se_isConnected :: "ZMSearchUser \<Rightarrow> bool"
  se_selfUser :: ZMManagedObject
  se_userRemoteIdentifier :: "ZMManagedObject \<Rightarrow> NSUUID option"
  se_otherActiveParticipants :: "ZMManagedObject \<Rightarrow> ZMManagedObject list"
  se_optionalUuidForKey :: "NSString \<Rightarrow> (NSString \<times> json) list \<Rightarrow> NSUUID option"
  se_transportString :: "NSUUID \<Rightarrow> NSString"
  se_connectionStatus :: "ZMManagedObject \<Rightarrow> ZMConnectionStatus option"

section \<open>Requests for a search\<close>

record ZMSearchRequest =
  includeContacts :: bool
  includeAddressBookContacts :: bool
  includeGroupConversations :: bool
  includeDirectory :: bool
  includeRemoteResults :: bool
  sr_query :: "NSString option"
  filteredConversation :: "ZMManagedObject option"

definition init_search_request :: ZMSearchRequest where
  "init_search_request = \<lparr>includeContacts = False, includeAddressBookContacts = False,
     includeGroupConversations = False, includeDirectory = False, includeRemoteResults = False,
     sr_query = None, filteredConversation = None\<rparr>"

definition setQuery :: "NSString option \<Rightarrow> ZMSearchRequest \<Rightarrow> ZMSearchRequest" where
  "setQuery q r = r\<lparr>sr_query := map_option (\<lambda>t. take (min (length t) 200) t) q\<rparr>"

datatype (plugins only: code size) ZMSearchRequest_msg =
    SetIncludeContacts bool
  | SetIncludeAddressBookContacts bool
  | SetIncludeGroupConversations bool
  | SetIncludeDirectory bool
  | SetIncludeRemoteResults bool
  | SetQuery "NSString option"
  | SetFilteredConversation "ZMManagedObject option"

primrec ZMSearchRequest_send :: "ZMSearchRequest_msg \<Rightarrow> ZMSearchRequest \<Rightarrow> ZMSearchRequest" where
  "ZMSearchRequest_send (SetIncludeContacts b) r = r\<lparr>includeContacts := b\<rparr>"
| "ZMSearchRequest_send (SetIncludeAddressBookContacts b) r = r\<lparr>includeAddressBookContacts := b\<rparr>"
| "ZMSearchRequest_send (SetIncludeGroupConversations b) r = r\<lparr>includeGroupConversations := b\<rparr>"
| "ZMSearchRequest_send (SetIncludeDirectory b) r = r\<lparr>includeDirectory := b\<rparr>"
| "ZMSearchRequest_send (SetIncludeRemoteResults b) r = r\<lparr>includeRemoteResults := b\<rparr>"
| "ZMSearchRequest_send (SetQuery q) r = setQuery q r"
| "ZMSearchRequest_send (SetFilteredConversation c) r = r\<lparr>filteredConversation := c\<rparr>"

definition searchRequest_copy :: "ZMSearchRequest \<Rightarrow> ZMSearchRequest" where
  "searchRequest_copy r =
     run ZMSearchRequest_send init_search_request
       [SetIncludeContacts (includeContacts r), SetIncludeAddressBookContacts (includeAddressBookContacts r),
        SetIncludeGroupConversations (includeGroupConversations r), SetIncludeDirectory (includeDirectory r),
        SetIncludeRemoteResults (includeRemoteResults r), SetQuery (sr_query r),
        SetFilteredConversation (filteredConversation r)]"

text \<open>
  The hash is computed in \<^verbatim>\<open>NSUInteger\<close>, 64 bits that wrap around; the hashes of strings and of object
  identifiers are those of Foundation.
\<close>

definition searchRequest_hash ::
  "(NSString \<Rightarrow> 64 word) \<Rightarrow> (ZMManagedObject \<Rightarrow> 64 word) \<Rightarrow> ZMSearchRequest \<Rightarrow> 64 word" where
  "searchRequest_hash string_hash object_hash r =
     (let bump = \<lambda>b h. if b then h + (13 * h + 1) else h;
          h = bump (includeRemoteResults r) (bump (includeDirectory r) (bump (includeGroupConversations r)
                (bump (includeAddressBookContacts r) (bump (includeContacts r) 0))));
          h' = (case filteredConversation r of None \<Rightarrow> h | Some c \<Rightarrow> h + (13 * h + object_hash c))
      in case sr_query r of None \<Rightarrow> h' | Some q \<Rightarrow> h' + (13 + h' + string_hash q))"

text \<open>\<open>same\<close> says that both pointers are the same; \<^verbatim>\<open>isEqualToString:\<close> sent to or given \<^verbatim>\<open>nil\<close> is \<^verbatim>\<open>NO\<close>.\<close>

definition isEqualToSearchRequest :: "bool \<Rightarrow> ZMSearchRequest \<Rightarrow> ZMSearchRequest \<Rightarrow> bool" where
  "isEqualToSearchRequest same r s \<longleftrightarrow>
     same \<or>
     (case (sr_query r, sr_query s) of (Some p, Some q) \<Rightarrow> p = q | _ \<Rightarrow> False) \<and>
     includeContacts r = includeContacts s \<and>
     includeAddressBookContacts r = includeAddressBookContacts s \<and>
     includeGroupConversations r = includeGroupConversations s \<and>
     includeDirectory r = includeDirectory s \<and>
     includeRemoteResults r = includeRemoteResults s \<and>
     filteredConversation r = filteredConversation s"

definition addObjectE :: "'a option \<Rightarrow> 'a list \<Rightarrow> objc_failure + 'a list" where
  "addObjectE x xs = (case x of None \<Rightarrow> Inl NSInvalidArgumentException | Some y \<Rightarrow> Inr (xs @ [y]))"

definition ignoredIDs :: "search_env \<Rightarrow> ZMSearchRequest \<Rightarrow> objc_failure + NSUUID list" where
  "ignoredIDs env r =
     foldE (\<lambda>participant ids. addObjectE (se_userRemoteIdentifier env participant) ids)
       (case filteredConversation r of None \<Rightarrow> [] | Some c \<Rightarrow> se_otherActiveParticipants env c) []"

section \<open>Results of a search\<close>

record ZMSearchResult =
  usersInContacts :: "ZMSearchUser list"
  usersInDirectory :: "ZMSearchUser list"
  groupConversations :: "ZMManagedObject list"

definition init_search_result :: ZMSearchResult where
  "init_search_result = \<lparr>usersInContacts = [], usersInDirectory = [], groupConversations = []\<rparr>"

definition addUsersInContacts :: "ZMSearchUser list \<Rightarrow> ZMSearchResult \<Rightarrow> ZMSearchResult" where
  "addUsersInContacts us r = r\<lparr>usersInContacts := usersInContacts r @ us\<rparr>"

definition addUsersInDirectory :: "ZMSearchUser list \<Rightarrow> ZMSearchResult \<Rightarrow> ZMSearchResult" where
  "addUsersInDirectory us r = r\<lparr>usersInDirectory := usersInDirectory r @ us\<rparr>"

definition addGroupConversations :: "ZMManagedObject list \<Rightarrow> ZMSearchResult \<Rightarrow> ZMSearchResult" where
  "addGroupConversations cs r = r\<lparr>groupConversations := groupConversations r @ cs\<rparr>"

definition copyByRemovingUsersWithRemoteIdentifier :: "NSUUID option \<Rightarrow> ZMSearchResult \<Rightarrow> ZMSearchResult" where
  "copyByRemovingUsersWithRemoteIdentifier i r =
     (let copy = \<lparr>usersInContacts = usersInContacts r, usersInDirectory = usersInDirectory r,
                   groupConversations = groupConversations r\<rparr>;
          p = (\<lambda>user. su_remoteIdentifier user \<noteq> i)
      in if i = None then copy
         else copy\<lparr>usersInContacts := filter p (usersInContacts copy),
                    usersInDirectory := filter p (usersInDirectory copy)\<rparr>)"

datatype ZMSearchResult_msg =
    AddUsersInContacts "ZMSearchUser list"
  | AddGroupConversations "ZMManagedObject list"
  | AddUsersInDirectory "ZMSearchUser list"

primrec ZMSearchResult_send :: "ZMSearchResult_msg \<Rightarrow> ZMSearchResult \<Rightarrow> ZMSearchResult" where
  "ZMSearchResult_send (AddUsersInContacts us) r = addUsersInContacts us r"
| "ZMSearchResult_send (AddGroupConversations cs) r = addGroupConversations cs r"
| "ZMSearchResult_send (AddUsersInDirectory us) r = addUsersInDirectory us r"

definition allSearchUser :: "ZMSearchResult \<Rightarrow> ZMSearchUser list" where
  "allSearchUser r = oset_union (oset_union [] (usersInContacts r)) (usersInDirectory r)"

section \<open>Paths and answers of the backend\<close>

text \<open>
  \<^verbatim>\<open>stringByAddingPercentEncodingWithAllowedCharacters:\<close> of Foundation on ASCII text, and the allowed
  characters of a URL query without those that separate its parameters.
\<close>

definition hex_digit :: "nat \<Rightarrow> char" where
  "hex_digit n = (if n < 10 then char_of (48 + n) else char_of (55 + n))"

definition percent_encode :: "(char \<Rightarrow> bool) \<Rightarrow> NSString \<Rightarrow> NSString" where
  "percent_encode allowed s =
     concat (map (\<lambda>c. if allowed c then [c]
                      else [CHR ''%'', hex_digit (of_char c div 16), hex_digit (of_char c mod 16)]) s)"

definition URLQueryAllowedCharacterSet :: "char \<Rightarrow> bool" where
  "URLQueryAllowedCharacterSet c \<longleftrightarrow>
     (let n = (of_char c :: nat) in 48 \<le> n \<and> n \<le> 57 \<or> 65 \<le> n \<and> n \<le> 90 \<or> 97 \<le> n \<and> n \<le> 122) \<or>
     c \<in> set ''-._~!$&()*+,;=:@/?'' \<or> c = CHR 0x27"

definition search_allowed :: "char \<Rightarrow> bool" where
  "search_allowed c \<longleftrightarrow> URLQueryAllowedCharacterSet c \<and> c \<notin> set ''=&+''"

definition searchRequestForQueryString :: "NSString option \<Rightarrow> nat \<Rightarrow> nat \<Rightarrow> ZMTransportRequest" where
  "searchRequestForQueryString queryString levels fetchLimit =
     (let q = (case queryString of None \<Rightarrow> '''' | Some s \<Rightarrow> s);
          urlEncodedQuery = percent_encode search_allowed q
      in requestGetFromPath (''/search/contacts'' @ ''?q='' @ urlEncodedQuery @
           ''&l='' @ string_of_nat levels @ ''&size='' @ string_of_nat fetchLimit))"

definition searchRequestForTopConversations :: "nat \<Rightarrow> ZMTransportRequest" where
  "searchRequestForTopConversations fetchLimit =
     requestGetFromPath (''/search/top'' @ ''?size='' @ string_of_nat fetchLimit)"

definition searchRequestForSuggestedPeople :: "nat \<Rightarrow> ZMTransportRequest" where
  "searchRequestForSuggestedPeople fetchLimit =
     requestGetFromPath (''/search/suggestions'' @ ''?size='' @ string_of_nat fetchLimit)"

text \<open>
  The documents of an answer must be dictionaries: any other value does not understand
  \<^verbatim>\<open>optionalUuidForKey:\<close>.
\<close>

primrec document :: "json \<Rightarrow> objc_failure + (NSString \<times> json) list" where
  "document (JObj d) = Inr d"
| "document JNull = Inl NSInvalidArgumentException"
| "document (JBool b) = Inl NSInvalidArgumentException"
| "document (JNum n) = Inl NSInvalidArgumentException"
| "document (JStr s) = Inl NSInvalidArgumentException"
| "document (JArr xs) = Inl NSInvalidArgumentException"

definition searchResultFromTransportResponse ::
  "search_env \<Rightarrow> ZMTransportResponse \<Rightarrow> NSUUID list \<Rightarrow> objc_failure + ZMSearchResult option" where
  "searchResultFromTransportResponse env response ignored =
     (case optionalArrayForKey ''documents'' (asDictionary (resp_payload response)) of
        None \<Rightarrow> Inr None
      | Some users \<Rightarrow>
          bindE (foldE (\<lambda>user payloadArray. bindE (document user) (\<lambda>d.
                   case se_optionalUuidForKey env ''id'' d of
                     None \<Rightarrow> Inr payloadArray
                   | Some identifier \<Rightarrow>
                       if identifier \<in> set ignored \<or> se_userRemoteIdentifier env (se_selfUser env) = Some identifier
                       then Inr payloadArray else Inr (payloadArray @ [user]))) users [])
            (\<lambda>payloadArray.
               let searchUsers = se_usersWithPayloadArray env payloadArray;
                   connectedUsers = filter (se_isConnected env) searchUsers;
                   directoryUsers = filter (\<lambda>u. \<not> se_isConnected env u) searchUsers
               in Inr (Some (addUsersInContacts connectedUsers
                               (addUsersInDirectory directoryUsers init_search_result)))))"

section \<open>Suggestions\<close>

record ZMSuggestedUserCommonConnections =
  cc_empty :: bool
  topCommonConnectionsIDs :: "json list option"
  totalCommonConnections :: "64 word"

text \<open>\<^verbatim>\<open>unsignedIntegerValue\<close> of a number of the payload; a missing number is 0.\<close>

definition unsignedIntegerForKey :: "NSString \<Rightarrow> (NSString \<times> json) list option \<Rightarrow> 64 word" where
  "unsignedIntegerForKey k d =
     (case optionalValueForKey k d of Some (JNum n) \<Rightarrow> word_of_int n | Some (JBool b) \<Rightarrow> of_bool b | _ \<Rightarrow> 0)"

definition commonConnections_initWithPayload ::
  "NSString \<Rightarrow> NSString \<Rightarrow> (NSString \<times> json) list \<Rightarrow> ZMSuggestedUserCommonConnections" where
  "commonConnections_initWithPayload mutualFriendsKey totalMutualFriendsKey payload =
     \<lparr>cc_empty = False,
      topCommonConnectionsIDs =
        Some (case optionalArrayForKey mutualFriendsKey (Some payload) of None \<Rightarrow> [] | Some xs \<Rightarrow> oset_union [] xs),
      totalCommonConnections = unsignedIntegerForKey totalMutualFriendsKey (Some payload)\<rparr>"

definition emptyEntry :: ZMSuggestedUserCommonConnections where
  "emptyEntry = \<lparr>cc_empty = True, topCommonConnectionsIDs = None, totalCommonConnections = 0\<rparr>"

text \<open>What an \<^verbatim>\<open>NSCoder\<close> holds after an object has encoded itself: a value for each key.\<close>

datatype coded = CodedObjects "json list" | CodedInteger "64 word"

definition commonConnections_encode :: "ZMSuggestedUserCommonConnections \<Rightarrow> (NSString \<times> coded) list" where
  "commonConnections_encode c =
     (case topCommonConnectionsIDs c of None \<Rightarrow> [] | Some ids \<Rightarrow> [(''topCommonConnections'', CodedObjects ids)]) @
     [(''totalCommonConnections'', CodedInteger (totalCommonConnections c))]"

definition commonConnections_initWithCoder :: "(NSString \<times> coded) list \<Rightarrow> ZMSuggestedUserCommonConnections" where
  "commonConnections_initWithCoder coder =
     \<lparr>cc_empty = False,
      topCommonConnectionsIDs =
        (case map_of coder ''topCommonConnections'' of Some (CodedObjects ids) \<Rightarrow> Some ids | _ \<Rightarrow> None),
      totalCommonConnections =
        (case map_of coder ''totalCommonConnections'' of Some (CodedInteger n) \<Rightarrow> n | _ \<Rightarrow> 0)\<rparr>"

record ZMSuggestionResult =
  sg_userIdentifier :: NSUUID
  sg_commonConnections :: ZMSuggestedUserCommonConnections

definition isEqualToSuggestionResult :: "ZMSuggestionResult \<Rightarrow> ZMSuggestionResult \<Rightarrow> bool" where
  "isEqualToSuggestionResult r s \<longleftrightarrow> sg_userIdentifier r = sg_userIdentifier s"

text \<open>
  \<^verbatim>\<open>ZMSuggestionResult\<close> has its own \<^verbatim>\<open>isEqual:\<close> but the \<^verbatim>\<open>hash\<close> of \<^verbatim>\<open>NSObject\<close>, so whether an ordered set finds
  an equal member depends on addresses: \<open>collide n\<close> says so for the \<open>n\<close>-th member.
\<close>

definition suggestions_add :: "(nat \<Rightarrow> bool) \<Rightarrow> ZMSuggestionResult \<Rightarrow> ZMSuggestionResult list \<Rightarrow> ZMSuggestionResult list" where
  "suggestions_add collide r rs =
     (if \<exists>n \<in> set [0..<length rs]. collide n \<and> isEqualToSuggestionResult (rs ! n) r then rs else rs @ [r])"

definition remoteIdentifiersForSuggestedPeopleSearchResponse ::
  "search_env \<Rightarrow> (nat \<Rightarrow> bool) \<Rightarrow> NSString \<times> NSString \<Rightarrow> bool \<Rightarrow> ZMTransportResponse \<Rightarrow>
   objc_failure + ZMSuggestionResult list option" where
  "remoteIdentifiersForSuggestedPeopleSearchResponse env collide keys transportSessionError response =
     (if resp_result response \<noteq> ZMTransportResponseStatusSuccess \<or> transportSessionError then Inr None
      else case optionalArrayForKey ''documents'' (asDictionary (resp_payload response)) of
        None \<Rightarrow> Inr None
      | Some users \<Rightarrow>
          map_sum id Some (foldE (\<lambda>user suggested. bindE (document user) (\<lambda>d.
            let connections = commonConnections_initWithPayload (fst keys) (snd keys) d
            in case se_optionalUuidForKey env ''id'' d of
                 None \<Rightarrow> Inr suggested
               | Some identifier \<Rightarrow>
                   Inr (suggestions_add collide
                          \<lparr>sg_userIdentifier = identifier, sg_commonConnections = connections\<rparr> suggested))) users []))"

datatype ZMSearchRequestCodec_msg =
    SearchRequestForQueryString "NSString option" nat nat
  | SearchRequestForTopConversations nat
  | SearchRequestForSuggestedPeople nat

primrec ZMSearchRequestCodec_send :: "ZMSearchRequestCodec_msg \<Rightarrow> ZMTransportRequest" where
  "ZMSearchRequestCodec_send (SearchRequestForQueryString q l n) = searchRequestForQueryString q l n"
| "ZMSearchRequestCodec_send (SearchRequestForTopConversations n) = searchRequestForTopConversations n"
| "ZMSearchRequestCodec_send (SearchRequestForSuggestedPeople n) = searchRequestForSuggestedPeople n"

section \<open>Suggestions in the metadata of the store\<close>

text \<open>
  The three values kept in the metadata of the persistent store, \<open>None\<close> when there is no archive or
  \<^verbatim>\<open>nil\<close> was archived. Setting one posts a notification, listed in \<open>sm_posted\<close>.
\<close>

datatype suggestion_note =
    ZMSuggestedUsersForUserDidChange
  | ZMCommonConnectionsForUsersDidChange
  | ZMRemovedSuggestedContactRemoteIdentifiersDidChange

record search_metadata =
  sm_suggestedUsers :: "NSUUID list option"
  sm_commonConnections :: "(NSUUID \<times> ZMSuggestedUserCommonConnections) list option"
  sm_removedSuggested :: "NSUUID list option"
  sm_posted :: "suggestion_note list"

definition get_suggestedUsersForUser :: "search_metadata \<Rightarrow> NSUUID list option" where
  "get_suggestedUsersForUser m = map_option (oset_union []) (sm_suggestedUsers m)"

definition setSuggestedUsersForUser :: "NSUUID list option \<Rightarrow> search_metadata \<Rightarrow> search_metadata" where
  "setSuggestedUsersForUser us m =
     m\<lparr>sm_suggestedUsers := us, sm_posted := sm_posted m @ [ZMSuggestedUsersForUserDidChange]\<rparr>"

definition setCommonConnectionsForUsers ::
  "(NSUUID \<times> ZMSuggestedUserCommonConnections) list option \<Rightarrow> search_metadata \<Rightarrow> search_metadata" where
  "setCommonConnectionsForUsers cs m =
     m\<lparr>sm_commonConnections :=
          map_option (map (apsnd (commonConnections_initWithCoder \<circ> commonConnections_encode))) cs,
       sm_posted := sm_posted m @ [ZMCommonConnectionsForUsersDidChange]\<rparr>"

definition setRemovedSuggestedContactRemoteIdentifiers :: "NSUUID list option \<Rightarrow> search_metadata \<Rightarrow> search_metadata" where
  "setRemovedSuggestedContactRemoteIdentifiers us m =
     m\<lparr>sm_removedSuggested := us,
       sm_posted := sm_posted m @ [ZMRemovedSuggestedContactRemoteIdentifiersDidChange]\<rparr>"

datatype search_metadata_msg =
    SetSuggestedUsersForUser "NSUUID list option"
  | SetCommonConnectionsForUsers "(NSUUID \<times> ZMSuggestedUserCommonConnections) list option"
  | SetRemovedSuggestedContactRemoteIdentifiers "NSUUID list option"

primrec search_metadata_send :: "search_metadata_msg \<Rightarrow> search_metadata \<Rightarrow> search_metadata" where
  "search_metadata_send (SetSuggestedUsersForUser us) m = setSuggestedUsersForUser us m"
| "search_metadata_send (SetCommonConnectionsForUsers cs) m = setCommonConnectionsForUsers cs m"
| "search_metadata_send (SetRemovedSuggestedContactRemoteIdentifiers us) m =
     setRemovedSuggestedContactRemoteIdentifiers us m"

section \<open>Users and the address book\<close>

record ZMAddressBookContact =
  ab_contact :: nat
  ab_name :: NSString
  emailAddresses :: "NSString list"
  phoneNumbers :: "NSString list"

record matched_user =
  mu_user :: ZMManagedObject
  mu_emailAddress :: "NSString option"
  mu_phoneNumber :: "NSString option"

datatype ZMAddressBookMatcher_msg =
    ContactForUser matched_user
  | MatchUsers "matched_user list" "ZMAddressBookContact list"
  | ContactsMatchingQuery "NSString option"

text \<open>\<open>contains\<close> is \<^verbatim>\<open>CONTAINS[cd]\<close>, insensitive to case and diacritics, of \<^verbatim>\<open>NSPredicate\<close>.\<close>

definition contactsMatchingQuery ::
  "(NSString \<Rightarrow> NSString \<Rightarrow> bool) \<Rightarrow> ZMAddressBookContact list \<Rightarrow> NSString option \<Rightarrow> ZMAddressBookContact list" where
  "contactsMatchingQuery contains contacts q =
     (case q of None \<Rightarrow> contacts
      | Some t \<Rightarrow> if length t = 0 then contacts else filter (\<lambda>c. contains (ab_name c) t) contacts)"

definition is_listed :: "NSString option \<Rightarrow> NSString list \<Rightarrow> bool" where
  "is_listed s xs \<longleftrightarrow> (case s of None \<Rightarrow> False | Some t \<Rightarrow> length t > 0 \<and> t \<in> set xs)"

primrec contactForUser :: "ZMAddressBookContact list \<Rightarrow> matched_user \<Rightarrow> ZMAddressBookContact option" where
  "contactForUser [] user = None"
| "contactForUser (contact # contacts) user =
     (if is_listed (mu_emailAddress user) (emailAddresses contact) then Some contact
      else if is_listed (mu_phoneNumber user) (phoneNumbers contact) then Some contact
      else contactForUser contacts user)"

definition index_users :: "(matched_user \<Rightarrow> NSString option) \<Rightarrow> matched_user list \<Rightarrow> (NSString \<times> matched_user) list" where
  "index_users key users =
     fold (\<lambda>user d. case key user of None \<Rightarrow> d | Some k \<Rightarrow> if length k > 0 then dict_put k user d else d) users []"

fun first_indexed :: "(NSString \<times> matched_user) list \<Rightarrow> NSString list \<Rightarrow> matched_user option" where
  "first_indexed d [] = None"
| "first_indexed d (k # ks) = (case map_of d k of Some u \<Rightarrow> Some u | None \<Rightarrow> first_indexed d ks)"

definition match_contact ::
  "(NSString \<times> matched_user) list \<Rightarrow> (NSString \<times> matched_user) list \<Rightarrow> ZMAddressBookContact \<Rightarrow> matched_user option" where
  "match_contact phoneNumberIndex emailAddressIndex contact =
     (case first_indexed emailAddressIndex (emailAddresses contact) of
        Some u \<Rightarrow> Some u
      | None \<Rightarrow> first_indexed phoneNumberIndex (phoneNumbers contact))"

fun indexOfObject :: "'a list \<Rightarrow> 'a \<Rightarrow> nat" where
  "indexOfObject [] x = 0"
| "indexOfObject (y # ys) x = (if y = x then 0 else Suc (indexOfObject ys x))"

definition removeObjectsAtIndexes :: "nat list \<Rightarrow> 'a list \<Rightarrow> 'a list" where
  "removeObjectsAtIndexes is xs = map snd (filter (\<lambda>(i, x). i \<notin> set is) (zip [0..<length xs] xs))"

text \<open>The calls of the block, in order, and the index set that is returned.\<close>

definition matchUsers ::
  "matched_user list \<Rightarrow> ZMAddressBookContact list \<Rightarrow>
   (ZMAddressBookContact option \<times> matched_user option) list \<times> nat list" where
  "matchUsers users contacts =
     (let phoneNumberIndex = index_users mu_phoneNumber users;
          emailAddressIndex = index_users mu_emailAddress users;
          matches = map (\<lambda>c. (c, match_contact phoneNumberIndex emailAddressIndex c)) contacts;
          matchedIndexSet = oset_union [] (concat (map (\<lambda>(c, m). case m of None \<Rightarrow> [] | Some u \<Rightarrow> [indexOfObject users u]) matches));
          unmatchedUsers = removeObjectsAtIndexes matchedIndexSet users
      in (map (\<lambda>(c, m). (Some c, m)) matches @ map (\<lambda>u. (None, Some u)) unmatchedUsers, matchedIndexSet))"

datatype matcher_answer =
    FoundContact "ZMAddressBookContact option"
  | MatchedUsers "(ZMAddressBookContact option \<times> matched_user option) list" "nat list"
  | FoundContacts "ZMAddressBookContact list"

text \<open>A matcher holds the contacts it is made with; its methods only answer.\<close>

primrec ZMAddressBookMatcher_send ::
  "(NSString \<Rightarrow> NSString \<Rightarrow> bool) \<Rightarrow> ZMAddressBookMatcher_msg \<Rightarrow> ZMAddressBookContact list \<Rightarrow> matcher_answer" where
  "ZMAddressBookMatcher_send contains (ContactForUser u) contacts = FoundContact (contactForUser contacts u)"
| "ZMAddressBookMatcher_send contains (MatchUsers us cs) contacts =
     (case matchUsers us cs of (calls, indexes) \<Rightarrow> MatchedUsers calls indexes)"
| "ZMAddressBookMatcher_send contains (ContactsMatchingQuery q) contacts =
     FoundContacts (contactsMatchingQuery contains contacts q)"

definition contactInUserSession :: "ZMAddressBookContact list \<Rightarrow> matched_user \<Rightarrow> ZMAddressBookContact option" where
  "contactInUserSession addressBookContacts user = contactForUser addressBookContacts user"

section \<open>Requests as keys\<close>

lemma query_cropped: "q = sr_query (setQuery p r) \<Longrightarrow> (case q of None \<Rightarrow> True | Some t \<Rightarrow> length t \<le> 200)"
  by (cases p) (simp_all add: setQuery_def)

lemma cropped_send:
  "(case sr_query r of None \<Rightarrow> True | Some t \<Rightarrow> length t \<le> 200) \<Longrightarrow>
   (case sr_query (ZMSearchRequest_send m r) of None \<Rightarrow> True | Some t \<Rightarrow> length t \<le> 200)"
  by (cases m) (simp_all add: query_cropped)

interpretation search_request: component ZMSearchRequest_send "\<lambda>r. case sr_query r of None \<Rightarrow> True | Some t \<Rightarrow> length t \<le> 200"
  by unfold_locales (rule cropped_send)

lemma copy_of_cropped:
  "(case sr_query r of None \<Rightarrow> True | Some t \<Rightarrow> length t \<le> 200) \<Longrightarrow> searchRequest_copy r = r"
  by (cases r) (auto simp: searchRequest_copy_def init_search_request_def setQuery_def split: option.splits)

lemma isEqualToSearchRequest_iff:
  "isEqualToSearchRequest False r s \<longleftrightarrow> sr_query r \<noteq> None \<and> r = s"
  by (cases r; cases s) (auto simp: isEqualToSearchRequest_def split: option.splits)

text \<open>C32: Whatever setters a search request has received, its query, if it has one, is at most 200 characters long;
  the copy that a dictionary makes of it as a key has the same hash, and is equal to it exactly when the request has a
  query. Equality of requests is symmetric, and equal requests have equal hashes.
\<close>

theorem search_requests_work_as_keys:
  assumes "r = run ZMSearchRequest_send init_search_request ms"
  shows "(case sr_query r of None \<Rightarrow> True | Some q \<Rightarrow> length q \<le> 200) \<and>
    searchRequest_hash string_hash object_hash (searchRequest_copy r) = searchRequest_hash string_hash object_hash r \<and>
    (isEqualToSearchRequest False r (searchRequest_copy r) \<longleftrightarrow> sr_query r \<noteq> None) \<and>
    (isEqualToSearchRequest False r s \<longrightarrow> isEqualToSearchRequest False s r \<and>
       searchRequest_hash string_hash object_hash s = searchRequest_hash string_hash object_hash r)"
proof -
  have cropped: "case sr_query r of None \<Rightarrow> True | Some t \<Rightarrow> length t \<le> 200"
    unfolding assms by (rule search_request.run_invar) (simp add: init_search_request_def)
  with copy_of_cropped [OF cropped] show ?thesis
    by (auto simp: isEqualToSearchRequest_iff)
qed

theorem search_requests_work_as_keys_witness:
  "isEqualToSearchRequest False (setQuery (Some ''ann'') init_search_request)
     (searchRequest_copy (setQuery (Some ''ann'') init_search_request)) \<and>
   \<not> isEqualToSearchRequest False init_search_request (searchRequest_copy init_search_request) \<and>
   searchRequest_hash (\<lambda>_. 7) (\<lambda>_. 9) (searchRequest_copy (setQuery (Some ''ann'') init_search_request)) =
   searchRequest_hash (\<lambda>_. 7) (\<lambda>_. 9) (setQuery (Some ''ann'') init_search_request)"
  using search_requests_work_as_keys [of "setQuery (Some ''ann'') init_search_request" "[SetQuery (Some ''ann'')]"
      "\<lambda>_. 7" "\<lambda>_. 9"] search_requests_work_as_keys [of init_search_request "[]"]
  by (simp add: setQuery_def init_search_request_def)

section \<open>Paths\<close>

lemma char_nat_eq: "(c = d) = ((of_char c :: nat) = of_char d)"
  by simp

lemma hex_digit_not_amp: "n < 16 \<Longrightarrow> hex_digit n \<noteq> CHR ''&''"
  by (auto simp: hex_digit_def char_nat_eq)

lemma count_percent_encode:
  "\<not> allowed (CHR ''&'') \<Longrightarrow> count_list (percent_encode allowed s) (CHR ''&'') = 0"
proof (induction s)
  case (Cons c s)
  have "(of_char c :: nat) div 16 < 16"
    using nat_of_char_less_256 [of c] by (simp add: div_less_iff_less_mult)
  with Cons show ?case
    by (auto simp: percent_encode_def hex_digit_not_amp)
qed (simp add: percent_encode_def)

lemma digit_not_amp: "(n :: nat) < 10 \<Longrightarrow> char_of (48 + n) \<noteq> CHR ''&''"
  by (auto simp: char_nat_eq)

lemma count_string_of_nat: "count_list (string_of_nat n) (CHR ''&'') = 0"
proof (induction n rule: string_of_nat.induct)
  case (1 n)
  then show ?case
    by (subst string_of_nat.simps) (auto simp: digit_not_amp)
qed

text \<open>Whatever text is searched for, the path of the request has the two separators of its own
  template and no other: the text cannot add a parameter to the query or replace one.
\<close>

lemma query_text_adds_no_parameter:
  "count_list (req_path (searchRequestForQueryString q levels fetchLimit)) (CHR ''&'') = 2"
proof -
  have "\<not> search_allowed (CHR ''&'')"
    by (simp add: search_allowed_def)
  then show ?thesis
    by (simp add: searchRequestForQueryString_def requestGetFromPath_def count_percent_encode
        count_string_of_nat Let_def)
qed

section \<open>Answers\<close>

lemma filtered_documents:
  assumes "foldE (\<lambda>user payloadArray. bindE (document user) (\<lambda>d.
      case uuid d of None \<Rightarrow> Inr payloadArray
      | Some i \<Rightarrow> if bad i then Inr payloadArray else Inr (payloadArray @ [user]))) users acc = Inr out"
    and "x \<in> set out"
  shows "x \<in> set acc \<or> (x \<in> set users \<and> (\<exists>d i. document x = Inr d \<and> uuid d = Some i \<and> \<not> bad i))"
  using assms
proof (induction users arbitrary: acc)
  case (Cons u users)
  from Cons.prems(1) obtain d where d: "document u = Inr d"
    by (auto simp: bindE_def split: sum.splits)
  show ?case
  proof (cases "uuid d")
    case None
    with d Cons show ?thesis by auto
  next
    case (Some i)
    with d Cons.prems Cons.IH [of acc] Cons.IH [of "acc @ [u]"] show ?thesis
      by (cases "bad i"; cases "x = u") auto
  qed
qed simp

text \<open>C31: The users a remote search returns never contain the own user or an ignored user: when the
  search users made from documents carry the identifiers of those documents, every user in the
  contacts or the directory part has an identifier that is neither ignored nor the own one.
\<close>

theorem remote_results_hide_ignored_users:
  assumes "searchResultFromTransportResponse env response ignored = Inr (Some r)"
    and "u \<in> set (usersInContacts r) \<union> set (usersInDirectory r)"
    and payload_users: "\<And>docs v. v \<in> set (se_usersWithPayloadArray env docs) \<Longrightarrow>
      \<exists>x \<in> set docs. \<exists>d. document x = Inr d \<and> su_remoteIdentifier v = se_optionalUuidForKey env ''id'' d"
  shows "\<exists>i. su_remoteIdentifier u = Some i \<and> i \<notin> set ignored \<and>
    se_userRemoteIdentifier env (se_selfUser env) \<noteq> Some i"
proof -
  from assms(1) obtain docs kept where
    "foldE (\<lambda>user payloadArray. bindE (document user) (\<lambda>d.
       case se_optionalUuidForKey env ''id'' d of None \<Rightarrow> Inr payloadArray
       | Some i \<Rightarrow> if i \<in> set ignored \<or> se_userRemoteIdentifier env (se_selfUser env) = Some i
           then Inr payloadArray else Inr (payloadArray @ [user]))) docs [] = Inr kept"
    and r: "r = addUsersInContacts (filter (se_isConnected env) (se_usersWithPayloadArray env kept))
      (addUsersInDirectory (filter (\<lambda>u. \<not> se_isConnected env u) (se_usersWithPayloadArray env kept)) init_search_result)"
    by (auto simp: searchResultFromTransportResponse_def Let_def split: option.splits)
  note kept = filtered_documents [OF this(1)]
  from assms(2) r have "u \<in> set (se_usersWithPayloadArray env kept)"
    by (auto simp: addUsersInContacts_def addUsersInDirectory_def init_search_result_def)
  from payload_users [OF this] kept show ?thesis
    by fastforce
qed

definition sample_search_user :: "nat \<Rightarrow> ZMSearchUser" where
  "sample_search_user i = \<lparr>su_pointer = i, su_remoteIdentifier = Some i, su_user = None, su_contact = None,
     su_mediumAssetID = None, su_topCommonConnections = [], su_totalCommonConnections = 0\<rparr>"

primrec sample_document_user :: "json \<Rightarrow> ZMSearchUser list" where
  "sample_document_user (JObj d) = [sample_search_user (length d)]"
| "sample_document_user JNull = []"
| "sample_document_user (JBool b) = []"
| "sample_document_user (JNum n) = []"
| "sample_document_user (JStr s) = []"
| "sample_document_user (JArr xs) = []"

definition sample_search_env :: search_env where
  "sample_search_env = \<lparr>se_usersWithUsers = map (\<lambda>u. sample_search_user u\<lparr>su_user := Some u\<rparr>),
     se_usersWithPayloadArray = (\<lambda>docs. concat (map sample_document_user docs)),
     se_initWithContact = (\<lambda>c u. sample_search_user c\<lparr>su_remoteIdentifier := u, su_user := u, su_contact := Some c\<rparr>),
     se_isConnected = (\<lambda>_. False), se_selfUser = 5, se_userRemoteIdentifier = Some,
     se_otherActiveParticipants = (\<lambda>_. []), se_optionalUuidForKey = (\<lambda>_ d. Some (length d)),
     se_transportString = string_of_nat, se_connectionStatus = (\<lambda>_. None)\<rparr>"

definition sample_answer :: ZMTransportResponse where
  "sample_answer = \<lparr>resp_result = ZMTransportResponseStatusSuccess, resp_HTTPStatus = 200,
     resp_payload = Some (JObj [(''documents'', JArr [JObj [(''id'', JStr ''a'')], JObj []])]),
     resp_payloadLabel = None\<rparr>"

lemma sample_payload_users:
  "v \<in> set (se_usersWithPayloadArray sample_search_env docs) \<Longrightarrow>
   \<exists>x \<in> set docs. \<exists>d. document x = Inr d \<and> su_remoteIdentifier v = se_optionalUuidForKey sample_search_env ''id'' d"
proof -
  have "v \<in> set (sample_document_user x) \<Longrightarrow>
      \<exists>d. document x = Inr d \<and> su_remoteIdentifier v = se_optionalUuidForKey sample_search_env ''id'' d" for x
    by (cases x) (simp_all add: sample_search_env_def sample_search_user_def)
  then show "v \<in> set (se_usersWithPayloadArray sample_search_env docs) \<Longrightarrow> ?thesis"
    by (fastforce simp: sample_search_env_def)
qed

theorem remote_results_hide_ignored_users_witness:
  "\<exists>i. su_remoteIdentifier (sample_search_user 1) = Some i \<and> i \<notin> set [0] \<and>
     se_userRemoteIdentifier sample_search_env (se_selfUser sample_search_env) \<noteq> Some i"
  by (rule remote_results_hide_ignored_users [of sample_search_env sample_answer "[0]"
        "addUsersInDirectory [sample_search_user 1] init_search_result"])
     (simp_all add: searchResultFromTransportResponse_def sample_answer_def optionalArrayForKey_def
       optionalValueForKey_def addUsersInDirectory_def addUsersInContacts_def init_search_result_def Let_def
       sample_payload_users, simp_all add: sample_search_env_def)

section \<open>Archived suggestions\<close>

text \<open>
  An archived entry comes back with its connections and its count, but never as an empty one:
  \<^verbatim>\<open>encodeWithCoder:\<close> does not write \<^verbatim>\<open>empty\<close>.
\<close>

lemma common_connections_round_trip:
  "commonConnections_initWithCoder (commonConnections_encode c) = c\<lparr>cc_empty := False\<rparr>"
  by (cases c) (simp add: commonConnections_initWithCoder_def commonConnections_encode_def split: option.split)

lemma empty_entry_is_not_empty_after_archiving:
  "cc_empty emptyEntry \<and> \<not> cc_empty (commonConnections_initWithCoder (commonConnections_encode emptyEntry))"
  by (simp add: common_connections_round_trip) (simp add: emptyEntry_def)

lemma removed_user_is_gone:
  "u \<in> set (allSearchUser (copyByRemovingUsersWithRemoteIdentifier (Some i) r)) \<longleftrightarrow>
   u \<in> set (allSearchUser r) \<and> su_remoteIdentifier u \<noteq> Some i"
  by (auto simp: allSearchUser_def copyByRemovingUsersWithRemoteIdentifier_def Let_def)

section \<open>Matching the address book\<close>

lemma index_users_mem:
  "map_of (fold (\<lambda>user d. case key user of None \<Rightarrow> d
      | Some k \<Rightarrow> if length k > 0 then dict_put k user d else d) users acc) k = Some u \<Longrightarrow>
   u \<in> set users \<or> map_of acc k = Some u"
proof (induction users arbitrary: acc)
  case (Cons v users)
  from Cons.IH [OF Cons.prems [unfolded fold_Cons comp_def]] show ?case
    by (auto split: option.splits if_splits)
qed simp

lemma first_indexed_mem: "first_indexed d ks = Some u \<Longrightarrow> \<exists>k. map_of d k = Some u"
  by (induction d ks rule: first_indexed.induct) (auto split: option.splits)

lemma match_contact_mem:
  "match_contact (index_users mu_phoneNumber users) (index_users mu_emailAddress users) c = Some u \<Longrightarrow> u \<in> set users"
  using index_users_mem [where acc = "[]"]
  by (fastforce simp: match_contact_def index_users_def split: option.splits dest: first_indexed_mem)

lemma indexOfObject_nth: "x \<in> set xs \<Longrightarrow> indexOfObject xs x < length xs \<and> xs ! indexOfObject xs x = x"
  by (induction xs) auto

lemma set_removeObjectsAtIndexes: "set (removeObjectsAtIndexes is xs) = {xs ! i |i. i < length xs \<and> i \<notin> set is}"
  by (force simp: removeObjectsAtIndexes_def set_zip image_iff)

lemma unmatched_iff:
  assumes "distinct xs"
  shows "x \<in> set (removeObjectsAtIndexes is xs) \<longleftrightarrow> x \<in> set xs \<and> indexOfObject xs x \<notin> set is"
  using assms indexOfObject_nth [of _ xs]
  by (auto simp: set_removeObjectsAtIndexes) (metis nth_eq_iff_index_eq nth_mem)+

lemma matched_indexes:
  "set (concat (map (\<lambda>(c, m). case m of None \<Rightarrow> [] | Some u \<Rightarrow> [f u]) ms)) = {f u |u c. (c, Some u) \<in> set ms}"
  by (induction ms) (auto split: option.splits)

text \<open>C40: Matching users with contacts loses nobody: when no user is listed twice, the block is called
  with every user, only with those users, and with a user and no contact exactly when no contact
  was matched to that user.
\<close>

theorem matching_loses_no_user:
  assumes "distinct users" and "fst (matchUsers users contacts) = calls"
  shows "(u \<in> set users \<longleftrightarrow> (\<exists>c. (c, Some u) \<in> set calls)) \<and>
    ((None, Some u) \<in> set calls \<longleftrightarrow> u \<in> set users \<and> (\<forall>c. (Some c, Some u) \<notin> set calls))"
proof -
  define m where "m = match_contact (index_users mu_phoneNumber users) (index_users mu_emailAddress users)"
  define ixs where "ixs = snd (matchUsers users contacts)"
  have calls: "(Some c, v) \<in> set calls \<longleftrightarrow> c \<in> set contacts \<and> m c = v" for c v
    using assms(2) by (auto simp: matchUsers_def m_def Let_def)
  have alone: "(None, Some u) \<in> set calls \<longleftrightarrow> u \<in> set (removeObjectsAtIndexes ixs users)"
    using assms(2) by (auto simp: matchUsers_def ixs_def Let_def)
  have ixs: "set ixs = {indexOfObject users v |v c. c \<in> set contacts \<and> m c = Some v}"
    by (auto simp: ixs_def matchUsers_def m_def Let_def matched_indexes) metis
  have mem: "m c = Some v \<Longrightarrow> v \<in> set users" for c v
    unfolding m_def by (rule match_contact_mem)
  have "u \<in> set users \<Longrightarrow> indexOfObject users u \<in> set ixs \<longleftrightarrow> (\<exists>c. (Some c, Some u) \<in> set calls)"
    using ixs mem calls by clarsimp (metis indexOfObject_nth)
  with alone unmatched_iff [OF assms(1), of u ixs] calls mem show ?thesis
    by (metis option.exhaust)
qed

definition sample_user :: "nat \<Rightarrow> matched_user" where
  "sample_user n = \<lparr>mu_user = n, mu_emailAddress = (if n = 2 then Some ''b'' else None), mu_phoneNumber = None\<rparr>"

definition sample_contact :: ZMAddressBookContact where
  "sample_contact = \<lparr>ab_contact = 9, ab_name = ''B'', emailAddresses = [''b''], phoneNumbers = []\<rparr>"

theorem matching_loses_no_user_witness:
  "(sample_user 2 \<in> set [sample_user 2, sample_user 3] \<longleftrightarrow>
     (\<exists>c. (c, Some (sample_user 2)) \<in> set [(Some sample_contact, Some (sample_user 2)), (None, Some (sample_user 3))])) \<and>
   ((None, Some (sample_user 2)) \<in> set [(Some sample_contact, Some (sample_user 2)), (None, Some (sample_user 3))] \<longleftrightarrow>
     sample_user 2 \<in> set [sample_user 2, sample_user 3] \<and>
     (\<forall>c. (Some c, Some (sample_user 2)) \<notin>
        set [(Some sample_contact, Some (sample_user 2)), (None, Some (sample_user 3))]))"
  by (rule matching_loses_no_user [of _ "[sample_contact]"])
     (simp_all add: matchUsers_def index_users_def match_contact_def removeObjectsAtIndexes_def sample_user_def
       sample_contact_def upt_rec oset_add_def)

end
