(* ===== verification/Searches.thy ===== *)
theory Searches
  imports SearchRequests
begin

text \<open>
  \<^verbatim>\<open>ZMSearch\<close>: one search, which asks the local store and the backend at the same time and returns one
  result: the combined one when both have answered, the local one when the backend is too late.

  The search works on three queues, and what it has handed to them is part of its state: the local
  searches that wait on the search context, the blocks that wait on the user interface context, the
  requests the transport session has not answered and the timers that have not fired. A step
  (\<open>search_step\<close>) lets any one of them run. The fetches belong to the data model.
\<close>

section \<open>State\<close>

datatype (plugins only: code size) ZMSearchState =
    ZMSearchStateNotStarted
  | ZMSearchStateInProgress
  | ZMSearchStateFirstSearchDone
  | ZMSearchStateFirstSearchDidNotFinish
  | ZMSearchStateDone

datatype ui_block = UILocalResults "ZMManagedObject list" "ZMManagedObject list" | UIRemoteDidNotFinish

record ZMSearch =
  zs_request :: ZMSearchRequest
  zs_timeout :: NSTimeInterval
  zs_updateDelay :: NSTimeInterval
  zs_resultHandler :: bool
  zs_state :: ZMSearchState
  remoteSearchResult :: "ZMSearchResult option"
  localSearchResult :: "ZMSearchResult option"
  zs_alive :: bool
  zs_timeoutTimer :: bool
  zs_updateDelayTimer :: bool
  zs_otherTimeoutTimers :: nat
  zs_otherUpdateDelayTimers :: nat
  zs_cached :: "ZMSearchResult option"
  zs_localSearches :: nat
  zs_uiBlocks :: "ui_block list"
  zs_enqueued :: "ZMTransportRequest list"
  zs_delivered :: "ZMSearchResult option list"
  zs_verifyFailures :: nat

record search_store =
  ss_search :: search_env
  ss_transportSession :: bool
  ss_connectedUsers :: "NSString option \<Rightarrow> ZMManagedObject list"
  ss_conversations :: "NSString option \<Rightarrow> ZMManagedObject list"
  ss_userDefinedNameMatches :: "NSString option \<Rightarrow> ZMManagedObject \<Rightarrow> bool"

text \<open>A search is equal only to itself, so the cache of the results has one entry for it.\<close>

definition init_search :: "ZMSearchRequest \<Rightarrow> bool \<Rightarrow> ZMSearch" where
  "init_search r alive = \<lparr>zs_request = r, zs_timeout = 0, zs_updateDelay = 0, zs_resultHandler = False,
     zs_state = ZMSearchStateNotStarted, remoteSearchResult = None, localSearchResult = None,
     zs_alive = alive, zs_timeoutTimer = False, zs_updateDelayTimer = False,
     zs_otherTimeoutTimers = 0, zs_otherUpdateDelayTimers = 0, zs_cached = None,
     zs_localSearches = 0, zs_uiBlocks = [], zs_enqueued = [], zs_delivered = [], zs_verifyFailures = 0\<rparr>"

definition search_tokenForRequest :: "ZMSearchRequest \<Rightarrow> ZMSearchRequest" where
  "search_tokenForRequest r = r"

section \<open>Finishing\<close>

definition search_sendSearchResult :: "ZMSearchResult option \<Rightarrow> ZMSearch \<Rightarrow> ZMSearch" where
  "search_sendSearchResult r s =
     (if zs_resultHandler s then s\<lparr>zs_delivered := zs_delivered s @ [r]\<rparr> else s)"

text \<open>
  A new timer replaces the property, but the timer it had before stays scheduled until it fires; those
  are counted in \<open>zs_otherTimeoutTimers\<close> and \<open>zs_otherUpdateDelayTimers\<close>.
\<close>

definition startCacheInvalidationTimer :: "ZMSearch \<Rightarrow> ZMSearch" where
  "startCacheInvalidationTimer s =
     s\<lparr>zs_updateDelayTimer := True,
       zs_otherUpdateDelayTimers := zs_otherUpdateDelayTimers s + of_bool (zs_updateDelayTimer s)\<rparr>"

definition finishSearchWithSearchResult :: "ZMSearchResult option \<Rightarrow> ZMSearch \<Rightarrow> ZMSearch" where
  "finishSearchWithSearchResult r s =
     (let s = s\<lparr>zs_state := ZMSearchStateDone, remoteSearchResult := None, localSearchResult := None\<rparr>;
          s = (if r \<noteq> None
               then startCacheInvalidationTimer (if zs_alive s then s\<lparr>zs_cached := r\<rparr> else s) else s)
      in search_sendSearchResult r s)"

definition cacheDidTimeOut :: "ZMSearch \<Rightarrow> ZMSearch" where
  "cacheDidTimeOut s = (if zs_alive s then s\<lparr>zs_cached := None\<rparr> else s)"

text \<open>A result that exists has lists, so \<^verbatim>\<open>?:\<close> falls back on the local ones only without a remote result.\<close>

definition combineLocalResult :: "ZMSearchResult option \<Rightarrow> ZMSearchResult option \<Rightarrow> ZMSearchResult" where
  "combineLocalResult localResult remoteResult =
     (let parts = (\<lambda>f. case map_option f localResult of None \<Rightarrow> [] | Some xs \<Rightarrow> xs);
          either = (\<lambda>f. case map_option f remoteResult of Some xs \<Rightarrow> xs | None \<Rightarrow> parts f)
      in addGroupConversations (case localResult of None \<Rightarrow> [] | Some l \<Rightarrow> groupConversations l)
           (addUsersInDirectory (either usersInDirectory)
             (addUsersInContacts (either usersInContacts) init_search_result)))"

definition verifyFailed :: "ZMSearch \<Rightarrow> ZMSearch" where
  "verifyFailed s = s\<lparr>zs_verifyFailures := Suc (zs_verifyFailures s)\<rparr>"

section \<open>The local search\<close>

definition startLocalSearch :: "ZMSearch \<Rightarrow> ZMSearch" where
  "startLocalSearch s = (if zs_alive s then s\<lparr>zs_localSearches := Suc (zs_localSearches s)\<rparr> else s)"

definition sortedConversationResults :: "('a \<Rightarrow> bool) \<Rightarrow> 'a list \<Rightarrow> 'a list" where
  "sortedConversationResults matches cs = filter matches cs @ filter (\<lambda>c. \<not> matches c) cs"

definition conversationsMatchingSearchString :: "search_store \<Rightarrow> NSString option \<Rightarrow> ZMManagedObject list" where
  "conversationsMatchingSearchString env q =
     sortedConversationResults (ss_userDefinedNameMatches env q) (ss_conversations env q)"

text \<open>The block on the search context; after \<^verbatim>\<open>tearDown\<close> there is no context to pass the results to.\<close>

definition run_localSearch :: "search_store \<Rightarrow> ZMSearch \<Rightarrow> ZMSearch" where
  "run_localSearch env s =
     (let r = zs_request s;
          userResults = (if includeContacts r then ss_connectedUsers env (sr_query r) else []);
          conversations = (if includeGroupConversations r then conversationsMatchingSearchString env (sr_query r) else []);
          s = s\<lparr>zs_localSearches := zs_localSearches s - 1\<rparr>
      in if zs_alive s then s\<lparr>zs_uiBlocks := zs_uiBlocks s @ [UILocalResults userResults conversations]\<rparr> else s)"

definition createSearchUsersForActualUsers ::
  "search_env \<Rightarrow> ZMSearchRequest \<Rightarrow> ZMManagedObject list \<Rightarrow> objc_failure + ZMSearchUser list" where
  "createSearchUsersForActualUsers env r actualUsers =
     map_sum id (se_usersWithUsers env)
       (foldE (\<lambda>user usersToTransform. bindE (ignoredIDs env r) (\<lambda>ignored.
          if se_userRemoteIdentifier env user \<in> Some ` set ignored \<or> user = se_selfUser env
          then Inr usersToTransform else Inr (usersToTransform @ [user]))) actualUsers [])"

text \<open>After \<^verbatim>\<open>tearDown\<close> the context is \<^verbatim>\<open>nil\<close>, answers \<^verbatim>\<open>nil\<close>, and \<^verbatim>\<open>addObject:\<close> raises.\<close>

definition uiObjectsForSearchObjects :: "ZMSearch \<Rightarrow> ZMManagedObject list \<Rightarrow> objc_failure + ZMManagedObject list" where
  "uiObjectsForSearchObjects s objects =
     foldE (\<lambda>obj uiResults. addObjectE (if zs_alive s then Some obj else None) uiResults) objects []"

definition local_state_change :: "ZMSearchResult \<Rightarrow> ZMSearch \<Rightarrow> ZMSearch" where
  "local_state_change searchResult s =
     (case zs_state s of
        ZMSearchStateDone \<Rightarrow> s
      | ZMSearchStateFirstSearchDone \<Rightarrow>
          finishSearchWithSearchResult (Some (combineLocalResult (Some searchResult) (remoteSearchResult s))) s
      | ZMSearchStateFirstSearchDidNotFinish \<Rightarrow> finishSearchWithSearchResult (Some searchResult) s
      | ZMSearchStateInProgress \<Rightarrow>
          s\<lparr>localSearchResult := Some searchResult, zs_state := ZMSearchStateFirstSearchDone\<rparr>
      | ZMSearchStateNotStarted \<Rightarrow> verifyFailed s)"

definition handleLocalUserResults ::
  "search_store \<Rightarrow> ZMManagedObject list \<Rightarrow> ZMManagedObject list \<Rightarrow> ZMSearch \<Rightarrow> objc_failure + ZMSearch" where
  "handleLocalUserResults env userResults conversationResults s =
     bindE (uiObjectsForSearchObjects s userResults) (\<lambda>localUserResults.
     bindE (createSearchUsersForActualUsers (ss_search env) (zs_request s) localUserResults) (\<lambda>searchUsers.
     bindE (uiObjectsForSearchObjects s conversationResults) (\<lambda>localConversationResults.
       Inr (local_state_change (addGroupConversations localConversationResults
              (addUsersInContacts searchUsers init_search_result)) s))))"

section \<open>The remote search\<close>

definition startTimeout :: "ZMSearch \<Rightarrow> ZMSearch" where
  "startTimeout s =
     s\<lparr>zs_timeoutTimer := True,
       zs_otherTimeoutTimers := zs_otherTimeoutTimers s + of_bool (zs_timeoutTimer s)\<rparr>"

definition remoteRequestDidNotFinish :: "ZMSearch \<Rightarrow> ZMSearch" where
  "remoteRequestDidNotFinish s =
     (if zs_alive s then s\<lparr>zs_uiBlocks := zs_uiBlocks s @ [UIRemoteDidNotFinish]\<rparr> else s)"

definition run_remoteDidNotFinish :: "ZMSearch \<Rightarrow> ZMSearch" where
  "run_remoteDidNotFinish s =
     (case zs_state s of
        ZMSearchStateDone \<Rightarrow> s
      | ZMSearchStateFirstSearchDone \<Rightarrow>
          if localSearchResult s \<noteq> None then finishSearchWithSearchResult (localSearchResult s) s else s
      | ZMSearchStateInProgress \<Rightarrow> s\<lparr>zs_state := ZMSearchStateFirstSearchDidNotFinish\<rparr>
      | ZMSearchStateNotStarted \<Rightarrow> verifyFailed s
      | ZMSearchStateFirstSearchDidNotFinish \<Rightarrow> verifyFailed s)"

text \<open>A timer that fires, by itself or by \<^verbatim>\<open>fire\<close>, is not valid any more.\<close>

definition fireTimeoutTimer :: "ZMSearch \<Rightarrow> ZMSearch" where
  "fireTimeoutTimer s =
     (if zs_timeoutTimer s then remoteRequestDidNotFinish (s\<lparr>zs_timeoutTimer := False\<rparr>) else s)"

definition search_enqueueSearchRequest :: "search_store \<Rightarrow> ZMTransportRequest \<Rightarrow> ZMSearch \<Rightarrow> objc_failure + ZMSearch" where
  "search_enqueueSearchRequest env r s =
     (if zs_alive s \<and> ss_transportSession env then Inr (s\<lparr>zs_enqueued := zs_enqueued s @ [r]\<rparr>)
      else Inl AssertionFailure)"

definition startRemoteSearch :: "search_store \<Rightarrow> ZMSearch \<Rightarrow> objc_failure + ZMSearch" where
  "startRemoteSearch env s =
     (if \<not> includeRemoteResults (zs_request s) then Inr (remoteRequestDidNotFinish s)
      else search_enqueueSearchRequest env (searchRequestForQueryString (sr_query (zs_request s)) 3 30) s)"

definition remote_state_change :: "ZMSearchResult option \<Rightarrow> ZMSearch \<Rightarrow> ZMSearch" where
  "remote_state_change searchResult s =
     (case zs_state s of
        ZMSearchStateDone \<Rightarrow> s
      | ZMSearchStateFirstSearchDone \<Rightarrow>
          finishSearchWithSearchResult (Some (combineLocalResult (localSearchResult s) searchResult)) s
      | ZMSearchStateInProgress \<Rightarrow>
          s\<lparr>remoteSearchResult := searchResult, zs_state := ZMSearchStateFirstSearchDone, zs_timeoutTimer := False\<rparr>
      | ZMSearchStateNotStarted \<Rightarrow> verifyFailed s
      | ZMSearchStateFirstSearchDidNotFinish \<Rightarrow> verifyFailed s)"

definition remote_completion :: "search_store \<Rightarrow> ZMTransportResponse \<Rightarrow> ZMSearch \<Rightarrow> objc_failure + ZMSearch" where
  "remote_completion env response s =
     (if \<not> zs_alive s then Inr s
      else bindE (ignoredIDs (ss_search env) (zs_request s)) (\<lambda>ignored.
           bindE (searchResultFromTransportResponse (ss_search env) response ignored) (\<lambda>searchResult.
             let s = (if resp_result response \<noteq> ZMTransportResponseStatusSuccess then fireTimeoutTimer s else s)
             in Inr (remote_state_change searchResult s))))"

section \<open>Starting and tearing down\<close>

definition search_start :: "search_store \<Rightarrow> ZMSearch \<Rightarrow> objc_failure + ZMSearch" where
  "search_start env s =
     (if zs_alive s \<and> zs_cached s \<noteq> None then Inr (search_sendSearchResult (zs_cached s) s)
      else startRemoteSearch env
             (startTimeout (startLocalSearch (s\<lparr>zs_state := ZMSearchStateInProgress\<rparr>))))"

definition search_tearDown :: "ZMSearch \<Rightarrow> ZMSearch" where
  "search_tearDown s = s\<lparr>zs_alive := False, zs_timeoutTimer := False, zs_updateDelayTimer := False\<rparr>"

datatype (plugins only: code size) ZMSearch_msg =
    SetTimeout NSTimeInterval
  | SetUpdateDelay NSTimeInterval
  | SetResultHandler bool
  | SearchStart
  | SearchTearDown

primrec ZMSearch_send :: "search_store \<Rightarrow> ZMSearch_msg \<Rightarrow> ZMSearch \<Rightarrow> objc_failure + ZMSearch" where
  "ZMSearch_send env (SetTimeout t) s = Inr (s\<lparr>zs_timeout := t\<rparr>)"
| "ZMSearch_send env (SetUpdateDelay t) s = Inr (s\<lparr>zs_updateDelay := t\<rparr>)"
| "ZMSearch_send env (SetResultHandler b) s = Inr (s\<lparr>zs_resultHandler := b\<rparr>)"
| "ZMSearch_send env SearchStart s = search_start env s"
| "ZMSearch_send env SearchTearDown s = Inr (search_tearDown s)"

section \<open>Steps\<close>

primrec run_uiBlock :: "search_store \<Rightarrow> ui_block \<Rightarrow> ZMSearch \<Rightarrow> objc_failure + ZMSearch" where
  "run_uiBlock env (UILocalResults us cs) s = handleLocalUserResults env us cs s"
| "run_uiBlock env UIRemoteDidNotFinish s = Inr (run_remoteDidNotFinish s)"

inductive search_step :: "search_store \<Rightarrow> ZMSearch \<Rightarrow> ZMSearch \<Rightarrow> bool" for env where
  local_search: "0 < zs_localSearches s \<Longrightarrow> search_step env s (run_localSearch env s)"
| ui_block: "zs_uiBlocks s = b # bs \<Longrightarrow> run_uiBlock env b (s\<lparr>zs_uiBlocks := bs\<rparr>) = Inr t \<Longrightarrow> search_step env s t"
| timeout: "zs_timeoutTimer s \<Longrightarrow> search_step env s (fireTimeoutTimer s)"
| answer: "zs_enqueued s = r # rs \<Longrightarrow> remote_completion env response (s\<lparr>zs_enqueued := rs\<rparr>) = Inr t \<Longrightarrow>
    search_step env s t"
| other_timeout: "0 < zs_otherTimeoutTimers s \<Longrightarrow>
    search_step env s (remoteRequestDidNotFinish (s\<lparr>zs_otherTimeoutTimers := zs_otherTimeoutTimers s - 1\<rparr>))"
| cache_timeout: "zs_updateDelayTimer s \<Longrightarrow>
    search_step env s (cacheDidTimeOut (s\<lparr>zs_updateDelayTimer := False\<rparr>))"
| other_cache_timeout: "0 < zs_otherUpdateDelayTimers s \<Longrightarrow>
    search_step env s (cacheDidTimeOut (s\<lparr>zs_otherUpdateDelayTimers := zs_otherUpdateDelayTimers s - 1\<rparr>))"

section \<open>Every search returns exactly one result\<close>

fun is_local :: "ui_block \<Rightarrow> bool" where
  "is_local (UILocalResults us cs) = True"
| "is_local UIRemoteDidNotFinish = False"

definition pending_local :: "ZMSearch \<Rightarrow> nat" where
  "pending_local s = zs_localSearches s + length (filter is_local (zs_uiBlocks s))"

definition timeout_due :: "ZMSearch \<Rightarrow> bool" where
  "timeout_due s \<longleftrightarrow> zs_timeoutTimer s \<or> UIRemoteDidNotFinish \<in> set (zs_uiBlocks s)"

definition search_invar :: "ZMSearch \<Rightarrow> bool" where
  "search_invar s \<longleftrightarrow> zs_alive s \<and> zs_resultHandler s \<and> zs_otherTimeoutTimers s = 0 \<and>
     length (zs_enqueued s) \<le> 1 \<and>
     (case zs_state s of
        ZMSearchStateNotStarted \<Rightarrow> False
      | ZMSearchStateInProgress \<Rightarrow>
          zs_delivered s = [] \<and> pending_local s = 1 \<and> timeout_due s \<and> localSearchResult s = None
      | ZMSearchStateFirstSearchDone \<Rightarrow>
          zs_delivered s = [] \<and>
          (if localSearchResult s = None then pending_local s = 1 \<and> zs_enqueued s = [] else pending_local s = 0 \<and> timeout_due s)
      | ZMSearchStateFirstSearchDidNotFinish \<Rightarrow>
          zs_delivered s = [] \<and> pending_local s = 1 \<and> localSearchResult s = None
      | ZMSearchStateDone \<Rightarrow> (\<exists>r. zs_delivered s = [Some r]) \<and> pending_local s = 0)"

lemmas search_state_defs = search_invar_def pending_local_def timeout_due_def finishSearchWithSearchResult_def
  search_sendSearchResult_def startCacheInvalidationTimer_def verifyFailed_def remoteRequestDidNotFinish_def

lemma run_localSearch_parts:
  assumes "zs_alive s" and "0 < zs_localSearches s"
  shows "pending_local (run_localSearch env s) = pending_local s"
    and "timeout_due (run_localSearch env s) = timeout_due s"
    and "zs_state (run_localSearch env s) = zs_state s"
    and "zs_alive (run_localSearch env s) = zs_alive s"
    and "zs_resultHandler (run_localSearch env s) = zs_resultHandler s"
    and "zs_otherTimeoutTimers (run_localSearch env s) = zs_otherTimeoutTimers s"
    and "zs_enqueued (run_localSearch env s) = zs_enqueued s"
    and "zs_delivered (run_localSearch env s) = zs_delivered s"
    and "localSearchResult (run_localSearch env s) = localSearchResult s"
  using assms by (simp_all add: run_localSearch_def pending_local_def timeout_due_def Let_def)

lemma invar_local_search: "search_invar s \<Longrightarrow> 0 < zs_localSearches s \<Longrightarrow> search_invar (run_localSearch env s)"
  by (cases "zs_state s") (simp_all add: search_invar_def run_localSearch_parts)

lemma invar_local_results:
  "search_invar s \<Longrightarrow> zs_uiBlocks s = UILocalResults us cs # bs \<Longrightarrow>
   search_invar (local_state_change r (s\<lparr>zs_uiBlocks := bs\<rparr>))"
  by (cases "zs_state s") (auto simp: search_state_defs local_state_change_def Let_def split: if_splits)

lemma invar_did_not_finish:
  "search_invar s \<Longrightarrow> zs_uiBlocks s = UIRemoteDidNotFinish # bs \<Longrightarrow>
   search_invar (run_remoteDidNotFinish (s\<lparr>zs_uiBlocks := bs\<rparr>))"
  by (cases "zs_state s") (auto simp: search_state_defs run_remoteDidNotFinish_def Let_def split: if_splits)

lemma invar_fire: "search_invar s \<Longrightarrow> search_invar (fireTimeoutTimer s)"
  by (cases "zs_state s") (auto simp: search_state_defs fireTimeoutTimer_def split: if_splits)

lemma invar_answered: "search_invar s \<Longrightarrow> zs_enqueued s = r # rs \<Longrightarrow> search_invar (s\<lparr>zs_enqueued := rs\<rparr>)"
  by (cases "zs_state s") (auto simp: search_state_defs split: if_splits)

lemma invar_remote:
  "search_invar s \<Longrightarrow> zs_enqueued s = r # rs \<Longrightarrow> search_invar (remote_state_change x (s\<lparr>zs_enqueued := rs\<rparr>))"
  by (cases "zs_state s") (auto simp: search_state_defs remote_state_change_def Let_def split: if_splits)

lemma fire_enqueued:
  "fireTimeoutTimer (s\<lparr>zs_enqueued := rs\<rparr>) = (fireTimeoutTimer s)\<lparr>zs_enqueued := rs\<rparr>"
  "zs_enqueued (fireTimeoutTimer s) = zs_enqueued s"
  by (simp_all add: fireTimeoutTimer_def remoteRequestDidNotFinish_def)

lemma invar_cache: "search_invar s \<Longrightarrow> search_invar (cacheDidTimeOut (s\<lparr>zs_updateDelayTimer := b\<rparr>))"
  by (cases "zs_state s") (simp_all add: search_state_defs cacheDidTimeOut_def split: if_splits)

lemma invar_other_cache: "search_invar s \<Longrightarrow> search_invar (cacheDidTimeOut (s\<lparr>zs_otherUpdateDelayTimers := n\<rparr>))"
  by (cases "zs_state s") (simp_all add: search_state_defs cacheDidTimeOut_def split: if_splits)

lemma handleLocal_Inr:
  "handleLocalUserResults env us cs s = Inr t \<Longrightarrow> \<exists>r. t = local_state_change r s"
  by (auto simp: handleLocalUserResults_def)

lemma completion_Inr:
  "remote_completion env response s = Inr t \<Longrightarrow>
   t = s \<or> (\<exists>r. t = remote_state_change r s \<or> t = remote_state_change r (fireTimeoutTimer s))"
  by (auto simp: remote_completion_def Let_def split: if_splits)

lemma invar_step: "search_step env s t \<Longrightarrow> search_invar s \<Longrightarrow> search_invar t"
proof (induction rule: search_step.induct)
  case (ui_block s b bs t)
  then show ?case
    by (cases b) (auto dest!: handleLocal_Inr intro: invar_local_results invar_did_not_finish)
next
  case (answer s r rs response t)
  from completion_Inr [OF answer(2)] consider "t = s\<lparr>zs_enqueued := rs\<rparr>"
    | x where "t = remote_state_change x (s\<lparr>zs_enqueued := rs\<rparr>)"
    | x where "t = remote_state_change x (fireTimeoutTimer (s\<lparr>zs_enqueued := rs\<rparr>))"
    by blast
  then show ?case
  proof cases
    case 1
    then show ?thesis by (simp only: invar_answered [OF answer(3,1)])
  next
    case 2
    then show ?thesis by (simp only: invar_remote [OF answer(3,1)])
  next
    case 3
    with answer(1) invar_remote [OF invar_fire [OF answer(3)], of r rs x] show ?thesis
      by (simp only: fire_enqueued)
  qed
next
  case (other_timeout s)
  then have False
    unfolding search_invar_def by linarith
  then show ?case ..
qed (simp_all add: invar_local_search invar_fire invar_cache invar_other_cache)

lemma invar_start:
  assumes "search_start env (init_search r True\<lparr>zs_resultHandler := True\<rparr>) = Inr s"
  shows "search_invar s"
  using assms by (auto simp: search_start_def init_search_def startRemoteSearch_def search_enqueueSearchRequest_def
      startLocalSearch_def startTimeout_def search_state_defs split: if_splits)

text \<open>Every step uses up a block, a timer or a request; what it hands on weighs less.\<close>

definition search_work :: "ZMSearch \<Rightarrow> nat" where
  "search_work s = 3 * zs_localSearches s + 2 * length (zs_uiBlocks s) + 3 * of_bool (zs_timeoutTimer s) +
     3 * zs_otherTimeoutTimers s + 2 * length (zs_enqueued s) + of_bool (zs_updateDelayTimer s) +
     zs_otherUpdateDelayTimers s"

lemmas search_work_defs = search_work_def finishSearchWithSearchResult_def search_sendSearchResult_def
  startCacheInvalidationTimer_def verifyFailed_def remoteRequestDidNotFinish_def Let_def

lemma work_finish: "search_work (finishSearchWithSearchResult r s) \<le> Suc (search_work s)"
  by (simp add: search_work_defs)

lemma work_local: "search_work (local_state_change r s) \<le> Suc (search_work s)"
  by (cases "zs_state s") (simp_all add: local_state_change_def work_finish, simp_all add: search_work_defs)

lemma work_did_not_finish: "search_work (run_remoteDidNotFinish s) \<le> Suc (search_work s)"
  by (cases "zs_state s") (simp_all add: run_remoteDidNotFinish_def work_finish, simp_all add: search_work_defs)

lemma work_remote: "search_work (remote_state_change r s) \<le> Suc (search_work s)"
  by (cases "zs_state s") (simp_all add: remote_state_change_def work_finish, simp_all add: search_work_defs)

lemma work_fire: "search_work (fireTimeoutTimer s) \<le> search_work s"
  by (simp add: fireTimeoutTimer_def search_work_defs)

lemma work_step: "search_step env s t \<Longrightarrow> search_work t < search_work s"
proof (induction rule: search_step.induct)
  case (local_search s)
  then show ?case by (auto simp: run_localSearch_def search_work_def Let_def)
next
  case (ui_block s b bs t)
  then have "search_work t \<le> Suc (search_work (s\<lparr>zs_uiBlocks := bs\<rparr>))"
    by (cases b) (auto dest!: handleLocal_Inr simp: work_local work_did_not_finish)
  also have "\<dots> < search_work s"
    using ui_block(1) by (simp add: search_work_def)
  finally show ?case .
next
  case (answer s r rs response t)
  let ?s = "s\<lparr>zs_enqueued := rs\<rparr>"
  from completion_Inr [OF answer(2)] work_fire [of ?s] work_remote [of _ ?s] work_remote [of _ "fireTimeoutTimer ?s"]
  have "search_work t \<le> Suc (search_work ?s)"
    by (metis Suc_le_mono le_SucI le_trans order_refl)
  also have "\<dots> < search_work s"
    using answer(1) by (simp add: search_work_def)
  finally show ?case .
qed (auto simp: fireTimeoutTimer_def cacheDidTimeOut_def remoteRequestDidNotFinish_def search_work_def)

lemma steps_bounded: "(search_step env ^^ n) s t \<Longrightarrow> n + search_work t \<le> search_work s"
proof (induction n arbitrary: t)
  case (Suc n)
  then obtain u where "(search_step env ^^ n) s u" and "search_step env u t"
    by auto
  with Suc.IH [of u] work_step [of env u t] show ?case
    by linarith
qed simp

lemma steps_invar: "(search_step env ^^ n) s t \<Longrightarrow> search_invar s \<Longrightarrow> search_invar t"
  by (induction n arbitrary: t) (auto intro: invar_step)

lemma foldE_returns: "(\<And>x s. \<exists>t. f x s = Inr t) \<Longrightarrow> \<exists>t. foldE f xs s = Inr t"
proof (induction xs arbitrary: s)
  case (Cons x xs)
  from Cons.prems obtain t where "f x s = Inr t" by blast
  with Cons show ?case by simp
qed simp

lemma handleLocal_total:
  assumes "zs_alive s" and "ignoredIDs (ss_search env) (zs_request s) = Inr ids"
  shows "\<exists>t. handleLocalUserResults env us cs s = Inr t"
proof -
  have ui: "\<exists>t. uiObjectsForSearchObjects s xs = Inr t" for xs
    unfolding uiObjectsForSearchObjects_def using assms(1) by (intro foldE_returns) (simp add: addObjectE_def)
  have "\<exists>t. createSearchUsersForActualUsers (ss_search env) (zs_request s) xs = Inr t" for xs
  proof -
    have "\<exists>t. foldE (\<lambda>user acc. bindE (ignoredIDs (ss_search env) (zs_request s)) (\<lambda>ignored.
        if se_userRemoteIdentifier (ss_search env) user \<in> Some ` set ignored \<or> user = se_selfUser (ss_search env)
        then Inr acc else Inr (acc @ [user]))) xs [] = Inr t"
      by (intro foldE_returns) (simp add: assms(2))
    then show ?thesis
      by (auto simp: createSearchUsersForActualUsers_def)
  qed
  with ui show ?thesis
    by (simp add: handleLocalUserResults_def) blast
qed

lemma request_finish [simp]: "zs_request (finishSearchWithSearchResult r s) = zs_request s"
  by (simp add: search_work_defs)

lemma request_changes [simp]:
  "zs_request (local_state_change r s) = zs_request s"
  "zs_request (run_remoteDidNotFinish s) = zs_request s"
  "zs_request (remote_state_change x s) = zs_request s"
  "zs_request (fireTimeoutTimer s) = zs_request s"
  by (simp_all add: local_state_change_def run_remoteDidNotFinish_def remote_state_change_def verifyFailed_def
      fireTimeoutTimer_def remoteRequestDidNotFinish_def split: ZMSearchState.split)

lemma request_step: "search_step env s t \<Longrightarrow> zs_request t = zs_request s"
proof (induction rule: search_step.induct)
  case (ui_block s b bs t)
  then show ?case
    by (cases b) (auto dest!: handleLocal_Inr)
next
  case (answer s r rs response t)
  from completion_Inr [OF answer(2)] show ?case
    by auto
qed (simp_all add: run_localSearch_def remoteRequestDidNotFinish_def cacheDidTimeOut_def Let_def)

lemma steps_request: "(search_step env ^^ n) s t \<Longrightarrow> zs_request t = zs_request s"
  by (induction n arbitrary: t) (auto dest: request_step)

lemma start_parts:
  assumes "search_start env (init_search r True\<lparr>zs_resultHandler := True\<rparr>) = Inr s"
  shows "search_work s = 8 \<and> zs_request s = r"
  using assms by (auto simp: search_start_def init_search_def startRemoteSearch_def search_enqueueSearchRequest_def
      startLocalSearch_def startTimeout_def remoteRequestDidNotFinish_def search_work_def split: if_splits)

definition search_idle :: "ZMSearch \<Rightarrow> bool" where
  "search_idle s \<longleftrightarrow> zs_localSearches s = 0 \<and> zs_uiBlocks s = [] \<and> \<not> zs_timeoutTimer s"

lemma idle_is_done: "search_invar s \<Longrightarrow> search_idle s \<Longrightarrow> \<exists>r. zs_delivered s = [Some r]"
  by (cases "zs_state s") (auto simp: search_invar_def search_idle_def pending_local_def timeout_due_def split: if_splits)

lemma busy_steps:
  assumes "search_invar s" and "\<not> search_idle s" and "ignoredIDs (ss_search env) (zs_request s) = Inr ids"
  shows "\<exists>t. search_step env s t"
proof (cases "zs_uiBlocks s")
  case Nil
  with assms(2) show ?thesis
    by (auto simp: search_idle_def intro: search_step.intros)
next
  case (Cons b bs)
  from assms(1) have "zs_alive s"
    unfolding search_invar_def by (rule conjunct1)
  with handleLocal_total [of "s\<lparr>zs_uiBlocks := bs\<rparr>" env ids] assms(3)
  have "\<exists>t. run_uiBlock env b (s\<lparr>zs_uiBlocks := bs\<rparr>) = Inr t"
    by (cases b) simp_all
  with Cons show ?thesis
    by (auto intro: search_step.ui_block)
qed

text \<open>C5: A search that is started returns exactly one result, in whatever order the local store, the
  backend and the timeout come in, and whether or not the backend answers: it makes at most eight
  steps, never returns two results, can make a step as long as a local search, a block or the
  timeout is left (when the ignored users have identifiers), and has returned its result when
  nothing of these is left.
\<close>

theorem search_returns_exactly_one_result:
  assumes "search_start env (init_search r True\<lparr>zs_resultHandler := True\<rparr>) = Inr s"
    and "ignoredIDs (ss_search env) r = Inr ids"
    and "(search_step env ^^ n) s t"
  shows "n \<le> 8 \<and> length (zs_delivered t) \<le> 1 \<and>
    (if search_idle t then \<exists>res. zs_delivered t = [Some res] else \<exists>u. search_step env t u)"
proof -
  from invar_start [OF assms(1)] have s: "search_invar s" .
  from steps_invar [OF assms(3) this] have t: "search_invar t" .
  from start_parts [OF assms(1)] steps_bounded [OF assms(3)] have "n \<le> 8"
    by simp
  moreover from t have "length (zs_delivered t) \<le> 1"
    by (cases "zs_state t") (auto simp: search_invar_def)
  moreover from steps_request [OF assms(3)] start_parts [OF assms(1)] assms(2)
  have "ignoredIDs (ss_search env) (zs_request t) = Inr ids"
    by simp
  ultimately show ?thesis
    using t idle_is_done [of t] busy_steps [of t env ids] by simp
qed

definition sample_store :: search_store where
  "sample_store = \<lparr>ss_search = sample_search_env, ss_transportSession = True, ss_connectedUsers = (\<lambda>_. [2]),
     ss_conversations = (\<lambda>_. []), ss_userDefinedNameMatches = (\<lambda>_ _. True)\<rparr>"

definition sample_search_request :: ZMSearchRequest where
  "sample_search_request = init_search_request\<lparr>includeContacts := True, includeRemoteResults := True, sr_query := Some ''b''\<rparr>"

definition sample_started :: ZMSearch where
  "sample_started = (init_search sample_search_request True)\<lparr>zs_resultHandler := True,
     zs_state := ZMSearchStateInProgress, zs_localSearches := 1, zs_timeoutTimer := True,
     zs_enqueued := [searchRequestForQueryString (Some ''b'') 3 30]\<rparr>"

lemma sample_started_start:
  "search_start sample_store (init_search sample_search_request True\<lparr>zs_resultHandler := True\<rparr>) = Inr sample_started"
  by (simp add: search_start_def init_search_def startRemoteSearch_def search_enqueueSearchRequest_def
      startLocalSearch_def startTimeout_def sample_started_def sample_store_def sample_search_request_def
      init_search_request_def)

theorem search_returns_exactly_one_result_witness:
  "0 \<le> (8 :: nat) \<and> length (zs_delivered sample_started) \<le> 1 \<and>
   (if search_idle sample_started then \<exists>res. zs_delivered sample_started = [Some res]
    else \<exists>u. search_step sample_store sample_started u)"
  by (rule search_returns_exactly_one_result [OF sample_started_start, of "[]"])
     (simp_all add: ignoredIDs_def sample_search_request_def init_search_request_def)

section \<open>Late answers\<close>

text \<open>
  A backend that answers after the timeout and before the local store is a possible order of events,
  but the code treats it as an invalid state: the answer is dropped with a failed \<^verbatim>\<open>VerifyString\<close>.
\<close>

lemma answer_between_timeout_and_local_results:
  "zs_state s = ZMSearchStateFirstSearchDidNotFinish \<Longrightarrow>
   remote_state_change x s = s\<lparr>zs_verifyFailures := Suc (zs_verifyFailures s)\<rparr>"
  by (simp add: remote_state_change_def verifyFailed_def)

text \<open>A remote result replaces the contacts found locally, even when it has none.\<close>

lemma remote_result_replaces_local_contacts:
  "usersInContacts (combineLocalResult l (Some r)) = usersInContacts r \<and>
   groupConversations (combineLocalResult (Some l') x) = groupConversations l'"
  by (simp add: combineLocalResult_def addGroupConversations_def addUsersInDirectory_def addUsersInContacts_def
      init_search_result_def Let_def)

lemma without_remote_result_local_stays:
  "combineLocalResult (Some l) None = l"
  by (cases l) (simp add: combineLocalResult_def addGroupConversations_def addUsersInDirectory_def
      addUsersInContacts_def init_search_result_def Let_def)

lemma sorted_conversations_keep_all: "set (sortedConversationResults p cs) = set cs \<and> length (sortedConversationResults p cs) = length cs"
  by (auto simp: sortedConversationResults_def sum_length_filter_compl)

section \<open>Tearing down\<close>

text \<open>A search that is torn down while its local results wait for the user interface raises: the
  contexts are \<^verbatim>\<open>nil\<close> then, so the first object found is looked up as \<^verbatim>\<open>nil\<close> and added to an array.
\<close>

lemma tearing_down_between_queues_raises:
  assumes "search_start env (init_search r True\<lparr>zs_resultHandler := True\<rparr>) = Inr s"
    and "includeContacts r" and "ss_connectedUsers env (sr_query r) = u # us"
    and "torn = search_tearDown (run_localSearch env s)"
  shows "\<exists>bs cs. UILocalResults (u # us) cs \<in> set (zs_uiBlocks torn) \<and>
    run_uiBlock env (UILocalResults (u # us) cs) (torn\<lparr>zs_uiBlocks := bs\<rparr>) = Inl NSInvalidArgumentException"
proof -
  from invar_start [OF assms(1)] have "zs_alive s"
    unfolding search_invar_def by (rule conjunct1)
  moreover from start_parts [OF assms(1)] have "zs_request s = r" by simp
  ultimately have "UILocalResults (u # us) (if includeGroupConversations r
      then conversationsMatchingSearchString env (sr_query r) else []) \<in> set (zs_uiBlocks torn)"
    using assms(2-4) by (simp add: search_tearDown_def run_localSearch_def Let_def)
  moreover have "\<not> zs_alive torn"
    using assms(4) by (simp add: search_tearDown_def)
  then have "run_uiBlock env (UILocalResults (u # us) cs) (torn\<lparr>zs_uiBlocks := bs\<rparr>) = Inl NSInvalidArgumentException" for bs cs
    by (simp add: handleLocalUserResults_def uiObjectsForSearchObjects_def addObjectE_def)
  ultimately show ?thesis by blast
qed

lemma tearing_down_between_queues_raises_example:
  "\<exists>bs cs. UILocalResults [2] cs \<in> set (zs_uiBlocks (search_tearDown (run_localSearch sample_store sample_started))) \<and>
    run_uiBlock sample_store (UILocalResults [2] cs)
      ((search_tearDown (run_localSearch sample_store sample_started))\<lparr>zs_uiBlocks := bs\<rparr>) = Inl NSInvalidArgumentException"
  by (rule tearing_down_between_queues_raises [OF sample_started_start])
     (simp_all add: sample_store_def sample_search_request_def)

end
