(* ===== verification/SearchImages.thy ===== *)
theory SearchImages
  imports SearchRequests
begin

text \<open>
  The profile images of the users a search has found: the table of the users that still need one
  (\<^verbatim>\<open>ZMUserIDsForSearchDirectoryTable\<close>), the transcoder that asks for their assets and images
  (\<^verbatim>\<open>ZMSearchUserImageTranscoder\<close>) and the request for the image of one user (\<^verbatim>\<open>ZMSearchUser+UserSession\<close>).

  A set of entries is a list without members that are equal for \<^verbatim>\<open>isEqual:\<close>. The data of an image comes
  with the response, as a second value; the blocks on the isolation queue of the table run in the
  order they were sent.
\<close>

section \<open>The table\<close>

record ZMSearchUserAndAssetID =
  ua_searchUser :: ZMSearchUser
  ua_assetID :: "NSUUID option"

definition ua_userID :: "ZMSearchUserAndAssetID \<Rightarrow> NSUUID option" where
  "ua_userID e = su_remoteIdentifier (ua_searchUser e)"

definition userIDIfThereIsNoAssetID :: "ZMSearchUserAndAssetID \<Rightarrow> NSUUID option" where
  "userIDIfThereIsNoAssetID e = (if ua_assetID e = None then su_remoteIdentifier (ua_searchUser e) else None)"

definition ua_isEqual :: "ZMSearchUserAndAssetID \<Rightarrow> ZMSearchUserAndAssetID \<Rightarrow> bool" where
  "ua_isEqual a b \<longleftrightarrow>
     (su_pointer (ua_searchUser a) = su_pointer (ua_searchUser b) \<or> ua_userID a \<noteq> None \<and> ua_userID a = ua_userID b) \<and>
     ua_assetID a = ua_assetID b"

definition ua_insert :: "ZMSearchUserAndAssetID \<Rightarrow> ZMSearchUserAndAssetID list \<Rightarrow> ZMSearchUserAndAssetID list" where
  "ua_insert e es = (if \<exists>x \<in> set es. ua_isEqual x e then es else es @ [e])"

record ZMUserIDsForSearchDirectoryTable =
  table_entries :: "(nat \<times> ZMSearchUserAndAssetID list) list"

definition init_table :: ZMUserIDsForSearchDirectoryTable where
  "init_table = \<lparr>table_entries = []\<rparr>"

definition allUserIDs :: "ZMUserIDsForSearchDirectoryTable \<Rightarrow> NSUUID list" where
  "allUserIDs t =
     fold (\<lambda>(directory, es) ids. oset_union ids (List.map_filter userIDIfThereIsNoAssetID es)) (table_entries t) []"

definition allAssetIDs :: "ZMUserIDsForSearchDirectoryTable \<Rightarrow> ZMSearchUserAndAssetID list" where
  "allAssetIDs t =
     fold (\<lambda>(directory, es) all. fold ua_insert (filter (\<lambda>e. ua_assetID e \<noteq> None) es) all) (table_entries t) []"

definition previousEntries ::
  "ZMSearchUserAndAssetID list \<Rightarrow> objc_failure + (NSUUID \<times> ZMSearchUserAndAssetID) list" where
  "previousEntries es =
     foldE (\<lambda>e d. case ua_userID e of None \<Rightarrow> Inl NSInvalidArgumentException | Some i \<Rightarrow> Inr (dict_put i e d)) es []"

definition setSearchUsers ::
  "ZMSearchUser list \<Rightarrow> nat \<Rightarrow> ZMUserIDsForSearchDirectoryTable \<Rightarrow> objc_failure + ZMUserIDsForSearchDirectoryTable" where
  "setSearchUsers searchUsers directory t =
     bindE (previousEntries (case map_of (table_entries t) directory of None \<Rightarrow> [] | Some es \<Rightarrow> es)) (\<lambda>previous.
       let pair = (\<lambda>u. case Option.bind (su_remoteIdentifier u) (map_of previous) of
                         None \<Rightarrow> \<lparr>ua_searchUser = u, ua_assetID = None\<rparr> | Some e \<Rightarrow> e);
           allPairs = fold ua_insert (map pair searchUsers) []
       in Inr (t\<lparr>table_entries := dict_put directory allPairs (table_entries t)\<rparr>))"

definition replaceUserIDToDownload ::
  "NSUUID \<Rightarrow> NSUUID \<Rightarrow> ZMUserIDsForSearchDirectoryTable \<Rightarrow> ZMUserIDsForSearchDirectoryTable" where
  "replaceUserIDToDownload userID assetID t =
     t\<lparr>table_entries := map (apsnd (map (\<lambda>e. if ua_userID e = Some userID then e\<lparr>ua_assetID := Some assetID\<rparr> else e)))
         (table_entries t)\<rparr>"

definition removeAllEntriesWithUserIDs ::
  "NSUUID list \<Rightarrow> ZMUserIDsForSearchDirectoryTable \<Rightarrow> ZMUserIDsForSearchDirectoryTable" where
  "removeAllEntriesWithUserIDs userIDs t =
     t\<lparr>table_entries := map (apsnd (filter (\<lambda>e. ua_userID e \<notin> Some ` set userIDs))) (table_entries t)\<rparr>"

definition removeSearchDirectory :: "nat \<Rightarrow> ZMUserIDsForSearchDirectoryTable \<Rightarrow> ZMUserIDsForSearchDirectoryTable" where
  "removeSearchDirectory directory t = t\<lparr>table_entries := dict_remove directory (table_entries t)\<rparr>"

definition table_clear :: "ZMUserIDsForSearchDirectoryTable \<Rightarrow> ZMUserIDsForSearchDirectoryTable" where
  "table_clear t = t\<lparr>table_entries := []\<rparr>"

datatype (plugins only: code size) ZMUserIDsForSearchDirectoryTable_msg =
    SetSearchUsers "ZMSearchUser list" nat
  | ReplaceUserIDToDownload NSUUID NSUUID
  | RemoveAllEntriesWithUserIDs "NSUUID list"
  | RemoveSearchDirectory nat
  | ClearTable

primrec ZMUserIDsForSearchDirectoryTable_send ::
  "ZMUserIDsForSearchDirectoryTable_msg \<Rightarrow> ZMUserIDsForSearchDirectoryTable \<Rightarrow>
   objc_failure + ZMUserIDsForSearchDirectoryTable" where
  "ZMUserIDsForSearchDirectoryTable_send (SetSearchUsers us d) t = setSearchUsers us d t"
| "ZMUserIDsForSearchDirectoryTable_send (ReplaceUserIDToDownload u a) t = Inr (replaceUserIDToDownload u a t)"
| "ZMUserIDsForSearchDirectoryTable_send (RemoveAllEntriesWithUserIDs us) t = Inr (removeAllEntriesWithUserIDs us t)"
| "ZMUserIDsForSearchDirectoryTable_send (RemoveSearchDirectory d) t = Inr (removeSearchDirectory d t)"
| "ZMUserIDsForSearchDirectoryTable_send ClearTable t = Inr (table_clear t)"

section \<open>The transcoder\<close>

record ZMSearchUserAssetIDs =
  smallImageAssetID :: "NSUUID option"
  mediumImageAssetID :: "NSUUID option"

text \<open>The pictures of a user; \<open>uuid\<close> reads an identifier of a dictionary.\<close>

definition initWithUserImageResponse ::
  "(NSString \<Rightarrow> (NSString \<times> json) list \<Rightarrow> NSUUID option) \<Rightarrow> (NSString \<times> json) list list \<Rightarrow> ZMSearchUserAssetIDs" where
  "initWithUserImageResponse uuid pictures =
     fold (\<lambda>pictureData ids.
        let tag = optionalStringForKey ''tag'' (optionalDictionaryForKey ''info'' (Some pictureData));
            ids = (if tag = Some ''smallProfile'' then ids\<lparr>smallImageAssetID := uuid ''id'' pictureData\<rparr> else ids)
        in if tag = Some ''medium'' then ids\<lparr>mediumImageAssetID := uuid ''id'' pictureData\<rparr> else ids)
       pictures \<lparr>smallImageAssetID = None, mediumImageAssetID = None\<rparr>"

record ZMSearchUserImageTranscoder =
  it_userIDsTable :: ZMUserIDsForSearchDirectoryTable
  imagesByUserIDCache :: "(NSUUID \<times> NSData) list"
  mediumAssetIDByUserIDCache :: "(NSUUID \<times> NSUUID) list"
  userIDsBeingRequested :: "NSUUID list"
  assetIDsBeingRequested :: "ZMSearchUserAndAssetID list"
  it_notified :: "(ZMSearchUser \<times> ZMSearchUser_msg) list"

definition init_imageTranscoder ::
  "ZMUserIDsForSearchDirectoryTable \<Rightarrow> (NSUUID \<times> NSData) list \<Rightarrow> (NSUUID \<times> NSUUID) list \<Rightarrow> ZMSearchUserImageTranscoder" where
  "init_imageTranscoder userIDsTable imagesCache mediumAssetIDs =
     \<lparr>it_userIDsTable = userIDsTable, imagesByUserIDCache = imagesCache, mediumAssetIDByUserIDCache = mediumAssetIDs,
      userIDsBeingRequested = [], assetIDsBeingRequested = [], it_notified = []\<rparr>"

fun joined :: "string \<Rightarrow> string list \<Rightarrow> string" where
  "joined sep [] = ''''"
| "joined sep [s] = s"
| "joined sep (s # ss) = s @ sep @ joined sep ss"

definition fetchAssetsForUsersWithIDs :: "search_env \<Rightarrow> NSUUID list \<Rightarrow> ZMTransportRequest" where
  "fetchAssetsForUsersWithIDs env userIDs =
     requestGetFromPath (''/users?ids='' @ joined '','' (map (se_transportString env) userIDs))"

definition pathForAssetID :: "search_env \<Rightarrow> NSUUID \<Rightarrow> NSUUID \<Rightarrow> NSString" where
  "pathForAssetID env assetID userID =
     ''/assets/'' @ se_transportString env assetID @ ''?conv_id='' @ se_transportString env userID"

definition requestForFetchingAssetWithID ::
  "search_env \<Rightarrow> NSUUID option \<Rightarrow> NSUUID option \<Rightarrow> ZMTransportRequest option" where
  "requestForFetchingAssetWithID env assetID userID =
     (case (assetID, userID) of
        (Some a, Some u) \<Rightarrow> Some \<lparr>req_method = MethodGET, req_path = pathForAssetID env a u, req_payload = None\<rparr>
      | _ \<Rightarrow> None)"

text \<open>What the completion handler of a request has captured.\<close>

datatype image_flight = ProfilesOf "NSUUID list" | ImageOf ZMSearchUserAndAssetID

definition fetchUsersRequest ::
  "search_env \<Rightarrow> ZMSearchUserImageTranscoder \<Rightarrow> (ZMTransportRequest \<times> image_flight) option \<times> ZMSearchUserImageTranscoder" where
  "fetchUsersRequest env x =
     (let userIDsToDownload = oset_minus (allUserIDs (it_userIDsTable x)) (userIDsBeingRequested x)
      in if length userIDsToDownload > 0
         then (Some (fetchAssetsForUsersWithIDs env userIDsToDownload, ProfilesOf userIDsToDownload),
               x\<lparr>userIDsBeingRequested := oset_union (userIDsBeingRequested x) userIDsToDownload\<rparr>)
         else (None, x))"

text \<open>\<open>pick\<close> is the choice of \<^verbatim>\<open>anyObject\<close>.\<close>

definition fetchAssetRequest ::
  "search_env \<Rightarrow> (ZMSearchUserAndAssetID list \<Rightarrow> nat) \<Rightarrow> ZMSearchUserImageTranscoder \<Rightarrow>
   (ZMTransportRequest \<times> image_flight) option \<times> ZMSearchUserImageTranscoder" where
  "fetchAssetRequest env pick x =
     (let assetIDsToDownload =
            filter (\<lambda>e. \<not> (\<exists>y \<in> set (assetIDsBeingRequested x). ua_isEqual y e)) (allAssetIDs (it_userIDsTable x))
      in case anyObject pick assetIDsToDownload of
           None \<Rightarrow> (None, x)
         | Some e \<Rightarrow>
             (map_option (\<lambda>r. (r, ImageOf e)) (requestForFetchingAssetWithID env (ua_assetID e) (ua_userID e)),
              x\<lparr>assetIDsBeingRequested := ua_insert e (assetIDsBeingRequested x)\<rparr>))"

definition image_nextRequest ::
  "search_env \<Rightarrow> (ZMSearchUserAndAssetID list \<Rightarrow> nat) \<Rightarrow> ZMSearchUserImageTranscoder \<Rightarrow>
   (ZMTransportRequest \<times> image_flight) option \<times> ZMSearchUserImageTranscoder" where
  "image_nextRequest env pick x =
     (case fetchUsersRequest env x of
        (Some r, x') \<Rightarrow> (Some r, x')
      | (None, x') \<Rightarrow> fetchAssetRequest env pick x')"

definition on_table ::
  "(ZMUserIDsForSearchDirectoryTable \<Rightarrow> ZMUserIDsForSearchDirectoryTable) \<Rightarrow> ZMSearchUserImageTranscoder \<Rightarrow>
   ZMSearchUserImageTranscoder" where
  "on_table f x = x\<lparr>it_userIDsTable := f (it_userIDsTable x)\<rparr>"

definition id_list :: "'a option \<Rightarrow> 'a list" where
  "id_list i = (case i of None \<Rightarrow> [] | Some u \<Rightarrow> [u])"

definition processAssetResponse ::
  "ZMTransportResponse \<Rightarrow> NSData option \<Rightarrow> ZMSearchUserAndAssetID \<Rightarrow> ZMSearchUserImageTranscoder \<Rightarrow> ZMSearchUserImageTranscoder" where
  "processAssetResponse response imageData e x =
     (let x = x\<lparr>assetIDsBeingRequested := filter (\<lambda>y. \<not> ua_isEqual e y) (assetIDsBeingRequested x)\<rparr>;
          forget = on_table (removeAllEntriesWithUserIDs (id_list (ua_userID e)))
      in case resp_result response of
           ZMTransportResponseStatusSuccess \<Rightarrow>
             forget (case (imageData, ua_userID e) of
                       (Some img, Some u) \<Rightarrow>
                         x\<lparr>imagesByUserIDCache := dict_put u img (imagesByUserIDCache x),
                           it_notified := it_notified x @ [(ua_searchUser e, NotifyNewSmallImageData img)]\<rparr>
                     | _ \<Rightarrow> x)
         | ZMTransportResponseStatusPermanentError \<Rightarrow> forget x
         | _ \<Rightarrow> x)"

fun asArray :: "json option \<Rightarrow> json list" where
  "asArray (Some (JArr xs)) = xs"
| "asArray _ = []"

definition userPictures :: "(NSString \<times> json) list \<Rightarrow> (NSString \<times> json) list list" where
  "userPictures userData = asDictionaries (case optionalArrayForKey ''picture'' (Some userData) of None \<Rightarrow> [] | Some xs \<Rightarrow> xs)"

definition processUserData :: "search_env \<Rightarrow> (NSString \<times> json) list \<Rightarrow> ZMSearchUserImageTranscoder \<Rightarrow> ZMSearchUserImageTranscoder" where
  "processUserData env userData x =
     (case se_optionalUuidForKey env ''id'' userData of
        None \<Rightarrow> x
      | Some userID \<Rightarrow>
          let assetIDs = initWithUserImageResponse (se_optionalUuidForKey env) (userPictures userData);
              x = (case smallImageAssetID assetIDs of
                     Some a \<Rightarrow> on_table (replaceUserIDToDownload userID a) x
                   | None \<Rightarrow> on_table (removeAllEntriesWithUserIDs [userID]) x)
          in case mediumImageAssetID assetIDs of
               Some m \<Rightarrow> x\<lparr>mediumAssetIDByUserIDCache := dict_put userID m (mediumAssetIDByUserIDCache x)\<rparr>
             | None \<Rightarrow> x)"

definition processUserProfileResponse ::
  "search_env \<Rightarrow> ZMTransportResponse \<Rightarrow> NSUUID list \<Rightarrow> ZMSearchUserImageTranscoder \<Rightarrow> ZMSearchUserImageTranscoder" where
  "processUserProfileResponse env response userIDs x =
     (let x = x\<lparr>userIDsBeingRequested := oset_minus (userIDsBeingRequested x) userIDs\<rparr>
      in case resp_result response of
           ZMTransportResponseStatusSuccess \<Rightarrow>
             fold (processUserData env) (asDictionaries (asArray (resp_payload response))) x
         | ZMTransportResponseStatusPermanentError \<Rightarrow> on_table (removeAllEntriesWithUserIDs userIDs) x
         | _ \<Rightarrow> x)"

text \<open>The loop returns at the first user that is not the one asked for.\<close>

fun singleUserProfiles ::
  "search_env \<Rightarrow> NSUUID \<Rightarrow> (NSString \<times> json) list list \<Rightarrow> (NSUUID \<times> NSUUID) list \<Rightarrow> (NSUUID \<times> NSUUID) list" where
  "singleUserProfiles env userID [] cache = cache"
| "singleUserProfiles env userID (userData # rest) cache =
     (if se_optionalUuidForKey env ''id'' userData \<noteq> Some userID then cache
      else singleUserProfiles env userID rest
        (case mediumImageAssetID (initWithUserImageResponse (se_optionalUuidForKey env) (userPictures userData)) of
           Some m \<Rightarrow> dict_put userID m cache
         | None \<Rightarrow> cache))"

definition processSingleUserProfileResponse ::
  "search_env \<Rightarrow> ZMTransportResponse \<Rightarrow> NSUUID option \<Rightarrow> (NSUUID \<times> NSUUID) list \<Rightarrow> (NSUUID \<times> NSUUID) list" where
  "processSingleUserProfileResponse env response userID cache =
     (case userID of None \<Rightarrow> cache
      | Some u \<Rightarrow>
          if resp_result response = ZMTransportResponseStatusSuccess
          then singleUserProfiles env u (asDictionaries (asArray (resp_payload response))) cache else cache)"

primrec image_respond ::
  "search_env \<Rightarrow> image_flight \<Rightarrow> ZMTransportResponse \<times> NSData option \<Rightarrow> ZMSearchUserImageTranscoder \<Rightarrow> ZMSearchUserImageTranscoder" where
  "image_respond env (ProfilesOf userIDs) r x = processUserProfileResponse env (fst r) userIDs x"
| "image_respond env (ImageOf e) r x = processAssetResponse (fst r) (snd r) e x"

section \<open>The image of one user\<close>

text \<open>
  What \<^verbatim>\<open>requestMediumProfileImageInUserSession:\<close> sees of a search user. The getter of the identifier of the
  medium asset belongs to the data model and reads the cache; it is a parameter.
\<close>

record medium_image =
  mi_user :: ZMSearchUser
  mi_imageMediumData :: "NSData option"
  mi_imageSmallProfileData :: "NSData option"
  mi_mediumAssetIDs :: "(NSUUID \<times> NSUUID) list"
  mi_mediumImages :: "(NSUUID \<times> NSData) list"
  mi_notified :: "ZMSearchUser_msg list"
  mi_enqueued :: "ZMTransportRequest list"

type_synonym asset_getter = "ZMSearchUser \<Rightarrow> (NSUUID \<times> NSUUID) list \<Rightarrow> NSUUID option"

definition requestUserInfo :: "search_env \<Rightarrow> medium_image \<Rightarrow> ZMTransportRequest" where
  "requestUserInfo env m = fetchAssetsForUsersWithIDs env (id_list (su_remoteIdentifier (mi_user m)))"

definition privateRequestMediumProfileImage ::
  "search_env \<Rightarrow> asset_getter \<Rightarrow> bool \<Rightarrow> medium_image \<Rightarrow> objc_failure + medium_image" where
  "privateRequestMediumProfileImage env mediumAssetID transportSession m =
     (case mi_imageMediumData m of
        Some d \<Rightarrow> Inr (m\<lparr>mi_notified := mi_notified m @ [SetAndNotifyNewMediumImageData d]\<rparr>)
      | None \<Rightarrow>
          let asset = mediumAssetID (mi_user m) (mi_mediumAssetIDs m);
              request =
                (if mi_imageSmallProfileData m \<noteq> None \<and> asset = None then Some (requestUserInfo env m)
                 else if asset \<noteq> None then requestForFetchingAssetWithID env asset (su_remoteIdentifier (mi_user m))
                 else None)
          in case request of
               None \<Rightarrow> Inr m
             | Some r \<Rightarrow>
                 if transportSession then Inr (m\<lparr>mi_enqueued := mi_enqueued m @ [r]\<rparr>) else Inl AssertionFailure)"

definition userInfo_completion ::
  "search_env \<Rightarrow> asset_getter \<Rightarrow> bool \<Rightarrow> ZMTransportResponse \<Rightarrow> medium_image \<Rightarrow> objc_failure + medium_image" where
  "userInfo_completion env mediumAssetID transportSession response m =
     (let m = m\<lparr>mi_mediumAssetIDs := processSingleUserProfileResponse env response
                  (su_remoteIdentifier (mi_user m)) (mi_mediumAssetIDs m)\<rparr>
      in if mediumAssetID (mi_user m) (mi_mediumAssetIDs m) \<noteq> None
         then privateRequestMediumProfileImage env mediumAssetID transportSession m else Inr m)"

definition processMediumAssetResponse :: "ZMTransportResponse \<Rightarrow> NSData option \<Rightarrow> medium_image \<Rightarrow> medium_image" where
  "processMediumAssetResponse response imageData m =
     (case (imageData, su_remoteIdentifier (mi_user m)) of
        (Some d, Some u) \<Rightarrow>
          if resp_result response = ZMTransportResponseStatusSuccess
          then m\<lparr>mi_mediumImages := dict_put u d (mi_mediumImages m),
                 mi_notified := mi_notified m @ [SetAndNotifyNewMediumImageData d]\<rparr> else m
      | _ \<Rightarrow> m)"

section \<open>Users of the local store\<close>

record user_image =
  ui_imageMediumData :: "NSData option"
  ui_imageSmallProfileData :: "NSData option"
  ui_localMediumRemoteIdentifier :: "NSUUID option"
  ui_localSmallProfileRemoteIdentifier :: "NSUUID option"

datatype (plugins only: code size) image_effect = SavedUser | RequestedAsset | RequestedSmallAsset | NotifiedNewRequests | AskedUserForSmallImage
  | StartedContactsSearch "NSUUID option"

definition user_requestMediumProfileImage :: "user_image \<Rightarrow> user_image \<times> image_effect list" where
  "user_requestMediumProfileImage u =
     (if ui_imageMediumData u \<noteq> None then (u, [])
      else (u\<lparr>ui_localMediumRemoteIdentifier := None\<rparr>,
            (if ui_localMediumRemoteIdentifier u \<noteq> None then [SavedUser] else []) @ [RequestedAsset, NotifiedNewRequests]))"

definition user_requestSmallProfileImage :: "user_image \<Rightarrow> user_image \<times> image_effect list" where
  "user_requestSmallProfileImage u =
     (if ui_imageSmallProfileData u \<noteq> None then (u, [])
      else (u\<lparr>ui_localSmallProfileRemoteIdentifier := None\<rparr>,
            (if ui_localSmallProfileRemoteIdentifier u \<noteq> None then [SavedUser] else []) @
              [RequestedSmallAsset, NotifiedNewRequests]))"

text \<open>The messages of \<^verbatim>\<open>ZMSearchableUser\<close>, as a user of the store handles them.\<close>

datatype ZMSearchableUser_msg =
    SearchCommonContactsOf "NSUUID option"
  | RequestMediumProfileImage
  | RequestSmallProfileImage

primrec ZMUser_searchable :: "ZMSearchableUser_msg \<Rightarrow> user_image \<Rightarrow> user_image \<times> image_effect list" where
  "ZMUser_searchable (SearchCommonContactsOf i) u = (u, [StartedContactsSearch i])"
| "ZMUser_searchable RequestMediumProfileImage u = user_requestMediumProfileImage u"
| "ZMUser_searchable RequestSmallProfileImage u = user_requestSmallProfileImage u"

definition searchUser_requestSmallProfileImage :: "ZMSearchUser \<Rightarrow> image_effect list" where
  "searchUser_requestSmallProfileImage u = (if su_user u \<noteq> None then [AskedUserForSmallImage] else [])"

section \<open>No user is asked for twice at a time\<close>

text \<open>
  The transcoder and its requests in flight, as in \<open>flight_step\<close> of the prelude; \<open>Other\<close> are the messages
  the table gets from the search directories.
\<close>

definition image_other :: "ZMUserIDsForSearchDirectoryTable_msg \<Rightarrow> ZMSearchUserImageTranscoder \<Rightarrow> ZMSearchUserImageTranscoder" where
  "image_other m x =
     (case ZMUserIDsForSearchDirectoryTable_send m (it_userIDsTable x) of
        Inl e \<Rightarrow> x | Inr t \<Rightarrow> x\<lparr>it_userIDsTable := t\<rparr>)"

fun flight_users :: "ZMTransportRequest \<times> image_flight \<Rightarrow> NSUUID list" where
  "flight_users (r, ProfilesOf ids) = ids"
| "flight_users (r, ImageOf e) = []"

definition asked_once :: "ZMSearchUserImageTranscoder \<times> (ZMTransportRequest \<times> image_flight) list \<Rightarrow> bool" where
  "asked_once w \<longleftrightarrow> distinct (concat (map flight_users (snd w))) \<and> distinct (userIDsBeingRequested (fst w)) \<and>
     set (concat (map flight_users (snd w))) = set (userIDsBeingRequested (fst w))"

lemma distinct_fold_ids:
  "distinct acc \<Longrightarrow> distinct (fold (\<lambda>(directory, es) ids. oset_union ids (List.map_filter f es)) ts acc)"
  by (induction ts arbitrary: acc) auto

lemma set_map_filter: "set (List.map_filter f es) = {i. \<exists>e \<in> set es. f e = Some i}"
  by (induction es) (auto simp: map_filter_simps split: option.splits)

lemma set_fold_ids:
  "set (fold (\<lambda>(directory, es) ids. oset_union ids (List.map_filter f es)) ts acc) =
   set acc \<union> (\<Union>(directory, es) \<in> set ts. {i. \<exists>e \<in> set es. f e = Some i})"
  by (induction ts arbitrary: acc) (auto simp: set_map_filter)

lemma distinct_allUserIDs [simp]: "distinct (allUserIDs t)"
  unfolding allUserIDs_def by (rule distinct_fold_ids) simp

lemma mem_allUserIDs:
  "u \<in> set (allUserIDs t) \<longleftrightarrow> (\<exists>(directory, es) \<in> set (table_entries t). \<exists>e \<in> set es. userIDIfThereIsNoAssetID e = Some u)"
  unfolding allUserIDs_def set_fold_ids by auto

lemma on_table_requested [simp]: "userIDsBeingRequested (on_table f x) = userIDsBeingRequested x"
  by (simp add: on_table_def)

lemma userData_requested [simp]: "userIDsBeingRequested (processUserData env d x) = userIDsBeingRequested x"
  by (simp add: processUserData_def Let_def split: option.split)

lemma fold_userData_requested [simp]:
  "userIDsBeingRequested (fold (processUserData env) ds x) = userIDsBeingRequested x"
  by (induction ds arbitrary: x) auto

lemma profile_requested:
  "userIDsBeingRequested (processUserProfileResponse env response ids x) = oset_minus (userIDsBeingRequested x) ids"
  by (simp add: processUserProfileResponse_def Let_def split: ZMTransportResponseStatus.split)

lemma asset_requested: "userIDsBeingRequested (processAssetResponse response d e x) = userIDsBeingRequested x"
  by (simp add: processAssetResponse_def Let_def split: ZMTransportResponseStatus.split option.split)

lemma asked_once_poll:
  assumes "asked_once (x, fl)"
  shows "asked_once (flight_step (image_nextRequest env) (\<lambda>r f. image_respond env (snd f) r) image_other (Poll pick) (x, fl))"
proof (cases "oset_minus (allUserIDs (it_userIDsTable x)) (userIDsBeingRequested x) = []")
  case True
  with assms show ?thesis
    by (auto simp: image_nextRequest_def fetchUsersRequest_def fetchAssetRequest_def asked_once_def Let_def
        split: option.splits)
next
  case False
  with assms show ?thesis
    by (auto simp: image_nextRequest_def fetchUsersRequest_def asked_once_def Let_def)
qed

lemma asked_once_answer:
  assumes "asked_once (x, fl)"
  shows "asked_once (flight_step (image_nextRequest env) (\<lambda>r f. image_respond env (snd f) r) image_other (Answer n r) (x, fl))"
proof (cases "n < length fl")
  case True
  then have fl: "fl = take n fl @ fl ! n # drop (Suc n) fl"
    by (rule id_take_nth_drop)
  obtain q f where "fl ! n = (q, f)" by fastforce
  with assms True fl show ?thesis
    by (cases f; cases "distinct (concat (map flight_users fl))"; subst (asm) fl)
       (auto simp: asked_once_def remove_nth_def profile_requested asset_requested)
qed (use assms in simp)

lemma asked_once_step:
  "asked_once w \<Longrightarrow> asked_once (flight_step (image_nextRequest env) (\<lambda>r f. image_respond env (snd f) r) image_other m w)"
proof (cases m)
  case (Other x3)
  then show "asked_once w \<Longrightarrow> ?thesis"
    by (simp add: asked_once_def image_other_def split: sum.split)
qed (use asked_once_poll [of "fst w" "snd w" env] asked_once_answer [of "fst w" "snd w" env] in simp_all)

interpretation image_flights:
  component "flight_step (image_nextRequest env) (\<lambda>r f. image_respond env (snd f) r) image_other" asked_once for env
  by unfold_locales (rule asked_once_step)

text \<open>C7: However the transcoder is polled and answered and the search directories change the table,
  no user is asked for by two requests in flight, and the users marked as being requested are
  those of the requests in flight.
\<close>

theorem no_profile_is_asked_for_twice:
  assumes "run (flight_step (image_nextRequest env) (\<lambda>r f. image_respond env (snd f) r) image_other) (init_imageTranscoder t images assets, []) ms = (x, fl)"
  shows "distinct (concat (map flight_users fl)) \<and> set (concat (map flight_users fl)) = set (userIDsBeingRequested x)"
  using image_flights.run_invar [of "(init_imageTranscoder t images assets, [])" env ms] assms
  by (simp add: asked_once_def init_imageTranscoder_def)

definition sample_table :: ZMUserIDsForSearchDirectoryTable where
  "sample_table = \<lparr>table_entries = [(9, [\<lparr>ua_searchUser = sample_search_user 2, ua_assetID = None\<rparr>])]\<rparr>"

lemma sample_table_ids: "allUserIDs sample_table = [2]"
  by (simp add: allUserIDs_def sample_table_def map_filter_def userIDIfThereIsNoAssetID_def sample_search_user_def oset_add_def)

theorem no_profile_is_asked_for_twice_witness:
  "distinct (concat (map flight_users [(fetchAssetsForUsersWithIDs sample_search_env [2], ProfilesOf [2])])) \<and>
   set (concat (map flight_users [(fetchAssetsForUsersWithIDs sample_search_env [2], ProfilesOf [2])])) =
   set (userIDsBeingRequested ((init_imageTranscoder sample_table [] [])\<lparr>userIDsBeingRequested := [2]\<rparr>))"
  by (rule no_profile_is_asked_for_twice [of sample_search_env sample_table "[]" "[]" "[Poll (\<lambda>_. 0)]"])
     (simp add: image_nextRequest_def fetchUsersRequest_def init_imageTranscoder_def sample_table_ids
       oset_minus_def oset_add_def Let_def)

section \<open>How a user leaves the table\<close>

lemma replaced_is_not_asked: "u \<notin> set (allUserIDs (replaceUserIDToDownload u a t))"
  by (auto simp: mem_allUserIDs replaceUserIDToDownload_def userIDIfThereIsNoAssetID_def ua_userID_def split: if_splits)

lemma removed_is_not_asked: "u \<in> set us \<Longrightarrow> u \<notin> set (allUserIDs (removeAllEntriesWithUserIDs us t))"
  by (auto simp: mem_allUserIDs removeAllEntriesWithUserIDs_def userIDIfThereIsNoAssetID_def ua_userID_def split: if_splits)

lemma others_stay:
  "u \<noteq> v \<Longrightarrow> u \<in> set (allUserIDs (replaceUserIDToDownload v a t)) \<longleftrightarrow> u \<in> set (allUserIDs t)"
  "u \<notin> set us \<Longrightarrow> u \<in> set (allUserIDs (removeAllEntriesWithUserIDs us t)) \<longleftrightarrow> u \<in> set (allUserIDs t)"
  by (force simp: mem_allUserIDs replaceUserIDToDownload_def removeAllEntriesWithUserIDs_def
      userIDIfThereIsNoAssetID_def ua_userID_def split: if_splits)+

lemma answered_user_is_not_asked:
  "se_optionalUuidForKey env ''id'' d = Some u \<Longrightarrow> u \<notin> set (allUserIDs (it_userIDsTable (processUserData env d x)))"
  by (simp add: processUserData_def Let_def on_table_def replaced_is_not_asked removed_is_not_asked split: option.split)

lemma unlisted_user_stays:
  "se_optionalUuidForKey env ''id'' d \<noteq> Some u \<Longrightarrow>
   u \<in> set (allUserIDs (it_userIDsTable (processUserData env d x))) \<longleftrightarrow> u \<in> set (allUserIDs (it_userIDsTable x))"
  by (auto simp: processUserData_def Let_def on_table_def others_stay split: option.split)

lemma unlisted_users_stay:
  "(\<And>d. d \<in> set ds \<Longrightarrow> se_optionalUuidForKey env ''id'' d \<noteq> Some u) \<Longrightarrow>
   u \<in> set (allUserIDs (it_userIDsTable (fold (processUserData env) ds x))) \<longleftrightarrow> u \<in> set (allUserIDs (it_userIDsTable x))"
proof (induction ds arbitrary: x)
  case (Cons d ds)
  then show ?case by (simp add: unlisted_user_stays)
qed simp

text \<open>A user the backend does not know is asked for without end: when a successful answer does not
  list a user that was asked for, the user stays in the table, and the very next request asks for
  the same user again.
\<close>

lemma unlisted_user_is_asked_for_again:
  assumes "u \<in> set (allUserIDs (it_userIDsTable x))" and "u \<in> set ids"
    and "resp_result response = ZMTransportResponseStatusSuccess"
    and "\<And>d. d \<in> set (asDictionaries (asArray (resp_payload response))) \<Longrightarrow> se_optionalUuidForKey env ''id'' d \<noteq> Some u"
  shows "\<exists>r ids' x'. image_nextRequest env pick (processUserProfileResponse env response ids x) = (Some (r, ProfilesOf ids'), x') \<and>
    u \<in> set ids'"
proof -
  let ?y = "processUserProfileResponse env response ids x"
  from assms have "u \<in> set (allUserIDs (it_userIDsTable ?y))"
    by (simp add: processUserProfileResponse_def Let_def unlisted_users_stay)
  moreover have "u \<notin> set (userIDsBeingRequested ?y)"
    using assms(2) by (simp add: profile_requested)
  ultimately have u: "u \<in> set (oset_minus (allUserIDs (it_userIDsTable ?y)) (userIDsBeingRequested ?y))"
    by simp
  then have "oset_minus (allUserIDs (it_userIDsTable ?y)) (userIDsBeingRequested ?y) \<noteq> []"
    by (metis empty_iff empty_set)
  with u show ?thesis
    by (simp add: image_nextRequest_def fetchUsersRequest_def Let_def)
qed

definition empty_answer :: ZMTransportResponse where
  "empty_answer = \<lparr>resp_result = ZMTransportResponseStatusSuccess, resp_HTTPStatus = 200,
     resp_payload = Some (JArr []), resp_payloadLabel = None\<rparr>"

lemma unlisted_user_is_asked_for_again_example:
  "\<exists>r ids' x'. image_nextRequest sample_search_env (\<lambda>_. 0)
      (processUserProfileResponse sample_search_env empty_answer [2] (init_imageTranscoder sample_table [] [])) =
      (Some (r, ProfilesOf ids'), x') \<and> (2 :: nat) \<in> set ids'"
  by (rule unlisted_user_is_asked_for_again)
     (simp_all add: init_imageTranscoder_def sample_table_ids empty_answer_def)

lemma image_answer_is_kept:
  assumes "resp_result response = ZMTransportResponseStatusSuccess" and "ua_userID e = Some u"
    and "y = processAssetResponse response (Some d) e x"
  shows "map_of (imagesByUserIDCache y) u = Some d \<and>
    (ua_searchUser e, NotifyNewSmallImageData d) \<in> set (it_notified y) \<and> u \<notin> set (allUserIDs (it_userIDsTable y))"
  using assms by (simp add: processAssetResponse_def Let_def on_table_def id_list_def removed_is_not_asked)

end
