(* ===== verification/SearchDirectory.thy ===== *)
theory SearchDirectory
  imports Searches SearchImages
begin

text \<open>
  \<^verbatim>\<open>ZMSearchDirectory\<close>, the entry point of the search: it keeps one search for each token, passes their
  results to its observers and to the table of missing images, suggests people
  (\<^verbatim>\<open>ZMSuggestionSearch\<close>) and caches the top conversations (\<^verbatim>\<open>ZMSearchTopConversations\<close>). The search for
  common contacts (\<^verbatim>\<open>ZMCommonContactsSearch\<close>) has its own cache.

  Blocks that are sent to a context are kept in the state, in the order they were sent, and run as events of
  their own: each context runs its blocks in order, and nothing is assumed about the order between contexts.
  The queues of \<^verbatim>\<open>ZMSearch\<close> are part of its own state. Answers of the backend are separate events.
  Saving the store after a dismissal is taken to succeed; for an answer with suggestions both outcomes are modelled.
\<close>

section \<open>Top conversations\<close>

record ZMSearchTopConversations =
  top_creationDate :: NSDate
  requestedConversationsCount :: int
  conversationObjectIDs :: "nat list option"
  conversationObjectIDURIs :: "NSString list option"

record core_data =
  cd_isTemporaryID :: "nat \<Rightarrow> bool"
  cd_URIRepresentation :: "nat \<Rightarrow> NSString"
  cd_managedObjectIDForURI :: "NSString \<Rightarrow> nat option"
  cd_exists :: "nat \<Rightarrow> bool"

definition top_initWithConversations :: "core_data \<Rightarrow> NSDate \<Rightarrow> nat list option \<Rightarrow> ZMSearchTopConversations" where
  "top_initWithConversations cd now conversations =
     \<lparr>top_creationDate = now, requestedConversationsCount = 0,
      conversationObjectIDs = map_option (filter (\<lambda>moid. \<not> cd_isTemporaryID cd moid)) conversations,
      conversationObjectIDURIs = None\<rparr>"

definition createURIs :: "core_data \<Rightarrow> ZMSearchTopConversations \<Rightarrow> ZMSearchTopConversations" where
  "createURIs cd t =
     (if conversationObjectIDURIs t = None
      then t\<lparr>conversationObjectIDURIs := map_option (map (cd_URIRepresentation cd)) (conversationObjectIDs t)\<rparr> else t)"

datatype top_coded = CodedDate NSDate | CodedURIs "NSString list" | CodedCount int

definition top_encodeWithCoder :: "core_data \<Rightarrow> ZMSearchTopConversations \<Rightarrow> (NSString \<times> top_coded) list" where
  "top_encodeWithCoder cd t =
     [(''date'', CodedDate (top_creationDate t))] @
     (case conversationObjectIDURIs (createURIs cd t) of None \<Rightarrow> [] | Some us \<Rightarrow> [(''conversations'', CodedURIs us)]) @
     [(''requestedConversationsCount'', CodedCount (requestedConversationsCount t))]"

definition top_initWithCoder :: "(NSString \<times> top_coded) list \<Rightarrow> ZMSearchTopConversations option" where
  "top_initWithCoder coder =
     (case map_of coder ''date'' of
        Some (CodedDate d) \<Rightarrow>
          Some \<lparr>top_creationDate = d,
                requestedConversationsCount =
                  (case map_of coder ''requestedConversationsCount'' of Some (CodedCount n) \<Rightarrow> n | _ \<Rightarrow> 9),
                conversationObjectIDs = None,
                conversationObjectIDURIs = (case map_of coder ''conversations'' of Some (CodedURIs us) \<Rightarrow> Some us | _ \<Rightarrow> None)\<rparr>
      | _ \<Rightarrow> None)"

text \<open>The archive of the top conversations; there is none before the first one is stored.\<close>

definition top_decodeFromData :: "(NSString \<times> top_coded) list option \<Rightarrow> ZMSearchTopConversations option" where
  "top_decodeFromData data = Option.bind data top_initWithCoder"

definition hasConversationsIdenticalTo :: "core_data \<Rightarrow> ZMSearchTopConversations \<Rightarrow> ZMSearchTopConversations option \<Rightarrow> bool" where
  "hasConversationsIdenticalTo cd t other =
     (case other of None \<Rightarrow> False
      | Some o' \<Rightarrow>
          (case conversationObjectIDURIs (createURIs cd t) of
             None \<Rightarrow> False
           | Some us \<Rightarrow> conversationObjectIDURIs (createURIs cd o') = Some us))"

definition conversationsInManagedObjectContext ::
  "core_data \<Rightarrow> ZMSearchTopConversations \<Rightarrow> nat list \<times> ZMSearchTopConversations" where
  "conversationsInManagedObjectContext cd t =
     (let ids = (case conversationObjectIDs t of
                   Some ids \<Rightarrow> ids
                 | None \<Rightarrow> (case conversationObjectIDURIs t of
                              None \<Rightarrow> [] | Some us \<Rightarrow> List.map_filter (cd_managedObjectIDForURI cd) us))
      in (filter (cd_exists cd) ids, t\<lparr>conversationObjectIDs := Some ids\<rparr>))"

datatype ZMSearchTopConversations_msg =
    SetRequestedConversationsCount int
  | ConversationsInManagedObjectContext

primrec ZMSearchTopConversations_send ::
  "core_data \<Rightarrow> ZMSearchTopConversations_msg \<Rightarrow> ZMSearchTopConversations \<Rightarrow> ZMSearchTopConversations" where
  "ZMSearchTopConversations_send cd (SetRequestedConversationsCount n) t = t\<lparr>requestedConversationsCount := n\<rparr>"
| "ZMSearchTopConversations_send cd ConversationsInManagedObjectContext t = snd (conversationsInManagedObjectContext cd t)"

section \<open>Common contacts\<close>

record ZMCommonContactsSearchCachedEntry =
  cce_expirationDate :: NSDate
  cce_userObjectIDs :: "nat list"

record ZMCommonContactsSearch =
  cs_searchToken :: nat
  cs_userID :: NSUUID
  cs_resultsCache :: "(NSUUID \<times> ZMCommonContactsSearchCachedEntry) list"
  cs_delegateReceived :: "(nat list \<times> nat) list"
  cs_enqueued :: "ZMTransportRequest list"

definition convertObjectIDsAndNotifyDelegate :: "NSDate \<Rightarrow> nat list \<Rightarrow> ZMCommonContactsSearch \<Rightarrow> ZMCommonContactsSearch" where
  "convertObjectIDsAndNotifyDelegate now ids s =
     s\<lparr>cs_resultsCache := dict_put (cs_userID s)
          \<lparr>cce_expirationDate = now + 60 * 10, cce_userObjectIDs = ids\<rparr> (cs_resultsCache s),
       cs_delegateReceived := cs_delegateReceived s @ [(oset_union [] ids, cs_searchToken s)]\<rparr>"

definition checkCacheAndNotify :: "NSDate \<Rightarrow> ZMCommonContactsSearch \<Rightarrow> bool \<times> ZMCommonContactsSearch" where
  "checkCacheAndNotify now s =
     (case map_of (cs_resultsCache s) (cs_userID s) of
        None \<Rightarrow> (False, s)
      | Some e \<Rightarrow>
          if cce_expirationDate e - now < 0
          then (False, s\<lparr>cs_resultsCache := dict_remove (cs_userID s) (cs_resultsCache s)\<rparr>)
          else (True, convertObjectIDsAndNotifyDelegate now (cce_userObjectIDs e) s))"

definition common_startRequest :: "search_env \<Rightarrow> ZMCommonContactsSearch \<Rightarrow> ZMCommonContactsSearch" where
  "common_startRequest env s =
     s\<lparr>cs_enqueued := cs_enqueued s @ [requestGetFromPath (''/search/common/'' @ se_transportString env (cs_userID s))]\<rparr>"

text \<open>\<open>userWithRemoteID\<close> finds a user of the store; it does not create one.\<close>

definition common_parseResponse ::
  "search_env \<Rightarrow> (NSUUID \<Rightarrow> nat option) \<Rightarrow> NSDate \<Rightarrow> ZMTransportResponse \<Rightarrow> ZMCommonContactsSearch \<Rightarrow> ZMCommonContactsSearch" where
  "common_parseResponse env userWithRemoteID now response s =
     (if resp_result response \<noteq> ZMTransportResponseStatusSuccess then s
      else let documents = asDictionaries (case optionalArrayForKey ''documents'' (asDictionary (resp_payload response)) of
                                             None \<Rightarrow> [] | Some xs \<Rightarrow> xs);
               ids = oset_union [] (List.map_filter
                       (\<lambda>d. Option.bind (se_optionalUuidForKey env ''id'' d) userWithRemoteID) documents)
           in convertObjectIDsAndNotifyDelegate now ids s)"

definition startSearchWithTransportSession ::
  "search_env \<Rightarrow> NSDate \<Rightarrow> bool \<Rightarrow> ZMCommonContactsSearch \<Rightarrow> ZMCommonContactsSearch" where
  "startSearchWithTransportSession env now delegate s =
     (if \<not> delegate then s
      else case checkCacheAndNotify now s of (found, s') \<Rightarrow> if found then s' else common_startRequest env s')"

section \<open>The directory\<close>

text \<open>The two kinds of tokens: a request, or the token of the suggestions.\<close>

datatype search_token = RequestToken ZMSearchRequest | SuggestionToken

record ZMSuggestionSearch =
  sg_remoteIdentifiers :: "NSUUID list"
  sg_results :: "(NSUUID \<times> ZMSearchUser) list"
  sg_tornDown :: bool
  sg_resultHandler :: bool

definition init_suggestion :: ZMSuggestionSearch where
  "init_suggestion = \<lparr>sg_remoteIdentifiers = [], sg_results = [], sg_tornDown = False, sg_resultHandler = False\<rparr>"

text \<open>
  The blocks that wait for a context: those of \<^verbatim>\<open>ZMSuggestionSearch\<close>, each with the search it belongs to and with
  what it has copied, and those of the directory.
\<close>

datatype directory_context = SessionContext | DirectoryContext | SearchContext | SyncContext | MainQueue

datatype (plugins only: code size) directory_block =
    StartBlock nat
  | FetchBlock nat
  | FetchLocalUsersBlock nat
  | FetchRemoteUsersBlock nat
  | SendResultBlock nat
  | DeliverBlock nat "NSUUID list" "(NSUUID \<times> ZMSearchUser) list"
  | RemoveSearchUserBlock NSUUID
  | RemoteSearchBlock
  | SuggestionsChangedBlock
  | SendSearchResultBlock search_token "ZMSearchResult option"
  | UpdateTopConversationsBlock "nat list"
  | EndFetchingTopConversationsBlock
  | RemoveFromTableBlock

primrec block_context :: "directory_block \<Rightarrow> directory_context" where
  "block_context (StartBlock k) = SessionContext"
| "block_context (FetchBlock k) = SearchContext"
| "block_context (FetchLocalUsersBlock k) = SessionContext"
| "block_context (FetchRemoteUsersBlock k) = SearchContext"
| "block_context (SendResultBlock k) = SearchContext"
| "block_context (DeliverBlock k ids rs) = SessionContext"
| "block_context (RemoveSearchUserBlock u) = SessionContext"
| "block_context RemoteSearchBlock = SessionContext"
| "block_context SuggestionsChangedBlock = DirectoryContext"
| "block_context (SendSearchResultBlock token r) = DirectoryContext"
| "block_context (UpdateTopConversationsBlock cs) = MainQueue"
| "block_context EndFetchingTopConversationsBlock = DirectoryContext"
| "block_context RemoveFromTableBlock = SyncContext"

datatype directory_request = SuggestedPeopleRequest ZMTransportRequest | TopConversationsRequest ZMTransportRequest
  | SuggestedUsersRequest ZMTransportRequest

text \<open>
  \<open>sd_suggestions\<close> has every suggestion search that was created, \<open>sd_suggestion\<close> the one of the search map,
  \<open>sd_usersRequested\<close> the searches whose request for users is not answered yet.
\<close>

record ZMSearchDirectory =
  sd_self :: nat
  remoteSearchTimeout :: NSTimeInterval
  sd_updateDelay :: NSTimeInterval
  maxTopConversationsCount :: int
  sd_isTornDown :: bool
  sd_observers :: "nat list"
  sd_topObservers :: "nat list"
  sd_searchMap :: "(ZMSearchRequest \<times> ZMSearch) list"
  sd_suggestion :: "nat option"
  sd_suggestions :: "nat \<Rightarrow> ZMSuggestionSearch"
  sd_created :: nat
  sd_usersRequested :: "nat list"
  sd_blocks :: "directory_block list"
  sd_suggestionCached :: "ZMSearchResult option"
  sd_metadata :: search_metadata
  removedSearchUserRemoteIdentifiers :: "NSUUID list option"
  isFetchingSuggestedPeople :: bool
  isFetchingTopConversations :: bool
  cachedTopConversations :: "ZMSearchTopConversations option"
  sd_storedTop :: "(NSString \<times> top_coded) list option"
  sd_table :: ZMUserIDsForSearchDirectoryTable
  sd_mediumImages :: "(NSUUID \<times> NSData) list"
  sd_received :: "(nat \<times> search_token \<times> ZMSearchResult option) list"
  sd_topNotified :: "nat list"
  sd_newRequests :: nat
  sd_enqueued :: "directory_request list"

text \<open>\<open>de_sameContext\<close>: the context of the session is also the user interface context of the directory.\<close>

record directory_env =
  de_store :: search_store
  de_coreData :: core_data
  de_now :: NSDate
  de_isLocalOrHasCachedProfileImageData :: "ZMSearchUser \<Rightarrow> bool"
  de_usersWithIdentifiers :: "NSUUID list \<Rightarrow> ZMManagedObject list"
  de_save :: bool
  de_contacts :: "ZMAddressBookContact list"
  de_contains :: "NSString \<Rightarrow> NSString \<Rightarrow> bool"
  de_matchedUsers :: "matched_user list"
  de_connectionConversation :: "ZMManagedObject \<Rightarrow> nat option"
  de_connectionKeys :: "NSString \<times> NSString"
  de_collide :: "nat \<Rightarrow> bool"
  de_sameContext :: bool

definition init_directory :: "nat \<Rightarrow> int \<Rightarrow> search_metadata \<Rightarrow> NSUUID list option \<Rightarrow>
    ZMUserIDsForSearchDirectoryTable \<Rightarrow> (NSUUID \<times> NSData) list \<Rightarrow> (NSString \<times> top_coded) list option \<Rightarrow>
    ZMSearchDirectory" where
  "init_directory self n metadata removed table images stored =
     \<lparr>sd_self = self, remoteSearchTimeout = 3 / 2, sd_updateDelay = 60, maxTopConversationsCount = n,
      sd_isTornDown = False, sd_observers = [], sd_topObservers = [], sd_searchMap = [], sd_suggestion = None,
      sd_suggestions = (\<lambda>_. init_suggestion), sd_created = 0, sd_usersRequested = [], sd_blocks = [],
      sd_suggestionCached = None, sd_metadata = metadata, removedSearchUserRemoteIdentifiers = removed,
      isFetchingSuggestedPeople = False, isFetchingTopConversations = False, cachedTopConversations = None,
      sd_storedTop = stored, sd_table = table, sd_mediumImages = images, sd_received = [], sd_topNotified = [],
      sd_newRequests = 0, sd_enqueued = []\<rparr>"

definition post_block :: "directory_block \<Rightarrow> ZMSearchDirectory \<Rightarrow> ZMSearchDirectory" where
  "post_block b d = d\<lparr>sd_blocks := sd_blocks d @ [b]\<rparr>"

text \<open>After \<^verbatim>\<open>tearDown\<close> the directory has no contexts, and blocks sent to \<^verbatim>\<open>nil\<close> are lost.\<close>

definition directory_post :: "directory_block \<Rightarrow> ZMSearchDirectory \<Rightarrow> ZMSearchDirectory" where
  "directory_post b d = (if sd_isTornDown d then d else post_block b d)"

definition directory_enqueue :: "directory_env \<Rightarrow> directory_request \<Rightarrow> ZMSearchDirectory \<Rightarrow> objc_failure + ZMSearchDirectory" where
  "directory_enqueue env r d =
     (if ss_transportSession (de_store env) \<and> \<not> sd_isTornDown d then Inr (d\<lparr>sd_enqueued := sd_enqueued d @ [r]\<rparr>)
      else Inl AssertionFailure)"

subsection \<open>Results\<close>

definition storeSearchResultUserIDsInCache ::
  "directory_env \<Rightarrow> ZMSearchResult \<Rightarrow> ZMSearchDirectory \<Rightarrow> objc_failure + ZMSearchDirectory" where
  "storeSearchResultUserIDsInCache env r d =
     (let allSearchUsers = filter (\<lambda>u. su_remoteIdentifier u \<noteq> None \<and> su_user u = None) (allSearchUser r)
      in if length allSearchUsers > 0
         then bindE (setSearchUsers (filter (\<lambda>u. \<not> de_isLocalOrHasCachedProfileImageData env u) allSearchUsers)
                       (sd_self d) (sd_table d))
                (\<lambda>t. Inr (d\<lparr>sd_table := t, sd_newRequests := Suc (sd_newRequests d)\<rparr>))
         else Inr d)"

definition directory_sendSearchResult :: "search_token \<Rightarrow> ZMSearchResult option \<Rightarrow> ZMSearchDirectory \<Rightarrow> ZMSearchDirectory" where
  "directory_sendSearchResult token r d = directory_post (SendSearchResultBlock token r) d"

definition sendSearchResult_block :: "search_token \<Rightarrow> ZMSearchResult option \<Rightarrow> ZMSearchDirectory \<Rightarrow> ZMSearchDirectory" where
  "sendSearchResult_block token r d =
     d\<lparr>sd_received := sd_received d @ map (\<lambda>observer. (observer, token, r)) (sd_observers d)\<rparr>"

definition extendSearchResultWithContactsFromAddressBook ::
  "directory_env \<Rightarrow> NSString option \<Rightarrow> ZMSearchResult \<Rightarrow> ZMSearchResult" where
  "extendSearchResultWithContactsFromAddressBook env queryString r =
     (let senv = ss_search (de_store env);
          queryContacts = contactsMatchingQuery (de_contains env) (de_contacts env) queryString;
          queryUsers = List.map_filter su_user (usersInContacts r);
          accepted = (\<lambda>u. se_connectionStatus senv u = Some ZMConnectionStatusAccepted);
          blocked = (\<lambda>u. se_connectionStatus senv u = Some ZMConnectionStatusBlocked);
          step = (\<lambda>(contact, user) (matched, localMatched).
            if (case user of Some u \<Rightarrow> mu_user u \<in> set queryUsers \<and> accepted (mu_user u) | None \<Rightarrow> False)
            then (case contact of
                    None \<Rightarrow> (matched, localMatched @ id_list (map_option mu_user user))
                  | Some c \<Rightarrow> (matched @ [se_initWithContact senv (ab_contact c) (map_option mu_user user)], localMatched))
            else (case contact of
                    Some c \<Rightarrow>
                      if c \<in> set queryContacts \<and> (case user of None \<Rightarrow> True | Some u \<Rightarrow> \<not> blocked (mu_user u))
                      then (matched @ [se_initWithContact senv (ab_contact c) (map_option mu_user user)], localMatched)
                      else (matched, localMatched)
                  | None \<Rightarrow> (matched, localMatched)))
      in case fold step (fst (matchUsers (de_matchedUsers env) (de_contacts env))) ([], []) of
           (matched, localMatched) \<Rightarrow>
             addGroupConversations (groupConversations r)
               (addUsersInDirectory (usersInDirectory r)
                 (addUsersInContacts (matched @ se_usersWithUsers senv localMatched) init_search_result)))"

text \<open>The result handler of a search, the block in \<^verbatim>\<open>performRequest:\<close>; \<^verbatim>\<open>nil\<close> has no users, like an empty result.\<close>

definition directory_handleResult ::
  "directory_env \<Rightarrow> ZMSearchRequest \<Rightarrow> ZMSearchResult option \<Rightarrow> ZMSearchDirectory \<Rightarrow> objc_failure + ZMSearchDirectory" where
  "directory_handleResult env request r d =
     (let result = (case r of None \<Rightarrow> init_search_result | Some result \<Rightarrow> result)
      in bindE (storeSearchResultUserIDsInCache env result d) (\<lambda>d.
           Inr (directory_sendSearchResult (RequestToken request)
             (if includeAddressBookContacts request
              then Some (extendSearchResultWithContactsFromAddressBook env (sr_query request) result) else r) d)))"

subsection \<open>Searches\<close>

text \<open>
  A search of the map takes a step (or is started); what it newly returns goes through its handler.
\<close>

definition directory_onSearch ::
  "directory_env \<Rightarrow> ZMSearchRequest \<Rightarrow> (ZMSearch \<Rightarrow> objc_failure + ZMSearch) \<Rightarrow> ZMSearchDirectory \<Rightarrow>
   objc_failure + ZMSearchDirectory" where
  "directory_onSearch env request f d =
     (case map_of (sd_searchMap d) request of
        None \<Rightarrow> Inr d
      | Some s \<Rightarrow>
          bindE (f s) (\<lambda>s'.
            foldE (directory_handleResult env request) (drop (length (zs_delivered s)) (zs_delivered s'))
              (d\<lparr>sd_searchMap := dict_put request s' (sd_searchMap d)\<rparr>)))"

definition performRequest ::
  "directory_env \<Rightarrow> ZMSearchRequest \<Rightarrow> ZMSearchDirectory \<Rightarrow> objc_failure + search_token option \<times> ZMSearchDirectory" where
  "performRequest env request d =
     (if sr_query request = None then Inr (None, d)
      else let search = (case map_of (sd_searchMap d) request of
                           Some s \<Rightarrow> s
                         | None \<Rightarrow> (init_search request (\<not> sd_isTornDown d))
                                     \<lparr>zs_timeout := remoteSearchTimeout d, zs_updateDelay := sd_updateDelay d\<rparr>);
               d = d\<lparr>sd_searchMap := dict_put request (search\<lparr>zs_resultHandler := True\<rparr>) (sd_searchMap d)\<rparr>
           in bindE (directory_onSearch env request (search_start (de_store env)) d)
                (\<lambda>d. Inr (Some (RequestToken request), d)))"

definition searchForUsersThatCanBeAddedToConversation :: "ZMManagedObject \<Rightarrow> NSString option \<Rightarrow> ZMSearchRequest" where
  "searchForUsersThatCanBeAddedToConversation conversation queryString =
     (setQuery queryString init_search_request)\<lparr>includeContacts := True, filteredConversation := Some conversation\<rparr>"

definition searchForUsersAndConversationsMatchingQueryString :: "NSString option \<Rightarrow> ZMSearchRequest" where
  "searchForUsersAndConversationsMatchingQueryString queryString =
     (setQuery queryString init_search_request)\<lparr>includeContacts := True, includeDirectory := True,
        includeGroupConversations := True, includeRemoteResults := True\<rparr>"

definition searchForLocalUsersAndConversationsMatchingQueryString :: "NSString option \<Rightarrow> ZMSearchRequest" where
  "searchForLocalUsersAndConversationsMatchingQueryString queryString =
     (setQuery queryString init_search_request)\<lparr>includeContacts := True, includeDirectory := False,
        includeGroupConversations := False\<rparr>"

subsection \<open>Suggested people\<close>

definition suggestion_suggestedUsersForUser :: "ZMSearchDirectory \<Rightarrow> NSUUID list option" where
  "suggestion_suggestedUsersForUser d =
     (case removedSearchUserRemoteIdentifiers d of
        None \<Rightarrow> get_suggestedUsersForUser (sd_metadata d)
      | Some removed \<Rightarrow> map_option (\<lambda>us. oset_minus us removed) (get_suggestedUsersForUser (sd_metadata d)))"

text \<open>A search user without an identifier cannot be a key of the results.\<close>

definition results_put :: "ZMSearchUser \<Rightarrow> (NSUUID \<times> ZMSearchUser) list \<Rightarrow> objc_failure + (NSUUID \<times> ZMSearchUser) list" where
  "results_put u rs =
     (case su_remoteIdentifier u of None \<Rightarrow> Inl NSInvalidArgumentException | Some i \<Rightarrow> Inr (dict_put i u rs))"

definition with_suggestion :: "nat \<Rightarrow> ZMSuggestionSearch \<Rightarrow> ZMSearchDirectory \<Rightarrow> ZMSearchDirectory" where
  "with_suggestion k s d = d\<lparr>sd_suggestions := (sd_suggestions d)(k := s)\<rparr>"

text \<open>
  \<^verbatim>\<open>start\<close> and the methods it calls send a block to one of the two contexts. A definition whose name ends in
  \<open>_block\<close> is what the block does when it runs, with the completion handler that it calls.
\<close>

definition suggestion_start :: "nat \<Rightarrow> ZMSearchDirectory \<Rightarrow> ZMSearchDirectory" where
  "suggestion_start k d = post_block (StartBlock k) d"

definition fetchLocalUsers :: "nat \<Rightarrow> ZMSearchDirectory \<Rightarrow> ZMSearchDirectory" where
  "fetchLocalUsers k d = post_block (FetchLocalUsersBlock k) d"

definition fetchRemoteUsers :: "nat \<Rightarrow> ZMSearchDirectory \<Rightarrow> ZMSearchDirectory" where
  "fetchRemoteUsers k d = post_block (FetchRemoteUsersBlock k) d"

definition suggestion_sendResult :: "nat \<Rightarrow> ZMSearchDirectory \<Rightarrow> ZMSearchDirectory" where
  "suggestion_sendResult k d = post_block (SendResultBlock k) d"

definition fetchLocalUsers_block :: "directory_env \<Rightarrow> nat \<Rightarrow> ZMSearchDirectory \<Rightarrow> objc_failure + ZMSearchDirectory" where
  "fetchLocalUsers_block env k d =
     (let s = sd_suggestions d k;
          ids = (case suggestion_suggestedUsersForUser d of None \<Rightarrow> [] | Some us \<Rightarrow> us);
          searchUsers = se_usersWithUsers (ss_search (de_store env)) (de_usersWithIdentifiers env ids)
      in bindE (foldE results_put searchUsers (sg_results s)) (\<lambda>rs.
           let d = with_suggestion k (s\<lparr>sg_remoteIdentifiers := ids, sg_results := rs\<rparr>) d
           in Inr (if sg_tornDown s then d else fetchRemoteUsers k d)))"

definition suggestible :: "search_env \<Rightarrow> ZMSearchUser \<Rightarrow> bool" where
  "suggestible env u \<longleftrightarrow>
     (case Option.bind (su_user u) (se_connectionStatus env) of
        None \<Rightarrow> True
      | Some ZMConnectionStatusAccepted \<Rightarrow> False
      | Some ZMConnectionStatusPending \<Rightarrow> False
      | Some ZMConnectionStatusIgnored \<Rightarrow> False
      | Some ZMConnectionStatusBlocked \<Rightarrow> False
      | Some ZMConnectionStatusSent \<Rightarrow> False
      | Some ZMConnectionStatusInvalid \<Rightarrow> True)"

definition suggestion_result :: "search_env \<Rightarrow> NSUUID list \<Rightarrow> (NSUUID \<times> ZMSearchUser) list \<Rightarrow> ZMSearchResult" where
  "suggestion_result env remoteIdentifiers results =
     addUsersInDirectory (filter (suggestible env) (List.map_filter (map_of results) remoteIdentifiers)) init_search_result"

text \<open>The result handler of a suggestion search, the block in \<^verbatim>\<open>startSuggestedPeopleSearchForToken:\<close>.\<close>

definition suggestion_handleResult :: "directory_env \<Rightarrow> ZMSearchResult \<Rightarrow> ZMSearchDirectory \<Rightarrow> objc_failure + ZMSearchDirectory" where
  "suggestion_handleResult env r d =
     bindE (storeSearchResultUserIDsInCache env r d) (\<lambda>d. Inr (directory_sendSearchResult SuggestionToken (Some r) d))"

definition sendResult_block :: "nat \<Rightarrow> ZMSearchDirectory \<Rightarrow> ZMSearchDirectory" where
  "sendResult_block k d =
     post_block (DeliverBlock k (sg_remoteIdentifiers (sd_suggestions d k)) (sg_results (sd_suggestions d k))) d"

definition deliver_block :: "directory_env \<Rightarrow> nat \<Rightarrow> NSUUID list \<Rightarrow> (NSUUID \<times> ZMSearchUser) list \<Rightarrow>
    ZMSearchDirectory \<Rightarrow> objc_failure + ZMSearchDirectory" where
  "deliver_block env k remoteIdentifiers results d =
     (let finalResult = suggestion_result (ss_search (de_store env)) remoteIdentifiers results;
          d = d\<lparr>sd_suggestionCached := Some finalResult\<rparr>
      in if sg_resultHandler (sd_suggestions d k) then suggestion_handleResult env finalResult d else Inr d)"

definition requestForRemoteIdentifiers :: "search_env \<Rightarrow> NSUUID list \<Rightarrow> ZMTransportRequest option" where
  "requestForRemoteIdentifiers env ids =
     (if length ids = 0 then None
      else Some (requestGetFromPath (''/users'' @ ''?ids='' @ joined '','' (map (se_transportString env) ids))))"

text \<open>A search keeps its session, so it can still send requests when the directory is torn down.\<close>

definition suggestion_enqueueSearchRequest ::
  "directory_env \<Rightarrow> nat \<Rightarrow> ZMTransportRequest \<Rightarrow> ZMSearchDirectory \<Rightarrow> objc_failure + ZMSearchDirectory" where
  "suggestion_enqueueSearchRequest env k r d =
     (if ss_transportSession (de_store env)
      then Inr (d\<lparr>sd_enqueued := sd_enqueued d @ [SuggestedUsersRequest r], sd_usersRequested := sd_usersRequested d @ [k]\<rparr>)
      else Inl AssertionFailure)"

definition fetchRemoteUsers_block :: "directory_env \<Rightarrow> nat \<Rightarrow> ZMSearchDirectory \<Rightarrow> objc_failure + ZMSearchDirectory" where
  "fetchRemoteUsers_block env k d =
     (let s = sd_suggestions d k;
          nonLocal = filter (\<lambda>i. i \<notin> fst ` set (sg_results s)) (sg_remoteIdentifiers s);
          nonLocal = (if 1600 div 25 < length nonLocal then take (1600 div 25) nonLocal else nonLocal)
      in case requestForRemoteIdentifiers (ss_search (de_store env)) nonLocal of
           Some r \<Rightarrow> suggestion_enqueueSearchRequest env k r d
         | None \<Rightarrow> Inr (if sg_tornDown s then d else suggestion_sendResult k d))"

definition start_block :: "directory_env \<Rightarrow> nat \<Rightarrow> ZMSearchDirectory \<Rightarrow> objc_failure + ZMSearchDirectory" where
  "start_block env k d =
     (case (sd_suggestionCached d, sg_resultHandler (sd_suggestions d k)) of
        (Some r, True) \<Rightarrow> suggestion_handleResult env r d
      | _ \<Rightarrow> if get_suggestedUsersForUser (sd_metadata d) = None then Inr d else Inr (post_block (FetchBlock k) d))"

definition suggestion_addResults :: "search_env \<Rightarrow> ZMTransportResponse \<Rightarrow> ZMSuggestionSearch \<Rightarrow> objc_failure + ZMSuggestionSearch" where
  "suggestion_addResults env response s =
     (if resp_result response = ZMTransportResponseStatusSuccess
      then bindE (foldE results_put (se_usersWithPayloadArray env (asArray (resp_payload response))) (sg_results s))
             (\<lambda>rs. Inr (s\<lparr>sg_results := rs\<rparr>))
      else Inr s)"

text \<open>The completion handler of the request for users, which is answered once.\<close>

definition suggestion_usersAnswer :: "directory_env \<Rightarrow> nat \<Rightarrow> ZMTransportResponse \<Rightarrow> ZMSearchDirectory \<Rightarrow> objc_failure + ZMSearchDirectory" where
  "suggestion_usersAnswer env k response d =
     (if k \<in> set (sd_usersRequested d)
      then bindE (suggestion_addResults (ss_search (de_store env)) response (sd_suggestions d k)) (\<lambda>s.
             let d = with_suggestion k s (d\<lparr>sd_usersRequested := remove1 k (sd_usersRequested d)\<rparr>)
             in Inr (if sg_tornDown s then d else suggestion_sendResult k d))
      else Inr d)"

text \<open>Setting the suggestions posts a notification, which the directory observes until it is torn down.\<close>

definition suggestionsChanged_block :: "ZMSearchDirectory \<Rightarrow> ZMSearchDirectory" where
  "suggestionsChanged_block d =
     (let d = (if sd_isTornDown d then d else d\<lparr>sd_suggestionCached := None\<rparr>)
      in case sd_suggestion d of None \<Rightarrow> d | Some k \<Rightarrow> suggestion_start k d)"

definition suggestedUsersForUserDidChange :: "directory_env \<Rightarrow> ZMSearchDirectory \<Rightarrow> ZMSearchDirectory" where
  "suggestedUsersForUserDidChange env d =
     (if de_sameContext env then suggestionsChanged_block d else directory_post SuggestionsChangedBlock d)"

definition directory_setSuggested :: "directory_env \<Rightarrow> NSUUID list option \<Rightarrow> ZMSearchDirectory \<Rightarrow> ZMSearchDirectory" where
  "directory_setSuggested env us d =
     (let d = d\<lparr>sd_metadata := setSuggestedUsersForUser us (sd_metadata d)\<rparr>
      in if sd_isTornDown d then d else suggestedUsersForUserDidChange env d)"

definition removeSearchUser :: "ZMSearchUser \<Rightarrow> ZMSearchDirectory \<Rightarrow> ZMSearchDirectory" where
  "removeSearchUser searchUser d =
     (case su_remoteIdentifier searchUser of None \<Rightarrow> d | Some remoteID \<Rightarrow> post_block (RemoveSearchUserBlock remoteID) d)"

definition removeSearchUser_block :: "directory_env \<Rightarrow> NSUUID \<Rightarrow> ZMSearchDirectory \<Rightarrow> ZMSearchDirectory" where
  "removeSearchUser_block env remoteID d =
     (let d = d\<lparr>removedSearchUserRemoteIdentifiers :=
                  Some ((case removedSearchUserRemoteIdentifiers d of None \<Rightarrow> [] | Some rs \<Rightarrow> rs) @ [remoteID]),
                sd_suggestionCached :=
                  map_option (copyByRemovingUsersWithRemoteIdentifier (Some remoteID)) (sd_suggestionCached d)\<rparr>;
          d = directory_setSuggested env (suggestion_suggestedUsersForUser d) d
      in d\<lparr>sd_metadata := setRemovedSuggestedContactRemoteIdentifiers
             (Some ((case sm_removedSuggested (sd_metadata d) of None \<Rightarrow> [] | Some rs \<Rightarrow> rs) @ [remoteID])) (sd_metadata d)\<rparr>)"

text \<open>Without contexts and session the suggestion search is \<^verbatim>\<open>nil\<close>, and so is its token, the key.\<close>

definition removeSearchUserFromSuggestedPeople :: "ZMSearchUser option \<Rightarrow> ZMSearchDirectory \<Rightarrow> ZMSearchDirectory" where
  "removeSearchUserFromSuggestedPeople searchUser d =
     (case searchUser of
        None \<Rightarrow> d
      | Some u \<Rightarrow> if su_remoteIdentifier u = None \<or> sd_isTornDown d then d else removeSearchUser u d)"

definition suggestion_tearDown :: "ZMSuggestionSearch \<Rightarrow> ZMSuggestionSearch" where
  "suggestion_tearDown s = s\<lparr>sg_tornDown := True, sg_resultHandler := False\<rparr>"

definition tearDown_suggestion :: "nat option \<Rightarrow> ZMSearchDirectory \<Rightarrow> ZMSearchDirectory" where
  "tearDown_suggestion k d =
     (case k of None \<Rightarrow> d | Some k \<Rightarrow> with_suggestion k (suggestion_tearDown (sd_suggestions d k)) d)"

datatype (plugins only: code size) ZMSuggestionSearch_msg =
    SetSuggestionHandler bool
  | StartSuggestion
  | RemoveSuggestedUser ZMSearchUser
  | TearDownSuggestion

primrec ZMSuggestionSearch_send :: "nat \<Rightarrow> ZMSuggestionSearch_msg \<Rightarrow> ZMSearchDirectory \<Rightarrow> ZMSearchDirectory" where
  "ZMSuggestionSearch_send k (SetSuggestionHandler b) d =
     with_suggestion k ((sd_suggestions d k)\<lparr>sg_resultHandler := b\<rparr>) d"
| "ZMSuggestionSearch_send k StartSuggestion d = suggestion_start k d"
| "ZMSuggestionSearch_send k (RemoveSuggestedUser u) d = removeSearchUser u d"
| "ZMSuggestionSearch_send k TearDownSuggestion d = tearDown_suggestion (Some k) d"

definition startSuggestedPeopleSearch :: "ZMSearchDirectory \<Rightarrow> objc_failure + nat \<times> ZMSearchDirectory" where
  "startSuggestedPeopleSearch d =
     (if sd_isTornDown d then Inl NSInvalidArgumentException
      else let k = sd_created d
           in Inr (k, (with_suggestion k (init_suggestion\<lparr>sg_resultHandler := True\<rparr>) d)
                        \<lparr>sd_created := Suc k, sd_suggestion := Some k\<rparr>))"

definition restartSuggestedPeopleSearch :: "ZMSearchDirectory \<Rightarrow> objc_failure + ZMSearchDirectory" where
  "restartSuggestedPeopleSearch d =
     bindE (startSuggestedPeopleSearch (tearDown_suggestion (sd_suggestion d) d)) (\<lambda>(k, d). Inr (suggestion_start k d))"

definition remotelySearchForSuggestedPeople :: "ZMSearchDirectory \<Rightarrow> ZMSearchDirectory" where
  "remotelySearchForSuggestedPeople d = directory_post RemoteSearchBlock d"

definition remoteSearch_block :: "directory_env \<Rightarrow> ZMSearchDirectory \<Rightarrow> objc_failure + ZMSearchDirectory" where
  "remoteSearch_block env d =
     (if isFetchingSuggestedPeople d then Inr d
      else let d = d\<lparr>isFetchingSuggestedPeople := True\<rparr>
           in if sd_isTornDown d then Inr d
              else directory_enqueue env (SuggestedPeopleRequest (searchRequestForSuggestedPeople 30)) d)"

text \<open>
  The stored identifiers are compared with the suggestions of the answer, objects of another class:
  the two ordered sets are equal only when both are empty. After \<^verbatim>\<open>tearDown\<close> there is no session, and with it
  no context to hold the suggestions.
\<close>

definition suggestedPeopleAnswer ::
  "directory_env \<Rightarrow> bool \<Rightarrow> ZMTransportResponse \<Rightarrow> ZMSearchDirectory \<Rightarrow> objc_failure + ZMSearchDirectory" where
  "suggestedPeopleAnswer env transportSessionError response d =
     bindE (remoteIdentifiersForSuggestedPeopleSearchResponse (ss_search (de_store env)) (de_collide env)
              (de_connectionKeys env) transportSessionError response) (\<lambda>remote.
       bindE
         (if \<not> sd_isTornDown d \<and> resp_result response = ZMTransportResponseStatusSuccess \<and>
             \<not> (get_suggestedUsersForUser (sd_metadata d) = Some [] \<and> remote = Some [])
          then let d = directory_setSuggested env (map_option (\<lambda>rs. oset_union [] (map sg_userIdentifier rs)) remote) d;
                   connections = fold (\<lambda>r cs. dict_put (sg_userIdentifier r) (sg_commonConnections r) cs)
                                   (case remote of None \<Rightarrow> [] | Some rs \<Rightarrow> rs) [];
                   d = d\<lparr>sd_metadata := setCommonConnectionsForUsers (Some connections) (sd_metadata d)\<rparr>
               in if de_save env then restartSuggestedPeopleSearch d else Inr d
          else Inr d)
         (\<lambda>d. Inr (d\<lparr>isFetchingSuggestedPeople := False\<rparr>)))"

definition searchForSuggestedPeople :: "ZMSearchDirectory \<Rightarrow> objc_failure + ZMSearchDirectory" where
  "searchForSuggestedPeople d =
     (let d = remotelySearchForSuggestedPeople d
      in case sd_suggestion d of
           Some k \<Rightarrow> Inr (suggestion_start k d)
         | None \<Rightarrow> bindE (startSuggestedPeopleSearch d) (\<lambda>(k, d). Inr (suggestion_start k d)))"

subsection \<open>Top conversations in the directory\<close>

definition cachedTopConversationsAreStale :: "directory_env \<Rightarrow> ZMSearchDirectory \<Rightarrow> bool" where
  "cachedTopConversationsAreStale env d \<longleftrightarrow>
     (case cachedTopConversations d of
        None \<Rightarrow> True
      | Some t \<Rightarrow> top_creationDate t - de_now env < - 60 \<or> requestedConversationsCount t \<noteq> maxTopConversationsCount d)"

definition markCachedTopConversationsAsStale :: "directory_env \<Rightarrow> ZMSearchDirectory \<Rightarrow> ZMSearchDirectory" where
  "markCachedTopConversationsAsStale env d =
     d\<lparr>cachedTopConversations := map_option (\<lambda>t. t\<lparr>top_creationDate := de_now env - 1000\<rparr>) (cachedTopConversations d)\<rparr>"

definition fetchTopConversations :: "directory_env \<Rightarrow> ZMSearchDirectory \<Rightarrow> objc_failure + ZMSearchDirectory" where
  "fetchTopConversations env d =
     (if isFetchingTopConversations d then Inr d
      else directory_enqueue env (TopConversationsRequest (searchRequestForTopConversations (nat (maxTopConversationsCount d))))
             (d\<lparr>isFetchingTopConversations := True\<rparr>))"

definition loadCachedTopConversations :: "ZMSearchDirectory \<Rightarrow> ZMSearchDirectory" where
  "loadCachedTopConversations d = d\<lparr>cachedTopConversations := top_decodeFromData (sd_storedTop d)\<rparr>"

definition fetchTopConversationsIfCacheIsStale :: "directory_env \<Rightarrow> ZMSearchDirectory \<Rightarrow> objc_failure + ZMSearchDirectory" where
  "fetchTopConversationsIfCacheIsStale env d =
     (if cachedTopConversationsAreStale env d
      then fetchTopConversations env (if cachedTopConversations d = None then loadCachedTopConversations d else d)
      else Inr d)"

definition topConversations :: "directory_env \<Rightarrow> ZMSearchDirectory \<Rightarrow> objc_failure + nat list \<times> ZMSearchDirectory" where
  "topConversations env d =
     bindE (fetchTopConversationsIfCacheIsStale env d) (\<lambda>d.
       Inr (case cachedTopConversations d of
              None \<Rightarrow> ([], d)
            | Some t \<Rightarrow>
                (case conversationsInManagedObjectContext (de_coreData env) t of
                   (cs, t) \<Rightarrow> (cs, d\<lparr>cachedTopConversations := Some t\<rparr>))))"

definition persistTopConversations :: "directory_env \<Rightarrow> ZMSearchDirectory \<Rightarrow> ZMSearchDirectory" where
  "persistTopConversations env d =
     (if sd_isTornDown d then d
      else d\<lparr>sd_storedTop := map_option (top_encodeWithCoder (de_coreData env)) (cachedTopConversations d)\<rparr>)"

text \<open>
  The block that caches the conversations of an answer. The cached object is compared with an array, so it is
  never equal.
\<close>

definition updateTopConversations :: "directory_env \<Rightarrow> nat list \<Rightarrow> ZMSearchDirectory \<Rightarrow> ZMSearchDirectory" where
  "updateTopConversations env conversations d =
     (let update = (top_initWithConversations (de_coreData env) (de_now env) (Some conversations))
                     \<lparr>requestedConversationsCount := maxTopConversationsCount d\<rparr>;
          didChange = (\<not> hasConversationsIdenticalTo (de_coreData env) update (cachedTopConversations d));
          d = persistTopConversations env (d\<lparr>cachedTopConversations := Some update\<rparr>)
      in if didChange then d\<lparr>sd_topNotified := sd_topNotified d @ sd_topObservers d\<rparr> else d)"

definition topConversationsAnswer ::
  "directory_env \<Rightarrow> ZMTransportResponse \<Rightarrow> ZMSearchDirectory \<Rightarrow> objc_failure + ZMSearchDirectory" where
  "topConversationsAnswer env response d =
     bindE
       (if sd_isTornDown d then Inr d
        else if resp_result response \<noteq> ZMTransportResponseStatusSuccess then Inr d
        else bindE (searchResultFromTransportResponse (ss_search (de_store env)) response []) (\<lambda>r.
               Inr (post_block (UpdateTopConversationsBlock
                 (List.map_filter (\<lambda>u. Option.bind (su_user u) (de_connectionConversation env))
                    (case r of None \<Rightarrow> [] | Some r \<Rightarrow> usersInContacts r))) d)))
       (\<lambda>d. Inr (directory_post EndFetchingTopConversationsBlock d))"

subsection \<open>Observers and the end\<close>

definition directory_tearDown :: "ZMSearchDirectory \<Rightarrow> ZMSearchDirectory" where
  "directory_tearDown d =
     (tearDown_suggestion (sd_suggestion d) (directory_post RemoveFromTableBlock d))
       \<lparr>sd_observers := [], cachedTopConversations := None,
        isFetchingTopConversations := False, isFetchingSuggestedPeople := False,
        sd_searchMap := map (apsnd search_tearDown) (sd_searchMap d),
        sd_isTornDown := True\<rparr>"

definition removeFromTable_block :: "ZMSearchDirectory \<Rightarrow> ZMSearchDirectory" where
  "removeFromTable_block d = d\<lparr>sd_table := removeSearchDirectory (sd_self d) (sd_table d), sd_mediumImages := []\<rparr>"

datatype (plugins only: code size) ZMSearchDirectory_msg =
    DirectoryTearDown
  | SetRemoteSearchTimeout NSTimeInterval
  | SetDirectoryUpdateDelay NSTimeInterval
  | TopConversations
  | PerformRequest ZMSearchRequest
  | SearchForUsersThatCanBeAddedToConversation ZMManagedObject "NSString option"
  | SearchForUsersAndConversations "NSString option"
  | SearchForLocalUsersAndConversations "NSString option"
  | SearchForSuggestedPeople
  | RemoveSearchUserFromSuggestedPeople "ZMSearchUser option"
  | AddSearchResultObserver nat
  | RemoveSearchResultObserver nat
  | AddTopConversationsObserver nat
  | RemoveTopConversationsObserver nat

definition directory_perform :: "directory_env \<Rightarrow> ZMSearchRequest \<Rightarrow> ZMSearchDirectory \<Rightarrow> objc_failure + ZMSearchDirectory" where
  "directory_perform env r d = map_sum id snd (performRequest env r d)"

primrec ZMSearchDirectory_send ::
  "directory_env \<Rightarrow> ZMSearchDirectory_msg \<Rightarrow> ZMSearchDirectory \<Rightarrow> objc_failure + ZMSearchDirectory" where
  "ZMSearchDirectory_send env DirectoryTearDown d = Inr (directory_tearDown d)"
| "ZMSearchDirectory_send env (SetRemoteSearchTimeout t) d = Inr (d\<lparr>remoteSearchTimeout := t\<rparr>)"
| "ZMSearchDirectory_send env (SetDirectoryUpdateDelay t) d = Inr (d\<lparr>sd_updateDelay := t\<rparr>)"
| "ZMSearchDirectory_send env TopConversations d = map_sum id snd (topConversations env d)"
| "ZMSearchDirectory_send env (PerformRequest r) d = directory_perform env r d"
| "ZMSearchDirectory_send env (SearchForUsersThatCanBeAddedToConversation c q) d =
     directory_perform env (searchForUsersThatCanBeAddedToConversation c q) d"
| "ZMSearchDirectory_send env (SearchForUsersAndConversations q) d =
     directory_perform env (searchForUsersAndConversationsMatchingQueryString q) d"
| "ZMSearchDirectory_send env (SearchForLocalUsersAndConversations q) d =
     directory_perform env (searchForLocalUsersAndConversationsMatchingQueryString q) d"
| "ZMSearchDirectory_send env SearchForSuggestedPeople d = searchForSuggestedPeople d"
| "ZMSearchDirectory_send env (RemoveSearchUserFromSuggestedPeople u) d = Inr (removeSearchUserFromSuggestedPeople u d)"
| "ZMSearchDirectory_send env (AddSearchResultObserver o') d =
     Inr (if sd_isTornDown d then d else d\<lparr>sd_observers := oset_add (sd_observers d) o'\<rparr>)"
| "ZMSearchDirectory_send env (RemoveSearchResultObserver o') d = Inr (d\<lparr>sd_observers := oset_remove o' (sd_observers d)\<rparr>)"
| "ZMSearchDirectory_send env (AddTopConversationsObserver o') d = Inr (d\<lparr>sd_topObservers := sd_topObservers d @ [o']\<rparr>)"
| "ZMSearchDirectory_send env (RemoveTopConversationsObserver o') d =
     Inr (d\<lparr>sd_topObservers := filter (\<lambda>x. x \<noteq> o') (sd_topObservers d)\<rparr>)"

primrec run_block :: "directory_env \<Rightarrow> directory_block \<Rightarrow> ZMSearchDirectory \<Rightarrow> objc_failure + ZMSearchDirectory" where
  "run_block env (StartBlock k) d = start_block env k d"
| "run_block env (FetchBlock k) d = Inr (fetchLocalUsers k d)"
| "run_block env (FetchLocalUsersBlock k) d = fetchLocalUsers_block env k d"
| "run_block env (FetchRemoteUsersBlock k) d = fetchRemoteUsers_block env k d"
| "run_block env (SendResultBlock k) d = Inr (sendResult_block k d)"
| "run_block env (DeliverBlock k ids rs) d = deliver_block env k ids rs d"
| "run_block env (RemoveSearchUserBlock u) d = Inr (removeSearchUser_block env u d)"
| "run_block env RemoteSearchBlock d = remoteSearch_block env d"
| "run_block env SuggestionsChangedBlock d = Inr (suggestionsChanged_block d)"
| "run_block env (SendSearchResultBlock token r) d = Inr (sendSearchResult_block token r d)"
| "run_block env (UpdateTopConversationsBlock cs) d = Inr (updateTopConversations env cs d)"
| "run_block env EndFetchingTopConversationsBlock d = Inr (d\<lparr>isFetchingTopConversations := False\<rparr>)"
| "run_block env RemoveFromTableBlock d = Inr (removeFromTable_block d)"

text \<open>The first block that waits for a context, and the blocks that are left.\<close>

fun next_block :: "directory_context \<Rightarrow> directory_block list \<Rightarrow> (directory_block \<times> directory_block list) option" where
  "next_block c [] = None"
| "next_block c (b # bs) = (if block_context b = c then Some (b, bs) else map_option (apsnd ((#) b)) (next_block c bs))"

text \<open>
  What happens to a directory: a message of its clients, an answer of the backend, a step of a search, and a
  context that runs its next block.
\<close>

datatype (plugins only: code size) directory_event =
    Sent ZMSearchDirectory_msg
  | SuggestedPeopleAnswered bool ZMTransportResponse
  | SuggestedUsersAnswered nat ZMTransportResponse
  | TopConversationsAnswered ZMTransportResponse
  | InvalidateCache
  | SearchStepped ZMSearchRequest ZMSearch
  | BlockRuns directory_context

primrec directory_step :: "directory_env \<Rightarrow> directory_event \<Rightarrow> ZMSearchDirectory \<Rightarrow> objc_failure + ZMSearchDirectory" where
  "directory_step env (Sent m) d = ZMSearchDirectory_send env m d"
| "directory_step env (SuggestedPeopleAnswered e r) d = suggestedPeopleAnswer env e r d"
| "directory_step env (SuggestedUsersAnswered k r) d = suggestion_usersAnswer env k r d"
| "directory_step env (TopConversationsAnswered r) d = topConversationsAnswer env r d"
| "directory_step env InvalidateCache d = Inr (if sd_isTornDown d then d else markCachedTopConversationsAsStale env d)"
| "directory_step env (SearchStepped q s) d = directory_onSearch env q (\<lambda>_. Inr s) d"
| "directory_step env (BlockRuns c) d =
     (case next_block c (sd_blocks d) of None \<Rightarrow> Inr d | Some (b, bs) \<Rightarrow> run_block env b (d\<lparr>sd_blocks := bs\<rparr>))"

section \<open>Dismissed people\<close>

definition hides :: "NSUUID \<Rightarrow> ZMSearchResult \<Rightarrow> bool" where
  "hides u r \<longleftrightarrow> (\<forall>v \<in> set (usersInContacts r) \<union> set (usersInDirectory r). su_remoteIdentifier v \<noteq> Some u)"

definition keyed :: "(NSUUID \<times> ZMSearchUser) list \<Rightarrow> bool" where
  "keyed rs \<longleftrightarrow> (\<forall>(k, v) \<in> set rs. su_remoteIdentifier v = Some k)"

definition removed_people :: "ZMSearchDirectory \<Rightarrow> NSUUID list" where
  "removed_people d = (case removedSearchUserRemoteIdentifiers d of None \<Rightarrow> [] | Some rs \<Rightarrow> rs)"

text \<open>
  A block that leads to a suggestion of the person \<open>u\<close>: the identifiers it works on, or the result it carries,
  contain that person. A suggestion of \<open>u\<close> is in flight when such a block waits, or when a request for the
  users of such a search is not answered.
\<close>

fun suggests :: "(nat \<Rightarrow> ZMSuggestionSearch) \<Rightarrow> NSUUID \<Rightarrow> directory_block \<Rightarrow> bool" where
  "suggests ss u (FetchRemoteUsersBlock k) \<longleftrightarrow> u \<in> set (sg_remoteIdentifiers (ss k))"
| "suggests ss u (SendResultBlock k) \<longleftrightarrow> u \<in> set (sg_remoteIdentifiers (ss k))"
| "suggests ss u (DeliverBlock k ids rs) \<longleftrightarrow> u \<in> set ids"
| "suggests ss u (SendSearchResultBlock SuggestionToken (Some r)) \<longleftrightarrow> \<not> hides u r"
| "suggests ss u _ \<longleftrightarrow> False"

definition suggestion_in_flight :: "NSUUID \<Rightarrow> ZMSearchDirectory \<Rightarrow> bool" where
  "suggestion_in_flight u d \<longleftrightarrow> (\<exists>b \<in> set (sd_blocks d). suggests (sd_suggestions d) u b) \<or>
     (\<exists>k \<in> set (sd_usersRequested d). u \<in> set (sg_remoteIdentifiers (sd_suggestions d k)))"

fun keyed_block :: "directory_block \<Rightarrow> bool" where
  "keyed_block (DeliverBlock k ids rs) \<longleftrightarrow> keyed rs"
| "keyed_block _ \<longleftrightarrow> True"

definition all_keyed :: "ZMSearchDirectory \<Rightarrow> bool" where
  "all_keyed d \<longleftrightarrow> (\<forall>k. keyed (sg_results (sd_suggestions d k))) \<and> (\<forall>b \<in> set (sd_blocks d). keyed_block b)"

text \<open>
  \<open>dismissed u n\<close>: the user \<open>u\<close> is on the list of dismissed people, no suggestion of that person is in flight or
  cached, and no suggestion sent after the first \<open>n\<close> results has it. A step \<open>keeps\<close> the person dismissed.
\<close>

definition dismissed :: "NSUUID \<Rightarrow> nat \<Rightarrow> ZMSearchDirectory \<Rightarrow> bool" where
  "dismissed u n d \<longleftrightarrow> u \<in> set (removed_people d) \<and> n \<le> length (sd_received d) \<and> \<not> suggestion_in_flight u d \<and>
     (\<forall>r. sd_suggestionCached d = Some r \<longrightarrow> hides u r) \<and>
     (\<forall>observer r. (observer, SuggestionToken, Some r) \<in> set (drop n (sd_received d)) \<longrightarrow> hides u r)"

definition keeps :: "NSUUID \<Rightarrow> nat \<Rightarrow> ZMSearchDirectory \<Rightarrow> ZMSearchDirectory \<Rightarrow> bool" where
  "keeps u n d d' \<longleftrightarrow> (all_keyed d \<longrightarrow> all_keyed d' \<and> (dismissed u n d \<longrightarrow> dismissed u n d'))"

lemma keeps_refl [simp]: "keeps u n d d"
  by (simp add: keeps_def)

lemma keeps_trans: "keeps u n d d' \<Longrightarrow> keeps u n d' d'' \<Longrightarrow> keeps u n d d''"
  by (simp add: keeps_def)

lemma keeps_foldE:
  assumes "\<And>x d d'. f x d = Inr d' \<Longrightarrow> keeps u n d d'"
  shows "foldE f xs d = Inr d' \<Longrightarrow> keeps u n d d'"
proof (induction xs arbitrary: d)
  case (Cons x xs)
  then show ?case
    by (cases "f x d") (auto intro: keeps_trans dest: assms)
qed simp

subsection \<open>Operations that leave the suggestions alone\<close>

fun harmless :: "directory_block \<Rightarrow> bool" where
  "harmless (FetchRemoteUsersBlock k) \<longleftrightarrow> False"
| "harmless (SendResultBlock k) \<longleftrightarrow> False"
| "harmless (DeliverBlock k ids rs) \<longleftrightarrow> False"
| "harmless (SendSearchResultBlock token r) \<longleftrightarrow> token \<noteq> SuggestionToken"
| "harmless _ \<longleftrightarrow> True"

lemma harmless_block: "harmless b \<Longrightarrow> \<not> suggests ss u b" "harmless b \<Longrightarrow> keyed_block b"
  by (cases "(ss, u, b)" rule: suggests.cases; simp) (cases b; simp)

definition same_suggestions :: "ZMSearchDirectory \<Rightarrow> ZMSearchDirectory \<Rightarrow> bool" where
  "same_suggestions d d' \<longleftrightarrow> sd_suggestions d' = sd_suggestions d \<and> sd_suggestionCached d' = sd_suggestionCached d \<and>
     removedSearchUserRemoteIdentifiers d' = removedSearchUserRemoteIdentifiers d \<and>
     sd_usersRequested d' = sd_usersRequested d \<and> sd_received d' = sd_received d \<and>
     (\<exists>new. sd_blocks d' = sd_blocks d @ new \<and> (\<forall>b \<in> set new. harmless b))"

lemma keeps_same: "same_suggestions d d' \<Longrightarrow> keeps u n d d'"
  using harmless_block
  by (fastforce simp: same_suggestions_def keeps_def all_keyed_def dismissed_def removed_people_def suggestion_in_flight_def)

lemma same_refl: "same_suggestions d d"
  by (simp add: same_suggestions_def)

lemma same_trans: "same_suggestions d d' \<Longrightarrow> same_suggestions d' d'' \<Longrightarrow> same_suggestions d d''"
  by (fastforce simp: same_suggestions_def)

lemma same_post: "harmless b \<Longrightarrow> same_suggestions d (post_block b d)" "harmless b \<Longrightarrow> same_suggestions d (directory_post b d)"
  by (simp_all add: same_suggestions_def post_block_def directory_post_def)

lemma same_store: "storeSearchResultUserIDsInCache env r d = Inr d' \<Longrightarrow> same_suggestions d d'"
  by (auto simp: storeSearchResultUserIDsInCache_def same_suggestions_def Let_def split: if_splits)

lemma same_handle: "directory_handleResult env q r d = Inr d' \<Longrightarrow> same_suggestions d d'"
  unfolding directory_handleResult_def directory_sendSearchResult_def
  by (auto simp: Let_def intro: same_trans [OF same_store same_post(2)])

lemma same_handles: "foldE (directory_handleResult env q) xs d = Inr d' \<Longrightarrow> same_suggestions d d'"
proof (induction xs arbitrary: d)
  case (Cons x xs)
  then show ?case
    by (cases "directory_handleResult env q x d") (auto intro: same_trans dest: same_handle)
qed (simp add: same_refl)

lemma same_searchMap: "same_suggestions (d\<lparr>sd_searchMap := m\<rparr>) d' \<Longrightarrow> same_suggestions d d'"
  by (simp add: same_suggestions_def)

lemma same_onSearch: "directory_onSearch env q f d = Inr d' \<Longrightarrow> same_suggestions d d'"
  by (auto simp: directory_onSearch_def same_refl split: option.splits dest!: same_handles dest: same_searchMap)

lemma same_perform: "directory_perform env q d = Inr d' \<Longrightarrow> same_suggestions d d'"
  by (auto simp: directory_perform_def performRequest_def map_sum_Inr same_refl Let_def split: if_splits
      dest!: same_onSearch dest: same_searchMap)

lemma same_enqueue: "directory_enqueue env r d = Inr d' \<Longrightarrow> same_suggestions d d'"
  by (auto simp: directory_enqueue_def same_suggestions_def split: if_splits)

lemma same_remoteSearch: "remoteSearch_block env d = Inr d' \<Longrightarrow> same_suggestions d d'"
  by (auto simp: remoteSearch_block_def directory_enqueue_def same_suggestions_def Let_def split: if_splits)

lemma same_top: "topConversations env d = Inr (cs, d') \<Longrightarrow> same_suggestions d d'"
  by (auto simp: topConversations_def fetchTopConversationsIfCacheIsStale_def fetchTopConversations_def
      directory_enqueue_def loadCachedTopConversations_def same_suggestions_def split: if_splits option.splits prod.splits)

lemma same_updateTop: "same_suggestions d (updateTopConversations env cs d)"
  by (simp add: updateTopConversations_def persistTopConversations_def same_suggestions_def Let_def)

lemma same_topAnswer: "topConversationsAnswer env r d = Inr d' \<Longrightarrow> same_suggestions d d'"
  unfolding topConversationsAnswer_def
  by (auto intro: same_post same_trans [OF same_post(1) same_post(2)] split: if_splits)

subsection \<open>Operations of the suggestions\<close>

lemma keyed_put: "foldE results_put us rs = Inr rs' \<Longrightarrow> keyed rs \<Longrightarrow> keyed rs'"
proof (induction us arbitrary: rs)
  case (Cons u us)
  from Cons.prems(1) obtain i where i: "su_remoteIdentifier u = Some i"
    by (auto simp: results_put_def split: option.splits)
  then have "results_put u rs = Inr (dict_put i u rs)"
    by (simp add: results_put_def)
  with Cons.prems(1) have rs': "foldE results_put us (dict_put i u rs) = Inr rs'"
    by simp
  have "keyed (dict_put i u rs)"
    using Cons.prems(2) i set_dict_put_subset [of i u rs] by (auto simp: keyed_def)
  with rs' show ?case
    by (rule Cons.IH)
qed simp

lemma keyed_addResults:
  "suggestion_addResults env r s = Inr s' \<Longrightarrow> keyed (sg_results s) \<Longrightarrow>
   keyed (sg_results s') \<and> sg_remoteIdentifiers s' = sg_remoteIdentifiers s"
  by (auto simp: suggestion_addResults_def split: if_splits dest: keyed_put)

lemma result_hides: "keyed rs \<Longrightarrow> u \<notin> set ids \<Longrightarrow> hides u (suggestion_result env ids rs)"
  by (auto simp: hides_def suggestion_result_def addUsersInDirectory_def init_search_result_def set_map_filter
      keyed_def dest!: map_of_SomeD)

lemma suggested_excludes_removed:
  "suggestion_suggestedUsersForUser d = Some us \<Longrightarrow> u \<in> set (removed_people d) \<Longrightarrow> u \<notin> set us"
  by (cases "removedSearchUserRemoteIdentifiers d") (auto simp: removed_people_def suggestion_suggestedUsersForUser_def)

lemma keyed_post: "keyed_block b \<Longrightarrow> all_keyed d \<Longrightarrow> all_keyed (post_block b d)"
  by (auto simp: post_block_def all_keyed_def)

lemma dismissed_post: "\<not> suggests (sd_suggestions d) u b \<Longrightarrow> dismissed u n d \<Longrightarrow> dismissed u n (post_block b d)"
  by (auto simp: post_block_def dismissed_def removed_people_def suggestion_in_flight_def)

lemma keeps_post:
  assumes "dismissed u n d \<Longrightarrow> \<not> suggests (sd_suggestions d) u b" and "all_keyed d \<Longrightarrow> keyed_block b"
  shows "keeps u n d (post_block b d)"
  using assms by (auto simp: keeps_def intro: keyed_post dismissed_post)

lemma suggests_update: "suggests (ss(k := s)) u b \<Longrightarrow> u \<notin> set (sg_remoteIdentifiers s) \<or>
    sg_remoteIdentifiers s = sg_remoteIdentifiers (ss k) \<Longrightarrow> suggests ss u b"
  by (cases "(ss, u, b)" rule: suggests.cases) (auto split: if_splits)

lemma keeps_with:
  assumes "all_keyed d \<Longrightarrow> keyed (sg_results s)"
    and "dismissed u n d \<Longrightarrow> u \<notin> set (sg_remoteIdentifiers s) \<or> sg_remoteIdentifiers s = sg_remoteIdentifiers (sd_suggestions d k)"
  shows "keeps u n d (with_suggestion k s d)"
proof -
  have "all_keyed (with_suggestion k s d)" if "all_keyed d"
    using assms(1) [OF that] that by (simp add: all_keyed_def with_suggestion_def)
  moreover have "dismissed u n (with_suggestion k s d)" if "dismissed u n d"
    using assms(2) [OF that] that suggests_update [of "sd_suggestions d" k s u]
    by (auto simp: dismissed_def with_suggestion_def suggestion_in_flight_def removed_people_def split: if_splits)
  ultimately show ?thesis
    by (simp add: keeps_def)
qed

lemma keeps_fields:
  "keeps u n d (d\<lparr>sd_metadata := m\<rparr>)" "keeps u n d (d\<lparr>isFetchingSuggestedPeople := b\<rparr>)"
  "keeps u n d (d\<lparr>sd_created := c, sd_suggestion := x\<rparr>)" "keeps u n d (d\<lparr>sd_suggestionCached := None\<rparr>)"
  "keeps u n d (d\<lparr>sd_usersRequested := remove1 k (sd_usersRequested d)\<rparr>)"
  by (auto simp: keeps_def all_keyed_def dismissed_def removed_people_def suggestion_in_flight_def
      dest: notin_set_remove1)

lemma keeps_start: "keeps u n d (suggestion_start k d)"
  unfolding suggestion_start_def by (rule keeps_post) simp_all

lemma keeps_tearDown: "keeps u n d (tearDown_suggestion k d)"
  unfolding tearDown_suggestion_def suggestion_tearDown_def
  by (auto intro!: keeps_with simp: all_keyed_def split: option.split)

lemma keeps_handle:
  assumes "suggestion_handleResult env r d = Inr d'" and "dismissed u n d \<Longrightarrow> hides u r"
  shows "keeps u n d d'"
proof -
  from assms(1) obtain e where e: "storeSearchResultUserIDsInCache env r d = Inr e"
    and d': "d' = directory_post (SendSearchResultBlock SuggestionToken (Some r)) e"
    by (auto simp: suggestion_handleResult_def directory_sendSearchResult_def)
  from keeps_same [OF same_store [OF e], of u n] d' assms(2) show ?thesis
    by (auto simp: keeps_def directory_post_def intro: keyed_post dismissed_post)
qed

lemma start_block_keeps: "start_block env k d = Inr d' \<Longrightarrow> keeps u n d d'"
  unfolding start_block_def
  by (auto simp: dismissed_def intro: keeps_post keeps_handle split: option.splits bool.splits if_splits)

lemma fetchLocalUsers_block_keeps:
  assumes "fetchLocalUsers_block env k d = Inr d'"
  shows "keeps u n d d'"
proof -
  let ?ids = "case suggestion_suggestedUsersForUser d of None \<Rightarrow> [] | Some us \<Rightarrow> us"
  let ?s = "\<lambda>rs. (sd_suggestions d k)\<lparr>sg_remoteIdentifiers := ?ids, sg_results := rs\<rparr>"
  from assms obtain us rs where rs: "foldE results_put us (sg_results (sd_suggestions d k)) = Inr rs"
    and d': "d' = with_suggestion k (?s rs) d \<or> d' = fetchRemoteUsers k (with_suggestion k (?s rs) d)"
    by (auto simp: fetchLocalUsers_block_def Let_def split: if_splits)
  have ids: "dismissed u n d \<Longrightarrow> u \<notin> set ?ids"
    using suggested_excludes_removed [of d _ u] by (auto simp: dismissed_def split: option.split)
  have "keeps u n d (with_suggestion k (?s rs) d)"
    using keyed_put [OF rs] ids by (intro keeps_with) (auto simp: all_keyed_def)
  moreover have "keeps u n d (fetchRemoteUsers k (with_suggestion k (?s rs) d))"
    using calculation ids
    by (auto simp: keeps_def fetchRemoteUsers_def with_suggestion_def intro!: keyed_post dismissed_post)
  ultimately show ?thesis
    using d' by auto
qed

lemma fetchRemoteUsers_block_keeps:
  assumes "fetchRemoteUsers_block env k d = Inr d'" and "dismissed u n d \<Longrightarrow> u \<notin> set (sg_remoteIdentifiers (sd_suggestions d k))"
  shows "keeps u n d d'"
proof -
  from assms(1) consider "d' = d" | "d' = suggestion_sendResult k d" | r where "suggestion_enqueueSearchRequest env k r d = Inr d'"
    by (auto simp: fetchRemoteUsers_block_def Let_def split: option.splits if_splits)
  then show ?thesis
  proof cases
    case (3 r)
    then have d': "d' = d\<lparr>sd_enqueued := sd_enqueued d @ [SuggestedUsersRequest r], sd_usersRequested := sd_usersRequested d @ [k]\<rparr>"
      by (simp add: suggestion_enqueueSearchRequest_def split: if_splits)
    have "dismissed u n d'" if "dismissed u n d"
      using assms(2) [OF that] that by (simp add: d' dismissed_def removed_people_def suggestion_in_flight_def)
    with d' show ?thesis
      by (simp add: keeps_def all_keyed_def)
  qed (use assms(2) in \<open>auto simp: suggestion_sendResult_def intro: keeps_post\<close>)
qed

lemma sendResult_block_keeps:
  assumes "dismissed u n d \<Longrightarrow> u \<notin> set (sg_remoteIdentifiers (sd_suggestions d k))"
  shows "keeps u n d (sendResult_block k d)"
  unfolding sendResult_block_def using assms by (intro keeps_post) (auto simp: all_keyed_def)

lemma deliver_block_keeps:
  assumes "deliver_block env k ids rs d = Inr d'" and "keyed rs" and "dismissed u n d \<Longrightarrow> u \<notin> set ids"
  shows "keeps u n d d'"
proof -
  let ?r = "suggestion_result (ss_search (de_store env)) ids rs"
  let ?d = "d\<lparr>sd_suggestionCached := Some ?r\<rparr>"
  have r: "dismissed u n d \<Longrightarrow> hides u ?r"
    using result_hides [OF assms(2)] assms(3) by simp
  then have keeps: "keeps u n d ?d"
    by (auto simp: keeps_def all_keyed_def dismissed_def removed_people_def suggestion_in_flight_def)
  have "dismissed u n ?d \<Longrightarrow> hides u ?r"
    by (simp add: dismissed_def)
  with assms(1) keeps show ?thesis
    by (auto simp: deliver_block_def Let_def split: if_splits intro: keeps_trans keeps_handle)
qed

lemma usersAnswer_keeps:
  assumes "suggestion_usersAnswer env k r d = Inr d'"
  shows "keeps u n d d'"
proof (cases "k \<in> set (sd_usersRequested d)")
  case True
  let ?d = "d\<lparr>sd_usersRequested := remove1 k (sd_usersRequested d)\<rparr>"
  from True assms obtain s where s: "suggestion_addResults (ss_search (de_store env)) r (sd_suggestions d k) = Inr s"
    and d': "d' = with_suggestion k s ?d \<or> d' = suggestion_sendResult k (with_suggestion k s ?d)"
    by (auto simp: suggestion_usersAnswer_def Let_def split: if_splits)
  have s': "all_keyed d \<Longrightarrow> keyed (sg_results s) \<and> sg_remoteIdentifiers s = sg_remoteIdentifiers (sd_suggestions d k)"
    using keyed_addResults [OF s] by (simp add: all_keyed_def)
  have ids: "dismissed u n d \<Longrightarrow> u \<notin> set (sg_remoteIdentifiers (sd_suggestions d k))"
    using True by (auto simp: dismissed_def suggestion_in_flight_def)
  have "keeps u n d (with_suggestion k s ?d)"
  proof -
    have "all_keyed d \<Longrightarrow> keeps u n ?d (with_suggestion k s ?d)"
      using s' by (intro keeps_with) auto
    with keeps_fields(5) [of u n d k] show ?thesis
      by (simp add: keeps_def)
  qed
  moreover have "keeps u n d (suggestion_sendResult k (with_suggestion k s ?d))"
    using calculation ids s'
    by (auto simp: keeps_def suggestion_sendResult_def with_suggestion_def intro!: keyed_post dismissed_post)
  ultimately show ?thesis
    using d' by auto
qed (use assms in \<open>simp add: suggestion_usersAnswer_def\<close>)

lemma suggestionsChanged_keeps: "keeps u n d (suggestionsChanged_block d)"
  unfolding suggestionsChanged_block_def Let_def
  by (auto intro: keeps_start keeps_fields keeps_trans [OF keeps_fields(4) keeps_start] split: option.split)

lemma setSuggested_keeps: "keeps u n d (directory_setSuggested env us d)"
proof -
  have "keeps u n d' (suggestedUsersForUserDidChange env d')" for d'
    using suggestionsChanged_keeps keeps_same [OF same_post(2)] by (simp add: suggestedUsersForUserDidChange_def)
  then show ?thesis
    by (auto simp: directory_setSuggested_def Let_def intro: keeps_fields keeps_trans [OF keeps_fields(1)])
qed

lemma startSearch_keeps:
  assumes "startSuggestedPeopleSearch d = Inr (k, d')"
  shows "keeps u n d (suggestion_start k d')"
proof -
  let ?s = "init_suggestion\<lparr>sg_resultHandler := True\<rparr>"
  have "keeps u n d (with_suggestion k ?s d)"
    by (rule keeps_with) (simp_all add: init_suggestion_def keyed_def)
  moreover have "d' = (with_suggestion k ?s d)\<lparr>sd_created := Suc k, sd_suggestion := Some k\<rparr>"
    using assms by (auto simp: startSuggestedPeopleSearch_def Let_def split: if_splits)
  ultimately show ?thesis
    using keeps_trans [OF keeps_trans [OF _ keeps_fields(3)] keeps_start] by blast
qed

lemma restart_keeps: "restartSuggestedPeopleSearch d = Inr d' \<Longrightarrow> keeps u n d d'"
  by (auto simp: restartSuggestedPeopleSearch_def intro: keeps_trans [OF keeps_tearDown startSearch_keeps])

lemma suggestedAnswer_keeps:
  assumes "suggestedPeopleAnswer env e r d = Inr d'"
  shows "keeps u n d d'"
proof -
  from assms consider "d' = d\<lparr>isFetchingSuggestedPeople := False\<rparr>"
    | us m where "d' = (directory_setSuggested env us d)\<lparr>sd_metadata := m, isFetchingSuggestedPeople := False\<rparr>"
    | us m x where "restartSuggestedPeopleSearch ((directory_setSuggested env us d)\<lparr>sd_metadata := m\<rparr>) = Inr x"
        "d' = x\<lparr>isFetchingSuggestedPeople := False\<rparr>"
    by (auto simp: suggestedPeopleAnswer_def Let_def split: if_splits)
  then show ?thesis
  proof cases
    case (2 us m)
    then show ?thesis
      using keeps_trans [OF setSuggested_keeps keeps_trans [OF keeps_fields(1) keeps_fields(2)]] by simp
  next
    case (3 us m x)
    then show ?thesis
      using keeps_trans [OF setSuggested_keeps keeps_trans [OF keeps_fields(1) keeps_trans [OF restart_keeps keeps_fields(2)]]]
      by simp
  qed (simp add: keeps_fields)
qed

lemma searchForSuggested_keeps:
  assumes "searchForSuggestedPeople d = Inr d'"
  shows "keeps u n d d'"
proof -
  let ?d = "remotelySearchForSuggestedPeople d"
  have "keeps u n ?d d'"
    using assms by (auto simp: searchForSuggestedPeople_def Let_def intro: keeps_start startSearch_keeps split: option.splits)
  moreover have "keeps u n d ?d"
    by (simp add: remotelySearchForSuggestedPeople_def keeps_same same_post)
  ultimately show ?thesis
    by (rule keeps_trans [rotated])
qed

text \<open>What the removal does first establishes that the person is dismissed; the rest keeps it.\<close>

lemma hides_copy: "hides u (copyByRemovingUsersWithRemoteIdentifier (Some u) r)"
  "hides u r \<Longrightarrow> hides u (copyByRemovingUsersWithRemoteIdentifier i r)"
  by (auto simp: hides_def copyByRemovingUsersWithRemoteIdentifier_def Let_def)

lemma removal:
  obtains e where "e = d\<lparr>removedSearchUserRemoteIdentifiers := Some (removed_people d @ [i]),
      sd_suggestionCached := map_option (copyByRemovingUsersWithRemoteIdentifier (Some i)) (sd_suggestionCached d)\<rparr>"
    and "\<And>u n. keeps u n e (removeSearchUser_block env i d)"
proof -
  let ?e = "d\<lparr>removedSearchUserRemoteIdentifiers := Some (removed_people d @ [i]),
      sd_suggestionCached := map_option (copyByRemovingUsersWithRemoteIdentifier (Some i)) (sd_suggestionCached d)\<rparr>"
  have "keeps u n ?e (removeSearchUser_block env i d)" for u n
    unfolding removeSearchUser_block_def Let_def removed_people_def
    by (rule keeps_trans [OF setSuggested_keeps keeps_fields(1)])
  with that show ?thesis
    by blast
qed

lemma removeSearchUser_block_keeps: "keeps u n d (removeSearchUser_block env i d)"
proof (rule removal)
  fix e
  assume e: "e = d\<lparr>removedSearchUserRemoteIdentifiers := Some (removed_people d @ [i]),
      sd_suggestionCached := map_option (copyByRemovingUsersWithRemoteIdentifier (Some i)) (sd_suggestionCached d)\<rparr>"
    and "\<And>u n. keeps u n e (removeSearchUser_block env i d)"
  moreover have "keeps u n d e"
    by (auto simp: e keeps_def all_keyed_def dismissed_def removed_people_def suggestion_in_flight_def hides_copy)
  ultimately show ?thesis
    by (blast intro: keeps_trans)
qed

lemma removeSearchUser_block_dismisses:
  assumes "all_keyed d" and "\<not> suggestion_in_flight u d"
  shows "all_keyed (removeSearchUser_block env u d) \<and> dismissed u (length (sd_received d)) (removeSearchUser_block env u d)"
proof (rule removal)
  fix e
  assume e: "e = d\<lparr>removedSearchUserRemoteIdentifiers := Some (removed_people d @ [u]),
      sd_suggestionCached := map_option (copyByRemovingUsersWithRemoteIdentifier (Some u)) (sd_suggestionCached d)\<rparr>"
    and keeps: "\<And>v n. keeps v n e (removeSearchUser_block env u d)"
  from assms have "all_keyed e" and "dismissed u (length (sd_received d)) e"
    by (auto simp: e all_keyed_def dismissed_def removed_people_def suggestion_in_flight_def hides_copy)
  with keeps [of u "length (sd_received d)"] show ?thesis
    by (simp add: keeps_def)
qed

subsection \<open>Runs\<close>

lemma sendSearchResult_block_keeps:
  assumes "dismissed u n d \<Longrightarrow> \<not> suggests (sd_suggestions d) u (SendSearchResultBlock token r)"
  shows "keeps u n d (sendSearchResult_block token r d)"
proof -
  have "dismissed u n (sendSearchResult_block token r d)" if "dismissed u n d"
    using assms [OF that] that
    by (auto simp: sendSearchResult_block_def dismissed_def removed_people_def suggestion_in_flight_def)
  then show ?thesis
    by (simp add: keeps_def sendSearchResult_block_def all_keyed_def)
qed

lemma same_fields:
  "same_suggestions d (d\<lparr>isFetchingTopConversations := b\<rparr>)" "same_suggestions d (removeFromTable_block d)"
  "same_suggestions d (d\<lparr>remoteSearchTimeout := t\<rparr>)" "same_suggestions d (d\<lparr>sd_updateDelay := t\<rparr>)"
  "same_suggestions d (d\<lparr>sd_observers := os\<rparr>)" "same_suggestions d (d\<lparr>sd_topObservers := os\<rparr>)"
  "same_suggestions d (markCachedTopConversationsAsStale env d)"
  by (simp_all add: same_suggestions_def removeFromTable_block_def markCachedTopConversationsAsStale_def)

lemma run_block_keeps:
  assumes "run_block env b d = Inr d'" and "keyed_block b" and "dismissed u n d \<Longrightarrow> \<not> suggests (sd_suggestions d) u b"
  shows "keeps u n d d'"
proof (cases b)
  case (FetchBlock k)
  with assms(1) show ?thesis by (auto simp: fetchLocalUsers_def intro: keeps_post)
next
  case (SendSearchResultBlock token r)
  with assms sendSearchResult_block_keeps [of u n d token r] show ?thesis by auto
next
  case (FetchRemoteUsersBlock k)
  with assms fetchRemoteUsers_block_keeps [of env k d d' u n] show ?thesis by simp
next
  case (DeliverBlock k ids rs)
  with assms deliver_block_keeps [of env k ids rs d d' u n] show ?thesis by simp
next
  case (SendResultBlock k)
  with assms sendResult_block_keeps [of u n d k] show ?thesis by auto
qed (use assms(1) in \<open>auto intro: start_block_keeps fetchLocalUsers_block_keeps removeSearchUser_block_keeps
    suggestionsChanged_keeps keeps_same same_remoteSearch same_updateTop same_fields\<close>)

lemma next_block_set: "next_block c bs = Some (b, bs') \<Longrightarrow> b \<in> set bs \<and> set bs' \<subseteq> set bs"
  by (induction bs arbitrary: bs') (auto split: if_splits)

lemma next_block_keeps:
  assumes "next_block c (sd_blocks d) = Some (b, bs)"
  shows "keeps u n d (d\<lparr>sd_blocks := bs\<rparr>)" and "all_keyed d \<Longrightarrow> keyed_block b"
    and "dismissed u n d \<Longrightarrow> \<not> suggests (sd_suggestions d) u b"
  using next_block_set [OF assms]
  by (auto simp: keeps_def all_keyed_def dismissed_def removed_people_def suggestion_in_flight_def)

lemma tearDown_keeps: "keeps u n d (directory_tearDown d)"
proof -
  let ?e = "tearDown_suggestion (sd_suggestion d) (directory_post RemoveFromTableBlock d)"
  have "keeps u n d ?e"
    by (rule keeps_trans [OF keeps_same [OF same_post(2)] keeps_tearDown]) simp
  moreover have "same_suggestions ?e (directory_tearDown d)"
    by (simp add: same_suggestions_def directory_tearDown_def)
  ultimately show ?thesis
    by (blast intro: keeps_trans keeps_same)
qed

lemma send_keeps:
  assumes "ZMSearchDirectory_send env m d = Inr d'"
  shows "keeps u n d d'"
proof (cases m)
  case DirectoryTearDown
  with assms tearDown_keeps show ?thesis by auto
next
  case TopConversations
  with assms obtain cs where "topConversations env d = Inr (cs, d')"
    by (auto simp: map_sum_Inr)
  then show ?thesis by (intro keeps_same same_top)
next
  case (RemoveSearchUserFromSuggestedPeople v)
  with assms have "same_suggestions d d'"
    by (auto simp: removeSearchUserFromSuggestedPeople_def removeSearchUser_def same_refl same_post split: option.splits)
  then show ?thesis by (rule keeps_same)
next
  case (AddSearchResultObserver x)
  with assms show ?thesis
    using keeps_same [OF same_fields(5)] by (auto split: if_splits)
qed (use assms in \<open>auto intro: searchForSuggested_keeps keeps_same same_perform same_fields\<close>)

lemma block_step_keeps:
  assumes "directory_step env (BlockRuns c) d = Inr d'"
  shows "keeps u n d d'"
proof (cases "next_block c (sd_blocks d)")
  case (Some x)
  then obtain b bs where b: "next_block c (sd_blocks d) = Some (b, bs)"
    by (cases x) simp
  with assms have "run_block env b (d\<lparr>sd_blocks := bs\<rparr>) = Inr d'"
    by simp
  note run = run_block_keeps [OF this]
  have "all_keyed d'" if "all_keyed d"
    using run [of u "Suc (length (sd_received d))"] next_block_keeps(1) [OF b] next_block_keeps(2) [OF b] that
    by (simp add: keeps_def dismissed_def)
  moreover have "dismissed u n d'" if "all_keyed d" "dismissed u n d"
    using run [of u n] next_block_keeps(1) [OF b, of u n] next_block_keeps(2) [OF b] next_block_keeps(3) [OF b, of u n] that
    by (simp add: keeps_def)
  ultimately show ?thesis
    by (simp add: keeps_def)
qed (use assms in simp)

lemma step_keeps:
  assumes "directory_step env ev d = Inr d'"
  shows "keeps u n d d'"
proof (cases ev)
  case (BlockRuns c)
  with assms block_step_keeps show ?thesis by simp
next
  case InvalidateCache
  with assms show ?thesis
    using keeps_same [OF same_fields(7)] by (auto split: if_splits)
qed (use assms in \<open>auto intro: send_keeps suggestedAnswer_keeps usersAnswer_keeps keeps_same same_topAnswer same_onSearch\<close>)

lemma steps_keep: "foldE (directory_step env) evs d = Inr d' \<Longrightarrow> keeps u n d d'"
  by (rule keeps_foldE) (rule step_keeps)

lemma init_all_keyed: "all_keyed (init_directory self n metadata removed table images stored)"
  by (simp add: all_keyed_def init_directory_def init_suggestion_def keyed_def)

text \<open>C6: A person who has been dismissed is not suggested again. Take any run of the directory, with messages,
  answers and the blocks of every context in any order between contexts, up to the moment when the block of
  \<^verbatim>\<open>removeSearchUser:\<close> runs for that person. If at that moment no suggestion of the person is in flight (no waiting
  block works on identifiers or carries a result with the person, and no search waits for users among them),
  then no result for the suggestions that the observers get from then on contains the person, whatever is asked
  and answered later, also when the backend suggests the person again.
\<close>

theorem dismissed_people_are_not_suggested_again:
  assumes "foldE (directory_step env) before (init_directory self n metadata removed table images stored) = Inr d"
    and "next_block SessionContext (sd_blocks d) = Some (RemoveSearchUserBlock u, bs)"
    and "\<not> suggestion_in_flight u d"
    and "foldE (directory_step env) (BlockRuns SessionContext # later) d = Inr d'"
    and "(observer, SuggestionToken, Some r) \<in> set (drop (length (sd_received d)) (sd_received d'))"
    and "v \<in> set (usersInContacts r) \<union> set (usersInDirectory r)"
  shows "su_remoteIdentifier v \<noteq> Some u"
proof -
  let ?d = "d\<lparr>sd_blocks := bs\<rparr>"
  from steps_keep [OF assms(1), of u 0] init_all_keyed have "all_keyed d"
    by (simp add: keeps_def)
  with next_block_set [OF assms(2)] assms(3) have "all_keyed ?d" and "\<not> suggestion_in_flight u ?d"
    by (auto simp: all_keyed_def suggestion_in_flight_def)
  with removeSearchUser_block_dismisses [of ?d u env] have "all_keyed (removeSearchUser_block env u ?d)"
    and "dismissed u (length (sd_received d)) (removeSearchUser_block env u ?d)"
    by simp_all
  moreover from assms(2,4) have "foldE (directory_step env) later (removeSearchUser_block env u ?d) = Inr d'"
    by simp
  ultimately have "dismissed u (length (sd_received d)) d'"
    using steps_keep [of env later _ d' u "length (sd_received d)"] by (simp add: keeps_def)
  with assms(5,6) show ?thesis
    by (auto simp: dismissed_def hides_def)
qed

definition sample_directory_env :: directory_env where
  "sample_directory_env = \<lparr>de_store = sample_store,
     de_coreData = \<lparr>cd_isTemporaryID = (\<lambda>_. False), cd_URIRepresentation = string_of_nat,
       cd_managedObjectIDForURI = (\<lambda>_. None), cd_exists = (\<lambda>_. True)\<rparr>,
     de_now = 0, de_isLocalOrHasCachedProfileImageData = (\<lambda>_. True), de_usersWithIdentifiers = id, de_save = True,
     de_contacts = [], de_contains = (\<lambda>_ _. False), de_matchedUsers = [], de_connectionConversation = (\<lambda>_. None),
     de_connectionKeys = (''mutual'', ''total''), de_collide = (\<lambda>_. False), de_sameContext = False\<rparr>"

definition sample_directory :: ZMSearchDirectory where
  "sample_directory = init_directory 1 24 \<lparr>sm_suggestedUsers = Some [2, 3], sm_commonConnections = None,
     sm_removedSuggested = None, sm_posted = []\<rparr> None init_table [] None"

definition suggested_user :: "nat \<Rightarrow> ZMSearchUser" where
  "suggested_user u = sample_search_user u\<lparr>su_user := Some u\<rparr>"

definition suggested_search :: "nat list \<Rightarrow> ZMSuggestionSearch" where
  "suggested_search ids = \<lparr>sg_remoteIdentifiers = ids, sg_results = [(2, suggested_user 2), (3, suggested_user 3)],
     sg_tornDown = False, sg_resultHandler = True\<rparr>"

definition people_result :: "nat list \<Rightarrow> ZMSearchResult" where
  "people_result us = \<lparr>usersInContacts = [], usersInDirectory = map suggested_user us, groupConversations = []\<rparr>"

text \<open>A directory that has sent its suggestions to the observer 7, before the dismissal of the user 2.\<close>

definition watched_directory :: ZMSearchDirectory where
  "watched_directory = sample_directory\<lparr>sd_observers := [7], isFetchingSuggestedPeople := True,
     sd_enqueued := [SuggestedPeopleRequest (searchRequestForSuggestedPeople 30)],
     sd_suggestion := Some 0, sd_suggestions := (\<lambda>_. init_suggestion)(0 := suggested_search [2, 3]), sd_created := 1,
     sd_suggestionCached := Some (people_result [2, 3]), sd_blocks := [RemoveSearchUserBlock 2],
     sd_received := [(7, SuggestionToken, Some (people_result [2, 3]))]\<rparr>"

definition search_blocks :: "directory_event list" where
  "search_blocks = map BlockRuns [SessionContext, SearchContext, SessionContext, SearchContext, SearchContext,
     SessionContext, DirectoryContext]"

lemmas suggestion_run_defs = searchForSuggestedPeople_def remotelySearchForSuggestedPeople_def directory_enqueue_def
  startSuggestedPeopleSearch_def suggestion_start_def fetchLocalUsers_def fetchRemoteUsers_def suggestion_sendResult_def
  start_block_def fetchLocalUsers_block_def fetchRemoteUsers_block_def sendResult_block_def deliver_block_def
  remoteSearch_block_def sendSearchResult_block_def post_block_def directory_post_def with_suggestion_def
  suggestion_suggestedUsersForUser_def get_suggestedUsersForUser_def requestForRemoteIdentifiers_def
  suggestion_handleResult_def suggestion_result_def storeSearchResultUserIDsInCache_def
  directory_sendSearchResult_def results_put_def suggestible_def addUsersInDirectory_def init_search_result_def
  allSearchUser_def map_filter_def oset_add_def oset_minus_def Let_def search_blocks_def
  removeSearchUserFromSuggestedPeople_def removeSearchUser_def removeSearchUser_block_def directory_setSuggested_def
  suggestedUsersForUserDidChange_def suggestionsChanged_block_def setSuggestedUsersForUser_def
  setRemovedSuggestedContactRemoteIdentifiers_def

lemmas sample_directory_defs = sample_directory_env_def sample_directory_def init_directory_def sample_store_def
  sample_search_env_def sample_search_user_def suggested_user_def suggested_search_def people_result_def
  watched_directory_def init_suggestion_def

lemma sample_suggestions:
  "foldE (directory_step sample_directory_env) ([Sent (AddSearchResultObserver 7), Sent SearchForSuggestedPeople,
     BlockRuns SessionContext] @ search_blocks @ [Sent (RemoveSearchUserFromSuggestedPeople (Some (suggested_user 2)))])
     sample_directory = Inr watched_directory"
  by (simp add: suggestion_run_defs sample_directory_defs)

lemma sample_dismissal:
  "foldE (directory_step sample_directory_env) (BlockRuns SessionContext # BlockRuns DirectoryContext # search_blocks)
     watched_directory =
   Inr (watched_directory\<lparr>removedSearchUserRemoteIdentifiers := Some [2], sd_blocks := [],
     sd_metadata := \<lparr>sm_suggestedUsers = Some [3], sm_commonConnections = None, sm_removedSuggested = Some [2],
       sm_posted = [ZMSuggestedUsersForUserDidChange, ZMRemovedSuggestedContactRemoteIdentifiersDidChange]\<rparr>,
     sd_suggestions := (\<lambda>_. init_suggestion)(0 := suggested_search [3]), sd_suggestionCached := Some (people_result [3]),
     sd_received := [(7, SuggestionToken, Some (people_result [2, 3])), (7, SuggestionToken, Some (people_result [3]))]\<rparr>)"
  by (simp add: suggestion_run_defs sample_directory_defs)

theorem dismissed_people_are_not_suggested_again_witness: "su_remoteIdentifier (suggested_user 3) \<noteq> Some 2"
  by (rule dismissed_people_are_not_suggested_again
        [where u = 2 and bs = "[]" and observer = 7 and r = "people_result [3]",
          OF sample_suggestions [unfolded sample_directory_def] _ _ sample_dismissal])
     (simp_all add: sample_directory_defs suggestion_in_flight_def)

text \<open>
  While a suggestion is in flight a dismissal comes too late: the block that delivers the result has copied the
  identifiers before, so the observers get the person after the removal, whichever context the directory has.
  When the directory shares the context of the session the stale result even stays in the cache.
\<close>

definition late_dismissal :: "directory_event list" where
  "late_dismissal = [Sent (AddSearchResultObserver 7), Sent SearchForSuggestedPeople, BlockRuns SessionContext,
     BlockRuns SessionContext, BlockRuns SearchContext, BlockRuns SessionContext,
     Sent (RemoveSearchUserFromSuggestedPeople (Some (suggested_user 2))), BlockRuns SearchContext, BlockRuns SearchContext,
     BlockRuns SessionContext, BlockRuns SessionContext, BlockRuns DirectoryContext, BlockRuns DirectoryContext]"

lemma dismissal_during_a_search_comes_too_late:
  "\<exists>d. foldE (directory_step (sample_directory_env\<lparr>de_sameContext := shared\<rparr>)) late_dismissal sample_directory = Inr d \<and>
     removed_people d = [2] \<and> sd_received d = [(7, SuggestionToken, Some (people_result [2, 3]))] \<and>
     (shared \<longrightarrow> sd_suggestionCached d = Some (people_result [2, 3]))"
  by (cases shared) (simp_all add: late_dismissal_def removed_people_def suggestion_run_defs sample_directory_defs)

section \<open>Archived top conversations\<close>

text \<open>Top conversations survive their archive: what is decoded has the date, the requested number and
  the conversations of what was encoded, and, when the store finds an object by the URI of its
  identifier, it lists the same conversations in a context.
\<close>

lemma top_conversations_round_trip:
  assumes "\<And>moid. cd_managedObjectIDForURI cd (cd_URIRepresentation cd moid) = Some moid"
    and "t = (top_initWithConversations cd now (Some conversations))\<lparr>requestedConversationsCount := n\<rparr>"
  shows "\<exists>t'. top_decodeFromData (Some (top_encodeWithCoder cd t)) = Some t' \<and>
    top_creationDate t' = now \<and> requestedConversationsCount t' = n \<and> hasConversationsIdenticalTo cd t (Some t') \<and>
    fst (conversationsInManagedObjectContext cd t') = fst (conversationsInManagedObjectContext cd t)"
proof -
  have "List.map_filter (cd_managedObjectIDForURI cd) (map (cd_URIRepresentation cd) ids) = ids" for ids
    by (induction ids) (simp_all add: map_filter_simps assms(1))
  with assms(2) show ?thesis
    by (simp add: top_decodeFromData_def top_initWithCoder_def top_encodeWithCoder_def createURIs_def
        hasConversationsIdenticalTo_def conversationsInManagedObjectContext_def top_initWithConversations_def Let_def)
qed

definition sample_core_data :: core_data where
  "sample_core_data = \<lparr>cd_isTemporaryID = (\<lambda>_. False), cd_URIRepresentation = (\<lambda>n. replicate n CHR ''x''),
     cd_managedObjectIDForURI = (\<lambda>s. Some (length s)), cd_exists = (\<lambda>_. True)\<rparr>"

lemma top_conversations_round_trip_example:
  "\<exists>t'. top_decodeFromData (Some (top_encodeWithCoder sample_core_data
       ((top_initWithConversations sample_core_data 5 (Some [2, 3]))\<lparr>requestedConversationsCount := 24\<rparr>))) = Some t' \<and>
    top_creationDate t' = 5 \<and> requestedConversationsCount t' = 24 \<and>
    hasConversationsIdenticalTo sample_core_data
      ((top_initWithConversations sample_core_data 5 (Some [2, 3]))\<lparr>requestedConversationsCount := 24\<rparr>) (Some t') \<and>
    fst (conversationsInManagedObjectContext sample_core_data t') =
    fst (conversationsInManagedObjectContext sample_core_data
      ((top_initWithConversations sample_core_data 5 (Some [2, 3]))\<lparr>requestedConversationsCount := 24\<rparr>))"
  by (rule top_conversations_round_trip) (simp_all add: sample_core_data_def)

text \<open>The cache of the top conversations is fresh for a minute after an answer, and then asked for again.\<close>

lemma answered_top_conversations_are_fresh:
  assumes "d' = updateTopConversations env cs d" and "de_now later \<le> de_now env + 60"
  shows "\<not> cachedTopConversationsAreStale later d'"
  using assms by (simp add: cachedTopConversationsAreStale_def updateTopConversations_def persistTopConversations_def
      top_initWithConversations_def Let_def)

text \<open>
  A cached list of common contacts is valid for ten minutes, but every search that finds it stores it
  with a new expiration date: it does not expire as long as it is looked up often enough.
\<close>

lemma common_contacts_lookup_extends_validity:
  assumes "map_of (cs_resultsCache s) (cs_userID s) = Some e" and "now \<le> cce_expirationDate e"
  shows "fst (checkCacheAndNotify now s) \<and>
    map_of (cs_resultsCache (snd (checkCacheAndNotify now s))) (cs_userID s) = Some (e\<lparr>cce_expirationDate := now + 600\<rparr>)"
  using assms by (simp add: checkCacheAndNotify_def convertObjectIDsAndNotifyDelegate_def)

end
