(* ===== verification/Typing.thy ===== *)
theory Typing
  imports Prelude
begin

text \<open>
  Who is typing: the time-outs of the users that type (\<^verbatim>\<open>ZMTypingUsersTimeout\<close>), the state of the user
  interface (\<^verbatim>\<open>ZMTypingUsers\<close>), \<^verbatim>\<open>ZMTyping\<close> that keeps both and prunes with a timer, and the transcoder that
  reads the events of others and sends those of the own user (\<^verbatim>\<open>ZMTypingTranscoder\<close>).

  Users and conversations are identified by permanent object identifiers, which the sources make sure
  of; blocks that are sent to a context run where they are sent.
\<close>

section \<open>Time-outs\<close>

record ZMTypingUsersTimeout =
  tt_timeouts :: "((ZMManagedObject \<times> ZMManagedObject) \<times> NSDate) list"

definition timeouts_addUser :: "ZMManagedObject \<Rightarrow> ZMManagedObject \<Rightarrow> NSDate \<Rightarrow> ZMTypingUsersTimeout \<Rightarrow> ZMTypingUsersTimeout" where
  "timeouts_addUser user conversation timeout t =
     t\<lparr>tt_timeouts := dict_put (user, conversation) timeout (tt_timeouts t)\<rparr>"

definition timeouts_removeUser :: "ZMManagedObject \<Rightarrow> ZMManagedObject \<Rightarrow> ZMTypingUsersTimeout \<Rightarrow> ZMTypingUsersTimeout" where
  "timeouts_removeUser user conversation t = t\<lparr>tt_timeouts := dict_remove (user, conversation) (tt_timeouts t)\<rparr>"

definition timeouts_containsUser :: "ZMManagedObject \<Rightarrow> ZMManagedObject \<Rightarrow> ZMTypingUsersTimeout \<Rightarrow> bool" where
  "timeouts_containsUser user conversation t \<longleftrightarrow> map_of (tt_timeouts t) (user, conversation) \<noteq> None"

definition firstTimeout :: "ZMTypingUsersTimeout \<Rightarrow> NSDate option" where
  "firstTimeout t =
     fold (\<lambda>date minDate. case minDate of None \<Rightarrow> Some date | Some m \<Rightarrow> if m > date then Some date else Some m)
       (map snd (tt_timeouts t)) None"

definition userIDsInConversation :: "ZMManagedObject \<Rightarrow> ZMTypingUsersTimeout \<Rightarrow> ZMManagedObject list" where
  "userIDsInConversation conversation t =
     oset_union [] (map fst (filter (\<lambda>(user, c). c = conversation) (map fst (tt_timeouts t))))"

definition pruneConversationsThatHaveTimedOutAfter ::
  "NSDate \<Rightarrow> ZMTypingUsersTimeout \<Rightarrow> ZMManagedObject list \<times> ZMTypingUsersTimeout" where
  "pruneConversationsThatHaveTimedOutAfter pruneDate t =
     (let timedOut = filter (\<lambda>(key, timeout). timeout < pruneDate) (tt_timeouts t)
      in (oset_union [] (map (snd \<circ> fst) timedOut),
          t\<lparr>tt_timeouts := fold dict_remove (map fst timedOut) (tt_timeouts t)\<rparr>))"

datatype ZMTypingUsersTimeout_msg =
    AddTypingUser ZMManagedObject ZMManagedObject NSDate
  | RemoveTypingUser ZMManagedObject ZMManagedObject
  | PruneConversations NSDate

primrec ZMTypingUsersTimeout_send :: "ZMTypingUsersTimeout_msg \<Rightarrow> ZMTypingUsersTimeout \<Rightarrow> ZMTypingUsersTimeout" where
  "ZMTypingUsersTimeout_send (AddTypingUser u c d) t = timeouts_addUser u c d t"
| "ZMTypingUsersTimeout_send (RemoveTypingUser u c) t = timeouts_removeUser u c t"
| "ZMTypingUsersTimeout_send (PruneConversations d) t = snd (pruneConversationsThatHaveTimedOutAfter d t)"

section \<open>The user interface\<close>

record ZMTypingUsers =
  conversationIDToUserIDs :: "(ZMManagedObject \<times> ZMManagedObject list) list"

definition updateTypingUsersWithNotification ::
  "ZMManagedObject \<Rightarrow> ZMManagedObject list \<Rightarrow> ZMTypingUsers \<Rightarrow> ZMTypingUsers" where
  "updateTypingUsersWithNotification conversation users t =
     (if length users = 0 then t\<lparr>conversationIDToUserIDs := dict_remove conversation (conversationIDToUserIDs t)\<rparr>
      else t\<lparr>conversationIDToUserIDs := dict_put conversation users (conversationIDToUserIDs t)\<rparr>)"

definition typingUsersInConversation :: "ZMManagedObject \<Rightarrow> ZMTypingUsers \<Rightarrow> ZMManagedObject list" where
  "typingUsersInConversation conversation t =
     (case map_of (conversationIDToUserIDs t) conversation of None \<Rightarrow> [] | Some us \<Rightarrow> us)"

section \<open>Typing\<close>

text \<open>\<open>ty_expirationTimer\<close> is the date the timer will fire at; a timer that has fired is not scheduled any more.\<close>

record ZMTyping =
  ty_timeout :: NSTimeInterval
  typingUserTimeout :: ZMTypingUsersTimeout
  ty_expirationTimer :: "NSDate option"
  nextPruneDate :: "NSDate option"
  ty_needsTearDown :: bool
  ty_typingUsers :: ZMTypingUsers
  ty_notified :: "(ZMManagedObject \<times> ZMManagedObject list) list"

definition init_typing :: ZMTyping where
  "init_typing = \<lparr>ty_timeout = 60, typingUserTimeout = \<lparr>tt_timeouts = []\<rparr>, ty_expirationTimer = None,
     nextPruneDate = None, ty_needsTearDown = True, ty_typingUsers = \<lparr>conversationIDToUserIDs = []\<rparr>, ty_notified = []\<rparr>"

definition sendNotificationForConversation :: "ZMManagedObject \<Rightarrow> ZMTyping \<Rightarrow> ZMTyping" where
  "sendNotificationForConversation conversation t =
     (let users = userIDsInConversation conversation (typingUserTimeout t)
      in t\<lparr>ty_typingUsers := updateTypingUsersWithNotification conversation users (ty_typingUsers t),
           ty_notified := ty_notified t @ [(conversation, users)]\<rparr>)"

definition updateExpirationWithDate :: "NSDate option \<Rightarrow> ZMTyping \<Rightarrow> ZMTyping" where
  "updateExpirationWithDate date t =
     (if date = nextPruneDate t then t else t\<lparr>ty_expirationTimer := date, nextPruneDate := date\<rparr>)"

definition setIsTyping :: "NSDate \<Rightarrow> bool \<Rightarrow> ZMManagedObject \<Rightarrow> ZMManagedObject \<Rightarrow> ZMTyping \<Rightarrow> ZMTyping" where
  "setIsTyping now isTyping user conversation t =
     (let wasTyping = timeouts_containsUser user conversation (typingUserTimeout t);
          t = (if isTyping
               then t\<lparr>typingUserTimeout := timeouts_addUser user conversation (now + ty_timeout t) (typingUserTimeout t)\<rparr>
               else t);
          t = (if wasTyping \<noteq> isTyping
               then sendNotificationForConversation conversation
                      (if \<not> isTyping
                       then t\<lparr>typingUserTimeout := timeouts_removeUser user conversation (typingUserTimeout t)\<rparr> else t)
               else t)
      in updateExpirationWithDate (firstTimeout (typingUserTimeout t)) t)"

text \<open>The timer of \<^verbatim>\<open>ZMTyping\<close> fires at \<open>now\<close>; it is not scheduled any more, but the property still has it.\<close>

definition typing_timerDidFire :: "NSDate \<Rightarrow> ZMTyping \<Rightarrow> ZMTyping" where
  "typing_timerDidFire now t =
     (case ty_expirationTimer t of
        None \<Rightarrow> t
      | Some date \<Rightarrow>
          (case pruneConversationsThatHaveTimedOutAfter now (typingUserTimeout t) of
             (conversations, timeouts) \<Rightarrow>
               let t = fold sendNotificationForConversation conversations
                         (t\<lparr>ty_expirationTimer := None, typingUserTimeout := timeouts\<rparr>)
               in updateExpirationWithDate (firstTimeout (typingUserTimeout t)) t))"

definition typing_tearDown :: "ZMTyping \<Rightarrow> ZMTyping" where
  "typing_tearDown t = t\<lparr>ty_needsTearDown := False, ty_expirationTimer := None\<rparr>"

definition typing_dealloc :: "ZMTyping \<Rightarrow> objc_failure + unit" where
  "typing_dealloc t = (if ty_needsTearDown t then Inl AssertionFailure else Inr ())"

datatype ZMTyping_msg =
    SetTypingTimeout NSTimeInterval
  | SetIsTyping NSDate bool ZMManagedObject ZMManagedObject
  | TypingTimerFires NSDate

primrec ZMTyping_send :: "ZMTyping_msg \<Rightarrow> ZMTyping \<Rightarrow> ZMTyping" where
  "ZMTyping_send (SetTypingTimeout d) t = t\<lparr>ty_timeout := d\<rparr>"
| "ZMTyping_send (SetIsTyping now b u c) t = setIsTyping now b u c t"
| "ZMTyping_send (TypingTimerFires now) t = typing_timerDidFire now t"

section \<open>The transcoder\<close>

record ZMTypingEvent =
  tev_objectID :: ZMManagedObject
  tev_isTyping :: bool
  tev_date :: NSDate

definition isRecentAndEqualToEvent :: "ZMTypingEvent option \<Rightarrow> ZMTypingEvent \<Rightarrow> bool" where
  "isRecentAndEqualToEvent self other \<longleftrightarrow>
     (case self of None \<Rightarrow> False
      | Some s \<Rightarrow> tev_isTyping other = tev_isTyping s \<and> tev_objectID other = tev_objectID s \<and>
          \<bar>tev_date other - tev_date s\<bar> < 60 / 5)"

record ZMTypingTranscoder =
  tr_typing :: ZMTyping
  tr_conversations :: "(ZMManagedObject \<times> bool) list"
  lastSentTypingEvent :: "ZMTypingEvent option"
  tr_newRequests :: nat

definition init_typingTranscoder :: "ZMTyping option \<Rightarrow> ZMTypingTranscoder" where
  "init_typingTranscoder typing = \<lparr>tr_typing = (case typing of None \<Rightarrow> init_typing | Some t \<Rightarrow> t),
     tr_conversations = [], lastSentTypingEvent = None, tr_newRequests = 0\<rparr>"

datatype typing_event_type = ZMUpdateEventConversationTyping | ZMUpdateEventConversationMessageAdd | OtherEventType

record typing_update_event =
  tue_type :: typing_event_type
  tue_payload :: "(NSString \<times> json) list"
  tue_senderUUID :: "NSUUID option"
  tue_conversationUUID :: "NSUUID option"

record typing_env =
  te_conversationID :: "ZMManagedObject \<Rightarrow> NSUUID option"
  te_transportString :: "NSUUID \<Rightarrow> NSString"
  te_userWithRemoteID :: "NSUUID \<Rightarrow> ZMManagedObject"
  te_conversationWithRemoteID :: "NSUUID \<Rightarrow> ZMManagedObject"

definition addConversationForNextRequest ::
  "typing_env \<Rightarrow> ZMManagedObject \<Rightarrow> bool \<Rightarrow> bool \<Rightarrow> ZMTypingTranscoder \<Rightarrow> ZMTypingTranscoder" where
  "addConversationForNextRequest env conversation isTyping clearIsTyping x =
     (if te_conversationID env conversation = None then x
      else if clearIsTyping
      then x\<lparr>tr_conversations := dict_remove conversation (tr_conversations x), lastSentTypingEvent := None\<rparr>
      else x\<lparr>tr_conversations := dict_put conversation isTyping (tr_conversations x),
             tr_newRequests := Suc (tr_newRequests x)\<rparr>)"

text \<open>
  The messages of the category for conversations; the third is the notification of the data model
  that a message was sent.
\<close>

datatype ZMTypingTranscoder_msg =
    NotifyTranscoderThatUserIsTyping bool ZMManagedObject
  | ClearTranscoderStateForTyping ZMManagedObject
  | ShouldClearTypingForConversation ZMManagedObject

primrec ZMTypingTranscoder_send :: "typing_env \<Rightarrow> ZMTypingTranscoder_msg \<Rightarrow> ZMTypingTranscoder \<Rightarrow> ZMTypingTranscoder" where
  "ZMTypingTranscoder_send env (NotifyTranscoderThatUserIsTyping b c) x = addConversationForNextRequest env c b False x"
| "ZMTypingTranscoder_send env (ClearTranscoderStateForTyping c) x = addConversationForNextRequest env c False True x"
| "ZMTypingTranscoder_send env (ShouldClearTypingForConversation c) x = addConversationForNextRequest env c False True x"

text \<open>\<open>pick\<close> chooses the first of the keys of the dictionary, whose order is not specified.\<close>

definition typing_nextRequest ::
  "typing_env \<Rightarrow> (ZMManagedObject list \<Rightarrow> nat) \<Rightarrow> NSDate \<Rightarrow> ZMTypingTranscoder \<Rightarrow> ZMTransportRequest option \<times> ZMTypingTranscoder" where
  "typing_nextRequest env pick now x =
     (case anyObject pick (map fst (tr_conversations x)) of
        None \<Rightarrow> (None, x)
      | Some c \<Rightarrow>
          let isTyping = (map_of (tr_conversations x) c = Some True);
              x = x\<lparr>tr_conversations := dict_remove c (tr_conversations x)\<rparr>;
              newTypingEvent = \<lparr>tev_objectID = c, tev_isTyping = isTyping, tev_date = now\<rparr>
          in if isRecentAndEqualToEvent (lastSentTypingEvent x) newTypingEvent then (None, x)
             else case te_conversationID env c of
                    None \<Rightarrow> (None, x)
                  | Some i \<Rightarrow>
                      (Some \<lparr>req_method = MethodPOST,
                             req_path = ''/conversations/'' @ te_transportString env i @ ''/typing'',
                             req_payload = Some (JObj [(''status'', JStr (if isTyping then ''started'' else ''stopped''))])\<rparr>,
                       x\<lparr>lastSentTypingEvent := Some newTypingEvent\<rparr>))"

definition processIsTypingUpdateEvent ::
  "NSDate \<Rightarrow> ZMManagedObject \<Rightarrow> ZMManagedObject \<Rightarrow> NSString \<Rightarrow> ZMTypingTranscoder \<Rightarrow> ZMTypingTranscoder" where
  "processIsTypingUpdateEvent now user conversation st x =
     (if st = ''started'' \<or> st = ''stopped''
      then x\<lparr>tr_typing := setIsTyping now (st = ''started'') user conversation (tr_typing x)\<rparr> else x)"

definition processMessageAddEvent :: "NSDate \<Rightarrow> ZMManagedObject \<Rightarrow> ZMManagedObject \<Rightarrow> ZMTypingTranscoder \<Rightarrow> ZMTypingTranscoder" where
  "processMessageAddEvent now user conversation x =
     x\<lparr>tr_typing := setIsTyping now False user conversation (tr_typing x)\<rparr>"

definition typing_processUpdateEvent :: "typing_env \<Rightarrow> NSDate \<Rightarrow> typing_update_event \<Rightarrow> ZMTypingTranscoder \<Rightarrow> ZMTypingTranscoder" where
  "typing_processUpdateEvent env now event x =
     (if tue_type event = OtherEventType then x
      else case (tue_senderUUID event, tue_conversationUUID event) of
             (Some userID, Some convID) \<Rightarrow>
               let user = te_userWithRemoteID env userID;
                   conversation = te_conversationWithRemoteID env convID
               in (case tue_type event of
                     ZMUpdateEventConversationTyping \<Rightarrow>
                       (case optionalStringForKey ''status'' (optionalDictionaryForKey ''data'' (Some (tue_payload event))) of
                          None \<Rightarrow> x
                        | Some st \<Rightarrow> processIsTypingUpdateEvent now user conversation st x)
                   | ZMUpdateEventConversationMessageAdd \<Rightarrow> processMessageAddEvent now user conversation x
                   | OtherEventType \<Rightarrow> x)
           | _ \<Rightarrow> x)"

definition typing_processEvents ::
  "typing_env \<Rightarrow> NSDate \<Rightarrow> bool \<Rightarrow> typing_update_event list \<Rightarrow> ZMTypingTranscoder \<Rightarrow> ZMTypingTranscoder" where
  "typing_processEvents env now liveEvents events x =
     (if \<not> liveEvents then x else fold (typing_processUpdateEvent env now) events x)"

definition typing_transcoder_tearDown :: "ZMTypingTranscoder \<Rightarrow> ZMTypingTranscoder" where
  "typing_transcoder_tearDown x = x\<lparr>tr_typing := typing_tearDown (tr_typing x)\<rparr>"

section \<open>The user interface shows who is typing\<close>

definition typing_agrees :: "ZMTyping \<Rightarrow> bool" where
  "typing_agrees t \<longleftrightarrow> (\<forall>c. set (typingUsersInConversation c (ty_typingUsers t)) = set (userIDsInConversation c (typingUserTimeout t)))"

lemma set_userIDs: "u \<in> set (userIDsInConversation c t) \<longleftrightarrow> map_of (tt_timeouts t) (u, c) \<noteq> None"
  by (force simp: userIDsInConversation_def map_of_eq_None_iff)

lemma typing_after_update:
  "set (typingUsersInConversation c (updateTypingUsersWithNotification d us t)) =
   (if c = d then set us else set (typingUsersInConversation c t))"
  by (auto simp: typingUsersInConversation_def updateTypingUsersWithNotification_def)

lemma send_parts [simp]:
  "typingUserTimeout (sendNotificationForConversation c t) = typingUserTimeout t"
  "typingUserTimeout (updateExpirationWithDate d t) = typingUserTimeout t"
  "ty_typingUsers (updateExpirationWithDate d t) = ty_typingUsers t"
  by (simp_all add: sendNotificationForConversation_def updateExpirationWithDate_def oset_add_def Let_def)

lemma shown_after_send:
  "set (typingUsersInConversation c (ty_typingUsers (sendNotificationForConversation d t))) =
   (if c = d then set (userIDsInConversation d (typingUserTimeout t)) else set (typingUsersInConversation c (ty_typingUsers t)))"
  by (simp add: sendNotificationForConversation_def typing_after_update Let_def)

lemma fold_send:
  "typingUserTimeout (fold sendNotificationForConversation cs t) = typingUserTimeout t \<and>
   set (typingUsersInConversation c (ty_typingUsers (fold sendNotificationForConversation cs t))) =
   (if c \<in> set cs then set (userIDsInConversation c (typingUserTimeout t)) else set (typingUsersInConversation c (ty_typingUsers t)))"
  by (induction cs arbitrary: t) (auto simp: shown_after_send)

lemma map_of_fold_remove: "map_of (fold dict_remove ks ps) k = (if k \<in> set ks then None else map_of ps k)"
  by (induction ks arbitrary: ps) auto

lemma pruned_parts:
  assumes "pruneConversationsThatHaveTimedOutAfter now t = (cs, t')"
  shows "map_of (tt_timeouts t') (u, c) \<noteq> None \<Longrightarrow> map_of (tt_timeouts t) (u, c) \<noteq> None"
    and "c \<notin> set cs \<Longrightarrow> map_of (tt_timeouts t') (u, c) = map_of (tt_timeouts t) (u, c)"
  using assms by (force simp: pruneConversationsThatHaveTimedOutAfter_def map_of_fold_remove Let_def split: if_splits)+

lemma setIsTyping_agrees: "typing_agrees t \<Longrightarrow> typing_agrees (setIsTyping now b u c t)"
  by (auto simp: typing_agrees_def setIsTyping_def Let_def shown_after_send set_eq_iff set_userIDs
      timeouts_containsUser_def timeouts_addUser_def timeouts_removeUser_def)

lemma timer_agrees: "typing_agrees t \<Longrightarrow> typing_agrees (typing_timerDidFire now t)"
proof (cases "ty_expirationTimer t")
  case (Some date)
  assume "typing_agrees t"
  obtain cs tt where p: "pruneConversationsThatHaveTimedOutAfter now (typingUserTimeout t) = (cs, tt)"
    by fastforce
  from pruned_parts(2) [OF p] \<open>typing_agrees t\<close> show ?thesis
    by (auto simp: typing_timerDidFire_def Some p Let_def typing_agrees_def fold_send set_eq_iff set_userIDs)
qed (simp add: typing_timerDidFire_def)

interpretation typing: component ZMTyping_send typing_agrees
proof
  show "typing_agrees t \<Longrightarrow> typing_agrees (ZMTyping_send m t)" for t m
  proof (cases m)
    case (SetTypingTimeout d)
    then show "typing_agrees t \<Longrightarrow> ?thesis" by (simp add: typing_agrees_def)
  qed (simp_all add: setIsTyping_agrees timer_agrees)
qed

text \<open>C29: In every run the user interface shows exactly the users with a time-out: after any sequence of
  typing changes and timer events, the users shown as typing in a conversation are those the sync
  side keeps a time-out for.
\<close>

theorem user_interface_shows_who_is_typing:
  "set (typingUsersInConversation c (ty_typingUsers (run ZMTyping_send init_typing ms))) =
   set (userIDsInConversation c (typingUserTimeout (run ZMTyping_send init_typing ms)))"
  using typing.run_invar [of init_typing ms]
  by (simp add: typing_agrees_def init_typing_def typingUsersInConversation_def userIDsInConversation_def)

section \<open>The timer\<close>

lemma Min_insert_min: "finite S \<Longrightarrow> Min (insert (min m d) S) = Min (insert m (insert d S))" for m :: real
  by (cases "S = {}") (simp_all add: min.assoc)

lemma fold_first:
  "fold (\<lambda>date minDate. case minDate of None \<Rightarrow> Some date | Some m \<Rightarrow> if m > date then Some date else Some m) ds (Some m) =
   Some (Min (insert m (set ds)))" for m :: real
proof (induction ds arbitrary: m)
  case (Cons d ds)
  have "(if m > d then Some d else Some m) = Some (min m d)"
    by (simp add: min_def)
  with Cons [of "min m d"] Min_insert_min [of "set ds" m d] show ?case
    by simp
qed simp

lemma firstTimeout_eq:
  "firstTimeout t = (if tt_timeouts t = [] then None else Some (Min (snd ` set (tt_timeouts t))))"
  by (cases "tt_timeouts t") (simp_all add: firstTimeout_def fold_first image_Un)

definition timer_at_first_timeout :: "ZMTyping \<Rightarrow> bool" where
  "timer_at_first_timeout t \<longleftrightarrow> nextPruneDate t = firstTimeout (typingUserTimeout t) \<and> ty_expirationTimer t = nextPruneDate t"

lemma timer_dates:
  "timer_at_first_timeout t \<Longrightarrow> ty_expirationTimer t = Some d \<Longrightarrow>
   firstTimeout (typingUserTimeout t) = Some d \<and> nextPruneDate t = Some d"
  by (metis timer_at_first_timeout_def)

lemma set_fold_remove: "set (fold dict_remove ks ps) = {p \<in> set ps. fst p \<notin> set ks}"
  by (induction ks arbitrary: ps) (auto simp: dict_remove_def)

lemma pruned_first:
  assumes "firstTimeout t = Some d" and "d < now" and "pruneConversationsThatHaveTimedOutAfter now t = (cs, t')"
  shows "firstTimeout t' \<noteq> Some d"
proof
  assume "firstTimeout t' = Some d"
  then have "Min (snd ` set (tt_timeouts t')) = d" and "tt_timeouts t' \<noteq> []"
    by (simp_all add: firstTimeout_eq split: if_splits)
  then have "d \<in> snd ` set (tt_timeouts t')"
    using Min_in [of "snd ` set (tt_timeouts t')"] by auto
  with assms(2,3) show False
    by (force simp: pruneConversationsThatHaveTimedOutAfter_def set_fold_remove Let_def)
qed

lemma fold_send_timer:
  "nextPruneDate (fold sendNotificationForConversation cs t) = nextPruneDate t \<and>
   ty_expirationTimer (fold sendNotificationForConversation cs t) = ty_expirationTimer t"
  by (induction cs arbitrary: t) (simp_all add: sendNotificationForConversation_def Let_def)

lemma setIsTyping_timer: "timer_at_first_timeout t \<Longrightarrow> timer_at_first_timeout (setIsTyping now b u c t)"
  by (simp add: timer_at_first_timeout_def setIsTyping_def updateExpirationWithDate_def sendNotificationForConversation_def Let_def)

lemma fired_timer:
  assumes "timer_at_first_timeout t" and "ty_expirationTimer t = Some d" and "d < now"
  shows "timer_at_first_timeout (typing_timerDidFire now t)"
proof -
  obtain cs tt where p: "pruneConversationsThatHaveTimedOutAfter now (typingUserTimeout t) = (cs, tt)"
    by fastforce
  with assms(2,3) timer_dates [OF assms(1,2)] pruned_first [of "typingUserTimeout t" d now cs tt] show ?thesis
    by (auto simp: timer_at_first_timeout_def typing_timerDidFire_def updateExpirationWithDate_def Let_def fold_send fold_send_timer)
qed

text \<open>
  The steps of typing with timers that fire after the date they are set to.
\<close>

inductive typing_step :: "ZMTyping \<Rightarrow> ZMTyping \<Rightarrow> bool" where
  set_timeout: "typing_step t (t\<lparr>ty_timeout := d\<rparr>)"
| set_typing: "typing_step t (setIsTyping now b u c t)"
| timer_fires: "ty_expirationTimer t = Some d \<Longrightarrow> d < now \<Longrightarrow> typing_step t (typing_timerDidFire now t)"

text \<open>C30: Nobody is shown as typing for ever: as long as timers fire after their date, in every reachable
  state the timer is set to the first time-out, so there is one whenever somebody is typing.
\<close>

theorem typing_always_has_a_timer:
  assumes "typing_step\<^sup>*\<^sup>* init_typing t"
  shows "ty_expirationTimer t = firstTimeout (typingUserTimeout t) \<and>
    (u \<in> set (typingUsersInConversation c (ty_typingUsers t)) \<longrightarrow> (\<exists>d. ty_expirationTimer t = Some d))"
proof -
  from assms have "timer_at_first_timeout t \<and> typing_agrees t"
  proof (induction rule: rtranclp_induct)
    case base
    show ?case
      by (simp add: timer_at_first_timeout_def typing_agrees_def init_typing_def firstTimeout_def
          typingUsersInConversation_def userIDsInConversation_def)
  next
    case (step t t')
    from step(2,3) show ?case
      by cases (auto simp: setIsTyping_timer setIsTyping_agrees fired_timer timer_agrees,
          auto simp: timer_at_first_timeout_def typing_agrees_def)
  qed
  moreover have "u \<in> set (userIDsInConversation c tt) \<Longrightarrow> \<exists>d. firstTimeout tt = Some d" for tt
    by (auto simp: set_userIDs firstTimeout_eq)
  ultimately show ?thesis
    by (auto simp: timer_at_first_timeout_def typing_agrees_def)
qed

theorem typing_always_has_a_timer_witness:
  "ty_expirationTimer (setIsTyping 0 True 2 3 init_typing) =
     firstTimeout (typingUserTimeout (setIsTyping 0 True 2 3 init_typing)) \<and>
   (\<exists>d. ty_expirationTimer (setIsTyping 0 True 2 3 init_typing) = Some d)"
proof -
  have "typing_step\<^sup>*\<^sup>* init_typing (setIsTyping 0 True 2 3 init_typing)"
    by (rule r_into_rtranclp) (rule set_typing)
  moreover have "2 \<in> set (typingUsersInConversation 3 (ty_typingUsers (setIsTyping 0 True 2 3 init_typing)))"
    by (simp add: setIsTyping_def init_typing_def typingUsersInConversation_def sendNotificationForConversation_def
        updateTypingUsersWithNotification_def userIDsInConversation_def timeouts_addUser_def
        timeouts_containsUser_def updateExpirationWithDate_def oset_add_def Let_def)
  ultimately show ?thesis
    using typing_always_has_a_timer [of "setIsTyping 0 True 2 3 init_typing" 2 3] by blast
qed

text \<open>
  A timer that fires at its very date prunes nobody, because only earlier time-outs are removed, and
  no new timer is made, because the first time-out has not changed.
\<close>

lemma timer_at_its_date_is_lost:
  assumes "timer_at_first_timeout t" and "ty_expirationTimer t = Some d" and "now \<le> d"
  shows "typing_timerDidFire now t = t\<lparr>ty_expirationTimer := None\<rparr>"
proof -
  have "filter (\<lambda>(key, timeout). timeout < now) (tt_timeouts (typingUserTimeout t)) = []"
  proof (intro filter_False ballI)
    fix p assume p: "p \<in> set (tt_timeouts (typingUserTimeout t))"
    have "d = Min (snd ` set (tt_timeouts (typingUserTimeout t)))"
      using timer_dates [OF assms(1,2)] by (simp add: firstTimeout_eq split: if_splits)
    with p have "d \<le> snd p" by simp
    with assms(3) show "\<not> (case p of (key, timeout) \<Rightarrow> timeout < now)"
      by (simp add: case_prod_beta)
  qed
  with assms(2) timer_dates [OF assms(1,2)] show ?thesis
    by (simp add: typing_timerDidFire_def pruneConversationsThatHaveTimedOutAfter_def updateExpirationWithDate_def oset_add_def Let_def)
qed

section \<open>Requests\<close>

text \<open>
  When the conversation that comes first was answered recently with the same state, no request is
  made although another conversation waits.
\<close>

lemma recent_typing_holds_back_another:
  assumes "tr_conversations x = [(c, b), (c', b')]" and "pick [c, c'] = 0" and "c \<noteq> c'"
    and "lastSentTypingEvent x = Some \<lparr>tev_objectID = c, tev_isTyping = b, tev_date = now - 1\<rparr>"
  shows "typing_nextRequest env pick now x = (None, x\<lparr>tr_conversations := [(c', b')]\<rparr>)"
  using assms by (cases b) (simp_all add: typing_nextRequest_def anyObject_def isRecentAndEqualToEvent_def dict_remove_def Let_def)

lemma typing_state_is_sent:
  assumes "tr_conversations x = [(c, b)]" and "lastSentTypingEvent x = None" and "te_conversationID env c = Some i"
  shows "\<exists>r. fst (typing_nextRequest env pick now x) = Some r \<and>
    req_payload r = Some (JObj [(''status'', JStr (if b then ''started'' else ''stopped''))])"
  using assms by (auto simp: typing_nextRequest_def anyObject_def isRecentAndEqualToEvent_def Let_def)

lemma old_events_do_not_type: "typing_processEvents env now False events x = x"
  by (simp add: typing_processEvents_def)

end
