(* ===== verification/HotFix.thy ===== *)
theory HotFix
  imports Prelude "HOL-Library.List_Lexorder" "HOL-Library.Multiset"
begin

text \<open>
  \<^verbatim>\<open>ZMHotFix\<close>, \<^verbatim>\<open>ZMVersion\<close> and \<^verbatim>\<open>ZMHotFixDirectory\<close> (\<^verbatim>\<open>Source/Synchronization\<close>): after an update of the program, patches
  that came with a version after the last one saved are run on the local data.

  The numbers of a version are objects, and the program compares their pointers; \<open>address\<close> gives the pointer of each
  number of a version, and nothing is known about it. Where small numbers are tagged pointers that grow with the number the
  versions are ordered by their numbers; only the lemmas that say so assume it. The patches run in a block of the
  synchronization context, a step of its own. Saving the store is taken to succeed.
\<close>

section \<open>Versions\<close>

record ZMVersion =
  arrayRepresentation :: "int list"
  versionString :: NSString

fun componentsSeparatedByDot :: "NSString \<Rightarrow> NSString list" where
  "componentsSeparatedByDot [] = [[]]"
| "componentsSeparatedByDot (c # cs) =
     (if c = CHR ''.'' then [] # componentsSeparatedByDot cs
      else case componentsSeparatedByDot cs of [] \<Rightarrow> [[c]] | w # ws \<Rightarrow> (c # w) # ws)"

text \<open>\<^verbatim>\<open>-[NSString intValue]\<close>: blanks, a sign, digits up to the first other character, cut at 32 bits.\<close>

fun scan_digits :: "NSString \<Rightarrow> int \<Rightarrow> int" where
  "scan_digits [] n = n"
| "scan_digits (c # cs) n =
     (let d = int (of_char c) - 48 in if 0 \<le> d \<and> d \<le> 9 then scan_digits cs (10 * n + d) else n)"

definition intValue :: "NSString \<Rightarrow> int" where
  "intValue s =
     (case dropWhile (\<lambda>c. c = CHR '' '' \<or> c = CHR 0x09 \<or> c = CHR 0x0A \<or> c = CHR 0x0D) s of
        [] \<Rightarrow> 0
      | c # cs \<Rightarrow>
          if c = CHR ''-'' then max (- (2 ^ 31)) (- scan_digits cs 0)
          else min (2 ^ 31 - 1) (scan_digits (if c = CHR ''+'' then cs else c # cs) 0))"

definition intComponentsOfString :: "NSString \<Rightarrow> int list" where
  "intComponentsOfString s = map intValue (componentsSeparatedByDot s)"

definition initWithVersionString :: "NSString option \<Rightarrow> ZMVersion option" where
  "initWithVersionString = map_option (\<lambda>s. \<lparr>arrayRepresentation = intComponentsOfString s, versionString = s\<rparr>)"

definition pointers :: "(NSString \<Rightarrow> nat \<Rightarrow> nat) \<Rightarrow> ZMVersion \<Rightarrow> nat list" where
  "pointers address v = map (address (versionString v)) [0..<length (arrayRepresentation v)]"

fun compare_components :: "nat list \<Rightarrow> nat list \<Rightarrow> NSComparisonResult" where
  "compare_components [] ys = (if ys = [] then NSOrderedSame else NSOrderedAscending)"
| "compare_components (x # xs) [] = NSOrderedDescending"
| "compare_components (x # xs) (y # ys) =
     (if x > y then NSOrderedDescending
      else if x < y then NSOrderedAscending
      else compare_components xs ys)"

definition compareWithVersion :: "(NSString \<Rightarrow> nat \<Rightarrow> nat) \<Rightarrow> ZMVersion \<Rightarrow> ZMVersion option \<Rightarrow> NSComparisonResult" where
  "compareWithVersion address self otherVersion =
     (case otherVersion of
        None \<Rightarrow> NSOrderedDescending
      | Some other \<Rightarrow>
          if length (arrayRepresentation other) = 0 then NSOrderedDescending
          else if versionString self = versionString other then NSOrderedSame
          else compare_components (pointers address self) (pointers address other))"

section \<open>The local data the patches change\<close>

record hf_conversation =
  hc_id :: nat
  hc_conversationType :: ZMConversationType
  hc_clearedEventID :: "NSData option"
  hc_lastEventID :: "NSData option"
  hc_lastReadEventID :: "NSData option"
  hc_isSelfAnActiveMember :: bool
  hc_messagesCount :: nat
  hc_lastServerTimeStamp :: "NSDate option"
  hc_lastReadServerTimeStamp :: "NSDate option"
  hc_lastReadModified :: bool

datatype ZMSystemMessageType = ZMSystemMessageTypeConnectionRequest | ZMSystemMessageTypeParticipantsAdded
  | ZMSystemMessageTypeOther

record hf_systemMessage =
  hm_type :: ZMSystemMessageType
  hm_eventID :: "NSData option"

record hf_assetMessage =
  ha_fromSelf :: bool
  ha_assetId :: "NSData option"
  ha_isImage :: bool
  ha_uploadingFailed :: bool
  ha_expired :: bool

record hf_signalingKeys =
  hk_verification :: "NSData option"
  hk_decryption :: "NSData option"

datatype (plugins only: code size) hotfix_effect =
    PostedResetPushTokens
  | RemovedItem NSString
  | ClearedSignalingKeysInKeyChain
  | ResetSignalingKeys
  | AppendedNewConversationMessageIfNeeded nat
  | ReplacedNewClientMessageIfNeeded nat
  | SavedOrRolledBack
  | EnqueuedDelayedSave

record hotfix_data =
  hd_conversations :: "hf_conversation list"
  hd_systemMessages :: "hf_systemMessage list"
  hd_assetMessages :: "hf_assetMessage list"
  hd_selfClient :: "hf_signalingKeys option"
  hd_keyChainKeys :: "(NSData \<times> NSData) option"
  hd_effects :: "hotfix_effect list"

text \<open>
  What the patches use of the system: the order of the stored event identifiers, the identifier 2.0, and the
  directory of the application group.
\<close>

record hotfix_env =
  he_before :: "NSData \<Rightarrow> NSData \<Rightarrow> bool"
  he_eventID20 :: NSData
  he_groupDirectory :: "NSString option"

definition hf_emit :: "hotfix_effect \<Rightarrow> hotfix_data \<Rightarrow> hotfix_data" where
  "hf_emit e d = d\<lparr>hd_effects := hd_effects d @ [e]\<rparr>"

section \<open>The patches\<close>

text \<open>In a predicate of the store a comparison with a missing value is false.\<close>

definition updateLastReadEventID :: "hotfix_env \<Rightarrow> hotfix_data \<Rightarrow> hotfix_data" where
  "updateLastReadEventID env d =
     (let fetched = (\<lambda>c. (hc_conversationType c = ZMConversationTypeConnection \<or> hc_clearedEventID c \<noteq> None) \<and>
            (case (hc_lastReadEventID c, hc_lastEventID c) of (Some r, Some l) \<Rightarrow> he_before env r l | _ \<Rightarrow> False));
          update = (\<lambda>c. if \<not> hc_isSelfAnActiveMember c \<or> hc_conversationType c = ZMConversationTypeConnection \<or>
              hc_messagesCount c = 0
            then c\<lparr>hc_lastReadEventID := hc_lastEventID c, hc_lastReadServerTimeStamp := hc_lastServerTimeStamp c,
                   hc_lastReadModified := True\<rparr> else c)
      in d\<lparr>hd_conversations := map (\<lambda>c. if fetched c then update c else c) (hd_conversations d)\<rparr>)"

definition fetchAndDeleteConnectionRequestSystemMessages :: "hotfix_env \<Rightarrow> hotfix_data \<Rightarrow> hotfix_data" where
  "fetchAndDeleteConnectionRequestSystemMessages env d =
     (let toDelete = (\<lambda>m. hm_type m = ZMSystemMessageTypeConnectionRequest \<or>
            hm_type m = ZMSystemMessageTypeParticipantsAdded \<and>
              (case hm_eventID m of None \<Rightarrow> False | Some e \<Rightarrow> he_before env e (he_eventID20 env)))
      in hf_emit SavedOrRolledBack (d\<lparr>hd_systemMessages := filter (\<lambda>m. \<not> toDelete m) (hd_systemMessages d)\<rparr>))"

definition removeSharingExtension :: "hotfix_env \<Rightarrow> hotfix_data \<Rightarrow> hotfix_data" where
  "removeSharingExtension env d =
     (case he_groupDirectory env of
        None \<Rightarrow> d
      | Some u \<Rightarrow> hf_emit (RemovedItem (u @ ''/conversations'')) (hf_emit (RemovedItem (u @ ''/profile_images'')) d))"

definition moveOrUpdateSignalingKeys :: "hotfix_data \<Rightarrow> hotfix_data" where
  "moveOrUpdateSignalingKeys d =
     (case hd_selfClient d of
        None \<Rightarrow> d
      | Some k \<Rightarrow>
          if hk_verification k \<noteq> None \<or> hk_decryption k \<noteq> None then d
          else hf_emit EnqueuedDelayedSave
            (case hd_keyChainKeys d of
               Some (v, e) \<Rightarrow> hf_emit ClearedSignalingKeysInKeyChain
                 (d\<lparr>hd_selfClient := Some \<lparr>hk_verification = Some v, hk_decryption = Some e\<rparr>, hd_keyChainKeys := None\<rparr>)
             | None \<Rightarrow> hf_emit ResetSignalingKeys d))"

definition updateUploadedStateForNotUploadedFileMessages :: "hotfix_data \<Rightarrow> hotfix_data" where
  "updateUploadedStateForNotUploadedFileMessages d =
     hf_emit EnqueuedDelayedSave
       (d\<lparr>hd_assetMessages := map (\<lambda>m. if ha_fromSelf m \<and> ha_assetId m = None
            then m\<lparr>ha_uploadingFailed := True, ha_expired := ha_expired m \<or> ha_isImage m\<rparr> else m) (hd_assetMessages d)\<rparr>)"

definition insertNewConversationSystemMessage :: "hotfix_data \<Rightarrow> hotfix_data" where
  "insertNewConversationSystemMessage d =
     fold (\<lambda>c. hf_emit (AppendedNewConversationMessageIfNeeded (hc_id c)))
       (filter (\<lambda>c. hc_conversationType c = ZMConversationTypeGroup) (hd_conversations d)) d"

definition updateSystemMessages :: "hotfix_data \<Rightarrow> hotfix_data" where
  "updateSystemMessages d =
     fold (\<lambda>c. hf_emit (ReplacedNewClientMessageIfNeeded (hc_id c)))
       (filter (\<lambda>c. hc_conversationType c \<in> {ZMConversationTypeOneOnOne, ZMConversationTypeGroup}) (hd_conversations d)) d"

text \<open>The blocks of the directory, one constructor for each.\<close>

datatype (plugins only: code size) ZMHotFixPatchCode =
    UpdateLastReadEventID
  | FetchAndDeleteConnectionRequestSystemMessages
  | ResetPushTokens
  | RemoveSharingExtension
  | MoveOrUpdateSignalingKeys
  | UpdateUploadedStateForNotUploadedFileMessages
  | InsertNewConversationSystemMessage
  | UpdateSystemMessages

primrec run_code :: "hotfix_env \<Rightarrow> ZMHotFixPatchCode \<Rightarrow> hotfix_data \<Rightarrow> hotfix_data" where
  "run_code env UpdateLastReadEventID d = updateLastReadEventID env d"
| "run_code env FetchAndDeleteConnectionRequestSystemMessages d = fetchAndDeleteConnectionRequestSystemMessages env d"
| "run_code env ResetPushTokens d = hf_emit PostedResetPushTokens d"
| "run_code env RemoveSharingExtension d = removeSharingExtension env d"
| "run_code env MoveOrUpdateSignalingKeys d = moveOrUpdateSignalingKeys d"
| "run_code env UpdateUploadedStateForNotUploadedFileMessages d = updateUploadedStateForNotUploadedFileMessages d"
| "run_code env InsertNewConversationSystemMessage d = insertNewConversationSystemMessage d"
| "run_code env UpdateSystemMessages d = updateSystemMessages d"

record ZMHotFixPatch =
  hp_version :: NSString
  hp_code :: "ZMHotFixPatchCode option"

definition patchWithVersion :: "NSString \<Rightarrow> ZMHotFixPatchCode \<Rightarrow> ZMHotFixPatch" where
  "patchWithVersion version code = \<lparr>hp_version = version, hp_code = Some code\<rparr>"

record ZMHotFixDirectory =
  hd_patches :: "ZMHotFixPatch list"

definition patches :: ZMHotFixDirectory where
  "patches = \<lparr>hd_patches =
     [patchWithVersion ''33.1'' UpdateLastReadEventID,
      patchWithVersion ''38.58'' FetchAndDeleteConnectionRequestSystemMessages,
      patchWithVersion ''40.4'' ResetPushTokens,
      patchWithVersion ''40.23'' RemoveSharingExtension,
      patchWithVersion ''41.43'' MoveOrUpdateSignalingKeys,
      patchWithVersion ''42.11'' UpdateUploadedStateForNotUploadedFileMessages,
      patchWithVersion ''45.0.1'' InsertNewConversationSystemMessage,
      patchWithVersion ''45.1'' UpdateSystemMessages]\<rparr>"

section \<open>Applying them\<close>

record ZMHotFix =
  hotFixDirectory :: ZMHotFixDirectory
  hf_skip :: bool
  hf_lastSavedVersion :: "NSString option"
  hf_data :: hotfix_data
  hf_ran :: "ZMHotFixPatchCode list"
  hf_blocks :: "(ZMVersion option \<times> NSString) list"
  hf_saves :: nat
  hf_newRequests :: nat

definition init_hotFix :: "ZMHotFixDirectory option \<Rightarrow> bool \<Rightarrow> NSString option \<Rightarrow> hotfix_data \<Rightarrow> ZMHotFix" where
  "init_hotFix directory skip lastSaved d =
     \<lparr>hotFixDirectory = (case directory of None \<Rightarrow> patches | Some x \<Rightarrow> x), hf_skip = skip,
      hf_lastSavedVersion = lastSaved, hf_data = d, hf_ran = [], hf_blocks = [], hf_saves = 0, hf_newRequests = 0\<rparr>"

definition applyFixesSinceVersion :: "(NSString \<Rightarrow> nat \<Rightarrow> nat) \<Rightarrow> hotfix_env \<Rightarrow> ZMVersion option \<Rightarrow> ZMHotFix \<Rightarrow> ZMHotFix" where
  "applyFixesSinceVersion address env lastSaved h =
     fold (\<lambda>patch h.
       let version = initWithVersionString (Some (hp_version patch))
       in case hp_code patch of
            None \<Rightarrow> h
          | Some code \<Rightarrow>
              if lastSaved = None \<or> compareWithVersion address (the version) lastSaved = NSOrderedDescending
              then h\<lparr>hf_data := run_code env code (hf_data h), hf_ran := hf_ran h @ [code]\<rparr>
              else h)
       (hd_patches (hotFixDirectory h)) h"

text \<open>The block keeps the version that was saved when it was sent, and the version of the program.\<close>

definition applyPatchesForCurrentVersion :: "(NSString \<Rightarrow> nat \<Rightarrow> nat) \<Rightarrow> NSString option \<Rightarrow> ZMHotFix \<Rightarrow> ZMHotFix" where
  "applyPatchesForCurrentVersion address currentVersionString h =
     (case currentVersionString of
        None \<Rightarrow> h
      | Some current \<Rightarrow>
          if length current = 0 then h
          else let lastSaved = initWithVersionString (hf_lastSavedVersion h);
                   currentVersion = the (initWithVersionString (Some current))
               in if compareWithVersion address currentVersion lastSaved = NSOrderedSame then h
                  else h\<lparr>hf_blocks := hf_blocks h @ [(lastSaved, current)]\<rparr>)"

definition applyPatches_block ::
  "(NSString \<Rightarrow> nat \<Rightarrow> nat) \<Rightarrow> hotfix_env \<Rightarrow> ZMVersion option \<Rightarrow> NSString \<Rightarrow> ZMHotFix \<Rightarrow> ZMHotFix" where
  "applyPatches_block address env lastSaved current h =
     (let h = applyFixesSinceVersion address env lastSaved h
      in h\<lparr>hf_lastSavedVersion := Some current, hf_saves := Suc (hf_saves h), hf_newRequests := Suc (hf_newRequests h)\<rparr>)"

definition applyPatches :: "(NSString \<Rightarrow> nat \<Rightarrow> nat) \<Rightarrow> NSString option \<Rightarrow> ZMHotFix \<Rightarrow> ZMHotFix" where
  "applyPatches address bundleVersion h =
     (if hf_skip h then h else applyPatchesForCurrentVersion address bundleVersion h)"

datatype ZMHotFix_msg = ApplyPatches | ApplyPatchesForCurrentVersion "NSString option"

primrec ZMHotFix_send :: "(NSString \<Rightarrow> nat \<Rightarrow> nat) \<Rightarrow> NSString option \<Rightarrow> ZMHotFix_msg \<Rightarrow> ZMHotFix \<Rightarrow> ZMHotFix" where
  "ZMHotFix_send address bundle ApplyPatches h = applyPatches address bundle h"
| "ZMHotFix_send address bundle (ApplyPatchesForCurrentVersion v) h = applyPatchesForCurrentVersion address v h"

datatype hotfix_event = HotFixSent ZMHotFix_msg | HotFixBlockRuns

primrec hotfix_step ::
  "(NSString \<Rightarrow> nat \<Rightarrow> nat) \<Rightarrow> hotfix_env \<Rightarrow> NSString option \<Rightarrow> hotfix_event \<Rightarrow> ZMHotFix \<Rightarrow> ZMHotFix" where
  "hotfix_step address env bundle (HotFixSent m) h = ZMHotFix_send address bundle m h"
| "hotfix_step address env bundle HotFixBlockRuns h =
     (case hf_blocks h of
        [] \<Rightarrow> h
      | (lastSaved, current) # bs \<Rightarrow> applyPatches_block address env lastSaved current (h\<lparr>hf_blocks := bs\<rparr>))"

section \<open>The order of versions\<close>

abbreviation numbers :: "NSString \<Rightarrow> int list" where
  "numbers \<equiv> intComponentsOfString"

definition plain_version :: "NSString \<Rightarrow> bool" where
  "plain_version s \<longleftrightarrow> list_all (\<lambda>n. 0 \<le> n) (numbers s)"

definition tagged_pointers :: "(NSString \<Rightarrow> nat \<Rightarrow> nat) \<Rightarrow> (int \<Rightarrow> nat) \<Rightarrow> bool" where
  "tagged_pointers address tag \<longleftrightarrow> (\<forall>s. \<forall>i < length (numbers s). address s i = tag (numbers s ! i)) \<and>
     (\<forall>a b. 0 \<le> a \<longrightarrow> a < b \<longrightarrow> tag a < tag b)"

lemma components_nonempty: "componentsSeparatedByDot s \<noteq> []"
  by (cases s) (auto split: list.split)

lemma numbers_nonempty [simp]: "numbers s \<noteq> []"
  by (simp add: intComponentsOfString_def components_nonempty)

lemma tag_less_iff:
  assumes "tagged_pointers address tag" and "0 \<le> a" and "0 \<le> b"
  shows "tag a < tag b \<longleftrightarrow> a < b"
  using assms unfolding tagged_pointers_def by (metis linorder_neq_iff order_less_asym)

lemma compare_components_lexicographic:
  assumes "tagged_pointers address tag" and "list_all (\<lambda>n. 0 \<le> n) xs" and "list_all (\<lambda>n. 0 \<le> n) ys"
  shows "compare_components (map tag xs) (map tag ys) =
    (if xs < ys then NSOrderedAscending else if ys < xs then NSOrderedDescending else NSOrderedSame)"
  using assms(2,3)
proof (induction xs arbitrary: ys)
  case (Cons x xs)
  then show ?case
    by (cases ys) (auto simp: tag_less_iff [OF assms(1)])
qed (auto simp: neq_Nil_conv)

lemma pointers_tagged:
  "tagged_pointers address tag \<Longrightarrow> pointers address \<lparr>arrayRepresentation = numbers s, versionString = s\<rparr> = map tag (numbers s)"
  by (auto simp: pointers_def tagged_pointers_def intro: nth_equalityI)

lemma compare_versions:
  assumes "tagged_pointers address tag" and "plain_version s" and "plain_version t"
  shows "compareWithVersion address (the (initWithVersionString (Some s))) (initWithVersionString (Some t)) =
    (if numbers s < numbers t then NSOrderedAscending else if numbers t < numbers s then NSOrderedDescending
     else NSOrderedSame)"
proof -
  have "compareWithVersion address (the (initWithVersionString (Some s))) (initWithVersionString (Some t)) =
      (if s = t then NSOrderedSame else compare_components (map tag (numbers s)) (map tag (numbers t)))"
    by (simp add: compareWithVersion_def initWithVersionString_def pointers_tagged [OF assms(1)])
  with assms show ?thesis
    by (simp add: plain_version_def compare_components_lexicographic)
qed

section \<open>Which patches run\<close>

definition directory_of :: "(NSString \<times> ZMHotFixPatchCode) list \<Rightarrow> ZMHotFixDirectory" where
  "directory_of ps = \<lparr>hd_patches = map (\<lambda>(v, c). patchWithVersion v c) ps\<rparr>"

lemma skip_kept: "hf_skip (applyFixesSinceVersion address env saved h) = hf_skip h"
  unfolding applyFixesSinceVersion_def
  by (rule fold_invariant [where P = "\<lambda>h'. hf_skip h' = hf_skip h" and Q = "\<lambda>_. True"])
     (auto simp: Let_def split: option.splits)

lemma blocks_kept: "hf_blocks (applyFixesSinceVersion address env saved h) = hf_blocks h"
  unfolding applyFixesSinceVersion_def
  by (rule fold_invariant [where P = "\<lambda>h'. hf_blocks h' = hf_blocks h" and Q = "\<lambda>_. True"])
     (auto simp: Let_def split: option.splits)

lemma ran_fixes:
  assumes "tagged_pointers address tag" and "case saved of None \<Rightarrow> True | Some t \<Rightarrow> plain_version t"
    and "\<forall>(v, c) \<in> set ps. plain_version v" and "hotFixDirectory h = directory_of ps"
  shows "hf_ran (applyFixesSinceVersion address env (initWithVersionString saved) h) =
    hf_ran h @ map snd (filter (\<lambda>(v, c). case saved of None \<Rightarrow> True | Some t \<Rightarrow> numbers t < numbers v) ps)"
proof -
  let ?step = "\<lambda>patch h. let version = initWithVersionString (Some (hp_version patch)) in
       case hp_code patch of None \<Rightarrow> h
       | Some code \<Rightarrow> if initWithVersionString saved = None \<or>
             compareWithVersion address (the version) (initWithVersionString saved) = NSOrderedDescending
           then h\<lparr>hf_data := run_code env code (hf_data h), hf_ran := hf_ran h @ [code]\<rparr> else h"
  have "hf_ran (fold ?step (map (\<lambda>(v, c). patchWithVersion v c) ps) h) =
      hf_ran h @ map snd (filter (\<lambda>(v, c). case saved of None \<Rightarrow> True | Some t \<Rightarrow> numbers t < numbers v) ps)" for h
    using assms(3)
  proof (induction ps arbitrary: h)
    case (Cons p ps)
    obtain v c where p: "p = (v, c)" by (cases p)
    show ?case
    proof (cases saved)
      case None
      with Cons p show ?thesis by (simp add: patchWithVersion_def initWithVersionString_def)
    next
      case (Some t)
      with assms(1,2) Cons.prems p compare_versions [of address tag v t] Cons.IH show ?thesis
        by (auto simp: patchWithVersion_def initWithVersionString_def)
    qed
  qed simp
  from this [of h] assms(4) show ?thesis
    by (simp add: applyFixesSinceVersion_def directory_of_def)
qed

text \<open>
  A release carries the patches up to its own version; \<open>start_release\<close> is the start of the program after the
  update to that release.
\<close>

definition start_release ::
  "(NSString \<Rightarrow> nat \<Rightarrow> nat) \<Rightarrow> hotfix_env \<Rightarrow> (NSString \<times> ZMHotFixPatchCode) list \<Rightarrow> NSString \<Rightarrow> ZMHotFix \<Rightarrow> ZMHotFix" where
  "start_release address env ps v h =
     fold (hotfix_step address env (Some v)) [HotFixSent ApplyPatches, HotFixBlockRuns]
       (h\<lparr>hotFixDirectory := directory_of (filter (\<lambda>(w, c). numbers w \<le> numbers v) ps)\<rparr>)"

lemmas start_defs = start_release_def applyPatches_def applyPatchesForCurrentVersion_def applyPatches_block_def
  skip_kept blocks_kept Let_def

definition patched_up_to :: "(NSString \<times> ZMHotFixPatchCode) list \<Rightarrow> NSString \<Rightarrow> ZMHotFix \<Rightarrow> bool" where
  "patched_up_to ps v h \<longleftrightarrow> \<not> hf_skip h \<and> hf_blocks h = [] \<and>
     (\<exists>w. hf_lastSavedVersion h = Some w \<and> plain_version w \<and> numbers w = numbers v) \<and>
     mset (hf_ran h) = image_mset snd (filter_mset (\<lambda>(w, c). numbers w \<le> numbers v) (mset ps))"

lemma first_release:
  assumes "tagged_pointers address tag" and "\<forall>(w, c) \<in> set ps. plain_version w" and "plain_version v" and "v \<noteq> []"
  shows "patched_up_to ps v (start_release address env ps v (init_hotFix directory False None d))"
proof -
  have "\<forall>(w, c) \<in> set (filter (\<lambda>(w, c). numbers w \<le> numbers v) ps). plain_version w"
    using assms(2) by auto
  from ran_fixes [OF assms(1) _ this, of None _ env] assms(3,4) show ?thesis
    by (simp add: patched_up_to_def start_defs compareWithVersion_def initWithVersionString_def init_hotFix_def)
qed

lemma next_release:
  assumes "tagged_pointers address tag" and "\<forall>(w, c) \<in> set ps. plain_version w" and "plain_version v" and "v \<noteq> []"
    and "patched_up_to ps u h" and "numbers u \<le> numbers v"
  shows "patched_up_to ps v (start_release address env ps v h)"
proof -
  from assms(5) obtain w where w: "hf_lastSavedVersion h = Some w" "plain_version w" "numbers w = numbers u"
    and h: "\<not> hf_skip h" "hf_blocks h = []" "mset (hf_ran h) = image_mset snd (filter_mset (\<lambda>(x, c). numbers x \<le> numbers u) (mset ps))"
    unfolding patched_up_to_def by blast
  have plain: "\<forall>(x, c) \<in> set (filter (\<lambda>(x, c). numbers x \<le> numbers v) ps). plain_version x"
    using assms(2) by auto
  note compare = compare_versions [OF assms(1,3) w(2)]
  show ?thesis
  proof (cases "numbers u = numbers v")
    case True
    with w h assms(3,4) compare show ?thesis
      by (simp add: patched_up_to_def start_defs)
  next
    case False
    with assms(6) have "numbers u < numbers v" by simp
    then have "filter_mset (\<lambda>(x, c). numbers x \<le> numbers u) (mset ps) +
        mset (filter (\<lambda>(x, c). numbers w < numbers x) (filter (\<lambda>(x, c). numbers x \<le> numbers v) ps)) = filter_mset (\<lambda>(x, c). numbers x \<le> numbers v) (mset ps)"
      by (intro multiset_eqI) (auto simp: w(3) split: prod.splits)
    from arg_cong [OF this, of "image_mset snd"] ran_fixes [OF assms(1) _ plain, of "Some w" _ env] w h assms(3,4) compare
      \<open>numbers u < numbers v\<close> show ?thesis
      by (auto simp: patched_up_to_def start_defs)
  qed
qed

text \<open>Where the numbers are tagged pointers that grow with them, over any sequence of updates of a new installation to releases
  that do not go back, where each release carries the patches up to its version, every patch up to the last release is run
  exactly once, and no other.\<close>

lemma every_patch_runs_exactly_once:
  assumes "tagged_pointers address tag" and "\<forall>(w, c) \<in> set ps. plain_version w"
    and "\<forall>v \<in> set releases. plain_version v \<and> v \<noteq> []" and "sorted (map numbers releases)" and "releases \<noteq> []"
    and "h = fold (start_release address env ps) releases (init_hotFix directory False None d)"
  shows "mset (hf_ran h) = image_mset snd (filter_mset (\<lambda>(w, c). numbers w \<le> numbers (last releases)) (mset ps))"
proof -
  have "patched_up_to ps (last releases) (fold (start_release address env ps) releases (init_hotFix directory False None d))"
    using assms(3-5)
  proof (induction releases rule: rev_induct)
    case (snoc v vs)
    show ?case
    proof (cases "vs = []")
      case True
      with snoc.prems first_release [OF assms(1,2)] show ?thesis by simp
    next
      case False
      with snoc have "patched_up_to ps (last vs) (fold (start_release address env ps) vs (init_hotFix directory False None d))"
        by (simp add: sorted_append)
      moreover from snoc.prems False have "numbers (last vs) \<le> numbers v"
        by (simp add: sorted_append)
      ultimately show ?thesis
        using snoc.prems next_release [OF assms(1,2)] by simp
    qed
  qed simp
  with assms(6) show ?thesis
    by (simp add: patched_up_to_def)
qed

lemma sample_numbers:
  "numbers ''33.1'' = [33, 1]" "numbers ''40'' = [40]" "numbers ''40.4'' = [40, 4]" "numbers ''45.1'' = [45, 1]"
  by (simp_all add: intComponentsOfString_def intValue_def)

lemma every_patch_runs_exactly_once_example:
  "mset (hf_ran (fold (start_release (\<lambda>s i. nat (numbers s ! i)) \<lparr>he_before = (<), he_eventID20 = [2, 0], he_groupDirectory = None\<rparr>
      [(''33.1'', UpdateLastReadEventID), (''40.4'', ResetPushTokens), (''45.1'', UpdateSystemMessages)]) [''40'', ''40.4'']
      (init_hotFix None False None
        \<lparr>hd_conversations = [], hd_systemMessages = [], hd_assetMessages = [], hd_selfClient = None, hd_keyChainKeys = None,
         hd_effects = []\<rparr>))) = {#UpdateLastReadEventID, ResetPushTokens#}"
  by (subst every_patch_runs_exactly_once [where releases = "[''40'', ''40.4'']" and tag = nat, OF _ _ _ _ _ refl])
     (simp_all add: tagged_pointers_def plain_version_def sample_numbers)

section \<open>A new installation\<close>

lemma new_installation_fixes:
  "applyFixesSinceVersion address env None h =
   (let codes = List.map_filter hp_code (hd_patches (hotFixDirectory h))
    in h\<lparr>hf_data := fold (run_code env) codes (hf_data h), hf_ran := hf_ran h @ codes\<rparr>)"
proof -
  have "fold (\<lambda>patch h. let version = initWithVersionString (Some (hp_version patch)) in
       case hp_code patch of None \<Rightarrow> h
       | Some code \<Rightarrow> if (None :: ZMVersion option) = None \<or> compareWithVersion address (the version) None = NSOrderedDescending
           then h\<lparr>hf_data := run_code env code (hf_data h), hf_ran := hf_ran h @ [code]\<rparr> else h) ps h =
     h\<lparr>hf_data := fold (run_code env) (List.map_filter hp_code ps) (hf_data h), hf_ran := hf_ran h @ List.map_filter hp_code ps\<rparr>" for ps
    by (induction ps arbitrary: h) (simp_all add: map_filter_simps split: option.split)
  then show ?thesis
    by (simp add: applyFixesSinceVersion_def Let_def)
qed

lemma saved_version_stays:
  assumes "hf_lastSavedVersion h = Some v" and "hf_blocks h = []" and "e \<in> {HotFixSent ApplyPatches, HotFixBlockRuns}"
  shows "hotfix_step address env (Some v) e h = h"
  using assms by (auto simp: applyPatches_def applyPatchesForCurrentVersion_def compareWithVersion_def
      initWithVersionString_def Let_def)

lemma saved_version_stays_for_ever:
  assumes "hf_lastSavedVersion h = Some v" and "hf_blocks h = []"
    and "\<forall>(address, e) \<in> set later. e \<in> {HotFixSent ApplyPatches, HotFixBlockRuns}"
  shows "fold (\<lambda>(address, e). hotfix_step address env (Some v) e) later h = h"
  using assms(3)
proof (induction later)
  case (Cons x later)
  obtain address e where "x = (address, e)" by (cases x)
  with Cons saved_version_stays [OF assms(1,2), of e] show ?case by simp
qed simp

text \<open>C9: When a new installation of a version applies its patches and the block runs, every patch of the directory that
  has code is run once, in the order of the directory, and the version is saved; after that nothing is run
  again, however often the patches are to be applied for the same version, also by later processes whose objects lie elsewhere.
  Nothing is assumed about the pointers of the numbers.\<close>

theorem new_installation_runs_every_patch_once:
  assumes "v \<noteq> []" and "\<forall>(address, e) \<in> set later. e \<in> {HotFixSent ApplyPatches, HotFixBlockRuns}"
    and "h = fold (\<lambda>(address, e). hotfix_step address env (Some v) e)
      ([(address, HotFixSent ApplyPatches), (address', HotFixBlockRuns)] @ later) (init_hotFix directory False None d)"
    and "codes = List.map_filter hp_code (hd_patches (case directory of None \<Rightarrow> patches | Some x \<Rightarrow> x))"
  shows "hf_ran h = codes \<and> hf_data h = fold (run_code env) codes d \<and> hf_lastSavedVersion h = Some v \<and> hf_saves h = 1"
proof -
  let ?h = "fold (\<lambda>(address, e). hotfix_step address env (Some v) e)
      [(address, HotFixSent ApplyPatches), (address', HotFixBlockRuns)] (init_hotFix directory False None d)"
  have first: "hf_ran ?h = codes" "hf_data ?h = fold (run_code env) codes d" "hf_lastSavedVersion ?h = Some v"
    "hf_blocks ?h = []" "hf_saves ?h = 1"
    using assms(1,4) by (simp_all add: init_hotFix_def applyPatches_def applyPatchesForCurrentVersion_def
        applyPatches_block_def initWithVersionString_def compareWithVersion_def new_installation_fixes Let_def)
  have "fold (\<lambda>(address, e). hotfix_step address env (Some v) e) later ?h = ?h"
    using saved_version_stays_for_ever [OF first(3,4) assms(2)] .
  with assms(3) first show ?thesis
    by simp
qed

definition empty_data :: hotfix_data where
  "empty_data = \<lparr>hd_conversations = [], hd_systemMessages = [], hd_assetMessages = [], hd_selfClient = None,
     hd_keyChainKeys = None, hd_effects = []\<rparr>"

theorem new_installation_runs_every_patch_once_witness:
  "hf_ran (fold (\<lambda>(address, e). hotfix_step address \<lparr>he_before = (<), he_eventID20 = [2, 0], he_groupDirectory = None\<rparr> (Some ''45'') e)
     ([(\<lambda>_ i. i, HotFixSent ApplyPatches), (\<lambda>_ i. i, HotFixBlockRuns)] @ [(\<lambda>s i. length s, HotFixSent ApplyPatches)])
     (init_hotFix None False None empty_data)) =
   [UpdateLastReadEventID, FetchAndDeleteConnectionRequestSystemMessages, ResetPushTokens, RemoveSharingExtension,
    MoveOrUpdateSignalingKeys, UpdateUploadedStateForNotUploadedFileMessages, InsertNewConversationSystemMessage,
    UpdateSystemMessages]"
  by (subst new_installation_runs_every_patch_once [where v = "''45''" and
        later = "[(\<lambda>s i. length s, HotFixSent ApplyPatches)]", OF _ _ refl refl, THEN conjunct1])
     (simp_all add: patches_def patchWithVersion_def map_filter_simps)

text \<open>When the patches are to be applied a second time before the block of the first ran, they run twice.\<close>

lemma patches_asked_for_twice_run_twice:
  "hf_ran (fold (hotfix_step address env (Some ''1''))
     [HotFixSent ApplyPatches, HotFixSent ApplyPatches, HotFixBlockRuns, HotFixBlockRuns]
     (init_hotFix (Some (directory_of [(''1'', ResetPushTokens)])) False None d)) = [ResetPushTokens, ResetPushTokens]"
  by (simp add: init_hotFix_def applyPatches_def applyPatchesForCurrentVersion_def applyPatches_block_def directory_of_def
      patchWithVersion_def initWithVersionString_def compareWithVersion_def applyFixesSinceVersion_def)

section \<open>The known patches\<close>

text \<open>The directory lists its patches by version, as its interface says, so a new installation runs them in that order.\<close>

lemma known_patches_are_ordered: "sorted (map (numbers \<circ> hp_version) (hd_patches patches))"
  by (simp add: patches_def patchWithVersion_def intComponentsOfString_def intValue_def)

text \<open>
  Comparing pointers is not comparing numbers: when the number 9 lies behind the number 10, version 9 counts as an update of
  version 10.
\<close>

lemma pointers_order_versions_wrongly:
  assumes "address ''10'' 0 < address ''9'' 0"
  shows "compareWithVersion address (the (initWithVersionString (Some ''9''))) (initWithVersionString (Some ''10'')) =
    NSOrderedDescending"
  using assms by (simp add: compareWithVersion_def initWithVersionString_def intComponentsOfString_def intValue_def pointers_def)

end
