(* ===== verification/IncompleteConversations.thy ===== *)
theory IncompleteConversations
  imports Prelude
begin

text \<open>
  \<^verbatim>\<open>ZMIncompleteConversationsCache\<close> (\<^verbatim>\<open>Source/Synchronization\<close>): which conversations have gaps in their messages, which of
  them may be fetched now (the whitelist), and in which order.

  The gaps of a conversation belong to the data model and change with it, so every message comes with the
  environment of its moment. A range of events is the list of the events added to it.
\<close>

section \<open>State\<close>

type_synonym ZMEventID = "nat \<times> nat"
type_synonym ZMEventIDRange = "ZMEventID option list"

record gap_env =
  ge_lastEventIDGap :: "ZMManagedObject \<Rightarrow> ZMEventIDRange option"
  ge_lastEventIDGapForVisibleWindow :: "ZMManagedObject \<Rightarrow> ZMEventIDRange option \<Rightarrow> ZMEventIDRange option"
  ge_isEmpty :: "ZMEventIDRange \<Rightarrow> bool"
  ge_lastEventID :: "ZMManagedObject \<Rightarrow> ZMEventID option"
  ge_isConversation :: "ZMManagedObject \<Rightarrow> bool"
  ge_isArchived :: "ZMManagedObject \<Rightarrow> bool"
  ge_connectedUserIsBlocked :: "ZMManagedObject \<Rightarrow> bool"
  ge_sortKey :: "ZMManagedObject \<Rightarrow> int"

datatype (plugins only: code size) cache_effect = SavedSyncContext | NotifiedNewRequests
  | DidFinishFetchingMessages ZMManagedObject | WillStartFetchingMessages ZMManagedObject

record ZMIncompleteConversationsCache =
  conversationsToFetch :: "ZMManagedObject list"
  whitelistedConversations :: "ZMManagedObject list"
  conversationWindows :: "(ZMManagedObject \<times> ZMEventIDRange) list"
  ic_tornDown :: bool
  ic_effects :: "cache_effect list"

definition init_cache :: ZMIncompleteConversationsCache where
  "init_cache = \<lparr>conversationsToFetch = [], whitelistedConversations = [], conversationWindows = [], ic_tornDown = False,
     ic_effects = []\<rparr>"

definition ic_emit :: "cache_effect \<Rightarrow> ZMIncompleteConversationsCache \<Rightarrow> ZMIncompleteConversationsCache" where
  "ic_emit e s = s\<lparr>ic_effects := ic_effects s @ [e]\<rparr>"

definition has_gap :: "gap_env \<Rightarrow> ZMEventIDRange option \<Rightarrow> bool" where
  "has_gap env gap \<longleftrightarrow> (case gap of None \<Rightarrow> False | Some r \<Rightarrow> \<not> ge_isEmpty env r)"

section \<open>Operations\<close>

definition ic_addTrackedObjects ::
  "gap_env \<Rightarrow> ZMManagedObject list \<Rightarrow> ZMIncompleteConversationsCache \<Rightarrow> ZMIncompleteConversationsCache" where
  "ic_addTrackedObjects env objects s =
     fold (\<lambda>c s. if has_gap env (ge_lastEventIDGapForVisibleWindow env c None)
                 then s\<lparr>conversationsToFetch := oset_add (conversationsToFetch s) c\<rparr> else s) objects s"

definition whitelistTopConversationsIfIncomplete ::
  "gap_env \<Rightarrow> ZMIncompleteConversationsCache \<Rightarrow> ZMIncompleteConversationsCache" where
  "whitelistTopConversationsIfIncomplete env s =
     (let s = ic_emit SavedSyncContext s
      in if length (conversationsToFetch s) = 0 then s
         else let s = s\<lparr>conversationsToFetch := sort_key (ge_sortKey env) (conversationsToFetch s)\<rparr>;
                  toFetch = filter (\<lambda>c. \<not> ge_isArchived env c \<and> \<not> ge_connectedUserIsBlocked env c) (conversationsToFetch s);
                  conversationsWithPriority = take (min (length toFetch) 5) toFetch
              in s\<lparr>whitelistedConversations := oset_union (whitelistedConversations s) conversationsWithPriority\<rparr>)"

definition removeConversationToFetch :: "ZMManagedObject \<Rightarrow> ZMIncompleteConversationsCache \<Rightarrow> ZMIncompleteConversationsCache" where
  "removeConversationToFetch c s =
     s\<lparr>conversationsToFetch := oset_remove c (conversationsToFetch s),
       whitelistedConversations := oset_remove c (whitelistedConversations s)\<rparr>"

definition moveConversationToTopFetchPriority ::
  "ZMManagedObject \<Rightarrow> ZMIncompleteConversationsCache \<Rightarrow> ZMIncompleteConversationsCache" where
  "moveConversationToTopFetchPriority c s =
     (let rest = (if c \<in> set (conversationsToFetch s) then oset_remove c (conversationsToFetch s) else conversationsToFetch s)
      in ic_emit NotifiedNewRequests (s\<lparr>conversationsToFetch := c # rest\<rparr>))"

definition replaceOrAddCurrentlyWhitelistedConversationIfNeeded ::
  "ZMManagedObject \<Rightarrow> ZMIncompleteConversationsCache \<Rightarrow> ZMIncompleteConversationsCache" where
  "replaceOrAddCurrentlyWhitelistedConversationIfNeeded c s =
     (let whitelisted = (if length (whitelistedConversations s) = 1 \<and> c \<notin> set (whitelistedConversations s) then []
                         else whitelistedConversations s)
      in s\<lparr>whitelistedConversations := oset_add whitelisted c\<rparr>)"

definition processConversationWhitelistingAndFetching ::
  "gap_env \<Rightarrow> ZMManagedObject \<Rightarrow> ZMIncompleteConversationsCache \<Rightarrow> ZMIncompleteConversationsCache" where
  "processConversationWhitelistingAndFetching env c s =
     (if \<not> has_gap env (ge_lastEventIDGap env c)
      then ic_emit (DidFinishFetchingMessages c) (removeConversationToFetch c s)
      else let s = s\<lparr>conversationsToFetch := oset_add (conversationsToFetch s) c\<rparr>
           in case map_of (conversationWindows s) c of
                Some window \<Rightarrow>
                  if has_gap env (ge_lastEventIDGapForVisibleWindow env c (Some window))
                  then ic_emit (WillStartFetchingMessages c) (moveConversationToTopFetchPriority c
                         (replaceOrAddCurrentlyWhitelistedConversationIfNeeded c s))
                  else ic_emit (DidFinishFetchingMessages c)
                         (s\<lparr>whitelistedConversations := oset_remove c (whitelistedConversations s)\<rparr>)
              | None \<Rightarrow> ic_emit (DidFinishFetchingMessages c)
                         (s\<lparr>whitelistedConversations := oset_remove c (whitelistedConversations s)\<rparr>))"

definition ic_objectsDidChange ::
  "gap_env \<Rightarrow> ZMManagedObject list \<Rightarrow> ZMIncompleteConversationsCache \<Rightarrow> ZMIncompleteConversationsCache" where
  "ic_objectsDidChange env objects s =
     fold (\<lambda>c s. if ge_isConversation env c then processConversationWhitelistingAndFetching env c s else s) objects s"

definition windowFromVisibleWindowNotification ::
  "gap_env \<Rightarrow> ZMManagedObject option \<Rightarrow> ZMEventID option \<Rightarrow> ZMEventID option \<Rightarrow> ZMEventIDRange option" where
  "windowFromVisibleWindowNotification env conversation oldestEvent newestEvent =
     (case conversation of
        None \<Rightarrow> None
      | Some c \<Rightarrow>
          if oldestEvent = None \<and> newestEvent = None then None
          else let newest = (if newestEvent = None then ge_lastEventID env c else newestEvent);
                   oldest = (if oldestEvent = None then newest else oldestEvent)
               in Some [oldest, newest])"

definition windowSizeChanged ::
  "gap_env \<Rightarrow> ZMManagedObject \<Rightarrow> ZMEventID option \<Rightarrow> ZMEventID option \<Rightarrow> ZMIncompleteConversationsCache \<Rightarrow>
   ZMIncompleteConversationsCache" where
  "windowSizeChanged env c oldest newest s =
     (if ic_tornDown s then s
      else case windowFromVisibleWindowNotification env (Some c) oldest newest of
             None \<Rightarrow> s\<lparr>conversationWindows := dict_remove c (conversationWindows s),
                       whitelistedConversations := oset_remove c (whitelistedConversations s)\<rparr>
           | Some window \<Rightarrow> processConversationWhitelistingAndFetching env c
               (s\<lparr>conversationWindows := dict_put c window (conversationWindows s)\<rparr>))"

definition gapForConversation :: "gap_env \<Rightarrow> ZMManagedObject \<Rightarrow> ZMIncompleteConversationsCache \<Rightarrow> ZMEventIDRange option" where
  "gapForConversation env c s =
     (if c \<notin> set (whitelistedConversations s) then ge_lastEventIDGap env c
      else ge_lastEventIDGapForVisibleWindow env c (map_of (conversationWindows s) c))"

definition fetchConversation :: "gap_env \<Rightarrow> ZMManagedObject \<Rightarrow> ZMIncompleteConversationsCache \<Rightarrow> ZMIncompleteConversationsCache" where
  "fetchConversation env c s =
     (if has_gap env (gapForConversation env c s)
      then moveConversationToTopFetchPriority c (replaceOrAddCurrentlyWhitelistedConversationIfNeeded c s)
      else if c \<in> set (conversationsToFetch s) then removeConversationToFetch c s else s)"

definition incompleteNonWhitelistedConversations :: "ZMIncompleteConversationsCache \<Rightarrow> ZMManagedObject list" where
  "incompleteNonWhitelistedConversations s = oset_minus (conversationsToFetch s) (whitelistedConversations s)"

definition incompleteWhitelistedConversations :: "ZMIncompleteConversationsCache \<Rightarrow> ZMManagedObject list" where
  "incompleteWhitelistedConversations s = filter (\<lambda>c. c \<in> set (whitelistedConversations s)) (conversationsToFetch s)"

text \<open>
  The two messages of the user interface are the blocks that the notifications send to the context. A block may still
  run after \<^verbatim>\<open>tearDown\<close>, and only the one for the window looks whether the cache is torn down.
\<close>

datatype (plugins only: code size) ZMIncompleteConversationsCache_msg =
    AddTrackedObjects "ZMManagedObject list"
  | ObjectsDidChange "ZMManagedObject list"
  | WhitelistTopConversationsIfIncomplete
  | WindowSizeChanged ZMManagedObject "ZMEventID option" "ZMEventID option"
  | FetchConversation ZMManagedObject
  | CacheTearDown

primrec ZMIncompleteConversationsCache_send ::
  "gap_env \<Rightarrow> ZMIncompleteConversationsCache_msg \<Rightarrow> ZMIncompleteConversationsCache \<Rightarrow> ZMIncompleteConversationsCache" where
  "ZMIncompleteConversationsCache_send env (AddTrackedObjects cs) s = ic_addTrackedObjects env cs s"
| "ZMIncompleteConversationsCache_send env (ObjectsDidChange cs) s = ic_objectsDidChange env cs s"
| "ZMIncompleteConversationsCache_send env WhitelistTopConversationsIfIncomplete s = whitelistTopConversationsIfIncomplete env s"
| "ZMIncompleteConversationsCache_send env (WindowSizeChanged c a b) s = windowSizeChanged env c a b s"
| "ZMIncompleteConversationsCache_send env (FetchConversation c) s = fetchConversation env c s"
| "ZMIncompleteConversationsCache_send env CacheTearDown s = s\<lparr>ic_tornDown := True\<rparr>"

section \<open>The whitelist\<close>

definition whitelist_invar :: "ZMIncompleteConversationsCache \<Rightarrow> bool" where
  "whitelist_invar s \<longleftrightarrow> distinct (conversationsToFetch s) \<and> set (whitelistedConversations s) \<subseteq> set (conversationsToFetch s)"

lemma ic_emit_simps [simp]:
  "conversationsToFetch (ic_emit e s) = conversationsToFetch s"
  "whitelistedConversations (ic_emit e s) = whitelistedConversations s"
  "whitelist_invar (ic_emit e s) = whitelist_invar s"
  by (simp_all add: ic_emit_def whitelist_invar_def)

lemma invar_move: "whitelist_invar s \<Longrightarrow>
    whitelist_invar (moveConversationToTopFetchPriority c (replaceOrAddCurrentlyWhitelistedConversationIfNeeded c s))"
  by (auto simp: whitelist_invar_def moveConversationToTopFetchPriority_def
      replaceOrAddCurrentlyWhitelistedConversationIfNeeded_def Let_def)

lemma invar_remove: "whitelist_invar s \<Longrightarrow> whitelist_invar (removeConversationToFetch c s)"
  by (auto simp: whitelist_invar_def removeConversationToFetch_def)

lemma invar_process: "whitelist_invar s \<Longrightarrow> whitelist_invar (processConversationWhitelistingAndFetching env c s)"
  using invar_move [of "s\<lparr>conversationsToFetch := oset_add (conversationsToFetch s) c\<rparr>" c] invar_remove [of s c]
  by (auto simp: processConversationWhitelistingAndFetching_def whitelist_invar_def Let_def split: option.splits)

lemma invar_top: "whitelist_invar s \<Longrightarrow> whitelist_invar (whitelistTopConversationsIfIncomplete env s)"
  by (auto simp: whitelistTopConversationsIfIncomplete_def whitelist_invar_def Let_def dest!: in_set_takeD)

lemma invar_window: "whitelist_invar s \<Longrightarrow> whitelist_invar (windowSizeChanged env c a b s)"
  using invar_process [of "s\<lparr>conversationWindows := w\<rparr>" env c for w]
  by (auto simp: windowSizeChanged_def whitelist_invar_def split: option.splits)

lemma invar_fetch: "whitelist_invar s \<Longrightarrow> whitelist_invar (fetchConversation env c s)"
  by (simp add: fetchConversation_def invar_move invar_remove)

lemma invar_fold: "(\<And>c s. whitelist_invar s \<Longrightarrow> whitelist_invar (f c s)) \<Longrightarrow> whitelist_invar s \<Longrightarrow> whitelist_invar (fold f cs s)"
  by (induction cs arbitrary: s) auto

lemma invar_send: "whitelist_invar s \<Longrightarrow> whitelist_invar (ZMIncompleteConversationsCache_send env m s)"
proof (cases m)
  case (AddTrackedObjects cs)
  assume "whitelist_invar s"
  then have "whitelist_invar (ic_addTrackedObjects env cs s)"
    unfolding ic_addTrackedObjects_def by (rule invar_fold [rotated]) (auto simp: whitelist_invar_def)
  with AddTrackedObjects show ?thesis by simp
next
  case (ObjectsDidChange cs)
  assume "whitelist_invar s"
  then have "whitelist_invar (ic_objectsDidChange env cs s)"
    unfolding ic_objectsDidChange_def by (rule invar_fold [rotated]) (simp add: invar_process)
  with ObjectsDidChange show ?thesis by simp
qed (simp_all add: invar_top invar_window invar_fetch, simp add: whitelist_invar_def)

interpretation incomplete_cache: component "\<lambda>(env, m). ZMIncompleteConversationsCache_send env m" whitelist_invar
  by unfold_locales (auto intro: invar_send)

text \<open>C33: In every run, however the gaps change, the conversations to fetch are listed once each, every whitelisted conversation is
  one to fetch, and so the two lists of the cache share nothing and together have exactly the conversations to fetch.\<close>

theorem whitelisted_conversations_are_fetched:
  "let s = run (\<lambda>(env, m). ZMIncompleteConversationsCache_send env m) init_cache ms
   in distinct (conversationsToFetch s) \<and>
      set (incompleteWhitelistedConversations s) = set (whitelistedConversations s) \<and>
      set (incompleteNonWhitelistedConversations s) = set (conversationsToFetch s) - set (whitelistedConversations s)"
  using incomplete_cache.run_invar [of init_cache ms]
  by (auto simp: whitelist_invar_def init_cache_def incompleteWhitelistedConversations_def
      incompleteNonWhitelistedConversations_def Let_def)

text \<open>A conversation that is opened on a part with missing messages is the first that is fetched: it becomes the first of the
  whitelisted conversations to fetch, and it is the only one on the whitelist if there was at most one before.\<close>

lemma opened_conversation_is_fetched_first:
  assumes "\<not> ic_tornDown s" and "windowFromVisibleWindowNotification env (Some c) oldest newest = Some window"
    and "has_gap env (ge_lastEventIDGap env c)"
    and "has_gap env (ge_lastEventIDGapForVisibleWindow env c (Some window))"
    and "t = ZMIncompleteConversationsCache_send env (WindowSizeChanged c oldest newest) s"
  shows "hd (incompleteWhitelistedConversations t) = c \<and> gapForConversation env c t = ge_lastEventIDGapForVisibleWindow env c (Some window) \<and>
    (length (whitelistedConversations s) \<le> 1 \<longrightarrow> whitelistedConversations t = [c])"
proof -
  have "t = ic_emit (WillStartFetchingMessages c) (moveConversationToTopFetchPriority c
      (replaceOrAddCurrentlyWhitelistedConversationIfNeeded c
        (s\<lparr>conversationWindows := dict_put c window (conversationWindows s),
           conversationsToFetch := oset_add (conversationsToFetch s) c\<rparr>)))"
    using assms by (simp add: windowSizeChanged_def processConversationWhitelistingAndFetching_def Let_def)
  then have t: "conversationsToFetch t = c # oset_remove c (oset_add (conversationsToFetch s) c)"
    "whitelistedConversations t = oset_add (if length (whitelistedConversations s) = 1 \<and> c \<notin> set (whitelistedConversations s)
       then [] else whitelistedConversations s) c"
    "map_of (conversationWindows t) c = Some window"
    by (simp_all add: moveConversationToTopFetchPriority_def replaceOrAddCurrentlyWhitelistedConversationIfNeeded_def
        ic_emit_def Let_def)
  then show ?thesis
    by (cases "whitelistedConversations s")
       (auto simp: incompleteWhitelistedConversations_def gapForConversation_def oset_add_def)
qed

definition sample_gaps :: gap_env where
  "sample_gaps = \<lparr>ge_lastEventIDGap = (\<lambda>_. Some [Some (1, 0)]), ge_lastEventIDGapForVisibleWindow = (\<lambda>_ w. w),
     ge_isEmpty = (\<lambda>r. r = []), ge_lastEventID = (\<lambda>_. None), ge_isConversation = (\<lambda>_. True), ge_isArchived = (\<lambda>_. False),
     ge_connectedUserIsBlocked = (\<lambda>_. False), ge_sortKey = int\<rparr>"

lemma opened_conversation_is_fetched_first_example:
  "hd (incompleteWhitelistedConversations (ZMIncompleteConversationsCache_send sample_gaps
      (WindowSizeChanged 3 (Some (1, 0)) (Some (2, 0))) (init_cache\<lparr>conversationsToFetch := [2, 3]\<rparr>))) = 3 \<and>
   whitelistedConversations (ZMIncompleteConversationsCache_send sample_gaps
      (WindowSizeChanged 3 (Some (1, 0)) (Some (2, 0))) (init_cache\<lparr>conversationsToFetch := [2, 3]\<rparr>)) = [3]"
  using opened_conversation_is_fetched_first [of "init_cache\<lparr>conversationsToFetch := [2, 3]\<rparr>" sample_gaps 3 "Some (1, 0)"
      "Some (2, 0)" "[Some (1, 0), Some (2, 0)]", OF _ _ _ _ refl]
  by (simp add: init_cache_def windowFromVisibleWindowNotification_def has_gap_def sample_gaps_def
      del: ZMIncompleteConversationsCache_send.simps)

text \<open>The whitelist for the start gets at most five conversations that are neither archived nor with a blocked user.\<close>

lemma top_conversations_are_limited:
  assumes "whitelistedConversations s = []" and "distinct (conversationsToFetch s)"
    and "t = whitelistTopConversationsIfIncomplete env s"
  shows "length (whitelistedConversations t) \<le> 5 \<and>
    (\<forall>c \<in> set (whitelistedConversations t). \<not> ge_isArchived env c \<and> \<not> ge_connectedUserIsBlocked env c)"
proof -
  have "distinct xs \<Longrightarrow> distinct ys \<Longrightarrow> set xs \<inter> set ys = {} \<Longrightarrow> length (oset_union xs ys) = length xs + length ys"
    for xs ys :: "ZMManagedObject list"
    by (induction ys arbitrary: xs) (auto simp: oset_add_def)
  then have "length (oset_union [] ys) = length ys" if "distinct ys" for ys :: "ZMManagedObject list"
    using that by fastforce
  with assms show ?thesis
    by (auto simp: whitelistTopConversationsIfIncomplete_def Let_def dest!: in_set_takeD)
qed

end
