(* ===== verification/MessageExpiration.thy ===== *)
theory MessageExpiration
  imports Prelude
begin

text \<open>
  \<^verbatim>\<open>ZMMessageExpirationTimer\<close> (\<^verbatim>\<open>Source/Synchronization/Transcoders/Helper\<close>): one timer for every message that waits to
  be sent, which marks the message as expired when its time has come.

  What the tracker reads of a message comes from the data model at the moment of the call. A timer is the date it
  fires at and whether it is still scheduled; a timer that was cancelled does not fire.
\<close>

section \<open>State and operations\<close>

record expiring_message =
  em_entityName :: NSString
  em_expirationDate :: "NSDate option"
  em_delivered :: bool
  em_isZombieObject :: bool

datatype (plugins only: code size) expiration_effect = ExpiredMessage ZMManagedObject | EnqueuedDelayedSave
  | DidFailToSentMessage ZMManagedObject | NotifiedNewRequests

record ZMMessageExpirationTimer =
  objectToTimerMap :: "(ZMManagedObject \<times> NSDate \<times> bool) list"
  tearDownCalled :: bool
  et_moc :: bool
  et_localNotificationsDispatcher :: bool
  et_entityName :: NSString
  et_filter :: "(expiring_message \<Rightarrow> bool) option"
  et_effects :: "expiration_effect list"

definition init_expirationTimer :: "bool \<Rightarrow> NSString \<Rightarrow> bool \<Rightarrow> (expiring_message \<Rightarrow> bool) option \<Rightarrow> ZMMessageExpirationTimer" where
  "init_expirationTimer moc entityName dispatcher filt =
     \<lparr>objectToTimerMap = [], tearDownCalled = False, et_moc = moc, et_localNotificationsDispatcher = dispatcher,
      et_entityName = entityName, et_filter = filt, et_effects = []\<rparr>"

definition et_emit :: "expiration_effect \<Rightarrow> ZMMessageExpirationTimer \<Rightarrow> ZMMessageExpirationTimer" where
  "et_emit e s = s\<lparr>et_effects := et_effects s @ [e]\<rparr>"

definition hasMessageTimersRunning :: "ZMMessageExpirationTimer \<Rightarrow> bool" where
  "hasMessageTimersRunning s \<longleftrightarrow> length (objectToTimerMap s) > 0"

definition runningTimersCount :: "ZMMessageExpirationTimer \<Rightarrow> nat" where
  "runningTimersCount s = length (objectToTimerMap s)"

definition isTimerRunningForMessage :: "ZMManagedObject \<Rightarrow> ZMMessageExpirationTimer \<Rightarrow> bool" where
  "isTimerRunningForMessage m s \<longleftrightarrow> map_of (objectToTimerMap s) m \<noteq> None"

definition startTimerForObject ::
  "(ZMManagedObject \<Rightarrow> expiring_message) \<Rightarrow> NSDate \<Rightarrow> ZMManagedObject \<Rightarrow> ZMMessageExpirationTimer \<Rightarrow> ZMMessageExpirationTimer" where
  "startTimerForObject env now m s =
     (if em_entityName (env m) \<noteq> et_entityName s then s
      else if \<not> (case et_filter s of None \<Rightarrow> True | Some f \<Rightarrow> f (env m)) then s
      else case em_expirationDate (env m) of
             None \<Rightarrow> s
           | Some d \<Rightarrow>
               if d < now then et_emit EnqueuedDelayedSave (et_emit (ExpiredMessage m) s)
               else if \<not> isTimerRunningForMessage m s
               then s\<lparr>objectToTimerMap := dict_put m (d, True) (objectToTimerMap s)\<rparr> else s)"

definition startTimerForObjects ::
  "(ZMManagedObject \<Rightarrow> expiring_message) \<Rightarrow> NSDate \<Rightarrow> ZMManagedObject list \<Rightarrow> ZMMessageExpirationTimer \<Rightarrow> ZMMessageExpirationTimer" where
  "startTimerForObjects env now objects s = fold (startTimerForObject env now) objects s"

definition removeTimerForMessage :: "ZMManagedObject \<Rightarrow> ZMMessageExpirationTimer \<Rightarrow> ZMMessageExpirationTimer" where
  "removeTimerForMessage m s = s\<lparr>objectToTimerMap := dict_remove m (objectToTimerMap s)\<rparr>"

definition expiration_timerDidFire ::
  "(ZMManagedObject \<Rightarrow> expiring_message) \<Rightarrow> ZMManagedObject \<Rightarrow> ZMMessageExpirationTimer \<Rightarrow> objc_failure + ZMMessageExpirationTimer" where
  "expiration_timerDidFire env m s =
     (if \<not> et_moc s then Inl AssertionFailure
      else let s = removeTimerForMessage m s
           in if em_isZombieObject (env m) then Inr s
              else if \<not> em_delivered (env m)
              then let s = et_emit EnqueuedDelayedSave (et_emit (ExpiredMessage m) s);
                       s = (if et_localNotificationsDispatcher s then et_emit (DidFailToSentMessage m) s else s)
                   in Inr (et_emit NotifiedNewRequests s)
              else Inr s)"

definition stopTimerForMessage :: "ZMManagedObject \<Rightarrow> ZMMessageExpirationTimer \<Rightarrow> ZMMessageExpirationTimer" where
  "stopTimerForMessage m s =
     (if map_of (objectToTimerMap s) m = None then s else removeTimerForMessage m s)"

definition expiration_tearDown :: "ZMMessageExpirationTimer \<Rightarrow> ZMMessageExpirationTimer" where
  "expiration_tearDown s =
     s\<lparr>objectToTimerMap := map (\<lambda>(m, d, scheduled). (m, d, False)) (objectToTimerMap s), tearDownCalled := True\<rparr>"

definition expiration_dealloc :: "ZMMessageExpirationTimer \<Rightarrow> objc_failure + unit" where
  "expiration_dealloc s = (if tearDownCalled s then Inr () else Inl AssertionFailure)"

text \<open>The messages of the class and of the protocol of change trackers; stored messages are added as tracked objects.\<close>

datatype ZMMessageExpirationTimer_msg =
    TrackMessages "ZMManagedObject \<Rightarrow> expiring_message" NSDate "ZMManagedObject list"
  | StopTimerForMessage ZMManagedObject
  | ExpirationTearDown

primrec ZMMessageExpirationTimer_send :: "ZMMessageExpirationTimer_msg \<Rightarrow> ZMMessageExpirationTimer \<Rightarrow> ZMMessageExpirationTimer" where
  "ZMMessageExpirationTimer_send (TrackMessages env now objects) s = startTimerForObjects env now objects s"
| "ZMMessageExpirationTimer_send (StopTimerForMessage m) s = stopTimerForMessage m s"
| "ZMMessageExpirationTimer_send ExpirationTearDown s = expiration_tearDown s"

inductive expiration_step :: "ZMMessageExpirationTimer \<Rightarrow> ZMMessageExpirationTimer \<Rightarrow> bool" where
  message: "expiration_step s (ZMMessageExpirationTimer_send m s)"
| timer: "map_of (objectToTimerMap s) m = Some (d, True) \<Longrightarrow> expiration_timerDidFire env m s = Inr t \<Longrightarrow> expiration_step s t"

section \<open>Waiting messages\<close>

definition timers_invar :: "ZMMessageExpirationTimer \<Rightarrow> bool" where
  "timers_invar s \<longleftrightarrow> distinct (map fst (objectToTimerMap s)) \<and>
     (\<not> tearDownCalled s \<longrightarrow> (\<forall>p \<in> set (objectToTimerMap s). snd (snd p)))"

lemma et_emit_simps [simp]:
  "objectToTimerMap (et_emit e s) = objectToTimerMap s" "tearDownCalled (et_emit e s) = tearDownCalled s"
  "et_entityName (et_emit e s) = et_entityName s" "et_filter (et_emit e s) = et_filter s" "et_moc (et_emit e s) = et_moc s"
  "et_effects (et_emit e s) = et_effects s @ [e]"
  "et_localNotificationsDispatcher (et_emit e s) = et_localNotificationsDispatcher s"
  "timers_invar (et_emit e s) = timers_invar s"
  by (simp_all add: et_emit_def timers_invar_def)

lemma timers_remove: "timers_invar s \<Longrightarrow> timers_invar (removeTimerForMessage m s)"
  by (force simp: timers_invar_def removeTimerForMessage_def dict_remove_def distinct_map_filter)

lemma timers_start: "timers_invar s \<Longrightarrow> timers_invar (startTimerForObject env now m s)"
  by (auto simp: startTimerForObject_def timers_invar_def dest!: set_dict_put_subset [THEN subsetD] split: option.splits)

lemma timers_starts: "timers_invar s \<Longrightarrow> timers_invar (startTimerForObjects env now ms s)"
  unfolding startTimerForObjects_def by (induction ms arbitrary: s) (simp_all add: timers_start)

lemma timers_tearDown: "timers_invar s \<Longrightarrow> timers_invar (expiration_tearDown s)"
  by (simp add: timers_invar_def expiration_tearDown_def comp_def case_prod_beta)

lemma timers_fire: "timers_invar s \<Longrightarrow> expiration_timerDidFire env m s = Inr t \<Longrightarrow> timers_invar t"
  using timers_remove [of s m] by (auto simp: expiration_timerDidFire_def Let_def split: if_splits)

lemma timers_step: "expiration_step s t \<Longrightarrow> timers_invar s \<Longrightarrow> timers_invar t"
proof (induction rule: expiration_step.induct)
  case (message s m)
  then show ?case
    by (cases m) (simp_all add: timers_starts timers_tearDown stopTimerForMessage_def timers_remove)
qed (rule timers_fire)

lemma reachable_invar: "expiration_step\<^sup>*\<^sup>* (init_expirationTimer moc n l f) s \<Longrightarrow> timers_invar s"
  by (induction rule: rtranclp_induct) (simp add: timers_invar_def init_expirationTimer_def, rule timers_step)

definition tracks :: "(ZMManagedObject \<Rightarrow> expiring_message) \<Rightarrow> ZMManagedObject \<Rightarrow> ZMMessageExpirationTimer \<Rightarrow> bool" where
  "tracks env m s \<longleftrightarrow> em_entityName (env m) = et_entityName s \<and>
     (case et_filter s of None \<Rightarrow> True | Some f \<Rightarrow> f (env m))"

lemma start_keeps:
  "tracks env m (startTimerForObject env now x s) = tracks env m s"
  "\<exists>es. et_effects (startTimerForObject env now x s) = et_effects s @ es"
  "tearDownCalled (startTimerForObject env now x s) = tearDownCalled s"
  "map_of (objectToTimerMap s) m = Some p \<Longrightarrow> map_of (objectToTimerMap (startTimerForObject env now x s)) m = Some p"
  by (cases p; auto simp: startTimerForObject_def tracks_def isTimerRunningForMessage_def split: option.splits)+

lemma starts_keep:
  "\<exists>es. et_effects (fold (startTimerForObject env now) xs s) = et_effects s @ es"
  "map_of (objectToTimerMap s) m = Some p \<Longrightarrow> map_of (objectToTimerMap (fold (startTimerForObject env now) xs s)) m = Some p"
proof -
  show "\<exists>es. et_effects (fold (startTimerForObject env now) xs s) = et_effects s @ es"
  proof (induction xs arbitrary: s)
    case (Cons x xs)
    from start_keeps(2) [of env now x s] Cons.IH [of "startTimerForObject env now x s"] show ?case
      by auto
  qed simp
  show "map_of (objectToTimerMap s) m = Some p \<Longrightarrow>
      map_of (objectToTimerMap (fold (startTimerForObject env now) xs s)) m = Some p"
    by (induction xs arbitrary: s) (simp_all add: start_keeps(4))
qed

definition handled :: "NSDate \<Rightarrow> NSDate \<Rightarrow> ZMManagedObject \<Rightarrow> nat \<Rightarrow> ZMMessageExpirationTimer \<Rightarrow> bool" where
  "handled d now m n s \<longleftrightarrow> (if d < now then ExpiredMessage m \<in> set (drop n (et_effects s))
     else map_of (objectToTimerMap s) m \<noteq> None)"

lemma start_handles:
  assumes "tracks env m s" and "em_expirationDate (env m) = Some d" and "n \<le> length (et_effects s)"
  shows "handled d now m n (startTimerForObject env now m s)"
  using assms by (auto simp: startTimerForObject_def handled_def tracks_def isTimerRunningForMessage_def)

lemma starts_handle:
  assumes "tracks env m s" and "em_expirationDate (env m) = Some d" and "n \<le> length (et_effects s)" and "m \<in> set xs"
  shows "handled d now m n (fold (startTimerForObject env now) xs s)"
  using assms(1,3,4)
proof (induction xs arbitrary: s)
  case (Cons x xs)
  let ?s = "startTimerForObject env now x s"
  from start_keeps(2) [of env now x s] Cons.prems(2) have n: "n \<le> length (et_effects ?s)"
    by auto
  show ?case
  proof (cases "x = m")
    case True
    with start_handles [OF Cons.prems(1) assms(2) Cons.prems(2)] have "handled d now m n ?s" by simp
    with starts_keep(1) [of env now xs ?s] starts_keep(2) [of ?s m _ env now xs] n show ?thesis
      by (auto simp: handled_def split: if_splits)
  next
    case False
    with Cons start_keeps(1) [of env m now x s] n show ?thesis by simp
  qed
qed simp

text \<open>C11: No waiting message is forgotten: in every reachable state that is not torn down a message has at most one timer, and
  when the tracker is told of a message of its kind with an expiration date, the message is marked as expired at once if
  the date has passed, and otherwise a timer is scheduled for it.\<close>

theorem waiting_message_expires_or_has_a_timer:
  assumes "expiration_step\<^sup>*\<^sup>* (init_expirationTimer moc entity dispatcher filt) s" and "\<not> tearDownCalled s"
    and "tracks env m s" and "em_expirationDate (env m) = Some d" and "m \<in> set objects"
    and "t = ZMMessageExpirationTimer_send (TrackMessages env now objects) s"
  shows "distinct (map fst (objectToTimerMap t)) \<and>
    (if d < now then ExpiredMessage m \<in> set (drop (length (et_effects s)) (et_effects t))
     else \<exists>date. map_of (objectToTimerMap t) m = Some (date, True))"
proof -
  from reachable_invar [OF assms(1)] have "timers_invar t"
    unfolding assms(6) by (simp add: timers_starts)
  moreover have "\<not> tearDownCalled t"
  proof -
    have "tearDownCalled (fold (startTimerForObject env now) xs u) = tearDownCalled u" for xs u
      by (induction xs arbitrary: u) (simp_all add: start_keeps(3))
    with assms(2,6) show ?thesis by (simp add: startTimerForObjects_def)
  qed
  moreover from starts_handle [OF assms(3,4) le_refl assms(5), of now] have "handled d now m (length (et_effects s)) t"
    unfolding assms(6) by (simp add: startTimerForObjects_def)
  ultimately show ?thesis
    by (fastforce simp: timers_invar_def handled_def simp del: map_of_eq_Some_iff dest: map_of_SomeD)
qed

definition sample_message :: "ZMManagedObject \<Rightarrow> expiring_message" where
  "sample_message m = \<lparr>em_entityName = ''Message'', em_expirationDate = Some (of_nat m), em_delivered = False, em_isZombieObject = False\<rparr>"

theorem waiting_message_expires_or_has_a_timer_witness:
  "\<exists>date. map_of (objectToTimerMap (ZMMessageExpirationTimer_send (TrackMessages sample_message 3 [2, 9])
      (init_expirationTimer True ''Message'' True None))) 9 = Some (date, True)"
  using waiting_message_expires_or_has_a_timer [OF rtranclp.rtrancl_refl, of True "''Message''" True None sample_message 9 9
      "[2, 9]" _ 3, OF _ _ _ _ refl]
  by (simp add: init_expirationTimer_def tracks_def sample_message_def del: ZMMessageExpirationTimer_send.simps map_of_eq_Some_iff)

text \<open>A timer that fires marks its message as expired exactly when the message is not delivered, and is gone afterwards.\<close>

lemma fired_timer_expires_undelivered:
  assumes "expiration_timerDidFire env m s = Inr t" and "\<not> em_isZombieObject (env m)"
  shows "map_of (objectToTimerMap t) m = None \<and>
    (ExpiredMessage m \<in> set (drop (length (et_effects s)) (et_effects t)) \<longleftrightarrow> \<not> em_delivered (env m))"
  using assms by (auto simp: expiration_timerDidFire_def removeTimerForMessage_def Let_def split: if_splits)

text \<open>After \<^verbatim>\<open>tearDown\<close> no timer fires, but the table still has them, so the class reports running timers.\<close>

lemma torn_down_tracker_reports_timers:
  "runningTimersCount (expiration_tearDown s) = runningTimersCount s \<and>
   map_of (objectToTimerMap (expiration_tearDown s)) m \<noteq> Some (d, True)"
  by (auto simp: runningTimersCount_def expiration_tearDown_def dest!: map_of_SomeD)

text \<open>A timer that runs keeps its date when the date of its message changes.\<close>

lemma running_timer_keeps_its_date:
  "map_of (objectToTimerMap s) m = Some (date, b) \<Longrightarrow>
   map_of (objectToTimerMap (startTimerForObjects env now objects s)) m = Some (date, b)"
  by (simp add: startTimerForObjects_def starts_keep(2))

end
