(* ===== verification/Encodings.thy ===== *)
theory Encodings
  imports Prelude
begin

text \<open>
  Encodings of Foundation that several parts use: numbers as bytes, Base 64, percent escapes and UTF-8. A byte is a
  number below 256, and a string is the list of its UTF-8 bytes.
\<close>

section \<open>Bytes\<close>

fun to_bytes :: "nat \<Rightarrow> nat \<Rightarrow> NSData" where
  "to_bytes 0 n = []"
| "to_bytes (Suc k) n = to_bytes k (n div 256) @ [n mod 256]"

definition of_bytes :: "NSData \<Rightarrow> nat" where
  "of_bytes bs = foldl (\<lambda>n b. 256 * n + b) 0 bs"

definition bytes :: "NSData \<Rightarrow> bool" where
  "bytes bs \<longleftrightarrow> list_all (\<lambda>b. b < 256) bs"

section \<open>Base 64\<close>

text \<open>\<^verbatim>\<open>base64EncodedStringWithOptions:\<close> and \<^verbatim>\<open>initWithBase64EncodedString:options:\<close> of Foundation, without options.\<close>

definition base64_alphabet :: NSString where
  "base64_alphabet = ''ABCDEFGHIJKLMNOPQRSTUVWXYZabcdefghijklmnopqrstuvwxyz0123456789+/''"

definition base64_char :: "nat \<Rightarrow> char" where
  "base64_char n = base64_alphabet ! n"

definition base64_value :: "char \<Rightarrow> nat option" where
  "base64_value c = map_of (zip base64_alphabet [0..<64]) c"

fun base64_encode :: "NSData \<Rightarrow> NSString" where
  "base64_encode [] = []"
| "base64_encode [a] = [base64_char (a div 4), base64_char (a mod 4 * 16), CHR ''='', CHR ''='']"
| "base64_encode [a, b] =
     [base64_char (a div 4), base64_char (a mod 4 * 16 + b div 16), base64_char (b mod 16 * 4), CHR ''='']"
| "base64_encode (a # b # c # bs) =
     base64_char (a div 4) # base64_char (a mod 4 * 16 + b div 16) # base64_char (b mod 16 * 4 + c div 64) #
     base64_char (c mod 64) # base64_encode bs"

definition first_byte :: "nat \<Rightarrow> nat \<Rightarrow> nat" where
  "first_byte w x = w * 4 + x div 16"

definition second_byte :: "nat \<Rightarrow> nat \<Rightarrow> nat" where
  "second_byte x y = x mod 16 * 16 + y div 4"

definition third_byte :: "nat \<Rightarrow> nat \<Rightarrow> nat" where
  "third_byte y z = y mod 4 * 64 + z"

fun base64_decode :: "NSString \<Rightarrow> NSData option" where
  "base64_decode [] = Some []"
| "base64_decode (w # x # y # z # cs) =
     Option.bind (base64_value w) (\<lambda>w. Option.bind (base64_value x) (\<lambda>x.
       if cs = [] \<and> y = CHR ''='' \<and> z = CHR ''='' then Some [first_byte w x]
       else Option.bind (base64_value y) (\<lambda>y.
         if cs = [] \<and> z = CHR ''='' then Some [first_byte w x, second_byte x y]
         else Option.bind (base64_value z) (\<lambda>z.
           map_option (\<lambda>bs. first_byte w x # second_byte x y # third_byte y z # bs) (base64_decode cs)))))"
| "base64_decode _ = None"

section \<open>Percent encoding\<close>

definition hex_value :: "char \<Rightarrow> nat option" where
  "hex_value c =
     (let n = (of_char c :: nat)
      in if 48 \<le> n \<and> n \<le> 57 then Some (n - 48)
         else if 65 \<le> n \<and> n \<le> 70 then Some (n - 55)
         else if 97 \<le> n \<and> n \<le> 102 then Some (n - 87) else None)"

fun percent_bytes :: "NSString \<Rightarrow> NSString option" where
  "percent_bytes [] = Some []"
| "percent_bytes (c # cs) =
     (if c \<noteq> CHR ''%'' then map_option (Cons c) (percent_bytes cs)
      else case cs of
             a # b # ds \<Rightarrow> Option.bind (hex_value a) (\<lambda>x. Option.bind (hex_value b) (\<lambda>y.
               map_option (Cons (char_of (16 * x + y))) (percent_bytes ds)))
           | _ \<Rightarrow> None)"

definition continuation :: "nat \<Rightarrow> bool" where
  "continuation b \<longleftrightarrow> 128 \<le> b \<and> b < 192"

fun utf8_valid :: "NSData \<Rightarrow> bool" where
  "utf8_valid [] = True"
| "utf8_valid (b # bs) =
     (if b < 128 then utf8_valid bs
      else if 194 \<le> b \<and> b < 224 then (case bs of c # cs \<Rightarrow> continuation c \<and> utf8_valid cs | _ \<Rightarrow> False)
      else if 224 \<le> b \<and> b < 240 then
        (case bs of c # d # ds \<Rightarrow> continuation c \<and> continuation d \<and> (b = 224 \<longrightarrow> 160 \<le> c) \<and> (b = 237 \<longrightarrow> c < 160) \<and> utf8_valid ds
         | _ \<Rightarrow> False)
      else if 240 \<le> b \<and> b < 245 then
        (case bs of c # d # e # es \<Rightarrow> continuation c \<and> continuation d \<and> continuation e \<and> (b = 240 \<longrightarrow> 144 \<le> c) \<and>
           (b = 244 \<longrightarrow> c < 144) \<and> utf8_valid es
         | _ \<Rightarrow> False)
      else False)"

text \<open>A broken escape, or bytes that are not UTF-8, make the result \<^verbatim>\<open>nil\<close>.\<close>

definition stringByRemovingPercentEncoding :: "NSString \<Rightarrow> NSString option" where
  "stringByRemovingPercentEncoding s =
     Option.bind (percent_bytes s) (\<lambda>t. if utf8_valid (map of_char t) then Some t else None)"

end
