(* ===== verification/Invitations.thy ===== *)
theory Invitations
  imports SearchRequests Encodings "HOL-Library.Word"
begin

text \<open>
  Invitations to connect: \<^verbatim>\<open>ZMEncodedNSUUIDWithTimestamp\<close> and the URL categories of \<^verbatim>\<open>Source/UserSession\<close>, and
  \<^verbatim>\<open>ZMConnection+InvitationToConnect\<close> of \<^verbatim>\<open>Source/Data Model\<close>. A user gives away a link with the own identifier, encrypted;
  whoever opens it sends that user a connection request.

  The cipher of the system is a parameter. Identifiers have 128 bits. The
  query components of a URL come from a library.
\<close>

section \<open>An identifier with a time\<close>

record ZMEncodedNSUUIDWithTimestamp =
  en_uuid :: "NSUUID option"
  en_timestampDate :: NSDate
  en_encodedData :: "NSData option"

text \<open>
  \<open>ci_encrypt\<close> and \<open>ci_decrypt\<close> are \<^verbatim>\<open>CCCrypt\<close> with AES and a key, \<open>None\<close> when they do not succeed; \<open>ci_memory\<close> is
  what follows the bytes of an object in memory.
\<close>

record cipher_env =
  ci_encrypt :: "NSData \<Rightarrow> NSData \<Rightarrow> NSData option"
  ci_decrypt :: "NSData \<Rightarrow> NSData \<Rightarrow> NSData option"
  ci_memory :: NSData

definition ReferenceTimestamp :: NSDate where
  "ReferenceTimestamp = 1388534400"

definition distantPast :: NSDate where
  "distantPast = - 62135769600"

definition hoursBetweenReferenceDateAndDate :: "NSDate \<Rightarrow> 16 word" where
  "hoursBetweenReferenceDateAndDate date = word_of_int \<lfloor>(date - ReferenceTimestamp) / 3600\<rfloor>"

definition dateFromHoursSinceReferenceDate :: "16 word \<Rightarrow> NSDate" where
  "dateFromHoursSinceReferenceDate hours = ReferenceTimestamp + 3600 * real (unat hours)"

definition encodedDataWithKey ::
  "cipher_env \<Rightarrow> NSData \<Rightarrow> NSData \<Rightarrow> ZMEncodedNSUUIDWithTimestamp \<Rightarrow> objc_failure + ZMEncodedNSUUIDWithTimestamp" where
  "encodedDataWithKey env random encryptionKey e =
     (if length encryptionKey \<noteq> 32 then Inl AssertionFailure
      else let hours = hoursBetweenReferenceDateAndDate (en_timestampDate e)
           in case en_uuid e of
                None \<Rightarrow> Inr e
              | Some u \<Rightarrow>
                  (case ci_encrypt env encryptionKey (random @ to_bytes 2 (unat hours) @ to_bytes 16 u) of
                     None \<Rightarrow> Inl AssertionFailure
                   | Some encrypted \<Rightarrow> Inr (e\<lparr>en_encodedData := Some encrypted\<rparr>)))"

definition initWithUUID ::
  "cipher_env \<Rightarrow> NSData \<Rightarrow> NSUUID option \<Rightarrow> NSDate \<Rightarrow> NSData \<Rightarrow> objc_failure + ZMEncodedNSUUIDWithTimestamp" where
  "initWithUUID env random uuid date encryptionKey =
     encodedDataWithKey env random encryptionKey \<lparr>en_uuid = uuid, en_timestampDate = date, en_encodedData = None\<rparr>"

text \<open>The length of the data is only logged: 32 bytes are read from where it starts.\<close>

definition initWithEncodedData :: "cipher_env \<Rightarrow> NSData \<Rightarrow> NSData \<Rightarrow> objc_failure + ZMEncodedNSUUIDWithTimestamp" where
  "initWithEncodedData env data encryptionKey =
     (if length encryptionKey \<noteq> 32 then Inl AssertionFailure
      else Inr (case ci_decrypt env encryptionKey (take 32 (data @ ci_memory env)) of
                  None \<Rightarrow> \<lparr>en_uuid = None, en_timestampDate = distantPast, en_encodedData = Some data\<rparr>
                | Some decrypted \<Rightarrow>
                    \<lparr>en_uuid = Some (of_bytes (take 16 (drop 16 decrypted))),
                     en_timestampDate = dateFromHoursSinceReferenceDate (word_of_nat (of_bytes (take 2 (drop 14 decrypted)))),
                     en_encodedData = Some data\<rparr>))"

definition url_safe :: "char \<Rightarrow> char" where
  "url_safe c = (if c = CHR ''/'' then CHR ''_'' else if c = CHR ''+'' then CHR ''-'' else c)"

definition url_unsafe :: "char \<Rightarrow> char" where
  "url_unsafe c = (if c = CHR ''_'' then CHR ''/'' else if c = CHR ''-'' then CHR ''+'' else c)"

definition URLSafeBase64WithoutPaddingEncodeData :: "NSData option \<Rightarrow> objc_failure + NSString" where
  "URLSafeBase64WithoutPaddingEncodeData data =
     (case data of
        None \<Rightarrow> Inl AssertionFailure
      | Some d \<Rightarrow>
          let safeBase64 = map url_safe (base64_encode d)
          in if safeBase64 = [] then Inl NSRangeException
             else if last safeBase64 \<noteq> CHR ''='' then Inl AssertionFailure
             else Inr (filter (\<lambda>c. c \<noteq> CHR ''='') safeBase64))"

text \<open>A \<^verbatim>\<open>nil\<close> string passes the check of its last character and is then refused by the decoder.\<close>

definition URLSafeBase64WithoutPaddingDecodeString :: "NSString option \<Rightarrow> objc_failure + NSData option" where
  "URLSafeBase64WithoutPaddingDecodeString token =
     (case token of
        None \<Rightarrow> Inl NSInvalidArgumentException
      | Some s \<Rightarrow>
          if s = [] then Inl NSRangeException
          else if last s = CHR ''='' then Inr None
          else Inr (base64_decode (map url_unsafe (s @ ''=''))))"

definition identifier_allowed :: "char \<Rightarrow> bool" where
  "identifier_allowed c \<longleftrightarrow> URLQueryAllowedCharacterSet c \<and> c \<notin> set ''/=&+''"

definition URLWithEncodedUUIDWithTimestampPrefixedWithString ::
  "NSString \<Rightarrow> ZMEncodedNSUUIDWithTimestamp \<Rightarrow> objc_failure + NSString" where
  "URLWithEncodedUUIDWithTimestampPrefixedWithString prefix e =
     bindE (URLSafeBase64WithoutPaddingEncodeData (en_encodedData e)) (\<lambda>base64EncodedIdentifier.
       Inr (prefix @ percent_encode identifier_allowed base64EncodedIdentifier))"

definition initWithSafeBase64EncodedToken ::
  "cipher_env \<Rightarrow> NSString option \<Rightarrow> NSData \<Rightarrow> objc_failure + ZMEncodedNSUUIDWithTimestamp option" where
  "initWithSafeBase64EncodedToken env token encryptionKey =
     (case token of
        None \<Rightarrow> Inr None
      | Some t \<Rightarrow>
          bindE (URLSafeBase64WithoutPaddingDecodeString (stringByRemovingPercentEncoding t)) (\<lambda>decodedData.
            case decodedData of
              None \<Rightarrow> Inr None
            | Some d \<Rightarrow> map_sum id Some (initWithEncodedData env d encryptionKey)))"

datatype ZMEncodedNSUUIDWithTimestamp_init =
    InitWithEncodedData NSData NSData
  | InitWithUUID NSData "NSUUID option" NSDate NSData
  | InitWithSafeBase64EncodedToken "NSString option" NSData

primrec ZMEncodedNSUUIDWithTimestamp_make ::
  "cipher_env \<Rightarrow> ZMEncodedNSUUIDWithTimestamp_init \<Rightarrow> objc_failure + ZMEncodedNSUUIDWithTimestamp option" where
  "ZMEncodedNSUUIDWithTimestamp_make env (InitWithEncodedData d k) = map_sum id Some (initWithEncodedData env d k)"
| "ZMEncodedNSUUIDWithTimestamp_make env (InitWithUUID r u d k) = map_sum id Some (initWithUUID env r u d k)"
| "ZMEncodedNSUUIDWithTimestamp_make env (InitWithSafeBase64EncodedToken t k) = initWithSafeBase64EncodedToken env t k"

section \<open>Links\<close>

record NSURL =
  url_scheme :: "NSString option"
  url_host :: "NSString option"
  url_path :: "NSString option"
  zm_queryComponents :: "(NSString \<times> NSString) list"

definition isURLForInvitationToConnect :: "NSURL \<Rightarrow> bool" where
  "isURLForInvitationToConnect u \<longleftrightarrow>
     (case map_of (zm_queryComponents u) ''code'' of
        None \<Rightarrow> False
      | Some code \<Rightarrow> length code \<noteq> 0 \<and> (url_scheme u = Some ''wire'' \<or> url_scheme u = Some ''wire-invite'') \<and>
          url_host u = Some ''connect'' \<and> url_path u = Some '''')"

definition isURLForPhoneVerification :: "NSURL \<Rightarrow> bool" where
  "isURLForPhoneVerification u \<longleftrightarrow> url_scheme u = Some ''wire'' \<and> url_host u = Some ''verify-phone'' \<and>
     (case url_path u of None \<Rightarrow> False | Some p \<Rightarrow> length p > 1)"

definition invitationToConnectToken :: "NSURL \<Rightarrow> NSString option" where
  "invitationToConnectToken u =
     (if \<not> isURLForInvitationToConnect u then None else map_of (zm_queryComponents u) ''code'')"

definition codeForPhoneVerification :: "NSURL \<Rightarrow> NSString option" where
  "codeForPhoneVerification u = (if \<not> isURLForPhoneVerification u then None else map_option (drop 1) (url_path u))"

datatype (plugins only: code size) NSURL_LaunchOptions = IsURLForInvitationToConnect | IsURLForPhoneVerification | InvitationToConnectToken
  | CodeForPhoneVerification

datatype url_answer = AnswerBOOL bool | AnswerString "NSString option"

primrec NSURL_send :: "NSURL_LaunchOptions \<Rightarrow> NSURL \<Rightarrow> url_answer" where
  "NSURL_send IsURLForInvitationToConnect u = AnswerBOOL (isURLForInvitationToConnect u)"
| "NSURL_send IsURLForPhoneVerification u = AnswerBOOL (isURLForPhoneVerification u)"
| "NSURL_send InvitationToConnectToken u = AnswerString (invitationToConnectToken u)"
| "NSURL_send CodeForPhoneVerification u = AnswerString (codeForPhoneVerification u)"

section \<open>Invitations\<close>

definition invitationToConnectEncryptionKey :: NSData where
  "invitationToConnectEncryptionKey =
     [0x64, 0x68, 0xca, 0xee, 0x5c, 0x0, 0x25, 0xf5, 0x68, 0xe4, 0xd0, 0x85, 0xf8, 0x38, 0x28, 0x6a,
      0x8a, 0x98, 0x6d, 0x2d, 0xfa, 0x67, 0x5e, 0x48, 0xa3, 0xed, 0x2a, 0xef, 0xdd, 0xaf, 0xe8, 0xc1]"

definition InvitationToConnectTTL :: NSTimeInterval where
  "InvitationToConnectTTL = 60 * 60 * 24 * 7 * 2"

definition URLForInvitationToConnect :: "cipher_env \<Rightarrow> NSData \<Rightarrow> NSDate \<Rightarrow> NSUUID option \<Rightarrow> objc_failure + NSString" where
  "URLForInvitationToConnect env random now remoteIdentifier =
     bindE (initWithUUID env random remoteIdentifier (now + InvitationToConnectTTL) invitationToConnectEncryptionKey)
       (URLWithEncodedUUIDWithTimestampPrefixedWithString ''https://www.wire.com/c/'')"

record invited_connection =
  cn_status :: ZMConnectionStatus
  cn_message :: "NSString option"
  cn_conversation :: "ZMManagedObject option"
  cn_statusModified :: bool

record invitation_store =
  iv_isSyncContext :: bool
  iv_selfRemoteIdentifier :: "NSUUID option"
  iv_connections :: "(ZMManagedObject \<times> invited_connection) list"
  iv_storedURLs :: "NSURL list option"
  iv_openedConversations :: "ZMManagedObject list"
  iv_saves :: nat

record invitation_env =
  in_cipher :: cipher_env
  in_userWithRemoteID :: "NSUUID option \<Rightarrow> ZMManagedObject"
  in_newSentConnection :: "ZMManagedObject \<Rightarrow> invited_connection"
  in_message :: NSString

definition invite_user :: "invitation_env \<Rightarrow> ZMManagedObject \<Rightarrow> invited_connection option \<Rightarrow> invited_connection" where
  "invite_user env user existing =
     (let connection = (case existing of None \<Rightarrow> in_newSentConnection env user | Some c \<Rightarrow> c)
      in if existing = None \<or> cn_status connection \<notin>
              {ZMConnectionStatusAccepted, ZMConnectionStatusSent, ZMConnectionStatusBlocked}
         then let connection = connection\<lparr>cn_message := Some (in_message env)\<rparr>
              in if existing \<noteq> None then connection\<lparr>cn_status := ZMConnectionStatusAccepted, cn_statusModified := True\<rparr>
                 else connection
         else connection)"

definition sendInvitationToConnectFromURL ::
  "invitation_env \<Rightarrow> NSURL \<Rightarrow> invitation_store \<Rightarrow> objc_failure + invitation_store" where
  "sendInvitationToConnectFromURL env url s =
     (if \<not> iv_isSyncContext s then Inl AssertionFailure
      else bindE (initWithSafeBase64EncodedToken (in_cipher env) (invitationToConnectToken url) invitationToConnectEncryptionKey)
        (\<lambda>encodedUserID.
           case encodedUserID of
             None \<Rightarrow> Inr s
           | Some e \<Rightarrow>
               if iv_selfRemoteIdentifier s \<noteq> None \<and> iv_selfRemoteIdentifier s = en_uuid e then Inr s
               else let user = in_userWithRemoteID env (en_uuid e);
                        existing = map_of (iv_connections s) user;
                        connection = invite_user env user existing;
                        s = s\<lparr>iv_connections := dict_put user connection (iv_connections s),
                              iv_saves := iv_saves s + of_bool (existing = None)\<rparr>
                    in Inr (case cn_conversation connection of
                              None \<Rightarrow> s
                            | Some c \<Rightarrow> s\<lparr>iv_openedConversations := iv_openedConversations s @ [c]\<rparr>)))"

definition storeInvitationToConnectFromURL :: "NSURL option \<Rightarrow> invitation_store \<Rightarrow> objc_failure + invitation_store" where
  "storeInvitationToConnectFromURL url s =
     (case url of
        None \<Rightarrow> Inl AssertionFailure
      | Some u \<Rightarrow>
          if \<not> iv_isSyncContext s then Inl AssertionFailure
          else Inr (s\<lparr>iv_storedURLs := Some (oset_add (case iv_storedURLs s of None \<Rightarrow> [] | Some us \<Rightarrow> us) u)\<rparr>))"

definition processStoredInvitationsToConnectFromURL ::
  "invitation_env \<Rightarrow> invitation_store \<Rightarrow> objc_failure + invitation_store" where
  "processStoredInvitationsToConnectFromURL env s =
     (if \<not> iv_isSyncContext s then Inl AssertionFailure
      else bindE (foldE (sendInvitationToConnectFromURL env) (case iv_storedURLs s of None \<Rightarrow> [] | Some us \<Rightarrow> us) s)
        (\<lambda>s. Inr (s\<lparr>iv_storedURLs := None, iv_saves := Suc (iv_saves s)\<rparr>)))"

datatype ZMConnection_InvitationToConnect =
    SendInvitationToConnectFromURL NSURL
  | StoreInvitationToConnectFromURL "NSURL option"
  | ProcessStoredInvitationsToConnectFromURL

primrec ZMConnection_invitation_send ::
  "invitation_env \<Rightarrow> ZMConnection_InvitationToConnect \<Rightarrow> invitation_store \<Rightarrow> objc_failure + invitation_store" where
  "ZMConnection_invitation_send env (SendInvitationToConnectFromURL u) s = sendInvitationToConnectFromURL env u s"
| "ZMConnection_invitation_send env (StoreInvitationToConnectFromURL u) s = storeInvitationToConnectFromURL u s"
| "ZMConnection_invitation_send env ProcessStoredInvitationsToConnectFromURL s = processStoredInvitationsToConnectFromURL env s"

section \<open>Round trips\<close>

lemma of_bytes_snoc [simp]: "of_bytes (bs @ [b]) = 256 * of_bytes bs + b"
  by (simp add: of_bytes_def)

lemma of_to_bytes: "of_bytes (to_bytes k n) = n mod 256 ^ k"
proof (induction k arbitrary: n)
  case (Suc k)
  then show ?case
    by (simp add: mod_mult2_eq)
qed (simp add: of_bytes_def)

lemma length_to_bytes [simp]: "length (to_bytes k n) = k"
  by (induction k arbitrary: n) auto

lemma bytes_to_bytes [simp]: "bytes (to_bytes k n)"
  by (induction k arbitrary: n) (auto simp: bytes_def)

lemma bytes_append [simp]: "bytes (xs @ ys) \<longleftrightarrow> bytes xs \<and> bytes ys"
  by (simp add: bytes_def)

lemma alphabet: "length base64_alphabet = 64" "distinct base64_alphabet" "CHR ''='' \<notin> set base64_alphabet"
  by (simp_all add: base64_alphabet_def)

lemma base64_value_char [simp]: "n < 64 \<Longrightarrow> base64_value (base64_char n) = Some n"
  using map_of_zip_nth [of base64_alphabet "[0..<64]" n] alphabet by (simp add: base64_value_def base64_char_def)

lemma base64_char_in: "n < 64 \<Longrightarrow> base64_char n \<in> set base64_alphabet"
  by (simp add: base64_char_def alphabet)

lemma base64_char_not_pad [simp]: "n < 64 \<Longrightarrow> base64_char n \<noteq> CHR ''=''"
  using base64_char_in alphabet(3) by metis

lemma split_digits: "r < k \<Longrightarrow> (q * k + r) div k = q \<and> (q * k + r) mod k = r" for q k r :: nat
  by simp

lemma joined_bytes:
  assumes "a < 256" and "b < 256" and "c < 256"
  shows "a div 4 < 64" "a mod 4 * 16 + b div 16 < 64" "a mod 4 * 16 < 64" "b mod 16 * 4 + c div 64 < 64" "b mod 16 * 4 < 64"
    "first_byte (a div 4) (a mod 4 * 16 + b div 16) = a" "first_byte (a div 4) (a mod 4 * 16) = a"
    "second_byte (a mod 4 * 16 + b div 16) (b mod 16 * 4 + c div 64) = b"
    "second_byte (a mod 4 * 16 + b div 16) (b mod 16 * 4) = b"
    "third_byte (b mod 16 * 4 + c div 64) (c mod 64) = c"
proof -
  have parts: "a div 4 < 64" "b div 16 < 16" "c div 64 < 4" "a mod 4 \<le> 3" "b mod 16 \<le> 15"
    using assms by (auto simp: less_mult_imp_div_less)
  then show "a div 4 < 64" "a mod 4 * 16 + b div 16 < 64" "a mod 4 * 16 < 64" "b mod 16 * 4 + c div 64 < 64" "b mod 16 * 4 < 64"
    by simp_all
  show "first_byte (a div 4) (a mod 4 * 16 + b div 16) = a" "first_byte (a div 4) (a mod 4 * 16) = a"
    "second_byte (a mod 4 * 16 + b div 16) (b mod 16 * 4 + c div 64) = b"
    "second_byte (a mod 4 * 16 + b div 16) (b mod 16 * 4) = b"
    "third_byte (b mod 16 * 4 + c div 64) (c mod 64) = c"
    using parts(2,3) split_digits [of "b div 16" 16 "a mod 4"] split_digits [of "c div 64" 4 "b mod 16"]
    by (simp_all only: first_byte_def second_byte_def third_byte_def div_mult_mod_eq mult_div_mod_eq
        nonzero_mult_div_cancel_right)
qed

lemma base64_round_trip: "bytes bs \<Longrightarrow> base64_decode (base64_encode bs) = Some bs"
proof (induction bs rule: base64_encode.induct)
  case (2 a)
  with joined_bytes [of a 0 0] show ?case by (simp add: bytes_def)
next
  case (3 a b)
  with joined_bytes [of a b 0] show ?case by (simp add: bytes_def)
next
  case (4 a b c bs)
  with joined_bytes [of a b c] show ?case by (simp add: bytes_def)
qed simp

lemma base64_of_two_over:
  "bytes bs \<Longrightarrow> length bs mod 3 = 2 \<Longrightarrow> \<exists>w. base64_encode bs = w @ ''='' \<and> set w \<subseteq> set base64_alphabet \<and> w \<noteq> []"
proof (induction bs rule: base64_encode.induct)
  case (3 a b)
  with joined_bytes [of a b 0] show ?case
    by (auto simp: bytes_def base64_char_in)
next
  case (4 a b c bs)
  then obtain w where w: "base64_encode bs = w @ ''=''" "set w \<subseteq> set base64_alphabet"
    by (auto simp: bytes_def mod_Suc split: if_splits)
  from 4(2) have "a < 256" "b < 256" "c < 256" "c mod 64 < 64"
    by (simp_all add: bytes_def)
  with joined_bytes [of a b c] w show ?case
    by (simp add: base64_char_in)
qed simp_all

lemma safe_alphabet:
  "c \<in> set base64_alphabet \<Longrightarrow> identifier_allowed (url_safe c) \<and> url_safe c \<notin> {CHR ''%'', CHR ''=''} \<and>
     (of_char (url_safe c) :: nat) < 128 \<and> url_unsafe (url_safe c) = c"
proof -
  have "list_all (\<lambda>c. identifier_allowed (url_safe c) \<and> url_safe c \<notin> {CHR ''%'', CHR ''=''} \<and>
     (of_char (url_safe c) :: nat) < 128 \<and> url_unsafe (url_safe c) = c) base64_alphabet"
    by (simp add: base64_alphabet_def identifier_allowed_def URLQueryAllowedCharacterSet_def url_safe_def url_unsafe_def)
  then show "c \<in> set base64_alphabet \<Longrightarrow> ?thesis"
    by (simp add: list_all_iff)
qed

lemma percent_encode_allowed: "list_all allowed s \<Longrightarrow> percent_encode allowed s = s"
  by (induction s) (simp_all add: percent_encode_def)

lemma no_escapes: "CHR ''%'' \<notin> set s \<Longrightarrow> percent_bytes s = Some s"
  by (induction s) auto

lemma ascii_is_utf8: "list_all (\<lambda>b. b < 128) bs \<Longrightarrow> utf8_valid bs"
  by (induction bs) auto

lemma token_round_trip:
  assumes "bytes d" and "length d mod 3 = 2"
  obtains tok where "URLSafeBase64WithoutPaddingEncodeData (Some d) = Inr tok" and "percent_encode identifier_allowed tok = tok"
    and "URLSafeBase64WithoutPaddingDecodeString (stringByRemovingPercentEncoding tok) = Inr (Some d)" and "tok \<noteq> []"
proof -
  from base64_of_two_over [OF assms] obtain w where w: "base64_encode d = w @ ''=''" "set w \<subseteq> set base64_alphabet" "w \<noteq> []"
    by blast
  define tok where "tok = map url_safe w"
  have safe: "\<forall>c \<in> set tok. identifier_allowed c \<and> c \<noteq> CHR ''%'' \<and> c \<noteq> CHR ''='' \<and> (of_char c :: nat) < 128"
    using w(2) safe_alphabet by (auto simp: tok_def)
  have "map url_unsafe (map url_safe w) = w"
    using w(2) by (induction w) (simp_all add: safe_alphabet)
  then have restored: "map url_unsafe (tok @ ''='') = base64_encode d"
    by (simp add: tok_def w(1) url_unsafe_def)
  have "filter (\<lambda>c. c \<noteq> CHR ''='') tok = tok"
    using safe by (auto intro: filter_True)
  then have "URLSafeBase64WithoutPaddingEncodeData (Some d) = Inr tok"
    using w(1) by (simp add: URLSafeBase64WithoutPaddingEncodeData_def tok_def url_safe_def Let_def)
  moreover have "percent_encode identifier_allowed tok = tok"
    using safe by (intro percent_encode_allowed) (simp add: list_all_iff)
  moreover have "stringByRemovingPercentEncoding tok = Some tok"
  proof -
    have "percent_bytes tok = Some tok"
      using safe by (intro no_escapes) blast
    moreover have "utf8_valid (map of_char tok)"
      using safe by (intro ascii_is_utf8) (simp add: list_all_iff)
    ultimately show ?thesis
      by (simp add: stringByRemovingPercentEncoding_def)
  qed
  moreover have "tok \<noteq> []"
    using w(3) by (simp add: tok_def)
  moreover from this have "last tok \<noteq> CHR ''=''"
    using safe last_in_set by blast
  ultimately show thesis
    using that restored base64_round_trip [OF assms(1)] by (simp add: URLSafeBase64WithoutPaddingDecodeString_def)
qed

lemma timestamp_within_the_hour:
  assumes "ReferenceTimestamp \<le> date" and "date < ReferenceTimestamp + 3600 * 65536"
  shows "dateFromHoursSinceReferenceDate (hoursBetweenReferenceDateAndDate date) \<le> date \<and>
    date < dateFromHoursSinceReferenceDate (hoursBetweenReferenceDateAndDate date) + 3600"
proof -
  let ?h = "\<lfloor>(date - ReferenceTimestamp) / 3600\<rfloor>"
  have "0 \<le> ?h" "?h < 65536"
    using assms by (simp_all add: floor_less_iff)
  then have "real (unat (hoursBetweenReferenceDateAndDate date)) = of_int ?h"
    by (simp add: hoursBetweenReferenceDateAndDate_def unat_eq_nat_uint uint_word_of_int)
  moreover have "of_int ?h \<le> (date - ReferenceTimestamp) / 3600" "(date - ReferenceTimestamp) / 3600 < of_int ?h + 1"
    by linarith+
  ultimately show ?thesis
    by (simp add: dateFromHoursSinceReferenceDate_def field_simps)
qed

text \<open>C10: An invitation link leads back to the user who made it: when the cipher undoes its own encryption of 32 bytes, the link
  exists for every identifier of 128 bits, and its code, opened in a link to the program, is decoded to that identifier
  and to a time within the hour before the end of the validity (as long as 16 bits hold the hours since 2014).\<close>

theorem invitation_link_round_trip:
  assumes aes: "\<And>d. bytes d \<Longrightarrow> length d = 32 \<Longrightarrow> \<exists>c. ci_encrypt env invitationToConnectEncryptionKey d = Some c \<and> bytes c \<and>
      length c = 32 \<and> ci_decrypt env invitationToConnectEncryptionKey c = Some d"
    and "bytes random" and "length random = 14" and "u < 2 ^ 128"
    and "ReferenceTimestamp \<le> now" and "now + InvitationToConnectTTL < ReferenceTimestamp + 3600 * 65536"
  shows "\<exists>tok e. URLForInvitationToConnect env random now (Some u) = Inr (''https://www.wire.com/c/'' @ tok) \<and>
    initWithSafeBase64EncodedToken env (invitationToConnectToken
      \<lparr>url_scheme = Some ''wire'', url_host = Some ''connect'', url_path = Some [], zm_queryComponents = [(''code'', tok)]\<rparr>)
      invitationToConnectEncryptionKey = Inr (Some e) \<and>
    en_uuid e = Some u \<and> en_timestampDate e \<le> now + InvitationToConnectTTL \<and>
    now + InvitationToConnectTTL < en_timestampDate e + 3600"
proof -
  let ?exp = "now + InvitationToConnectTTL"
  let ?hours = "hoursBetweenReferenceDateAndDate ?exp"
  let ?plain = "random @ to_bytes 2 (unat ?hours) @ to_bytes 16 u"
  have key: "length invitationToConnectEncryptionKey = 32"
    by (simp add: invitationToConnectEncryptionKey_def)
  from aes [of ?plain] assms(2,3) obtain c where
    c: "ci_encrypt env invitationToConnectEncryptionKey ?plain = Some c" "bytes c" "length c = 32"
       "ci_decrypt env invitationToConnectEncryptionKey c = Some ?plain"
    by auto
  from c(3) have "length c mod 3 = 2" by simp
  with c(2) obtain tok where tok: "URLSafeBase64WithoutPaddingEncodeData (Some c) = Inr tok"
    "percent_encode identifier_allowed tok = tok" "tok \<noteq> []"
    "URLSafeBase64WithoutPaddingDecodeString (stringByRemovingPercentEncoding tok) = Inr (Some c)"
    by (auto elim: token_round_trip [of c])
  have "unat ?hours < 2 ^ LENGTH(16)"
    by (rule unsigned_less)
  then have parts: "of_bytes (take 16 (drop 16 ?plain)) = u" "word_of_nat (of_bytes (take 2 (drop 14 ?plain))) = ?hours"
    using assms(3,4) by (simp_all add: of_to_bytes)
  have "URLForInvitationToConnect env random now (Some u) = Inr (''https://www.wire.com/c/'' @ tok)"
    using c(1) tok(1,2) key by (simp add: URLForInvitationToConnect_def initWithUUID_def encodedDataWithKey_def
        URLWithEncodedUUIDWithTimestampPrefixedWithString_def Let_def)
  moreover have "initWithSafeBase64EncodedToken env (Some tok) invitationToConnectEncryptionKey =
      Inr (Some \<lparr>en_uuid = Some u, en_timestampDate = dateFromHoursSinceReferenceDate ?hours, en_encodedData = Some c\<rparr>)"
    using c(3,4) tok(4) key parts by (simp add: initWithSafeBase64EncodedToken_def initWithEncodedData_def)
  moreover have "ReferenceTimestamp \<le> ?exp"
    using assms(5) by (simp add: InvitationToConnectTTL_def)
  ultimately show ?thesis
    using tok(3) timestamp_within_the_hour [of ?exp] assms(6)
    by (simp add: invitationToConnectToken_def isURLForInvitationToConnect_def)
qed

theorem invitation_link_round_trip_witness:
  "\<exists>tok e. URLForInvitationToConnect \<lparr>ci_encrypt = (\<lambda>_. Some), ci_decrypt = (\<lambda>_. Some), ci_memory = []\<rparr> (replicate 14 7)
      1450000000 (Some 9) = Inr (''https://www.wire.com/c/'' @ tok) \<and>
    initWithSafeBase64EncodedToken \<lparr>ci_encrypt = (\<lambda>_. Some), ci_decrypt = (\<lambda>_. Some), ci_memory = []\<rparr> (invitationToConnectToken
      \<lparr>url_scheme = Some ''wire'', url_host = Some ''connect'', url_path = Some [], zm_queryComponents = [(''code'', tok)]\<rparr>)
      invitationToConnectEncryptionKey = Inr (Some e) \<and>
    en_uuid e = Some 9 \<and> en_timestampDate e \<le> 1450000000 + InvitationToConnectTTL \<and>
    1450000000 + InvitationToConnectTTL < en_timestampDate e + 3600"
  by (rule invitation_link_round_trip)
     (simp_all add: bytes_def ReferenceTimestamp_def InvitationToConnectTTL_def list_all_iff)

section \<open>Who is invited\<close>

definition settled :: "ZMManagedObject \<Rightarrow> invitation_store \<Rightarrow> bool" where
  "settled u s \<longleftrightarrow> (\<exists>c. map_of (iv_connections s) u = Some c \<and>
     cn_status c \<in> {ZMConnectionStatusAccepted, ZMConnectionStatusSent, ZMConnectionStatusBlocked})"

lemma invited_status:
  assumes "\<And>u. cn_status (in_newSentConnection env u) = ZMConnectionStatusSent"
  shows "cn_status (invite_user env u existing) \<in> {ZMConnectionStatusAccepted, ZMConnectionStatusSent, ZMConnectionStatusBlocked}"
  by (cases existing) (simp_all add: invite_user_def assms Let_def)

lemma settled_simps [simp]:
  "settled u (s\<lparr>iv_openedConversations := x\<rparr>) = settled u s" "settled u (s\<lparr>iv_saves := n\<rparr>) = settled u s"
  "settled u (s\<lparr>iv_storedURLs := y\<rparr>) = settled u s"
  by (simp_all add: settled_def)

lemma settled_invited:
  assumes "\<And>u. cn_status (in_newSentConnection env u) = ZMConnectionStatusSent"
  shows "settled u (s\<lparr>iv_connections := dict_put v (invite_user env v existing) (iv_connections s)\<rparr>) \<longleftrightarrow> u = v \<or> settled u s"
  using invited_status [OF assms] by (auto simp: settled_def)

lemma send_cases:
  assumes "sendInvitationToConnectFromURL env url s = Inr t"
  obtains (ignored) r where "initWithSafeBase64EncodedToken (in_cipher env) (invitationToConnectToken url)
        invitationToConnectEncryptionKey = Inr r" and "t = s" and "r = None \<or> (\<exists>e. r = Some e \<and> iv_selfRemoteIdentifier s = en_uuid e)"
  | (invited) e x n where "initWithSafeBase64EncodedToken (in_cipher env) (invitationToConnectToken url)
        invitationToConnectEncryptionKey = Inr (Some e)"
      and "t = s\<lparr>iv_connections := dict_put (in_userWithRemoteID env (en_uuid e)) (invite_user env
        (in_userWithRemoteID env (en_uuid e)) (map_of (iv_connections s) (in_userWithRemoteID env (en_uuid e)))) (iv_connections s),
        iv_saves := n, iv_openedConversations := x\<rparr>"
proof -
  from assms obtain r where r: "initWithSafeBase64EncodedToken (in_cipher env) (invitationToConnectToken url)
      invitationToConnectEncryptionKey = Inr r"
    by (auto simp: sendInvitationToConnectFromURL_def split: if_splits)
  show thesis
  proof (cases r)
    case None
    with r assms ignored [OF r] show thesis
      by (simp add: sendInvitationToConnectFromURL_def split: if_splits)
  next
    case (Some e)
    show thesis
    proof (cases "iv_selfRemoteIdentifier s = en_uuid e \<and> iv_selfRemoteIdentifier s \<noteq> None")
      case True
      with r Some assms ignored [OF r] show thesis
        by (simp add: sendInvitationToConnectFromURL_def split: if_splits)
    next
      case False
      let ?u = "in_userWithRemoteID env (en_uuid e)"
      let ?c = "invite_user env ?u (map_of (iv_connections s) ?u)"
      from False r Some assms have "t = s\<lparr>iv_connections := dict_put ?u ?c (iv_connections s),
          iv_saves := iv_saves s + of_bool (map_of (iv_connections s) ?u = None),
          iv_openedConversations := iv_openedConversations s @ (case cn_conversation ?c of None \<Rightarrow> [] | Some c \<Rightarrow> [c])\<rparr>"
        by (auto simp: sendInvitationToConnectFromURL_def Let_def split: if_splits option.split)
      with r Some show thesis
        by (intro invited) auto
    qed
  qed
qed

lemma invitation_keeps_settled:
  assumes "sendInvitationToConnectFromURL env url s = Inr t"
    and "\<And>u. cn_status (in_newSentConnection env u) = ZMConnectionStatusSent"
  shows "iv_selfRemoteIdentifier t = iv_selfRemoteIdentifier s \<and> (settled u s \<longrightarrow> settled u t)"
  using assms(1) by (cases rule: send_cases) (simp_all add: settled_invited [OF assms(2)])

lemma send_settles:
  assumes "sendInvitationToConnectFromURL env url s = Inr t"
    and "\<And>u. cn_status (in_newSentConnection env u) = ZMConnectionStatusSent"
    and "initWithSafeBase64EncodedToken (in_cipher env) (invitationToConnectToken url) invitationToConnectEncryptionKey = Inr (Some e)"
    and "iv_selfRemoteIdentifier s \<noteq> en_uuid e"
  shows "settled (in_userWithRemoteID env (en_uuid e)) t"
  using assms(1)
proof (cases rule: send_cases)
  case (ignored r)
  with assms(3,4) show ?thesis by auto
next
  case (invited e' x n)
  with assms(3) show ?thesis by (simp add: settled_invited [OF assms(2)])
qed

text \<open>C34: When the stored invitations are processed, none is left, and everybody who was invited by one of them, the own user apart,
  has a connection that is sent, accepted or blocked, if a new connection is one that was sent.\<close>

theorem stored_invitations_are_all_sent:
  assumes "processStoredInvitationsToConnectFromURL env s = Inr t"
    and "\<And>u. cn_status (in_newSentConnection env u) = ZMConnectionStatusSent"
    and "iv_storedURLs s = Some urls" and "url \<in> set urls"
    and "initWithSafeBase64EncodedToken (in_cipher env) (invitationToConnectToken url) invitationToConnectEncryptionKey = Inr (Some e)"
    and "iv_selfRemoteIdentifier s \<noteq> en_uuid e"
  shows "iv_storedURLs t = None \<and> settled (in_userWithRemoteID env (en_uuid e)) t"
proof -
  let ?u = "in_userWithRemoteID env (en_uuid e)"
  have kept: "settled ?u x \<Longrightarrow> foldE (sendInvitationToConnectFromURL env) us x = Inr y \<Longrightarrow> settled ?u y" for us x y
    using foldE_invariant [of "settled ?u" "sendInvitationToConnectFromURL env" x us y] invitation_keeps_settled [OF _ assms(2)] by blast
  have "settled ?u y" if "foldE (sendInvitationToConnectFromURL env) us x = Inr y" and "url \<in> set us"
      and "iv_selfRemoteIdentifier x = iv_selfRemoteIdentifier s" for us x y
    using that
  proof (induction us arbitrary: x)
    case (Cons v us)
    then obtain x' where x': "sendInvitationToConnectFromURL env v x = Inr x'"
        "foldE (sendInvitationToConnectFromURL env) us x' = Inr y"
      by (auto split: sum.splits)
    show ?case
    proof (cases "v = url")
      case True
      with x' Cons.prems(3) assms(6) send_settles [OF _ assms(2,5), of x x'] have "settled ?u x'" by simp
      with kept x'(2) show ?thesis by blast
    next
      case False
      with Cons x' invitation_keeps_settled [OF x'(1) assms(2)] show ?thesis by simp
    qed
  qed simp
  with assms(1,3,4) show ?thesis
    by (auto simp: processStoredInvitationsToConnectFromURL_def settled_def split: if_splits)
qed

definition sample_invitation_env :: invitation_env where
  "sample_invitation_env = \<lparr>in_cipher = \<lparr>ci_encrypt = (\<lambda>_. Some), ci_decrypt = (\<lambda>_. Some), ci_memory = []\<rparr>,
     in_userWithRemoteID = (\<lambda>i. case i of None \<Rightarrow> 0 | Some n \<Rightarrow> n + 1),
     in_newSentConnection = (\<lambda>u. \<lparr>cn_status = ZMConnectionStatusSent, cn_message = None, cn_conversation = Some 5, cn_statusModified = False\<rparr>),
     in_message = ''hi''\<rparr>"

definition sample_link :: NSURL where
  "sample_link = \<lparr>url_scheme = Some ''wire'', url_host = Some ''connect'', url_path = Some [],
     zm_queryComponents = [(''code'', ''AAAAAAAAAAAAAAAAAAAAAAAAAAAAAAAAAAAAAAAAAAA'')]\<rparr>"

definition sample_invitation :: ZMEncodedNSUUIDWithTimestamp where
  "sample_invitation = \<lparr>en_uuid = Some 0, en_timestampDate = dateFromHoursSinceReferenceDate 0, en_encodedData = Some
     [0, 0, 0, 0, 0, 0, 0, 0, 0, 0, 0, 0, 0, 0, 0, 0, 0, 0, 0, 0, 0, 0, 0, 0, 0, 0, 0, 0, 0, 0, 0, 0]\<rparr>"

lemma sample_link_decoded:
  "initWithSafeBase64EncodedToken (in_cipher sample_invitation_env) (invitationToConnectToken sample_link)
     invitationToConnectEncryptionKey = Inr (Some sample_invitation)"
proof -
  have "base64_value (CHR ''A'') = Some 0"
    using base64_value_char [of 0] by (simp add: base64_char_def base64_alphabet_def)
  moreover have "first_byte 0 0 = 0" "second_byte 0 0 = 0" "third_byte 0 0 = 0"
    by (simp_all add: first_byte_def second_byte_def third_byte_def)
  ultimately have "base64_decode ''AAAAAAAAAAAAAAAAAAAAAAAAAAAAAAAAAAAAAAAAAAA='' = en_encodedData sample_invitation"
    by (simp add: sample_invitation_def)
  then have "URLSafeBase64WithoutPaddingDecodeString (Some ''AAAAAAAAAAAAAAAAAAAAAAAAAAAAAAAAAAAAAAAAAAA'') =
      Inr (en_encodedData sample_invitation)"
    by (simp add: URLSafeBase64WithoutPaddingDecodeString_def url_unsafe_def)
  moreover have "invitationToConnectToken sample_link = Some ''AAAAAAAAAAAAAAAAAAAAAAAAAAAAAAAAAAAAAAAAAAA''"
    by (simp add: sample_link_def invitationToConnectToken_def isURLForInvitationToConnect_def)
  moreover have "stringByRemovingPercentEncoding ''AAAAAAAAAAAAAAAAAAAAAAAAAAAAAAAAAAAAAAAAAAA'' = Some ''AAAAAAAAAAAAAAAAAAAAAAAAAAAAAAAAAAAAAAAAAAA''"
    by (simp add: stringByRemovingPercentEncoding_def no_escapes ascii_is_utf8 del: percent_bytes.simps utf8_valid.simps)
  ultimately show ?thesis
    by (simp add: initWithSafeBase64EncodedToken_def initWithEncodedData_def invitationToConnectEncryptionKey_def
        sample_invitation_def sample_invitation_env_def of_bytes_def)
qed

definition sample_invitations :: invitation_store where
  "sample_invitations = \<lparr>iv_isSyncContext = True, iv_selfRemoteIdentifier = Some 9, iv_connections = [],
     iv_storedURLs = Some [sample_link], iv_openedConversations = [], iv_saves = 0\<rparr>"

lemma sample_invitations_sent: "\<exists>t. processStoredInvitationsToConnectFromURL sample_invitation_env sample_invitations = Inr t"
  using sample_link_decoded
  by (simp add: processStoredInvitationsToConnectFromURL_def sample_invitations_def sendInvitationToConnectFromURL_def
      sample_invitation_def Let_def split: option.splits)

theorem stored_invitations_are_all_sent_witness:
  "\<exists>t. processStoredInvitationsToConnectFromURL sample_invitation_env sample_invitations = Inr t \<and>
     iv_storedURLs t = None \<and> settled (in_userWithRemoteID sample_invitation_env (Some 0)) t"
proof -
  obtain t where "processStoredInvitationsToConnectFromURL sample_invitation_env sample_invitations = Inr t"
    using sample_invitations_sent by blast
  with stored_invitations_are_all_sent [OF this _ _ _ sample_link_decoded] show ?thesis
    by (auto simp: sample_invitations_def sample_invitation_def sample_invitation_env_def)
qed

section \<open>What goes wrong\<close>

text \<open>
  A code that is too short is decrypted together with what lies behind it in memory; a code with a broken escape
  raises; and the time of an invitation plays no role when it is opened.
\<close>

lemma short_code_reads_beyond:
  assumes "length d \<le> 16" and "length encryptionKey = 32" and "ci_decrypt env encryptionKey = Some"
  shows "\<exists>e. initWithEncodedData env d encryptionKey = Inr e \<and>
    en_uuid e = Some (of_bytes (take 16 (drop (16 - length d) (ci_memory env))))"
  using assms by (simp add: initWithEncodedData_def drop_take)

lemma broken_escape_raises:
  "initWithSafeBase64EncodedToken env (Some ''%'') encryptionKey = Inl NSInvalidArgumentException"
  by (simp add: initWithSafeBase64EncodedToken_def stringByRemovingPercentEncoding_def
      URLSafeBase64WithoutPaddingDecodeString_def)

lemma invitation_time_is_not_checked:
  assumes "initWithSafeBase64EncodedToken (in_cipher env) (invitationToConnectToken url) invitationToConnectEncryptionKey = Inr (Some e)"
    and "initWithSafeBase64EncodedToken (in_cipher env) (invitationToConnectToken url') invitationToConnectEncryptionKey = Inr (Some e')"
    and "en_uuid e = en_uuid e'"
  shows "sendInvitationToConnectFromURL env url s = sendInvitationToConnectFromURL env url' s"
  using assms by (simp only: sendInvitationToConnectFromURL_def bindE_simps option.case)

lemma timestamps_repeat:
  "hoursBetweenReferenceDateAndDate (date + 3600 * 65536) = hoursBetweenReferenceDateAndDate date"
proof -
  have "(date + 3600 * 65536 - ReferenceTimestamp) / 3600 = (date - ReferenceTimestamp) / 3600 + of_int 65536"
    by (simp add: field_simps)
  then have "\<lfloor>(date + 3600 * 65536 - ReferenceTimestamp) / 3600\<rfloor> = \<lfloor>(date - ReferenceTimestamp) / 3600\<rfloor> + 65536"
    by (simp only: floor_add_int)
  then show ?thesis
    by (simp add: hoursBetweenReferenceDateAndDate_def)
qed

end
