(* ===== verification/MissingEvents.thy ===== *)
theory MissingEvents
  imports Paginator
begin

text \<open>
  \<^verbatim>\<open>ZMMissingUpdateEventsTranscoder\<close> and \<^verbatim>\<open>ZMLastUpdateEventIDTranscoder\<close> (\<^verbatim>\<open>Source/Synchronization/Transcoders\<close>): the
  notifications that were sent while the program was not connected are downloaded page by page from the last
  notification that was processed.

  The first transcoder is the client of a paginator, the second one of a single request; both are given here as
  such clients, so what is proved of those classes applies. Events are made from dictionaries by a library, and the
  calls to the sync strategy and the system messages that are appended are recorded. A call state event without a
  conversation makes \<^verbatim>\<open>NSMutableDictionary\<close> raise; the callback then has no result, and the state keeps the
  exception in \<open>mu_failure\<close>.
\<close>

section \<open>State\<close>

record missing_event =
  me_uuid :: "NSUUID option"
  me_isCallState :: bool
  me_conversationUUID :: "NSUUID option"
  me_timeStamp :: "NSDate option"
  me_isTransient :: bool
  me_fromPushNotification :: bool

text \<open>
  \<open>mv_type1Time\<close> is the time in an identifier of type 1; \<open>mv_conversations\<close> is the result of the sorted fetch request,
  each conversation with its active participants and the date of its last modification.
\<close>

record missing_env =
  mv_eventsArrayFromPushChannelData :: "(NSString \<times> json) list \<Rightarrow> missing_event list"
  mv_isType1UUID :: "NSUUID \<Rightarrow> bool"
  mv_type1Time :: "NSUUID \<Rightarrow> nat"
  mv_conversations :: "(ZMManagedObject \<times> ZMManagedObject list \<times> NSDate option) list"
  mv_optionalUuidForKey :: "NSString \<Rightarrow> (NSString \<times> json) list \<Rightarrow> NSUUID option"
  mv_selfClientIdentifier :: "NSString option"

record ZMMissingUpdateEventsTranscoder =
  mu_lastUpdateEventID :: "NSUUID option"
  mu_processed :: "(missing_event list \<times> bool) list"
  mu_gapMessages :: "(ZMManagedObject \<times> ZMManagedObject list \<times> NSDate option) list"
  mu_failure :: "objc_failure option"

definition init_missing :: "NSUUID option \<Rightarrow> ZMMissingUpdateEventsTranscoder" where
  "init_missing stored = \<lparr>mu_lastUpdateEventID = stored, mu_processed = [], mu_gapMessages = [], mu_failure = None\<rparr>"

section \<open>Operations\<close>

definition setLastUpdateEventID ::
  "missing_env \<Rightarrow> NSUUID option \<Rightarrow> ZMMissingUpdateEventsTranscoder \<Rightarrow> ZMMissingUpdateEventsTranscoder" where
  "setLastUpdateEventID env lastUpdateEventID c =
     (case (mu_lastUpdateEventID c, lastUpdateEventID) of
        (Some previous, Some new) \<Rightarrow>
          if mv_isType1UUID env previous \<and> mv_isType1UUID env new \<and> \<not> mv_type1Time env previous < mv_type1Time env new then c
          else c\<lparr>mu_lastUpdateEventID := lastUpdateEventID\<rparr>
      | _ \<Rightarrow> c\<lparr>mu_lastUpdateEventID := lastUpdateEventID\<rparr>)"

definition eventDictionariesFromPayload :: "json option \<Rightarrow> (NSString \<times> json) list list" where
  "eventDictionariesFromPayload payload =
     (case optionalArrayForKey ''notifications'' (asDictionary payload) of None \<Rightarrow> [] | Some xs \<Rightarrow> asDictionaries xs)"

definition page_events :: "missing_env \<Rightarrow> json option \<Rightarrow> missing_event list" where
  "page_events env payload = concat (map (mv_eventsArrayFromPushChannelData env) (eventDictionariesFromPayload payload))"

text \<open>
  The dictionary of the last call state event of each conversation, in the order of the first such event; the order of
  \<^verbatim>\<open>allValues\<close> is not specified. An event without a conversation raises.
\<close>

definition lastCallStateEvents :: "missing_event list \<Rightarrow> objc_failure + (NSUUID \<times> missing_event) list" where
  "lastCallStateEvents es =
     foldE (\<lambda>e d. case me_conversationUUID e of None \<Rightarrow> Inl NSInvalidArgumentException | Some i \<Rightarrow> Inr (dict_put i e d))
       (filter me_isCallState es) []"

definition processUpdateEventsAndReturnLastNotificationIDFromPayload ::
  "missing_env \<Rightarrow> json option \<Rightarrow> objc_failure + (missing_event list \<times> bool) list \<times> NSUUID option" where
  "processUpdateEventsAndReturnLastNotificationIDFromPayload env payload =
     (let events = page_events env payload
      in bindE (lastCallStateEvents events) (\<lambda>calls.
           Inr ([(filter (\<lambda>e. \<not> me_isCallState e) events, True), (map snd calls, False)],
                if events = [] then None else me_uuid (last events))))"

text \<open>
  The offset is the single precision \<^verbatim>\<open>0.1f\<close>. The time of the gap is one variable for all conversations, which the
  loop sets when it is still \<^verbatim>\<open>nil\<close>.
\<close>

definition gap_offset :: NSTimeInterval where
  "gap_offset = 13421773 / 134217728"

fun appendGapMessages ::
  "(ZMManagedObject \<times> ZMManagedObject list \<times> NSDate option) list \<Rightarrow> NSDate option \<Rightarrow>
   (ZMManagedObject \<times> ZMManagedObject list \<times> NSDate option) list" where
  "appendGapMessages [] timestamp = []"
| "appendGapMessages ((conversation, users, lastModifiedDate) # cs) timestamp =
     (let timestamp = (if timestamp = None then map_option (\<lambda>t. t + gap_offset) lastModifiedDate else timestamp)
      in (conversation, users, timestamp) # appendGapMessages cs timestamp)"

definition appendPotentialGapSystemMessageIfNeeded ::
  "missing_env \<Rightarrow> ZMTransportResponse \<Rightarrow> ZMMissingUpdateEventsTranscoder \<Rightarrow> ZMMissingUpdateEventsTranscoder" where
  "appendPotentialGapSystemMessageIfNeeded env response c =
     (if resp_HTTPStatus response \<noteq> 404 then c
      else let timestamp =
                 (case eventDictionariesFromPayload (resp_payload response) of
                    [] \<Rightarrow> None
                  | d # _ \<Rightarrow> (case mv_eventsArrayFromPushChannelData env d of
                                [] \<Rightarrow> None
                              | event # _ \<Rightarrow> map_option (\<lambda>t. t - gap_offset) (me_timeStamp event)))
           in c\<lparr>mu_gapMessages := mu_gapMessages c @ appendGapMessages (mv_conversations env) timestamp\<rparr>)"

definition missing_nextUUIDFromResponse ::
  "missing_env \<Rightarrow> ZMTransportResponse \<Rightarrow> ZMMissingUpdateEventsTranscoder \<Rightarrow> NSUUID option \<times> ZMMissingUpdateEventsTranscoder" where
  "missing_nextUUIDFromResponse env response c =
     (case processUpdateEventsAndReturnLastNotificationIDFromPayload env (resp_payload response) of
        Inl e \<Rightarrow> (None, c\<lparr>mu_failure := Some e\<rparr>)
      | Inr (calls, latestEventId) \<Rightarrow>
          let c = c\<lparr>mu_processed := mu_processed c @ calls\<rparr>;
              c = (if latestEventId \<noteq> None then setLastUpdateEventID env latestEventId c else c);
              c = appendPotentialGapSystemMessageIfNeeded env response c
          in (mu_lastUpdateEventID c, c))"

definition missing_paginatorSync :: "missing_env \<Rightarrow> ZMMissingUpdateEventsTranscoder ZMSimpleListRequestPaginatorSync" where
  "missing_paginatorSync env = \<lparr>nextUUIDFromResponse = Some (missing_nextUUIDFromResponse env),
     startUUID = Some mu_lastUpdateEventID, shouldParseErrorResponseForStatusCode = Some (\<lambda>s. s = 404)\<rparr>"

definition missing_listPaginator :: ZMSimpleListRequestPaginator where
  "missing_listPaginator = initPaginator ''/notifications'' ''since'' 500 True"

definition isDownloadingMissingNotifications :: "ZMSimpleListRequestPaginator \<Rightarrow> bool" where
  "isDownloadingMissingNotifications p = hasMoreToFetch p"

definition hasLastUpdateEventID :: "ZMMissingUpdateEventsTranscoder \<Rightarrow> bool" where
  "hasLastUpdateEventID c \<longleftrightarrow> mu_lastUpdateEventID c \<noteq> None"

definition missing_processEvents ::
  "missing_env \<Rightarrow> missing_event list \<Rightarrow> bool \<Rightarrow> ZMMissingUpdateEventsTranscoder \<Rightarrow> ZMMissingUpdateEventsTranscoder" where
  "missing_processEvents env events liveEvents c =
     (if \<not> liveEvents then c
      else fold (\<lambda>e c. if me_uuid e \<noteq> None \<and> \<not> me_isTransient e \<and> \<not> me_fromPushNotification e
                       then setLastUpdateEventID env (me_uuid e) c else c) events c)"

definition missing_isSlowSyncDone :: "ZMSimpleListRequestPaginator \<times> ZMMissingUpdateEventsTranscoder \<Rightarrow> bool" where
  "missing_isSlowSyncDone pc \<longleftrightarrow> mu_lastUpdateEventID (snd pc) \<noteq> None \<and> \<not> hasMoreToFetch (fst pc)"

text \<open>
  The messages that change state: the declared ones, where \<open>ProcessUpdateEventsFromPayload\<close> is the class method that
  hands the events of a payload to the strategy, the setter of the class extension, and the events of the strategy.
\<close>

datatype (plugins only: code size) ZMMissingUpdateEventsTranscoder_msg =
    StartDownloadingMissingNotifications
  | ProcessUpdateEventsFromPayload "json option"
  | SetLastUpdateEventID "NSUUID option"
  | ProcessMissingEvents "missing_event list" bool

primrec ZMMissingUpdateEventsTranscoder_send ::
  "missing_env \<Rightarrow> ZMMissingUpdateEventsTranscoder_msg \<Rightarrow>
   ZMSingleRequestSync \<times> ZMSimpleListRequestPaginator \<times> ZMMissingUpdateEventsTranscoder \<Rightarrow>
   objc_failure + ZMSingleRequestSync \<times> ZMSimpleListRequestPaginator \<times> ZMMissingUpdateEventsTranscoder" where
  "ZMMissingUpdateEventsTranscoder_send env StartDownloadingMissingNotifications st =
     Inr (resetFetching (missing_paginatorSync env) st)"
| "ZMMissingUpdateEventsTranscoder_send env (ProcessUpdateEventsFromPayload payload) st =
     bindE (processUpdateEventsAndReturnLastNotificationIDFromPayload env payload) (\<lambda>(calls, _).
       Inr (apsnd (apsnd (\<lambda>c. c\<lparr>mu_processed := mu_processed c @ calls\<rparr>)) st))"
| "ZMMissingUpdateEventsTranscoder_send env (SetLastUpdateEventID i) st = Inr (apsnd (apsnd (setLastUpdateEventID env i)) st)"
| "ZMMissingUpdateEventsTranscoder_send env (ProcessMissingEvents es live) st =
     Inr (apsnd (apsnd (missing_processEvents env es live)) st)"

section \<open>The last notification of the backend\<close>

record ZMLastUpdateEventIDTranscoder =
  lu_lastUpdateEventID :: "NSUUID option"

definition lastID_request :: "missing_env \<Rightarrow> ZMTransportRequest" where
  "lastID_request env =
     requestGetFromPath (components_string ''/notifications/last''
       (case mv_selfClientIdentifier env of None \<Rightarrow> [] | Some i \<Rightarrow> [(''client'', i)]))"

definition lastID_didReceiveResponse ::
  "missing_env \<Rightarrow> ZMTransportResponse \<Rightarrow> ZMLastUpdateEventIDTranscoder \<Rightarrow> ZMLastUpdateEventIDTranscoder" where
  "lastID_didReceiveResponse env response t =
     (case resp_payload response of
        None \<Rightarrow> t
      | Some payload \<Rightarrow>
          (case Option.bind (asDictionary (Some payload)) (mv_optionalUuidForKey env ''id'') of
             None \<Rightarrow> t
           | Some i \<Rightarrow> t\<lparr>lu_lastUpdateEventID := Some i\<rparr>))"

definition lastID_transcoder :: "missing_env \<Rightarrow> (ZMSingleRequestSync, ZMLastUpdateEventIDTranscoder) ZMSingleRequestTranscoder" where
  "lastID_transcoder env =
     \<lparr>requestForSingleRequestSync = (\<lambda>_ t. (Some (lastID_request env), t)),
      didReceiveResponse_forSingleRequest = (\<lambda>r. apsnd (lastID_didReceiveResponse env r))\<rparr>"

definition startRequestingLastUpdateEventIDWithoutPersistingIt ::
  "ZMSingleRequestSync \<times> ZMLastUpdateEventIDTranscoder \<Rightarrow> ZMSingleRequestSync \<times> ZMLastUpdateEventIDTranscoder" where
  "startRequestingLastUpdateEventIDWithoutPersistingIt st = apfst (\<lambda>s. readyForNextRequest (resetCompletionState s)) st"

definition persistLastUpdateEventID ::
  "missing_env \<Rightarrow> ZMLastUpdateEventIDTranscoder \<times> ZMMissingUpdateEventsTranscoder \<Rightarrow>
   ZMLastUpdateEventIDTranscoder \<times> ZMMissingUpdateEventsTranscoder" where
  "persistLastUpdateEventID env tc =
     ((fst tc)\<lparr>lu_lastUpdateEventID := None\<rparr>,
      if lu_lastUpdateEventID (fst tc) \<noteq> None then setLastUpdateEventID env (lu_lastUpdateEventID (fst tc)) (snd tc) else snd tc)"

definition isDownloadingLastUpdateEventID :: "ZMSingleRequestSync \<Rightarrow> bool" where
  "isDownloadingLastUpdateEventID s \<longleftrightarrow> status s = ZMSingleRequestInProgress"

datatype ZMLastUpdateEventIDTranscoder_msg = StartRequestingLastUpdateEventID | PersistLastUpdateEventID

primrec ZMLastUpdateEventIDTranscoder_send ::
  "missing_env \<Rightarrow> ZMLastUpdateEventIDTranscoder_msg \<Rightarrow>
   ZMSingleRequestSync \<times> ZMLastUpdateEventIDTranscoder \<times> ZMMissingUpdateEventsTranscoder \<Rightarrow>
   ZMSingleRequestSync \<times> ZMLastUpdateEventIDTranscoder \<times> ZMMissingUpdateEventsTranscoder" where
  "ZMLastUpdateEventIDTranscoder_send env StartRequestingLastUpdateEventID st =
     (case startRequestingLastUpdateEventIDWithoutPersistingIt (fst st, fst (snd st)) of (s, t) \<Rightarrow> (s, t, snd (snd st)))"
| "ZMLastUpdateEventIDTranscoder_send env PersistLastUpdateEventID st = apsnd (persistLastUpdateEventID env) st"

section \<open>Identifiers and gaps\<close>

text \<open>Identifiers of type 1 only go forward.\<close>

definition not_older :: "missing_env \<Rightarrow> NSUUID option \<Rightarrow> NSUUID option \<Rightarrow> bool" where
  "not_older env old new \<longleftrightarrow> (case (old, new) of (Some i, Some j) \<Rightarrow> mv_type1Time env i \<le> mv_type1Time env j | (Some _, None) \<Rightarrow> False | _ \<Rightarrow> True)"

lemma not_older_trans: "not_older env a b \<Longrightarrow> not_older env b c \<Longrightarrow> not_older env a c"
  by (auto simp: not_older_def split: option.splits)

lemma not_older_refl [simp]: "not_older env a a"
  by (auto simp: not_older_def split: option.splits)

definition type1_only :: "missing_env \<Rightarrow> NSUUID option \<Rightarrow> bool" where
  "type1_only env i \<longleftrightarrow> (case i of None \<Rightarrow> True | Some j \<Rightarrow> mv_isType1UUID env j)"

lemma setLast_forward:
  assumes "type1_only env (mu_lastUpdateEventID c)" and "mv_isType1UUID env i"
  shows "not_older env (mu_lastUpdateEventID c) (mu_lastUpdateEventID (setLastUpdateEventID env (Some i) c)) \<and>
    not_older env (Some i) (mu_lastUpdateEventID (setLastUpdateEventID env (Some i) c)) \<and>
    type1_only env (mu_lastUpdateEventID (setLastUpdateEventID env (Some i) c))"
  using assms by (auto simp: setLastUpdateEventID_def not_older_def type1_only_def split: option.splits)

lemma live_events_go_forward:
  assumes "type1_only env (mu_lastUpdateEventID c)" and "\<forall>e \<in> set es. type1_only env (me_uuid e)"
  shows "not_older env (mu_lastUpdateEventID c) (mu_lastUpdateEventID (missing_processEvents env es live c)) \<and>
    (live \<longrightarrow> (\<forall>e \<in> set es. \<not> me_isTransient e \<and> \<not> me_fromPushNotification e \<longrightarrow> me_uuid e \<noteq> None \<longrightarrow>
      not_older env (me_uuid e) (mu_lastUpdateEventID (missing_processEvents env es live c))))"
proof (cases live)
  case True
  from assms show ?thesis unfolding missing_processEvents_def
  proof (induction es arbitrary: c)
    case (Cons e es)
    let ?c = "if me_uuid e \<noteq> None \<and> \<not> me_isTransient e \<and> \<not> me_fromPushNotification e
      then setLastUpdateEventID env (me_uuid e) c else c"
    have step: "not_older env (mu_lastUpdateEventID c) (mu_lastUpdateEventID ?c) \<and> type1_only env (mu_lastUpdateEventID ?c) \<and>
      (me_uuid e \<noteq> None \<and> \<not> me_isTransient e \<and> \<not> me_fromPushNotification e \<longrightarrow>
         not_older env (me_uuid e) (mu_lastUpdateEventID ?c))"
    proof (cases "me_uuid e")
      case (Some i)
      with Cons.prems(2) have "mv_isType1UUID env i" by (simp add: type1_only_def)
      from setLast_forward [OF Cons.prems(1) this] Some Cons.prems(1) show ?thesis by simp
    qed (use Cons.prems(1) in simp)
    then have "type1_only env (mu_lastUpdateEventID ?c)" "\<forall>e \<in> set es. type1_only env (me_uuid e)"
      using Cons.prems(2) by simp_all
    from Cons.IH [OF this] step \<open>live\<close> show ?case
      by (auto intro: not_older_trans)
  qed simp
qed (simp add: missing_processEvents_def)

text \<open>
  The comment in the loop wants each gap message below the last message of its conversation; the time of the first
  conversation with a date is used for all the following ones.
\<close>

lemma gap_time_is_shared:
  "appendGapMessages ((v, us, Some d) # cs) None = (v, us, Some (d + gap_offset)) # map (\<lambda>(w, vs, _). (w, vs, Some (d + gap_offset))) cs"
proof -
  have "appendGapMessages cs (Some t) = map (\<lambda>(w, vs, _). (w, vs, Some t)) cs" for t
    by (induction cs) (auto simp: Let_def)
  then show ?thesis by (simp add: Let_def)
qed

lemma last_id_waits_until_persisted:
  "lu_lastUpdateEventID (fst (persistLastUpdateEventID env tc)) = None \<and>
   (lu_lastUpdateEventID (fst tc) = None \<longrightarrow> snd (persistLastUpdateEventID env tc) = snd tc)"
  by (simp add: persistLastUpdateEventID_def)

section \<open>A download\<close>

definition processed_downloaded :: "ZMMissingUpdateEventsTranscoder \<Rightarrow> missing_event list" where
  "processed_downloaded c = concat (map fst (filter snd (mu_processed c)))"

definition no_lost_call :: "missing_env \<Rightarrow> ZMTransportResponse \<Rightarrow> bool" where
  "no_lost_call env r \<longleftrightarrow> list_all (\<lambda>e. me_isCallState e \<longrightarrow> me_conversationUUID e \<noteq> None) (page_events env (resp_payload r))"

lemma setLast_processed [simp]: "mu_processed (setLastUpdateEventID env i c) = mu_processed c"
  "mu_failure (setLastUpdateEventID env i c) = mu_failure c"
  by (simp_all add: setLastUpdateEventID_def split: option.splits)

lemma gap_keeps [simp]:
  "mu_processed (appendPotentialGapSystemMessageIfNeeded env r c) = mu_processed c"
  "mu_lastUpdateEventID (appendPotentialGapSystemMessageIfNeeded env r c) = mu_lastUpdateEventID c"
  "mu_failure (appendPotentialGapSystemMessageIfNeeded env r c) = mu_failure c"
  by (simp_all add: appendPotentialGapSystemMessageIfNeeded_def)

lemma call_states_parsed:
  assumes "list_all (\<lambda>e. me_isCallState e \<longrightarrow> me_conversationUUID e \<noteq> None) es"
  shows "\<exists>d. lastCallStateEvents es = Inr d"
proof -
  have "\<exists>d'. foldE (\<lambda>e d. case me_conversationUUID e of None \<Rightarrow> Inl NSInvalidArgumentException | Some i \<Rightarrow> Inr (dict_put i e d))
      (filter me_isCallState es) d = Inr d'" for d
    using assms by (induction es arbitrary: d) auto
  then show ?thesis
    by (simp add: lastCallStateEvents_def)
qed

lemma page_processed:
  assumes "no_lost_call env r"
  shows "processed_downloaded (snd (missing_nextUUIDFromResponse env r c)) =
    processed_downloaded c @ filter (\<lambda>e. \<not> me_isCallState e) (page_events env (resp_payload r)) \<and>
    mu_failure (snd (missing_nextUUIDFromResponse env r c)) = mu_failure c"
proof -
  from assms call_states_parsed obtain d where "lastCallStateEvents (page_events env (resp_payload r)) = Inr d"
    unfolding no_lost_call_def by blast
  then show ?thesis
    by (simp add: missing_nextUUIDFromResponse_def processUpdateEventsAndReturnLastNotificationIDFromPayload_def
        processed_downloaded_def Let_def)
qed

lemma pages_processed:
  assumes "\<forall>r \<in> set rs. no_lost_call env r"
  shows "processed_downloaded (fold (\<lambda>r c. snd (missing_nextUUIDFromResponse env r c)) rs c) =
    processed_downloaded c @ filter (\<lambda>e. \<not> me_isCallState e) (concat (map (\<lambda>r. page_events env (resp_payload r)) rs)) \<and>
    mu_failure (fold (\<lambda>r c. snd (missing_nextUUIDFromResponse env r c)) rs c) = mu_failure c"
  using assms by (induction rs arbitrary: c) (simp_all add: page_processed)

text \<open>C8: A download of missing notifications hands every event to the strategies exactly once and in order: after the download
  is started and all pages are answered, one request was sent per page, the first from the last event that was stored,
  nothing is left to fetch, and what was handed over as downloaded are the events of the pages in their order, call
  states apart.\<close>

theorem missing_events_are_processed_once_in_order:
  assumes "ZMMissingUpdateEventsTranscoder_send env StartDownloadingMissingNotifications (s, p, c) = Inr st"
    and "exchange X (missing_paginatorSync env) rs st = (qs, s', p', c')" and "rs \<noteq> []"
    and "\<forall>r \<in> set rs. resp_result r = ZMTransportResponseStatusSuccess \<and> no_lost_call env r"
    and "\<forall>r \<in> set (butlast rs). has_more r" and "\<not> has_more (last rs)"
  shows "length qs = length rs \<and> hd qs = page_request X p (mu_lastUpdateEventID c) \<and> \<not> isDownloadingMissingNotifications p' \<and>
    processed_downloaded c' =
      processed_downloaded c @ filter (\<lambda>e. \<not> me_isCallState e) (concat (map (\<lambda>r. page_events env (resp_payload r)) rs))"
proof -
  let ?C = "missing_paginatorSync env"
  have C: "nextUUIDFromResponse ?C = Some (missing_nextUUIDFromResponse env)" "startUUID ?C = Some mu_lastUpdateEventID"
    by (simp_all add: missing_paginatorSync_def)
  obtain t q where st: "st = (t, q, c)" and q: "lastUUIDOfPreviousPage q = mu_lastUpdateEventID c" "page_request X q = page_request X p"
    using assms(1) C(2) by (force simp: resetFetching_def fun_eq_iff)
  from fetching_reset [of ?C s p c] assms(1) st have f: "fetching (t, q, c)" by simp
  have ok: "\<forall>r \<in> set rs. resp_result r = ZMTransportResponseStatusSuccess" "\<forall>r \<in> set rs. no_lost_call env r"
    using assms(4) by auto
  have length: "length (page_starts n u x rs) = length rs" for n u and x :: ZMMissingUpdateEventsTranscoder
    by (induction rs arbitrary: u x) auto
  from assms(3) obtain r rs' where "rs = r # rs'" by (cases rs) auto
  with exchange_pages [OF C(1) ok(1) assms(5) f, of X] exchange_client [OF C(1) ok(1) assms(5) f, of X] assms(2,3,6) st q length
    pages_processed [OF ok(2), of c] show ?thesis
    by (simp add: isDownloadingMissingNotifications_def)
qed

definition example_event :: "nat \<Rightarrow> bool \<Rightarrow> missing_event" where
  "example_event i call = \<lparr>me_uuid = Some i, me_isCallState = call, me_conversationUUID = Some 9, me_timeStamp = None,
     me_isTransient = False, me_fromPushNotification = False\<rparr>"

definition example_missing_env :: missing_env where
  "example_missing_env = \<lparr>mv_eventsArrayFromPushChannelData =
       (\<lambda>d. if map fst d = [''a''] then [example_event 1 False, example_event 2 True] else [example_event 3 False]),
     mv_isType1UUID = (\<lambda>_. True), mv_type1Time = id, mv_conversations = [], mv_optionalUuidForKey = (\<lambda>_ _. None),
     mv_selfClientIdentifier = None\<rparr>"

definition example_page :: "NSString \<Rightarrow> bool \<Rightarrow> ZMTransportResponse" where
  "example_page key b = \<lparr>resp_result = ZMTransportResponseStatusSuccess, resp_HTTPStatus = 200,
     resp_payload = Some (JObj [(''notifications'', JArr [JObj [(key, JNull)]]), (''has_more'', JBool b)]), resp_payloadLabel = None\<rparr>"

lemma example_page_simps:
  "resp_result (example_page k b) = ZMTransportResponseStatusSuccess" "has_more (example_page k b) = b"
  "page_events example_missing_env (resp_payload (example_page k b)) =
    (if k = ''a'' then [example_event 1 False, example_event 2 True] else [example_event 3 False])"
  by (simp_all add: example_page_def has_more_def boolValueForKey_def optionalValueForKey_def page_events_def
      eventDictionariesFromPayload_def optionalArrayForKey_def example_missing_env_def)

theorem missing_events_are_processed_once_in_order_witness:
  "let X = \<lparr>transportString = string_of_nat, selfClientIdentifier = None\<rparr>;
       C = missing_paginatorSync example_missing_env
   in processed_downloaded (snd (snd (snd (exchange X C [example_page ''a'' True, example_page ''b'' False]
        (resetFetching C (initWithSingleRequestTranscoder, missing_listPaginator, init_missing (Some 0))))))) =
      [example_event 1 False, example_event 3 False]"
proof -
  let ?X = "\<lparr>transportString = string_of_nat, selfClientIdentifier = None\<rparr>"
  let ?C = "missing_paginatorSync example_missing_env"
  let ?rs = "[example_page ''a'' True, example_page ''b'' False]"
  let ?st = "resetFetching ?C (initWithSingleRequestTranscoder, missing_listPaginator, init_missing (Some 0))"
  obtain qs s' p' c' where e: "exchange ?X ?C ?rs ?st = (qs, s', p', c')" by (metis prod.exhaust)
  have "processed_downloaded c' = processed_downloaded (init_missing (Some 0)) @
      filter (\<lambda>e. \<not> me_isCallState e) (concat (map (\<lambda>r. page_events example_missing_env (resp_payload r)) ?rs))"
    using missing_events_are_processed_once_in_order [of example_missing_env initWithSingleRequestTranscoder
        missing_listPaginator "init_missing (Some 0)" ?st, OF _ e]
    by (simp add: example_page_simps no_lost_call_def) (simp add: example_event_def)
  then show ?thesis unfolding Let_def e
    by (simp add: example_page_simps example_event_def processed_downloaded_def init_missing_def)
qed

end
