(* ===== verification/Blacklist.thy ===== *)
theory Blacklist
  imports Prelude
begin

text \<open>
  \<^verbatim>\<open>ZMBlacklistDownloader\<close> and \<^verbatim>\<open>ZMBlacklistVerificator\<close> (\<^verbatim>\<open>Source/UserSession\<close>): the list of versions that must not be used
  any more is downloaded from time to time, and the own version is looked up in it.

  The downloader works on a serial queue; its blocks are explicit, and the queue, timers, answers and notifications are
  interleaved as steps. A string or array is an object with an address, because the program also compares pointers. The
  dispatch group, which only tests wait for, is left out, and a timer is scheduled when it is made: it is added to the
  main run loop by a block that does nothing to a timer that was invalidated before. A list has the format the program
  documents, a string and an array of strings.
\<close>

section \<open>State\<close>

datatype (plugins only: code size) blacklist_block = WillResignActive | DidBecomeActive | StartTimer | TimerDidFire

type_synonym 'a object = "nat \<times> 'a"

record ZMBlacklistDownloader =
  bl_dataTasks :: nat
  successCheckInterval :: NSTimeInterval
  failureCheckInterval :: NSTimeInterval
  bl_storedMinVersion :: "NSString option"
  bl_storedExcludedVersions :: "NSString list option"
  bl_minVersion :: "NSString object option"
  bl_excludedVersions :: "NSString list object option"
  bl_hasQueue :: bool
  bl_blocks :: "blacklist_block list"
  bl_hasCompletionHandler :: bool
  bl_handled :: "(NSString option \<times> NSString list option) list"
  dateOfLastSuccessfulDownload :: "NSDate option"
  dateOfLastUnsuccessfulDownload :: "NSDate option"
  bl_currentTimer :: "nat option"
  bl_timers :: "(nat \<times> NSDate) list"
  bl_nextTimer :: nat
  bl_inBackground :: bool
  bl_observes :: bool

record blacklist_answer =
  ba_error :: bool
  ba_data :: "NSData option"
  ba_statusCode :: int

section \<open>Operations of the downloader\<close>

definition dispatch_block :: "blacklist_block \<Rightarrow> ZMBlacklistDownloader \<Rightarrow> objc_failure + ZMBlacklistDownloader" where
  "dispatch_block b d = (if bl_hasQueue d then Inr (d\<lparr>bl_blocks := bl_blocks d @ [b]\<rparr>) else Inl NilQueue)"

definition startTimerIfNeeded :: "ZMBlacklistDownloader \<Rightarrow> objc_failure + ZMBlacklistDownloader" where
  "startTimerIfNeeded d = (if bl_inBackground d \<or> bl_currentTimer d \<noteq> None then Inr d else dispatch_block StartTimer d)"

text \<open>The cached values are given with the addresses of the objects the user defaults return.\<close>

definition initWithURLSession ::
  "NSTimeInterval \<Rightarrow> NSTimeInterval \<Rightarrow> NSString object option \<Rightarrow> NSString list object option \<Rightarrow> bool \<Rightarrow>
   objc_failure + ZMBlacklistDownloader" where
  "initWithURLSession success failure storedMin storedExcluded handler =
     startTimerIfNeeded
       \<lparr>bl_dataTasks = 0, successCheckInterval = success, failureCheckInterval = min failure success,
        bl_storedMinVersion = map_option snd storedMin, bl_storedExcludedVersions = map_option snd storedExcluded,
        bl_minVersion = storedMin, bl_excludedVersions = storedExcluded, bl_hasQueue = True, bl_blocks = [],
        bl_hasCompletionHandler = handler, bl_handled = [], dateOfLastSuccessfulDownload = None,
        dateOfLastUnsuccessfulDownload = None, bl_currentTimer = None, bl_timers = [], bl_nextTimer = 0,
        bl_inBackground = False, bl_observes = True\<rparr>"

definition initWithDownloadInterval ::
  "NSTimeInterval \<Rightarrow> NSString object option \<Rightarrow> NSString list object option \<Rightarrow> bool \<Rightarrow> objc_failure + ZMBlacklistDownloader" where
  "initWithDownloadInterval interval = initWithURLSession interval (30 * 60)"

definition same_pointer :: "'a object option \<Rightarrow> 'a object option \<Rightarrow> bool" where
  "same_pointer a b \<longleftrightarrow> map_option fst a = map_option fst b"

text \<open>A message to \<^verbatim>\<open>nil\<close> answers \<^verbatim>\<open>NO\<close>, and nothing is equal to \<^verbatim>\<open>nil\<close>.\<close>

definition isEqual_object :: "'a object option \<Rightarrow> 'a object option \<Rightarrow> bool" where
  "isEqual_object a b = (case (a, b) of (Some x, Some y) \<Rightarrow> snd x = snd y | _ \<Rightarrow> False)"

definition storeMinVersion ::
  "NSString object option \<Rightarrow> NSString list object option \<Rightarrow> ZMBlacklistDownloader \<Rightarrow> ZMBlacklistDownloader" where
  "storeMinVersion minVersion excludedVersions d =
     (let d = (if \<not> same_pointer (bl_minVersion d) minVersion \<or> \<not> isEqual_object (bl_minVersion d) minVersion
               then d\<lparr>bl_minVersion := minVersion, bl_storedMinVersion := map_option snd minVersion\<rparr> else d)
      in if \<not> same_pointer (bl_excludedVersions d) excludedVersions \<or> \<not> isEqual_object (bl_excludedVersions d) excludedVersions
         then d\<lparr>bl_excludedVersions := excludedVersions, bl_storedExcludedVersions := map_option snd excludedVersions\<rparr> else d)"

definition didDownloadBlacklistWithMinVersion ::
  "NSString object option \<Rightarrow> NSString list object option \<Rightarrow> ZMBlacklistDownloader \<Rightarrow> ZMBlacklistDownloader" where
  "didDownloadBlacklistWithMinVersion minVersion exclude d =
     (if \<not> same_pointer (bl_minVersion d) minVersion \<or> \<not> isEqual_object (bl_minVersion d) minVersion \<or>
         \<not> same_pointer (bl_excludedVersions d) exclude \<or> \<not> isEqual_object (bl_excludedVersions d) exclude
      then let d = storeMinVersion minVersion exclude d
           in if bl_hasCompletionHandler d
              then d\<lparr>bl_handled := bl_handled d @ [(map_option snd minVersion, map_option snd exclude)]\<rparr> else d
      else d)"

definition fetchBlackList :: "ZMBlacklistDownloader \<Rightarrow> ZMBlacklistDownloader" where
  "fetchBlackList d =
     (let d = (if bl_minVersion d \<noteq> None \<and> bl_excludedVersions d \<noteq> None
               then didDownloadBlacklistWithMinVersion (bl_minVersion d) (bl_excludedVersions d) d else d)
      in d\<lparr>bl_dataTasks := Suc (bl_dataTasks d)\<rparr>)"

definition timeToNextDownload :: "NSDate \<Rightarrow> ZMBlacklistDownloader \<Rightarrow> NSTimeInterval" where
  "timeToNextDownload now d =
     (case (dateOfLastUnsuccessfulDownload d, dateOfLastSuccessfulDownload d) of
        (None, None) \<Rightarrow> 0
      | (Some f, None) \<Rightarrow> max 0 (failureCheckInterval d + (f - now))
      | (Some f, Some s) \<Rightarrow>
          if f < s then max 0 (failureCheckInterval d + (f - now)) else max 0 (successCheckInterval d + (s - now))
      | (None, Some s) \<Rightarrow> max 0 (successCheckInterval d + (s - now)))"

definition invalidate_currentTimer :: "ZMBlacklistDownloader \<Rightarrow> ZMBlacklistDownloader" where
  "invalidate_currentTimer d =
     d\<lparr>bl_timers := (case bl_currentTimer d of None \<Rightarrow> bl_timers d | Some i \<Rightarrow> dict_remove i (bl_timers d)), bl_currentTimer := None\<rparr>"

primrec run_blacklist_block ::
  "NSDate \<Rightarrow> blacklist_block \<Rightarrow> ZMBlacklistDownloader \<Rightarrow> objc_failure + ZMBlacklistDownloader" where
  "run_blacklist_block now WillResignActive d = Inr (invalidate_currentTimer (d\<lparr>bl_inBackground := True\<rparr>))"
| "run_blacklist_block now DidBecomeActive d = startTimerIfNeeded (d\<lparr>bl_inBackground := False\<rparr>)"
| "run_blacklist_block now StartTimer d =
     (let timeLeftSinceNextDownload = timeToNextDownload now d
      in if timeLeftSinceNextDownload = 0 then Inr (fetchBlackList d)
         else Inr (d\<lparr>bl_currentTimer := Some (bl_nextTimer d), bl_nextTimer := Suc (bl_nextTimer d),
                     bl_timers := bl_timers d @ [(bl_nextTimer d, now + timeLeftSinceNextDownload)]\<rparr>))"
| "run_blacklist_block now TimerDidFire d =
     (let d = d\<lparr>bl_currentTimer := None\<rparr> in Inr (if \<not> bl_inBackground d then fetchBlackList d else d))"

definition responseObjectWithData :: "(NSData \<Rightarrow> json option) \<Rightarrow> NSData \<Rightarrow> (NSString \<times> json) list option" where
  "responseObjectWithData JSONObjectWithData input = asDictionary (JSONObjectWithData input)"

fun strings_of :: "json list \<Rightarrow> NSString list" where
  "strings_of [] = []"
| "strings_of (JStr s # xs) = s # strings_of xs"
| "strings_of (_ # xs) = strings_of xs"

text \<open>\<open>a\<close> and \<open>b\<close> are the addresses of the two objects in a parsed answer.\<close>

definition didReceiveResponseForBlacklist ::
  "(NSData \<Rightarrow> json option) \<Rightarrow> NSDate \<Rightarrow> nat \<Rightarrow> nat \<Rightarrow> blacklist_answer \<Rightarrow> ZMBlacklistDownloader \<Rightarrow>
   objc_failure + ZMBlacklistDownloader" where
  "didReceiveResponseForBlacklist JSONObjectWithData now a b answer d =
     (let isSuccess = (\<not> ba_error answer \<and> ba_data answer \<noteq> None \<and> ba_statusCode answer < 400);
          d = (case ba_data answer of
                 Some input \<Rightarrow>
                   if \<not> isSuccess then d
                   else let blackList = responseObjectWithData JSONObjectWithData input
                        in didDownloadBlacklistWithMinVersion
                             (map_option (Pair a) (optionalStringForKey ''min_version'' blackList))
                             (map_option (\<lambda>xs. (b, strings_of xs)) (optionalArrayForKey ''exclude'' blackList)) d
               | None \<Rightarrow> d)
      in startTimerIfNeeded
           (if isSuccess then d\<lparr>dateOfLastSuccessfulDownload := Some now, dateOfLastUnsuccessfulDownload := None\<rparr>
            else d\<lparr>dateOfLastSuccessfulDownload := None, dateOfLastUnsuccessfulDownload := Some now\<rparr>))"

text \<open>Tearing down waits for the blocks that are already on the queue.\<close>

definition blacklist_teardown :: "NSDate \<Rightarrow> ZMBlacklistDownloader \<Rightarrow> objc_failure + ZMBlacklistDownloader" where
  "blacklist_teardown now d =
     (if \<not> bl_hasQueue d then Inl NilQueue
      else bindE (foldE (run_blacklist_block now) (bl_blocks d) (d\<lparr>bl_observes := False, bl_inBackground := True, bl_blocks := []\<rparr>))
             (\<lambda>d. Inr ((invalidate_currentTimer d)\<lparr>bl_hasQueue := False, bl_hasCompletionHandler := False\<rparr>)))"

definition blacklist_dealloc :: "NSDate \<Rightarrow> ZMBlacklistDownloader \<Rightarrow> objc_failure + ZMBlacklistDownloader" where
  "blacklist_dealloc = blacklist_teardown"

text \<open>What reaches a downloader: its declared messages, the notifications it observes, its queue, timers and answers.\<close>

inductive blacklist_step :: "(NSData \<Rightarrow> json option) \<Rightarrow> ZMBlacklistDownloader \<Rightarrow> ZMBlacklistDownloader \<Rightarrow> bool" for J where
  resign: "bl_observes d \<Longrightarrow> dispatch_block WillResignActive d = Inr d' \<Longrightarrow> blacklist_step J d d'"
| active: "bl_observes d \<Longrightarrow> dispatch_block DidBecomeActive d = Inr d' \<Longrightarrow> blacklist_step J d d'"
| block: "bl_blocks d = b # bs \<Longrightarrow> run_blacklist_block now b (d\<lparr>bl_blocks := bs\<rparr>) = Inr d' \<Longrightarrow> blacklist_step J d d'"
| timer: "(i, date) \<in> set (bl_timers d) \<Longrightarrow> dispatch_block TimerDidFire (d\<lparr>bl_timers := dict_remove i (bl_timers d)\<rparr>) = Inr d' \<Longrightarrow>
     blacklist_step J d d'"
| answer: "bl_dataTasks d = Suc n \<Longrightarrow> didReceiveResponseForBlacklist J now a b answer (d\<lparr>bl_dataTasks := n\<rparr>) = Inr d' \<Longrightarrow>
     blacklist_step J d d'"
| teardown: "blacklist_teardown now d = Inr d' \<Longrightarrow> blacklist_step J d d'"

inductive_cases blacklist_stepE: "blacklist_step J d d'"

text \<open>The declared interface: making a downloader, and tearing it down.\<close>

datatype ZMBlacklistDownloader_msg =
    InitWithDownloadInterval NSTimeInterval "NSString object option" "NSString list object option" bool
  | BlacklistTeardown

primrec ZMBlacklistDownloader_send ::
  "NSDate \<Rightarrow> ZMBlacklistDownloader_msg \<Rightarrow> ZMBlacklistDownloader option \<Rightarrow> objc_failure + ZMBlacklistDownloader option" where
  "ZMBlacklistDownloader_send now (InitWithDownloadInterval interval storedMin storedExcluded handler) x =
     map_sum id Some (initWithDownloadInterval interval storedMin storedExcluded handler)"
| "ZMBlacklistDownloader_send now BlacklistTeardown x =
     (case x of None \<Rightarrow> Inr None | Some d \<Rightarrow> map_sum id Some (blacklist_teardown now d))"

section \<open>The verificator\<close>

text \<open>
  A comparison of strings with \<^verbatim>\<open>NSNumericSearch\<close>: where both strings have digits, the numbers are compared. What the
  comparison with \<^verbatim>\<open>nil\<close> gives is not documented and is a parameter.
\<close>

definition is_digit :: "char \<Rightarrow> bool" where
  "is_digit c \<longleftrightarrow> 48 \<le> (of_char c :: nat) \<and> (of_char c :: nat) \<le> 57"

definition digits_value :: "NSString \<Rightarrow> nat" where
  "digits_value s = foldl (\<lambda>n c. 10 * n + (of_char c - 48)) 0 s"

function (sequential) numeric_compare :: "NSString \<Rightarrow> NSString \<Rightarrow> NSComparisonResult" where
  "numeric_compare [] [] = NSOrderedSame"
| "numeric_compare [] (_ # _) = NSOrderedAscending"
| "numeric_compare (_ # _) [] = NSOrderedDescending"
| "numeric_compare (x # xs) (y # ys) =
     (if is_digit x \<and> is_digit y then
        let m = digits_value (takeWhile is_digit (x # xs)); n = digits_value (takeWhile is_digit (y # ys))
        in if m < n then NSOrderedAscending else if n < m then NSOrderedDescending
           else numeric_compare (dropWhile is_digit (x # xs)) (dropWhile is_digit (y # ys))
      else if (of_char x :: nat) < of_char y then NSOrderedAscending
      else if (of_char y :: nat) < of_char x then NSOrderedDescending
      else numeric_compare xs ys)"
  by pat_completeness auto

termination
proof (relation "measure (\<lambda>(s, _). length s)", goal_cases)
  case (2 x xs y ys m n)
  then show ?case using length_dropWhile_le [of is_digit xs] by (simp add: le_imp_less_Suc)
qed simp_all

definition checkIfVersionIsBlacklisted ::
  "NSComparisonResult \<Rightarrow> NSString \<Rightarrow> bool \<Rightarrow> NSString option \<Rightarrow> NSString list option \<Rightarrow> bool option" where
  "checkIfVersionIsBlacklisted compareWithNil version completion minVersion excludedVersions =
     (if completion then
        Some ((case minVersion of None \<Rightarrow> compareWithNil | Some m \<Rightarrow> numeric_compare version m) = NSOrderedAscending \<or>
              (case excludedVersions of None \<Rightarrow> False | Some xs \<Rightarrow> version \<in> set xs))
      else None)"

text \<open>A verificator holds its downloader, which calls it back for every list it hands out.\<close>

record ZMBlacklistVerificator =
  bv_downloader :: ZMBlacklistDownloader
  bv_version :: NSString
  bv_hasCallback :: bool

definition initWithCheckInterval ::
  "NSTimeInterval \<Rightarrow> NSString \<Rightarrow> bool \<Rightarrow> (NSTimeInterval \<Rightarrow> bool \<Rightarrow> objc_failure + ZMBlacklistDownloader) \<Rightarrow>
   objc_failure + ZMBlacklistVerificator" where
  "initWithCheckInterval checkInterval version callback blacklistClass =
     map_sum id (\<lambda>d. \<lparr>bv_downloader = d, bv_version = version, bv_hasCallback = callback\<rparr>) (blacklistClass checkInterval True)"

definition blacklist_answers :: "NSComparisonResult \<Rightarrow> ZMBlacklistVerificator \<Rightarrow> bool list" where
  "blacklist_answers compareWithNil v =
     concat (map (\<lambda>(m, xs). case checkIfVersionIsBlacklisted compareWithNil (bv_version v) (bv_hasCallback v) m xs of
                            None \<Rightarrow> [] | Some b \<Rightarrow> [b])
       (bl_handled (bv_downloader v)))"

datatype ZMBlacklistVerificator_msg = InitWithCheckInterval NSTimeInterval NSString bool | VerificatorTeardown

primrec ZMBlacklistVerificator_send ::
  "NSDate \<Rightarrow> NSString object option \<Rightarrow> NSString list object option \<Rightarrow> ZMBlacklistVerificator_msg \<Rightarrow>
   ZMBlacklistVerificator option \<Rightarrow> objc_failure + ZMBlacklistVerificator option" where
  "ZMBlacklistVerificator_send now storedMin storedExcluded (InitWithCheckInterval interval version callback) x =
     map_sum id Some (initWithCheckInterval interval version callback
       (\<lambda>i. initWithDownloadInterval i storedMin storedExcluded))"
| "ZMBlacklistVerificator_send now storedMin storedExcluded VerificatorTeardown x =
     (case x of
        None \<Rightarrow> Inr None
      | Some v \<Rightarrow> map_sum id (\<lambda>d. Some (v\<lparr>bv_downloader := d\<rparr>)) (blacklist_teardown now (bv_downloader v)))"

section \<open>A check is always to come\<close>

definition check_pending :: "ZMBlacklistDownloader \<Rightarrow> bool" where
  "check_pending d \<longleftrightarrow> bl_dataTasks d > 0 \<or> StartTimer \<in> set (bl_blocks d) \<or> TimerDidFire \<in> set (bl_blocks d) \<or>
     (\<exists>i date. bl_currentTimer d = Some i \<and> (i, date) \<in> set (bl_timers d))"

text \<open>The timer the downloader holds is scheduled or has fired and its block waits.\<close>

definition current_alive :: "ZMBlacklistDownloader \<Rightarrow> bool" where
  "current_alive d \<longleftrightarrow> bl_currentTimer d = None \<or> TimerDidFire \<in> set (bl_blocks d) \<or>
     (\<exists>i date. bl_currentTimer d = Some i \<and> (i, date) \<in> set (bl_timers d))"

definition blacklist_invar :: "ZMBlacklistDownloader \<Rightarrow> bool" where
  "blacklist_invar d \<longleftrightarrow> bl_hasQueue d \<longrightarrow> current_alive d \<and> (\<not> bl_inBackground d \<longrightarrow> check_pending d)"

lemma fetch_simps [simp]:
  "bl_blocks (fetchBlackList d) = bl_blocks d" "bl_currentTimer (fetchBlackList d) = bl_currentTimer d"
  "bl_timers (fetchBlackList d) = bl_timers d" "bl_dataTasks (fetchBlackList d) = Suc (bl_dataTasks d)"
  "bl_hasQueue (fetchBlackList d) = bl_hasQueue d" "bl_inBackground (fetchBlackList d) = bl_inBackground d"
  by (simp_all add: fetchBlackList_def didDownloadBlacklistWithMinVersion_def storeMinVersion_def Let_def)

lemma download_simps [simp]:
  "bl_blocks (didDownloadBlacklistWithMinVersion m e d) = bl_blocks d"
  "bl_currentTimer (didDownloadBlacklistWithMinVersion m e d) = bl_currentTimer d"
  "bl_timers (didDownloadBlacklistWithMinVersion m e d) = bl_timers d"
  "bl_dataTasks (didDownloadBlacklistWithMinVersion m e d) = bl_dataTasks d"
  "bl_hasQueue (didDownloadBlacklistWithMinVersion m e d) = bl_hasQueue d"
  "bl_inBackground (didDownloadBlacklistWithMinVersion m e d) = bl_inBackground d"
  by (simp_all add: didDownloadBlacklistWithMinVersion_def storeMinVersion_def Let_def)

lemma timeToNextDownload_update [simp]:
  "timeToNextDownload now (d\<lparr>bl_blocks := bs\<rparr>) = timeToNextDownload now d"
  "timeToNextDownload now (d\<lparr>bl_inBackground := b\<rparr>) = timeToNextDownload now d"
  by (simp_all add: timeToNextDownload_def split: option.splits)

lemma blacklist_invar_start:
  assumes "startTimerIfNeeded d = Inr d'" and "bl_hasQueue d \<Longrightarrow> current_alive d"
  shows "blacklist_invar d'"
  using assms by (auto simp: startTimerIfNeeded_def dispatch_block_def blacklist_invar_def check_pending_def current_alive_def
      split: if_splits)

lemma invar_resign: "blacklist_invar (invalidate_currentTimer (d\<lparr>bl_inBackground := True\<rparr>))"
  by (simp add: blacklist_invar_def current_alive_def invalidate_currentTimer_def)

lemma invar_block:
  assumes "blacklist_invar d" and "bl_blocks d = b # bs" and "run_blacklist_block now b (d\<lparr>bl_blocks := bs\<rparr>) = Inr d'"
  shows "blacklist_invar d'"
proof (cases b)
  case WillResignActive
  with assms(3) show ?thesis by (auto simp: invar_resign)
next
  case DidBecomeActive
  with assms(3) have "startTimerIfNeeded (d\<lparr>bl_blocks := bs, bl_inBackground := False\<rparr>) = Inr d'" by simp
  from blacklist_invar_start [OF this] assms(1,2) DidBecomeActive show ?thesis
    by (simp add: blacklist_invar_def [of d] current_alive_def)
next
  case StartTimer
  with assms show ?thesis
    by (auto simp: Let_def blacklist_invar_def current_alive_def check_pending_def split: if_splits)
next
  case TimerDidFire
  with assms show ?thesis
    by (auto simp: Let_def blacklist_invar_def current_alive_def check_pending_def split: if_splits)
qed

lemma invar_timer:
  assumes "blacklist_invar d" and "dispatch_block TimerDidFire (d\<lparr>bl_timers := ts\<rparr>) = Inr d'"
  shows "blacklist_invar d'"
  using assms by (auto simp: dispatch_block_def blacklist_invar_def current_alive_def check_pending_def split: if_splits)

lemma invar_dispatch:
  assumes "blacklist_invar d" and "dispatch_block b d = Inr d'"
  shows "blacklist_invar d'"
  using assms by (auto simp: dispatch_block_def blacklist_invar_def current_alive_def check_pending_def split: if_splits)

lemma invar_answer:
  assumes "blacklist_invar d" and "didReceiveResponseForBlacklist J now a b answer (d\<lparr>bl_dataTasks := n\<rparr>) = Inr d'"
  shows "blacklist_invar d'"
proof (rule blacklist_invar_start [OF assms(2) [unfolded didReceiveResponseForBlacklist_def Let_def]])
qed (use assms(1) in \<open>simp_all add: blacklist_invar_def current_alive_def split: option.splits if_splits\<close>)

lemma invar_teardown: "blacklist_teardown now d = Inr d' \<Longrightarrow> blacklist_invar d'"
  by (auto simp: blacklist_teardown_def blacklist_invar_def split: if_splits)

lemma invar_blacklist_step: "blacklist_step J d d' \<Longrightarrow> blacklist_invar d \<Longrightarrow> blacklist_invar d'"
  by (erule blacklist_step.cases) (auto intro: invar_block invar_timer invar_dispatch invar_answer invar_teardown)

lemma blacklist_reachable:
  assumes "(blacklist_step J)\<^sup>*\<^sup>* d d'" and "blacklist_invar d"
  shows "blacklist_invar d'"
  using assms by (induction rule: rtranclp_induct) (auto intro: invar_blacklist_step)

text \<open>C35: The blacklist is checked for ever: in every state a downloader can reach, however notifications, timers, answers and the
  blocks of its queue interleave, as long as it is not torn down and the program is active a download is running, a
  timer for the next one is scheduled, or a block that starts one of them waits on the queue.\<close>

theorem blacklist_check_is_always_pending:
  assumes "initWithDownloadInterval interval storedMin storedExcluded handler = Inr d"
    and "(blacklist_step J)\<^sup>*\<^sup>* d d'" and "bl_hasQueue d'" and "\<not> bl_inBackground d'"
  shows "bl_dataTasks d' > 0 \<or> StartTimer \<in> set (bl_blocks d') \<or> TimerDidFire \<in> set (bl_blocks d') \<or>
    (\<exists>i date. bl_currentTimer d' = Some i \<and> (i, date) \<in> set (bl_timers d'))"
proof -
  have "blacklist_invar d"
    using assms(1) blacklist_invar_start unfolding initWithDownloadInterval_def initWithURLSession_def
    by (fastforce simp: current_alive_def)
  from blacklist_reachable [OF assms(2) this] assms(3,4) show ?thesis
    by (simp add: blacklist_invar_def check_pending_def)
qed

definition new_downloader :: ZMBlacklistDownloader where
  "new_downloader = (case initWithDownloadInterval 3600 None None True of Inr d \<Rightarrow> d)"

definition started_downloader :: ZMBlacklistDownloader where
  "started_downloader = fetchBlackList (new_downloader\<lparr>bl_blocks := []\<rparr>)"

lemma new_downloader_simps:
  "initWithDownloadInterval 3600 None None True = Inr new_downloader" "bl_blocks new_downloader = [StartTimer]"
  "timeToNextDownload now new_downloader = 0" "bl_hasQueue new_downloader" "\<not> bl_inBackground new_downloader"
  by (simp_all add: new_downloader_def initWithDownloadInterval_def initWithURLSession_def startTimerIfNeeded_def
      dispatch_block_def timeToNextDownload_def)

theorem blacklist_check_is_always_pending_witness:
  "bl_dataTasks started_downloader > 0 \<or> StartTimer \<in> set (bl_blocks started_downloader) \<or>
   TimerDidFire \<in> set (bl_blocks started_downloader) \<or>
   (\<exists>i date. bl_currentTimer started_downloader = Some i \<and> (i, date) \<in> set (bl_timers started_downloader))"
proof -
  have "blacklist_step (\<lambda>_. None) new_downloader started_downloader"
    by (rule block [where now = 0, OF new_downloader_simps(2)]) (simp add: new_downloader_simps started_downloader_def)
  from blacklist_check_is_always_pending [OF new_downloader_simps(1) r_into_rtranclp [of "blacklist_step (\<lambda>_. None)", OF this]]
  show ?thesis by (simp add: started_downloader_def new_downloader_simps)
qed

section \<open>What is handed out\<close>

text \<open>
  When a download starts, the cached list is to be passed back; but it is compared with itself, so the handler is never
  called with it and a program that cannot reach the backend does not learn that its version is blacklisted.
\<close>

lemma cached_blacklist_is_not_passed_on: "bl_handled (fetchBlackList d) = bl_handled d"
  by (auto simp: fetchBlackList_def didDownloadBlacklistWithMinVersion_def same_pointer_def isEqual_object_def)

text \<open>A list that was downloaded is stored, and handed out if one of its objects is not the one that is cached.\<close>

lemma downloaded_blacklist_is_stored:
  "map_option snd (bl_minVersion (didDownloadBlacklistWithMinVersion m e d)) = map_option snd m \<and>
   map_option snd (bl_excludedVersions (didDownloadBlacklistWithMinVersion m e d)) = map_option snd e"
  by (auto simp: didDownloadBlacklistWithMinVersion_def storeMinVersion_def same_pointer_def isEqual_object_def Let_def
      split: option.splits if_splits)

lemma new_blacklist_is_handed_out:
  assumes "bl_hasCompletionHandler d" and "\<not> same_pointer (bl_excludedVersions d) e"
  shows "bl_handled (didDownloadBlacklistWithMinVersion m e d) = bl_handled d @ [(map_option snd m, map_option snd e)]"
  using assms by (simp add: didDownloadBlacklistWithMinVersion_def storeMinVersion_def Let_def)

lemma excluded_version_is_reported:
  assumes "bl_hasCompletionHandler d" and "\<not> same_pointer (bl_excludedVersions d) (Some (b, xs))" and "v \<in> set xs"
  shows "last (blacklist_answers nil
    \<lparr>bv_downloader = didDownloadBlacklistWithMinVersion m (Some (b, xs)) d, bv_version = v, bv_hasCallback = True\<rparr>)"
  using assms(3) new_blacklist_is_handed_out [OF assms(1,2)]
  by (simp add: blacklist_answers_def checkIfVersionIsBlacklisted_def)

text \<open>
  Build numbers are compared as numbers.
\<close>

lemma build_numbers_compare:
  assumes "list_all is_digit v" and "list_all is_digit m" and "v \<noteq> []" and "m \<noteq> []"
  shows "numeric_compare v m = NSOrderedAscending \<longleftrightarrow> digits_value v < digits_value m"
proof -
  obtain x xs y ys where e: "v = x # xs" "m = y # ys" using assms(3,4) by (auto simp: neq_Nil_conv)
  with assms(1,2) have d: "is_digit x" "is_digit y" "\<forall>c \<in> set xs. is_digit c" "\<forall>c \<in> set ys. is_digit c"
    by (simp_all add: list_all_iff)
  from d(3,4) have w: "takeWhile is_digit xs = xs" "dropWhile is_digit xs = []" "takeWhile is_digit ys = ys" "dropWhile is_digit ys = []"
    by simp_all
  show ?thesis using d(1,2) by (simp add: e w Let_def)
qed

text \<open>
  One of the two dates is always missing, so the order in which they are compared does not matter, and the next download
  is at most the interval away.
\<close>

lemma next_download_is_in_time:
  assumes "0 \<le> failureCheckInterval d" and "failureCheckInterval d \<le> successCheckInterval d"
    and "\<And>t. dateOfLastSuccessfulDownload d = Some t \<Longrightarrow> t \<le> now" and "\<And>t. dateOfLastUnsuccessfulDownload d = Some t \<Longrightarrow> t \<le> now"
  shows "0 \<le> timeToNextDownload now d \<and> timeToNextDownload now d \<le> successCheckInterval d"
  using assms by (force simp: timeToNextDownload_def split: option.splits)

text \<open>While a download runs no timer is held, so becoming active starts a second one.\<close>

lemma becoming_active_doubles_the_download:
  assumes "bl_hasQueue d" and "bl_currentTimer d = None" and "timeToNextDownload now d = 0" and "bl_blocks d = [DidBecomeActive]"
  shows "\<exists>e e'. blacklist_step J d e \<and> blacklist_step J e e' \<and> bl_dataTasks e' = Suc (bl_dataTasks d)"
proof -
  let ?e = "d\<lparr>bl_blocks := [StartTimer], bl_inBackground := False\<rparr>"
  have "blacklist_step J d ?e"
    using assms by (intro block [where now = now]) (auto simp: startTimerIfNeeded_def dispatch_block_def)
  moreover have "timeToNextDownload now (?e\<lparr>bl_blocks := []\<rparr>) = 0"
    using assms(3) by simp
  then have "blacklist_step J ?e (fetchBlackList (?e\<lparr>bl_blocks := []\<rparr>))"
    by (intro block [where now = now]) auto
  ultimately show ?thesis by fastforce
qed

text \<open>A downloader that was torn down is torn down again when it is deallocated, now without a queue.\<close>

lemma deallocating_after_teardown_fails:
  "blacklist_teardown now d = Inr d' \<Longrightarrow> blacklist_dealloc now' d' = Inl NilQueue"
  by (auto simp: blacklist_dealloc_def blacklist_teardown_def split: if_splits)

end
