(* ===== verification/ImagePreprocessing.thy ===== *)
theory ImagePreprocessing
  imports Prelude
begin

text \<open>
  \<^verbatim>\<open>ZMImagePreprocessingTracker\<close> (\<^verbatim>\<open>Source/Synchronization/ImagePreprocessing\<close>): messages and users with an image that must be
  scaled before it is sent are handed to a preprocessor, whose operations run on a queue.

  The preprocessor, the predicates and the sort order are a parameter. The operations themselves run outside; that the
  last operation of an owner has ended, and the two calls of the preprocessor to its delegate, are messages. The
  dispatch groups, which only tests wait for, are left out.
\<close>

section \<open>State\<close>

record image_owner_env =
  ie_needsPreprocessing :: "ZMManagedObject \<Rightarrow> bool"
  ie_isKindOfEntityClass :: "ZMManagedObject \<Rightarrow> bool"
  ie_operationsForPreprocessingImageOwner :: "ZMManagedObject \<Rightarrow> nat option"
  ie_sortedArrayUsingDescriptors :: "ZMManagedObject list \<Rightarrow> ZMManagedObject list"

datatype (plugins only: code size) image_effect =
    AddedOperations ZMManagedObject nat
  | ProcessingDidFinish ZMManagedObject
  | SetImageData ZMManagedObject NSString NSData
  | CancelledAllOperations

text \<open>\<open>ip_running\<close> lists the owners whose completion group has not been left by all operations.\<close>

record ZMImagePreprocessingTracker =
  imageOwnersThatNeedPreprocessing :: "ZMManagedObject list"
  imageOwnersBeingPreprocessed :: "ZMManagedObject list"
  ip_preprocessor :: bool
  ip_running :: "ZMManagedObject list"
  ip_effects :: "image_effect list"

definition init_imageTracker :: "bool \<Rightarrow> objc_failure + ZMImagePreprocessingTracker" where
  "init_imageTracker imageProcessingQueue =
     (if \<not> imageProcessingQueue then Inl AssertionFailure
      else Inr \<lparr>imageOwnersThatNeedPreprocessing = [], imageOwnersBeingPreprocessed = [], ip_preprocessor = True,
                ip_running = [], ip_effects = []\<rparr>)"

definition ip_emit :: "image_effect \<Rightarrow> ZMImagePreprocessingTracker \<Rightarrow> ZMImagePreprocessingTracker" where
  "ip_emit e t = t\<lparr>ip_effects := ip_effects t @ [e]\<rparr>"

lemma ip_emit_simps [simp]:
  "imageOwnersThatNeedPreprocessing (ip_emit e t) = imageOwnersThatNeedPreprocessing t"
  "imageOwnersBeingPreprocessed (ip_emit e t) = imageOwnersBeingPreprocessed t"
  "ip_preprocessor (ip_emit e t) = ip_preprocessor t" "ip_running (ip_emit e t) = ip_running t"
  "ip_effects (ip_emit e t) = ip_effects t @ [e]"
  by (simp_all add: ip_emit_def)

section \<open>Operations\<close>

definition tracker_hasOutstandingItems :: "ZMImagePreprocessingTracker \<Rightarrow> bool" where
  "tracker_hasOutstandingItems t \<longleftrightarrow>
     length (imageOwnersThatNeedPreprocessing t) \<noteq> 0 \<or> length (imageOwnersBeingPreprocessed t) \<noteq> 0"

definition imageTracker_tearDown :: "ZMImagePreprocessingTracker \<Rightarrow> ZMImagePreprocessingTracker" where
  "imageTracker_tearDown t = ip_emit CancelledAllOperations (t\<lparr>ip_preprocessor := False\<rparr>)"

definition failedPreprocessingImageOwner :: "ZMManagedObject \<Rightarrow> ZMImagePreprocessingTracker \<Rightarrow> ZMImagePreprocessingTracker" where
  "failedPreprocessingImageOwner imageOwner = ip_emit (ProcessingDidFinish imageOwner)"

text \<open>A message to the preprocessor after tearing down is one to \<^verbatim>\<open>nil\<close> and gives no operations.\<close>

definition enqueueNext :: "image_owner_env \<Rightarrow> ZMImagePreprocessingTracker \<Rightarrow> bool \<times> ZMImagePreprocessingTracker" where
  "enqueueNext env t =
     (case imageOwnersThatNeedPreprocessing t of
        [] \<Rightarrow> (False, t)
      | owner # rest \<Rightarrow>
          let t = t\<lparr>imageOwnersThatNeedPreprocessing := rest\<rparr>
          in case (if ip_preprocessor t then ie_operationsForPreprocessingImageOwner env owner else None) of
               None \<Rightarrow> (True, failedPreprocessingImageOwner owner t)
             | Some operations \<Rightarrow>
                 (True, ip_emit (AddedOperations owner operations)
                   (t\<lparr>imageOwnersBeingPreprocessed := oset_add (imageOwnersBeingPreprocessed t) owner,
                      ip_running := ip_running t @ [owner]\<rparr>)))"

lemma enqueueNext_shrinks:
  "enqueueNext env t = (True, t') \<Longrightarrow>
   length (imageOwnersThatNeedPreprocessing t') < length (imageOwnersThatNeedPreprocessing t)"
  by (auto simp: enqueueNext_def failedPreprocessingImageOwner_def Let_def split: list.splits option.splits)

function enqueueAll :: "image_owner_env \<Rightarrow> ZMImagePreprocessingTracker \<Rightarrow> ZMImagePreprocessingTracker" where
  "enqueueAll env t = (case enqueueNext env t of (True, t') \<Rightarrow> enqueueAll env t' | (False, t') \<Rightarrow> t')"
  by pat_completeness auto

termination
  by (relation "measure (\<lambda>(_, t). length (imageOwnersThatNeedPreprocessing t))")
     (auto dest!: sym [of _ "enqueueNext _ _"] enqueueNext_shrinks)

declare enqueueAll.simps [simp del]

definition addImageOwners :: "image_owner_env \<Rightarrow> ZMManagedObject list \<Rightarrow> ZMImagePreprocessingTracker \<Rightarrow> ZMImagePreprocessingTracker" where
  "addImageOwners env imageOwners t =
     fold (\<lambda>owner t.
       if ie_isKindOfEntityClass env owner \<and> ie_needsPreprocessing env owner \<and>
          owner \<notin> set (imageOwnersBeingPreprocessed t) \<and> owner \<notin> set (imageOwnersThatNeedPreprocessing t)
       then t\<lparr>imageOwnersThatNeedPreprocessing := oset_add (imageOwnersThatNeedPreprocessing t) owner\<rparr> else t) imageOwners t"

definition image_objectsDidChange :: "image_owner_env \<Rightarrow> ZMManagedObject list \<Rightarrow> ZMImagePreprocessingTracker \<Rightarrow> ZMImagePreprocessingTracker" where
  "image_objectsDidChange env objects t = enqueueAll env (addImageOwners env objects t)"

definition image_addTrackedObjects :: "image_owner_env \<Rightarrow> ZMManagedObject list \<Rightarrow> ZMImagePreprocessingTracker \<Rightarrow> ZMImagePreprocessingTracker" where
  "image_addTrackedObjects env objects t =
     enqueueAll env (t\<lparr>imageOwnersThatNeedPreprocessing :=
       oset_union (imageOwnersThatNeedPreprocessing t)
         (ie_sortedArrayUsingDescriptors env (filter (ie_needsPreprocessing env) objects))\<rparr>)"

text \<open>The block that runs when all operations of an owner have ended.\<close>

definition operations_completed :: "ZMManagedObject \<Rightarrow> ZMImagePreprocessingTracker \<Rightarrow> ZMImagePreprocessingTracker" where
  "operations_completed owner t =
     (if owner \<in> set (ip_running t)
      then t\<lparr>ip_running := remove1 owner (ip_running t),
             imageOwnersBeingPreprocessed := oset_remove owner (imageOwnersBeingPreprocessed t)\<rparr> else t)"

definition preprocessingCompleteOperation :: "ZMManagedObject \<Rightarrow> ZMImagePreprocessingTracker \<Rightarrow> ZMImagePreprocessingTracker" where
  "preprocessingCompleteOperation imageOwner = ip_emit (ProcessingDidFinish imageOwner)"

definition completedDownsampleOperation ::
  "NSString \<Rightarrow> NSData \<Rightarrow> ZMManagedObject \<Rightarrow> ZMImagePreprocessingTracker \<Rightarrow> ZMImagePreprocessingTracker" where
  "completedDownsampleOperation format imageData imageOwner = ip_emit (SetImageData imageOwner format imageData)"

text \<open>The messages of the class and of the protocols it conforms to, and the end of operations.\<close>

datatype (plugins only: code size) ZMImagePreprocessingTracker_msg =
    ImageTearDown
  | ImageAddTrackedObjects image_owner_env "ZMManagedObject list"
  | ImageObjectsDidChange image_owner_env "ZMManagedObject list"
  | PreprocessingComplete ZMManagedObject
  | CompletedDownsample NSString NSData ZMManagedObject
  | OperationsCompleted ZMManagedObject

primrec ZMImagePreprocessingTracker_send ::
  "ZMImagePreprocessingTracker_msg \<Rightarrow> ZMImagePreprocessingTracker \<Rightarrow> ZMImagePreprocessingTracker" where
  "ZMImagePreprocessingTracker_send ImageTearDown t = imageTracker_tearDown t"
| "ZMImagePreprocessingTracker_send (ImageAddTrackedObjects env os) t = image_addTrackedObjects env os t"
| "ZMImagePreprocessingTracker_send (ImageObjectsDidChange env os) t = image_objectsDidChange env os t"
| "ZMImagePreprocessingTracker_send (PreprocessingComplete m) t = preprocessingCompleteOperation m t"
| "ZMImagePreprocessingTracker_send (CompletedDownsample f d m) t = completedDownsampleOperation f d m t"
| "ZMImagePreprocessingTracker_send (OperationsCompleted m) t = operations_completed m t"

section \<open>Owners in work\<close>

text \<open>Owners wait once each, and those in work are exactly the ones with running operations.\<close>

definition image_invar :: "ZMImagePreprocessingTracker \<Rightarrow> bool" where
  "image_invar t \<longleftrightarrow> distinct (ip_running t) \<and> set (ip_running t) = set (imageOwnersBeingPreprocessed t) \<and>
     distinct (imageOwnersThatNeedPreprocessing t) \<and>
     set (imageOwnersThatNeedPreprocessing t) \<inter> set (imageOwnersBeingPreprocessed t) = {}"

lemma invar_enqueueNext: "enqueueNext env t = (b, t') \<Longrightarrow> image_invar t \<Longrightarrow> image_invar t'"
  by (auto simp: enqueueNext_def failedPreprocessingImageOwner_def image_invar_def Let_def split: list.splits option.splits if_splits)

lemma enqueueAll_invar: "image_invar t \<Longrightarrow> image_invar (enqueueAll env t)"
proof (induction env t rule: enqueueAll.induct)
  case (1 env t)
  obtain b t' where e: "enqueueNext env t = (b, t')" by fastforce
  with 1 invar_enqueueNext [OF e] show ?case
    by (cases b) (auto simp: enqueueAll.simps [of env t])
qed

lemma enqueueNext_False: "enqueueNext env t = (False, t') \<Longrightarrow> t' = t \<and> imageOwnersThatNeedPreprocessing t = []"
  by (auto simp: enqueueNext_def Let_def split: list.splits option.splits)

lemma enqueueAll_empties: "imageOwnersThatNeedPreprocessing (enqueueAll env t) = []"
proof (induction env t rule: enqueueAll.induct)
  case (1 env t)
  obtain b t' where e: "enqueueNext env t = (b, t')" by fastforce
  with 1 enqueueNext_False show ?case
    by (cases b) (auto simp: enqueueAll.simps [of env t])
qed

text \<open>An owner that waits is handed to the preprocessor or told that the processing is over.\<close>

definition taken_up :: "ZMManagedObject \<Rightarrow> nat \<Rightarrow> ZMImagePreprocessingTracker \<Rightarrow> bool" where
  "taken_up m n t \<longleftrightarrow> m \<in> set (imageOwnersBeingPreprocessed t) \<or> ProcessingDidFinish m \<in> set (drop n (ip_effects t))"

lemma taken_up_enqueueNext:
  assumes "enqueueNext env t = (b, t')" and "n \<le> length (ip_effects t)"
    and "taken_up m n t \<or> m \<in> set (imageOwnersThatNeedPreprocessing t)"
  shows "(taken_up m n t' \<or> m \<in> set (imageOwnersThatNeedPreprocessing t')) \<and> n \<le> length (ip_effects t')"
  using assms
  by (auto simp: enqueueNext_def failedPreprocessingImageOwner_def taken_up_def Let_def split: list.splits option.splits if_splits)

lemma enqueueAll_takes_up:
  assumes "n \<le> length (ip_effects t)" and "taken_up m n t \<or> m \<in> set (imageOwnersThatNeedPreprocessing t)"
  shows "taken_up m n (enqueueAll env t)"
  using assms
proof (induction env t rule: enqueueAll.induct)
  case (1 env t)
  obtain b t' where e: "enqueueNext env t = (b, t')" by fastforce
  with 1 taken_up_enqueueNext [OF e "1.prems"] enqueueNext_False show ?case
    by (cases b) (auto simp: enqueueAll.simps [of env t])
qed

lemma addImageOwners_adds:
  "image_invar t \<Longrightarrow> image_invar (addImageOwners env os t) \<and> ip_effects (addImageOwners env os t) = ip_effects t \<and>
    imageOwnersBeingPreprocessed (addImageOwners env os t) = imageOwnersBeingPreprocessed t \<and>
    set (imageOwnersThatNeedPreprocessing (addImageOwners env os t)) = set (imageOwnersThatNeedPreprocessing t) \<union>
      {m \<in> set os. ie_isKindOfEntityClass env m \<and> ie_needsPreprocessing env m} - set (imageOwnersBeingPreprocessed t)"
proof (induction os arbitrary: t)
  case Nil
  then show ?case by (auto simp: addImageOwners_def image_invar_def)
next
  case (Cons m os)
  let ?t = "addImageOwners env [m] t"
  have "image_invar ?t"
    using Cons.prems by (auto simp: addImageOwners_def image_invar_def)
  from Cons.IH [OF this] show ?case
    by (auto simp: addImageOwners_def image_invar_def)
qed

fun adds_tracked :: "ZMImagePreprocessingTracker_msg \<Rightarrow> bool" where
  "adds_tracked (ImageAddTrackedObjects env os) = True"
| "adds_tracked _ = False"

lemma image_invar_send:
  assumes "image_invar t" and "\<not> adds_tracked m"
  shows "image_invar (ZMImagePreprocessingTracker_send m t)"
proof (cases m)
  case (ImageObjectsDidChange env os)
  with assms addImageOwners_adds [of t env os] show ?thesis
    by (auto simp: image_objectsDidChange_def intro: enqueueAll_invar)
qed (use assms in \<open>auto simp: image_invar_def imageTracker_tearDown_def preprocessingCompleteOperation_def
    completedDownsampleOperation_def operations_completed_def\<close>)

lemma image_invar_first:
  assumes "init_imageTracker True = Inr t"
  shows "image_invar (image_addTrackedObjects env os t)"
  using assms unfolding image_addTrackedObjects_def init_imageTracker_def
  by (intro enqueueAll_invar) (auto simp: image_invar_def)

text \<open>C36: No image is processed twice at a time and none is forgotten: when the tracked objects are added once, at the start, then in
  every run the owners with running operations are listed once each and are exactly those the tracker holds as being
  processed; and an object of the right kind that needs it and changes is being processed afterwards, or has been told
  that its processing is over.\<close>

theorem images_are_processed_once_at_a_time:
  assumes "init_imageTracker True = Inr t" and "\<forall>m \<in> set ms. \<not> adds_tracked m"
    and "s = run ZMImagePreprocessingTracker_send (image_addTrackedObjects env0 tracked t) ms"
    and "m \<in> set os" and "ie_isKindOfEntityClass env m" and "ie_needsPreprocessing env m"
    and "s' = ZMImagePreprocessingTracker_send (ImageObjectsDidChange env os) s"
  shows "distinct (ip_running s) \<and> set (ip_running s) = set (imageOwnersBeingPreprocessed s) \<and>
    imageOwnersThatNeedPreprocessing s' = [] \<and>
    (m \<in> set (ip_running s') \<or> ProcessingDidFinish m \<in> set (drop (length (ip_effects s)) (ip_effects s')))"
proof -
  have s: "image_invar s" unfolding assms(3)
    by (rule run_invariant_guarded [where G = "\<lambda>m. \<not> adds_tracked m"])
       (use assms(1,2) in \<open>auto intro: image_invar_send image_invar_first\<close>)
  then have s': "image_invar s'" unfolding assms(7) by (rule image_invar_send) simp
  note added = addImageOwners_adds [OF s, of env os]
  have e: "s' = enqueueAll env (addImageOwners env os s)"
    by (simp add: assms(7) image_objectsDidChange_def)
  have "taken_up m (length (ip_effects s)) (addImageOwners env os s) \<or>
      m \<in> set (imageOwnersThatNeedPreprocessing (addImageOwners env os s))"
    using added assms(4-6) by (simp add: taken_up_def)
  with added have "taken_up m (length (ip_effects s)) s'"
    unfolding e by (intro enqueueAll_takes_up) simp_all
  moreover have "imageOwnersThatNeedPreprocessing s' = []"
    unfolding e by (rule enqueueAll_empties)
  ultimately show ?thesis
    using s s' by (simp add: image_invar_def taken_up_def)
qed

definition sample_image_env :: image_owner_env where
  "sample_image_env = \<lparr>ie_needsPreprocessing = (\<lambda>_. True), ie_isKindOfEntityClass = (\<lambda>_. True),
     ie_operationsForPreprocessingImageOwner = (\<lambda>m. if m = 3 then None else Some 2), ie_sortedArrayUsingDescriptors = sort\<rparr>"

definition new_imageTracker :: ZMImagePreprocessingTracker where
  "new_imageTracker = \<lparr>imageOwnersThatNeedPreprocessing = [], imageOwnersBeingPreprocessed = [], ip_preprocessor = True,
     ip_running = [], ip_effects = []\<rparr>"

theorem images_are_processed_once_at_a_time_witness:
  "imageOwnersThatNeedPreprocessing (ZMImagePreprocessingTracker_send (ImageObjectsDidChange sample_image_env [1, 3])
     (run ZMImagePreprocessingTracker_send (image_addTrackedObjects sample_image_env [2, 1] new_imageTracker)
       [OperationsCompleted 1])) = []"
proof -
  have "init_imageTracker True = Inr new_imageTracker"
    by (simp add: init_imageTracker_def new_imageTracker_def)
  from images_are_processed_once_at_a_time [OF this, of "[OperationsCompleted 1]" _ sample_image_env "[2, 1]" 3 "[1, 3]" sample_image_env]
  show ?thesis by (simp add: sample_image_env_def)
qed

text \<open>
  \<^verbatim>\<open>addTrackedObjects:\<close> does not look at the owners in work: an owner that is added while its operations run is processed
  a second time, and after the first of the two ends it no longer counts as outstanding.
\<close>

lemma added_owner_is_processed_twice:
  "let t = image_addTrackedObjects sample_image_env [1] (image_addTrackedObjects sample_image_env [1] new_imageTracker)
   in ip_running t = [1, 1] \<and> \<not> tracker_hasOutstandingItems (operations_completed 1 t) \<and> ip_running (operations_completed 1 t) = [1]"
  by (simp add: image_addTrackedObjects_def sample_image_env_def new_imageTracker_def enqueueAll.simps enqueueNext_def
      operations_completed_def tracker_hasOutstandingItems_def oset_add_def oset_remove_def ip_emit_def Let_def)

text \<open>After tearing down every owner is told at once that its processing is over.\<close>

lemma torn_down_tracker_processes_nothing:
  assumes "\<not> ip_preprocessor t"
  shows "ip_running (enqueueAll env t) = ip_running t"
  using assms
proof (induction env t rule: enqueueAll.induct)
  case (1 env t)
  obtain b t' where e: "enqueueNext env t = (b, t')" by fastforce
  with "1.prems" have "ip_running t' = ip_running t \<and> \<not> ip_preprocessor t'"
    by (auto simp: enqueueNext_def failedPreprocessingImageOwner_def Let_def split: list.splits)
  with 1 e show ?case
    by (cases b) (auto simp: enqueueAll.simps [of env t])
qed

end
