(* ===== verification/AddressBook.thy ===== *)
theory AddressBook
  imports SearchRequests Encodings
begin

text \<open>
  The upload of the address book: \<^verbatim>\<open>ZMAddressBook\<close> and \<^verbatim>\<open>ZMAddressBookEncoder\<close> (\<^verbatim>\<open>Source/Registration\<close>), \<^verbatim>\<open>ZMAddressBookSync\<close>,
  \<^verbatim>\<open>ZMEmptyAddressBookSync\<close> and \<^verbatim>\<open>ZMAddressBookTranscoder\<close> (\<^verbatim>\<open>Source/Synchronization\<close>). Contacts are sent as hashes of their
  addresses and numbers; the answer lists users who may be known.

  The address book of the system, the library for phone numbers, the validators and the hash functions are parameters.
  The encoder works on a queue of its own; that it has ended is a step.
\<close>

section \<open>The contacts\<close>

record ab_record =
  ar_phones :: "NSString list"
  ar_emails :: "NSString list"
  ar_firstName :: "NSString option"
  ar_middleName :: "NSString option"
  ar_lastName :: "NSString option"
  ar_nickname :: "NSString option"
  ar_organization :: "NSString option"

record address_contact =
  ac_emailAddresses :: "NSString list"
  ac_phoneNumbers :: "NSString list"
  ac_rawPhoneNumbers :: "NSString list"
  ac_record :: ab_record

text \<open>
  \<open>ae_normalizePhoneNumber\<close> parses a number for the region of the carrier and formats it, \<^verbatim>\<open>nil\<close> if one of them fails.
\<close>

record address_env =
  ae_userHasAuthorizedAccess :: bool
  ae_allPeople :: "ab_record list"
  ae_normalizePhoneNumber :: "NSString \<Rightarrow> NSString option"
  ae_validateEmail :: "NSString \<Rightarrow> NSString option"
  ae_validatePhone :: "NSString \<Rightarrow> NSString option"
  ae_SHA256 :: "NSData \<Rightarrow> NSData"
  ae_SHA512 :: "NSData \<Rightarrow> NSData"
  ae_remoteIdentifiers :: "json list \<Rightarrow> NSUUID list"

definition raw_numbers :: "ab_record \<Rightarrow> NSString list" where
  "raw_numbers r = filter (\<lambda>p. 0 < length p) (ar_phones r)"

definition normalized_numbers :: "address_env \<Rightarrow> ab_record \<Rightarrow> NSString list" where
  "normalized_numbers env r =
     concat (map (\<lambda>p. case ae_normalizePhoneNumber env p of None \<Rightarrow> [] | Some n \<Rightarrow> if 0 < length n then [n] else []) (raw_numbers r))"

definition record_emails :: "ab_record \<Rightarrow> NSString list" where
  "record_emails r = filter (\<lambda>e. 0 < length e \<and> CHR ''@'' \<in> set e) (ar_emails r)"

text \<open>The body of the loop: a record without an address and a number is skipped.\<close>

definition contact_of_record :: "address_env \<Rightarrow> ab_record \<Rightarrow> address_contact option" where
  "contact_of_record env r =
     (if length (normalized_numbers env r) = 0 \<and> length (record_emails r) = 0 then None
      else Some \<lparr>ac_emailAddresses = record_emails r, ac_phoneNumbers = normalized_numbers env r,
                 ac_rawPhoneNumbers = raw_numbers r, ac_record = r\<rparr>)"

text \<open>
  One call of the fast enumeration fills a buffer with at most \<open>len\<close> contacts, from the record at \<open>state\<close> on;
  \<open>rest\<close> are the records from there.
\<close>

fun fill_buffer :: "address_env \<Rightarrow> nat \<Rightarrow> ab_record list \<Rightarrow> address_contact list \<Rightarrow> nat \<Rightarrow> address_contact list \<times> nat" where
  "fill_buffer env len [] returned state = (returned, state)"
| "fill_buffer env len (r # rest) returned state =
     (if length returned < len
      then fill_buffer env len rest (case contact_of_record env r of None \<Rightarrow> returned | Some c \<Rightarrow> returned @ [c]) (Suc state)
      else (returned, state))"

definition countByEnumeratingWithState ::
  "address_env \<Rightarrow> nat \<Rightarrow> ab_record list \<Rightarrow> nat \<Rightarrow> address_contact list \<times> nat" where
  "countByEnumeratingWithState env len people state = fill_buffer env len (drop state people) [] state"

lemma fill_buffer_state: "snd (fill_buffer env len rest returned state) \<ge> state"
  by (induction env len rest returned state rule: fill_buffer.induct) (auto split: option.splits)

lemma fill_buffer_moves:
  "length (fst (fill_buffer env len rest returned state)) > length returned \<Longrightarrow>
   snd (fill_buffer env len rest returned state) > state \<and> rest \<noteq> []"
proof (cases rest)
  case (Cons r rs)
  assume "length (fst (fill_buffer env len rest returned state)) > length returned"
  with Cons show ?thesis
    using fill_buffer_state [where env = env and len = len and rest = rs and state = "Suc state"]
    by (auto simp: Suc_le_eq split: if_splits)
qed simp

text \<open>A loop over an enumeration asks for buffers until one is empty.\<close>

function enumerate_contacts :: "address_env \<Rightarrow> nat \<Rightarrow> ab_record list \<Rightarrow> nat \<Rightarrow> address_contact list" where
  "enumerate_contacts env len people state =
     (case countByEnumeratingWithState env len people state of (returned, state') \<Rightarrow>
        if returned = [] then [] else returned @ enumerate_contacts env len people state')"
  by pat_completeness auto

termination
proof (relation "measure (\<lambda>(_, _, people, state). length people - state)", goal_cases)
  case (2 env len people state returned state')
  then have "fill_buffer env len (drop state people) [] state = (returned, state')" "returned \<noteq> []"
    by (simp_all add: countByEnumeratingWithState_def)
  with fill_buffer_moves [where returned = "[]" and env = env and len = len and rest = "drop state people" and state = state]
  have "state < state'" "state < length people" by simp_all
  then show ?case by simp
qed simp

declare enumerate_contacts.simps [simp del]

definition contacts_of :: "address_env \<Rightarrow> ab_record list \<Rightarrow> address_contact list" where
  "contacts_of env rs = concat (map (\<lambda>r. case contact_of_record env r of None \<Rightarrow> [] | Some c \<Rightarrow> [c]) rs)"

lemma contacts_of_append: "contacts_of env (xs @ ys) = contacts_of env xs @ contacts_of env ys"
  by (simp add: contacts_of_def)

lemma fill_buffer_splits:
  "\<exists>k. snd (fill_buffer env len rest returned state) = state + k \<and> k \<le> length rest \<and>
    fst (fill_buffer env len rest returned state) = returned @ contacts_of env (take k rest) \<and>
    (length (fst (fill_buffer env len rest returned state)) < len \<longrightarrow> k = length rest)"
proof (induction rest arbitrary: returned state)
  case (Cons r rest)
  show ?case
  proof (cases "length returned < len")
    case True
    let ?returned = "returned @ contacts_of env [r]"
    have e: "fill_buffer env len (r # rest) returned state = fill_buffer env len rest ?returned (Suc state)"
      using True by (simp add: contacts_of_def split: option.split)
    obtain k where k: "snd (fill_buffer env len rest ?returned (Suc state)) = Suc state + k" "k \<le> length rest"
      "fst (fill_buffer env len rest ?returned (Suc state)) = ?returned @ contacts_of env (take k rest)"
      "length (fst (fill_buffer env len rest ?returned (Suc state))) < len \<longrightarrow> k = length rest"
      using Cons.IH by blast
    have first: "contacts_of env (take (Suc k) (r # rest)) = contacts_of env [r] @ contacts_of env (take k rest)"
      using contacts_of_append [of env "[r]" "take k rest"] by simp
    show ?thesis
    proof (rule exI [of _ "Suc k"], unfold e, intro conjI)
      show "fst (fill_buffer env len rest ?returned (Suc state)) = returned @ contacts_of env (take (Suc k) (r # rest))"
        by (simp only: k(3) first append_assoc)
    qed (use k(1,2,4) in simp_all)
  next
    case False
    then show ?thesis by (intro exI [of _ 0]) (simp add: contacts_of_def)
  qed
qed (simp add: contacts_of_def)

text \<open>Whatever the size of the buffer, the loop sees every contact once and in the order of the address book.\<close>

lemma buffers_give_all_contacts:
  assumes "0 < len"
  shows "enumerate_contacts env len people state = contacts_of env (drop state people)"
  using assms
proof (induction env len people state rule: enumerate_contacts.induct)
  case (1 env len people state)
  obtain returned state' where f: "countByEnumeratingWithState env len people state = (returned, state')" by fastforce
  then obtain k where k: "state' = state + k" "returned = contacts_of env (take k (drop state people))"
      "length returned < len \<longrightarrow> k = length (drop state people)"
    using fill_buffer_splits [of env len "drop state people" "[]" state] unfolding countByEnumeratingWithState_def
    by (metis append_Nil fst_conv snd_conv)
  have "drop state people = take k (drop state people) @ drop state' people"
    using k(1) by (metis add.commute append_take_drop_id drop_drop)
  with k(2) contacts_of_append have split: "contacts_of env (drop state people) = returned @ contacts_of env (drop state' people)"
    by metis
  have step: "enumerate_contacts env len people state = (if returned = [] then [] else returned @ enumerate_contacts env len people state')"
    by (subst enumerate_contacts.simps) (simp add: f)
  show ?case
  proof (cases "returned = []")
    case True
    with k(3) "1.prems" have "k = length (drop state people)" by simp
    with k(1) have "contacts_of env (drop state' people) = []" by (simp add: contacts_of_def)
    with True split step show ?thesis by (metis append_Nil)
  next
    case False
    with "1.IH" [OF f [symmetric] False "1.prems"] step split show ?thesis by metis
  qed
qed

section \<open>The address book\<close>

text \<open>Without access there is no address book, and observers are told.\<close>

datatype address_effect = PostedFailedToAccessAddressBook | NotifiedNewRequests | SavedContext

definition init_addressBook :: "address_env \<Rightarrow> address_effect list \<times> bool" where
  "init_addressBook env = (if ae_userHasAuthorizedAccess env then ([], True) else ([PostedFailedToAccessAddressBook], False))"

datatype ZMAddressBook_msg = AddressBookInstance | Contacts nat | UserHasAuthorizedAccess

primrec ZMAddressBook_send :: "address_env \<Rightarrow> ZMAddressBook_msg \<Rightarrow> bool \<times> address_contact list" where
  "ZMAddressBook_send env AddressBookInstance = (snd (init_addressBook env), [])"
| "ZMAddressBook_send env (Contacts len) = (True, enumerate_contacts env len (ae_allPeople env) 0)"
| "ZMAddressBook_send env UserHasAuthorizedAccess = (ae_userHasAuthorizedAccess env, [])"

section \<open>The encoder\<close>

record ZMEncodedAddressBook =
  localData :: "json option"
  otherData :: "json option"
  digest :: "NSData option"

definition addressBookEncoderHash :: "address_env \<Rightarrow> NSString \<Rightarrow> NSString" where
  "addressBookEncoderHash env s = base64_encode (ae_SHA256 env (map of_char s))"

definition validatedEmailFromEmail :: "address_env \<Rightarrow> NSString option \<Rightarrow> NSString option" where
  "validatedEmailFromEmail env email =
     (case email of None \<Rightarrow> None | Some e \<Rightarrow> if 0 < length e then ae_validateEmail env e else None)"

definition validatedPhoneNumberFromPhoneNumber :: "address_env \<Rightarrow> NSString option \<Rightarrow> NSString option" where
  "validatedPhoneNumberFromPhoneNumber env phone =
     (case phone of None \<Rightarrow> None | Some p \<Rightarrow> if 0 < length p then ae_validatePhone env p else None)"

definition local_hashes :: "address_env \<Rightarrow> NSString option \<Rightarrow> NSString option \<Rightarrow> NSString list" where
  "local_hashes env selfEmail selfPhone =
     oset_union [] (map (addressBookEncoderHash env)
       ((case validatedEmailFromEmail env selfEmail of None \<Rightarrow> [] | Some e \<Rightarrow> [e]) @
        (case validatedPhoneNumberFromPhoneNumber env selfPhone of None \<Rightarrow> [] | Some p \<Rightarrow> [p])))"

text \<open>The validated addresses and usable numbers of a contact, in the order they are hashed.\<close>

definition contact_values :: "address_env \<Rightarrow> address_contact \<Rightarrow> NSString list" where
  "contact_values env c =
     concat (map (\<lambda>e. case validatedEmailFromEmail env (Some e) of None \<Rightarrow> [] | Some v \<Rightarrow> [v]) (ac_emailAddresses c)) @
     filter (\<lambda>p. 7 < length p \<and> hd p = CHR ''+'') (ac_phoneNumbers c)"

definition contact_hashes :: "address_env \<Rightarrow> address_contact \<Rightarrow> NSString list" where
  "contact_hashes env c = oset_union [] (map (addressBookEncoderHash env) (contact_values env c))"

text \<open>The loop over the contacts: the index of the contact, the cards so far, and the bytes given to the digest.\<close>

fun encode_contacts ::
  "address_env \<Rightarrow> nat \<Rightarrow> address_contact list \<Rightarrow> json list \<Rightarrow> NSData \<Rightarrow> json list \<times> NSData" where
  "encode_contacts env index [] cards digestInput = (cards, digestInput)"
| "encode_contacts env index (c # cs) cards digestInput =
     (if index > 1000 then (cards, digestInput)
      else let otherHashes = contact_hashes env c;
               digestInput = digestInput @ concat (map (map of_char) (contact_values env c))
           in if length otherHashes > 0
              then encode_contacts env (Suc index) cs
                     (cards @ [JObj [(''card_id'', JStr (string_of_nat (length cards))), (''contact'', JArr (map JStr otherHashes))]])
                     (digestInput @ rev (to_bytes 4 (length otherHashes)))
              else encode_contacts env (Suc index) cs cards digestInput)"

definition createPayload ::
  "address_env \<Rightarrow> NSString option \<Rightarrow> NSString option \<Rightarrow> address_contact list \<Rightarrow> ZMEncodedAddressBook" where
  "createPayload env selfEmail selfPhone contacts =
     (case encode_contacts env 0 contacts [] [] of (cards, digestInput) \<Rightarrow>
        \<lparr>localData = Some (JArr (map JStr (local_hashes env selfEmail selfPhone))),
         otherData = (if length cards < 1 then None else Some (JArr cards)),
         digest = Some (ae_SHA512 env digestInput)\<rparr>)"

text \<open>\<open>len\<close> is the size of the buffer of the loop; a missing address book has no contacts.\<close>

datatype ZMAddressBookEncoder_msg = CreatePayload bool nat "NSString option" "NSString option"

primrec ZMAddressBookEncoder_send :: "address_env \<Rightarrow> ZMAddressBookEncoder_msg \<Rightarrow> ZMEncodedAddressBook" where
  "ZMAddressBookEncoder_send env (CreatePayload addressBook len selfEmail selfPhone) =
     createPayload env selfEmail selfPhone (if addressBook then enumerate_contacts env len (ae_allPeople env) 0 else [])"

section \<open>The upload\<close>

text \<open>
  What two syncs share: the metadata of the store, where the value under a key is the flag or the digest, and the
  suggestions. \<open>ab_class\<close> is the class of a sync, which decides the key and whether there is an address book.
\<close>

datatype address_class = AddressBookClass | EmptyAddressBookClass

record address_store =
  as_needsToBeUploaded :: "NSString \<Rightarrow> bool"
  as_digest :: "NSString \<Rightarrow> NSData option"
  as_search :: search_metadata
  as_effects :: "address_effect list"

record ZMAddressBookSync =
  ab_class :: address_class
  isGeneratingPayload :: bool
  encodedAddressBook :: "ZMEncodedAddressBook option"
  ab_addressBook :: bool
  ab_encoders :: "bool list"

type_synonym address_state = "ZMSingleRequestSync \<times> ZMAddressBookSync \<times> address_store"

definition init_addressBookSync :: "address_class \<Rightarrow> ZMAddressBookSync" where
  "init_addressBookSync c = \<lparr>ab_class = c, isGeneratingPayload = False, encodedAddressBook = None, ab_addressBook = False, ab_encoders = []\<rparr>"

definition as_emit :: "address_effect list \<Rightarrow> address_store \<Rightarrow> address_store" where
  "as_emit es m = m\<lparr>as_effects := as_effects m @ es\<rparr>"

primrec persistentStoreKey :: "address_class \<Rightarrow> NSString" where
  "persistentStoreKey AddressBookClass = ''ZMAddressBookTranscoderNeedsToBeUploaded''"
| "persistentStoreKey EmptyAddressBookClass = ''ZMEmptyAddressBookNeedsToBeUploaded''"

definition persistentStoreDigestKey :: "address_class \<Rightarrow> NSString" where
  "persistentStoreDigestKey c = persistentStoreKey c @ ''Digest''"

definition markAddressBookAsNeedingToBeUploaded :: "address_class \<Rightarrow> address_store \<Rightarrow> address_store" where
  "markAddressBookAsNeedingToBeUploaded c m =
     as_emit [SavedContext] (m\<lparr>as_needsToBeUploaded := (as_needsToBeUploaded m)(persistentStoreKey c := True)\<rparr>)"

definition addressBookNeedsToBeUploaded :: "address_class \<Rightarrow> address_store \<Rightarrow> bool" where
  "addressBookNeedsToBeUploaded c m = as_needsToBeUploaded m (persistentStoreKey c)"

definition clearAddressBookAsNeedingToBeUploaded :: "address_class \<Rightarrow> address_store \<Rightarrow> address_store" where
  "clearAddressBookAsNeedingToBeUploaded c m =
     as_emit [SavedContext] (m\<lparr>as_needsToBeUploaded := (as_needsToBeUploaded m)(persistentStoreKey c := False)\<rparr>)"

definition uploadedAddressBookDigest :: "address_class \<Rightarrow> address_store \<Rightarrow> NSData option" where
  "uploadedAddressBookDigest c m = as_digest m (persistentStoreDigestKey c)"

definition setUploadedAddressBookDigest :: "address_class \<Rightarrow> NSData option \<Rightarrow> address_store \<Rightarrow> address_store" where
  "setUploadedAddressBookDigest c d m = m\<lparr>as_digest := (as_digest m)(persistentStoreDigestKey c := d)\<rparr>"

text \<open>The getter makes the address book on first use, and again as long as that fails.\<close>

definition sync_addressBook :: "address_env \<Rightarrow> ZMAddressBookSync \<Rightarrow> bool \<times> ZMAddressBookSync \<times> address_effect list" where
  "sync_addressBook env x =
     (if ab_class x = EmptyAddressBookClass then (False, x, [])
      else if ab_addressBook x then (True, x, [])
      else let (es, b) = init_addressBook env in (b, x\<lparr>ab_addressBook := b\<rparr>, es))"

definition address_request :: "ZMAddressBookSync \<Rightarrow> ZMTransportRequest" where
  "address_request x =
     (let part = (\<lambda>f. case Option.bind (encodedAddressBook x) f of None \<Rightarrow> JArr [] | Some d \<Rightarrow> d)
      in \<lparr>req_method = MethodPOST, req_path = ''/onboarding/v2'',
          req_payload = Some (JObj [(''self'', part localData), (''cards'', part otherData)])\<rparr>)"

definition address_didReceiveResponse ::
  "address_env \<Rightarrow> ZMTransportResponse \<Rightarrow> ZMAddressBookSync \<times> address_store \<Rightarrow> ZMAddressBookSync \<times> address_store" where
  "address_didReceiveResponse env response xm =
     (case xm of (x, m) \<Rightarrow>
        let m = (if resp_result response = ZMTransportResponseStatusSuccess
                 then let ids = (case optionalArrayForKey ''results'' (asDictionary (resp_payload response)) of
                                   None \<Rightarrow> [] | Some xs \<Rightarrow> ae_remoteIdentifiers env xs)
                      in m\<lparr>as_search := setCommonConnectionsForUsers (Some [])
                             (setSuggestedUsersForUser (Some (oset_union [] ids)) (as_search m))\<rparr>
                 else m);
            m = setUploadedAddressBookDigest (ab_class x) (Option.bind (encodedAddressBook x) digest) m
        in (x\<lparr>encodedAddressBook := None\<rparr>, clearAddressBookAsNeedingToBeUploaded (ab_class x) m))"

definition address_transcoder :: "address_env \<Rightarrow> (ZMSingleRequestSync, ZMAddressBookSync \<times> address_store) ZMSingleRequestTranscoder" where
  "address_transcoder env =
     \<lparr>requestForSingleRequestSync = (\<lambda>_ (x, m). (Some (address_request x), (x, m))),
      didReceiveResponse_forSingleRequest = (\<lambda>r. apsnd (address_didReceiveResponse env r))\<rparr>"

definition address_nextRequest :: "address_env \<Rightarrow> address_state \<Rightarrow> ZMTransportRequest option \<times> address_state" where
  "address_nextRequest env st =
     (case st of (s, x, m) \<Rightarrow>
        if \<not> addressBookNeedsToBeUploaded (ab_class x) m then (None, st)
        else if isGeneratingPayload x then (None, st)
        else if encodedAddressBook x \<noteq> None then nextRequest (address_transcoder env) st
        else if status s = ZMSingleRequestInProgress then (None, st)
        else let (b, x, es) = sync_addressBook env (x\<lparr>isGeneratingPayload := True\<rparr>)
             in (None, s, x\<lparr>ab_encoders := ab_encoders x @ [b]\<rparr>, as_emit es m))"

text \<open>The completion handler of an encoder.\<close>

definition payload_created :: "ZMEncodedAddressBook \<Rightarrow> address_state \<Rightarrow> address_state" where
  "payload_created encoded st =
     (case st of (s, x, m) \<Rightarrow>
        let x = x\<lparr>ab_encoders := tl (ab_encoders x)\<rparr>
        in if uploadedAddressBookDigest (ab_class x) m = None \<or> uploadedAddressBookDigest (ab_class x) m \<noteq> digest encoded
           then (readyForNextRequest s, x\<lparr>encodedAddressBook := Some encoded, isGeneratingPayload := False\<rparr>,
                 as_emit [NotifiedNewRequests] m)
           else (s, x\<lparr>isGeneratingPayload := False\<rparr>, m))"

text \<open>The declared messages of a sync, the end of an encoder, and the answer to its request.\<close>

datatype (plugins only: code size) ZMAddressBookSync_msg =
    AddressBookNextRequest
  | MarkAddressBookAsNeedingToBeUploaded
  | PayloadCreated nat "NSString option" "NSString option"
  | AddressBookResponse ZMTransportResponse "32 word"

primrec ZMAddressBookSync_send :: "address_env \<Rightarrow> ZMAddressBookSync_msg \<Rightarrow> address_state \<Rightarrow> address_state" where
  "ZMAddressBookSync_send env AddressBookNextRequest st = snd (address_nextRequest env st)"
| "ZMAddressBookSync_send env MarkAddressBookAsNeedingToBeUploaded st =
     (case st of (s, x, m) \<Rightarrow> (s, x, markAddressBookAsNeedingToBeUploaded (ab_class x) m))"
| "ZMAddressBookSync_send env (PayloadCreated len selfEmail selfPhone) st =
     (case ab_encoders (fst (snd st)) of
        [] \<Rightarrow> st
      | b # _ \<Rightarrow> payload_created (ZMAddressBookEncoder_send env (CreatePayload b len selfEmail selfPhone)) st)"
| "ZMAddressBookSync_send env (AddressBookResponse r c) st = processResponse (address_transcoder env) r c st"

section \<open>The transcoder\<close>

record ZMAddressBookTranscoder =
  at_addressBookSync :: "ZMSingleRequestSync \<times> ZMAddressBookSync"
  at_emptyAddressBookSync :: "ZMSingleRequestSync \<times> ZMAddressBookSync"
  at_store :: address_store

definition init_addressBookTranscoder :: "address_store \<Rightarrow> ZMAddressBookTranscoder" where
  "init_addressBookTranscoder m =
     \<lparr>at_addressBookSync = (initWithSingleRequestTranscoder, init_addressBookSync AddressBookClass),
      at_emptyAddressBookSync = (initWithSingleRequestTranscoder, init_addressBookSync EmptyAddressBookClass), at_store = m\<rparr>"

primrec ask_sync :: "address_env \<Rightarrow> address_class \<Rightarrow> ZMAddressBookTranscoder \<Rightarrow> ZMTransportRequest option \<times> ZMAddressBookTranscoder" where
  "ask_sync env AddressBookClass t =
     (case address_nextRequest env (fst (at_addressBookSync t), snd (at_addressBookSync t), at_store t) of
        (r, s, x, m) \<Rightarrow> (r, t\<lparr>at_addressBookSync := (s, x), at_store := m\<rparr>))"
| "ask_sync env EmptyAddressBookClass t =
     (case address_nextRequest env (fst (at_emptyAddressBookSync t), snd (at_emptyAddressBookSync t), at_store t) of
        (r, s, x, m) \<Rightarrow> (r, t\<lparr>at_emptyAddressBookSync := (s, x), at_store := m\<rparr>))"

definition addressTranscoder_nextRequest :: "address_env \<Rightarrow> ZMAddressBookTranscoder \<Rightarrow> ZMTransportRequest option \<times> ZMAddressBookTranscoder" where
  "addressTranscoder_nextRequest env t = nextRequest_array (ask_sync env) [AddressBookClass, EmptyAddressBookClass] t"

section \<open>Cards\<close>

lemma encode_contacts_take:
  "index \<le> 1001 \<Longrightarrow> encode_contacts env index cs cards d = encode_contacts env index (take (1001 - index) cs) cards d"
proof (induction env index cs cards d rule: encode_contacts.induct)
  case (2 env index c cs cards d)
  show ?case
  proof (cases "index = 1001")
    case False
    with "2.prems" have "1001 - index = Suc (1001 - Suc index)" "Suc index \<le> 1001" by simp_all
    with "2.IH" False show ?thesis by (simp add: Let_def)
  qed simp
qed simp

text \<open>The comment speaks of the first 1000 contacts; one more is encoded.\<close>

lemma contacts_are_cut_after_1001: "createPayload env e p cs = createPayload env e p (take 1001 cs)"
  using encode_contacts_take [of 0 env cs "[]" "[]"] by (simp add: createPayload_def)

text \<open>Cards are numbered from zero and carry at least one hash, each once.\<close>

fun good_card :: "nat \<Rightarrow> json \<Rightarrow> bool" where
  "good_card i (JObj [(k, JStr n), (k', JArr hs)]) \<longleftrightarrow>
     k = ''card_id'' \<and> n = string_of_nat i \<and> k' = ''contact'' \<and> hs \<noteq> [] \<and> distinct hs"
| "good_card i _ = False"

lemma encoded_cards_are_good:
  assumes "\<forall>i < length cards. good_card i (cards ! i)"
  shows "\<forall>i < length (fst (encode_contacts env index cs cards d)). good_card i (fst (encode_contacts env index cs cards d) ! i)"
  using assms
proof (induction env index cs cards d rule: encode_contacts.induct)
  case (2 env index c cs cards d)
  let ?card = "JObj [(''card_id'', JStr (string_of_nat (length cards))), (''contact'', JArr (map JStr (contact_hashes env c)))]"
  have "contact_hashes env c \<noteq> [] \<Longrightarrow> good_card (length cards) ?card"
    by (simp add: contact_hashes_def distinct_map inj_on_def)
  with "2.prems" have "contact_hashes env c \<noteq> [] \<Longrightarrow> \<forall>i < length (cards @ [?card]). good_card i ((cards @ [?card]) ! i)"
    by (auto simp: nth_append less_Suc_eq)
  with 2 show ?case by (auto simp: Let_def)
qed simp

section \<open>An upload\<close>

lemmas address_defs = address_nextRequest_def payload_created_def address_didReceiveResponse_def address_transcoder_def
  addressBookNeedsToBeUploaded_def clearAddressBookAsNeedingToBeUploaded_def uploadedAddressBookDigest_def
  setUploadedAddressBookDigest_def as_emit_def

lemma sync_addressBook_keeps:
  assumes "sync_addressBook env x = (b, x', es)"
  shows "ab_class x' = ab_class x" "isGeneratingPayload x' = isGeneratingPayload x"
    "encodedAddressBook x' = encodedAddressBook x" "ab_encoders x' = ab_encoders x"
  using assms by (auto simp: sync_addressBook_def init_addressBook_def Let_def split: if_splits)

lemma sync_addressBook_generating:
  "fst (sync_addressBook env (x\<lparr>isGeneratingPayload := g\<rparr>)) = fst (sync_addressBook env x)"
  by (simp add: sync_addressBook_def Let_def split: prod.splits)

definition idle_sync :: "address_state \<Rightarrow> bool" where
  "idle_sync st \<longleftrightarrow> (case st of (s, x, m) \<Rightarrow> \<not> isGeneratingPayload x \<and> encodedAddressBook x = None \<and> ab_encoders x = [] \<and>
     status s \<noteq> ZMSingleRequestInProgress)"

text \<open>The first call of \<^verbatim>\<open>nextRequest\<close> starts an encoder.\<close>

lemma encoding_starts:
  assumes "idle_sync (s, x, m)" and "addressBookNeedsToBeUploaded (ab_class x) m"
  obtains x' es where "address_nextRequest env (s, x, m) = (None, s, x', as_emit es m)" "isGeneratingPayload x'"
    "encodedAddressBook x' = None" "ab_encoders x' = [fst (sync_addressBook env x)]" "ab_class x' = ab_class x"
proof -
  obtain b y es where y: "sync_addressBook env (x\<lparr>isGeneratingPayload := True\<rparr>) = (b, y, es)" by (metis prod.exhaust)
  with sync_addressBook_generating [where env = env and x = x and g = True] have "b = fst (sync_addressBook env x)" by simp
  with assms y sync_addressBook_keeps [OF y] show thesis
    by (intro that [of "y\<lparr>ab_encoders := ab_encoders y @ [b]\<rparr>" es]) (auto simp: address_nextRequest_def idle_sync_def)
qed

text \<open>C37: A changed address book is uploaded: when the book is marked and its digest is not the one that was uploaded last, the sync
  encodes it and then sends one request with the hashes of the own addresses and the cards; when the request succeeds the
  mark is removed, the digest is stored, the users in the answer become the suggestions, and nothing more is sent.\<close>

theorem changed_address_book_is_uploaded:
  assumes "idle_sync (s, x, m)" and "addressBookNeedsToBeUploaded (ab_class x) m"
    and "encoded = ZMAddressBookEncoder_send env (CreatePayload (fst (sync_addressBook env x)) len email phone)"
    and "uploadedAddressBookDigest (ab_class x) m \<noteq> digest encoded"
    and "st1 = ZMAddressBookSync_send env AddressBookNextRequest (s, x, m)"
    and "st2 = ZMAddressBookSync_send env (PayloadCreated len email phone) st1"
    and "address_nextRequest env st2 = (q, st3)"
    and "resp_result r = ZMTransportResponseStatusSuccess"
    and "optionalArrayForKey ''results'' (asDictionary (resp_payload r)) = Some results"
    and "st4 = ZMAddressBookSync_send env (AddressBookResponse r (requestUniqueCounter (fst st2))) st3"
  shows "q = Some \<lparr>req_method = MethodPOST, req_path = ''/onboarding/v2'', req_payload = Some (JObj
      [(''self'', case localData encoded of None \<Rightarrow> JArr [] | Some d \<Rightarrow> d),
       (''cards'', case otherData encoded of None \<Rightarrow> JArr [] | Some d \<Rightarrow> d)])\<rparr> \<and>
    \<not> addressBookNeedsToBeUploaded (ab_class x) (snd (snd st4)) \<and>
    uploadedAddressBookDigest (ab_class x) (snd (snd st4)) = digest encoded \<and>
    sm_suggestedUsers (as_search (snd (snd st4))) = Some (oset_union [] (ae_remoteIdentifiers env results)) \<and>
    fst (address_nextRequest env st4) = None"
proof -
  from encoding_starts [OF assms(1,2), of env] obtain x' es where x': "st1 = (s, x', as_emit es m)" "isGeneratingPayload x'"
    "encodedAddressBook x' = None" "ab_encoders x' = [fst (sync_addressBook env x)]" "ab_class x' = ab_class x"
    using assms(5) by (metis ZMAddressBookSync_send.simps(1) snd_conv)
  then have st2: "st2 = (readyForNextRequest s, x'\<lparr>ab_encoders := [], encodedAddressBook := Some encoded, isGeneratingPayload := False\<rparr>,
      as_emit [NotifiedNewRequests] (as_emit es m))"
    using assms(3,4,6) by (simp add: payload_created_def uploadedAddressBookDigest_def as_emit_def)
  have need: "as_needsToBeUploaded m (persistentStoreKey (ab_class x))"
    using assms(2) by (simp add: addressBookNeedsToBeUploaded_def)
  let ?x = "x'\<lparr>ab_encoders := [], encodedAddressBook := Some encoded, isGeneratingPayload := False\<rparr>"
  have q: "q = Some (address_request ?x)"
    "st3 = ((readyForNextRequest s)\<lparr>currentRequest := q\<rparr>, ?x, as_emit [NotifiedNewRequests] (as_emit es m))"
    using assms(7) need x'(5) unfolding st2
    by (auto simp: address_nextRequest_def addressBookNeedsToBeUploaded_def as_emit_def nextRequest_def readyForNextRequest_def address_transcoder_def)
  show ?thesis
    using assms(8-10) q x'(5) unfolding st2
    by (simp add: processResponse_def address_defs address_request_def readyForNextRequest_def setSuggestedUsersForUser_def
        setCommonConnectionsForUsers_def Let_def)
qed

definition sample_address_env :: address_env where
  "sample_address_env = \<lparr>ae_userHasAuthorizedAccess = True,
     ae_allPeople = [\<lparr>ar_phones = [''+4930123456''], ar_emails = [''a@b.c''], ar_firstName = Some ''A'', ar_middleName = None,
       ar_lastName = None, ar_nickname = None, ar_organization = None\<rparr>],
     ae_normalizePhoneNumber = Some, ae_validateEmail = Some, ae_validatePhone = Some, ae_SHA256 = take 3, ae_SHA512 = take 5,
     ae_remoteIdentifiers = map (\<lambda>_. 7)\<rparr>"

definition sample_address_store :: address_store where
  "sample_address_store = \<lparr>as_needsToBeUploaded = (\<lambda>k. k = persistentStoreKey AddressBookClass), as_digest = (\<lambda>_. None),
     as_search = \<lparr>sm_suggestedUsers = None, sm_commonConnections = None, sm_removedSuggested = None, sm_posted = []\<rparr>, as_effects = []\<rparr>"

definition sample_address_answer :: ZMTransportResponse where
  "sample_address_answer = \<lparr>resp_result = ZMTransportResponseStatusSuccess, resp_HTTPStatus = 200,
     resp_payload = Some (JObj [(''results'', JArr [JStr ''u''])]), resp_payloadLabel = None\<rparr>"

theorem changed_address_book_is_uploaded_witness:
  "let env = sample_address_env;
       st1 = ZMAddressBookSync_send env AddressBookNextRequest
         (initWithSingleRequestTranscoder, init_addressBookSync AddressBookClass, sample_address_store);
       st2 = ZMAddressBookSync_send env (PayloadCreated 16 None None) st1;
       st3 = snd (address_nextRequest env st2);
       st4 = ZMAddressBookSync_send env (AddressBookResponse sample_address_answer (requestUniqueCounter (fst st2))) st3
   in sm_suggestedUsers (as_search (snd (snd st4))) = Some [7]"
proof -
  let ?s = "(initWithSingleRequestTranscoder, init_addressBookSync AddressBookClass, sample_address_store)"
  let ?enc = "ZMAddressBookEncoder_send sample_address_env
    (CreatePayload (fst (sync_addressBook sample_address_env (init_addressBookSync AddressBookClass))) 16 None None)"
  have idle: "idle_sync ?s" "addressBookNeedsToBeUploaded (ab_class (init_addressBookSync AddressBookClass)) sample_address_store"
    by (simp_all add: idle_sync_def init_addressBookSync_def initWithSingleRequestTranscoder_def addressBookNeedsToBeUploaded_def
        sample_address_store_def)
  have "uploadedAddressBookDigest (ab_class (init_addressBookSync AddressBookClass)) sample_address_store \<noteq> digest ?enc"
    by (simp add: uploadedAddressBookDigest_def sample_address_store_def createPayload_def split: prod.splits)
  note flow = changed_address_book_is_uploaded [OF idle refl this refl refl surjective_pairing, of sample_address_answer "[JStr ''u'']"]
  have "ae_remoteIdentifiers sample_address_env [JStr ''u''] = [7]" by (simp add: sample_address_env_def)
  with flow show ?thesis unfolding Let_def
    by (simp add: sample_address_answer_def optionalArrayForKey_def optionalValueForKey_def oset_union_def oset_add_def)
qed

section \<open>What goes wrong\<close>

text \<open>
  When the book has not changed since the last upload, the mark stays and nothing is sent: every following call of
  \<^verbatim>\<open>nextRequest\<close> encodes the whole book again.
\<close>

lemma unchanged_address_book_is_encoded_again:
  assumes "idle_sync (s, x, m)" and "addressBookNeedsToBeUploaded (ab_class x) m"
    and "encoded = ZMAddressBookEncoder_send env (CreatePayload (fst (sync_addressBook env x)) len email phone)"
    and "uploadedAddressBookDigest (ab_class x) m = digest encoded"
    and "(s', x', m') = ZMAddressBookSync_send env (PayloadCreated len email phone) (ZMAddressBookSync_send env AddressBookNextRequest (s, x, m))"
  shows "idle_sync (s', x', m') \<and> addressBookNeedsToBeUploaded (ab_class x') m'"
proof -
  from encoding_starts [OF assms(1,2), of env] obtain y es where y: "address_nextRequest env (s, x, m) = (None, s, y, as_emit es m)"
    "encodedAddressBook y = None" "ab_encoders y = [fst (sync_addressBook env x)]" "ab_class y = ab_class x" by blast
  have "digest encoded \<noteq> None" using assms(3) by (simp add: createPayload_def split: prod.splits)
  with y assms show ?thesis
    by (auto simp: payload_created_def uploadedAddressBookDigest_def idle_sync_def addressBookNeedsToBeUploaded_def as_emit_def)
qed

text \<open>An upload the backend refuses counts as done: the mark is removed and the digest stored.\<close>

lemma refused_upload_counts_as_done:
  assumes "resp_result r = ZMTransportResponseStatusPermanentError" and "encodedAddressBook x = Some encoded"
    and "(s', x', m') = ZMAddressBookSync_send env (AddressBookResponse r (requestUniqueCounter s)) (s, x, m)"
  shows "\<not> addressBookNeedsToBeUploaded (ab_class x) m' \<and> uploadedAddressBookDigest (ab_class x) m' = digest encoded"
  using assms by (simp add: processResponse_def address_defs Let_def)

text \<open>The two syncs do not disturb each other: marking one of them leaves the other as it is.\<close>

lemma marks_are_separate:
  "addressBookNeedsToBeUploaded c (markAddressBookAsNeedingToBeUploaded c' m) \<longleftrightarrow> c = c' \<or> addressBookNeedsToBeUploaded c m"
  by (cases c; cases c') (simp_all add: addressBookNeedsToBeUploaded_def markAddressBookAsNeedingToBeUploaded_def as_emit_def)

end
