(* ===== verification/Spec2Isabelle.thy ===== *)
theory Spec2Isabelle
  imports SingleRequest TimedRequest Paginator RemoteIdentifiers SyncMachine UpstreamInserted Downstream
    Tracing PushTokenTranscoder SessionBackground SessionNotifications
    CallHandling OperationLoop SearchDirectory Typing HotFix IncompleteConversations MessageExpiration
    Invitations MissingEvents Blacklist ImagePreprocessing AddressBook
begin

text \<open>
  A model of the synchronisation engine \<^verbatim>\<open>zmessaging-cocoa\<close>.

  The engine asks its parts for the next request to send, hands the response back to the part that
  made the request, and keeps the state of the session (login, registration) beside them.

  \<^item> \<open>Prelude\<close>: Foundation and transport types, ordered sets, runs of messages, and the interface
    \<open>component\<close> of a class whose messages keep an invariant.
  \<^item> \<open>SingleRequest\<close>, \<open>TimedRequest\<close>: \<^verbatim>\<open>ZMSingleRequestSync\<close> and \<^verbatim>\<open>ZMTimedSingleRequestSync\<close>. The
    sync follows an abstract protocol, awaits the request it holds, ignores abandoned ones; a waiting
    timed sync has a timer pending, also when the callbacks set its interval, and an invalidated one is silent.
  \<^item> \<open>Paginator\<close>: \<^verbatim>\<open>ZMSimpleListRequestPaginator\<close>; a full download, and the effect of a parsed error page.
  \<^item> \<open>RemoteIdentifiers\<close>: \<^verbatim>\<open>ZMRemoteIdentifierObjectSync\<close>; how a batch is taken and what each
    response does to it.
  \<^item> \<open>SessionState\<close>: \<^verbatim>\<open>NSError+ZMUserSession\<close>, \<^verbatim>\<open>ZMCredentials\<close>, the session notifications and the
    properties of the status objects.
  \<^item> \<open>Authentication\<close>: \<^verbatim>\<open>ZMCookie\<close> and \<^verbatim>\<open>ZMAuthenticationStatus\<close>; one pending activity at a time, the
    duplicate address flow, login timeouts.
  \<^item> \<open>ProfileUpdate\<close>: \<^verbatim>\<open>ZMUserProfileUpdateStatus\<close>; the order of a change, and stale verification marks.
  \<^item> \<open>ClientRegistration\<close>: \<^verbatim>\<open>ZMClientRegistrationStatus\<close>, with the interface \<open>credential_provider\<close> of its two
    providers; registration, too many clients, remote deletion.
  \<^item> \<open>SyncStates\<close>, \<open>SyncMachine\<close>: \<^verbatim>\<open>ZMSyncStateMachine\<close> and its twelve states over the operations of
    \<^verbatim>\<open>ZMObjectStrategyDirectory\<close>. Changes of state and the request loop end, by an order on the states and
    not by fuel; timers and handlers stay with their state; a background fetch is answered once.
  \<^item> \<open>ObjectSets\<close>: \<^verbatim>\<open>ZMSyncOperationSet\<close>, \<^verbatim>\<open>ZMLocallyInsertedObjectSet\<close> and \<^verbatim>\<open>ZMUpdateEventsBuffer\<close>.
  \<^item> \<open>ModifiedObjects\<close>: \<^verbatim>\<open>ZMLocallyModifiedObjectSyncStatus\<close> and \<^verbatim>\<open>ZMLocallyModifiedObjectSet\<close>, with a heap of
    status objects; keys in flight are not offered, an unfinished upload is offered again.
  \<^item> \<open>DependentObjects\<close>: \<^verbatim>\<open>ZMDependentObjects\<close> as a relation of waiting; no waiting object is lost.
  \<^item> \<open>Upstream\<close>, \<open>UpstreamInserted\<close>: \<^verbatim>\<open>ZMUpstreamTranscoder\<close>, \<^verbatim>\<open>ZMUpstreamModifiedObjectSync\<close> and
    \<^verbatim>\<open>ZMUpstreamInsertedObjectSync\<close>; uploads are never doubled, what every response does, a change that is lost.
  \<^item> \<open>Downstream\<close>: \<^verbatim>\<open>ZMDownstreamObjectSync\<close>, the one with a whitelist, and \<^verbatim>\<open>ZMChangeTrackerBootstrap\<close>; downloads
    are never doubled, only whitelisted objects are fetched, and the combined fetch equals separate ones for requests
    with a predicate; others are not executed.
  \<^item> \<open>Tracing\<close>: the inline functions of \<^verbatim>\<open>ZMTracing.h\<close> against the probes of \<^verbatim>\<open>ZMTracingProbes.d\<close>; every
    probe gets arguments of its declared types, the numbers of the scheduler after a conversion.
  \<^item> \<open>PushTokens\<close>, \<open>PushTokenTranscoder\<close>: \<^verbatim>\<open>ZMPushToken\<close>, its cached context properties, its hexadecimal form, and
    the registration and removal of tokens; the cache is never stale, an echoed registration stores the token as
    registered, and two ways in which a removal is undone.
  \<^item> \<open>UserSession\<close>, \<open>SessionFacade\<close>, \<open>SessionBackground\<close>: \<^verbatim>\<open>ZMUserSession\<close> and its categories, composed of the status
    objects and the token properties; what every run keeps, a registration that goes on after its failure, the
    limit of the address book, and the calls of a completion handler.
  \<^item> \<open>SessionNotifications\<close>: the notification classes of the session over a model of the notification centre; the
    observers of the connection limit are not reached.
  \<^item> \<open>FlowManager\<close>, \<open>VoiceChannel\<close>, \<open>FlowSync\<close>, \<open>CallHandling\<close>: calling. The interface of the calling library, the voice
    channel of a conversation with its video and timers, \<^verbatim>\<open>ZMFlowSync\<close>, \<^verbatim>\<open>ZMGSMCallHandler\<close> and \<^verbatim>\<open>ZMCallStateLogger\<close>;
    requests leave in order, participants do not repeat, interruptions end, and events, users and timers that
    are lost.
  \<^item> \<open>SyncStrategy\<close>, \<open>OperationLoop\<close>: \<^verbatim>\<open>ZMSyncStrategy\<close> as the directory of the state machine, and \<^verbatim>\<open>ZMOperationLoop\<close> over
    a transport session. Events reach a strategy once and in order across a sync; when offering requests
    ends, and when a push notification completes.
  \<^item> \<open>SearchRequests\<close>, \<open>Searches\<close>, \<open>SearchImages\<close>, \<open>SearchDirectory\<close>: \<^verbatim>\<open>ZMSearchRequest\<close>, \<^verbatim>\<open>ZMSearchResult\<close> and their codec, the
    address book matcher, \<^verbatim>\<open>ZMSearch\<close> with its two queues, the images of search users, and \<^verbatim>\<open>ZMSearchDirectory\<close>
    with suggestions and top conversations. The blocks that the directory and its suggestion searches send to contexts wait
    in the state and run as steps. A search returns exactly one result, dismissed people are not suggested again unless a
    suggestion was in flight, which is the race the model also shows, no profile is asked for twice, remote results hide ignored users, matching loses nobody.
  \<^item> \<open>Typing\<close>: \<^verbatim>\<open>ZMTyping\<close>, its time-outs and \<^verbatim>\<open>ZMTypingTranscoder\<close>; the user interface shows exactly the users with a
    time-out, and while somebody is typing there is a timer.
  \<^item> \<open>HotFix\<close>: \<^verbatim>\<open>ZMHotFix\<close>, \<^verbatim>\<open>ZMVersion\<close> and the patches of \<^verbatim>\<open>ZMHotFixDirectory\<close>; a new installation runs
    each patch once, wherever the numbers it compares lie in memory; over any updates this needs pointers that are ordered as the numbers.
  \<^item> \<open>IncompleteConversations\<close>: \<^verbatim>\<open>ZMIncompleteConversationsCache\<close>; whitelisted conversations are always among those to
    fetch, and an opened one is fetched first.
  \<^item> \<open>MessageExpiration\<close>: \<^verbatim>\<open>ZMMessageExpirationTimer\<close>; a waiting message expires or has a timer.
  \<^item> \<open>Invitations\<close>: \<^verbatim>\<open>ZMEncodedNSUUIDWithTimestamp\<close>, \<^verbatim>\<open>NSURL+LaunchOptions\<close> and \<^verbatim>\<open>ZMConnection+InvitationToConnect\<close>; a
    link is decoded to the user who made it, and stored invitations are all sent.
  \<^item> \<open>MissingEvents\<close>: \<^verbatim>\<open>ZMMissingUpdateEventsTranscoder\<close> as a client of the paginator and \<^verbatim>\<open>ZMLastUpdateEventIDTranscoder\<close>; missed
    events are handed over once and in order, and stored identifiers do not go back.
  \<^item> \<open>Blacklist\<close>: \<^verbatim>\<open>ZMBlacklistDownloader\<close> with its queue and timers, and \<^verbatim>\<open>ZMBlacklistVerificator\<close>; an active downloader always
    has a check to come, and the cached list that is never passed on.
  \<^item> \<open>ImagePreprocessing\<close>: \<^verbatim>\<open>ZMImagePreprocessingTracker\<close>; images are processed once at a time and none is forgotten.
  \<^item> \<open>Encodings\<close>, \<open>AddressBook\<close>: bytes, Base 64 and percent escapes; \<^verbatim>\<open>ZMAddressBook\<close>, its encoder, the two syncs and
    \<^verbatim>\<open>ZMAddressBookTranscoder\<close>. Enumeration in buffers gives every contact once, a changed book is uploaded, and an
    unchanged one is encoded again and again.

  The transport, the data model, the phone number validator and the keychain are parameters or
  recorded effects. No definition uses fuel. The log and trace statements inside the operations
  are left out of them. Datatypes with many constructors are declared with the code and size plugins only,
  which keeps the memory the development needs small.

  Not modelled: the media manager, the video capturer and the other headers of the calling library, which are
  interfaces of code that is not in the repository; the operations of \<^verbatim>\<open>ZMCallStateTranscoder\<close>; the transcoders of
  users, images, conversations, connections, messages and assets beyond what searches use of them, which mostly
  write to the data model of another repository; local notifications and the decoding of push payloads;
  \<^verbatim>\<open>ZMSearchUser\<close> itself, which the data model implements; the run loop in which the operation loop
  waits when it is torn down.
\<close>

end
